(* ===== verification/Prelude.thy ===== *)
theory Prelude imports Main "HOL-Library.List_Lexorder" "HOL-Library.Char_ord" "HOL-Library.Multiset" begin

text \<open>
  The prelude of the development: the exceptions of the program as a datatype, results as a
  sum of an exception and a value, the loop that stops at the first exception, stable sorting
  as Python's \<open>sorted\<close> does it, and the rendering and reading of decimal
  integers. Every component theory imports it.

  Python strings are modelled as lists of characters ordered by code point (the theories
  \<open>List_Lexorder\<close> and \<open>Char_ord\<close>), restricted to the code points below 256.
\<close>

named_theorems result_simps \<open>equations that evaluate results and their composition\<close>
named_theorems sorted_simps \<open>facts about sorted enumerations of tuples and sets\<close>

section \<open>Exceptions and results\<close>

text \<open>
  The exceptions the program raises and catches. \<open>Problem\<close> is
  \<open>apps.control_plane.errors.Problem\<close> (code, status); \<open>ConnectorFailure\<close> is its
  subclass in \<open>modules.connectors.stripe\<close> (code, permanent, retry_after; its status is
  always 503). \<open>ValidationError\<close> and \<open>Http404\<close> are Django's, \<open>OtherError\<close> any other exception,
  with the name of its class. The others are Python's own.
\<close>

datatype exn =
    ValueError string
  | KeyError string
  | TypeError string
  | DoesNotExist string
  | RuntimeError string
  | PermissionError string
  | InvalidMessage string
  | ProblemMaintenance string
  | Problem string nat
  | ConnectorFailure string bool int
  | ValidationError
  | Http404
  | OtherError string

type_synonym 'a result = "exn + 'a"

definition rbind :: "'a result \<Rightarrow> ('a \<Rightarrow> 'b result) \<Rightarrow> 'b result" where
  "rbind m f = (case m of Inl e \<Rightarrow> Inl e | Inr x \<Rightarrow> f x)"

definition guard :: "bool \<Rightarrow> exn \<Rightarrow> unit result" where
  "guard ok e = (if ok then Inr () else Inl e)"

lemma rbind_simps [simp, result_simps]:
  "rbind (Inl e) f = Inl e"
  "rbind (Inr x) f = f x"
  by (simp_all add: rbind_def)

lemma rbind_Inr_iff: "rbind m f = Inr y \<longleftrightarrow> (\<exists>x. m = Inr x \<and> f x = Inr y)"
  by (cases m) simp_all

lemma rbind_Inl_iff: "rbind m f = Inl e \<longleftrightarrow> m = Inl e \<or> (\<exists>x. m = Inr x \<and> f x = Inl e)"
  by (cases m) simp_all

lemma rbindE [elim!]:
  assumes "rbind m f = Inr y"
  obtains x where "m = Inr x" "f x = Inr y"
  using assms by (auto simp: rbind_Inr_iff)

lemma rbind_cong: "m = m' \<Longrightarrow> (\<And>x. m' = Inr x \<Longrightarrow> f x = g x) \<Longrightarrow> rbind m f = rbind m' g"
  by (cases m') simp_all

lemma guard_Inr [simp]: "guard ok e = Inr u \<longleftrightarrow> ok"
  by (simp add: guard_def)

lemma guard_Inl [simp]: "guard ok e = Inl e' \<longleftrightarrow> \<not> ok \<and> e' = e"
  by (auto simp: guard_def)

lemma guard_simps [simp, result_simps]: "guard True e = Inr ()" "guard False e = Inl e"
  by (simp_all add: guard_def)

text \<open>A loop whose body may raise: the loop stops at the first exception.\<close>

fun fold_res :: "('a \<Rightarrow> 's \<Rightarrow> 's result) \<Rightarrow> 'a list \<Rightarrow> 's \<Rightarrow> 's result" where
  "fold_res f [] s = Inr s"
| "fold_res f (x # xs) s = rbind (f x s) (fold_res f xs)"

text \<open>A comprehension whose element expression may raise.\<close>

fun map_res :: "('a \<Rightarrow> 'b result) \<Rightarrow> 'a list \<Rightarrow> 'b list result" where
  "map_res f [] = Inr []"
| "map_res f (x # xs) = rbind (f x) (\<lambda>y. rbind (map_res f xs) (\<lambda>ys. Inr (y # ys)))"

lemma fold_res_invariant:
  assumes "fold_res f xs s = Inr t" and "P s"
    and "\<And>x s t. x \<in> set xs \<Longrightarrow> P s \<Longrightarrow> f x s = Inr t \<Longrightarrow> P t"
  shows "P t"
  using assms by (induction xs arbitrary: s) auto

lemma fold_res_append: "fold_res f (xs @ ys) s = rbind (fold_res f xs s) (fold_res f ys)"
  by (induction xs arbitrary: s) (simp_all add: rbind_def split: sum.splits)

lemma fold_res_cong [fundef_cong]:
  "xs = ys \<Longrightarrow> s = t \<Longrightarrow> (\<And>x u. x \<in> set ys \<Longrightarrow> f x u = g x u) \<Longrightarrow> fold_res f xs s = fold_res g ys t"
  by (induction xs arbitrary: s t ys) (auto simp: rbind_def split: sum.splits)

lemma map_res_set: "map_res f xs = Inr ys \<Longrightarrow> y \<in> set ys \<Longrightarrow> \<exists>x \<in> set xs. f x = Inr y"
  by (induction xs arbitrary: ys) auto

lemma map_res_length: "map_res f xs = Inr ys \<Longrightarrow> length ys = length xs"
  by (induction xs arbitrary: ys) auto

section \<open>Digests\<close>

text \<open>
  SHA-256 is a parameter of the model: \<open>H text\<close> stands for
  \<open>hashlib.sha256(text.encode()).hexdigest()\<close>.
\<close>

type_synonym digest = "string \<Rightarrow> string"

section \<open>Sorted enumerations\<close>

text \<open>
  \<open>sorted(xs, key=f)\<close> is stable, as Isabelle's \<open>sort_key\<close> is. A \<open>set\<close> of strings is
  enumerated by \<open>sorted\<close> in the program wherever the order can be seen.
\<close>

lemma filter_key_singleton:
  assumes "distinct (map f xs)" and "k \<in> set xs"
  shows "filter (\<lambda>x. f k = f x) xs = [k]"
  using assms by (induction xs) (auto simp: filter_empty_conv image_iff)

lemma sort_key_unique:
  assumes d: "distinct (map f xs)" and m: "mset xs = mset ys"
  shows "sort_key f xs = sort_key f ys"
proof (rule properties_for_sort_key)
  show "mset (sort_key f ys) = mset xs" by (simp add: m)
  show "sorted (map f (sort_key f ys))" by simp
  fix k
  assume k: "k \<in> set (sort_key f ys)"
  moreover have "set xs = set ys" using m by (rule mset_eq_setD)
  ultimately have kx: "k \<in> set xs" by simp
  have "mset (map f (sort_key f ys)) = mset (map f xs)" by (simp add: m)
  then have "distinct (map f (sort_key f ys))" using d by (metis mset_eq_imp_distinct_iff)
  then show "filter (\<lambda>x. f k = f x) (sort_key f ys) = filter (\<lambda>x. f k = f x) xs"
    using filter_key_singleton[OF _ k] filter_key_singleton[OF d kx] by simp
qed

lemma map_sort_key_self: "map f (sort_key f xs) = sort (map f xs)"
  by (rule properties_for_sort[symmetric]) simp_all

end
