(* ===== verification/Py_Strings.thy ===== *)
theory Py_Strings imports Prelude begin

text \<open>
  The string operations of Python's \<open>str\<close> that the program uses: prefixes, partitioning and
  splitting at a character, joining, ASCII case, decimal rendering and reading of integers
  (\<open>str(n)\<close>, \<open>f"{n:0{w}d}"\<close>, \<open>int(s)\<close> on a string of digits), with the round trips between
  the last two.
\<close>

section \<open>Prefixes, splitting, joining\<close>

definition startswith :: "string \<Rightarrow> string \<Rightarrow> bool" where
  "startswith s p \<longleftrightarrow> take (length p) s = p"

definition endswith :: "string \<Rightarrow> string \<Rightarrow> bool" where
  "endswith s p \<longleftrightarrow> startswith (rev s) (rev p)"

text \<open>\<open>part in s\<close>.\<close>

fun has_part :: "string \<Rightarrow> string \<Rightarrow> bool" where
  "has_part part [] = (part = [])"
| "has_part part (c # s) = (startswith (c # s) part \<or> has_part part s)"

text \<open>\<open>s.partition(c)\<close> without the separator: what stands before the first \<open>c\<close>, whether there is one, what follows.\<close>

fun partition_at :: "char \<Rightarrow> string \<Rightarrow> string \<times> bool \<times> string" where
  "partition_at c [] = ([], False, [])"
| "partition_at c (x # xs) =
     (if x = c then ([], True, xs)
      else case partition_at c xs of (a, found, b) \<Rightarrow> (x # a, found, b))"

text \<open>\<open>s.split(c)\<close>: at least one part, the parts between the separators.\<close>

fun split_at :: "char \<Rightarrow> string \<Rightarrow> string list" where
  "split_at c [] = [[]]"
| "split_at c (x # xs) =
     (if x = c then [] # split_at c xs
      else case split_at c xs of [] \<Rightarrow> [[x]] | p # ps \<Rightarrow> (x # p) # ps)"

fun join :: "string \<Rightarrow> string list \<Rightarrow> string" where
  "join sep [] = []"
| "join sep [x] = x"
| "join sep (x # y # zs) = x @ sep @ join sep (y # zs)"

definition is_ascii_upper :: "char \<Rightarrow> bool" where
  "is_ascii_upper c \<longleftrightarrow> c \<in> set ''ABCDEFGHIJKLMNOPQRSTUVWXYZ''"

definition is_ascii_lower :: "char \<Rightarrow> bool" where
  "is_ascii_lower c \<longleftrightarrow> c \<in> set ''abcdefghijklmnopqrstuvwxyz''"

definition is_digit :: "char \<Rightarrow> bool" where
  "is_digit c \<longleftrightarrow> c \<in> set ''0123456789''"

definition is_word_char :: "char \<Rightarrow> bool" where
  "is_word_char c \<longleftrightarrow> is_ascii_upper c \<or> is_ascii_lower c \<or> is_digit c \<or> c = CHR ''_''"

text \<open>\<open>upper()\<close> and \<open>lower()\<close> on ASCII letters; other characters are kept.\<close>

definition upper_char :: "char \<Rightarrow> char" where
  "upper_char c =
     (case map_of (zip ''abcdefghijklmnopqrstuvwxyz'' ''ABCDEFGHIJKLMNOPQRSTUVWXYZ'') c of
        Some u \<Rightarrow> u | None \<Rightarrow> c)"

definition lower_char :: "char \<Rightarrow> char" where
  "lower_char c =
     (case map_of (zip ''ABCDEFGHIJKLMNOPQRSTUVWXYZ'' ''abcdefghijklmnopqrstuvwxyz'') c of
        Some l \<Rightarrow> l | None \<Rightarrow> c)"

definition upper :: "string \<Rightarrow> string" where "upper = map upper_char"

definition lower :: "string \<Rightarrow> string" where "lower = map lower_char"

text \<open>\<open>str.title()\<close>: letters after a letter in lower case, other letters in upper case.\<close>

fun title_from :: "bool \<Rightarrow> string \<Rightarrow> string" where
  "title_from after [] = []"
| "title_from after (c # s) =
     (if after then lower_char c else upper_char c) # title_from (is_ascii_upper c \<or> is_ascii_lower c) s"

definition title_case :: "string \<Rightarrow> string" where "title_case = title_from False"

text \<open>
  \<open>str.strip()\<close> and \<open>lstrip()\<close>: Python's white space among the code points below 256.
\<close>

definition is_space :: "char \<Rightarrow> bool" where
  "is_space c \<longleftrightarrow> (of_char c :: nat) \<in> set [9, 10, 11, 12, 13, 28, 29, 30, 31, 32, 133, 160]"

definition lstrip :: "string \<Rightarrow> string" where "lstrip s = dropWhile is_space s"

definition strip :: "string \<Rightarrow> string" where "strip s = rev (lstrip (rev (lstrip s)))"

lemma startswith_append [simp]: "startswith (p @ s) p"
  by (simp add: startswith_def)

lemma startswith_iff: "startswith s p \<longleftrightarrow> (\<exists>t. s = p @ t)"
  by (metis append_eq_conv_conj append_take_drop_id startswith_def)

lemma startswith_same_append [simp]: "startswith (p @ s) (p @ q) \<longleftrightarrow> startswith s q"
  by (simp add: startswith_def)

lemma partition_at_append:
  "c \<notin> set a \<Longrightarrow> partition_at c (a @ c # b) = (a, True, b)"
  by (induction a) auto

lemma partition_at_none: "c \<notin> set a \<Longrightarrow> partition_at c a = (a, False, [])"
  by (induction a) auto

lemma partition_at_eq:
  assumes "partition_at c s = (a, found, b)"
  shows "s = (if found then a @ c # b else a) \<and> c \<notin> set a \<and> (\<not> found \<longrightarrow> b = [])"
  using assms by (induction s arbitrary: a found b) (auto split: if_splits prod.splits)

lemma split_at_nonempty [simp]: "split_at c s \<noteq> []"
  by (cases s) (auto split: list.splits)

text \<open>Joining the parts of a split at the separator gives the string back.\<close>

lemma join_split_at: "join [c] (split_at c s) = s"
proof (induction s)
  case Nil
  show ?case by simp
next
  case (Cons x xs)
  obtain p ps where ps: "split_at c xs = p # ps" by (meson list.exhaust split_at_nonempty)
  from Cons show ?case by (cases ps) (auto simp: ps)
qed

section \<open>Decimal integers\<close>

definition digit_char :: "nat \<Rightarrow> char" where
  "digit_char d = ''0123456789'' ! d"

definition digit_value :: "char \<Rightarrow> nat" where
  "digit_value c = of_char c - 48"

fun show_nat :: "nat \<Rightarrow> string" where
  "show_nat n = (if n < 10 then [digit_char n] else show_nat (n div 10) @ [digit_char (n mod 10)])"

declare show_nat.simps [simp del]

definition show_int :: "int \<Rightarrow> string" where
  "show_int i = (if i < 0 then CHR ''-'' # show_nat (nat (- i)) else show_nat (nat i))"

definition read_nat :: "string \<Rightarrow> nat" where
  "read_nat s = foldl (\<lambda>a c. 10 * a + digit_value c) 0 s"

text \<open>\<open>f"{n:0{w}d}"\<close> for a nonnegative \<open>n\<close>: at least \<open>w\<close> digits, filled with zeros.\<close>

definition pad0 :: "nat \<Rightarrow> nat \<Rightarrow> string" where
  "pad0 w n = (let s = show_nat n in replicate (w - length s) (CHR ''0'') @ s)"

text \<open>\<open>s.ljust(w, "0")\<close>\<close>

definition ljust0 :: "nat \<Rightarrow> string \<Rightarrow> string" where
  "ljust0 w s = s @ replicate (w - length s) (CHR ''0'')"

lemma less_10_cases: "(d::nat) < 10 \<Longrightarrow> d \<in> {0, 1, 2, 3, 4, 5, 6, 7, 8, 9}"
  by auto

lemma digit_value_digit_char [simp]: "d < 10 \<Longrightarrow> digit_value (digit_char d) = d"
  by (drule less_10_cases) (auto simp: digit_value_def digit_char_def)

lemma is_digit_digit_char [simp]: "d < 10 \<Longrightarrow> is_digit (digit_char d)"
  by (drule less_10_cases) (auto simp: is_digit_def digit_char_def)

lemma digit_char_digit_value: "is_digit c \<Longrightarrow> digit_char (digit_value c) = c \<and> digit_value c < 10"
  by (auto simp: is_digit_def digit_char_def digit_value_def)

lemma digit_char_0_iff [simp]: "d < 10 \<Longrightarrow> digit_char d = CHR ''0'' \<longleftrightarrow> d = 0"
  by (drule less_10_cases) (auto simp: digit_char_def)

lemma digit_value_0 [simp]: "digit_value (CHR ''0'') = 0"
  by (simp add: digit_value_def)

lemma is_digit_0 [simp]: "is_digit (CHR ''0'')"
  by (simp add: is_digit_def)

lemma read_nat_snoc [simp]: "read_nat (s @ [c]) = 10 * read_nat s + digit_value c"
  by (simp add: read_nat_def)

lemma read_nat_Nil [simp]: "read_nat [] = 0"
  by (simp add: read_nat_def)

lemma read_nat_append: "read_nat (s @ t) = read_nat s * 10 ^ length t + read_nat t"
  by (induction t rule: rev_induct) (simp_all add: algebra_simps flip: append_assoc)

lemma read_nat_replicate_0 [simp]: "read_nat (replicate k (CHR ''0'')) = 0"
  by (induction k) (simp_all add: replicate_append_same [symmetric] del: replicate.simps(2)
      add: replicate_Suc)

lemma read_show_nat [simp]: "read_nat (show_nat n) = n"
  by (induction n rule: show_nat.induct) (subst show_nat.simps, auto simp: read_nat_def)

lemma show_nat_digits: "\<forall>c \<in> set (show_nat n). is_digit c"
  by (induction n rule: show_nat.induct) (subst show_nat.simps, auto)

lemma show_nat_nonempty [simp]: "show_nat n \<noteq> []"
  by (subst show_nat.simps) auto

lemma show_nat_inject [simp]: "show_nat m = show_nat n \<longleftrightarrow> m = n"
  by (metis read_show_nat)

lemma show_nat_hd: "0 < n \<Longrightarrow> hd (show_nat n) \<noteq> CHR ''0''"
  by (induction n rule: show_nat.induct) (subst show_nat.simps, auto simp: hd_append)

lemma show_nat_0: "show_nat 0 = ''0''"
  by (subst show_nat.simps) (simp add: digit_char_def)

lemma length_show_nat: "n < 10 ^ w \<Longrightarrow> 0 < w \<Longrightarrow> length (show_nat n) \<le> w"
proof (induction n arbitrary: w rule: show_nat.induct)
  case (1 n)
  show ?case
  proof (cases "n < 10")
    case True
    then show ?thesis using 1 by (subst show_nat.simps) simp
  next
    case False
    then obtain v where w: "w = Suc v" and v: "0 < v"
      using 1 by (metis Suc_pred bot_nat_0.not_eq_extremum power_one_right One_nat_def)
    have "n div 10 < 10 ^ v" using 1(2) w by (simp add: div_less_iff_less_mult mult.commute)
    from 1(1)[OF False this v] False w show ?thesis by (subst show_nat.simps) simp
  qed
qed

lemma length_pad0: "n < 10 ^ w \<Longrightarrow> 0 < w \<Longrightarrow> length (pad0 w n) = w"
  using length_show_nat by (simp add: pad0_def Let_def)

lemma read_pad0 [simp]: "read_nat (pad0 w n) = n"
  by (simp add: pad0_def Let_def read_nat_append)

lemma pad0_digits: "\<forall>c \<in> set (pad0 w n). is_digit c"
  using show_nat_digits by (auto simp: pad0_def Let_def)

lemma is_digit_not_special [simp]:
  "\<not> is_digit (CHR ''.'')" "\<not> is_digit (CHR ''-'')" "\<not> is_digit (CHR '':'')" "\<not> is_digit (CHR ''+'')"
  by (simp_all add: is_digit_def)

lemma show_int_inject [simp]: "show_int i = show_int j \<longleftrightarrow> i = j"
proof -
  have no_minus: "show_nat n \<noteq> CHR ''-'' # s" for n s
  proof
    assume "show_nat n = CHR ''-'' # s"
    then have "is_digit (CHR ''-'')" using show_nat_digits[of n] by simp
    then show False by simp
  qed
  then show ?thesis using no_minus[symmetric] by (auto simp: show_int_def)
qed

end
