(* ===== verification/Py_Json.thy ===== *)
theory Py_Json imports Py_Strings begin

text \<open>
  JSON values as Python's \<open>json\<close> module reads and writes them, and \<open>json.dumps\<close> with
  \<open>sort_keys=True, separators=(",", ":")\<close> and the default \<open>ensure_ascii\<close>, which the program
  calls \<open>canonical\<close>. A float carries its \<open>repr\<close>. The last section shows that the encoding of
  strings can be read back: two texts that start with encoded strings are equal only if the
  strings and the rests are equal.
\<close>

datatype json =
    JNull
  | JBool bool
  | JInt int
  | JFloat string
  | JStr string
  | JList "json list"
  | JObj "(string \<times> json) list"

section \<open>Reading\<close>

definition dict_get :: "(string \<times> json) list \<Rightarrow> string \<Rightarrow> json option" where
  "dict_get kvs k = map_of kvs k"

text \<open>\<open>value[k]\<close> on a dict: a missing key raises \<open>KeyError\<close>.\<close>

definition dict_at :: "(string \<times> json) list \<Rightarrow> string \<Rightarrow> json result" where
  "dict_at kvs k = (case dict_get kvs k of None \<Rightarrow> Inl (KeyError k) | Some v \<Rightarrow> Inr v)"

text \<open>\<open>value.get(k, d)\<close>\<close>

definition dict_get_or :: "(string \<times> json) list \<Rightarrow> string \<Rightarrow> json \<Rightarrow> json" where
  "dict_get_or kvs k d = (case dict_get kvs k of None \<Rightarrow> d | Some v \<Rightarrow> v)"

text \<open>Truth of a value, as \<open>bool(v)\<close> decides it.\<close>

fun truthy :: "json \<Rightarrow> bool" where
  "truthy JNull = False"
| "truthy (JBool b) = b"
| "truthy (JInt i) = (i \<noteq> 0)"
| "truthy (JFloat r) = (r \<notin> {''0.0'', ''-0.0''})"
| "truthy (JStr s) = (s \<noteq> [])"
| "truthy (JList xs) = (xs \<noteq> [])"
| "truthy (JObj kvs) = (kvs \<noteq> [])"

text \<open>\<open>v == b\<close> for a bool \<open>b\<close>: Python compares bools, ints and floats as numbers.\<close>

fun equals_bool :: "json \<Rightarrow> bool \<Rightarrow> bool" where
  "equals_bool (JBool c) b = (c = b)"
| "equals_bool (JInt i) b = (i = (if b then 1 else 0))"
| "equals_bool (JFloat r) b = (if b then r = ''1.0'' else r \<in> {''0.0'', ''-0.0''})"
| "equals_bool _ b = False"

section \<open>Writing\<close>

definition hex_char :: "nat \<Rightarrow> char" where
  "hex_char d = ''0123456789abcdef'' ! d"

definition esc_char :: "char \<Rightarrow> string" where
  "esc_char c =
     (let n = (of_char c :: nat) in
      if n = 34 then [CHR 0x5C, CHR 0x22]
      else if n = 92 then [CHR 0x5C, CHR 0x5C]
      else if n = 10 then [CHR 0x5C, CHR ''n'']
      else if n = 13 then [CHR 0x5C, CHR ''r'']
      else if n = 9 then [CHR 0x5C, CHR ''t'']
      else if n = 12 then [CHR 0x5C, CHR ''f'']
      else if n = 8 then [CHR 0x5C, CHR ''b'']
      else if 32 \<le> n \<and> n \<le> 126 then [c]
      else [CHR 0x5C, CHR ''u'', CHR ''0'', CHR ''0'', hex_char (n div 16), hex_char (n mod 16)])"

definition quote :: "string \<Rightarrow> string" where
  "quote s = CHR 0x22 # concat (map esc_char s) @ [CHR 0x22]"

text \<open>Members are sorted by key; the sort is applied to the encoded members.\<close>

fun dumps :: "json \<Rightarrow> string" where
  "dumps JNull = ''null''"
| "dumps (JBool b) = (if b then ''true'' else ''false'')"
| "dumps (JInt i) = show_int i"
| "dumps (JFloat r) = r"
| "dumps (JStr s) = quote s"
| "dumps (JList xs) = CHR ''['' # join '','' (map dumps xs) @ '']''"
| "dumps (JObj kvs) =
     CHR ''{'' # join '','' (map (\<lambda>(k, t). quote k @ '':'' @ t)
       (sort_key fst (map (\<lambda>(k, v). (k, dumps v)) kvs))) @ ''}''"

text \<open>\<open>json.dumps\<close> without \<open>sort_keys\<close>: the members in the order of insertion.\<close>

fun dumps_raw :: "json \<Rightarrow> string" where
  "dumps_raw JNull = ''null''"
| "dumps_raw (JBool b) = (if b then ''true'' else ''false'')"
| "dumps_raw (JInt i) = show_int i"
| "dumps_raw (JFloat r) = r"
| "dumps_raw (JStr s) = quote s"
| "dumps_raw (JList xs) = CHR ''['' # join '','' (map dumps_raw xs) @ '']''"
| "dumps_raw (JObj kvs) =
     CHR ''{'' # join '','' (map (\<lambda>(k, v). quote k @ '':'' @ dumps_raw v) kvs) @ ''}''"

section \<open>Encoded strings can be read back\<close>

lemma hex_char_inject:
  assumes "a < 16" "b < 16" shows "hex_char a = hex_char b \<longleftrightarrow> a = b"
proof -
  have "distinct ''0123456789abcdef''" by simp
  then show ?thesis using assms by (simp add: hex_char_def nth_eq_iff_index_eq)
qed

lemma of_char_div_less [simp]: "(of_char c :: nat) div 16 < 16"
  using nat_of_char_less_256[of c] by linarith

lemma of_char_eqI: "(of_char c :: nat) = of_char d \<Longrightarrow> c = d"
  by simp

lemma esc_char_cases:
  obtains (plain) "esc_char c = [c]" "c \<noteq> CHR 0x22" "c \<noteq> CHR 0x5C"
  | (short) k where "esc_char c = [CHR 0x5C, k]" "k \<noteq> CHR ''u''"
      "(of_char c :: nat) = (if k = CHR ''n'' then 10 else if k = CHR ''r'' then 13
        else if k = CHR ''t'' then 9 else if k = CHR ''f'' then 12 else if k = CHR ''b'' then 8
        else of_char k)"
  | (long) "esc_char c = [CHR 0x5C, CHR ''u'', CHR ''0'', CHR ''0'',
      hex_char (of_char c div 16), hex_char (of_char c mod 16)]"
proof -
  consider "(of_char c :: nat) \<in> {34, 92, 10, 13, 9, 12, 8}"
    | "(of_char c :: nat) \<notin> {34, 92, 10, 13, 9, 12, 8}" "32 \<le> (of_char c :: nat)" "(of_char c :: nat) \<le> 126"
    | "(of_char c :: nat) \<notin> {34, 92, 10, 13, 9, 12, 8}" "\<not> (32 \<le> (of_char c :: nat) \<and> (of_char c :: nat) \<le> 126)"
    by blast
  then show ?thesis
  proof cases
    case 1
    then show ?thesis by (auto simp: esc_char_def intro: short)
  next
    case 2
    then have "c \<noteq> CHR 0x22" "c \<noteq> CHR 0x5C" by auto
    with 2 show ?thesis by (auto simp: esc_char_def intro: plain)
  next
    case 3
    then show ?thesis by (auto simp: esc_char_def Let_def intro: long)
  qed
qed

lemma esc_char_prefix_free:
  "esc_char c @ r = esc_char d @ r' \<Longrightarrow> c = d \<and> r = r'"
proof -
  assume eq: "esc_char c @ r = esc_char d @ r'"
  show ?thesis
  proof (cases c rule: esc_char_cases)
    case plain
    with eq show ?thesis by (cases d rule: esc_char_cases) auto
  next
    case (short k)
    with eq show ?thesis by (cases d rule: esc_char_cases) (auto intro: of_char_eqI)
  next
    case long
    with eq show ?thesis
    proof (cases d rule: esc_char_cases)
      case 3: long
      from eq long 3 have "(of_char c :: nat) div 16 = of_char d div 16"
        "(of_char c :: nat) mod 16 = of_char d mod 16" and r: "r = r'"
        by (simp_all add: hex_char_inject)
      then have "(of_char c :: nat) = of_char d" by (metis div_mult_mod_eq)
      with r show ?thesis by simp
    qed auto
  qed
qed

lemma esc_char_not_quote: "esc_char c @ r \<noteq> CHR 0x22 # r'"
  by (cases c rule: esc_char_cases) auto

lemma quote_prefix_free:
  "quote s @ r = quote t @ r' \<Longrightarrow> s = t \<and> r = r'"
proof (induction s arbitrary: t)
  case Nil
  then show ?case using esc_char_not_quote[symmetric] by (cases t) (auto simp: quote_def)
next
  case (Cons c s)
  show ?case
  proof (cases t)
    case Nil
    then show ?thesis using Cons.prems esc_char_not_quote by (auto simp: quote_def)
  next
    case t: (Cons d t')
    with Cons.prems have "esc_char c @ (concat (map esc_char s) @ CHR 0x22 # r)
        = esc_char d @ (concat (map esc_char t') @ CHR 0x22 # r')"
      by (simp add: quote_def)
    then have "c = d" and "concat (map esc_char s) @ CHR 0x22 # r
        = concat (map esc_char t') @ CHR 0x22 # r'"
      using esc_char_prefix_free by blast+
    with Cons.IH[of t'] t show ?thesis by (simp add: quote_def)
  qed
qed

lemma quote_inject [simp]: "quote s = quote t \<longleftrightarrow> s = t"
  using quote_prefix_free[of s "[]" t "[]"] by auto

text \<open>Lists of strings: the encoded list determines the list and what follows it.\<close>

lemma join_quote_prefix_free:
  "join '','' (map quote xs) @ CHR '']'' # r = join '','' (map quote ys) @ CHR '']'' # r' \<Longrightarrow>
   xs = ys \<and> r = r'"
proof (induction xs arbitrary: ys)
  case Nil
  then show ?case by (cases ys rule: remdups_adj.cases) (auto simp: quote_def)
next
  case (Cons x xs)
  then obtain y ys' where ys: "ys = y # ys'" by (cases ys; cases xs) (auto simp: quote_def)
  define tl' where "tl' zs = (if zs = [] then [] else '','' @ join '','' (map quote zs))" for zs
  have unfold_join: "join '','' (map quote (z # zs)) = quote z @ tl' zs" for z zs
    by (cases zs) (simp_all add: tl'_def)
  have "quote x @ (tl' xs @ CHR '']'' # r) = quote y @ (tl' ys' @ CHR '']'' # r')"
    using Cons.prems by (simp add: ys unfold_join del: list.map)
  then have "x = y" and "tl' xs @ CHR '']'' # r = tl' ys' @ CHR '']'' # r'"
    using quote_prefix_free by blast+
  then show ?case using Cons.IH[of ys'] ys by (auto simp: tl'_def split: if_splits)
qed

end
