(* ===== verification/Money.thy ===== *)
theory Money imports Py_Json begin

text \<open>
  \<open>packages/reconciliation_core/money.py\<close>: transaction-currency amounts in minor units, the
  currency table, and the two readers of amounts, \<open>parse_woo\<close> for WooCommerce's decimal
  strings and \<open>parse_stripe\<close> for Stripe's integers. The lemmas give the validity invariant
  of a \<open>money\<close> value, the exact value \<open>parse_woo\<close> reads, and the round trip through
  \<open>decimal\<close>.
\<close>

section \<open>The currency table\<close>

definition TWO_codes :: "string list" where
  "TWO_codes = [
    ''AED'', ''AFN'', ''ALL'', ''AMD'', ''ANG'', ''AOA'', ''ARS'', ''AUD'', ''AWG'', ''AZN'',
    ''BAM'', ''BBD'', ''BDT'', ''BGN'', ''BMD'', ''BND'', ''BOB'', ''BRL'', ''BSD'', ''BWP'',
    ''BYN'', ''BZD'', ''CAD'', ''CDF'', ''CHF'', ''CNY'', ''COP'', ''CRC'', ''CVE'', ''CZK'',
    ''DKK'', ''DOP'', ''DZD'', ''EGP'', ''ETB'', ''EUR'', ''FJD'', ''FKP'', ''GBP'', ''GEL'',
    ''GIP'', ''GMD'', ''GTQ'', ''GYD'', ''HKD'', ''HNL'', ''HTG'', ''HUF'', ''IDR'', ''ILS'',
    ''INR'', ''JMD'', ''KES'', ''KGS'', ''KHR'', ''KYD'', ''KZT'', ''LAK'', ''LBP'', ''LKR'',
    ''LRD'', ''LSL'', ''MAD'', ''MDL'', ''MGA'', ''MKD'', ''MMK'', ''MNT'', ''MOP'', ''MUR'',
    ''MVR'', ''MWK'', ''MXN'', ''MYR'', ''MZN'', ''NAD'', ''NGN'', ''NIO'', ''NOK'', ''NPR'',
    ''NZD'', ''PAB'', ''PEN'', ''PGK'', ''PHP'', ''PKR'', ''PLN'', ''QAR'', ''RON'', ''RSD'',
    ''RUB'', ''SAR'', ''SBD'', ''SCR'', ''SEK'', ''SGD'', ''SHP'', ''SLE'', ''SOS'', ''SRD'',
    ''STN'', ''SZL'', ''THB'', ''TJS'', ''TOP'', ''TRY'', ''TTD'', ''TWD'', ''TZS'', ''UAH'',
    ''USD'', ''UYU'', ''UZS'', ''WST'', ''XCD'', ''YER'', ''ZAR'', ''ZMW'']"

definition ZERO_codes :: "string list" where
  "ZERO_codes = [
    ''BIF'', ''CLP'', ''DJF'', ''GNF'', ''JPY'', ''KMF'', ''KRW'', ''PYG'', ''RWF'', ''VND'',
    ''VUV'', ''XAF'', ''XOF'', ''XPF'', ''ISK'', ''UGX'']"

definition THREE_codes :: "string list" where
  "THREE_codes = [
    ''BHD'', ''JOD'', ''KWD'', ''OMR'', ''TND'']"

text \<open>\<open>EXPONENTS\<close>: the dictionary built from the three lists; a later list wins.\<close>

definition EXPONENTS :: "string \<Rightarrow> int option" where
  "EXPONENTS c =
     (if c \<in> set THREE_codes then Some 3
      else if c \<in> set ZERO_codes then Some 0
      else if c \<in> set TWO_codes then Some 2
      else None)"

definition MAX_MINOR :: int where "MAX_MINOR = 2 ^ 63 - 1"

definition CURRENCY_TABLE_VERSION :: string where
  "CURRENCY_TABLE_VERSION = ''stripe-presentment-2026-09-05''"

lemma EXPONENTS_values: "EXPONENTS c = Some e \<Longrightarrow> e \<in> {0, 2, 3}"
  by (auto simp: EXPONENTS_def split: if_splits)

lemma EXPONENTS_EUR [simp]: "EXPONENTS ''EUR'' = Some 2" by code_simp
lemma EXPONENTS_JPY [simp]: "EXPONENTS ''JPY'' = Some 0" by code_simp
lemma EXPONENTS_KWD [simp]: "EXPONENTS ''KWD'' = Some 3" by code_simp
lemma EXPONENTS_ISK [simp]: "EXPONENTS ''ISK'' = Some 0" by code_simp

section \<open>Amounts\<close>

record money =
  minor :: int
  currency :: string
  exponent :: int

text \<open>\<open>Money.__post_init__\<close> raises on an invalid amount, so a constructed value is valid.\<close>

definition valid_money :: "money \<Rightarrow> bool" where
  "valid_money m \<longleftrightarrow> 0 \<le> minor m \<and> minor m \<le> MAX_MINOR \<and> EXPONENTS (currency m) = Some (exponent m)"

definition mk_money :: "int \<Rightarrow> string \<Rightarrow> int \<Rightarrow> money result" where
  "mk_money n c e =
     (if \<not> (0 \<le> n \<and> n \<le> MAX_MINOR) then Inl (ValueError ''Amount must be a nonnegative int64'')
      else if EXPONENTS c \<noteq> Some e then Inl (ValueError ''Unsupported currency or exponent'')
      else Inr \<lparr>minor = n, currency = c, exponent = e\<rparr>)"

definition decimal :: "money \<Rightarrow> string" where
  "decimal m =
     (if exponent m = 0 then show_int (minor m)
      else let unit = 10 ^ nat (exponent m) in
        show_int (minor m div unit) @ ''.'' @ pad0 (nat (exponent m)) (nat (minor m mod unit)))"

definition money_json :: "money \<Rightarrow> json" where
  "money_json m = JObj [(''minor'', JInt (minor m)), (''currency'', JStr (currency m)),
     (''exponent'', JInt (exponent m))]"

section \<open>Reading amounts\<close>

text \<open>The regular expression \<open>(?:0|[1-9][0-9]*)(?:\.[0-9]+)?\<close>, matched against the whole string.\<close>

definition whole_part :: "string \<Rightarrow> bool" where
  "whole_part w \<longleftrightarrow> w = ''0'' \<or> w \<noteq> [] \<and> hd w \<noteq> CHR ''0'' \<and> list_all is_digit w"

definition unsigned_decimal :: "string \<Rightarrow> bool" where
  "unsigned_decimal v =
     (case partition_at (CHR ''.'') v of (w, dot, f) \<Rightarrow>
        whole_part w \<and> (dot \<longrightarrow> f \<noteq> [] \<and> list_all is_digit f))"

definition parse_woo :: "json \<Rightarrow> string \<Rightarrow> money result" where
  "parse_woo v c =
     (case v of
        JStr s \<Rightarrow>
          if 24 < length s \<or> \<not> unsigned_decimal s
          then Inl (ValueError ''Expected an unsigned decimal string'')
          else (case EXPONENTS c of
              None \<Rightarrow> Inl (ValueError ''Unsupported currency'')
            | Some e \<Rightarrow>
                (case partition_at (CHR ''.'') s of (whole, dot, fraction) \<Rightarrow>
                   if int (length fraction) > e then Inl (ValueError ''Excess currency precision'')
                   else mk_money
                     (int (read_nat whole) * 10 ^ nat e + int (read_nat (ljust0 (nat e) fraction))) c e))
      | _ \<Rightarrow> Inl (ValueError ''Expected an unsigned decimal string''))"

definition parse_stripe :: "json \<Rightarrow> string \<Rightarrow> money result" where
  "parse_stripe v c0 =
     (let c = upper c0 in
      case v of
        JInt n \<Rightarrow>
          (let make = (\<lambda>k. mk_money k c (case EXPONENTS c of None \<Rightarrow> - 1 | Some e \<Rightarrow> e)) in
           if c = ''ISK'' \<or> c = ''UGX'' then
             if n mod 100 \<noteq> 0 then Inl (ValueError ''Invalid legacy Stripe currency representation'')
             else make (n div 100)
           else make n)
      | _ \<Rightarrow> Inl (ValueError ''Stripe amount must be an integer''))"

section \<open>Validity\<close>

lemma mk_money_Inr:
  "mk_money n c e = Inr m \<longleftrightarrow>
     0 \<le> n \<and> n \<le> MAX_MINOR \<and> EXPONENTS c = Some e \<and> m = \<lparr>minor = n, currency = c, exponent = e\<rparr>"
  by (auto simp: mk_money_def)

lemma mk_money_valid: "mk_money n c e = Inr m \<Longrightarrow> valid_money m"
  by (auto simp: mk_money_Inr valid_money_def)

lemma mk_money_roundtrip: "valid_money m \<Longrightarrow> mk_money (minor m) (currency m) (exponent m) = Inr m"
  by (simp add: valid_money_def mk_money_Inr)

lemma valid_money_exponent: "valid_money m \<Longrightarrow> exponent m \<in> {0, 2, 3}"
  using EXPONENTS_values by (auto simp: valid_money_def)

lemma parse_woo_valid: "parse_woo v c = Inr m \<Longrightarrow> valid_money m \<and> currency m = c"
  by (auto simp: parse_woo_def mk_money_Inr valid_money_def
      split: json.splits if_splits option.splits prod.splits)

lemma parse_stripe_valid: "parse_stripe v c = Inr m \<Longrightarrow> valid_money m \<and> currency m = upper c"
  by (auto simp: parse_stripe_def mk_money_Inr valid_money_def Let_def
      split: json.splits if_splits option.splits)

section \<open>Decimal strings\<close>

lemma whole_part_show_nat [simp]: "whole_part (show_nat n)"
  using show_nat_hd[of n] show_nat_digits[of n]
  by (cases "n = 0") (auto simp: whole_part_def show_nat_0 list_all_iff)

lemma digits_no_dot: "\<forall>c \<in> set s. is_digit c \<Longrightarrow> CHR ''.'' \<notin> set s"
  using is_digit_not_special(1) by blast

lemma MAX_MINOR_bound: "MAX_MINOR < 10 ^ 19"
  by (simp add: MAX_MINOR_def)

lemma decimal_parts:
  assumes v: "valid_money m" and e: "exponent m \<noteq> 0"
  defines "u \<equiv> 10 ^ nat (exponent m) :: int"
  shows "partition_at (CHR ''.'') (decimal m) =
      (show_nat (nat (minor m div u)), True, pad0 (nat (exponent m)) (nat (minor m mod u)))"
    and "length (pad0 (nat (exponent m)) (nat (minor m mod u))) = nat (exponent m)"
    and "length (show_nat (nat (minor m div u))) \<le> 19"
proof -
  have pos: "0 \<le> minor m" and max: "minor m \<le> MAX_MINOR" using v by (auto simp: valid_money_def)
  have u: "0 < u" by (simp add: u_def)
  have "0 \<le> minor m div u" using pos u by (simp add: pos_imp_zdiv_nonneg_iff)
  then have si: "show_int (minor m div u) = show_nat (nat (minor m div u))"
    by (simp add: show_int_def)
  then have dec: "decimal m = show_nat (nat (minor m div u)) @
      CHR ''.'' # pad0 (nat (exponent m)) (nat (minor m mod u))"
    using e si by (simp add: decimal_def u_def Let_def)
  show "partition_at (CHR ''.'') (decimal m) =
      (show_nat (nat (minor m div u)), True, pad0 (nat (exponent m)) (nat (minor m mod u)))"
    unfolding dec by (rule partition_at_append) (rule digits_no_dot[OF show_nat_digits])
  have "nat (minor m mod u) < nat u"
    using u by simp
  then have "nat (minor m mod u) < 10 ^ nat (exponent m)"
    by (simp add: u_def nat_power_eq)
  moreover have "0 < nat (exponent m)" using e valid_money_exponent[OF v] by auto
  ultimately show "length (pad0 (nat (exponent m)) (nat (minor m mod u))) = nat (exponent m)"
    by (rule length_pad0)
  have "minor m div u \<le> minor m" using zdiv_mono2[OF pos, of 1 u] u by simp
  then have "nat (minor m div u) < 10 ^ 19"
    using max MAX_MINOR_bound by (simp add: nat_less_iff)
  then show "length (show_nat (nat (minor m div u))) \<le> 19" by (rule length_show_nat) simp
qed

lemma unsigned_decimal_decimal:
  assumes v: "valid_money m" shows "unsigned_decimal (decimal m) \<and> length (decimal m) \<le> 24"
proof (cases "exponent m = 0")
  case True
  have bound: "nat (minor m) < 10 ^ 19"
    using v MAX_MINOR_bound by (simp add: valid_money_def nat_less_iff)
  have "decimal m = show_nat (nat (minor m))"
    using v True by (simp add: decimal_def show_int_def valid_money_def)
  then show ?thesis using length_show_nat[OF bound]
    by (simp add: unsigned_decimal_def partition_at_none digits_no_dot[OF show_nat_digits])
next
  case False
  note parts = decimal_parts[OF v False]
  have "exponent m \<le> 3" "0 \<le> exponent m" using valid_money_exponent[OF v] by auto
  then have e3: "nat (exponent m) \<le> 3" "0 < nat (exponent m)" using False by auto
  have "length (decimal m) \<le> 24"
    using partition_at_eq[OF parts(1)] parts(2,3) e3(1) by simp
  moreover have "pad0 (nat (exponent m)) (nat (minor m mod 10 ^ nat (exponent m))) \<noteq> []"
    using parts(2) e3(2) by auto
  ultimately show ?thesis
    using parts(1) pad0_digits by (simp add: unsigned_decimal_def list_all_iff)
qed

text \<open>
  C1: Rendering a valid amount with \<open>decimal\<close> and reading it back with \<open>parse_woo\<close> gives the
  same amount, for every currency of the table and every int64 amount; in particular the
  24-character limit of the reader never rejects a rendered amount.
\<close>

theorem parse_woo_decimal:
  assumes v: "valid_money m"
  shows "parse_woo (JStr (decimal m)) (currency m) = Inr m"
proof (cases "exponent m = 0")
  case True
  have d: "decimal m = show_nat (nat (minor m))"
    using v True by (simp add: decimal_def show_int_def valid_money_def)
  show ?thesis using v True unsigned_decimal_decimal[OF v]
    by (simp add: parse_woo_def d partition_at_none digits_no_dot[OF show_nat_digits] ljust0_def
        valid_money_def mk_money_Inr)
next
  case False
  note parts = decimal_parts[OF v False]
  have pos: "0 < exponent m" using valid_money_exponent[OF v] False by auto
  have "minor m div 10 ^ nat (exponent m) * 10 ^ nat (exponent m)
      + minor m mod 10 ^ nat (exponent m) = minor m" by (rule div_mult_mod_eq)
  moreover have "0 \<le> minor m div 10 ^ nat (exponent m)"
    using v by (simp add: valid_money_def pos_imp_zdiv_nonneg_iff)
  ultimately show ?thesis using v unsigned_decimal_decimal[OF v] parts pos
    by (simp add: parse_woo_def ljust0_def valid_money_def mk_money_Inr)
qed

theorem parse_woo_decimal_witness:
  "parse_woo (JStr ''129.95'') ''EUR'' = Inr \<lparr>minor = 12995, currency = ''EUR'', exponent = 2\<rparr>"
proof -
  define m where "m = \<lparr>minor = 12995, currency = ''EUR'', exponent = 2\<rparr>"
  have "valid_money m" by (simp add: m_def valid_money_def MAX_MINOR_def)
  moreover have "decimal m = ''129.95''" unfolding m_def by code_simp
  ultimately show ?thesis using parse_woo_decimal[of m] by (simp add: m_def)
qed

text \<open>
  C2: \<open>parse_woo\<close> is exact: an accepted string \<open>whole.fraction\<close> in a currency of exponent e
  is read as the amount whose minor units are \<open>(whole + fraction / 10^k) * 10^e\<close>, with k the
  number of fraction digits (at most e), so nothing is rounded, and the amount is valid.
\<close>

theorem parse_woo_exact:
  assumes ok: "parse_woo (JStr s) c = Inr m"
    and parts: "partition_at (CHR ''.'') s = (whole, dot, fraction)"
  shows "valid_money m \<and> currency m = c \<and> length fraction \<le> nat (exponent m) \<and>
    minor m * 10 ^ length fraction
      = (int (read_nat whole) * 10 ^ length fraction + int (read_nat fraction)) * 10 ^ nat (exponent m)"
proof -
  obtain e where e: "EXPONENTS c = Some e" and len: "int (length fraction) \<le> e"
    and m: "mk_money (int (read_nat whole) * 10 ^ nat e + int (read_nat (ljust0 (nat e) fraction))) c e
      = Inr m"
    using ok parts by (auto simp: parse_woo_def split: if_splits option.splits)
  have fields: "exponent m = e" "currency m = c"
    "minor m = int (read_nat whole) * 10 ^ nat e + int (read_nat (ljust0 (nat e) fraction))"
    using m by (auto simp: mk_money_Inr)
  define k where "k = nat e - length fraction"
  have k: "nat e = length fraction + k" using len by (simp add: k_def)
  have "read_nat (ljust0 (nat e) fraction) = read_nat fraction * 10 ^ k"
    by (simp add: ljust0_def read_nat_append k_def)
  then show ?thesis using mk_money_valid[OF m] fields len k
    by (simp add: algebra_simps power_add)
qed

theorem parse_woo_exact_witness:
  "parse_woo (JStr ''12.5'') ''EUR'' = Inr \<lparr>minor = 1250, currency = ''EUR'', exponent = 2\<rparr> \<and>
   (1250::int) * 10 ^ 1 = (12 * 10 ^ 1 + 5) * 10 ^ 2"
proof -
  have a: "parse_woo (JStr ''12.5'') ''EUR'' = Inr \<lparr>minor = 1250, currency = ''EUR'', exponent = 2\<rparr>"
    by code_simp
  have b: "partition_at (CHR ''.'') ''12.5'' = (''12'', True, ''5'')" by simp
  have r: "read_nat ''12'' = 12" "read_nat ''5'' = 5" by code_simp+
  show ?thesis using parse_woo_exact[OF a b] a by (simp add: r)
qed

text \<open>
  What \<open>parse_stripe\<close> accepts: an int in range, in a currency of the table; the two currencies
  Stripe still reports with two decimals are divided by 100 exactly.
\<close>

lemma parse_stripe_Inr:
  "parse_stripe v c = Inr m \<longleftrightarrow>
     (\<exists>n. v = JInt n \<and> valid_money m \<and> currency m = upper c \<and>
       (if upper c \<in> {''ISK'', ''UGX''} then n = 100 * minor m else n = minor m))"
proof -
  have m_eq: "m = \<lparr>minor = k, currency = d, exponent = e\<rparr> \<longleftrightarrow> minor m = k \<and> currency m = d \<and> exponent m = e"
    for k d e by (cases m) auto
  show ?thesis
    by (cases v) (auto simp: parse_stripe_def Let_def mk_money_Inr valid_money_def m_eq
        split: option.splits)
qed

end
