(* ===== verification/Py_Time.thy ===== *)
theory Py_Time imports Py_Strings begin

text \<open>
  Dates and durations. An aware \<open>datetime\<close> is the number of microseconds since
  1970-01-01T00:00:00 UTC, a \<open>timedelta\<close> a number of microseconds, both unbounded
  (\<open>datetime.min\<close> and \<open>datetime.max\<close> are not modelled). Every datetime of the program is in
  UTC (its readers call \<open>astimezone(UTC)\<close>, the ORM returns UTC), so \<open>isoformat\<close> ends
  with \<open>+00:00\<close>. A value that may lack its time zone is a \<open>pytime\<close>.
\<close>

type_synonym datetime = int
type_synonym timedelta = int

datatype pytime = Naive datetime | Aware datetime

definition seconds :: "int \<Rightarrow> timedelta" where "seconds n = n * 1000000"
definition minutes :: "int \<Rightarrow> timedelta" where "minutes n = seconds (60 * n)"
definition hours :: "int \<Rightarrow> timedelta" where "hours n = minutes (60 * n)"
definition days :: "int \<Rightarrow> timedelta" where "days n = hours (24 * n)"

text \<open>\<open>int(d.timestamp())\<close> for a time since 1970: whole seconds.\<close>

definition unix_seconds :: "datetime \<Rightarrow> int" where "unix_seconds d = d div 1000000"

text \<open>The proleptic Gregorian date of a day number (day 0 is 1970-01-01), and its inverse.\<close>

definition civil_from_days :: "int \<Rightarrow> int \<times> int \<times> int" where
  "civil_from_days z0 =
     (let z = z0 + 719468; era = z div 146097; doe = z mod 146097;
          yoe = (doe - doe div 1460 + doe div 36524 - doe div 146096) div 365;
          doy = doe - (365 * yoe + yoe div 4 - yoe div 100);
          mp = (5 * doy + 2) div 153;
          d = doy - (153 * mp + 2) div 5 + 1;
          m = (if mp < 10 then mp + 3 else mp - 9)
      in (yoe + era * 400 + (if m \<le> 2 then 1 else 0), m, d))"

definition days_from_civil :: "int \<Rightarrow> int \<Rightarrow> int \<Rightarrow> int" where
  "days_from_civil y0 m d =
     (let y = (if m \<le> 2 then y0 - 1 else y0); era = y div 400; yoe = y mod 400;
          doy = (153 * (if m > 2 then m - 3 else m + 9) + 2) div 5 + d - 1;
          doe = yoe * 365 + yoe div 4 - yoe div 100 + doy
      in era * 146097 + doe - 719468)"

definition isoformat :: "datetime \<Rightarrow> string" where
  "isoformat t =
     (let us = t mod 1000000; s = t div 1000000; day = s div 86400; sod = s mod 86400
      in case civil_from_days day of (y, m, d) \<Rightarrow>
           pad0 4 (nat y) @ ''-'' @ pad0 2 (nat m) @ ''-'' @ pad0 2 (nat d) @ ''T'' @
           pad0 2 (nat (sod div 3600)) @ '':'' @ pad0 2 (nat (sod div 60 mod 60)) @ '':'' @
           pad0 2 (nat (sod mod 60)) @
           (if us = 0 then [] else ''.'' @ pad0 6 (nat us)) @ ''+00:00'')"

text \<open>\<open>str(timedelta)\<close>\<close>

definition show_timedelta :: "timedelta \<Rightarrow> string" where
  "show_timedelta t =
     (let us = t mod 1000000; s = t div 1000000; day = s div 86400; sod = s mod 86400
      in (if day = 0 then []
          else show_int day @ (if \<bar>day\<bar> = 1 then '' day, '' else '' days, '')) @
         show_nat (nat (sod div 3600)) @ '':'' @ pad0 2 (nat (sod div 60 mod 60)) @ '':'' @
         pad0 2 (nat (sod mod 60)) @ (if us = 0 then [] else ''.'' @ pad0 6 (nat us)))"

lemma unit_positive [simp]:
  "0 < seconds n \<longleftrightarrow> 0 < n" "0 < minutes n \<longleftrightarrow> 0 < n" "0 < hours n \<longleftrightarrow> 0 < n" "0 < days n \<longleftrightarrow> 0 < n"
  by (simp_all add: seconds_def minutes_def hours_def days_def)

lemma unit_le [simp]:
  "seconds a \<le> seconds b \<longleftrightarrow> a \<le> b" "minutes a \<le> minutes b \<longleftrightarrow> a \<le> b" "days a \<le> days b \<longleftrightarrow> a \<le> b"
  by (simp_all add: seconds_def minutes_def hours_def days_def)

lemmas time_defs = seconds_def minutes_def hours_def days_def

lemma isoformat_epoch: "isoformat 0 = ''1970-01-01T00:00:00+00:00''"
  by code_simp

lemma isoformat_example: "isoformat 1788609600000000 = ''2026-09-05T12:00:00+00:00''"
  by code_simp

end
