(* ===== verification/Domain.thy ===== *)
theory Domain imports Money Py_Time begin

text \<open>
  \<open>packages/reconciliation_core/domain.py\<close>: the immutable inputs and outputs of the
  reconciliation engine. A dataclass is a record; the checks of its \<open>__post_init__\<close> are a
  constructor function \<open>mk_...\<close> that returns the record or the exception. The records of
  source facts are parametric in the type of their times: the constructors take times that may
  lack a zone (\<open>pytime\<close>) and return records whose times are instants (\<open>datetime\<close>).
  \<open>..._json\<close> is \<open>dataclasses.asdict\<close> followed by the \<open>default\<close> function of \<open>canonical\<close>.
\<close>

section \<open>Constants and shared checks\<close>

definition RULE_VERSION :: string where "RULE_VERSION = ''1.0.0''"
definition MATCH_VERSION :: string where "MATCH_VERSION = ''1.0.0''"

definition RULE_CODES :: "string list" where
  "RULE_CODES = map (\<lambda>n. ''PI-'' @ pad0 3 n) [1..<11]"

definition MODES :: "string list" where "MODES = [''test'', ''live'']"

definition instant :: "pytime \<Rightarrow> datetime result" where
  "instant v = (case v of Aware d \<Rightarrow> Inr d
     | Naive d \<Rightarrow> Inl (ValueError ''Source timestamps must include a timezone''))"

definition instant_opt :: "pytime option \<Rightarrow> datetime option result" where
  "instant_opt v = (case v of None \<Rightarrow> Inr None | Some t \<Rightarrow> rbind (instant t) (\<lambda>d. Inr (Some d)))"

definition compatible :: "money \<Rightarrow> money \<Rightarrow> unit result" where
  "compatible l r = guard (currency l = currency r \<and> exponent l = exponent r)
     (ValueError ''Amounts on one source object must use the same currency'')"

definition opt_json :: "('a \<Rightarrow> json) \<Rightarrow> 'a option \<Rightarrow> json" where
  "opt_json f v = (case v of None \<Rightarrow> JNull | Some x \<Rightarrow> f x)"

definition time_json :: "datetime \<Rightarrow> json" where "time_json d = JStr (isoformat d)"

definition strs_json :: "string list \<Rightarrow> json" where "strs_json xs = JList (map JStr xs)"

section \<open>Payments\<close>

record 't payment_of =
  pay_id :: string
  pay_account :: string
  pay_mode :: string
  pay_status :: string
  pay_amount :: money
  pay_received :: money
  pay_created :: 't
  pay_changed :: 't
  pay_succeeded :: "'t option"
  pay_method :: string
  pay_capture_method :: string
  pay_charge_ids :: "string list"
  pay_session_ids :: "string list"
  pay_store_hint :: string
  pay_order_hint :: string
  pay_observation :: string

type_synonym payment = "datetime payment_of"

definition PAYMENT_STATUSES :: "string list" where
  "PAYMENT_STATUSES = [''requires_payment_method'', ''requires_confirmation'', ''requires_action'',
     ''processing'', ''requires_capture'', ''canceled'', ''succeeded'']"

definition mk_payment :: "pytime payment_of \<Rightarrow> payment result" where
  "mk_payment a =
     rbind (instant (pay_created a)) (\<lambda>created.
     rbind (instant (pay_changed a)) (\<lambda>changed.
     rbind (instant_opt (pay_succeeded a)) (\<lambda>succeeded.
     rbind (compatible (pay_amount a) (pay_received a)) (\<lambda>_.
     rbind (guard (pay_mode a \<in> set MODES \<and> pay_status a \<in> set PAYMENT_STATUSES)
       (ValueError ''Unsupported payment mode or status'')) (\<lambda>_.
     rbind (guard (startswith (pay_id a) ''pi_'' \<and> startswith (pay_account a) ''acct_'')
       (ValueError ''PaymentIntent and account identities are required'')) (\<lambda>_.
     Inr \<lparr>pay_id = pay_id a, pay_account = pay_account a, pay_mode = pay_mode a,
       pay_status = pay_status a, pay_amount = pay_amount a, pay_received = pay_received a,
       pay_created = created, pay_changed = changed, pay_succeeded = succeeded,
       pay_method = pay_method a, pay_capture_method = pay_capture_method a,
       pay_charge_ids = pay_charge_ids a, pay_session_ids = pay_session_ids a,
       pay_store_hint = pay_store_hint a, pay_order_hint = pay_order_hint a,
       pay_observation = pay_observation a\<rparr>))))))"

definition payment_json :: "payment \<Rightarrow> json" where
  "payment_json p = JObj [
     (''id'', JStr (pay_id p)), (''account_id'', JStr (pay_account p)), (''mode'', JStr (pay_mode p)),
     (''status'', JStr (pay_status p)), (''amount'', money_json (pay_amount p)),
     (''received'', money_json (pay_received p)), (''created_at'', time_json (pay_created p)),
     (''changed_at'', time_json (pay_changed p)),
     (''succeeded_at'', opt_json time_json (pay_succeeded p)), (''method'', JStr (pay_method p)),
     (''capture_method'', JStr (pay_capture_method p)),
     (''charge_ids'', strs_json (pay_charge_ids p)), (''session_ids'', strs_json (pay_session_ids p)),
     (''store_hint'', JStr (pay_store_hint p)), (''order_hint'', JStr (pay_order_hint p)),
     (''observation_id'', JStr (pay_observation p))]"

section \<open>Orders\<close>

record 't order_of =
  ord_id :: string
  ord_store :: string
  ord_mode :: string
  ord_status :: string
  ord_amount :: money
  ord_refunded :: money
  ord_created :: 't
  ord_changed :: 't
  ord_paid :: "'t option"
  ord_method :: string
  ord_transaction :: string
  ord_intent :: string
  ord_charge :: string
  ord_session :: string
  ord_observation :: string

type_synonym order = "datetime order_of"

definition ORDER_STATUSES :: "string list" where
  "ORDER_STATUSES = [''pending'', ''processing'', ''on-hold'', ''completed'', ''cancelled'',
     ''refunded'', ''failed'', ''checkout-draft'', ''trash'']"

definition mk_order :: "pytime order_of \<Rightarrow> order result" where
  "mk_order a =
     rbind (instant (ord_created a)) (\<lambda>created.
     rbind (instant (ord_changed a)) (\<lambda>changed.
     rbind (instant_opt (ord_paid a)) (\<lambda>paid.
     rbind (compatible (ord_amount a) (ord_refunded a)) (\<lambda>_.
     rbind (guard (ord_mode a \<in> set MODES \<and> ord_status a \<in> set ORDER_STATUSES)
       (ValueError ''Unsupported order mode or status'')) (\<lambda>_.
     rbind (guard (ord_id a \<noteq> [] \<and> list_all is_digit (ord_id a) \<and> \<not> startswith (ord_id a) ''0'')
       (ValueError ''Numeric Woo order identity required'')) (\<lambda>_.
     Inr \<lparr>ord_id = ord_id a, ord_store = ord_store a, ord_mode = ord_mode a,
       ord_status = ord_status a, ord_amount = ord_amount a, ord_refunded = ord_refunded a,
       ord_created = created, ord_changed = changed, ord_paid = paid, ord_method = ord_method a,
       ord_transaction = ord_transaction a, ord_intent = ord_intent a, ord_charge = ord_charge a,
       ord_session = ord_session a, ord_observation = ord_observation a\<rparr>))))))"

definition order_json :: "order \<Rightarrow> json" where
  "order_json d = JObj [
     (''id'', JStr (ord_id d)), (''store_id'', JStr (ord_store d)), (''mode'', JStr (ord_mode d)),
     (''status'', JStr (ord_status d)), (''amount'', money_json (ord_amount d)),
     (''refunded'', money_json (ord_refunded d)), (''created_at'', time_json (ord_created d)),
     (''changed_at'', time_json (ord_changed d)), (''paid_at'', opt_json time_json (ord_paid d)),
     (''payment_method'', JStr (ord_method d)), (''transaction_id'', JStr (ord_transaction d)),
     (''payment_intent_id'', JStr (ord_intent d)), (''charge_id'', JStr (ord_charge d)),
     (''session_id'', JStr (ord_session d)), (''observation_id'', JStr (ord_observation d))]"

section \<open>Refunds\<close>

record 't refund_of =
  ref_id :: string
  ref_source :: string
  ref_parent :: string
  ref_amount :: money
  ref_status :: string
  ref_changed :: 't
  ref_observation :: string

type_synonym refund = "datetime refund_of"

definition refund_statuses :: "string \<Rightarrow> string list" where
  "refund_statuses source =
     (if source = ''stripe'' then [''pending'', ''requires_action'', ''succeeded'', ''failed'', ''canceled'']
      else [''recorded''])"

definition mk_refund :: "pytime refund_of \<Rightarrow> refund result" where
  "mk_refund a =
     rbind (instant (ref_changed a)) (\<lambda>changed.
     rbind (guard (ref_source a \<in> {''stripe'', ''woo''} \<and> ref_status a \<in> set (refund_statuses (ref_source a)))
       (ValueError ''Unsupported refund source or status'')) (\<lambda>_.
     Inr \<lparr>ref_id = ref_id a, ref_source = ref_source a, ref_parent = ref_parent a,
       ref_amount = ref_amount a, ref_status = ref_status a, ref_changed = changed,
       ref_observation = ref_observation a\<rparr>))"

definition refund_json :: "refund \<Rightarrow> json" where
  "refund_json r = JObj [
     (''id'', JStr (ref_id r)), (''source'', JStr (ref_source r)), (''parent_id'', JStr (ref_parent r)),
     (''amount'', money_json (ref_amount r)), (''status'', JStr (ref_status r)),
     (''changed_at'', time_json (ref_changed r)), (''observation_id'', JStr (ref_observation r))]"

section \<open>Coverage\<close>

record 't coverage_of =
  cov_source :: string
  cov_from :: 't
  cov_through :: 't
  cov_observed :: 't
  cov_complete :: bool
  cov_offset :: int

type_synonym coverage = "datetime coverage_of"

definition mk_coverage :: "pytime coverage_of \<Rightarrow> coverage result" where
  "mk_coverage a =
     rbind (instant (cov_from a)) (\<lambda>f. rbind (instant (cov_through a)) (\<lambda>t.
     rbind (instant (cov_observed a)) (\<lambda>ob.
     Inr \<lparr>cov_source = cov_source a, cov_from = f, cov_through = t, cov_observed = ob,
       cov_complete = cov_complete a, cov_offset = cov_offset a\<rparr>)))"

definition fresh :: "coverage \<Rightarrow> datetime \<Rightarrow> datetime \<Rightarrow> timedelta \<Rightarrow> bool" where
  "fresh c now start limit \<longleftrightarrow>
     cov_complete c \<and>
     cov_from c \<le> start \<and> start \<le> cov_through c \<and> cov_through c \<le> now \<and>
     0 \<le> now - cov_through c \<and> now - cov_through c \<le> limit \<and>
     0 \<le> now - cov_observed c \<and> now - cov_observed c \<le> limit \<and>
     \<bar>cov_offset c\<bar> \<le> 300"

definition coverage_json :: "coverage \<Rightarrow> json" where
  "coverage_json c = JObj [
     (''source'', JStr (cov_source c)), (''covered_from'', time_json (cov_from c)),
     (''covered_through'', time_json (cov_through c)), (''observed_at'', time_json (cov_observed c)),
     (''complete'', JBool (cov_complete c)), (''clock_offset_seconds'', JInt (cov_offset c))]"

section \<open>Policy\<close>

record policy =
  pol_version :: int
  pol_instant :: timedelta
  pol_async :: timedelta
  pol_refund :: timedelta
  pol_freshness :: timedelta
  pol_disabled :: "string list"
  pol_shadow :: bool

definition default_policy :: policy where
  "default_policy = \<lparr>pol_version = 1, pol_instant = minutes 10, pol_async = minutes 30,
     pol_refund = minutes 60, pol_freshness = minutes 15, pol_disabled = [], pol_shadow = False\<rparr>"

definition in_minutes :: "timedelta \<Rightarrow> int \<Rightarrow> int \<Rightarrow> bool" where
  "in_minutes v low high \<longleftrightarrow> minutes low \<le> v \<and> v \<le> minutes high"

definition mk_policy :: "policy \<Rightarrow> policy result" where
  "mk_policy a =
     rbind (guard (in_minutes (pol_instant a) 5 60 \<and> in_minutes (pol_async a) 10 120 \<and>
         in_minutes (pol_refund a) 30 120 \<and> in_minutes (pol_freshness a) 5 30)
       (ValueError ''Policy exceeds supported bounds'')) (\<lambda>_.
     rbind (guard (set (pol_disabled a) \<subseteq> set RULE_CODES) (ValueError ''Unknown rule'')) (\<lambda>_.
     Inr a))"

definition policy_json :: "policy \<Rightarrow> json" where
  "policy_json p = JObj [
     (''version'', JInt (pol_version p)), (''instant_grace'', JStr (show_timedelta (pol_instant p))),
     (''async_grace'', JStr (show_timedelta (pol_async p))),
     (''refund_grace'', JStr (show_timedelta (pol_refund p))),
     (''freshness'', JStr (show_timedelta (pol_freshness p))),
     (''disabled_rules'', strs_json (pol_disabled p)), (''shadow'', JBool (pol_shadow p))]"

section \<open>Snapshots, proposals, evaluations\<close>

record snapshot =
  snap_org :: string
  snap_store :: string
  snap_account :: string
  snap_mode :: string
  snap_now :: pytime
  snap_from :: pytime
  snap_payments :: "payment list"
  snap_orders :: "order list"
  snap_refunds :: "refund list"
  snap_coverage :: "coverage list"
  snap_link_verified :: bool
  snap_link_conflict :: bool
  snap_ambiguous :: "string list"
  snap_policy :: policy

record proposal =
  prop_key :: string
  prop_rule :: string
  prop_severity :: string
  prop_identities :: "string list"
  prop_risk :: "money option"
  prop_confidence :: int
  prop_eligible :: datetime
  prop_ready :: bool
  prop_evidence :: string
  prop_rule_version :: string

record evaluation =
  ev_proposals :: "proposal list"
  ev_rules :: "string list"
  ev_blocked :: "string list"
  ev_warnings :: "string list"
  ev_digest :: string

text \<open>The instant of a time; only used on times that were checked to be aware.\<close>

fun stamp :: "pytime \<Rightarrow> datetime" where
  "stamp (Aware d) = d"
| "stamp (Naive d) = d"

fun is_aware :: "pytime \<Rightarrow> bool" where
  "is_aware (Aware d) = True"
| "is_aware (Naive d) = False"

section \<open>What the constructors guarantee\<close>

definition valid_payment :: "payment \<Rightarrow> bool" where
  "valid_payment p \<longleftrightarrow> pay_mode p \<in> set MODES \<and> pay_status p \<in> set PAYMENT_STATUSES \<and>
     startswith (pay_id p) ''pi_'' \<and> startswith (pay_account p) ''acct_'' \<and>
     currency (pay_amount p) = currency (pay_received p) \<and>
     exponent (pay_amount p) = exponent (pay_received p)"

definition valid_order :: "order \<Rightarrow> bool" where
  "valid_order d \<longleftrightarrow> ord_mode d \<in> set MODES \<and> ord_status d \<in> set ORDER_STATUSES \<and>
     ord_id d \<noteq> [] \<and> list_all is_digit (ord_id d) \<and> \<not> startswith (ord_id d) ''0'' \<and>
     currency (ord_amount d) = currency (ord_refunded d) \<and>
     exponent (ord_amount d) = exponent (ord_refunded d)"

definition valid_policy :: "policy \<Rightarrow> bool" where
  "valid_policy p \<longleftrightarrow> in_minutes (pol_instant p) 5 60 \<and> in_minutes (pol_async p) 10 120 \<and>
     in_minutes (pol_refund p) 30 120 \<and> in_minutes (pol_freshness p) 5 30 \<and>
     set (pol_disabled p) \<subseteq> set RULE_CODES"

lemma mk_payment_valid: "mk_payment a = Inr p \<Longrightarrow> valid_payment p"
  by (auto simp: mk_payment_def valid_payment_def compatible_def)

lemma mk_order_valid: "mk_order a = Inr d \<Longrightarrow> valid_order d"
  by (auto simp: mk_order_def valid_order_def compatible_def)

lemma mk_policy_valid: "mk_policy a = Inr p \<longleftrightarrow> valid_policy p \<and> p = a"
  by (auto simp: mk_policy_def valid_policy_def)

lemma default_policy_valid: "mk_policy default_policy = Inr default_policy"
  by (simp add: mk_policy_valid valid_policy_def default_policy_def in_minutes_def)

lemma naive_payment_rejected:
  "pay_created a = Naive t \<or> pay_changed a = Naive t \<or> pay_succeeded a = Some (Naive t) \<Longrightarrow>
   mk_payment a = Inl (ValueError ''Source timestamps must include a timezone'')"
  by (auto simp: mk_payment_def instant_def instant_opt_def rbind_def split: pytime.splits option.splits)

lemma RULE_CODES_eq: "RULE_CODES = [''PI-001'', ''PI-002'', ''PI-003'', ''PI-004'', ''PI-005'',
    ''PI-006'', ''PI-007'', ''PI-008'', ''PI-009'', ''PI-010'']"
  by code_simp

lemma fresh_stale_after: "fresh c now start limit \<Longrightarrow> now - cov_through c \<le> limit \<and> cov_complete c"
  by (simp add: fresh_def)

end
