(* ===== verification/Engine.thy ===== *)
theory Engine imports Domain "HOL-Library.AList" begin

text \<open>
  \<open>packages/reconciliation_core/engine.py\<close>: the deterministic matching of payments to orders
  and the rules PI-001 to PI-010. The function \<open>evaluate\<close> of the source keeps local
  collections that its loops extend; they are the fields of the record \<open>walk\<close> here, and each
  loop body is a function on it. SHA-256 is a parameter: \<open>digest\<close> stands for
  \<open>hashlib.sha256(text.encode()).hexdigest()\<close>.
\<close>

definition PAID :: "string list" where "PAID = [''processing'', ''completed'']"
definition UNPAID :: "string list" where
  "UNPAID = [''pending'', ''failed'', ''cancelled'', ''on-hold'']"
definition INSTANT :: "string list" where
  "INSTANT = [''card'', ''card_present'', ''link'', ''cashapp'', ''paypal'']"

definition canonical :: "json \<Rightarrow> string" where "canonical = dumps"

definition grace :: "payment \<Rightarrow> snapshot \<Rightarrow> timedelta" where
  "grace p s = (if pay_method p \<in> set INSTANT then pol_instant (snap_policy s)
     else pol_async (snap_policy s))"

definition now_of :: "snapshot \<Rightarrow> datetime" where "now_of s = stamp (snap_now s)"
definition from_of :: "snapshot \<Rightarrow> datetime" where "from_of s = stamp (snap_from s)"

section \<open>The checks on the snapshot and its digest\<close>

definition validate_snapshot :: "snapshot \<Rightarrow> unit result" where
  "validate_snapshot s =
     rbind (guard (is_aware (snap_now s) \<and> is_aware (snap_from s) \<and> from_of s \<le> now_of s)
       (ValueError ''An explicit UTC evaluation window is required'')) (\<lambda>_.
     rbind (guard (distinct (map pay_id (snap_payments s)) \<and> distinct (map ord_id (snap_orders s)))
       (ValueError ''Duplicate source identities in snapshot'')) (\<lambda>_.
     rbind (guard (list_all (\<lambda>p. pay_account p = snap_account s \<and> pay_mode p = snap_mode s) (snap_payments s))
       (ValueError ''Payment namespace mismatch'')) (\<lambda>_.
     rbind (guard (list_all (\<lambda>d. ord_store d = snap_store s \<and> ord_mode d = snap_mode s) (snap_orders s))
       (ValueError ''Order namespace mismatch'')) (\<lambda>_.
     rbind (guard (snap_mode s \<in> set MODES) (ValueError ''Unsupported mode'')) (\<lambda>_.
     rbind (guard (distinct (map cov_source (snap_coverage s)))
       (ValueError ''Duplicate coverage source'')) (\<lambda>_.
     guard (distinct (map (\<lambda>r. (ref_source r, ref_id r)) (snap_refunds s)))
       (ValueError ''Duplicate refund identity'')))))))"

definition sorted_json :: "('a \<Rightarrow> json) \<Rightarrow> 'a list \<Rightarrow> json" where
  "sorted_json f xs = JList (sort_key canonical (map f xs))"

definition ordered_input :: "snapshot \<Rightarrow> json" where
  "ordered_input s = JObj [
     (''organization_id'', JStr (snap_org s)), (''store_id'', JStr (snap_store s)),
     (''account_id'', JStr (snap_account s)), (''mode'', JStr (snap_mode s)),
     (''now'', time_json (now_of s)), (''window_from'', time_json (from_of s)),
     (''payments'', sorted_json payment_json (snap_payments s)),
     (''orders'', sorted_json order_json (snap_orders s)),
     (''refunds'', sorted_json refund_json (snap_refunds s)),
     (''coverage'', sorted_json coverage_json (snap_coverage s)),
     (''link_verified'', JBool (snap_link_verified s)), (''link_conflict'', JBool (snap_link_conflict s)),
     (''ambiguous_order_hints'', strs_json (snap_ambiguous s)),
     (''policy'', policy_json (snap_policy s))]"

definition input_digest :: "digest \<Rightarrow> snapshot \<Rightarrow> string" where
  "input_digest H s = H (canonical (ordered_input s))"

definition enabled_rules :: "snapshot \<Rightarrow> string list" where
  "enabled_rules s = filter (\<lambda>r. r \<notin> set (pol_disabled (snap_policy s))) RULE_CODES"

section \<open>Proposals\<close>

record walk =
  w_proposals :: "proposal list"
  w_blocked :: "string set"
  w_warnings :: "string set"
  w_matched :: "string \<rightharpoonup> payment list"
  w_confidence :: "string \<rightharpoonup> int"
  w_claimed :: "(string \<times> string list) list"

definition initial_walk :: walk where
  "initial_walk = \<lparr>w_proposals = [], w_blocked = {}, w_warnings = {}, w_matched = Map.empty,
     w_confidence = Map.empty, w_claimed = []\<rparr>"

definition severity_of :: "string \<Rightarrow> string" where
  "severity_of rule =
     (if rule \<in> {''PI-006'', ''PI-007'', ''PI-008'', ''PI-009''} then ''high'' else ''critical'')"

definition proposal_key :: "digest \<Rightarrow> snapshot \<Rightarrow> string \<Rightarrow> string list \<Rightarrow> string" where
  "proposal_key H s rule ids = H (canonical (JList [JStr (snap_org s), JStr (snap_store s),
     JStr (snap_mode s), JStr rule, strs_json ids]))"

definition evidence_json :: "snapshot \<Rightarrow> (string \<times> json) list \<Rightarrow> json" where
  "evidence_json s facts = JObj ([
     (''schema_version'', JStr ''1.0''), (''rule_version'', JStr ''1.0.0''),
     (''match_version'', JStr ''1.0.0''), (''policy_version'', JInt (pol_version (snap_policy s))),
     (''coverage'', JList (map coverage_json (sort_key cov_source (snap_coverage s))))] @ facts)"

definition mk_proposal :: "digest \<Rightarrow> snapshot \<Rightarrow> string \<Rightarrow> string list \<Rightarrow> money option \<Rightarrow> int \<Rightarrow>
    datetime \<Rightarrow> (string \<times> json) list \<Rightarrow> proposal" where
  "mk_proposal H s rule ids risk conf eligible facts =
     (let identities = sort (remdups ids) in
      \<lparr>prop_key = proposal_key H s rule identities, prop_rule = rule,
        prop_severity = severity_of rule, prop_identities = identities, prop_risk = risk,
        prop_confidence = conf, prop_eligible = eligible, prop_ready = (eligible \<le> now_of s),
        prop_evidence = canonical (evidence_json s facts), prop_rule_version = RULE_VERSION\<rparr>)"

definition emit :: "digest \<Rightarrow> snapshot \<Rightarrow> string \<Rightarrow> string list \<Rightarrow> money option \<Rightarrow> int \<Rightarrow>
    datetime \<Rightarrow> (string \<times> json) list \<Rightarrow> walk \<Rightarrow> walk" where
  "emit H s rule ids risk conf eligible facts w =
     (if rule \<notin> set (enabled_rules s) then w
      else w\<lparr>w_proposals := w_proposals w @ [mk_proposal H s rule ids risk conf eligible facts]\<rparr>)"

definition block :: "string list \<Rightarrow> walk \<Rightarrow> walk" where
  "block ids w = w\<lparr>w_blocked := w_blocked w \<union> set ids\<rparr>"

definition warn :: "string \<Rightarrow> walk \<Rightarrow> walk" where
  "warn m w = w\<lparr>w_warnings := insert m (w_warnings w)\<rparr>"

section \<open>Coverage\<close>

definition REQUIRED :: "string list" where
  "REQUIRED = [''stripe_payments'', ''stripe_refunds'', ''woo_orders'', ''woo_refunds'']"

definition coverage_by_source :: "snapshot \<Rightarrow> string \<rightharpoonup> coverage" where
  "coverage_by_source s = map_of (map (\<lambda>c. (cov_source c, c)) (snap_coverage s))"

definition stale_sources :: "snapshot \<Rightarrow> string list" where
  "stale_sources s = sort (filter (\<lambda>k.
     case coverage_by_source s k of None \<Rightarrow> True
     | Some c \<Rightarrow> \<not> fresh c (now_of s) (from_of s) (pol_freshness (snap_policy s))) REQUIRED)"

definition through_of :: "snapshot \<Rightarrow> datetime" where
  "through_of s = min_list (List.map_filter (\<lambda>k. map_option cov_through (coverage_by_source s k)) REQUIRED)"

section \<open>Matching payments to orders\<close>

definition find_payment :: "snapshot \<Rightarrow> string \<rightharpoonup> payment" where
  "find_payment s = map_of (map (\<lambda>p. (pay_id p, p)) (snap_payments s))"

definition payment_aliases :: "payment \<Rightarrow> string list" where
  "payment_aliases p = pay_id p # pay_charge_ids p @ pay_session_ids p"

definition add_alias :: "string \<Rightarrow> (string \<rightharpoonup> string set) \<Rightarrow> string \<Rightarrow> (string \<rightharpoonup> string set)" where
  "add_alias pid m al = m(al \<mapsto> insert pid (case m al of None \<Rightarrow> {} | Some t \<Rightarrow> t))"

definition build_aliases :: "payment list \<Rightarrow> (string \<rightharpoonup> string set)" where
  "build_aliases ps = foldl (\<lambda>m p. foldl (add_alias (pay_id p)) m (payment_aliases p)) Map.empty ps"

definition targets_of :: "snapshot \<Rightarrow> string \<Rightarrow> string set" where
  "targets_of s ref = (case build_aliases (snap_payments s) ref of None \<Rightarrow> {} | Some t \<Rightarrow> t)"

definition hinted :: "snapshot \<Rightarrow> payment \<Rightarrow> bool" where
  "hinted s p \<longleftrightarrow> pay_order_hint p \<noteq> [] \<and> pay_store_hint p \<in> {[], snap_store s}"

definition add_hint :: "snapshot \<Rightarrow> (string \<rightharpoonup> payment list) \<Rightarrow> payment \<Rightarrow> (string \<rightharpoonup> payment list)" where
  "add_hint s m p =
     (if hinted s p
      then m(pay_order_hint p \<mapsto> (case m (pay_order_hint p) of None \<Rightarrow> [] | Some l \<Rightarrow> l) @ [p])
      else m)"

definition hints_of :: "snapshot \<Rightarrow> string \<Rightarrow> payment list" where
  "hints_of s oid = (case foldl (add_hint s) Map.empty (snap_payments s) oid of None \<Rightarrow> [] | Some l \<Rightarrow> l)"

definition stripe_method :: "order \<Rightarrow> bool" where
  "stripe_method d \<longleftrightarrow> ord_method d = ''stripe'' \<or> startswith (ord_method d) ''stripe_''"

definition order_refs :: "order \<Rightarrow> string list" where
  "order_refs d = sort (remdups (filter (\<lambda>r. r \<noteq> [])
     [ord_transaction d, ord_intent d, ord_charge d, ord_session d]))"

definition resolved_of :: "snapshot \<Rightarrow> order \<Rightarrow> string set" where
  "resolved_of s d = (\<Union>ref \<in> set (order_refs d). targets_of s ref)"

definition unknown_refs :: "snapshot \<Rightarrow> order \<Rightarrow> string list" where
  "unknown_refs s d = filter (\<lambda>ref. targets_of s ref = {}) (order_refs d)"

definition foreign_hint :: "snapshot \<Rightarrow> order \<Rightarrow> payment \<Rightarrow> bool" where
  "foreign_hint s d p \<longleftrightarrow> pay_store_hint p \<notin> {[], snap_store s} \<or> pay_order_hint p \<notin> {[], ord_id d}"

definition match_conflict :: "snapshot \<Rightarrow> order \<Rightarrow> bool" where
  "match_conflict s d \<longleftrightarrow>
     1 < card (resolved_of s d) \<or> unknown_refs s d \<noteq> [] \<or>
     (ord_id d \<in> set (snap_ambiguous s) \<and> hints_of s (ord_id d) \<noteq> []) \<or>
     (\<exists>pid \<in> resolved_of s d. case find_payment s pid of None \<Rightarrow> False | Some p \<Rightarrow> foreign_hint s d p)"

definition order_key :: "string \<Rightarrow> string" where "order_key oid = ''order:'' @ oid"
definition payment_key :: "string \<Rightarrow> string" where "payment_key pid = ''payment:'' @ pid"

definition candidate_map :: "snapshot \<Rightarrow> order \<Rightarrow> (string \<times> payment) list" where
  "candidate_map s d =
     foldl (\<lambda>m p. AList.update (pay_id p) p m)
       (List.map_filter (\<lambda>pid. map_option (Pair pid) (find_payment s pid))
         (sorted_list_of_set (resolved_of s d)))
       (hints_of s (ord_id d))"

definition match_confidence :: "snapshot \<Rightarrow> order \<Rightarrow> int" where
  "match_confidence s d =
     (if order_refs d \<noteq> [] then (if \<exists>r \<in> set (order_refs d). startswith r ''pi_'' then 100 else 95)
      else if candidate_map s d \<noteq> [] then
        (if \<forall>p \<in> snd ` set (candidate_map s d). pay_store_hint p = snap_store s then 90 else 80)
      else 0)"

fun append_at :: "'k \<Rightarrow> 'v \<Rightarrow> ('k \<times> 'v list) list \<Rightarrow> ('k \<times> 'v list) list" where
  "append_at k v [] = [(k, [v])]"
| "append_at k v ((k', vs) # rest) =
     (if k = k' then (k', vs @ [v]) # rest else (k', vs) # append_at k v rest)"

definition match_order :: "digest \<Rightarrow> snapshot \<Rightarrow> order \<Rightarrow> walk \<Rightarrow> walk" where
  "match_order H s d w =
     (if \<not> stripe_method d then w
      else if match_conflict s d then
        (let ids = order_key (ord_id d) # map payment_key (sorted_list_of_set (resolved_of s d)) in
         emit H s ''PI-010'' ids (Some (ord_amount d)) 100 (now_of s)
           [(''reason'', JStr ''conflicting_or_unresolved_exact_identifiers''),
            (''order'', order_json d), (''references'', strs_json (order_refs d)),
            (''unresolved'', strs_json (unknown_refs s d))] (block ids w))
      else
        (let cm = candidate_map s d in
         w\<lparr>w_confidence := (w_confidence w)(ord_id d \<mapsto> match_confidence s d),
           w_matched := (w_matched w)(ord_id d \<mapsto> sort_key pay_id (map snd cm)),
           w_claimed := foldl (\<lambda>c pid. append_at pid (ord_id d) c) (w_claimed w) (map fst cm)\<rparr>))"

definition sorted_orders :: "snapshot \<Rightarrow> order list" where
  "sorted_orders s = sort_key ord_id (snap_orders s)"

definition match_orders :: "digest \<Rightarrow> snapshot \<Rightarrow> walk \<Rightarrow> walk" where
  "match_orders H s w = fold (match_order H s) (sorted_orders s) w"

text \<open>A payment that several orders claim blocks all of them.\<close>

definition claim_conflict :: "digest \<Rightarrow> snapshot \<Rightarrow> string \<times> string list \<Rightarrow> walk \<Rightarrow> walk" where
  "claim_conflict H s claim w =
     (case claim of (pid, oids) \<Rightarrow>
       if 1 < length oids then
         (let ids = payment_key pid # map order_key oids in
          emit H s ''PI-010'' ids (map_option pay_received (find_payment s pid)) 100 (now_of s)
            [(''reason'', JStr ''payment_claimed_by_multiple_orders''), (''payment_id'', JStr pid),
             (''order_ids'', strs_json (sort oids))] (block ids w))
       else w)"

definition claim_conflicts :: "digest \<Rightarrow> snapshot \<Rightarrow> walk \<Rightarrow> walk" where
  "claim_conflicts H s w = fold (claim_conflict H s) (sort_key fst (w_claimed w)) w"

section \<open>The payment rules of one order\<close>

definition succeeded_of :: "payment list \<Rightarrow> payment list" where
  "succeeded_of grp = filter (\<lambda>p. pay_status p = ''succeeded'') grp"

definition eligible_from :: "snapshot \<Rightarrow> payment \<Rightarrow> datetime" where
  "eligible_from s p = (case pay_succeeded p of Some t \<Rightarrow> t | None \<Rightarrow> pay_changed p) + grace p s"

definition same_currency :: "money \<Rightarrow> money \<Rightarrow> bool" where
  "same_currency a b \<longleftrightarrow> currency a = currency b \<and> exponent a = exponent b"

definition sum_minor :: "refund list \<Rightarrow> int" where
  "sum_minor rs = sum_list (map (\<lambda>r. minor (ref_amount r)) rs)"

definition fully_returned :: "snapshot \<Rightarrow> payment \<Rightarrow> bool" where
  "fully_returned s p =
     (let rs = filter (\<lambda>r. ref_source r = ''stripe'' \<and> ref_parent r = pay_id p \<and>
          ref_status r = ''succeeded'') (snap_refunds s) in
      rs \<noteq> [] \<and> 0 < minor (pay_received p) \<and>
      list_all (\<lambda>r. same_currency (ref_amount r) (pay_received p)) rs \<and>
      sum_minor rs = minor (pay_received p) \<and>
      list_all (\<lambda>r. ref_changed r + pol_refund (snap_policy s) \<le> min (now_of s) (through_of s)) rs)"

definition compensated_ids :: "snapshot \<Rightarrow> payment list \<Rightarrow> string list" where
  "compensated_ids s grp = map pay_id (filter (fully_returned s) (succeeded_of grp))"

definition corrected_duplicate :: "snapshot \<Rightarrow> payment list \<Rightarrow> bool" where
  "corrected_duplicate s grp \<longleftrightarrow> 1 < length (succeeded_of grp) \<and>
     int (length (succeeded_of grp)) - int (card (set (compensated_ids s grp))) = 1"

definition order_facts :: "snapshot \<Rightarrow> order \<Rightarrow> payment list \<Rightarrow> (string \<times> json) list" where
  "order_facts s d grp = [
     (''order'', order_json d), (''payments'', JList (map payment_json grp)),
     (''compensated_duplicate_payment_ids'',
       strs_json (if corrected_duplicate s grp then sort (remdups (compensated_ids s grp)) else []))]"

definition max_of :: "datetime \<Rightarrow> datetime list \<Rightarrow> datetime" where
  "max_of x xs = foldl max x xs"

definition candidate_ids :: "snapshot \<Rightarrow> order \<Rightarrow> string list" where
  "candidate_ids s d = sort (map pay_id (filter (\<lambda>p. pay_amount p = ord_amount d \<and>
     \<bar>pay_created p - ord_created d\<bar> \<le> seconds 600) (snap_payments s)))"

definition emit_duplicate :: "digest \<Rightarrow> snapshot \<Rightarrow> order \<Rightarrow> payment list \<Rightarrow> int \<Rightarrow> string list \<Rightarrow> walk \<Rightarrow> walk" where
  "emit_duplicate H s d grp conf ids w =
     (case succeeded_of grp of
        p # q # ps \<Rightarrow>
          if corrected_duplicate s grp then w
          else emit H s ''PI-004'' ids (Some (ord_amount d)) conf
            (max_of (eligible_from s p) (map (eligible_from s) (q # ps))) (order_facts s d grp) w
      | _ \<Rightarrow> w)"

definition emit_unfunded :: "digest \<Rightarrow> snapshot \<Rightarrow> order \<Rightarrow> payment list \<Rightarrow> int \<Rightarrow> walk \<Rightarrow> walk" where
  "emit_unfunded H s d grp conf w =
     (if succeeded_of grp = [] \<and> ord_status d \<in> set PAID then
        (let candidates = candidate_ids s d in
         emit H s ''PI-003'' [order_key (ord_id d)] (Some (ord_amount d)) conf
           ((case ord_paid d of Some t \<Rightarrow> t | None \<Rightarrow> ord_changed d) + pol_instant (snap_policy s))
           (order_facts s d grp @ [(''candidate_payment_ids'', strs_json candidates),
             (''candidate_confidence'', JInt (if candidates \<noteq> [] then 40 else 0))]) w)
      else w)"

definition emit_payment :: "digest \<Rightarrow> snapshot \<Rightarrow> order \<Rightarrow> payment list \<Rightarrow> int \<Rightarrow> payment \<Rightarrow> walk \<Rightarrow> walk" where
  "emit_payment H s d grp conf p w =
     (let pair = [order_key (ord_id d), payment_key (pay_id p)];
          w1 = (if ord_status d \<in> set UNPAID
                then emit H s ''PI-001'' pair (Some (pay_received p)) conf (eligible_from s p)
                  (order_facts s d grp) w
                else w)
      in if pay_received p \<noteq> ord_amount d
         then emit H s ''PI-005'' pair (Some (pay_received p)) conf (eligible_from s p)
           (order_facts s d grp) w1
         else w1)"

definition payment_rules :: "digest \<Rightarrow> snapshot \<Rightarrow> order \<Rightarrow> payment list \<Rightarrow> int \<Rightarrow> string list \<Rightarrow> walk \<Rightarrow> walk" where
  "payment_rules H s d grp conf ids w =
     fold (emit_payment H s d grp conf) (succeeded_of grp)
       (emit_unfunded H s d grp conf (emit_duplicate H s d grp conf ids w))"

section \<open>The refund rules of one order\<close>

definition stripe_refunds :: "snapshot \<Rightarrow> payment list \<Rightarrow> refund list" where
  "stripe_refunds s grp = sort_key ref_id (filter (\<lambda>r. ref_source r = ''stripe'' \<and>
     ref_parent r \<in> set (map pay_id grp) \<and> ref_status r = ''succeeded'' \<and>
     \<not> (corrected_duplicate s grp \<and> ref_parent r \<in> set (compensated_ids s grp))) (snap_refunds s))"

definition woo_refunds :: "snapshot \<Rightarrow> order \<Rightarrow> refund list" where
  "woo_refunds s d = sort_key ref_id
     (filter (\<lambda>r. ref_source r = ''woo'' \<and> ref_parent r = ord_id d) (snap_refunds s))"

definition refund_facts :: "snapshot \<Rightarrow> order \<Rightarrow> payment list \<Rightarrow> (string \<times> json) list" where
  "refund_facts s d grp = order_facts s d grp @ [
     (''stripe_refunds'', JList (map refund_json (stripe_refunds s grp))),
     (''woo_refunds'', JList (map refund_json (woo_refunds s d))),
     (''stripe_refunded_minor'', JInt (sum_minor (stripe_refunds s grp))),
     (''woo_refunded_minor'', JInt (minor (ord_refunded d))),
     (''manual_status_possible'', JBool (ord_status d = ''refunded''))]"

definition over_refunded :: "refund list \<Rightarrow> payment \<Rightarrow> bool" where
  "over_refunded rs p \<longleftrightarrow>
     minor (pay_received p) < sum_minor (filter (\<lambda>r. ref_parent r = pay_id p) rs)"

definition emit_refund :: "digest \<Rightarrow> snapshot \<Rightarrow> order \<Rightarrow> payment list \<Rightarrow> int \<Rightarrow> walk \<Rightarrow> walk result" where
  "emit_refund H s d grp conf w =
     (let sr = sum_minor (stripe_refunds s grp); wr = minor (ord_refunded d); oid = order_key (ord_id d);
          eligible = max_of (if wr \<noteq> 0 \<or> ord_status d = ''refunded'' then ord_changed d else from_of s)
            (map ref_changed (stripe_refunds s grp @ woo_refunds s d)) + pol_refund (snap_policy s);
          facts = refund_facts s d grp
      in rbind (mk_money \<bar>sr - wr\<bar> (currency (ord_amount d)) (exponent (ord_amount d))) (\<lambda>risk. Inr
        (if sr \<noteq> 0 \<and> wr = 0 then emit H s ''PI-006'' [oid] (Some risk) conf eligible facts w
         else if (wr \<noteq> 0 \<or> ord_status d = ''refunded'') \<and> sr = 0 then
           emit H s ''PI-007'' [oid] (Some (if wr \<noteq> 0 then risk else ord_amount d)) conf eligible facts w
         else if sr \<noteq> wr then emit H s ''PI-008'' [oid] (Some risk) conf eligible facts w
         else w)))"

definition refund_rules :: "digest \<Rightarrow> snapshot \<Rightarrow> order \<Rightarrow> payment list \<Rightarrow> int \<Rightarrow> walk \<Rightarrow> walk result" where
  "refund_rules H s d grp conf w =
     (let oid = order_key (ord_id d); both = stripe_refunds s grp @ woo_refunds s d in
      if list_ex (\<lambda>r. through_of s < ref_changed r) both then Inr (block [oid] w)
      else if list_ex (\<lambda>r. \<not> same_currency (ref_amount r) (ord_amount d)) both then
        Inr (emit H s ''PI-008'' [oid] (Some (ord_refunded d)) conf
          (max_of (ord_changed d) (map ref_changed both) + pol_refund (snap_policy s))
          (order_facts s d grp @ [(''reason'', JStr ''refund_currency_conflict'')])
          (warn (''refund_currency_conflict:'' @ ord_id d) w))
      else if minor (ord_amount d) < minor (ord_refunded d) \<or>
          list_ex (over_refunded (stripe_refunds s grp)) (succeeded_of grp) then
        Inr (block [oid] (warn (''refund_exceeds_payment:'' @ ord_id d) w))
      else if woo_refunds s d \<noteq> [] \<and> sum_minor (woo_refunds s d) \<noteq> minor (ord_refunded d) then
        Inr (block [oid] (warn (''woo_refund_projection_inconsistent:'' @ ord_id d) w))
      else emit_refund H s d grp conf w)"

section \<open>One order, one unclaimed payment, the whole evaluation\<close>

definition audit_order :: "digest \<Rightarrow> snapshot \<Rightarrow> order \<Rightarrow> walk \<Rightarrow> walk result" where
  "audit_order H s d w =
     (let oid = order_key (ord_id d) in
      case (w_matched w (ord_id d), w_confidence w (ord_id d)) of
        (Some grp, Some conf) \<Rightarrow>
          (let ids = oid # map (\<lambda>p. payment_key (pay_id p)) grp in
           if oid \<in> w_blocked w then Inr w
           else if ord_created d < from_of s then
             Inr (warn (''history_outside_coverage:'' @ oid) (block ids w))
           else if list_ex (\<lambda>i. i \<in> w_blocked w) ids then Inr (block ids w)
           else if list_ex (\<lambda>t. through_of s < t) (ord_changed d # map pay_changed grp) then
             Inr (block ids w)
           else refund_rules H s d grp conf (payment_rules H s d grp conf ids w))
      | _ \<Rightarrow> Inr w)"

definition sorted_payments :: "snapshot \<Rightarrow> payment list" where
  "sorted_payments s = sort_key pay_id (snap_payments s)"

definition audit_payment :: "digest \<Rightarrow> snapshot \<Rightarrow> payment \<Rightarrow> walk \<Rightarrow> walk" where
  "audit_payment H s p w =
     (let pid = payment_key (pay_id p) in
      if pay_id p \<in> set (map fst (w_claimed w)) \<or> pid \<in> w_blocked w \<or> pay_status p \<noteq> ''succeeded'' then w
      else if through_of s < pay_changed p \<or> pay_created p < from_of s then block [pid] w
      else if pay_store_hint p = snap_store s then
        emit H s ''PI-002'' [pid] (Some (pay_received p)) 90 (eligible_from s p)
          [(''payment'', payment_json p), (''confirmed_store_id'', JStr (snap_store s))] w
      else warn (''unattributed_payment:'' @ pay_id p) w)"

definition walk_orders :: "digest \<Rightarrow> snapshot \<Rightarrow> walk \<Rightarrow> walk result" where
  "walk_orders H s w = fold_res (audit_order H s) (sorted_orders s) w"

definition walk_payments :: "digest \<Rightarrow> snapshot \<Rightarrow> walk \<Rightarrow> walk" where
  "walk_payments H s w = fold (audit_payment H s) (sorted_payments s) w"

definition store_key :: "snapshot \<Rightarrow> string" where "store_key s = ''store:'' @ snap_store s"

text \<open>The two early returns: stale coverage, and an unverified or conflicting store link.\<close>

definition stale_evaluation :: "digest \<Rightarrow> snapshot \<Rightarrow> evaluation" where
  "stale_evaluation H s = \<lparr>
     ev_proposals = w_proposals (emit H s ''PI-009'' [store_key s] None 100 (now_of s)
       [(''stale_sources'', strs_json (stale_sources s))] initial_walk),
     ev_rules = filter (\<lambda>r. r = ''PI-009'') (enabled_rules s), ev_blocked = [], ev_warnings = [],
     ev_digest = input_digest H s\<rparr>"

definition unlinked_evaluation :: "digest \<Rightarrow> snapshot \<Rightarrow> evaluation" where
  "unlinked_evaluation H s = \<lparr>
     ev_proposals = w_proposals (if snap_link_conflict s
       then emit H s ''PI-010'' [store_key s] None 100 (now_of s)
         [(''reason'', JStr ''store_account_link_conflict'')] initial_walk
       else initial_walk),
     ev_rules = filter (\<lambda>r. r \<in> {''PI-009'', ''PI-010''}) (enabled_rules s), ev_blocked = [],
     ev_warnings = [''link_unverified''], ev_digest = input_digest H s\<rparr>"

definition full_evaluation :: "digest \<Rightarrow> snapshot \<Rightarrow> evaluation result" where
  "full_evaluation H s =
     rbind (walk_orders H s (claim_conflicts H s (match_orders H s initial_walk))) (\<lambda>w0.
       let w = walk_payments H s w0 in
       Inr \<lparr>ev_proposals = sort_key prop_key (w_proposals w), ev_rules = enabled_rules s,
         ev_blocked = sorted_list_of_set (w_blocked w),
         ev_warnings = sorted_list_of_set (w_warnings w), ev_digest = input_digest H s\<rparr>)"

definition evaluate :: "digest \<Rightarrow> snapshot \<Rightarrow> evaluation result" where
  "evaluate H s =
     rbind (validate_snapshot s) (\<lambda>_.
       if stale_sources s \<noteq> [] then Inr (stale_evaluation H s)
       else if \<not> snap_link_verified s \<or> snap_link_conflict s then Inr (unlinked_evaluation H s)
       else full_evaluation H s)"

end
