(* ===== verification/Engine_Match.thy ===== *)
theory Engine_Match imports Engine begin

text \<open>
  Facts about the matching phase of the engine: what the alias and hint dictionaries contain
  after their loops, which payments an order's group holds, and the frame of the functions
  that write a \<open>walk\<close>. The predicate \<open>linked\<close> is the specification of a match: an exact
  identifier of the order is one of the payment's, or the payment names the order.
\<close>

named_theorems walk_simps \<open>how the elementary operations change the fields of a walk\<close>

section \<open>Frames of the elementary operations\<close>

lemma emit_proposals: "w_proposals (emit H s rule ids risk conf el facts w) =
    w_proposals w @ (if rule \<in> set (enabled_rules s) then [mk_proposal H s rule ids risk conf el facts] else [])"
  by (simp add: emit_def)

lemma emit_frame [simp, walk_simps]:
  "w_blocked (emit H s rule ids risk conf el facts w) = w_blocked w"
  "w_warnings (emit H s rule ids risk conf el facts w) = w_warnings w"
  "w_matched (emit H s rule ids risk conf el facts w) = w_matched w"
  "w_confidence (emit H s rule ids risk conf el facts w) = w_confidence w"
  "w_claimed (emit H s rule ids risk conf el facts w) = w_claimed w"
  by (simp_all add: emit_def)

lemma block_frame [simp, walk_simps]:
  "w_proposals (block ids w) = w_proposals w"
  "w_blocked (block ids w) = w_blocked w \<union> set ids"
  "w_warnings (block ids w) = w_warnings w"
  "w_matched (block ids w) = w_matched w"
  "w_confidence (block ids w) = w_confidence w"
  "w_claimed (block ids w) = w_claimed w"
  by (simp_all add: block_def)

lemma warn_frame [simp, walk_simps]:
  "w_proposals (warn m w) = w_proposals w"
  "w_blocked (warn m w) = w_blocked w"
  "w_warnings (warn m w) = insert m (w_warnings w)"
  "w_matched (warn m w) = w_matched w"
  "w_confidence (warn m w) = w_confidence w"
  "w_claimed (warn m w) = w_claimed w"
  by (simp_all add: warn_def)

lemma mk_proposal_fields [simp]:
  "prop_rule (mk_proposal H s rule ids risk conf el facts) = rule"
  "prop_identities (mk_proposal H s rule ids risk conf el facts) = sort (remdups ids)"
  "prop_risk (mk_proposal H s rule ids risk conf el facts) = risk"
  "prop_confidence (mk_proposal H s rule ids risk conf el facts) = conf"
  "prop_eligible (mk_proposal H s rule ids risk conf el facts) = el"
  "prop_ready (mk_proposal H s rule ids risk conf el facts) \<longleftrightarrow> el \<le> now_of s"
  "prop_key (mk_proposal H s rule ids risk conf el facts) = proposal_key H s rule (sort (remdups ids))"
  "prop_evidence (mk_proposal H s rule ids risk conf el facts) = canonical (evidence_json s facts)"
  "prop_severity (mk_proposal H s rule ids risk conf el facts) = severity_of rule"
  by (simp_all add: mk_proposal_def Let_def)

section \<open>The alias dictionary\<close>

lemma fold_add_alias:
  "foldl (add_alias pid) m als al =
     (if al \<in> set als then Some (insert pid (case m al of None \<Rightarrow> {} | Some t \<Rightarrow> t)) else m al)"
  by (induction als arbitrary: m) (auto simp: add_alias_def split: option.splits)

lemma build_aliases_from:
  "(case foldl (\<lambda>m p. foldl (add_alias (pay_id p)) m (payment_aliases p)) m ps al of
      None \<Rightarrow> {} | Some t \<Rightarrow> t)
   = (case m al of None \<Rightarrow> {} | Some t \<Rightarrow> t) \<union> {pay_id p | p. p \<in> set ps \<and> al \<in> set (payment_aliases p)}"
proof (induction ps arbitrary: m)
  case Nil
  show ?case by simp
next
  case (Cons p ps)
  show ?case unfolding foldl.simps(2) Cons.IH by (auto simp: fold_add_alias)
qed

lemma targets_of_eq: "targets_of s ref = {pay_id p | p. p \<in> set (snap_payments s) \<and> ref \<in> set (payment_aliases p)}"
  using build_aliases_from[of Map.empty "snap_payments s" ref]
  by (simp add: targets_of_def build_aliases_def)

lemma finite_targets [simp]: "finite (targets_of s ref)"
  by (simp add: targets_of_eq)

lemma finite_resolved [simp]: "finite (resolved_of s d)"
  by (simp add: resolved_of_def)

lemma resolved_of_eq: "resolved_of s d =
    {pay_id p | p. p \<in> set (snap_payments s) \<and> (\<exists>ref \<in> set (order_refs d). ref \<in> set (payment_aliases p))}"
  by (auto simp: resolved_of_def targets_of_eq)

section \<open>The hint dictionary\<close>

lemma hints_from:
  "(case foldl (add_hint s) m ps oid of None \<Rightarrow> [] | Some l \<Rightarrow> l)
   = (case m oid of None \<Rightarrow> [] | Some l \<Rightarrow> l) @ filter (\<lambda>p. hinted s p \<and> pay_order_hint p = oid) ps"
proof (induction ps arbitrary: m)
  case Nil
  show ?case by simp
next
  case (Cons p ps)
  show ?case unfolding foldl.simps(2) Cons.IH by (auto simp: add_hint_def)
qed

lemma hints_of_eq: "hints_of s oid = filter (\<lambda>p. hinted s p \<and> pay_order_hint p = oid) (snap_payments s)"
  using hints_from[of s Map.empty "snap_payments s" oid] by (simp add: hints_of_def)

section \<open>The group of an order\<close>

definition linked :: "snapshot \<Rightarrow> order \<Rightarrow> payment \<Rightarrow> bool" where
  "linked s d p \<longleftrightarrow> p \<in> set (snap_payments s) \<and>
     ((\<exists>ref \<in> set (order_refs d). ref \<in> set (payment_aliases p)) \<or>
      (hinted s p \<and> pay_order_hint p = ord_id d))"

definition group_of :: "snapshot \<Rightarrow> order \<Rightarrow> payment list" where
  "group_of s d = sort_key pay_id (map snd (candidate_map s d))"

lemma find_payment_Some: "find_payment s pid = Some p \<Longrightarrow> p \<in> set (snap_payments s) \<and> pay_id p = pid"
  unfolding find_payment_def by (auto dest!: map_of_SomeD)

lemma find_payment_id:
  assumes "distinct (map pay_id (snap_payments s))" and "p \<in> set (snap_payments s)"
  shows "find_payment s (pay_id p) = Some p"
  unfolding find_payment_def
  by (rule map_of_is_SomeI) (use assms in \<open>auto simp: o_def\<close>)

lemma fold_update_set:
  "distinct (map fst m) \<Longrightarrow> (\<And>k p. (k, p) \<in> set m \<Longrightarrow> k = pay_id p) \<Longrightarrow> inj_on pay_id (snd ` set m \<union> set ps) \<Longrightarrow>
   set (foldl (\<lambda>m p. AList.update (pay_id p) p m) m ps) = set m \<union> (\<lambda>p. (pay_id p, p)) ` set ps \<and>
   distinct (map fst (foldl (\<lambda>m p. AList.update (pay_id p) p m) m ps))"
proof (induction ps arbitrary: m)
  case Nil
  then show ?case by simp
next
  case (Cons p ps)
  let ?m = "AList.update (pay_id p) p m"
  have d: "distinct (map fst ?m)" using Cons.prems(1) by (rule distinct_update)
  have key: "q = p" if "(pay_id p, q) \<in> set m" for q
  proof -
    have "pay_id q = pay_id p" using Cons.prems(2)[OF that] by simp
    moreover have "q \<in> snd ` set m" using that by force
    moreover have "p \<in> set (p # ps)" by simp
    ultimately show ?thesis using Cons.prems(3) by (blast dest: inj_onD)
  qed
  have "map_of ?m = (map_of m)(pay_id p \<mapsto> p)" by (rule update_conv')
  then have "(k, q) \<in> set ?m \<longleftrightarrow> ((map_of m)(pay_id p \<mapsto> p)) k = Some q" for k q
    using d by (metis map_of_eq_Some_iff)
  then have m: "set ?m = insert (pay_id p, p) (set m)"
    using Cons.prems(1) key by (auto split: if_splits dest: key[THEN sym])
  have "set (foldl (\<lambda>m p. AList.update (pay_id p) p m) ?m ps)
      = set ?m \<union> (\<lambda>p. (pay_id p, p)) ` set ps \<and>
    distinct (map fst (foldl (\<lambda>m p. AList.update (pay_id p) p m) ?m ps))"
  proof (rule Cons.IH[OF d])
    show "\<And>k q. (k, q) \<in> set ?m \<Longrightarrow> k = pay_id q" using Cons.prems(2) by (auto simp: m)
    show "inj_on pay_id (snd ` set ?m \<union> set ps)" using Cons.prems(3) by (simp add: m insert_commute)
  qed
  then show ?case by (simp add: m)
qed

lemma candidate_map_spec:
  assumes "distinct (map pay_id (snap_payments s))"
  shows "set (candidate_map s d) = (\<lambda>p. (pay_id p, p)) ` {p. linked s d p}"
    and "distinct (map fst (candidate_map s d))"
proof -
  define m where "m = List.map_filter (\<lambda>pid. map_option (Pair pid) (find_payment s pid))
      (sorted_list_of_set (resolved_of s d))"
  have inj: "inj_on pay_id (set (snap_payments s))" using assms by (simp add: distinct_map)
  have some: "\<exists>p. find_payment s pid = Some p" if "pid \<in> resolved_of s d" for pid
    using that find_payment_id[OF assms] by (auto simp: resolved_of_eq)
  have m_eq: "m = map (\<lambda>pid. (pid, the (find_payment s pid))) (sorted_list_of_set (resolved_of s d))"
  proof -
    have "List.map_filter (\<lambda>pid. map_option (Pair pid) (find_payment s pid)) xs
        = map (\<lambda>pid. (pid, the (find_payment s pid))) xs" if "set xs \<subseteq> resolved_of s d" for xs
      using that
    proof (induction xs)
      case Nil
      show ?case by (simp add: List.map_filter_def)
    next
      case (Cons a xs)
      then obtain p where "find_payment s a = Some p" using some by auto
      with Cons show ?case by (simp add: List.map_filter_def)
    qed
    then show ?thesis by (simp add: m_def)
  qed
  have set_m: "set m = (\<lambda>p. (pay_id p, p)) ` {p \<in> set (snap_payments s). \<exists>ref \<in> set (order_refs d). ref \<in> set (payment_aliases p)}"
    using find_payment_id[OF assms] by (force simp: m_eq resolved_of_eq)
  have dm: "distinct (map fst m)" by (simp add: m_eq o_def)
  have key: "\<And>k p. (k, p) \<in> set m \<Longrightarrow> k = pay_id p" by (auto simp: set_m)
  have "inj_on pay_id (snd ` set m \<union> set (hints_of s (ord_id d)))"
    by (rule inj_on_subset[OF inj]) (auto simp: set_m hints_of_eq)
  note res = fold_update_set[OF dm key this]
  have cm: "candidate_map s d = foldl (\<lambda>m p. AList.update (pay_id p) p m) m (hints_of s (ord_id d))"
    by (simp only: candidate_map_def m_def)
  show "set (candidate_map s d) = (\<lambda>p. (pay_id p, p)) ` {p. linked s d p}"
    unfolding cm using res[THEN conjunct1] unfolding set_m hints_of_eq set_filter linked_def
    by (simp add: image_Un[symmetric] Collect_disj_eq[symmetric] conj_disj_distribL conj_assoc)
  show "distinct (map fst (candidate_map s d))"
    unfolding cm by (rule res[THEN conjunct2])
qed

lemma set_group_of:
  assumes "distinct (map pay_id (snap_payments s))"
  shows "set (group_of s d) = {p. linked s d p}" and "distinct (map pay_id (group_of s d))"
proof -
  note spec = candidate_map_spec[OF assms, of d]
  show "set (group_of s d) = {p. linked s d p}"
    unfolding group_of_def set_sort set_map spec(1) image_image by simp
  have "map pay_id (map snd (candidate_map s d)) = map fst (candidate_map s d)"
    using spec(1) by (auto intro!: map_cong)
  then have "distinct (map pay_id (map snd (candidate_map s d)))" using spec(2) by (simp only:)
  then show "distinct (map pay_id (group_of s d))"
    unfolding group_of_def by (metis mset_map mset_sort mset_eq_imp_distinct_iff)
qed

lemma order_refs_set: "set (order_refs d) =
    {r \<in> {ord_transaction d, ord_intent d, ord_charge d, ord_session d}. r \<noteq> []}"
  by (auto simp: order_refs_def)

lemma key_inject [simp]:
  "order_key a = order_key b \<longleftrightarrow> a = b" "payment_key a = payment_key b \<longleftrightarrow> a = b"
  "order_key a \<noteq> payment_key b" "payment_key b \<noteq> order_key a"
  by (simp_all add: order_key_def payment_key_def)

section \<open>What the matching loop stores\<close>

lemma match_order_maps:
  "w_matched (match_order H s d w) =
     (if stripe_method d \<and> \<not> match_conflict s d then (w_matched w)(ord_id d \<mapsto> group_of s d) else w_matched w)"
  "w_confidence (match_order H s d w) =
     (if stripe_method d \<and> \<not> match_conflict s d then (w_confidence w)(ord_id d \<mapsto> match_confidence s d)
      else w_confidence w)"
  by (simp_all add: match_order_def Let_def group_of_def)

definition matchable :: "snapshot \<Rightarrow> order \<Rightarrow> bool" where
  "matchable s d \<longleftrightarrow> d \<in> set (snap_orders s) \<and> stripe_method d \<and> \<not> match_conflict s d"

lemma fold_match_maps:
  "distinct (map ord_id ds) \<Longrightarrow>
   w_matched (fold (match_order H s) ds w) oid =
     (case find (\<lambda>d. ord_id d = oid \<and> stripe_method d \<and> \<not> match_conflict s d) ds of
        Some d \<Rightarrow> Some (group_of s d) | None \<Rightarrow> w_matched w oid) \<and>
   w_confidence (fold (match_order H s) ds w) oid =
     (case find (\<lambda>d. ord_id d = oid \<and> stripe_method d \<and> \<not> match_conflict s d) ds of
        Some d \<Rightarrow> Some (match_confidence s d) | None \<Rightarrow> w_confidence w oid)"
proof (induction ds arbitrary: w)
  case Nil
  show ?case by simp
next
  case (Cons d ds)
  have "find (\<lambda>d. ord_id d = oid \<and> stripe_method d \<and> \<not> match_conflict s d) ds = None" if "ord_id d = oid"
    using that Cons.prems by (auto simp: find_None_iff) (metis imageI)
  with Cons show ?case by (auto simp: match_order_maps split: option.splits)
qed

lemma find_unique_order:
  assumes "distinct (map ord_id ds)"
  shows "find (\<lambda>d. ord_id d = oid \<and> P d) ds = Some d \<longleftrightarrow> d \<in> set ds \<and> ord_id d = oid \<and> P d"
  using assms by (induction ds) (auto dest: image_eqI)

lemma sorted_orders_set [simp]: "set (sorted_orders s) = set (snap_orders s)"
  by (simp add: sorted_orders_def)

lemma sorted_payments_set [simp]: "set (sorted_payments s) = set (snap_payments s)"
  by (simp add: sorted_payments_def)

lemma distinct_sorted_orders: "distinct (map ord_id (snap_orders s)) \<Longrightarrow> distinct (map ord_id (sorted_orders s))"
  unfolding sorted_orders_def by (metis mset_map mset_sort mset_eq_imp_distinct_iff)

text \<open>After the matching loop, the group and confidence of an order are functions of the snapshot.\<close>

lemma match_orders_maps:
  assumes d: "distinct (map ord_id (snap_orders s))"
  shows "w_matched (match_orders H s initial_walk) oid = Some grp \<longleftrightarrow>
      (\<exists>d. matchable s d \<and> ord_id d = oid \<and> grp = group_of s d)"
    and "w_confidence (match_orders H s initial_walk) oid = Some conf \<longleftrightarrow>
      (\<exists>d. matchable s d \<and> ord_id d = oid \<and> conf = match_confidence s d)"
proof -
  note maps = fold_match_maps[OF distinct_sorted_orders[OF d], of H s initial_walk oid]
  note uniq = find_unique_order[OF distinct_sorted_orders[OF d]]
  have m: "w_matched (match_orders H s initial_walk) oid =
      map_option (group_of s) (find (\<lambda>d. ord_id d = oid \<and> stripe_method d \<and> \<not> match_conflict s d) (sorted_orders s))"
    and c: "w_confidence (match_orders H s initial_walk) oid =
      map_option (match_confidence s) (find (\<lambda>d. ord_id d = oid \<and> stripe_method d \<and> \<not> match_conflict s d) (sorted_orders s))"
    using maps by (auto simp: match_orders_def initial_walk_def split: option.splits)
  show "w_matched (match_orders H s initial_walk) oid = Some grp \<longleftrightarrow>
      (\<exists>d. matchable s d \<and> ord_id d = oid \<and> grp = group_of s d)"
    unfolding m map_option_eq_Some uniq matchable_def sorted_orders_set by blast
  show "w_confidence (match_orders H s initial_walk) oid = Some conf \<longleftrightarrow>
      (\<exists>d. matchable s d \<and> ord_id d = oid \<and> conf = match_confidence s d)"
    unfolding c map_option_eq_Some uniq matchable_def sorted_orders_set by blast
qed

end
