(* ===== verification/Engine_Blocks.thy ===== *)
theory Engine_Blocks imports Engine_Match begin

text \<open>
  The two conflict phases of the engine seen from the snapshot: which orders claim a payment,
  which payments are contested (several orders claim them) or disputed (an order whose exact
  identifiers conflict refers to them), and what is blocked before the order loop starts.
\<close>

section \<open>Claims\<close>

definition claimants :: "snapshot \<Rightarrow> string \<Rightarrow> string list" where
  "claimants s pid = map ord_id (filter (\<lambda>d. stripe_method d \<and> \<not> match_conflict s d \<and>
     pid \<in> set (map fst (candidate_map s d))) (sorted_orders s))"

definition contested :: "snapshot \<Rightarrow> payment \<Rightarrow> bool" where
  "contested s p \<longleftrightarrow> (\<exists>d d'. matchable s d \<and> matchable s d' \<and> d \<noteq> d' \<and> linked s d p \<and> linked s d' p)"

definition disputed :: "snapshot \<Rightarrow> payment \<Rightarrow> bool" where
  "disputed s p \<longleftrightarrow> (\<exists>d \<in> set (snap_orders s). stripe_method d \<and> match_conflict s d \<and> pay_id p \<in> resolved_of s d)"

fun assoc :: "('k \<times> 'v list) list \<Rightarrow> 'k \<Rightarrow> 'v list" where
  "assoc [] k = []"
| "assoc ((k', vs) # rest) k = (if k = k' then vs else assoc rest k)"

lemma append_at_keys: "set (map fst (append_at k v al)) = insert k (set (map fst al))"
  by (induction k v al rule: append_at.induct) auto

lemma append_at_distinct: "distinct (map fst al) \<Longrightarrow> distinct (map fst (append_at k v al))"
proof (induction k v al rule: append_at.induct)
  case (2 k v k' vs rest)
  with append_at_keys[of k v rest] show ?case by (auto simp flip: set_map)
qed simp

lemma assoc_append_at: "assoc (append_at k v al) k' = (if k = k' then assoc al k @ [v] else assoc al k')"
  by (induction k v al rule: append_at.induct) auto

lemma assoc_fold_append:
  "distinct ks \<Longrightarrow> assoc (foldl (\<lambda>c pid. append_at pid v c) al ks) k =
     (if k \<in> set ks then assoc al k @ [v] else assoc al k)"
  by (induction ks arbitrary: al) (auto simp: assoc_append_at)

lemma keys_fold_append:
  "set (map fst (foldl (\<lambda>c pid. append_at pid v c) al ks)) = set ks \<union> set (map fst al)"
  by (induction ks arbitrary: al) (auto simp: append_at_keys simp del: set_map)

lemma distinct_fold_append:
  "distinct (map fst al) \<Longrightarrow> distinct (map fst (foldl (\<lambda>c pid. append_at pid v c) al ks))"
  by (induction ks arbitrary: al) (auto simp: append_at_distinct)

lemma match_order_claimed: "w_claimed (match_order H s d w) =
    (if stripe_method d \<and> \<not> match_conflict s d
     then foldl (\<lambda>c pid. append_at pid (ord_id d) c) (w_claimed w) (map fst (candidate_map s d))
     else w_claimed w)"
  by (simp add: match_order_def Let_def)

lemma fold_match_claimed:
  assumes "distinct (map pay_id (snap_payments s))"
  shows "assoc (w_claimed (fold (match_order H s) ds w)) pid = assoc (w_claimed w) pid @
      map ord_id (filter (\<lambda>d. stripe_method d \<and> \<not> match_conflict s d \<and> pid \<in> set (map fst (candidate_map s d))) ds)"
    and "set (map fst (w_claimed (fold (match_order H s) ds w))) = set (map fst (w_claimed w)) \<union>
      {pid. \<exists>d \<in> set ds. stripe_method d \<and> \<not> match_conflict s d \<and> pid \<in> set (map fst (candidate_map s d))}"
    and "distinct (map fst (w_claimed w)) \<Longrightarrow> distinct (map fst (w_claimed (fold (match_order H s) ds w)))"
  using candidate_map_spec(2)[OF assms]
  by (induction ds arbitrary: w)
    (auto simp: match_order_claimed assoc_fold_append keys_fold_append distinct_fold_append simp del: set_map)

lemma candidate_key: "distinct (map pay_id (snap_payments s)) \<Longrightarrow>
    pid \<in> set (map fst (candidate_map s d)) \<longleftrightarrow> (\<exists>p. linked s d p \<and> pay_id p = pid)"
  by (auto simp: candidate_map_spec(1) image_image)

lemma linked_payment: "linked s d p \<Longrightarrow> p \<in> set (snap_payments s)"
  by (simp add: linked_def)

lemma linked_by_id:
  assumes "distinct (map pay_id (snap_payments s))" "linked s d q" "pay_id q = pay_id p" "p \<in> set (snap_payments s)"
  shows "linked s d p"
  using assms linked_payment by (metis eq_key_imp_eq_value distinct_map inj_on_def)

section \<open>Well-formed snapshots\<close>

definition well_formed :: "snapshot \<Rightarrow> bool" where
  "well_formed s \<longleftrightarrow> validate_snapshot s = Inr ()"

lemma well_formedD:
  assumes "well_formed s"
  shows "distinct (map pay_id (snap_payments s))" "distinct (map ord_id (snap_orders s))"
    "distinct (map cov_source (snap_coverage s))"
    "distinct (map (\<lambda>r. (ref_source r, ref_id r)) (snap_refunds s))"
    "from_of s \<le> now_of s"
    "\<And>p. p \<in> set (snap_payments s) \<Longrightarrow> pay_account p = snap_account s \<and> pay_mode p = snap_mode s"
    "\<And>d. d \<in> set (snap_orders s) \<Longrightarrow> ord_store d = snap_store s \<and> ord_mode d = snap_mode s"
  using assms by (auto simp: well_formed_def validate_snapshot_def list_all_iff)

lemma evaluate_well_formed: "evaluate H s = Inr r \<Longrightarrow> well_formed s"
  by (auto simp: evaluate_def well_formed_def)

section \<open>After the matching loop\<close>

definition walk1 :: "digest \<Rightarrow> snapshot \<Rightarrow> walk" where "walk1 H s = match_orders H s initial_walk"
definition walk2 :: "digest \<Rightarrow> snapshot \<Rightarrow> walk" where "walk2 H s = claim_conflicts H s (walk1 H s)"

lemma claim_conflict_frame [simp]:
  "w_matched (claim_conflict H s c w) = w_matched w"
  "w_confidence (claim_conflict H s c w) = w_confidence w"
  "w_claimed (claim_conflict H s c w) = w_claimed w"
  "w_warnings (claim_conflict H s c w) = w_warnings w"
  by (simp_all add: claim_conflict_def Let_def split: prod.splits)

lemma claim_conflicts_frame [simp]:
  "w_matched (claim_conflicts H s w) = w_matched w"
  "w_confidence (claim_conflicts H s w) = w_confidence w"
  "w_claimed (claim_conflicts H s w) = w_claimed w"
proof -
  have "w_matched (fold (claim_conflict H s) cs w) = w_matched w \<and>
      w_confidence (fold (claim_conflict H s) cs w) = w_confidence w \<and>
      w_claimed (fold (claim_conflict H s) cs w) = w_claimed w" for cs
    by (induction cs arbitrary: w) simp_all
  then show "w_matched (claim_conflicts H s w) = w_matched w"
    "w_confidence (claim_conflicts H s w) = w_confidence w"
    "w_claimed (claim_conflicts H s w) = w_claimed w" by (simp_all add: claim_conflicts_def)
qed

lemma claimed_assoc:
  assumes "well_formed s"
  shows "assoc (w_claimed (walk1 H s)) pid = claimants s pid"
    and "set (map fst (w_claimed (walk1 H s))) = {pid. claimants s pid \<noteq> []}"
    and "distinct (map fst (w_claimed (walk1 H s)))"
proof -
  note fm = fold_match_claimed[where H = H and ds = "sorted_orders s" and w = initial_walk,
      OF well_formedD(1)[OF assms]]
  show "assoc (w_claimed (walk1 H s)) pid = claimants s pid"
    using fm(1)[where pid = pid] by (simp add: walk1_def match_orders_def initial_walk_def claimants_def)
  show "set (map fst (w_claimed (walk1 H s))) = {pid. claimants s pid \<noteq> []}"
    using fm(2) by (simp add: walk1_def match_orders_def initial_walk_def claimants_def filter_empty_conv
        del: set_map)
  show "distinct (map fst (w_claimed (walk1 H s)))"
    using fm(3) by (simp add: walk1_def match_orders_def initial_walk_def)
qed

lemma claimants_set:
  assumes "well_formed s"
  shows "set (claimants s pid) = {ord_id d | d. matchable s d \<and> (\<exists>p. linked s d p \<and> pay_id p = pid)}"
    and "distinct (claimants s pid)"
proof -
  show "set (claimants s pid) = {ord_id d | d. matchable s d \<and> (\<exists>p. linked s d p \<and> pay_id p = pid)}"
    using candidate_key[OF well_formedD(1)[OF assms]]
    by (simp add: claimants_def matchable_def del: set_map) auto
  have "distinct (map ord_id (sorted_orders s))"
    by (rule distinct_sorted_orders[OF well_formedD(2)[OF assms]])
  then show "distinct (claimants s pid)" by (simp add: claimants_def distinct_map_filter)
qed

lemma order_by_id:
  assumes "well_formed s" "d \<in> set (snap_orders s)" "d' \<in> set (snap_orders s)" "ord_id d = ord_id d'"
  shows "d = d'"
  using well_formedD(2)[OF assms(1)] assms(2-4) by (auto simp: distinct_map dest: inj_onD)

lemma contested_iff:
  assumes wf: "well_formed s" and p: "p \<in> set (snap_payments s)"
  shows "contested s p \<longleftrightarrow> 1 < length (claimants s (pay_id p))"
proof -
  let ?C = "claimants s (pay_id p)"
  have link: "linked s d p \<longleftrightarrow> (\<exists>q. linked s d q \<and> pay_id q = pay_id p)" for d
    using linked_by_id[OF well_formedD(1)[OF wf] _ _ p] by blast
  have "1 < length ?C \<longleftrightarrow> 1 < card (set ?C)"
    using claimants_set(2)[OF wf] by (simp add: distinct_card)
  also have "\<dots> \<longleftrightarrow> (\<exists>x \<in> set ?C. \<exists>y \<in> set ?C. x \<noteq> y)"
    using card_le_Suc0_iff_eq[of "set ?C"] by (auto simp: not_le simp flip: One_nat_def)
  also have "\<dots> \<longleftrightarrow> contested s p"
    unfolding claimants_set(1)[OF wf] contested_def link
    using order_by_id[OF wf] by (auto simp: matchable_def)
  finally show ?thesis by simp
qed

end
