(* ===== verification/Engine_Spec.thy ===== *)
theory Engine_Spec imports Engine_Blocks begin

text \<open>
  The specification of the engine: when which finding is due, as an inductive relation between a
  snapshot and a draft of a finding. Nothing in it refers to the loops, their order or the state
  they share. \<open>Engine_Refine\<close> proves that \<open>evaluate\<close> raises these findings and no others.
\<close>

section \<open>Drafts\<close>

record draft =
  dr_rule :: string
  dr_ids :: "string list"
  dr_risk :: "money option"
  dr_confidence :: int
  dr_eligible :: datetime
  dr_facts :: "(string \<times> json) list"

definition propose :: "digest \<Rightarrow> snapshot \<Rightarrow> draft \<Rightarrow> proposal" where
  "propose H s c = mk_proposal H s (dr_rule c) (dr_ids c) (dr_risk c) (dr_confidence c) (dr_eligible c) (dr_facts c)"

definition mk_draft :: "string \<Rightarrow> string list \<Rightarrow> money option \<Rightarrow> int \<Rightarrow> datetime \<Rightarrow>
    (string \<times> json) list \<Rightarrow> draft" where
  "mk_draft rule ids risk conf el facts = \<lparr>dr_rule = rule, dr_ids = ids, dr_risk = risk,
     dr_confidence = conf, dr_eligible = el, dr_facts = facts\<rparr>"

lemma mk_draft_fields [simp]:
  "dr_rule (mk_draft rule ids risk conf el facts) = rule"
  "dr_ids (mk_draft rule ids risk conf el facts) = ids"
  "dr_risk (mk_draft rule ids risk conf el facts) = risk"
  "dr_confidence (mk_draft rule ids risk conf el facts) = conf"
  "dr_eligible (mk_draft rule ids risk conf el facts) = el"
  "dr_facts (mk_draft rule ids risk conf el facts) = facts"
  by (simp_all add: mk_draft_def)

lemma propose_draft: "propose H s (mk_draft rule ids risk conf el facts) = mk_proposal H s rule ids risk conf el facts"
  by (simp add: propose_def)

section \<open>The gates of an order\<close>

text \<open>An order is \<open>clear\<close> when no conflict touches it or a payment linked to it, and
  \<open>auditable\<close> when it also lies inside the window that the sources cover.\<close>

definition clear :: "snapshot \<Rightarrow> order \<Rightarrow> bool" where
  "clear s d \<longleftrightarrow> matchable s d \<and> (\<forall>p. linked s d p \<longrightarrow> \<not> contested s p \<and> \<not> disputed s p)"

definition auditable :: "snapshot \<Rightarrow> order \<Rightarrow> bool" where
  "auditable s d \<longleftrightarrow> clear s d \<and> from_of s \<le> ord_created d \<and> ord_changed d \<le> through_of s \<and>
     (\<forall>p. linked s d p \<longrightarrow> pay_changed p \<le> through_of s)"

definition order_ids :: "snapshot \<Rightarrow> order \<Rightarrow> string list" where
  "order_ids s d = order_key (ord_id d) # map (\<lambda>p. payment_key (pay_id p)) (group_of s d)"

abbreviation paid_group :: "snapshot \<Rightarrow> order \<Rightarrow> payment list" where
  "paid_group s d \<equiv> succeeded_of (group_of s d)"

abbreviation facts_of :: "snapshot \<Rightarrow> order \<Rightarrow> (string \<times> json) list" where
  "facts_of s d \<equiv> order_facts s d (group_of s d)"

abbreviation refunds_of :: "snapshot \<Rightarrow> order \<Rightarrow> refund list" where
  "refunds_of s d \<equiv> stripe_refunds s (group_of s d)"

definition refunds_settled :: "snapshot \<Rightarrow> order \<Rightarrow> bool" where
  "refunds_settled s d \<longleftrightarrow> auditable s d \<and>
     (\<forall>r \<in> set (refunds_of s d @ woo_refunds s d). ref_changed r \<le> through_of s)"

definition refund_currency_ok :: "snapshot \<Rightarrow> order \<Rightarrow> bool" where
  "refund_currency_ok s d \<longleftrightarrow>
     (\<forall>r \<in> set (refunds_of s d @ woo_refunds s d). same_currency (ref_amount r) (ord_amount d))"

definition refund_exceeds :: "snapshot \<Rightarrow> order \<Rightarrow> bool" where
  "refund_exceeds s d \<longleftrightarrow> minor (ord_amount d) < minor (ord_refunded d) \<or>
     (\<exists>p \<in> set (paid_group s d). over_refunded (refunds_of s d) p)"

definition woo_inconsistent :: "snapshot \<Rightarrow> order \<Rightarrow> bool" where
  "woo_inconsistent s d \<longleftrightarrow> woo_refunds s d \<noteq> [] \<and> sum_minor (woo_refunds s d) \<noteq> minor (ord_refunded d)"

text \<open>The refund comparison of an order runs.\<close>

definition comparable :: "snapshot \<Rightarrow> order \<Rightarrow> bool" where
  "comparable s d \<longleftrightarrow> refunds_settled s d \<and> refund_currency_ok s d \<and> \<not> refund_exceeds s d \<and> \<not> woo_inconsistent s d"

definition refund_eligible :: "snapshot \<Rightarrow> order \<Rightarrow> datetime" where
  "refund_eligible s d = max_of
     (if minor (ord_refunded d) \<noteq> 0 \<or> ord_status d = ''refunded'' then ord_changed d else from_of s)
     (map ref_changed (refunds_of s d @ woo_refunds s d)) + pol_refund (snap_policy s)"

definition refund_gap :: "snapshot \<Rightarrow> order \<Rightarrow> money" where
  "refund_gap s d = \<lparr>minor = \<bar>sum_minor (refunds_of s d) - minor (ord_refunded d)\<bar>,
     currency = currency (ord_amount d), exponent = exponent (ord_amount d)\<rparr>"

definition woo_only_risk :: "snapshot \<Rightarrow> order \<Rightarrow> money" where
  "woo_only_risk s d = (if minor (ord_refunded d) \<noteq> 0 then refund_gap s d else ord_amount d)"

definition candidate_confidence :: "snapshot \<Rightarrow> order \<Rightarrow> int" where
  "candidate_confidence s d = (if candidate_ids s d \<noteq> [] then 40 else 0)"

definition duplicate_eligible :: "snapshot \<Rightarrow> order \<Rightarrow> datetime" where
  "duplicate_eligible s d = (case paid_group s d of [] \<Rightarrow> 0
     | p # ps \<Rightarrow> max_of (eligible_from s p) (map (eligible_from s) ps))"

definition unclaimed :: "snapshot \<Rightarrow> payment \<Rightarrow> bool" where
  "unclaimed s p \<longleftrightarrow> p \<in> set (snap_payments s) \<and> (\<forall>d. matchable s d \<longrightarrow> \<not> linked s d p) \<and> \<not> disputed s p"

section \<open>When a finding is due\<close>

inductive due :: "snapshot \<Rightarrow> draft \<Rightarrow> bool" for s where
  conflict: "\<lbrakk>d \<in> set (snap_orders s); stripe_method d; match_conflict s d\<rbrakk> \<Longrightarrow> due s
    (mk_draft ''PI-010'' (order_key (ord_id d) # map payment_key (sorted_list_of_set (resolved_of s d)))
      (Some (ord_amount d)) 100 (now_of s)
      [(''reason'', JStr ''conflicting_or_unresolved_exact_identifiers''), (''order'', order_json d),
       (''references'', strs_json (order_refs d)), (''unresolved'', strs_json (unknown_refs s d))])"
| contested: "\<lbrakk>p \<in> set (snap_payments s); contested s p\<rbrakk> \<Longrightarrow> due s
    (mk_draft ''PI-010'' (payment_key (pay_id p) # map order_key (claimants s (pay_id p)))
      (Some (pay_received p)) 100 (now_of s)
      [(''reason'', JStr ''payment_claimed_by_multiple_orders''), (''payment_id'', JStr (pay_id p)),
       (''order_ids'', strs_json (sort (claimants s (pay_id p))))])"
| unpaid: "\<lbrakk>auditable s d; p \<in> set (paid_group s d); ord_status d \<in> set UNPAID\<rbrakk> \<Longrightarrow> due s
    (mk_draft ''PI-001'' [order_key (ord_id d), payment_key (pay_id p)] (Some (pay_received p))
      (match_confidence s d) (eligible_from s p) (facts_of s d))"
| unattached: "\<lbrakk>unclaimed s p; pay_status p = ''succeeded''; pay_changed p \<le> through_of s;
    from_of s \<le> pay_created p; pay_store_hint p = snap_store s\<rbrakk> \<Longrightarrow> due s
    (mk_draft ''PI-002'' [payment_key (pay_id p)] (Some (pay_received p)) 90 (eligible_from s p)
      [(''payment'', payment_json p), (''confirmed_store_id'', JStr (snap_store s))])"
| unfunded: "\<lbrakk>auditable s d; paid_group s d = []; ord_status d \<in> set PAID\<rbrakk> \<Longrightarrow> due s
    (mk_draft ''PI-003'' [order_key (ord_id d)] (Some (ord_amount d)) (match_confidence s d)
      ((case ord_paid d of Some t \<Rightarrow> t | None \<Rightarrow> ord_changed d) + pol_instant (snap_policy s))
      (facts_of s d @ [(''candidate_payment_ids'', strs_json (candidate_ids s d)),
        (''candidate_confidence'', JInt (candidate_confidence s d))]))"
| duplicate: "\<lbrakk>auditable s d; 1 < length (paid_group s d); \<not> corrected_duplicate s (group_of s d)\<rbrakk> \<Longrightarrow> due s
    (mk_draft ''PI-004'' (order_ids s d) (Some (ord_amount d)) (match_confidence s d)
      (duplicate_eligible s d) (facts_of s d))"
| mismatch: "\<lbrakk>auditable s d; p \<in> set (paid_group s d); pay_received p \<noteq> ord_amount d\<rbrakk> \<Longrightarrow> due s
    (mk_draft ''PI-005'' [order_key (ord_id d), payment_key (pay_id p)] (Some (pay_received p))
      (match_confidence s d) (eligible_from s p) (facts_of s d))"
| only_stripe: "\<lbrakk>comparable s d; sum_minor (refunds_of s d) \<noteq> 0; minor (ord_refunded d) = 0\<rbrakk> \<Longrightarrow> due s
    (mk_draft ''PI-006'' [order_key (ord_id d)] (Some (refund_gap s d)) (match_confidence s d)
      (refund_eligible s d) (refund_facts s d (group_of s d)))"
| only_woo: "\<lbrakk>comparable s d; sum_minor (refunds_of s d) = 0;
    minor (ord_refunded d) \<noteq> 0 \<or> ord_status d = ''refunded''\<rbrakk> \<Longrightarrow> due s
    (mk_draft ''PI-007'' [order_key (ord_id d)]
      (Some (woo_only_risk s d)) (match_confidence s d)
      (refund_eligible s d) (refund_facts s d (group_of s d)))"
| refund_mismatch: "\<lbrakk>comparable s d; sum_minor (refunds_of s d) \<noteq> 0; minor (ord_refunded d) \<noteq> 0;
    sum_minor (refunds_of s d) \<noteq> minor (ord_refunded d)\<rbrakk> \<Longrightarrow> due s
    (mk_draft ''PI-008'' [order_key (ord_id d)] (Some (refund_gap s d)) (match_confidence s d)
      (refund_eligible s d) (refund_facts s d (group_of s d)))"
| refund_currency: "\<lbrakk>refunds_settled s d; \<not> refund_currency_ok s d\<rbrakk> \<Longrightarrow> due s
    (mk_draft ''PI-008'' [order_key (ord_id d)] (Some (ord_refunded d)) (match_confidence s d)
      (max_of (ord_changed d) (map ref_changed (refunds_of s d @ woo_refunds s d)) + pol_refund (snap_policy s))
      (facts_of s d @ [(''reason'', JStr ''refund_currency_conflict'')]))"

text \<open>The findings about the sources themselves, which replace the others.\<close>

definition source_findings :: "snapshot \<Rightarrow> draft list" where
  "source_findings s =
     (if stale_sources s \<noteq> [] then [mk_draft ''PI-009'' [store_key s] None 100 (now_of s)
        [(''stale_sources'', strs_json (stale_sources s))]]
      else if snap_link_conflict s then [mk_draft ''PI-010'' [store_key s] None 100 (now_of s)
        [(''reason'', JStr ''store_account_link_conflict'')]]
      else [])"

definition trusted :: "snapshot \<Rightarrow> bool" where
  "trusted s \<longleftrightarrow> stale_sources s = [] \<and> snap_link_verified s \<and> \<not> snap_link_conflict s"

definition expected :: "snapshot \<Rightarrow> draft set" where
  "expected s = (if trusted s then {c. due s c} else set (source_findings s))"

end
