(* ===== verification/Engine_Refine.thy ===== *)
theory Engine_Refine imports Engine_Spec begin

text \<open>
  The loops of the engine implement \<open>Engine_Spec\<close>. The operations of a loop body only add to the
  proposals, the blocked identities and the warnings, so they commute with \<open>add_walk\<close>; the order
  loop is then the sum of what each order contributes, and \<open>settled\<close> is its invariant: what the loop
  blocked so far never concerns an order still to come.
\<close>

section \<open>Walks that only add\<close>

definition add_walk :: "walk \<Rightarrow> walk \<Rightarrow> walk" where
  "add_walk w v = w\<lparr>w_proposals := w_proposals w @ w_proposals v,
     w_blocked := w_blocked w \<union> w_blocked v, w_warnings := w_warnings w \<union> w_warnings v\<rparr>"

named_theorems add_walk_simps \<open>an operation commutes with \<open>add_walk\<close>\<close>

lemma add_walk_fields [simp]:
  "w_proposals (add_walk w v) = w_proposals w @ w_proposals v"
  "w_blocked (add_walk w v) = w_blocked w \<union> w_blocked v"
  "w_warnings (add_walk w v) = w_warnings w \<union> w_warnings v"
  "w_matched (add_walk w v) = w_matched w"
  "w_confidence (add_walk w v) = w_confidence w"
  "w_claimed (add_walk w v) = w_claimed w"
  by (simp_all add: add_walk_def)

lemma add_walk_initial: "add_walk w initial_walk = w"
  by (simp add: add_walk_def initial_walk_def)

lemma emit_add_walk [add_walk_simps]:
  "emit H s rule ids risk conf el facts (add_walk w v) = add_walk w (emit H s rule ids risk conf el facts v)"
  by (simp add: emit_def add_walk_def)

lemma block_add_walk [add_walk_simps]: "block ids (add_walk w v) = add_walk w (block ids v)"
  by (simp add: block_def add_walk_def Un_assoc)

lemma warn_add_walk [add_walk_simps]: "warn m (add_walk w v) = add_walk w (warn m v)"
  by (simp add: warn_def add_walk_def)

lemma emit_payment_add_walk [add_walk_simps]:
  "emit_payment H s d grp conf p (add_walk w v) = add_walk w (emit_payment H s d grp conf p v)"
  by (simp add: emit_payment_def Let_def add_walk_simps)

lemma fold_add_walk: "(\<And>x v. f x (add_walk w v) = add_walk w (f x v)) \<Longrightarrow> fold f xs (add_walk w v) = add_walk w (fold f xs v)"
  by (induction xs arbitrary: v) simp_all

lemma payment_rules_add_walk [add_walk_simps]:
  "payment_rules H s d grp conf ids (add_walk w v) = add_walk w (payment_rules H s d grp conf ids v)"
  by (simp add: payment_rules_def emit_duplicate_def emit_unfunded_def Let_def add_walk_simps fold_add_walk
      split: list.split)

lemma refund_rules_add_walk:
  "refund_rules H s d grp conf (add_walk w v) = map_sum id (add_walk w) (refund_rules H s d grp conf v)"
  by (cases "mk_money \<bar>sum_minor (stripe_refunds s grp) - minor (ord_refunded d)\<bar> (currency (ord_amount d)) (exponent (ord_amount d))")
    (simp_all add: refund_rules_def emit_refund_def Let_def add_walk_simps)

text \<open>What one auditable order contributes.\<close>

definition order_part :: "digest \<Rightarrow> snapshot \<Rightarrow> order \<Rightarrow> walk result" where
  "order_part H s d = refund_rules H s d (group_of s d) (match_confidence s d)
     (payment_rules H s d (group_of s d) (match_confidence s d) (order_ids s d) initial_walk)"

lemma rules_order_part:
  "refund_rules H s d (group_of s d) (match_confidence s d)
     (payment_rules H s d (group_of s d) (match_confidence s d) (order_ids s d) w)
   = map_sum id (add_walk w) (order_part H s d)"
  unfolding order_part_def
  by (subst add_walk_initial[symmetric], subst payment_rules_add_walk, subst refund_rules_add_walk, rule refl)

section \<open>What is blocked when the order loop starts\<close>

lemma match_order_blocked: "w_blocked (match_order H s d w) = w_blocked w \<union>
    (if stripe_method d \<and> match_conflict s d
     then insert (order_key (ord_id d)) (payment_key ` resolved_of s d) else {})"
  by (simp add: match_order_def Let_def)

lemma fold_match_blocked: "w_blocked (fold (match_order H s) ds w) = w_blocked w \<union>
    (\<Union>d \<in> {d \<in> set ds. stripe_method d \<and> match_conflict s d}.
      insert (order_key (ord_id d)) (payment_key ` resolved_of s d))"
  by (induction ds arbitrary: w) (auto simp: match_order_blocked)

lemma fold_claim_blocked: "w_blocked (fold (claim_conflict H s) cs w) = w_blocked w \<union>
    (\<Union>(pid, oids) \<in> {(pid, oids). (pid, oids) \<in> set cs \<and> 1 < length oids}.
      insert (payment_key pid) (order_key ` set oids))"
  by (induction cs arbitrary: w) (auto simp: claim_conflict_def Let_def split: prod.splits)

lemma assoc_mem: "distinct (map fst al) \<Longrightarrow> (k, v) \<in> set al \<longleftrightarrow> k \<in> set (map fst al) \<and> assoc al k = v"
proof (induction al)
  case (Cons a al)
  obtain k' v' where a: "a = (k', v')" by (cases a)
  have "(k', v) \<notin> set al" using Cons.prems by (auto simp: a image_iff)
  with Cons show ?case by (auto simp: a)
qed simp

lemma claimed_mem:
  assumes "well_formed s"
  shows "(pid, oids) \<in> set (w_claimed (walk1 H s)) \<longleftrightarrow> oids = claimants s pid \<and> oids \<noteq> []"
  unfolding assoc_mem[OF claimed_assoc(3)[OF assms]] claimed_assoc(1,2)[OF assms] by auto

lemma contested_payment: "contested s p \<Longrightarrow> p \<in> set (snap_payments s)"
  by (auto simp: contested_def linked_payment)

lemma many_claimants:
  assumes wf: "well_formed s"
  shows "1 < length (claimants s pid) \<longleftrightarrow> (\<exists>p. contested s p \<and> pay_id p = pid)"
proof
  assume a: "1 < length (claimants s pid)"
  then have "set (claimants s pid) \<noteq> {}" by auto
  then obtain d p where "linked s d p" "pay_id p = pid"
    unfolding claimants_set(1)[OF wf, of pid] by blast
  with a show "\<exists>p. contested s p \<and> pay_id p = pid"
    using contested_iff[OF wf linked_payment] by metis
qed (use contested_iff[OF wf contested_payment] in auto)

lemma walk2_order_key:
  assumes wf: "well_formed s" and m: "matchable s d"
  shows "order_key (ord_id d) \<in> w_blocked (walk2 H s) \<longleftrightarrow> (\<exists>p. linked s d p \<and> contested s p)"
proof -
  have many: "Suc 0 < length (claimants s pid) \<Longrightarrow> claimants s pid \<noteq> []" for pid by auto
  have none: "order_key (ord_id d) \<notin> w_blocked (walk1 H s)"
    using m order_by_id[OF wf]
    by (auto simp: walk1_def match_orders_def initial_walk_def fold_match_blocked matchable_def)
  have mem: "ord_id d \<in> set (claimants s pid) \<longleftrightarrow> (\<exists>p. linked s d p \<and> pay_id p = pid)" for pid
    using m order_by_id[OF wf] by (auto simp: claimants_set(1)[OF wf] matchable_def)
  have "order_key (ord_id d) \<in> w_blocked (walk2 H s) \<longleftrightarrow>
      (\<exists>pid. 1 < length (claimants s pid) \<and> ord_id d \<in> set (claimants s pid))"
    using none many by (auto simp: walk2_def claim_conflicts_def fold_claim_blocked claimed_mem[OF wf])
  also have "\<dots> \<longleftrightarrow> (\<exists>p. linked s d p \<and> contested s p)"
    unfolding mem many_claimants[OF wf]
    using linked_by_id[OF well_formedD(1)[OF wf]] contested_payment by metis
  finally show ?thesis .
qed

lemma walk2_payment_key:
  assumes wf: "well_formed s" and p: "p \<in> set (snap_payments s)"
  shows "payment_key (pay_id p) \<in> w_blocked (walk2 H s) \<longleftrightarrow> contested s p \<or> disputed s p"
proof -
  have many: "Suc 0 < length (claimants s pid) \<Longrightarrow> claimants s pid \<noteq> []" for pid by auto
  have "payment_key (pay_id p) \<in> w_blocked (walk2 H s) \<longleftrightarrow>
      payment_key (pay_id p) \<in> w_blocked (walk1 H s) \<or> 1 < length (claimants s (pay_id p))"
    using many by (auto simp: walk2_def claim_conflicts_def fold_claim_blocked claimed_mem[OF wf])
  moreover have "payment_key (pay_id p) \<in> w_blocked (walk1 H s) \<longleftrightarrow> disputed s p"
    by (auto simp: walk1_def match_orders_def initial_walk_def fold_match_blocked disputed_def)
  ultimately show ?thesis using contested_iff[OF wf p] by blast
qed

lemma clear_iff:
  assumes wf: "well_formed s" and m: "matchable s d"
  shows "clear s d \<longleftrightarrow> (\<forall>i \<in> set (order_ids s d). i \<notin> w_blocked (walk2 H s))"
proof -
  have g: "p \<in> set (group_of s d) \<longleftrightarrow> linked s d p" for p
    using set_group_of(1)[OF well_formedD(1)[OF wf]] by auto
  show ?thesis
    using walk2_order_key[OF wf m] walk2_payment_key[OF wf linked_payment] m
    by (auto simp: clear_def order_ids_def g)
qed


section \<open>The order loop\<close>

definition order_blocks :: "digest \<Rightarrow> snapshot \<Rightarrow> order \<Rightarrow> string set \<Rightarrow> bool" where
  "order_blocks H s d B \<longleftrightarrow> B \<subseteq> set (order_ids s d)"

text \<open>What the loop blocked so far (\<open>B\<close>) beyond \<open>walk2\<close> belongs to the orders \<open>ds\<close> it visited.\<close>

definition settled :: "digest \<Rightarrow> snapshot \<Rightarrow> order list \<Rightarrow> walk \<Rightarrow> bool" where
  "settled H s ds w \<longleftrightarrow>
     w_matched w = w_matched (walk2 H s) \<and> w_confidence w = w_confidence (walk2 H s) \<and>
     w_claimed w = w_claimed (walk2 H s) \<and>
     w_blocked (walk2 H s) \<subseteq> w_blocked w \<and>
     w_blocked w \<subseteq> w_blocked (walk2 H s) \<union> (\<Union>d \<in> {d \<in> set ds. matchable s d}. set (order_ids s d))"

lemma blocked_later:
  assumes wf: "well_formed s" and st: "settled H s ds w" and m: "matchable s d" and d: "d \<notin> set ds"
    and i: "i \<in> set (order_ids s d)"
  shows "i \<in> w_blocked w \<longleftrightarrow> i \<in> w_blocked (walk2 H s)"
proof
  note g = set_group_of(1)[OF well_formedD(1)[OF wf]]
  assume "i \<in> w_blocked w"
  then consider "i \<in> w_blocked (walk2 H s)" | d' where "d' \<in> set ds" "matchable s d'" "i \<in> set (order_ids s d')"
    using st by (auto simp: settled_def)
  then show "i \<in> w_blocked (walk2 H s)"
  proof cases
    case 2
    have ne: "d' \<noteq> d" using 2(1) d by auto
    then have "ord_id d' \<noteq> ord_id d" using order_by_id[OF wf] 2(2) m by (auto simp: matchable_def)
    then obtain p p' where p: "linked s d p" "linked s d' p'" "pay_id p = pay_id p'" "i = payment_key (pay_id p)"
      using i 2(3) by (auto simp: order_ids_def g)
    then have "linked s d' p" using linked_by_id[OF well_formedD(1)[OF wf]] linked_payment by metis
    then have "contested s p" using p(1) 2(2) m ne unfolding contested_def by blast
    then show ?thesis using walk2_payment_key[OF wf linked_payment[OF p(1)]] p(4) by simp
  qed
qed (use st in \<open>auto simp: settled_def\<close>)

lemma walk2_maps:
  assumes wf: "well_formed s"
  shows "matchable s d \<Longrightarrow> w_matched (walk2 H s) (ord_id d) = Some (group_of s d)"
    and "matchable s d \<Longrightarrow> w_confidence (walk2 H s) (ord_id d) = Some (match_confidence s d)"
    and "d \<in> set (snap_orders s) \<Longrightarrow> \<not> matchable s d \<Longrightarrow> w_matched (walk2 H s) (ord_id d) = None"
proof -
  note maps = match_orders_maps[OF well_formedD(2)[OF wf], where H = H]
  show "w_matched (walk2 H s) (ord_id d) = Some (group_of s d)" if "matchable s d"
    using that maps(1) by (auto simp: walk2_def walk1_def)
  show "w_confidence (walk2 H s) (ord_id d) = Some (match_confidence s d)" if "matchable s d"
    using that maps(2) by (auto simp: walk2_def walk1_def)
  show "w_matched (walk2 H s) (ord_id d) = None" if "d \<in> set (snap_orders s)" "\<not> matchable s d"
  proof (rule ccontr)
    assume "w_matched (walk2 H s) (ord_id d) \<noteq> None"
    then obtain d' where "matchable s d'" "ord_id d' = ord_id d"
      using maps(1)[of "ord_id d"] by (auto simp: walk2_def walk1_def)
    then show False using that order_by_id[OF wf] by (auto simp: matchable_def)
  qed
qed

text \<open>One turn of the loop, for an order that was not visited before.\<close>

definition order_gate :: "snapshot \<Rightarrow> order \<Rightarrow> walk" where
  "order_gate s d =
     (if (\<forall>p. linked s d p \<longrightarrow> \<not> contested s p) then
        (if ord_created d < from_of s
         then warn (''history_outside_coverage:'' @ order_key (ord_id d)) (block (order_ids s d) initial_walk)
         else block (order_ids s d) initial_walk)
      else initial_walk)"

definition order_step :: "digest \<Rightarrow> snapshot \<Rightarrow> order \<Rightarrow> walk result" where
  "order_step H s d =
     (if \<not> matchable s d then Inr initial_walk
      else if auditable s d then order_part H s d
      else Inr (order_gate s d))"

lemma audit_order_step:
  assumes wf: "well_formed s" and st: "settled H s ds w" and d: "d \<in> set (snap_orders s)" "d \<notin> set ds"
  shows "audit_order H s d w = map_sum id (add_walk w) (order_step H s d)"
proof (cases "matchable s d")
  case False
  then have "w_matched w (ord_id d) = None" using walk2_maps(3)[OF wf d(1)] st by (simp add: settled_def)
  then show ?thesis using False by (simp add: audit_order_def Let_def order_step_def add_walk_initial)
next
  case m: True
  have maps: "w_matched w (ord_id d) = Some (group_of s d)" "w_confidence w (ord_id d) = Some (match_confidence s d)"
    using walk2_maps(1,2)[OF wf m] st by (simp_all add: settled_def)
  have ids: "order_key (ord_id d) # map (\<lambda>p. payment_key (pay_id p)) (group_of s d) = order_ids s d"
    by (simp add: order_ids_def)
  have later: "i \<in> w_blocked w \<longleftrightarrow> i \<in> w_blocked (walk2 H s)" if "i \<in> set (order_ids s d)" for i
    by (rule blocked_later[OF wf st m d(2) that])
  have key: "order_key (ord_id d) \<in> w_blocked w \<longleftrightarrow> (\<exists>p. linked s d p \<and> contested s p)"
    using later walk2_order_key[OF wf m] by (simp add: order_ids_def)
  have any: "list_ex (\<lambda>i. i \<in> w_blocked w) (order_ids s d) \<longleftrightarrow> \<not> clear s d"
    using later clear_iff[OF wf m] by (auto simp: list_ex_iff)
  have times: "list_ex (\<lambda>t. through_of s < t) (ord_changed d # map pay_changed (group_of s d)) \<longleftrightarrow>
      \<not> (ord_changed d \<le> through_of s \<and> (\<forall>p. linked s d p \<longrightarrow> pay_changed p \<le> through_of s))"
    using set_group_of(1)[OF well_formedD(1)[OF wf], of d] by (auto simp: list_ex_iff not_le)
  have gate: "block ids w = add_walk w (block ids initial_walk)"
    "warn x (block ids w) = add_walk w (warn x (block ids initial_walk))" for ids x
    by (simp_all add: add_walk_initial flip: block_add_walk warn_add_walk)
  have clear: "clear s d \<Longrightarrow> \<not> (\<exists>p. linked s d p \<and> contested s p)" by (auto simp: clear_def)
  have step: "audit_order H s d w =
    (if \<exists>p. linked s d p \<and> contested s p then Inr w
     else if ord_created d < from_of s then
       Inr (warn (''history_outside_coverage:'' @ order_key (ord_id d)) (block (order_ids s d) w))
     else if \<not> clear s d then Inr (block (order_ids s d) w)
     else if \<not> (ord_changed d \<le> through_of s \<and> (\<forall>p. linked s d p \<longrightarrow> pay_changed p \<le> through_of s))
       then Inr (block (order_ids s d) w)
     else map_sum id (add_walk w) (order_part H s d))"
    unfolding audit_order_def Let_def maps option.case prod.case ids key any times rules_order_part
    by (rule refl)
  show ?thesis
  proof (cases "auditable s d")
    case True
    then have "\<not> ord_created d < from_of s" "clear s d"
      "ord_changed d \<le> through_of s \<and> (\<forall>p. linked s d p \<longrightarrow> pay_changed p \<le> through_of s)"
      by (auto simp: auditable_def)
    moreover from this clear have "(\<exists>p. linked s d p \<and> contested s p) = False" by blast
    ultimately show ?thesis unfolding step using True m by (simp only: order_step_def) simp
  next
    case False
    define c where "c \<longleftrightarrow> (\<exists>p. linked s d p \<and> contested s p)"
    have og: "order_gate s d =
      (if c then initial_walk else if ord_created d < from_of s
         then warn (''history_outside_coverage:'' @ order_key (ord_id d)) (block (order_ids s d) initial_walk)
         else block (order_ids s d) initial_walk)"
      by (auto simp: order_gate_def c_def)
    define t where "t \<longleftrightarrow> ord_changed d \<le> through_of s \<and> (\<forall>p. linked s d p \<longrightarrow> pay_changed p \<le> through_of s)"
    have "auditable s d \<longleftrightarrow> clear s d \<and> from_of s \<le> ord_created d \<and> t" by (simp add: auditable_def t_def)
    with False show ?thesis
      unfolding step c_def[symmetric] t_def[symmetric] order_step_def using m
      by (simp add: og gate add_walk_initial)
  qed
qed


lemma order_part_blocked: "order_part H s d = Inr v \<Longrightarrow> w_blocked v \<subseteq> set (order_ids s d)"
proof -
  have pay: "w_blocked (payment_rules H s d grp conf ids w) = w_blocked w" for grp conf ids w
  proof -
    have "w_blocked (fold (emit_payment H s d grp conf) ps w) = w_blocked w" for ps w
      by (induction ps arbitrary: w) (simp_all add: emit_payment_def Let_def)
    then show ?thesis
      by (simp add: payment_rules_def emit_duplicate_def emit_unfunded_def Let_def split: list.split)
  qed
  assume "order_part H s d = Inr v"
  then show ?thesis
    by (auto simp: order_part_def refund_rules_def emit_refund_def Let_def pay initial_walk_def order_ids_def
        split: if_splits elim!: rbindE)
qed

lemma order_step_blocked: "order_step H s d = Inr v \<Longrightarrow>
    w_blocked v \<subseteq> (if matchable s d then set (order_ids s d) else {})"
  using order_part_blocked
  by (auto simp: order_step_def order_gate_def initial_walk_def split: if_splits)

text \<open>The loop is the sum of the contributions of its orders.\<close>

lemma walk_orders_sum:
  assumes wf: "well_formed s"
  shows "distinct ds' \<Longrightarrow> set ds \<inter> set ds' = {} \<Longrightarrow> set ds' \<subseteq> set (snap_orders s) \<Longrightarrow> settled H s ds w \<Longrightarrow>
    fold_res (audit_order H s) ds' w
      = map_sum id (foldl add_walk w) (map_res (order_step H s) ds')"
proof (induction ds' arbitrary: ds w)
  case Nil
  show ?case by simp
next
  case (Cons d ds')
  have step: "audit_order H s d w = map_sum id (add_walk w) (order_step H s d)"
    by (rule audit_order_step[OF wf Cons.prems(4)]) (use Cons.prems in auto)
  show ?case
  proof (cases "order_step H s d")
    case (Inl e)
    then show ?thesis by (simp add: step)
  next
    case (Inr v)
    have "settled H s (d # ds) (add_walk w v)"
      using Cons.prems(4) order_step_blocked[OF Inr] by (auto simp: settled_def split: if_splits)
    then have "fold_res (audit_order H s) ds' (add_walk w v)
        = map_sum id (foldl add_walk (add_walk w v)) (map_res (order_step H s) ds')"
      by (intro Cons.IH[of "d # ds"]) (use Cons.prems in auto)
    then show ?thesis
      by (cases "map_res (order_step H s) ds'") (simp_all add: step Inr)
  qed
qed


section \<open>The findings as lists of drafts\<close>

definition raised :: "digest \<Rightarrow> snapshot \<Rightarrow> draft list \<Rightarrow> proposal list" where
  "raised H s cs = map (propose H s) (filter (\<lambda>c. dr_rule c \<in> set (enabled_rules s)) cs)"

lemma raised_append [simp]: "raised H s (xs @ ys) = raised H s xs @ raised H s ys"
  by (simp add: raised_def)

lemma raised_Nil [simp]: "raised H s [] = []"
  by (simp add: raised_def)

lemma raised_concat: "raised H s (concat css) = concat (map (raised H s) css)"
  by (induction css) simp_all

lemma emit_raised: "w_proposals (emit H s rule ids risk conf el facts w)
    = w_proposals w @ raised H s [mk_draft rule ids risk conf el facts]"
  by (simp add: emit_proposals raised_def propose_draft)

definition payment_drafts :: "snapshot \<Rightarrow> order \<Rightarrow> payment \<Rightarrow> draft list" where
  "payment_drafts s d p =
     (let pair = [order_key (ord_id d), payment_key (pay_id p)] in
      (if ord_status d \<in> set UNPAID then [mk_draft ''PI-001'' pair (Some (pay_received p))
         (match_confidence s d) (eligible_from s p) (facts_of s d)] else []) @
      (if pay_received p \<noteq> ord_amount d then [mk_draft ''PI-005'' pair (Some (pay_received p))
         (match_confidence s d) (eligible_from s p) (facts_of s d)] else []))"

definition group_drafts :: "snapshot \<Rightarrow> order \<Rightarrow> draft list" where
  "group_drafts s d =
     (if 1 < length (paid_group s d) \<and> \<not> corrected_duplicate s (group_of s d)
      then [mk_draft ''PI-004'' (order_ids s d) (Some (ord_amount d)) (match_confidence s d)
        (duplicate_eligible s d) (facts_of s d)] else []) @
     (if paid_group s d = [] \<and> ord_status d \<in> set PAID
      then [mk_draft ''PI-003'' [order_key (ord_id d)] (Some (ord_amount d)) (match_confidence s d)
        ((case ord_paid d of Some t \<Rightarrow> t | None \<Rightarrow> ord_changed d) + pol_instant (snap_policy s))
        (facts_of s d @ [(''candidate_payment_ids'', strs_json (candidate_ids s d)),
          (''candidate_confidence'', JInt (candidate_confidence s d))])] else []) @
     concat (map (payment_drafts s d) (paid_group s d))"

definition refund_drafts :: "snapshot \<Rightarrow> order \<Rightarrow> draft list" where
  "refund_drafts s d =
     (let conf = match_confidence s d; oid = [order_key (ord_id d)];
          sr = sum_minor (refunds_of s d); wr = minor (ord_refunded d);
          facts = refund_facts s d (group_of s d) in
      if \<not> refunds_settled s d then []
      else if \<not> refund_currency_ok s d then [mk_draft ''PI-008'' oid (Some (ord_refunded d)) conf
        (max_of (ord_changed d) (map ref_changed (refunds_of s d @ woo_refunds s d)) + pol_refund (snap_policy s))
        (facts_of s d @ [(''reason'', JStr ''refund_currency_conflict'')])]
      else if \<not> comparable s d then []
      else if sr \<noteq> 0 \<and> wr = 0
        then [mk_draft ''PI-006'' oid (Some (refund_gap s d)) conf (refund_eligible s d) facts]
      else if (wr \<noteq> 0 \<or> ord_status d = ''refunded'') \<and> sr = 0
        then [mk_draft ''PI-007'' oid (Some (woo_only_risk s d)) conf
          (refund_eligible s d) facts]
      else if sr \<noteq> wr
        then [mk_draft ''PI-008'' oid (Some (refund_gap s d)) conf (refund_eligible s d) facts]
      else [])"

lemma payment_rules_drafts:
  "w_proposals (payment_rules H s d (group_of s d) (match_confidence s d) (order_ids s d) w)
    = w_proposals w @ raised H s (group_drafts s d)"
proof -
  have pay: "w_proposals (fold (emit_payment H s d (group_of s d) (match_confidence s d)) ps w)
      = w_proposals w @ raised H s (concat (map (payment_drafts s d) ps))" for ps w
    by (induction ps arbitrary: w)
      (simp_all add: emit_payment_def Let_def emit_raised payment_drafts_def)
  show ?thesis
    unfolding payment_rules_def pay
    by (auto simp: emit_duplicate_def emit_unfunded_def Let_def emit_raised group_drafts_def
        candidate_confidence_def duplicate_eligible_def split: list.split)
qed

lemma refund_rules_drafts:
  assumes "auditable s d"
    and "refund_rules H s d (group_of s d) (match_confidence s d) w = Inr v"
  shows "w_proposals v = w_proposals w @ raised H s (refund_drafts s d)"
proof -
  let ?both = "refunds_of s d @ woo_refunds s d"
  have settled: "list_ex (\<lambda>r. through_of s < ref_changed r) ?both \<longleftrightarrow> \<not> refunds_settled s d"
    using assms(1) by (auto simp: refunds_settled_def list_ex_iff not_le)
  have cur: "list_ex (\<lambda>r. \<not> same_currency (ref_amount r) (ord_amount d)) ?both \<longleftrightarrow> \<not> refund_currency_ok s d"
    by (simp add: refund_currency_ok_def list_ex_iff)
  have ex: "minor (ord_amount d) < minor (ord_refunded d) \<or>
      list_ex (over_refunded (refunds_of s d)) (paid_group s d) \<longleftrightarrow> refund_exceeds s d"
    by (simp add: refund_exceeds_def list_ex_iff)
  have gap: "mk_money \<bar>sum_minor (refunds_of s d) - minor (ord_refunded d)\<bar> (currency (ord_amount d))
      (exponent (ord_amount d)) = Inr m \<Longrightarrow> m = refund_gap s d" for m
    by (simp add: mk_money_Inr refund_gap_def)
  note rr = assms(2)[unfolded refund_rules_def Let_def settled cur ex woo_inconsistent_def[symmetric]]
  show ?thesis
    using rr gap
    by (auto simp: refund_drafts_def Let_def comparable_def emit_refund_def refund_eligible_def emit_raised
        woo_only_risk_def
        split: if_splits elim!: rbindE)
qed

lemma order_part_drafts:
  assumes "auditable s d" and "order_part H s d = Inr v"
  shows "w_proposals v = raised H s (group_drafts s d @ refund_drafts s d)"
  using refund_rules_drafts[OF assms(1) assms(2)[unfolded order_part_def]]
  by (simp add: payment_rules_drafts initial_walk_def)

definition order_drafts :: "snapshot \<Rightarrow> order \<Rightarrow> draft list" where
  "order_drafts s d = (if auditable s d then group_drafts s d @ refund_drafts s d else [])"

lemma order_step_drafts: "order_step H s d = Inr v \<Longrightarrow> w_proposals v = raised H s (order_drafts s d)"
  using order_part_drafts[of s d H v]
  by (auto simp: order_step_def order_drafts_def order_gate_def initial_walk_def auditable_def clear_def
      split: if_splits)


section \<open>The conflict phases as drafts\<close>

definition conflict_drafts :: "snapshot \<Rightarrow> order \<Rightarrow> draft list" where
  "conflict_drafts s d =
     (if stripe_method d \<and> match_conflict s d
      then [mk_draft ''PI-010'' (order_key (ord_id d) # map payment_key (sorted_list_of_set (resolved_of s d)))
        (Some (ord_amount d)) 100 (now_of s)
        [(''reason'', JStr ''conflicting_or_unresolved_exact_identifiers''), (''order'', order_json d),
         (''references'', strs_json (order_refs d)), (''unresolved'', strs_json (unknown_refs s d))]]
      else [])"

definition claim_drafts :: "snapshot \<Rightarrow> string \<times> string list \<Rightarrow> draft list" where
  "claim_drafts s claim = (case claim of (pid, oids) \<Rightarrow>
     if 1 < length oids
     then [mk_draft ''PI-010'' (payment_key pid # map order_key oids)
        (map_option pay_received (find_payment s pid)) 100 (now_of s)
        [(''reason'', JStr ''payment_claimed_by_multiple_orders''), (''payment_id'', JStr pid),
         (''order_ids'', strs_json (sort oids))]]
     else [])"

lemma walk1_drafts: "w_proposals (walk1 H s) = raised H s (concat (map (conflict_drafts s) (sorted_orders s)))"
proof -
  have "w_proposals (fold (match_order H s) ds w)
      = w_proposals w @ raised H s (concat (map (conflict_drafts s) ds))" for ds w
    by (induction ds arbitrary: w)
      (simp_all add: match_order_def Let_def emit_raised conflict_drafts_def)
  then show ?thesis by (simp add: walk1_def match_orders_def initial_walk_def)
qed

lemma walk2_drafts: "w_proposals (walk2 H s) = w_proposals (walk1 H s) @
    raised H s (concat (map (claim_drafts s) (sort_key fst (w_claimed (walk1 H s)))))"
proof -
  have "w_proposals (fold (claim_conflict H s) cs w)
      = w_proposals w @ raised H s (concat (map (claim_drafts s) cs))" for cs w
    by (induction cs arbitrary: w)
      (auto simp: claim_conflict_def Let_def emit_raised claim_drafts_def split: prod.splits)
  then show ?thesis by (simp add: walk2_def claim_conflicts_def)
qed

section \<open>The payment loop\<close>

definition late_drafts :: "snapshot \<Rightarrow> payment \<Rightarrow> draft list" where
  "late_drafts s p =
     (if unclaimed s p \<and> pay_status p = ''succeeded'' \<and> pay_changed p \<le> through_of s \<and>
         from_of s \<le> pay_created p \<and> pay_store_hint p = snap_store s
      then [mk_draft ''PI-002'' [payment_key (pay_id p)] (Some (pay_received p)) 90 (eligible_from s p)
        [(''payment'', payment_json p), (''confirmed_store_id'', JStr (snap_store s))]]
      else [])"

lemma audit_payment_blocked: "w_blocked (audit_payment H s p w) \<subseteq> insert (payment_key (pay_id p)) (w_blocked w)"
  by (auto simp: audit_payment_def Let_def)

lemma audit_payment_claimed [simp]: "w_claimed (audit_payment H s p w) = w_claimed w"
  by (simp add: audit_payment_def Let_def)

lemma audit_payments_drafts:
  assumes un: "\<And>p. p \<in> set ps \<Longrightarrow>
      pay_id p \<notin> set (map fst (w_claimed w)) \<and> payment_key (pay_id p) \<notin> w_blocked w \<longleftrightarrow> unclaimed s p"
    and d: "distinct (map pay_id ps)"
  shows "w_proposals (fold (audit_payment H s) ps w) = w_proposals w @ raised H s (concat (map (late_drafts s) ps))"
  using assms
proof (induction ps arbitrary: w)
  case Nil
  show ?case by simp
next
  case (Cons p ps)
  have here: "w_proposals (audit_payment H s p w) = w_proposals w @ raised H s (late_drafts s p)"
    using Cons.prems(1)[of p]
    by (simp add: audit_payment_def Let_def late_drafts_def emit_raised not_le not_less) (auto simp: not_le not_less)
  have "w_proposals (fold (audit_payment H s) ps (audit_payment H s p w))
      = w_proposals (audit_payment H s p w) @ raised H s (concat (map (late_drafts s) ps))"
  proof (rule Cons.IH)
    fix q assume q: "q \<in> set ps"
    then have ne: "pay_id q \<noteq> pay_id p" using Cons.prems(2) by (metis distinct.simps(2) image_eqI list.simps(9) set_map)
    have "payment_key (pay_id q) \<in> w_blocked (audit_payment H s p w) \<longleftrightarrow> payment_key (pay_id q) \<in> w_blocked w"
      using ne by (auto simp: audit_payment_def Let_def)
    then show "pay_id q \<notin> set (map fst (w_claimed (audit_payment H s p w))) \<and>
        payment_key (pay_id q) \<notin> w_blocked (audit_payment H s p w) \<longleftrightarrow> unclaimed s q"
      using Cons.prems(1)[of q] q by simp
  next
    show "distinct (map pay_id ps)" using Cons.prems(2) by simp
  qed
  then show ?case by (simp add: here)
qed


section \<open>The whole evaluation\<close>

definition all_drafts :: "digest \<Rightarrow> snapshot \<Rightarrow> draft list" where
  "all_drafts H s =
     concat (map (conflict_drafts s) (sorted_orders s)) @
     concat (map (claim_drafts s) (sort_key fst (w_claimed (walk1 H s)))) @
     concat (map (order_drafts s) (sorted_orders s)) @
     concat (map (late_drafts s) (sorted_payments s))"

lemma settled_start: "settled H s [] (walk2 H s)"
  by (simp add: settled_def)

lemma foldl_add_walk:
  "w_proposals (foldl add_walk w vs) = w_proposals w @ concat (map w_proposals vs)"
  "w_blocked (foldl add_walk w vs) = w_blocked w \<union> \<Union> (w_blocked ` set vs)"
  "w_claimed (foldl add_walk w vs) = w_claimed w"
  by (induction vs arbitrary: w) auto

lemma map_res_relate:
  "map_res f xs = Inr ys \<Longrightarrow> (\<And>x y. x \<in> set xs \<Longrightarrow> f x = Inr y \<Longrightarrow> g y = h x) \<Longrightarrow> map g ys = map h xs"
  by (induction xs arbitrary: ys) auto

lemma walk_orders_run:
  assumes wf: "well_formed s"
  shows "walk_orders H s (walk2 H s)
    = map_sum id (foldl add_walk (walk2 H s)) (map_res (order_step H s) (sorted_orders s))"
  unfolding walk_orders_def
  by (rule walk_orders_sum[OF wf, of _ "[]"])
    (use distinct_sorted_orders[OF well_formedD(2)[OF wf]] settled_start in \<open>auto simp: distinct_map\<close>)

lemma walk_orders_drafts:
  assumes wf: "well_formed s" and run: "walk_orders H s (walk2 H s) = Inr w"
  shows "w_proposals w = w_proposals (walk2 H s) @ raised H s (concat (map (order_drafts s) (sorted_orders s)))"
    and "w_claimed w = w_claimed (walk1 H s)"
    and "p \<in> set (snap_payments s) \<Longrightarrow> pay_id p \<notin> set (map fst (w_claimed w)) \<Longrightarrow>
      payment_key (pay_id p) \<in> w_blocked w \<longleftrightarrow> payment_key (pay_id p) \<in> w_blocked (walk2 H s)"
proof -
  obtain vs where vs: "map_res (order_step H s) (sorted_orders s) = Inr vs"
    and w: "w = foldl add_walk (walk2 H s) vs"
    using run unfolding walk_orders_run[OF wf]
    by (cases "map_res (order_step H s) (sorted_orders s)") auto
  have "map w_proposals vs = map (\<lambda>d. raised H s (order_drafts s d)) (sorted_orders s)"
    by (rule map_res_relate[OF vs]) (rule order_step_drafts)
  then show "w_proposals w = w_proposals (walk2 H s) @ raised H s (concat (map (order_drafts s) (sorted_orders s)))"
    by (simp add: w foldl_add_walk raised_concat o_def)
  show cl: "w_claimed w = w_claimed (walk1 H s)"
    by (simp add: w foldl_add_walk walk2_def)
  assume p: "p \<in> set (snap_payments s)" and un: "pay_id p \<notin> set (map fst (w_claimed w))"
  have "payment_key (pay_id p) \<notin> w_blocked v" if v: "v \<in> set vs" for v
  proof
    assume i: "payment_key (pay_id p) \<in> w_blocked v"
    obtain d where "d \<in> set (sorted_orders s)" "order_step H s d = Inr v"
      using map_res_set[OF vs v] by blast
    from i order_step_blocked[OF this(2)] have "matchable s d" "payment_key (pay_id p) \<in> set (order_ids s d)"
      by (auto split: if_splits)
    then obtain q where "matchable s d" "linked s d q" "pay_id q = pay_id p"
      using set_group_of(1)[OF well_formedD(1)[OF wf]] by (auto simp: order_ids_def)
    then have "set (claimants s (pay_id p)) \<noteq> {}" unfolding claimants_set(1)[OF wf] by blast
    then have "pay_id p \<in> set (map fst (w_claimed w))"
      unfolding cl claimed_assoc(2)[OF wf] by auto
    with un show False by blast
  qed
  then show "payment_key (pay_id p) \<in> w_blocked w \<longleftrightarrow> payment_key (pay_id p) \<in> w_blocked (walk2 H s)"
    by (auto simp: w foldl_add_walk)
qed

lemma unclaimed_iff:
  assumes wf: "well_formed s" and run: "walk_orders H s (walk2 H s) = Inr w" and p: "p \<in> set (snap_payments s)"
  shows "pay_id p \<notin> set (map fst (w_claimed w)) \<and> payment_key (pay_id p) \<notin> w_blocked w \<longleftrightarrow> unclaimed s p"
proof -
  have "claimants s (pay_id p) \<noteq> [] \<longleftrightarrow> set (claimants s (pay_id p)) \<noteq> {}" by simp
  also have "\<dots> \<longleftrightarrow> (\<exists>d. matchable s d \<and> linked s d p)"
    unfolding claimants_set(1)[OF wf] using linked_by_id[OF well_formedD(1)[OF wf] _ _ p] by blast
  finally have cl: "pay_id p \<in> set (map fst (w_claimed w)) \<longleftrightarrow> (\<exists>d. matchable s d \<and> linked s d p)"
    unfolding walk_orders_drafts(2)[OF wf run] claimed_assoc(2)[OF wf] by simp
  have "contested s p \<Longrightarrow> \<exists>d. matchable s d \<and> linked s d p" by (auto simp: contested_def)
  then show ?thesis
    using cl walk_orders_drafts(3)[OF wf run p] walk2_payment_key[OF wf p] p unfolding unclaimed_def by blast
qed

lemma distinct_sorted_payments: "well_formed s \<Longrightarrow> distinct (map pay_id (sorted_payments s))"
  unfolding sorted_payments_def using well_formedD(1) by (metis mset_map mset_sort mset_eq_imp_distinct_iff)

lemma evaluate_trusted:
  assumes "well_formed s" "trusted s"
  shows "evaluate H s = full_evaluation H s"
  using assms by (simp add: evaluate_def well_formed_def trusted_def)

lemma full_evaluation_drafts:
  assumes wf: "well_formed s" and ev: "full_evaluation H s = Inr r"
  shows "ev_proposals r = sort_key prop_key (raised H s (all_drafts H s))"
proof -
  obtain w where run: "walk_orders H s (walk2 H s) = Inr w"
    and r: "ev_proposals r = sort_key prop_key (w_proposals (walk_payments H s w))"
    using ev by (auto simp: full_evaluation_def walk1_def walk2_def Let_def elim!: rbindE)
  have "w_proposals (walk_payments H s w)
      = w_proposals w @ raised H s (concat (map (late_drafts s) (sorted_payments s)))"
    unfolding walk_payments_def
    by (rule audit_payments_drafts[OF unclaimed_iff[OF wf run] distinct_sorted_payments[OF wf]]) simp
  then show ?thesis
    by (simp add: r walk_orders_drafts(1)[OF wf run] walk2_drafts walk1_drafts all_drafts_def)
qed

section \<open>The drafts are the findings that are due\<close>

lemma refunds_settled_auditable: "refunds_settled s d \<Longrightarrow> auditable s d"
  by (simp add: refunds_settled_def)

lemma comparable_settled: "comparable s d \<Longrightarrow> refunds_settled s d \<and> refund_currency_ok s d"
  by (simp add: comparable_def)

lemma auditable_order: "auditable s d \<Longrightarrow> d \<in> set (snap_orders s) \<and> matchable s d"
  by (simp add: auditable_def clear_def matchable_def)

lemma payment_drafts_due:
  "auditable s d \<Longrightarrow> p \<in> set (paid_group s d) \<Longrightarrow> c \<in> set (payment_drafts s d p) \<Longrightarrow> due s c"
  by (auto simp: payment_drafts_def Let_def intro: due.unpaid due.mismatch split: if_split_asm)

lemma group_drafts_due: "auditable s d \<Longrightarrow> c \<in> set (group_drafts s d) \<Longrightarrow> due s c"
  using payment_drafts_due[of s d]
  by (auto simp: group_drafts_def intro: due.unfunded due.duplicate split: if_split_asm)

lemma refund_drafts_due: "c \<in> set (refund_drafts s d) \<Longrightarrow> due s c"
  using due.refund_currency[of s d] due.only_stripe[of s d] due.only_woo[of s d] due.refund_mismatch[of s d]
  by (simp add: refund_drafts_def Let_def split: if_split_asm) (metis (no_types))

lemma order_drafts_due: "c \<in> set (order_drafts s d) \<Longrightarrow> due s c"
  by (auto simp: order_drafts_def split: if_split_asm intro: group_drafts_due refund_drafts_due)

lemma late_drafts_due: "c \<in> set (late_drafts s p) \<Longrightarrow> due s c"
  by (auto simp: late_drafts_def split: if_splits intro: due.intros)

lemma conflict_drafts_due: "d \<in> set (snap_orders s) \<Longrightarrow> c \<in> set (conflict_drafts s d) \<Longrightarrow> due s c"
  by (auto simp: conflict_drafts_def split: if_splits intro: due.intros)

lemma claim_drafts_due:
  assumes wf: "well_formed s" and "claim \<in> set (w_claimed (walk1 H s))" "c \<in> set (claim_drafts s claim)"
  shows "due s c"
proof -
  obtain pid where claim: "claim = (pid, claimants s pid)" and many: "1 < length (claimants s pid)"
    using assms claimed_mem[OF wf] by (cases claim) (auto simp: claim_drafts_def split: if_splits)
  then obtain p where p: "contested s p" "pay_id p = pid" using many_claimants[OF wf] by blast
  have "find_payment s pid = Some p"
    using find_payment_id[OF well_formedD(1)[OF wf] contested_payment[OF p(1)]] p(2) by simp
  then have "c = mk_draft ''PI-010'' (payment_key (pay_id p) # map order_key (claimants s (pay_id p)))
      (Some (pay_received p)) 100 (now_of s)
      [(''reason'', JStr ''payment_claimed_by_multiple_orders''), (''payment_id'', JStr (pay_id p)),
       (''order_ids'', strs_json (sort (claimants s (pay_id p))))]"
    using assms(3) many p by (simp add: claim claim_drafts_def)
  then show ?thesis using due.contested[OF contested_payment[OF p(1)] p(1)] by simp
qed

lemma all_draftsI:
  "c \<in> set (order_drafts s d) \<Longrightarrow> d \<in> set (snap_orders s) \<Longrightarrow> c \<in> set (all_drafts H s)"
  "c \<in> set (conflict_drafts s d) \<Longrightarrow> d \<in> set (snap_orders s) \<Longrightarrow> c \<in> set (all_drafts H s)"
  "c \<in> set (claim_drafts s claim) \<Longrightarrow> claim \<in> set (w_claimed (walk1 H s)) \<Longrightarrow> c \<in> set (all_drafts H s)"
  "c \<in> set (late_drafts s p) \<Longrightarrow> p \<in> set (snap_payments s) \<Longrightarrow> c \<in> set (all_drafts H s)"
  by (auto simp: all_drafts_def)

lemma refund_draftsI:
  "refunds_settled s d \<Longrightarrow> c \<in> set (refund_drafts s d) \<Longrightarrow> c \<in> set (all_drafts H s)"
  by (rule all_draftsI(1)[of _ s d]) (auto simp: order_drafts_def dest: refunds_settled_auditable auditable_order)

lemma group_draftsI:
  "auditable s d \<Longrightarrow> c \<in> set (group_drafts s d) \<Longrightarrow> c \<in> set (all_drafts H s)"
  by (rule all_draftsI(1)[of _ s d]) (auto simp: order_drafts_def dest: auditable_order)

lemma payment_draftsI:
  "auditable s d \<Longrightarrow> p \<in> set (paid_group s d) \<Longrightarrow> c \<in> set (payment_drafts s d p) \<Longrightarrow> c \<in> set (all_drafts H s)"
  by (rule group_draftsI[of s d]) (auto simp: group_drafts_def)

lemma due_draft:
  assumes wf: "well_formed s"
  shows "due s c \<Longrightarrow> c \<in> set (all_drafts H s)"
proof (induction rule: due.induct)
  case (conflict d)
  then show ?case by (intro all_draftsI(2)[of _ s d]) (simp_all add: conflict_drafts_def)
next
  case (contested p)
  have many: "1 < length (claimants s (pay_id p))" using contested contested_iff[OF wf] by blast
  then have "(pay_id p, claimants s (pay_id p)) \<in> set (w_claimed (walk1 H s))" by (auto simp: claimed_mem[OF wf])
  with many show ?case
    using find_payment_id[OF well_formedD(1)[OF wf] contested(1)]
    by (intro all_draftsI(3)[of _ s "(pay_id p, claimants s (pay_id p))"]) (simp_all add: claim_drafts_def)
next
  case (unattached p)
  then show ?case by (intro all_draftsI(4)[of _ s p]) (simp_all add: late_drafts_def unclaimed_def)
next
  case (unpaid d p)
  then show ?case by (intro payment_draftsI[of s d p]) (simp_all add: payment_drafts_def Let_def)
next
  case (mismatch d p)
  then show ?case by (intro payment_draftsI[of s d p]) (simp_all add: payment_drafts_def Let_def)
next
  case (unfunded d)
  then show ?case by (intro group_draftsI[of s d]) (simp_all add: group_drafts_def)
next
  case (duplicate d)
  then show ?case by (intro group_draftsI[of s d]) (simp_all add: group_drafts_def)
next
  case (only_stripe d)
  then show ?case
    by (intro refund_draftsI[of s d]) (simp_all add: refund_drafts_def Let_def comparable_settled)
next
  case (only_woo d)
  then show ?case
    by (intro refund_draftsI[of s d]) (simp_all add: refund_drafts_def Let_def comparable_settled)
next
  case (refund_mismatch d)
  then show ?case
    by (intro refund_draftsI[of s d]) (simp_all add: refund_drafts_def Let_def comparable_settled)
next
  case (refund_currency d)
  then show ?case
    by (intro refund_draftsI[of s d]) (simp_all add: refund_drafts_def Let_def comparable_settled)
qed

lemma all_drafts_due:
  assumes "well_formed s"
  shows "c \<in> set (all_drafts H s) \<longleftrightarrow> due s c"
proof
  assume "c \<in> set (all_drafts H s)"
  then show "due s c"
    by (auto simp: all_drafts_def dest: order_drafts_due late_drafts_due conflict_drafts_due claim_drafts_due[OF assms])
qed (rule due_draft[OF assms])

end
