(* ===== verification/Engine_Permute.thy ===== *)
theory Engine_Permute imports Engine_Refine begin

text \<open>
  The evaluation does not depend on the order in which the snapshot lists its payments, orders,
  refunds and coverage: each function of the engine either sorts such a list by an identity that
  is unique in it, or computes from its set or multiset. The two runs differ at most in the order
  in which claims were recorded, which \<open>same_walk\<close> abstracts from.
\<close>

definition permuted :: "snapshot \<Rightarrow> snapshot \<Rightarrow> bool" where
  "permuted s t \<longleftrightarrow> well_formed s \<and>
     mset (snap_payments s) = mset (snap_payments t) \<and> mset (snap_orders s) = mset (snap_orders t) \<and>
     mset (snap_refunds s) = mset (snap_refunds t) \<and> mset (snap_coverage s) = mset (snap_coverage t) \<and>
     snap_org s = snap_org t \<and> snap_store s = snap_store t \<and> snap_account s = snap_account t \<and>
     snap_mode s = snap_mode t \<and> snap_now s = snap_now t \<and> snap_from s = snap_from t \<and>
     snap_link_verified s = snap_link_verified t \<and> snap_link_conflict s = snap_link_conflict t \<and>
     snap_ambiguous s = snap_ambiguous t \<and> snap_policy s = snap_policy t"

named_theorems permuted_simps \<open>functions of the engine on a permuted snapshot\<close>

lemma mset_distinct_map: "mset xs = mset ys \<Longrightarrow> distinct (map f xs) \<longleftrightarrow> distinct (map f ys)"
  by (rule mset_eq_imp_distinct_iff) simp

lemma mset_list_all: "mset xs = mset ys \<Longrightarrow> list_all P xs \<longleftrightarrow> list_all P ys"
  by (auto simp: list_all_iff dest: mset_eq_setD)

lemma mset_map_of:
  assumes d: "distinct (map fst xs)" and m: "mset xs = mset ys"
  shows "map_of xs = map_of ys"
proof -
  have "distinct (map fst ys)" using d by (simp only: mset_distinct_map[OF m])
  from map_of_inject_set[OF d this] mset_eq_setD[OF m] show ?thesis by blast
qed

lemma sum_minor_mset: "mset rs = mset rs' \<Longrightarrow> sum_minor rs = sum_minor rs'"
  unfolding sum_minor_def by (simp flip: sum_mset_sum_list)

lemma sort_filter_unique:
  assumes "distinct (map f (filter P xs))" "mset xs = mset ys"
  shows "sort_key f (filter P xs) = sort_key f (filter P ys)"
  by (rule sort_key_unique[OF assms(1)]) (simp add: assms(2))

section \<open>The digest\<close>

lemma dumps_sorted_json: "mset xs = mset ys \<Longrightarrow> dumps (sorted_json f xs) = dumps (sorted_json f ys)"
proof -
  assume m: "mset xs = mset ys"
  have "map dumps (sort_key dumps (map f xs)) = sort (map dumps (map f xs))" by (rule map_sort_key_self)
  also have "\<dots> = sort (map dumps (map f ys))"
    by (rule properties_for_sort) (simp_all add: m)
  also have "\<dots> = map dumps (sort_key dumps (map f ys))" by (rule map_sort_key_self[symmetric])
  finally show ?thesis by (simp add: sorted_json_def canonical_def)
qed

lemma permuted_digest [permuted_simps]: "permuted s t \<Longrightarrow> input_digest H s = input_digest H t"
proof -
  assume p: "permuted s t"
  have "dumps (sorted_json payment_json (snap_payments s)) = dumps (sorted_json payment_json (snap_payments t))"
    "dumps (sorted_json order_json (snap_orders s)) = dumps (sorted_json order_json (snap_orders t))"
    "dumps (sorted_json refund_json (snap_refunds s)) = dumps (sorted_json refund_json (snap_refunds t))"
    "dumps (sorted_json coverage_json (snap_coverage s)) = dumps (sorted_json coverage_json (snap_coverage t))"
    using p by (auto simp: permuted_def intro!: dumps_sorted_json)
  then show ?thesis
    using p by (simp add: input_digest_def canonical_def ordered_input_def permuted_def now_of_def from_of_def
        del: sort_key_def)
qed

section \<open>The functions of the snapshot\<close>

lemma permuted_scalars [permuted_simps]:
  assumes "permuted s t"
  shows "now_of s = now_of t" "from_of s = from_of t" "enabled_rules s = enabled_rules t"
    "snap_policy s = snap_policy t" "snap_store s = snap_store t" "store_key s = store_key t"
    "hinted s p = hinted t p" "foreign_hint s d p = foreign_hint t d p" "grace p s = grace p t"
    "eligible_from s p = eligible_from t p" "snap_link_verified s = snap_link_verified t"
    "snap_link_conflict s = snap_link_conflict t"
  using assms
  by (simp_all add: permuted_def now_of_def from_of_def enabled_rules_def store_key_def hinted_def
      foreign_hint_def grace_def eligible_from_def)

lemma permuted_sets:
  assumes "permuted s t"
  shows "set (snap_payments s) = set (snap_payments t)" "set (snap_orders s) = set (snap_orders t)"
    "set (snap_refunds s) = set (snap_refunds t)"
  using assms by (auto simp: permuted_def dest: mset_eq_setD)

lemma permuted_wf: "permuted s t \<Longrightarrow> well_formed s"
  by (simp add: permuted_def)

lemma permuted_valid:
  assumes p: "permuted s t"
  shows "validate_snapshot s = validate_snapshot t"
proof -
  have m: "mset (snap_payments s) = mset (snap_payments t)" "mset (snap_orders s) = mset (snap_orders t)"
    "mset (snap_refunds s) = mset (snap_refunds t)" "mset (snap_coverage s) = mset (snap_coverage t)"
    using p by (simp_all add: permuted_def)
  show ?thesis
    unfolding validate_snapshot_def
    using p by (simp add: mset_distinct_map[OF m(1)] mset_distinct_map[OF m(2)] mset_distinct_map[OF m(3)]
        mset_distinct_map[OF m(4)] mset_list_all[OF m(1)] mset_list_all[OF m(2)] permuted_def now_of_def from_of_def)
qed


lemma perm_wf:
  assumes perm: "permuted s t"
  shows "well_formed t"
  using permuted_wf[OF perm] permuted_valid[OF perm] by (simp add: well_formed_def)

lemma perm_coverage:
  assumes perm: "permuted s t"
  shows "coverage_by_source s = coverage_by_source t"
  unfolding coverage_by_source_def
  by (rule mset_map_of) (use permuted_wf[OF perm] perm in \<open>auto simp: permuted_def o_def dest: well_formedD(3)\<close>)

lemma perm_stale:
  assumes perm: "permuted s t"
  shows "stale_sources s = stale_sources t" "through_of s = through_of t"
  by (simp_all add: stale_sources_def through_of_def perm_coverage[OF perm] permuted_scalars[OF perm] cong: option.case_cong)

lemma perm_find:
  assumes perm: "permuted s t"
  shows "find_payment s = find_payment t"
  unfolding find_payment_def
  by (rule mset_map_of) (use permuted_wf[OF perm] perm in \<open>auto simp: permuted_def o_def dest: well_formedD(1)\<close>)

lemma perm_targets:
  assumes perm: "permuted s t"
  shows "targets_of s ref = targets_of t ref" "resolved_of s d = resolved_of t d"
  "unknown_refs s d = unknown_refs t d"
  by (simp_all add: targets_of_eq permuted_sets[OF perm] resolved_of_eq unknown_refs_def)

lemma perm_hints:
  assumes perm: "permuted s t"
  shows "hints_of s oid = [] \<longleftrightarrow> hints_of t oid = []"
  by (simp add: hints_of_eq filter_empty_conv permuted_sets[OF perm] permuted_scalars[OF perm])

lemma perm_conflict:
  assumes perm: "permuted s t"
  shows "match_conflict s d = match_conflict t d"
proof -
  have "snap_ambiguous s = snap_ambiguous t" using perm by (simp add: permuted_def)
  then show ?thesis
    by (simp add: match_conflict_def perm_targets[OF perm] perm_hints[OF perm] perm_find[OF perm] permuted_scalars[OF perm]
        cong: option.case_cong)
qed

lemma perm_linked:
  assumes perm: "permuted s t"
  shows "linked s d p = linked t d p"
  by (simp add: linked_def permuted_sets[OF perm] permuted_scalars[OF perm])

lemma perm_candidates:
  assumes perm: "permuted s t"
  shows "mset (candidate_map s d) = mset (candidate_map t d)"
proof -
  note cs = candidate_map_spec[OF well_formedD(1)[OF permuted_wf[OF perm]], of d]
  note ct = candidate_map_spec[OF well_formedD(1)[OF perm_wf[OF perm]], of d]
  have "distinct (candidate_map s d)" "distinct (candidate_map t d)"
    using cs(2) ct(2) by (auto simp: distinct_map)
  moreover have "set (candidate_map s d) = set (candidate_map t d)"
    unfolding cs(1) ct(1) perm_linked[OF perm] by (rule refl)
  ultimately show ?thesis by (simp add: set_eq_iff_mset_eq_distinct)
qed

lemma perm_group:
  assumes perm: "permuted s t"
  shows "group_of s d = group_of t d"
  "match_confidence s d = match_confidence t d"
proof -
  have d: "distinct (map pay_id (map snd (candidate_map s d)))"
    using set_group_of(2)[OF well_formedD(1)[OF permuted_wf[OF perm]], of d]
    unfolding group_of_def by (metis mset_map mset_sort mset_eq_imp_distinct_iff)
  show "group_of s d = group_of t d"
    unfolding group_of_def by (rule sort_key_unique[OF d]) (simp add: perm_candidates[OF perm])
  have "candidate_map s d = [] \<longleftrightarrow> candidate_map t d = []" "set (candidate_map s d) = set (candidate_map t d)"
    using perm_candidates[OF perm, of d] by (metis mset_zero_iff, metis mset_eq_setD)
  then show "match_confidence s d = match_confidence t d"
    by (simp add: match_confidence_def permuted_scalars[OF perm])
qed

lemma perm_orders:
  assumes perm: "permuted s t"
  shows "sorted_orders s = sorted_orders t" "sorted_payments s = sorted_payments t"
proof -
  show "sorted_orders s = sorted_orders t" unfolding sorted_orders_def
    by (rule sort_key_unique[OF well_formedD(2)[OF permuted_wf[OF perm]]]) (use perm in \<open>simp add: permuted_def\<close>)
  show "sorted_payments s = sorted_payments t" unfolding sorted_payments_def
    by (rule sort_key_unique[OF well_formedD(1)[OF permuted_wf[OF perm]]]) (use perm in \<open>simp add: permuted_def\<close>)
qed

lemma perm_proposal:
  assumes perm: "permuted s t"
  shows "mk_proposal H s rule ids risk conf el facts = mk_proposal H t rule ids risk conf el facts"
proof -
  have c: "sort_key cov_source (snap_coverage s) = sort_key cov_source (snap_coverage t)"
    by (rule sort_key_unique[OF well_formedD(3)[OF permuted_wf[OF perm]]]) (use perm in \<open>simp add: permuted_def\<close>)
  have o: "snap_org s = snap_org t" "snap_mode s = snap_mode t" using perm by (simp_all add: permuted_def)
  show ?thesis
    by (simp add: mk_proposal_def proposal_key_def evidence_json_def c o permuted_scalars[OF perm] Let_def
        del: sort_key_def)
qed

lemma perm_emit:
  assumes perm: "permuted s t"
  shows "emit H s rule ids risk conf el facts w = emit H t rule ids risk conf el facts w"
  by (simp add: emit_def perm_proposal[OF perm] permuted_scalars[OF perm])

lemma refund_filter:
  assumes perm: "permuted s t" and "\<And>r. P r \<Longrightarrow> ref_source r = src"
  shows "sort_key ref_id (filter P (snap_refunds s)) = sort_key ref_id (filter P (snap_refunds t))"
proof (rule sort_filter_unique)
  have "distinct (map (\<lambda>r. (ref_source r, ref_id r)) (filter P (snap_refunds s)))"
    by (rule distinct_map_filter) (rule well_formedD(4)[OF permuted_wf[OF perm]])
  moreover have "map (\<lambda>r. (ref_source r, ref_id r)) (filter P (snap_refunds s))
      = map (Pair src) (map ref_id (filter P (snap_refunds s)))"
    using assms by simp
  ultimately show "distinct (map ref_id (filter P (snap_refunds s)))" by (metis distinct_map)
qed (use perm in \<open>simp add: permuted_def\<close>)

lemma perm_returned:
  assumes perm: "permuted s t"
  shows "fully_returned s p = fully_returned t p"
proof -
  define P where "P r \<longleftrightarrow> ref_source r = ''stripe'' \<and> ref_parent r = pay_id p \<and> ref_status r = ''succeeded''"
    for r :: refund
  have m: "mset (filter P (snap_refunds s)) = mset (filter P (snap_refunds t))"
    using perm by (simp add: permuted_def)
  then have "filter P (snap_refunds s) = [] \<longleftrightarrow> filter P (snap_refunds t) = []" by (metis mset_zero_iff)
  with sum_minor_mset[OF m] mset_list_all[OF m] show ?thesis
    by (simp add: fully_returned_def Let_def perm_stale[OF perm] permuted_scalars[OF perm] flip: P_def)
qed

lemma perm_compensated:
  assumes perm: "permuted s t"
  shows "compensated_ids s grp = compensated_ids t grp"
  "corrected_duplicate s grp = corrected_duplicate t grp" "order_facts s d grp = order_facts t d grp"
proof -
  have "fully_returned s = fully_returned t" by (intro ext perm_returned[OF perm])
  then show c: "compensated_ids s grp = compensated_ids t grp" for grp by (simp add: compensated_ids_def)
  show d: "corrected_duplicate s grp = corrected_duplicate t grp" for grp by (simp add: corrected_duplicate_def c)
  show "order_facts s d grp = order_facts t d grp" by (simp add: order_facts_def c d)
qed

lemma perm_candidate_ids:
  assumes perm: "permuted s t"
  shows "candidate_ids s d = candidate_ids t d"
  unfolding candidate_ids_def
  by (rule properties_for_sort) (use perm in \<open>simp_all add: permuted_def\<close>)

lemma perm_refunds:
  assumes perm: "permuted s t"
  shows "stripe_refunds s grp = stripe_refunds t grp"
  "woo_refunds s d = woo_refunds t d" "refund_facts s d grp = refund_facts t d grp"
proof -
  show st: "stripe_refunds s grp = stripe_refunds t grp"
    unfolding stripe_refunds_def perm_compensated[OF perm] by (rule refund_filter[OF perm, where src = "''stripe''"]) simp
  show wr: "woo_refunds s d = woo_refunds t d"
    unfolding woo_refunds_def by (rule refund_filter[OF perm, where src = "''woo''"]) simp
  show "refund_facts s d grp = refund_facts t d grp"
    by (simp add: refund_facts_def st wr perm_compensated[OF perm])
qed

section \<open>The loops\<close>

lemma perm_payment_rules:
  assumes perm: "permuted s t"
  shows "payment_rules H s d grp conf ids w = payment_rules H t d grp conf ids w"
proof -
  have el: "eligible_from s = eligible_from t"
    by (intro ext) (simp add: permuted_scalars[OF perm])
  have pay: "emit_payment H s d grp conf = emit_payment H t d grp conf"
    unfolding emit_payment_def el perm_emit[OF perm] perm_compensated(3)[OF perm] by (rule refl)
  show ?thesis
    unfolding payment_rules_def emit_unfunded_def emit_duplicate_def pay el perm_emit[OF perm]
      perm_compensated[OF perm] perm_candidate_ids[OF perm] permuted_scalars(4)[OF perm] by (rule refl)
qed

lemma perm_refund_rules:
  assumes perm: "permuted s t"
  shows "refund_rules H s d grp conf w = refund_rules H t d grp conf w"
  unfolding refund_rules_def emit_refund_def perm_emit[OF perm] perm_compensated[OF perm]
    perm_refunds[OF perm] perm_stale[OF perm] permuted_scalars(2,4)[OF perm] by (rule refl)

definition same_walk :: "walk \<Rightarrow> walk \<Rightarrow> bool" where
  "same_walk v w \<longleftrightarrow> w_proposals v = w_proposals w \<and> w_blocked v = w_blocked w \<and>
     w_warnings v = w_warnings w \<and> w_matched v = w_matched w \<and> w_confidence v = w_confidence w \<and>
     set (map fst (w_claimed v)) = set (map fst (w_claimed w)) \<and>
     sort_key fst (w_claimed v) = sort_key fst (w_claimed w)"

lemma same_walkI: "v = w \<Longrightarrow> same_walk v w"
  by (simp add: same_walk_def)

lemma emit_same [intro]: "same_walk v w \<Longrightarrow> same_walk (emit H s rule ids risk conf el facts v) (emit H s rule ids risk conf el facts w)"
  by (simp add: same_walk_def emit_def del: sort_key_def)

lemma block_same [intro]: "same_walk v w \<Longrightarrow> same_walk (block ids v) (block ids w)"
  by (simp add: same_walk_def block_def del: sort_key_def)

lemma warn_same [intro]: "same_walk v w \<Longrightarrow> same_walk (warn m v) (warn m w)"
  by (simp add: same_walk_def warn_def del: sort_key_def)

lemma fold_same:
  "same_walk v w \<Longrightarrow> (\<And>x v w. same_walk v w \<Longrightarrow> same_walk (f x v) (g x w)) \<Longrightarrow> same_walk (fold f xs v) (fold g xs w)"
  by (induction xs arbitrary: v w) simp_all

lemma append_at_permuted:
  assumes "distinct ks" "distinct ls" "mset ks = mset ls" "distinct (map fst al)" "distinct (map fst bl)"
    "set al = set bl"
  shows "set (foldl (\<lambda>c k. append_at k v c) al ks) = set (foldl (\<lambda>c k. append_at k v c) bl ls)"
proof -
  have keys: "set (map fst al) = set (map fst bl)" using assms(6) by simp
  have eq: "assoc al k = assoc bl k" for k
  proof (cases "k \<in> set (map fst al)")
    case True
    then show ?thesis using assoc_mem[OF assms(4), of k "assoc al k"] assoc_mem[OF assms(5), of k "assoc al k"]
      assms(6) by simp
  next
    case False
    have "k \<notin> set (map fst xs) \<Longrightarrow> assoc xs k = []" for xs :: "('a \<times> 'b list) list"
      by (induction xs) auto
    then show ?thesis using False keys by metis
  qed
  have s: "set ks = set ls" using assms(3) by (rule mset_eq_setD)
  have "(k, w) \<in> set (foldl (\<lambda>c k. append_at k v c) al ks) \<longleftrightarrow> (k, w) \<in> set (foldl (\<lambda>c k. append_at k v c) bl ls)" for k w
    unfolding assoc_mem[OF distinct_fold_append[OF assms(4)]] assoc_mem[OF distinct_fold_append[OF assms(5)]]
      assoc_fold_append[OF assms(1)] assoc_fold_append[OF assms(2)] keys_fold_append
    by (simp only: eq s keys)
  then show ?thesis by auto
qed

text \<open>During the matching loop the claims agree as sets of entries with distinct keys.\<close>

definition same_claims :: "walk \<Rightarrow> walk \<Rightarrow> bool" where
  "same_claims v w \<longleftrightarrow> w_proposals v = w_proposals w \<and> w_blocked v = w_blocked w \<and>
     w_warnings v = w_warnings w \<and> w_matched v = w_matched w \<and> w_confidence v = w_confidence w \<and>
     set (w_claimed v) = set (w_claimed w) \<and> distinct (map fst (w_claimed v)) \<and> distinct (map fst (w_claimed w))"

lemma same_claims_walk:
  assumes "same_claims v w"
  shows "same_walk v w"
proof -
  have "distinct (w_claimed v)" "distinct (w_claimed w)"
    using assms by (auto simp: same_claims_def distinct_map)
  then have "mset (w_claimed v) = mset (w_claimed w)"
    using assms by (simp add: same_claims_def set_eq_iff_mset_eq_distinct)
  then have "sort_key fst (w_claimed v) = sort_key fst (w_claimed w)"
    using assms by (intro sort_key_unique) (auto simp: same_claims_def)
  then show ?thesis using assms by (simp add: same_claims_def same_walk_def del: sort_key_def)
qed

lemma match_order_same:
  assumes perm: "permuted s t" and same: "same_claims v w"
  shows "same_claims (match_order H s d v) (match_order H t d w)"
proof -
  note cs = candidate_map_spec(2)[OF well_formedD(1)[OF permuted_wf[OF perm]], of d]
  note ct = candidate_map_spec(2)[OF well_formedD(1)[OF perm_wf[OF perm]], of d]
  have m: "mset (map fst (candidate_map s d)) = mset (map fst (candidate_map t d))"
    by (simp add: perm_candidates[OF perm])
  have "set (foldl (\<lambda>c k. append_at k (ord_id d) c) (w_claimed v) (map fst (candidate_map s d)))
      = set (foldl (\<lambda>c k. append_at k (ord_id d) c) (w_claimed w) (map fst (candidate_map t d)))"
    by (rule append_at_permuted[OF cs ct m]) (use same in \<open>auto simp: same_claims_def\<close>)
  then have upd: "same_claims
      (v\<lparr>w_confidence := (w_confidence v)(ord_id d \<mapsto> c), w_matched := (w_matched v)(ord_id d \<mapsto> g),
         w_claimed := foldl (\<lambda>c pid. append_at pid (ord_id d) c) (w_claimed v) (map fst (candidate_map s d))\<rparr>)
      (w\<lparr>w_confidence := (w_confidence w)(ord_id d \<mapsto> c), w_matched := (w_matched w)(ord_id d \<mapsto> g),
         w_claimed := foldl (\<lambda>c pid. append_at pid (ord_id d) c) (w_claimed w) (map fst (candidate_map t d))\<rparr>)" for c g
    using same distinct_fold_append[of "w_claimed v"] distinct_fold_append[of "w_claimed w"]
    by (simp add: same_claims_def)
  have eb: "same_claims (emit H t rule ids risk conf el facts (block bs v))
      (emit H t rule ids risk conf el facts (block bs w))" for rule ids risk conf el facts bs
    using same by (simp add: same_claims_def emit_def block_def)
  show ?thesis
    unfolding match_order_def Let_def perm_emit[OF perm] perm_targets[OF perm] perm_conflict[OF perm]
      perm_group(2)[OF perm] perm_group(1)[OF perm, unfolded group_of_def] permuted_scalars(1)[OF perm]
    using same upd eb by (simp only: split: if_split) blast
qed

lemma claim_conflict_same:
  assumes perm: "permuted s t" and "same_walk v w"
  shows "same_walk (claim_conflict H s c v) (claim_conflict H t c w)"
  using assms(2)
  by (auto simp: claim_conflict_def Let_def perm_emit[OF perm] perm_find[OF perm] permuted_scalars[OF perm]
      split: prod.splits)

lemma match_orders_same:
  assumes perm: "permuted s t"
  shows "same_claims (walk1 H s) (walk1 H t)"
proof -
  have "same_claims (fold (match_order H s) ds v) (fold (match_order H t) ds w)" if "same_claims v w" for ds v w
    using that by (induction ds arbitrary: v w) (auto intro: match_order_same[OF perm])
  moreover have "same_claims initial_walk initial_walk" by (simp add: same_claims_def initial_walk_def)
  ultimately show ?thesis unfolding walk1_def match_orders_def perm_orders[OF perm] by blast
qed

lemma walk2_same:
  assumes perm: "permuted s t"
  shows "same_walk (walk2 H s) (walk2 H t)"
proof -
  have w1: "same_walk (walk1 H s) (walk1 H t)" by (rule same_claims_walk[OF match_orders_same[OF perm]])
  then have "sort_key fst (w_claimed (walk1 H s)) = sort_key fst (w_claimed (walk1 H t))"
    by (simp add: same_walk_def del: sort_key_def)
  then show ?thesis
    unfolding walk2_def claim_conflicts_def by (auto intro: fold_same claim_conflict_same[OF perm] w1 simp del: sort_key_def)
qed

text \<open>The order loop does not look at the claims at all, the payment loop only at their keys.\<close>

lemma payment_rules_same:
  "same_walk v w \<Longrightarrow> same_walk (payment_rules H s d grp conf ids v) (payment_rules H s d grp conf ids w)"
  unfolding payment_rules_def
  by (rule fold_same) (auto simp: emit_payment_def emit_unfunded_def emit_duplicate_def Let_def split: list.split)

definition same_result :: "walk result \<Rightarrow> walk result \<Rightarrow> bool" where
  "same_result a b = rel_sum (=) same_walk a b"

lemma same_resultI:
  "same_walk v w \<Longrightarrow> same_result (Inr v) (Inr w)"
  "same_result a b \<Longrightarrow> same_result a' b' \<Longrightarrow> same_result (if c then a else a') (if c then b else b')"
  "same_walk v w \<Longrightarrow> same_walk v' w' \<Longrightarrow> same_walk (if c then v else v') (if c then w else w')"
  "(\<And>m. same_result (f m) (g m)) \<Longrightarrow> same_result (rbind x f) (rbind x g)"
  by (cases x; simp add: same_result_def)+

lemma refund_rules_same:
  "same_walk v w \<Longrightarrow> same_result (refund_rules H s d grp conf v) (refund_rules H s d grp conf w)"
  unfolding refund_rules_def emit_refund_def Let_def
  by (intro same_resultI emit_same block_same warn_same)

lemma audit_order_same:
  assumes perm: "permuted s t" and same: "same_walk v w"
  shows "same_result (audit_order H s d v) (audit_order H t d w)"
proof -
  have maps: "w_matched v = w_matched w" "w_confidence v = w_confidence w" "w_blocked v = w_blocked w"
    using same by (simp_all add: same_walk_def del: sort_key_def)
  show ?thesis
    unfolding audit_order_def Let_def maps permuted_scalars(2)[OF perm] perm_stale[OF perm]
      perm_payment_rules[OF perm] perm_refund_rules[OF perm]
    by (simp split: option.split)
      (intro conjI allI impI same_resultI refund_rules_same payment_rules_same warn_same block_same same)
qed

lemma walk_orders_same:
  assumes perm: "permuted s t" and same: "same_walk v w"
  shows "same_result (walk_orders H s v) (walk_orders H t w)"
proof -
  have "same_result (fold_res (audit_order H s) ds v) (fold_res (audit_order H t) ds w)" if "same_walk v w" for ds v w
    using that
  proof (induction ds arbitrary: v w)
    case (Cons d ds)
    then show ?case
      using audit_order_same[OF perm Cons.prems, of H d]
      by (cases "audit_order H s d v"; cases "audit_order H t d w") (auto simp: same_result_def)
  qed (simp add: same_result_def)
  then show ?thesis using same by (simp add: walk_orders_def perm_orders[OF perm])
qed

lemma audit_payment_same:
  assumes perm: "permuted s t" and same: "same_walk v w"
  shows "same_walk (audit_payment H s p v) (audit_payment H t p w)"
proof -
  have f: "set (map fst (w_claimed v)) = set (map fst (w_claimed w))" "w_blocked v = w_blocked w"
    using same by (simp_all add: same_walk_def del: sort_key_def)
  show ?thesis
    unfolding audit_payment_def Let_def f permuted_scalars[OF perm] perm_stale[OF perm] perm_emit[OF perm]
    using same by auto
qed

lemma full_evaluation_permuted:
  assumes perm: "permuted s t"
  shows "full_evaluation H s = full_evaluation H t"
proof -
  have pay: "same_walk (walk_payments H s v) (walk_payments H t w)" if "same_walk v w" for v w
    unfolding walk_payments_def perm_orders(2)[OF perm]
    by (rule fold_same[OF that]) (rule audit_payment_same[OF perm])
  have "same_result (walk_orders H s (walk2 H s)) (walk_orders H t (walk2 H t))"
    by (rule walk_orders_same[OF perm walk2_same[OF perm]])
  then have rel: "rel_sum (=) same_walk (walk_orders H s (walk2 H s)) (walk_orders H t (walk2 H t))"
    by (simp add: same_result_def)
  have full: "full_evaluation H u = map_sum id (\<lambda>w. let w = walk_payments H u w in
      \<lparr>ev_proposals = sort_key prop_key (w_proposals w), ev_rules = enabled_rules u,
        ev_blocked = sorted_list_of_set (w_blocked w),
        ev_warnings = sorted_list_of_set (w_warnings w), ev_digest = input_digest H u\<rparr>)
      (walk_orders H u (walk2 H u))" for u
    unfolding full_evaluation_def walk1_def[symmetric] walk2_def[symmetric]
    by (cases "walk_orders H u (walk2 H u)") (simp_all add: Let_def)
  from rel show ?thesis
  proof cases
    case (2 v w)
    have "w_proposals (walk_payments H s v) = w_proposals (walk_payments H t w)"
      "w_blocked (walk_payments H s v) = w_blocked (walk_payments H t w)"
      "w_warnings (walk_payments H s v) = w_warnings (walk_payments H t w)"
      using pay[OF 2(3)] unfolding same_walk_def by blast+
    then show ?thesis
      unfolding full 2(1,2) Let_def map_sum.simps permuted_scalars(3)[OF perm] permuted_digest[OF perm] by simp
  qed (simp add: full)
qed

end
