(* ===== verification/Engine_Total.thy ===== *)
theory Engine_Total imports Engine_Permute begin

text \<open>
  When the evaluation returns. The only exception after the checks on the snapshot is the one of
  \<open>Money\<close> for a refund difference that does not fit an int64; it needs refunds of payments that
  did not succeed, because the refunds of a succeeded payment are bounded by its amount. The
  second part is a small snapshot on which the properties of the engine are exercised.
\<close>

section \<open>Errors\<close>

definition too_large :: "snapshot \<Rightarrow> order \<Rightarrow> bool" where
  "too_large s d \<longleftrightarrow> comparable s d \<and> MAX_MINOR < minor (refund_gap s d)"

abbreviation money_error :: exn where
  "money_error \<equiv> ValueError ''Amount must be a nonnegative int64''"

lemma map_res_Inl:
  assumes "\<And>x e. x \<in> set xs \<Longrightarrow> f x = Inl e \<longleftrightarrow> P x \<and> e = e0"
  shows "map_res f xs = Inl e \<longleftrightarrow> (\<exists>x \<in> set xs. P x) \<and> e = e0"
  using assms
proof (induction xs)
  case (Cons x xs)
  then have IH: "map_res f xs = Inl e \<longleftrightarrow> (\<exists>x \<in> set xs. P x) \<and> e = e0" by simp
  have x: "f x = Inl e' \<longleftrightarrow> P x \<and> e' = e0" for e' using Cons.prems by simp
  show ?case
  proof (cases "f x")
    case (Inl e')
    with x[of e'] x[of e] show ?thesis by auto
  next
    case (Inr y)
    then have "\<not> P x" using x[of e0] by simp
    with Inr IH show ?thesis by (simp add: rbind_Inl_iff)
  qed
qed simp

lemma order_step_error:
  assumes v: "\<And>d. d \<in> set (snap_orders s) \<Longrightarrow> valid_money (ord_amount d)"
  shows "order_step H s d = Inl e \<longleftrightarrow> too_large s d \<and> e = money_error"
proof (cases "auditable s d")
  case True
  let ?both = "refunds_of s d @ woo_refunds s d"
  have settled: "list_ex (\<lambda>r. through_of s < ref_changed r) ?both \<longleftrightarrow> \<not> refunds_settled s d"
    using True by (auto simp: refunds_settled_def list_ex_iff not_le)
  have cur: "list_ex (\<lambda>r. \<not> same_currency (ref_amount r) (ord_amount d)) ?both \<longleftrightarrow> \<not> refund_currency_ok s d"
    by (simp add: refund_currency_ok_def list_ex_iff)
  have ex: "minor (ord_amount d) < minor (ord_refunded d) \<or>
      list_ex (over_refunded (refunds_of s d)) (paid_group s d) \<longleftrightarrow> refund_exceeds s d"
    by (simp add: refund_exceeds_def list_ex_iff)
  have "EXPONENTS (currency (ord_amount d)) = Some (exponent (ord_amount d))"
    using v auditable_order[OF True] by (auto simp: valid_money_def)
  then have gap: "mk_money \<bar>sum_minor (refunds_of s d) - minor (ord_refunded d)\<bar> (currency (ord_amount d))
      (exponent (ord_amount d)) = (if MAX_MINOR < minor (refund_gap s d) then Inl money_error else Inr (refund_gap s d))"
    by (simp add: mk_money_def refund_gap_def)
  have "order_part H s d = Inl e \<longleftrightarrow> too_large s d \<and> e = money_error"
    unfolding order_part_def refund_rules_def Let_def settled cur ex woo_inconsistent_def[symmetric]
      emit_refund_def gap too_large_def comparable_def by auto
  then show ?thesis using True auditable_order[OF True] by (simp add: order_step_def)
qed (auto simp: order_step_def too_large_def comparable_def refunds_settled_def)

lemma full_evaluation_error:
  assumes wf: "well_formed s" and v: "\<And>d. d \<in> set (snap_orders s) \<Longrightarrow> valid_money (ord_amount d)"
  shows "full_evaluation H s = Inl e \<longleftrightarrow> (\<exists>d. too_large s d) \<and> e = money_error"
proof -
  have "full_evaluation H s = Inl e \<longleftrightarrow> walk_orders H s (walk2 H s) = Inl e"
    unfolding full_evaluation_def walk1_def[symmetric] walk2_def[symmetric]
    by (cases "walk_orders H s (walk2 H s)") (simp_all add: Let_def)
  also have "\<dots> \<longleftrightarrow> map_res (order_step H s) (sorted_orders s) = Inl e"
    unfolding walk_orders_run[OF wf] by (cases "map_res (order_step H s) (sorted_orders s)") auto
  also have "\<dots> \<longleftrightarrow> (\<exists>d \<in> set (sorted_orders s). too_large s d) \<and> e = money_error"
    by (rule map_res_Inl) (rule order_step_error[OF v])
  also have "(\<exists>d \<in> set (sorted_orders s). too_large s d) \<longleftrightarrow> (\<exists>d. too_large s d)"
    using auditable_order by (auto simp: too_large_def comparable_def refunds_settled_def)
  finally show ?thesis .
qed

lemma evaluate_error:
  assumes wf: "well_formed s" and v: "\<And>d. d \<in> set (snap_orders s) \<Longrightarrow> valid_money (ord_amount d)"
  shows "evaluate H s = Inl e \<longleftrightarrow> trusted s \<and> (\<exists>d. too_large s d) \<and> e = money_error"
  using wf full_evaluation_error[OF wf v]
  by (auto simp: evaluate_def trusted_def well_formed_def)

lemma evaluate_returns:
  assumes "well_formed s" "\<And>d. d \<in> set (snap_orders s) \<Longrightarrow> valid_money (ord_amount d) \<and> valid_money (ord_refunded d)"
    and none: "snap_refunds s = []"
  shows "\<exists>r. evaluate H s = Inr r"
proof -
  have "\<not> too_large s d" for d
  proof
    assume "too_large s d"
    then have d: "d \<in> set (snap_orders s)" "MAX_MINOR < minor (refund_gap s d)"
      using auditable_order by (auto simp: too_large_def comparable_def refunds_settled_def)
    have "sum_minor (refunds_of s d) = 0" by (simp add: stripe_refunds_def none sum_minor_def)
    then show False using d assms(2)[OF d(1)] by (simp add: refund_gap_def valid_money_def)
  qed
  then have "evaluate H s \<noteq> Inl e" for e using evaluate_error[OF assms(1), of H e] assms(2) by auto
  then show ?thesis by (cases "evaluate H s") auto
qed

section \<open>A small snapshot\<close>

definition usd :: "int \<Rightarrow> money" where "usd n = \<lparr>minor = n, currency = ''USD'', exponent = 2\<rparr>"

definition sample_payment :: "string \<Rightarrow> string \<Rightarrow> payment" where
  "sample_payment pid store = \<lparr>pay_id = pid, pay_account = ''acct_1'', pay_mode = ''live'',
     pay_status = ''succeeded'', pay_amount = usd 500, pay_received = usd 500, pay_created = hours 1,
     pay_changed = hours 1, pay_succeeded = Some (hours 1), pay_method = ''card'',
     pay_capture_method = ''automatic'', pay_charge_ids = [], pay_session_ids = [],
     pay_store_hint = store, pay_order_hint = [], pay_observation = ''o''\<rparr>"

definition sample_order :: "string \<Rightarrow> string \<Rightarrow> string \<Rightarrow> order" where
  "sample_order oid status ref = \<lparr>ord_id = oid, ord_store = ''7'', ord_mode = ''live'', ord_status = status,
     ord_amount = usd 500, ord_refunded = usd 0, ord_created = hours 1, ord_changed = hours 1,
     ord_paid = None, ord_method = ''stripe'', ord_transaction = ref, ord_intent = [],
     ord_charge = [], ord_session = [], ord_observation = ''o''\<rparr>"

definition sample_coverage :: "string \<Rightarrow> coverage" where
  "sample_coverage src = \<lparr>cov_source = src, cov_from = 0, cov_through = hours 2, cov_observed = hours 2,
     cov_complete = True, cov_offset = 0\<rparr>"

definition sample_snapshot :: "payment list \<Rightarrow> order list \<Rightarrow> snapshot" where
  "sample_snapshot ps ds = \<lparr>snap_org = ''o1'', snap_store = ''7'', snap_account = ''acct_1'',
     snap_mode = ''live'', snap_now = Aware (hours 2), snap_from = Aware 0, snap_payments = ps,
     snap_orders = ds, snap_refunds = [], snap_coverage = map sample_coverage REQUIRED,
     snap_link_verified = True, snap_link_conflict = False, snap_ambiguous = [],
     snap_policy = default_policy\<rparr>"

text \<open>A paid attempt for an order that is still pending, an attempt without an order, and an
  order that refers to an unknown payment.\<close>

definition sample :: snapshot where
  "sample = sample_snapshot [sample_payment ''pi_1'' '''', sample_payment ''pi_2'' ''7'']
     [sample_order ''11'' ''pending'' ''pi_1'', sample_order ''12'' ''processing'' ''pi_9'']"

lemma EXPONENTS_USD: "EXPONENTS ''USD'' = Some 2" by code_simp

lemma usd_valid: "0 \<le> n \<Longrightarrow> n \<le> MAX_MINOR \<Longrightarrow> valid_money (usd n)"
  by (simp add: usd_def valid_money_def EXPONENTS_USD)

lemma sample_trusted: "trusted (sample_snapshot ps ds)"
proof -
  have "stale_sources (sample_snapshot [] []) = []" by code_simp
  moreover have "stale_sources (sample_snapshot ps ds) = stale_sources (sample_snapshot [] [])"
    by (simp add: stale_sources_def coverage_by_source_def sample_snapshot_def now_of_def from_of_def
        cong: option.case_cong)
  ultimately show ?thesis by (simp add: trusted_def sample_snapshot_def)
qed

lemma sample_well_formed: "well_formed sample"
  unfolding well_formed_def by code_simp

lemma sample_returns: "\<exists>r. evaluate H sample = Inr r"
  by (rule evaluate_returns[OF sample_well_formed])
    (auto simp: sample_def sample_snapshot_def sample_order_def usd_valid MAX_MINOR_def)

section \<open>What is due for it\<close>

lemma sample_through: "through_of (sample_snapshot ps ds) = hours 2"
proof -
  have "through_of (sample_snapshot [] []) = hours 2" by code_simp
  moreover have "through_of (sample_snapshot ps ds) = through_of (sample_snapshot [] [])"
    by (simp add: through_of_def coverage_by_source_def sample_snapshot_def)
  ultimately show ?thesis by simp
qed

lemma sample_fields:
  "snap_payments sample = [sample_payment ''pi_1'' '''', sample_payment ''pi_2'' ''7'']"
  "snap_orders sample = [sample_order ''11'' ''pending'' ''pi_1'', sample_order ''12'' ''processing'' ''pi_9'']"
  "snap_store sample = ''7''" "from_of sample = 0" "now_of sample = hours 2" "snap_ambiguous sample = []"
  "snap_refunds sample = []" "snap_policy sample = default_policy" "through_of sample = hours 2"
  by (simp_all add: sample_def sample_snapshot_def from_of_def now_of_def sample_through[unfolded sample_snapshot_def])

lemma sample_record_fields [simp]:
  "pay_id (sample_payment pid st) = pid" "pay_charge_ids (sample_payment pid st) = []"
  "pay_session_ids (sample_payment pid st) = []" "pay_order_hint (sample_payment pid st) = []"
  "pay_store_hint (sample_payment pid st) = st" "pay_created (sample_payment pid st) = hours 1"
  "pay_changed (sample_payment pid st) = hours 1" "pay_status (sample_payment pid st) = ''succeeded''"
  "ord_id (sample_order oid status ref) = oid" "ord_created (sample_order oid status ref) = hours 1"
  "ord_changed (sample_order oid status ref) = hours 1" "ord_status (sample_order oid status ref) = status"
  "ord_transaction (sample_order oid status ref) = ref" "ord_intent (sample_order oid status ref) = []"
  "ord_charge (sample_order oid status ref) = []" "ord_session (sample_order oid status ref) = []"
  "ord_method (sample_order oid status ref) = ''stripe''"
  by (simp_all add: sample_payment_def sample_order_def)

lemma sample_payment_inject [simp]: "sample_payment a b = sample_payment c d \<longleftrightarrow> a = c \<and> b = d"
  by (auto simp: sample_payment_def)

lemma sample_refs: "set (order_refs (sample_order oid st ref)) = (if ref = [] then {} else {ref})"
  by (auto simp: order_refs_set)

lemma sample_refs_Nil: "order_refs (sample_order oid st ref) = [] \<longleftrightarrow> ref = []"
  using sample_refs[of oid st ref] by (metis insert_not_empty list.set(1) set_empty2)

lemma sample_linked:
  "linked sample (sample_order ''11'' st ''pi_1'') p \<longleftrightarrow> p = sample_payment ''pi_1'' ''''"
  "\<not> linked sample (sample_order ''12'' st ''pi_9'') p"
  by (cases "p = sample_payment ''pi_1'' ''''"; cases "p = sample_payment ''pi_2'' ''7''";
      simp add: linked_def sample_refs payment_aliases_def hinted_def sample_fields)+

lemma sample_conflicts:
  "\<not> match_conflict sample (sample_order ''11'' ''pending'' ''pi_1'')"
  "match_conflict sample (sample_order ''12'' ''processing'' ''pi_9'')"
  "resolved_of sample (sample_order ''12'' ''processing'' ''pi_9'') = {}"
proof -
  have t: "targets_of sample ref = (if ref = ''pi_1'' then {''pi_1''} else if ref = ''pi_2'' then {''pi_2''} else {})" for ref
    by (auto simp: targets_of_eq sample_fields payment_aliases_def
        intro: exI[of _ "sample_payment ''pi_1'' ''''"] exI[of _ "sample_payment ''pi_2'' ''7''"])
  have r: "resolved_of sample (sample_order ''11'' ''pending'' ''pi_1'') = {''pi_1''}"
    "resolved_of sample (sample_order ''12'' ''processing'' ''pi_9'') = {}"
    by (simp_all add: resolved_of_def sample_refs t)
  have f: "find_payment sample ''pi_1'' = Some (sample_payment ''pi_1'' '''')"
    using find_payment_id[OF well_formedD(1)[OF sample_well_formed], of "sample_payment ''pi_1'' ''''"]
    by (simp add: sample_fields)
  show "\<not> match_conflict sample (sample_order ''11'' ''pending'' ''pi_1'')"
    by (simp add: match_conflict_def r unknown_refs_def sample_refs t sample_fields f foreign_hint_def filter_empty_conv)
  show "match_conflict sample (sample_order ''12'' ''processing'' ''pi_9'')"
    by (simp add: match_conflict_def unknown_refs_def sample_refs sample_refs_Nil t filter_empty_conv)
  show "resolved_of sample (sample_order ''12'' ''processing'' ''pi_9'') = {}" by (rule r(2))
qed

lemma sample_matchable: "matchable sample d \<longleftrightarrow> d = sample_order ''11'' ''pending'' ''pi_1''"
proof -
  have "stripe_method (sample_order oid st ref)" for oid st ref
    by (simp add: stripe_method_def)
  then show ?thesis using sample_conflicts by (auto simp: matchable_def sample_fields)
qed

lemma sample_disputed: "\<not> disputed sample p" "\<not> contested sample p"
  using sample_conflicts
  by (auto simp: disputed_def sample_fields contested_def sample_matchable)

lemma sample_auditable: "auditable sample (sample_order ''11'' ''pending'' ''pi_1'')"
  using sample_disputed
  by (simp add: auditable_def clear_def sample_matchable sample_linked sample_fields hours_def minutes_def seconds_def)

lemma sample_group: "group_of sample (sample_order ''11'' ''pending'' ''pi_1'') = [sample_payment ''pi_1'' '''']"
proof -
  note g = set_group_of[OF well_formedD(1)[OF sample_well_formed], of "sample_order ''11'' ''pending'' ''pi_1''"]
  have s: "set (group_of sample (sample_order ''11'' ''pending'' ''pi_1'')) = {sample_payment ''pi_1'' ''''}"
    unfolding g(1) sample_linked by simp
  have "distinct (group_of sample (sample_order ''11'' ''pending'' ''pi_1''))"
    using g(2) by (simp add: distinct_map)
  then have "length (group_of sample (sample_order ''11'' ''pending'' ''pi_1'')) = 1"
    using distinct_card s by fastforce
  with s show ?thesis by (cases "group_of sample (sample_order ''11'' ''pending'' ''pi_1'')") auto
qed

lemma sample_late: "unclaimed sample (sample_payment ''pi_2'' ''7'')"
  using sample_disputed by (simp add: unclaimed_def sample_matchable sample_linked sample_fields)

lemma sample_enabled: "enabled_rules sample = RULE_CODES"
  by (simp add: enabled_rules_def sample_fields default_policy_def)

end
