(* ===== verification/Engine_Props.thy ===== *)
theory Engine_Props imports Engine_Total begin

text \<open>
  The properties of the reconciliation engine: it raises exactly the findings that are due, does
  not depend on the order of its input, returns unless a refund difference overflows, stays silent
  about business when a source is stale or the store link is not verified, never uses a contested
  payment for a business finding, and gives each finding of an evaluation a key of its own.
\<close>

section \<open>Refinement\<close>

lemma evaluate_untrusted:
  assumes "evaluate H s = Inr r" "\<not> trusted s"
  shows "ev_proposals r = raised H s (source_findings s)"
    and "ev_rules r = filter (\<lambda>x. x = ''PI-009'' \<or> stale_sources s = [] \<and> x = ''PI-010'') (enabled_rules s)"
    and "ev_blocked r = []"
proof -
  have "r = (if stale_sources s \<noteq> [] then stale_evaluation H s else unlinked_evaluation H s)"
    using assms by (auto simp: evaluate_def trusted_def split: if_splits elim!: rbindE)
  then show "ev_proposals r = raised H s (source_findings s)"
    "ev_rules r = filter (\<lambda>x. x = ''PI-009'' \<or> stale_sources s = [] \<and> x = ''PI-010'') (enabled_rules s)"
    "ev_blocked r = []"
    by (auto simp: stale_evaluation_def unlinked_evaluation_def emit_raised source_findings_def initial_walk_def
        intro!: filter_cong)
qed

lemma evaluate_drafts:
  assumes ev: "evaluate H s = Inr r" and t: "trusted s"
  shows "ev_proposals r = sort_key prop_key (raised H s (all_drafts H s))" and "ev_rules r = enabled_rules s"
proof -
  note wf = evaluate_well_formed[OF ev]
  have full: "full_evaluation H s = Inr r" using ev evaluate_trusted[OF wf t] by simp
  show "ev_proposals r = sort_key prop_key (raised H s (all_drafts H s))"
    by (rule full_evaluation_drafts[OF wf full])
  show "ev_rules r = enabled_rules s"
    using full by (auto simp: full_evaluation_def Let_def elim!: rbindE)
qed

lemma expected_evaluate:
  assumes ev: "evaluate H s = Inr r"
  shows "set (ev_proposals r) = propose H s ` {c \<in> expected s. dr_rule c \<in> set (enabled_rules s)}"
proof (cases "trusted s")
  case True
  then show ?thesis
    unfolding evaluate_drafts(1)[OF ev True]
    by (auto simp: raised_def expected_def all_drafts_due[OF evaluate_well_formed[OF ev]])
next
  case False
  then show ?thesis unfolding evaluate_untrusted(1)[OF ev False] by (auto simp: raised_def expected_def)
qed

text \<open>
  C3: The engine refines its specification: when an evaluation returns, its proposals are exactly
  the findings that are due for the snapshot (the inductive relation \<open>due\<close>, or the single finding
  about the sources when they cannot be trusted) whose rule the policy leaves enabled. Nothing is
  missed and nothing is invented, whatever the loops blocked on the way.
\<close>

theorem evaluate_refines:
  assumes "evaluate H s = Inr r"
  shows "set (ev_proposals r) = propose H s ` {c \<in> expected s. dr_rule c \<in> set (enabled_rules s)}"
  by (rule expected_evaluate[OF assms])

theorem evaluate_refines_witness:
  "\<exists>r. evaluate (\<lambda>_. ''k'') sample = Inr r \<and>
     set (ev_proposals r) = propose (\<lambda>_. ''k'') sample ` {c \<in> expected sample. dr_rule c \<in> set (enabled_rules sample)}"
proof -
  obtain r where r: "evaluate (\<lambda>_. ''k'') sample = Inr r" using sample_returns by blast
  from evaluate_refines[OF r] r show ?thesis by blast
qed

text \<open>
  C6: The evaluation is deterministic in the set of facts: two snapshots that list the same
  payments, orders, refunds and coverage in different orders evaluate to the same result or the
  same exception, digest included.
\<close>

theorem evaluate_permutation:
  assumes "permuted s t"
  shows "evaluate H s = evaluate H t"
proof -
  have "stale_evaluation H s = stale_evaluation H t"
    unfolding stale_evaluation_def perm_emit[OF assms] perm_stale[OF assms] permuted_scalars[OF assms]
      permuted_digest[OF assms] by (rule refl)
  moreover have "unlinked_evaluation H s = unlinked_evaluation H t"
    unfolding unlinked_evaluation_def perm_emit[OF assms] permuted_scalars[OF assms]
      permuted_digest[OF assms] by (rule refl)
  ultimately show ?thesis
    by (simp add: evaluate_def permuted_valid[OF assms] perm_stale[OF assms] permuted_scalars[OF assms]
        full_evaluation_permuted[OF assms])
qed

definition sample_reversed :: snapshot where
  "sample_reversed = sample\<lparr>snap_payments := rev (snap_payments sample), snap_orders := rev (snap_orders sample),
     snap_coverage := rev (snap_coverage sample)\<rparr>"

theorem evaluate_permutation_witness:
  "sample \<noteq> sample_reversed \<and> evaluate (\<lambda>_. ''k'') sample = evaluate (\<lambda>_. ''k'') sample_reversed"
proof
  show "sample \<noteq> sample_reversed"
    by (simp add: sample_reversed_def sample_def sample_snapshot_def sample_payment_def)
  show "evaluate (\<lambda>_. ''k'') sample = evaluate (\<lambda>_. ''k'') sample_reversed"
    by (rule evaluate_permutation) (simp add: permuted_def sample_well_formed sample_reversed_def)
qed



section \<open>Failing closed\<close>

lemma due_rules: "due s c \<Longrightarrow> dr_rule c \<in> set RULE_CODES - {''PI-009''}"
  by (induction rule: due.induct) (simp_all add: RULE_CODES_eq)

lemma expected_rules:
  assumes "c \<in> expected s"
  shows "dr_rule c \<in> set RULE_CODES" and "\<not> trusted s \<Longrightarrow> dr_rule c = ''PI-009'' \<or> dr_rule c = ''PI-010'' \<and> stale_sources s = []"
  using assms due_rules[of s c]
  by (auto simp: expected_def source_findings_def RULE_CODES_eq split: if_splits)

lemma expected_trusted: "c \<in> expected s \<Longrightarrow> dr_rule c \<notin> {''PI-009'', ''PI-010''} \<Longrightarrow> trusted s"
  using expected_rules(2) by blast

lemma stale_sources_none:
  assumes "stale_sources s = []" "k \<in> set REQUIRED"
  shows "\<exists>c \<in> set (snap_coverage s). cov_source c = k \<and>
    fresh c (now_of s) (from_of s) (pol_freshness (snap_policy s))"
proof -
  have "filter (\<lambda>k. case coverage_by_source s k of None \<Rightarrow> True
      | Some c \<Rightarrow> \<not> fresh c (now_of s) (from_of s) (pol_freshness (snap_policy s))) REQUIRED = []"
    using assms(1) unfolding stale_sources_def by (metis set_empty set_sort)
  then obtain c where c: "coverage_by_source s k = Some c"
    "fresh c (now_of s) (from_of s) (pol_freshness (snap_policy s))"
    using assms(2) by (auto simp: filter_empty_conv split: option.splits)
  from c(1) have "c \<in> set (snap_coverage s)" "cov_source c = k"
    unfolding coverage_by_source_def by (auto dest!: map_of_SomeD)
  with c(2) show ?thesis by blast
qed

text \<open>
  C2: The engine fails closed: a finding about payments, orders or refunds (any rule but PI-009
  and the store conflict of PI-010) is raised only when all four required sources have coverage
  that reaches from the window's start to now within the freshness limit, the store link is
  verified and nothing conflicts with it. A rule the policy disables raises nothing.
\<close>

theorem fail_closed:
  assumes "evaluate H s = Inr r" and "p \<in> set (ev_proposals r)"
    and "prop_rule p \<notin> {''PI-009'', ''PI-010''}"
  shows "snap_link_verified s \<and> \<not> snap_link_conflict s \<and> prop_rule p \<in> set (ev_rules r) \<and>
    prop_rule p \<notin> set (pol_disabled (snap_policy s)) \<and>
    (\<forall>k \<in> set REQUIRED. \<exists>c \<in> set (snap_coverage s). cov_source c = k \<and>
      fresh c (now_of s) (from_of s) (pol_freshness (snap_policy s)))"
proof -
  obtain c where c: "c \<in> expected s" "dr_rule c \<in> set (enabled_rules s)" "prop_rule p = dr_rule c"
    using assms(2) unfolding expected_evaluate[OF assms(1)] by (auto simp: propose_def)
  then have t: "trusted s" using expected_trusted[OF c(1)] assms(3) by simp
  then show ?thesis
    using c evaluate_drafts(2)[OF assms(1) t] stale_sources_none
    by (auto simp: trusted_def enabled_rules_def)
qed

definition sample_late_draft :: draft where
  "sample_late_draft = mk_draft ''PI-002'' [payment_key ''pi_2''] (Some (usd 500)) 90
     (eligible_from sample (sample_payment ''pi_2'' ''7''))
     [(''payment'', payment_json (sample_payment ''pi_2'' ''7'')), (''confirmed_store_id'', JStr ''7'')]"

lemma sample_received [simp]: "pay_received (sample_payment pid st) = usd 500"
  by (simp add: sample_payment_def)

lemma sample_late_expected: "sample_late_draft \<in> expected sample"
proof -
  have "due sample sample_late_draft"
    using due.unattached[OF sample_late]
    by (simp add: sample_late_draft_def sample_fields hours_def minutes_def seconds_def)
  then show ?thesis using sample_trusted by (simp add: expected_def sample_def)
qed

lemma sample_late_raised:
  assumes "evaluate H sample = Inr r"
  shows "propose H sample sample_late_draft \<in> set (ev_proposals r)"
  unfolding expected_evaluate[OF assms] using sample_late_expected
  by (simp add: sample_enabled RULE_CODES_eq sample_late_draft_def)

theorem fail_closed_witness:
  "snap_link_verified sample \<and> \<not> snap_link_conflict sample \<and>
    (\<exists>r. ''PI-002'' \<in> set (ev_rules r) \<and> evaluate (\<lambda>_. ''k'') sample = Inr r)"
proof -
  obtain r where r: "evaluate (\<lambda>_. ''k'') sample = Inr r" using sample_returns by blast
  have "prop_rule (propose (\<lambda>_. ''k'') sample sample_late_draft) = ''PI-002''"
    by (simp add: propose_def sample_late_draft_def)
  with fail_closed[OF r sample_late_raised[OF r]] r show ?thesis by auto
qed

section \<open>Which orders and payments a finding is about\<close>

definition business_rules :: "string list" where
  "business_rules = [''PI-001'', ''PI-003'', ''PI-004'', ''PI-005'', ''PI-006'', ''PI-007'', ''PI-008'']"

lemma due_order:
  "due s c \<Longrightarrow> dr_rule c \<in> set business_rules \<Longrightarrow>
    \<exists>d. auditable s d \<and> order_key (ord_id d) \<in> set (dr_ids c) \<and>
      set (dr_ids c) \<subseteq> insert (order_key (ord_id d)) ((\<lambda>p. payment_key (pay_id p)) ` {p. linked s d p})"
  if "well_formed s"
proof (induction rule: due.induct)
  case (unpaid d p)
  then have "linked s d p" using set_group_of(1)[OF well_formedD(1)[OF that]] by (auto simp: succeeded_of_def)
  then show ?case using unpaid by (intro exI[of _ d]) auto
next
  case (mismatch d p)
  then have "linked s d p" using set_group_of(1)[OF well_formedD(1)[OF that]] by (auto simp: succeeded_of_def)
  then show ?case using mismatch by (intro exI[of _ d]) auto
next
  case (duplicate d)
  then show ?case using set_group_of(1)[OF well_formedD(1)[OF that], of d]
    by (intro exI[of _ d]) (auto simp: order_ids_def)
next
  case (unfunded d)
  then show ?case by (intro exI[of _ d]) simp
next
  case (only_stripe d)
  then show ?case by (intro exI[of _ d]) (simp add: comparable_def refunds_settled_def)
next
  case (only_woo d)
  then show ?case by (intro exI[of _ d]) (simp add: comparable_def refunds_settled_def)
next
  case (refund_mismatch d)
  then show ?case by (intro exI[of _ d]) (simp add: comparable_def refunds_settled_def)
next
  case (refund_currency d)
  then show ?case by (intro exI[of _ d]) (simp add: comparable_def refunds_settled_def)
qed (simp_all add: business_rules_def)

lemma business_draft:
  assumes ev: "evaluate H s = Inr r" and p: "p \<in> set (ev_proposals r)" and "prop_rule p \<in> set business_rules \<union> {''PI-002''}"
  shows "\<exists>c. due s c \<and> prop_rule p = dr_rule c \<and> set (prop_identities p) = set (dr_ids c) \<and>
    (prop_ready p \<longleftrightarrow> dr_eligible c \<le> now_of s)"
proof -
  obtain c where c: "c \<in> expected s" "p = propose H s c"
    using p unfolding expected_evaluate[OF ev] by blast
  then have "trusted s"
    using assms(3) by (intro expected_trusted[OF c(1)]) (auto simp: propose_def business_rules_def)
  with c show ?thesis by (auto simp: expected_def propose_def)
qed

text \<open>
  C5: A finding about an order (all rules but PI-002, PI-009 and PI-010) concerns one order of
  the snapshot that lies inside the window every source covers: it was created in the window,
  neither it nor a payment linked to it changed after the coverage of some source ends, no other
  order claims its payments and no order with conflicting identifiers refers to them; the finding
  names only that order and payments linked to it.
\<close>

theorem finding_inside_window:
  assumes "evaluate H s = Inr r" and "p \<in> set (ev_proposals r)" and "prop_rule p \<in> set business_rules"
  shows "\<exists>d. matchable s d \<and> order_key (ord_id d) \<in> set (prop_identities p) \<and>
    set (prop_identities p) \<subseteq> insert (order_key (ord_id d)) ((\<lambda>q. payment_key (pay_id q)) ` {q. linked s d q}) \<and>
    from_of s \<le> ord_created d \<and> ord_changed d \<le> through_of s \<and>
    (\<forall>q. linked s d q \<longrightarrow> pay_changed q \<le> through_of s \<and> \<not> contested s q \<and> \<not> disputed s q)"
proof -
  obtain c where c: "due s c" "prop_rule p = dr_rule c" "set (prop_identities p) = set (dr_ids c)"
    using business_draft[OF assms(1,2)] assms(3) by auto
  then obtain d where "auditable s d" "order_key (ord_id d) \<in> set (dr_ids c)"
      "set (dr_ids c) \<subseteq> insert (order_key (ord_id d)) ((\<lambda>p. payment_key (pay_id p)) ` {p. linked s d p})"
    using due_order[OF evaluate_well_formed[OF assms(1)] c(1)] assms(3) by auto
  then show ?thesis unfolding c(3) by (intro exI[of _ d]) (simp add: auditable_def clear_def)
qed

definition sample_unpaid_draft :: draft where
  "sample_unpaid_draft = mk_draft ''PI-001'' [order_key ''11'', payment_key ''pi_1''] (Some (usd 500))
     (match_confidence sample (sample_order ''11'' ''pending'' ''pi_1''))
     (eligible_from sample (sample_payment ''pi_1'' '''')) (facts_of sample (sample_order ''11'' ''pending'' ''pi_1''))"

lemma sample_unpaid_expected: "sample_unpaid_draft \<in> expected sample"
proof -
  have "due sample sample_unpaid_draft"
    using due.unpaid[OF sample_auditable, of "sample_payment ''pi_1'' ''''"]
    by (simp add: sample_unpaid_draft_def sample_group succeeded_of_def UNPAID_def)
  then show ?thesis using sample_trusted by (simp add: expected_def sample_def)
qed

lemma sample_unpaid_raised:
  assumes "evaluate H sample = Inr r"
  shows "propose H sample sample_unpaid_draft \<in> set (ev_proposals r)"
  unfolding expected_evaluate[OF assms] using sample_unpaid_expected
  by (simp add: sample_enabled RULE_CODES_eq sample_unpaid_draft_def)

theorem finding_inside_window_witness:
  "\<exists>d. matchable sample d \<and> from_of sample \<le> ord_created d \<and> ord_changed d \<le> through_of sample"
proof -
  obtain r where r: "evaluate (\<lambda>_. ''k'') sample = Inr r" using sample_returns by blast
  have "prop_rule (propose (\<lambda>_. ''k'') sample sample_unpaid_draft) \<in> set business_rules"
    by (simp add: propose_def sample_unpaid_draft_def business_rules_def)
  from finding_inside_window[OF r sample_unpaid_raised[OF r] this] show ?thesis by blast
qed

section \<open>Conflicts\<close>

text \<open>
  C4: A contested payment is quarantined: when several matchable orders claim a payment, no
  proposal but one of PI-010 names the payment, or any order linked to it.
\<close>

theorem contested_quarantine:
  assumes "evaluate H s = Inr r" and "p \<in> set (ev_proposals r)" and "contested s q"
    and "payment_key (pay_id q) \<in> set (prop_identities p) \<or>
      (\<exists>d. matchable s d \<and> linked s d q \<and> order_key (ord_id d) \<in> set (prop_identities p))"
  shows "prop_rule p = ''PI-010''"
proof (rule ccontr)
  assume other: "prop_rule p \<noteq> ''PI-010''"
  note wf = evaluate_well_formed[OF assms(1)]
  obtain c where c: "c \<in> expected s" "p = propose H s c"
    using assms(2) unfolding expected_evaluate[OF assms(1)] by blast
  have "prop_rule p \<noteq> ''PI-009''"
  proof
    assume "prop_rule p = ''PI-009''"
    then have "prop_identities p = [store_key s]"
      using c due_rules[of s c] by (auto simp: propose_def expected_def source_findings_def split: if_splits)
    then show False using assms(4) by (auto simp: store_key_def payment_key_def order_key_def)
  qed
  with other c(2) have t: "trusted s" by (intro expected_trusted[OF c(1)]) (simp add: propose_def)
  with c have due: "due s c" by (simp add: expected_def)
  have ids: "set (prop_identities p) = set (dr_ids c)" by (simp add: c(2) propose_def)
  show False
  proof (cases "dr_rule c \<in> set business_rules")
    case True
    then obtain d where d: "auditable s d"
        "set (dr_ids c) \<subseteq> insert (order_key (ord_id d)) ((\<lambda>p. payment_key (pay_id p)) ` {p. linked s d p})"
      using due_order[OF wf due] by auto
    have "linked s d q"
      using assms(4)
    proof
      assume "payment_key (pay_id q) \<in> set (prop_identities p)"
      then obtain q' where "linked s d q'" "pay_id q = pay_id q'" using d(2) ids by auto
      then show ?thesis using linked_by_id[OF well_formedD(1)[OF wf]] contested_payment[OF assms(3)] by metis
    next
      assume "\<exists>d. matchable s d \<and> linked s d q \<and> order_key (ord_id d) \<in> set (prop_identities p)"
      then obtain d' where "matchable s d'" "linked s d' q" "ord_id d' = ord_id d" using d(2) ids by auto
      then show ?thesis using order_by_id[OF wf] auditable_order[OF d(1)] by (auto simp: matchable_def)
    qed
    then show False using d(1) assms(3) by (auto simp: auditable_def clear_def)
  next
    case False
    with other due_rules[OF due] c(2) have "dr_rule c = ''PI-002''"
      by (auto simp: business_rules_def RULE_CODES_eq propose_def)
    with due obtain q' where q': "unclaimed s q'" "dr_ids c = [payment_key (pay_id q')]"
      by (cases rule: due.cases) auto
    have "pay_id q = pay_id q'" using assms(4) ids q'(2) by auto
    then have "q = q'"
      using q'(1) contested_payment[OF assms(3)] well_formedD(1)[OF wf]
      by (auto simp: unclaimed_def distinct_map dest: inj_onD)
    then show False using q'(1) assms(3) by (auto simp: unclaimed_def contested_def)
  qed
qed

text \<open>A payment that two orders refer to.\<close>

definition sample_claims :: snapshot where
  "sample_claims = sample_snapshot [sample_payment ''pi_1'' '''']
     [sample_order ''21'' ''processing'' ''pi_1'', sample_order ''22'' ''pending'' ''pi_1'']"

lemma sample_claims_well_formed: "well_formed sample_claims"
  unfolding well_formed_def by code_simp

lemma sample_claims_fields:
  "snap_payments sample_claims = [sample_payment ''pi_1'' '''']"
  "snap_orders sample_claims = [sample_order ''21'' ''processing'' ''pi_1'', sample_order ''22'' ''pending'' ''pi_1'']"
  "snap_store sample_claims = ''7''" "snap_ambiguous sample_claims = []"
  by (simp_all add: sample_claims_def sample_snapshot_def)

lemma sample_claims_contested: "contested sample_claims (sample_payment ''pi_1'' '''')"
proof -
  have t: "targets_of sample_claims ref = (if ref = ''pi_1'' then {''pi_1''} else {})" for ref
    by (auto simp: targets_of_eq sample_claims_fields payment_aliases_def
        intro: exI[of _ "sample_payment ''pi_1'' ''''"])
  have f: "find_payment sample_claims ''pi_1'' = Some (sample_payment ''pi_1'' '''')"
    using find_payment_id[OF well_formedD(1)[OF sample_claims_well_formed], of "sample_payment ''pi_1'' ''''"]
    by (simp add: sample_claims_fields)
  have "\<not> match_conflict sample_claims (sample_order oid st ''pi_1'')" for oid st
    by (simp add: match_conflict_def resolved_of_def unknown_refs_def sample_refs t sample_claims_fields f
        foreign_hint_def filter_empty_conv)
  then have m: "matchable sample_claims (sample_order ''21'' ''processing'' ''pi_1'')"
    "matchable sample_claims (sample_order ''22'' ''pending'' ''pi_1'')"
    by (simp_all add: matchable_def sample_claims_fields stripe_method_def)
  have l: "linked sample_claims (sample_order oid st ''pi_1'') (sample_payment ''pi_1'' '''')" for oid st
    by (simp add: linked_def sample_refs payment_aliases_def sample_claims_fields)
  have "sample_order ''21'' ''processing'' ''pi_1'' \<noteq> sample_order ''22'' ''pending'' ''pi_1''"
    by (simp add: sample_order_def)
  with m l show ?thesis unfolding contested_def by blast
qed

lemma sample_claims_returns: "\<exists>r. evaluate H sample_claims = Inr r"
  by (rule evaluate_returns[OF sample_claims_well_formed])
    (auto simp: sample_claims_def sample_snapshot_def sample_order_def usd_valid MAX_MINOR_def)

theorem contested_quarantine_witness:
  "\<exists>r p. evaluate (\<lambda>_. ''k'') sample_claims = Inr r \<and> p \<in> set (ev_proposals r) \<and> prop_rule p = ''PI-010''"
proof -
  obtain r where r: "evaluate (\<lambda>_. ''k'') sample_claims = Inr r" using sample_claims_returns by blast
  let ?c = "mk_draft ''PI-010'' (payment_key (pay_id (sample_payment ''pi_1'' ''''))
        # map order_key (claimants sample_claims (pay_id (sample_payment ''pi_1'' ''''))))
      (Some (pay_received (sample_payment ''pi_1'' ''''))) 100 (now_of sample_claims)
      [(''reason'', JStr ''payment_claimed_by_multiple_orders''),
       (''payment_id'', JStr (pay_id (sample_payment ''pi_1'' ''''))),
       (''order_ids'', strs_json (sort (claimants sample_claims (pay_id (sample_payment ''pi_1'' '''')))))]"
  have "due sample_claims ?c"
    by (rule due.contested[OF _ sample_claims_contested]) (simp add: sample_claims_fields)
  moreover have "enabled_rules sample_claims = RULE_CODES"
    by (simp add: enabled_rules_def sample_claims_def sample_snapshot_def default_policy_def)
  ultimately have p: "propose (\<lambda>_. ''k'') sample_claims ?c \<in> set (ev_proposals r)"
    unfolding expected_evaluate[OF r] using sample_trusted
    by (auto simp: expected_def sample_claims_def RULE_CODES_eq)
  have "payment_key ''pi_1'' \<in> set (prop_identities (propose (\<lambda>_. ''k'') sample_claims ?c))"
    by (simp add: propose_def)
  with contested_quarantine[OF r p sample_claims_contested] p r show ?thesis by auto
qed

section \<open>Keys\<close>

lemma distinct_concat_map:
  assumes "distinct xs" "\<And>x. x \<in> set xs \<Longrightarrow> distinct (map k (f x))"
    and "\<And>x y. x \<in> set xs \<Longrightarrow> y \<in> set xs \<Longrightarrow> x \<noteq> y \<Longrightarrow> k ` set (f x) \<inter> k ` set (f y) = {}"
  shows "distinct (map k (concat (map f xs)))"
  using assms
proof (induction xs)
  case (Cons x xs)
  have "k ` set (f x) \<inter> k ` set (f y) = {}" if "y \<in> set xs" for y
    using Cons.prems(1) that by (intro Cons.prems(3)) auto
  then have "k ` set (f x) \<inter> k ` (\<Union>y \<in> set xs. set (f y)) = {}" by blast
  then show ?case using Cons by simp
qed simp

text \<open>What a key is computed from: the rule and the set of identities.\<close>

definition draft_id :: "draft \<Rightarrow> string \<times> string set" where
  "draft_id c = (dr_rule c, set (dr_ids c))"

definition order_ids_in :: "string set \<Rightarrow> string set" where
  "order_ids_in I = {oid. order_key oid \<in> I}"

lemma order_ids_in_simps [simp]:
  "order_ids_in (insert (order_key oid) I) = insert oid (order_ids_in I)"
  "order_ids_in (insert (payment_key pid) I) = order_ids_in I"
  "order_ids_in (payment_key ` P) = {}" "order_ids_in (order_key ` P) = P" "order_ids_in {} = {}"
  by (auto simp: order_ids_in_def)

lemma order_drafts_owner:
  assumes "c \<in> set (order_drafts s d)"
  shows "order_ids_in (set (dr_ids c)) = {ord_id d}" "dr_rule c \<in> set business_rules"
  using assms
  by (auto simp: order_drafts_def group_drafts_def payment_drafts_def refund_drafts_def Let_def order_ids_def
      business_rules_def image_image[symmetric, of payment_key pay_id] split: if_split_asm)

lemma conflict_drafts_owner:
  assumes "c \<in> set (conflict_drafts s d)"
  shows "order_ids_in (set (dr_ids c)) = {ord_id d}" "dr_rule c = ''PI-010''"
  using assms by (auto simp: conflict_drafts_def split: if_split_asm)

lemma claim_drafts_owner:
  assumes "c \<in> set (claim_drafts s (pid, oids))"
  shows "order_ids_in (set (dr_ids c)) = set oids" "dr_rule c = ''PI-010''" "1 < length oids"
    "payment_key pid \<in> set (dr_ids c)" "\<And>q. payment_key q \<in> set (dr_ids c) \<Longrightarrow> q = pid"
  using assms by (auto simp: claim_drafts_def split: if_split_asm)

lemma late_drafts_owner:
  assumes "c \<in> set (late_drafts s p)"
  shows "set (dr_ids c) = {payment_key (pay_id p)}" "dr_rule c = ''PI-002''"
  using assms by (auto simp: late_drafts_def split: if_split_asm)

lemma order_drafts_distinct: 
  assumes "distinct (map pay_id (snap_payments s))"
  shows "distinct (map draft_id (order_drafts s d))"
proof -
  have dg: "distinct (map pay_id (paid_group s d))"
    using set_group_of(2)[OF assms, of d] by (simp add: succeeded_of_def distinct_map_filter)
  have pay: "distinct (map draft_id (concat (map (payment_drafts s d) (paid_group s d))))"
  proof (rule distinct_concat_map)
    show "distinct (paid_group s d)" using dg by (simp add: distinct_map)
    show "distinct (map draft_id (payment_drafts s d p))" for p
      by (simp add: payment_drafts_def Let_def draft_id_def)
    fix p q assume "p \<in> set (paid_group s d)" "q \<in> set (paid_group s d)" "p \<noteq> q"
    then have "pay_id p \<noteq> pay_id q" using dg by (auto simp: distinct_map dest: inj_onD)
    then show "draft_id ` set (payment_drafts s d p) \<inter> draft_id ` set (payment_drafts s d q) = {}"
      by (auto simp: payment_drafts_def Let_def draft_id_def doubleton_eq_iff split: if_split_asm)
  qed
  have rules: "dr_rule c \<in> {''PI-001'', ''PI-005''}" if "c \<in> set (payment_drafts s d p)" for c p
    using that by (auto simp: payment_drafts_def Let_def split: if_split_asm)
  have refund: "distinct (map draft_id (refund_drafts s d))"
    by (simp add: refund_drafts_def Let_def)
  have rrules: "dr_rule c \<in> {''PI-006'', ''PI-007'', ''PI-008''}" if "c \<in> set (refund_drafts s d)" for c
    using that by (auto simp: refund_drafts_def Let_def split: if_split_asm)
  have group: "distinct (map draft_id (group_drafts s d))"
    using pay rules by (auto simp: group_drafts_def draft_id_def) fastforce+
  have grules: "dr_rule c \<in> {''PI-001'', ''PI-003'', ''PI-004'', ''PI-005''}" if "c \<in> set (group_drafts s d)" for c
    using that rules by (auto simp: group_drafts_def split: if_split_asm)
  have "draft_id c \<noteq> draft_id c'" if "c \<in> set (group_drafts s d)" "c' \<in> set (refund_drafts s d)" for c c'
    using grules[OF that(1)] rrules[OF that(2)] by (auto simp: draft_id_def)
  then have "draft_id ` set (group_drafts s d) \<inter> draft_id ` set (refund_drafts s d) = {}" by blast
  then show ?thesis using group refund by (simp add: order_drafts_def)
qed

lemma per_order_distinct:
  assumes wf: "well_formed s" and "\<And>d. distinct (map draft_id (f d))"
    and owner: "\<And>d c. c \<in> set (f d) \<Longrightarrow> order_ids_in (set (dr_ids c)) = {ord_id d}"
  shows "distinct (map draft_id (concat (map f (sorted_orders s))))"
proof (rule distinct_concat_map)
  show "distinct (sorted_orders s)"
    using distinct_sorted_orders[OF well_formedD(2)[OF wf]] by (simp add: distinct_map)
  show "distinct (map draft_id (f d))" for d by (rule assms(2))
  fix d e assume "d \<in> set (sorted_orders s)" "e \<in> set (sorted_orders s)" "d \<noteq> e"
  then have "ord_id d \<noteq> ord_id e" using order_by_id[OF wf] by auto
  then have "draft_id c \<noteq> draft_id c'" if "c \<in> set (f d)" "c' \<in> set (f e)" for c c'
    using owner[OF that(1)] owner[OF that(2)] by (auto simp: draft_id_def)
  then show "draft_id ` set (f d) \<inter> draft_id ` set (f e) = {}" by blast
qed

lemma all_drafts_distinct:
  assumes wf: "well_formed s"
  shows "distinct (map draft_id (all_drafts H s))"
proof -
  let ?A = "concat (map (conflict_drafts s) (sorted_orders s))"
  let ?B = "concat (map (claim_drafts s) (sort_key fst (w_claimed (walk1 H s))))"
  let ?C = "concat (map (order_drafts s) (sorted_orders s))"
  let ?D = "concat (map (late_drafts s) (sorted_payments s))"
  note pd = well_formedD(1)[OF wf]
  have A: "distinct (map draft_id ?A)"
    by (rule per_order_distinct[OF wf]) (auto simp: conflict_drafts_def dest: conflict_drafts_owner)
  have C: "distinct (map draft_id ?C)"
    by (rule per_order_distinct[OF wf order_drafts_distinct[OF pd] order_drafts_owner(1)])
  have B: "distinct (map draft_id ?B)"
  proof (rule distinct_concat_map)
    have "distinct (w_claimed (walk1 H s))" using claimed_assoc(3)[OF wf] by (simp add: distinct_map)
    then show "distinct (sort_key fst (w_claimed (walk1 H s)))" by simp
    show "distinct (map draft_id (claim_drafts s x))" for x by (cases x) (simp add: claim_drafts_def)
    fix x y assume xy: "x \<in> set (sort_key fst (w_claimed (walk1 H s)))"
      "y \<in> set (sort_key fst (w_claimed (walk1 H s)))" "x \<noteq> y"
    obtain pid oids qid oids' where e: "x = (pid, oids)" "y = (qid, oids')" by (cases x; cases y)
    have "pid \<noteq> qid" using xy claimed_mem[OF wf] by (auto simp: e)
    have "draft_id c \<noteq> draft_id c'" if "c \<in> set (claim_drafts s x)" "c' \<in> set (claim_drafts s y)" for c c'
      using claim_drafts_owner(4)[of c s pid oids] claim_drafts_owner(5)[of c' s qid oids' pid] that \<open>pid \<noteq> qid\<close>
      by (auto simp: draft_id_def e)
    then show "draft_id ` set (claim_drafts s x) \<inter> draft_id ` set (claim_drafts s y) = {}" by blast
  qed
  have D: "distinct (map draft_id ?D)"
  proof (rule distinct_concat_map)
    show "distinct (sorted_payments s)" using distinct_sorted_payments[OF wf] by (simp add: distinct_map)
    show "distinct (map draft_id (late_drafts s p))" for p by (simp add: late_drafts_def)
    fix p q assume "p \<in> set (sorted_payments s)" "q \<in> set (sorted_payments s)" "p \<noteq> q"
    then have "pay_id p \<noteq> pay_id q" using pd by (auto simp: distinct_map dest: inj_onD)
    then have "draft_id c \<noteq> draft_id c'" if "c \<in> set (late_drafts s p)" "c' \<in> set (late_drafts s q)" for c c'
      using late_drafts_owner(1)[OF that(1)] late_drafts_owner(1)[OF that(2)] by (simp add: draft_id_def)
    then show "draft_id ` set (late_drafts s p) \<inter> draft_id ` set (late_drafts s q) = {}" by blast
  qed
  have AB: "draft_id ` set ?A \<inter> draft_id ` set ?B = {}"
  proof -
    have "draft_id c \<noteq> draft_id c'" if cA: "c \<in> set ?A" and cB: "c' \<in> set ?B" for c c'
    proof -
      obtain d where "c \<in> set (conflict_drafts s d)" using cA by auto
      then have d: "order_ids_in (set (dr_ids c)) = {ord_id d}" by (rule conflict_drafts_owner)
      obtain pid oids where b: "(pid, oids) \<in> set (w_claimed (walk1 H s))" "c' \<in> set (claim_drafts s (pid, oids))"
        using cB by auto
      then have "oids = claimants s pid" using claimed_mem[OF wf] by blast
      then have "distinct oids" using claimants_set(2)[OF wf] by blast
      then have "card (order_ids_in (set (dr_ids c'))) > 1"
        using claim_drafts_owner(1,3)[OF b(2)] by (simp add: distinct_card)
      then show ?thesis using d unfolding draft_id_def by (metis card_1_singleton_iff less_irrefl prod.inject One_nat_def)
    qed
    then show ?thesis by blast
  qed
  have rA: "dr_rule c = ''PI-010''" if c: "c \<in> set ?A" for c
  proof -
    obtain d where "c \<in> set (conflict_drafts s d)" using c by auto
    then show ?thesis by (rule conflict_drafts_owner)
  qed
  have rB: "dr_rule c = ''PI-010''" if c: "c \<in> set ?B" for c
  proof -
    obtain pid oids where "c \<in> set (claim_drafts s (pid, oids))" using c by auto
    then show ?thesis by (rule claim_drafts_owner)
  qed
  have rC: "dr_rule c \<in> set business_rules" if c: "c \<in> set ?C" for c
  proof -
    obtain d where "c \<in> set (order_drafts s d)" using c by auto
    then show ?thesis by (rule order_drafts_owner)
  qed
  have rD: "dr_rule c = ''PI-002''" if c: "c \<in> set ?D" for c
  proof -
    obtain p where "c \<in> set (late_drafts s p)" using c by auto
    then show ?thesis by (rule late_drafts_owner)
  qed
  have r: "\<And>c. c \<in> set ?A \<union> set ?B \<Longrightarrow> dr_rule c = ''PI-010''" using rA rB by blast
  have rule_id: "draft_id c = draft_id c' \<Longrightarrow> dr_rule c = dr_rule c'" for c c' by (simp add: draft_id_def)
  have differ: "draft_id ` X \<inter> draft_id ` Y = {}" if "\<And>c c'. c \<in> X \<Longrightarrow> c' \<in> Y \<Longrightarrow> dr_rule c \<noteq> dr_rule c'" for X Y
    using that rule_id by blast
  have cross: "draft_id ` (set ?A \<union> set ?B) \<inter> draft_id ` set ?C = {}"
    "draft_id ` (set ?A \<union> set ?B) \<inter> draft_id ` set ?D = {}" "draft_id ` set ?C \<inter> draft_id ` set ?D = {}"
  proof -
    have ne: "x \<in> set business_rules \<Longrightarrow> x \<noteq> ''PI-010'' \<and> x \<noteq> ''PI-002''" for x
      by (auto simp: business_rules_def)
    show "draft_id ` (set ?A \<union> set ?B) \<inter> draft_id ` set ?C = {}"
      by (rule differ) (metis r rC ne)
    show "draft_id ` (set ?A \<union> set ?B) \<inter> draft_id ` set ?D = {}"
    proof (rule differ)
      fix c c' assume "c \<in> set ?A \<union> set ?B" "c' \<in> set ?D"
      from r[OF this(1)] rD[OF this(2)] show "dr_rule c \<noteq> dr_rule c'" by simp
    qed
    show "draft_id ` set ?C \<inter> draft_id ` set ?D = {}"
      by (rule differ) (metis rC rD ne)
  qed
  show ?thesis
    unfolding all_drafts_def map_append distinct_append set_append set_map
    using A B C D AB cross by blast
qed

lemma proposal_key_inject:
  assumes "inj H"
  shows "proposal_key H s rule ids = proposal_key H s rule' ids' \<longleftrightarrow> rule = rule' \<and> ids = ids'"
proof -
  have strs: "dumps (strs_json xs) = CHR ''['' # join '','' (map quote xs) @ '']''" for xs
    by (simp add: strs_json_def o_def)
  have inj: "dumps (strs_json ids) = dumps (strs_json ids') \<Longrightarrow> ids = ids'"
    using join_quote_prefix_free[of ids "[]" ids' "[]"] unfolding strs by simp
  have canon: "canonical (JList [JStr a, JStr b, JStr c, JStr r, strs_json xs])
      = CHR ''['' # quote a @ '','' @ quote b @ '','' @ quote c @ '','' @ quote r @ '','' @ dumps (strs_json xs) @ '']''"
    for a b c r xs by (simp add: canonical_def)
  show ?thesis
  proof
    assume "proposal_key H s rule ids = proposal_key H s rule' ids'"
    then have "quote rule @ ('','' @ dumps (strs_json ids) @ '']'') = quote rule' @ ('','' @ dumps (strs_json ids') @ '']'')"
      unfolding proposal_key_def canon using injD[OF assms] by fastforce
    from quote_prefix_free[OF this] inj show "rule = rule' \<and> ids = ids'" by simp
  qed simp
qed

text \<open>
  C8: Within one evaluation every proposal has a key of its own, provided the digest does not
  collide: the store can index the proposals by their keys without losing one.
\<close>

theorem proposal_keys_distinct:
  assumes "evaluate H s = Inr r" and "inj H"
  shows "distinct (map prop_key (ev_proposals r))"
proof -
  have key: "prop_key (propose H s c) = prop_key (propose H s c') \<longleftrightarrow>
      dr_rule c = dr_rule c' \<and> sort (remdups (dr_ids c)) = sort (remdups (dr_ids c'))" for c c'
    by (simp add: propose_def proposal_key_inject[OF assms(2)])
  have ident: "sort (remdups xs) = sort (remdups ys) \<longleftrightarrow> set xs = set ys" for xs ys :: "string list"
    by (metis set_remdups set_sort sorted_list_of_set_sort_remdups)
  have "distinct (map prop_key (raised H s cs))" if "distinct (map draft_id cs)" for cs
    using that
  proof (induction cs)
    case (Cons c cs)
    have "prop_key (propose H s c) \<notin> prop_key ` set (raised H s cs)"
      using Cons.prems by (auto simp: raised_def key ident draft_id_def)
    then show ?case using Cons by (auto simp: raised_def)
  qed simp
  note raised = this
  show ?thesis
  proof (cases "trusted s")
    case True
    have "mset (map prop_key (ev_proposals r)) = mset (map prop_key (raised H s (all_drafts H s)))"
      by (simp add: evaluate_drafts(1)[OF assms(1) True])
    then show ?thesis
      using raised[OF all_drafts_distinct[OF evaluate_well_formed[OF assms(1)]]] mset_eq_imp_distinct_iff by blast
  next
    case False
    show ?thesis unfolding evaluate_untrusted(1)[OF assms(1) False]
      by (rule raised) (simp add: source_findings_def)
  qed
qed

theorem proposal_keys_distinct_witness:
  "\<exists>r. evaluate id sample = Inr r \<and> ev_proposals r \<noteq> [] \<and> distinct (map prop_key (ev_proposals r))"
proof -
  obtain r where r: "evaluate id sample = Inr r" using sample_returns by blast
  with proposal_keys_distinct[OF r] sample_unpaid_raised[OF r] show ?thesis by auto
qed

section \<open>Payments for unpaid orders\<close>

text \<open>
  C3: The central rule, PI-001, is sound and complete: a ready PI-001 proposal for an order and a
  payment exists exactly when the rule is enabled, the sources are trusted, and an auditable order
  in an unpaid status is linked to a succeeded payment whose grace period (from its success, or
  its last change when the time of success is unknown) has passed.
\<close>

theorem unpaid_order_reported:
  assumes "evaluate H s = Inr r"
  shows "(\<exists>p \<in> set (ev_proposals r). prop_rule p = ''PI-001'' \<and> prop_ready p \<and>
      set (prop_identities p) = {order_key oid, payment_key pid}) \<longleftrightarrow>
    ''PI-001'' \<notin> set (pol_disabled (snap_policy s)) \<and> trusted s \<and>
    (\<exists>d q. auditable s d \<and> linked s d q \<and> ord_id d = oid \<and> pay_id q = pid \<and>
      pay_status q = ''succeeded'' \<and> ord_status d \<in> set UNPAID \<and>
      (case pay_succeeded q of Some t \<Rightarrow> t | None \<Rightarrow> pay_changed q) + grace q s \<le> now_of s)"
    (is "?L \<longleftrightarrow> ?R")
proof
  note g = set_group_of(1)[OF well_formedD(1)[OF evaluate_well_formed[OF assms]]]
  assume ?L
  then obtain c where c: "c \<in> expected s" "dr_rule c \<in> set (enabled_rules s)" "dr_rule c = ''PI-001''"
    "dr_eligible c \<le> now_of s" "set (dr_ids c) = {order_key oid, payment_key pid}"
    unfolding expected_evaluate[OF assms] by (auto simp: propose_def)
  then have t: "trusted s" by (intro expected_trusted[OF c(1)]) simp
  with c(1) have "due s c" by (simp add: expected_def)
  then obtain d q where d: "auditable s d" "q \<in> set (paid_group s d)" "ord_status d \<in> set UNPAID"
    "dr_ids c = [order_key (ord_id d), payment_key (pay_id q)]" "dr_eligible c = eligible_from s q"
    using c(3) by (cases rule: due.cases) auto
  then show ?R
    using c t g by (auto simp: enabled_rules_def succeeded_of_def eligible_from_def doubleton_eq_iff intro!: exI[of _ d] exI[of _ q])
next
  note g = set_group_of(1)[OF well_formedD(1)[OF evaluate_well_formed[OF assms]]]
  assume ?R
  then obtain d q where d: "auditable s d" "linked s d q" "ord_id d = oid" "pay_id q = pid" "trusted s"
    "pay_status q = ''succeeded''" "ord_status d \<in> set UNPAID" "eligible_from s q \<le> now_of s"
    "''PI-001'' \<in> set (enabled_rules s)"
    by (auto simp: eligible_from_def enabled_rules_def RULE_CODES_eq)
  let ?c = "mk_draft ''PI-001'' [order_key (ord_id d), payment_key (pay_id q)] (Some (pay_received q))
      (match_confidence s d) (eligible_from s q) (facts_of s d)"
  have "due s ?c" using d g by (intro due.unpaid) (auto simp: succeeded_of_def)
  then have "propose H s ?c \<in> set (ev_proposals r)"
    unfolding expected_evaluate[OF assms] using d by (simp add: expected_def)
  then show ?L using d by (intro bexI[of _ "propose H s ?c"]) (auto simp: propose_def)
qed

theorem unpaid_order_reported_witness:
  "\<exists>r p. evaluate (\<lambda>_. ''k'') sample = Inr r \<and> p \<in> set (ev_proposals r) \<and> prop_rule p = ''PI-001'' \<and> prop_ready p"
proof -
  obtain r where r: "evaluate (\<lambda>_. ''k'') sample = Inr r" using sample_returns by blast
  have g: "grace (sample_payment ''pi_1'' '''') sample = minutes 10" "pay_succeeded (sample_payment ''pi_1'' '''') = Some (hours 1)"
    by (simp_all add: grace_def sample_fields default_policy_def INSTANT_def sample_payment_def)
  have "trusted sample" using sample_trusted by (simp add: sample_def)
  then show ?thesis
    using unpaid_order_reported[OF r, of "''11''" "''pi_1''"] r sample_auditable sample_linked(1)
    by (auto simp: sample_fields default_policy_def UNPAID_def g hours_def minutes_def seconds_def
        intro!: exI[of _ "sample_order ''11'' ''pending'' ''pi_1''"] exI[of _ "sample_payment ''pi_1'' ''''"])
qed

end
