(* ===== verification/Errors.thy ===== *)
theory Errors imports Py_Json begin

text \<open>
  \<open>apps/control_plane/errors.py\<close>: the problem documents that answer a request which was not
  accepted. The text \<open>detail\<close> of a \<open>Problem\<close> is a function of its code wherever the program
  raises one with a detail of its own.
\<close>

record response =
  rs_status :: int
  rs_content_type :: string
  rs_headers :: "(string \<times> string) list"
  rs_body :: json

definition DEFAULT_DETAIL :: string where
  "DEFAULT_DETAIL = ''The request could not be accepted.''"

definition detail_of :: "string \<Rightarrow> string" where
  "detail_of code =
     (if code = ''FINDING_VERSION_CONFLICT'' then ''Refresh the finding and retry the action.''
      else if code = ''SCHEMA_VALIDATION_FAILED'' then ''The envelope contains unsupported or invalid fields.''
      else if code = ''RECENT_AUTHENTICATION_REQUIRED'' then ''Sign in again before this operation.''
      else if code = ''VALIDATION_FAILED'' then ''Check the required fields and allowed values.''
      else DEFAULT_DETAIL)"

definition replace_char :: "char \<Rightarrow> char \<Rightarrow> string \<Rightarrow> string" where
  "replace_char a b s = map (\<lambda>c. if c = a then b else c) s"

definition capitalize :: "string \<Rightarrow> string" where
  "capitalize s = upper (take 1 s) @ lower (drop 1 s)"

definition problem_response :: "string \<Rightarrow> string \<Rightarrow> nat \<Rightarrow> string \<Rightarrow> response" where
  "problem_response correlation code status detail =
     \<lparr>rs_status = int status, rs_content_type = ''application/problem+json'', rs_headers = [],
       rs_body = JObj [
         (''type'', JStr (''urn:ledgerguard:problem:'' @ replace_char (CHR ''_'') (CHR ''-'') (lower code))),
         (''title'', JStr (capitalize (replace_char (CHR ''_'') (CHR '' '') code))),
         (''status'', JInt (int status)), (''code'', JStr code), (''detail'', JStr detail),
         (''correlation_id'', JStr correlation)]\<rparr>"

text \<open>The answer of the REST framework, whose status is kept and whose body is replaced.\<close>

definition exception_handler :: "string \<Rightarrow> int option \<Rightarrow> response option" where
  "exception_handler correlation status =
     map_option (\<lambda>n. \<lparr>rs_status = n, rs_content_type = ''application/problem+json'', rs_headers = [],
       rs_body = JObj [
         (''type'', JStr ''urn:ledgerguard:problem:request-rejected''), (''title'', JStr ''Request rejected''),
         (''status'', JInt n), (''code'', JStr ''REQUEST_REJECTED''),
         (''detail'', JStr ''Check authentication, permissions and request fields.''),
         (''correlation_id'', JStr correlation)]\<rparr>) status"

lemma problem_response_example:
  "rs_body (problem_response ''c'' ''NOT_FOUND'' 404 DEFAULT_DETAIL) = JObj [
     (''type'', JStr ''urn:ledgerguard:problem:not-found''), (''title'', JStr ''Not found''),
     (''status'', JInt 404), (''code'', JStr ''NOT_FOUND''),
     (''detail'', JStr ''The request could not be accepted.''), (''correlation_id'', JStr ''c'')]"
  by code_simp

end
