(* ===== verification/Json_Read.thy ===== *)
theory Json_Read imports Py_Json begin

text \<open>
  \<open>json.loads\<close> of Python's standard library: a scanner that returns the value and the rest of the
  text. Arrays and objects recurse with fuel; \<open>loads\<close> starts with the length of the text plus
  one, which is enough because every recursive call happens after at least one consumed
  character (the theory \<open>Json_Roundtrip\<close> proves it for the texts the program writes itself). A string of the
  model has code points below 256, so an escape beyond U+00FF fails here although Python accepts
  it; a float keeps its literal text. \<open>unique\<close> is the hook \<open>_unique_object\<close>, which refuses a
  duplicate member, and \<open>finite\<close> the \<open>parse_constant\<close> that refuses NaN and the infinities.
\<close>

definition is_json_space :: "char \<Rightarrow> bool" where
  "is_json_space c \<longleftrightarrow> (of_char c :: nat) \<in> {9, 10, 13, 32}"

definition skip_space :: "string \<Rightarrow> string" where
  "skip_space s = dropWhile is_json_space s"

definition hex_value :: "char \<Rightarrow> nat option" where
  "hex_value c =
     (let n = (of_char c :: nat) in
      if 48 \<le> n \<and> n \<le> 57 then Some (n - 48)
      else if 97 \<le> n \<and> n \<le> 102 then Some (n - 87)
      else if 65 \<le> n \<and> n \<le> 70 then Some (n - 55)
      else None)"

definition hex4 :: "char \<Rightarrow> char \<Rightarrow> char \<Rightarrow> char \<Rightarrow> nat option" where
  "hex4 a b c d =
     (case (hex_value a, hex_value b, hex_value c, hex_value d) of
        (Some x, Some y, Some z, Some w) \<Rightarrow> Some (x * 4096 + y * 256 + z * 16 + w)
      | _ \<Rightarrow> None)"

definition simple_escape :: "char \<Rightarrow> char option" where
  "simple_escape c =
     (let n = (of_char c :: nat) in
      if n = 34 then Some (CHR 0x22) else if n = 92 then Some (CHR 0x5C) else if n = 47 then Some (CHR 0x2F)
      else if n = 98 then Some (char_of (8::nat)) else if n = 102 then Some (char_of (12::nat))
      else if n = 110 then Some (char_of (10::nat)) else if n = 114 then Some (char_of (13::nat))
      else if n = 116 then Some (char_of (9::nat)) else None)"

text \<open>The characters of a string up to its closing quote.\<close>

fun scan_string :: "string \<Rightarrow> (string \<times> string) option" where
  "scan_string [] = None"
| "scan_string (c # s) =
     (if c = CHR 0x22 then Some ([], s)
      else if c = CHR 0x5C then
        (case s of
           [] \<Rightarrow> None
         | e # t \<Rightarrow>
             if e = CHR ''u'' then
               (case t of
                  x # y # z # w # t' \<Rightarrow>
                    (case hex4 x y z w of
                       None \<Rightarrow> None
                     | Some n \<Rightarrow> if n < 256 then map_option (apfst (Cons (char_of n))) (scan_string t') else None)
                | _ \<Rightarrow> None)
             else
               (case simple_escape e of None \<Rightarrow> None
                | Some d \<Rightarrow> map_option (apfst (Cons d)) (scan_string t)))
      else if (of_char c :: nat) < 32 then None
      else map_option (apfst (Cons c)) (scan_string s))"

text \<open>A number: \<open>-?(0|[1-9]\d*)(\.\d+)?([eE][-+]?\d+)?\<close>; without fraction and exponent it is an int.\<close>

definition scan_digits :: "string \<Rightarrow> string \<times> string" where
  "scan_digits s = (takeWhile is_digit s, dropWhile is_digit s)"

definition scan_whole :: "string \<Rightarrow> (string \<times> string) option" where
  "scan_whole s =
     (case s of [] \<Rightarrow> None
      | c # t \<Rightarrow> if c = CHR ''0'' then Some (''0'', t)
          else if is_digit c then Some (scan_digits s) else None)"

definition scan_fraction :: "string \<Rightarrow> string \<times> string" where
  "scan_fraction s =
     (case s of c # t \<Rightarrow>
        if c = CHR ''.'' \<and> fst (scan_digits t) \<noteq> []
        then (c # fst (scan_digits t), snd (scan_digits t)) else ([], s)
      | [] \<Rightarrow> ([], s))"

definition scan_sign :: "string \<Rightarrow> string \<times> string" where
  "scan_sign s = (case s of c # t \<Rightarrow> if c = CHR ''-'' \<or> c = CHR ''+'' then ([c], t) else ([], s) | [] \<Rightarrow> ([], s))"

definition scan_exponent :: "string \<Rightarrow> string \<times> string" where
  "scan_exponent s =
     (case s of c # t \<Rightarrow>
        (case scan_sign t of (sg, u) \<Rightarrow>
           if (c = CHR ''e'' \<or> c = CHR ''E'') \<and> fst (scan_digits u) \<noteq> []
           then (c # sg @ fst (scan_digits u), snd (scan_digits u)) else ([], s))
      | [] \<Rightarrow> ([], s))"

definition scan_number :: "string \<Rightarrow> (json \<times> string) option" where
  "scan_number s =
     (let (neg, s1) = (case s of c # t \<Rightarrow> if c = CHR ''-'' then (True, t) else (False, s) | [] \<Rightarrow> (False, s)) in
      case scan_whole s1 of
        None \<Rightarrow> None
      | Some (w, s2) \<Rightarrow>
          (case scan_fraction s2 of (f, s3) \<Rightarrow> case scan_exponent s3 of (x, s4) \<Rightarrow>
             Some (if f = [] \<and> x = [] then JInt (if neg then - int (read_nat w) else int (read_nat w))
                   else JFloat ((if neg then ''-'' else []) @ w @ f @ x), s4)))"

definition scan_literal :: "string \<Rightarrow> json \<Rightarrow> string \<Rightarrow> (json \<times> string) option" where
  "scan_literal lit v s = (if startswith s lit then Some (v, drop (length lit) s) else None)"

text \<open>A dict built from pairs: a later value replaces an earlier one at its position.\<close>

fun dict_put :: "string \<Rightarrow> 'v \<Rightarrow> (string \<times> 'v) list \<Rightarrow> (string \<times> 'v) list" where
  "dict_put k v [] = [(k, v)]"
| "dict_put k v ((k', v') # kvs) = (if k = k' then (k, v) # kvs else (k', v') # dict_put k v kvs)"

definition dict_of :: "(string \<times> 'v) list \<Rightarrow> (string \<times> 'v) list" where
  "dict_of kvs = foldl (\<lambda>d (k, v). dict_put k v d) [] kvs"

record hooks =
  hk_unique :: bool
  hk_finite :: bool

fun scan_value :: "hooks \<Rightarrow> nat \<Rightarrow> string \<Rightarrow> (json \<times> string) option"
  and scan_items :: "hooks \<Rightarrow> nat \<Rightarrow> string \<Rightarrow> (json list \<times> string) option"
  and scan_members :: "hooks \<Rightarrow> nat \<Rightarrow> string \<Rightarrow> ((string \<times> json) list \<times> string) option" where
  "scan_value hk 0 s = None"
| "scan_value hk (Suc n) s =
     (case s of
        [] \<Rightarrow> None
      | c # t \<Rightarrow>
          if c = CHR 0x22 then map_option (apfst JStr) (scan_string t)
          else if c = CHR ''['' then
            (case skip_space t of
               d # u \<Rightarrow> if d = CHR '']'' then Some (JList [], u)
                 else map_option (apfst JList) (scan_items hk n (skip_space t))
             | [] \<Rightarrow> None)
          else if c = CHR ''{'' then
            (case skip_space t of
               d # u \<Rightarrow> if d = CHR ''}'' then Some (JObj [], u)
                 else (case scan_members hk n (skip_space t) of
                     None \<Rightarrow> None
                   | Some (kvs, r) \<Rightarrow>
                       if hk_unique hk \<and> \<not> distinct (map fst kvs) then None
                       else Some (JObj (dict_of kvs), r))
             | [] \<Rightarrow> None)
          else if c = CHR ''n'' then scan_literal ''null'' JNull s
          else if c = CHR ''t'' then scan_literal ''true'' (JBool True) s
          else if c = CHR ''f'' then scan_literal ''false'' (JBool False) s
          else if \<not> hk_finite hk \<and> c = CHR ''N'' then scan_literal ''NaN'' (JFloat ''NaN'') s
          else if \<not> hk_finite hk \<and> c = CHR ''I'' then scan_literal ''Infinity'' (JFloat ''Infinity'') s
          else if \<not> hk_finite hk \<and> startswith s ''-Infinity''
            then scan_literal ''-Infinity'' (JFloat ''-Infinity'') s
          else scan_number s)"
| "scan_items hk 0 s = None"
| "scan_items hk (Suc n) s =
     (case scan_value hk n s of
        None \<Rightarrow> None
      | Some (v, r) \<Rightarrow>
          (case skip_space r of
             d # u \<Rightarrow>
               if d = CHR '']'' then Some ([v], u)
               else if d = CHR '','' then map_option (apfst (Cons v)) (scan_items hk n (skip_space u))
               else None
           | [] \<Rightarrow> None))"
| "scan_members hk 0 s = None"
| "scan_members hk (Suc n) s =
     (case s of
        [] \<Rightarrow> None
      | q # t \<Rightarrow>
          if q \<noteq> CHR 0x22 then None
          else (case scan_string t of
              None \<Rightarrow> None
            | Some (k, r) \<Rightarrow>
                (case skip_space r of
                   [] \<Rightarrow> None
                 | d # u \<Rightarrow>
                     if d \<noteq> CHR '':'' then None
                     else (case scan_value hk n (skip_space u) of
                         None \<Rightarrow> None
                       | Some (v, r') \<Rightarrow>
                           (case skip_space r' of
                              [] \<Rightarrow> None
                            | e # w \<Rightarrow>
                                if e = CHR ''}'' then Some ([(k, v)], w)
                                else if e = CHR '',''
                                  then map_option (apfst (Cons (k, v))) (scan_members hk n (skip_space w))
                                else None)))))"

definition loads_with :: "hooks \<Rightarrow> string \<Rightarrow> json option" where
  "loads_with hk s =
     (case scan_value hk (Suc (length s)) (skip_space s) of
        Some (v, r) \<Rightarrow> if skip_space r = [] then Some v else None
      | None \<Rightarrow> None)"

definition loads :: "string \<Rightarrow> json result" where
  "loads s = (case loads_with \<lparr>hk_unique = False, hk_finite = False\<rparr> s of
     Some v \<Rightarrow> Inr v | None \<Rightarrow> Inl (ValueError ''JSONDecodeError''))"

lemma loads_example:
  "loads ''{\"a\": [1, -2.5e3, true], \"b\": {\"c\": null}, \"a\": \"x\"}''
    = Inr (JObj [(''a'', JStr ''x''), (''b'', JObj [(''c'', JNull)])])"
  by code_simp

end
