(* ===== verification/Telemetry.thy ===== *)
theory Telemetry imports Errors Json_Read begin

text \<open>
  \<open>apps/control_plane/telemetry.py\<close>: trace contexts, operational metrics and the formatter
  through which every log line leaves the process. The random hexadecimal texts of \<open>secrets\<close>
  and the clock are parameters.
\<close>

section \<open>Trace contexts\<close>

definition lower_hex :: "string \<Rightarrow> bool" where
  "lower_hex s \<longleftrightarrow> list_all (\<lambda>c. c \<in> set ''abcdef0123456789'') s"

text \<open>\<open>re.fullmatch("00-([a-f0-9]{32})-[a-f0-9]{16}-[a-f0-9]{2}", parent)\<close>: the first group.\<close>

definition trace_match :: "string \<Rightarrow> string option" where
  "trace_match parent =
     (if length parent = 55 \<and> take 3 parent = ''00-'' \<and> lower_hex (take 32 (drop 3 parent)) \<and>
        parent ! 35 = CHR ''-'' \<and> lower_hex (take 16 (drop 36 parent)) \<and> parent ! 52 = CHR ''-'' \<and>
        lower_hex (drop 53 parent)
      then Some (take 32 (drop 3 parent)) else None)"

definition new_trace :: "string \<Rightarrow> string \<Rightarrow> string \<Rightarrow> string" where
  "new_trace hex16 hex8 parent =
     (let trace_id = (case trace_match parent of
            Some t \<Rightarrow> if t \<noteq> replicate 32 (CHR ''0'') then t else hex16 | None \<Rightarrow> hex16)
      in ''00-'' @ trace_id @ ''-'' @ hex8 @ ''-01'')"

section \<open>Metrics\<close>

definition METRICS :: "(string \<times> string) list" where
  "METRICS = [(''RequestDurationMs'', ''Milliseconds''), (''WebhookDurationMs'', ''Milliseconds''),
     (''WorkDurationMs'', ''Milliseconds''), (''WorkFailed'', ''Count''),
     (''CoverageAgeSeconds'', ''Seconds''), (''DetectionDelaySeconds'', ''Seconds'')]"

text \<open>A measured value: a float with its \<open>repr\<close> and what \<open>math.isfinite\<close> and \<open>< 0\<close> say of it.\<close>

record measure =
  me_repr :: string
  me_finite :: bool
  me_negative :: bool

definition admissible :: "string \<Rightarrow> measure \<Rightarrow> bool" where
  "admissible name v \<longleftrightarrow> name \<in> fst ` set METRICS \<and> me_finite v \<and> \<not> me_negative v"

definition metric :: "string \<Rightarrow> measure \<Rightarrow> (string \<times> measure) result" where
  "metric name v = rbind (guard (admissible name v) (ValueError ''Invalid operational metric'')) (\<lambda>_. Inr (name, v))"

section \<open>The formatter\<close>

record log_record =
  lr_level :: string
  lr_logger :: string
  lr_attributes :: "(string \<times> json) list"
  lr_metric :: "(string \<times> measure) option"

definition LOG_FIELDS :: "string list" where
  "LOG_FIELDS = [''event_code'', ''correlation_id'', ''message_id'', ''connector_id'', ''rule_code'',
     ''duration_ms'', ''error_code'', ''traceparent'']"

text \<open>\<open>str(value)\<close> of a value that is a \<open>str\<close>, \<open>int\<close> (or bool) or \<open>float\<close>.\<close>

definition scalar_text :: "json \<Rightarrow> string option" where
  "scalar_text v = (case v of JStr s \<Rightarrow> Some s | JInt i \<Rightarrow> Some (show_int i) | JFloat r \<Rightarrow> Some r
     | JBool b \<Rightarrow> Some (if b then ''True'' else ''False'') | _ \<Rightarrow> None)"

definition log_field :: "log_record \<Rightarrow> string \<Rightarrow> (string \<times> json) list \<Rightarrow> (string \<times> json) list" where
  "log_field lr key data =
     (case map_of (lr_attributes lr) key of
        None \<Rightarrow> data
      | Some v \<Rightarrow> (case scalar_text v of None \<Rightarrow> data | Some t \<Rightarrow> dict_put key (JStr (take 200 t)) data))"

definition metric_fields :: "int \<Rightarrow> string \<Rightarrow> measure \<Rightarrow> (string \<times> json) list \<Rightarrow> (string \<times> json) list" where
  "metric_fields unix_ms name v data =
     dict_put ''_aws'' (JObj [(''Timestamp'', JInt unix_ms), (''CloudWatchMetrics'', JList [JObj [
         (''Namespace'', JStr ''LedgerGuard''), (''Dimensions'', JList [JList [JStr ''Service'']]),
         (''Metrics'', JList [JObj [(''Name'', JStr name),
            (''Unit'', case map_of METRICS name of Some u \<Rightarrow> JStr u | None \<Rightarrow> JNull)]])]])])
       (dict_put name (JFloat (me_repr v)) (dict_put ''Service'' (JStr ''LedgerGuard'') data))"

definition log_data :: "string \<Rightarrow> int \<Rightarrow> string \<Rightarrow> log_record \<Rightarrow> (string \<times> json) list" where
  "log_data now_iso unix_ms trace lr =
     (let data0 = [(''timestamp'', JStr now_iso), (''level'', JStr (lr_level lr)), (''logger'', JStr (lr_logger lr))];
          data1 = fold (log_field lr) LOG_FIELDS data0;
          data2 = (if trace \<noteq> [] then dict_put ''traceparent'' (JStr trace) data1 else data1);
          data3 = (if dict_get data2 ''event_code'' = None
            then dict_put ''event_code'' (JStr ''framework_event'') data2 else data2)
      in case lr_metric lr of
           None \<Rightarrow> data3
         | Some (name, v) \<Rightarrow> if admissible name v then metric_fields unix_ms name v data3 else data3)"

definition format_record :: "string \<Rightarrow> int \<Rightarrow> string \<Rightarrow> log_record \<Rightarrow> string" where
  "format_record now_iso unix_ms trace lr = dumps_raw (JObj (log_data now_iso unix_ms trace lr))"

end
