(* ===== verification/Py_Uuid.thy ===== *)
theory Py_Uuid imports Json_Read begin

text \<open>
  UUIDs: \<open>modules/base.py\<close>'s generator \<open>uuid7\<close>, \<open>str(uuid)\<close> and \<open>UUID(text)\<close>. A UUID is the
  nonnegative integer \<open>uuid.int\<close>.
\<close>

type_synonym uuid = int

text \<open>
  \<open>uuid7\<close>: the clock in nanoseconds and the two random numbers are arguments. The shifts put the
  milliseconds above bit 80, the version at bits 76 to 79, the variant at bits 62 and 63.
\<close>

definition uuid7 :: "int \<Rightarrow> int \<Rightarrow> int \<Rightarrow> uuid" where
  "uuid7 time_ns rand12 rand62 =
     or (or (or (or (push_bit 80 (time_ns div 1000000)) (push_bit 76 7)) (push_bit 64 rand12)) (push_bit 62 2)) rand62"

fun hex_digits :: "nat \<Rightarrow> int \<Rightarrow> string" where
  "hex_digits 0 n = []"
| "hex_digits (Suc w) n = hex_digits w (n div 16) @ [hex_char (nat (n mod 16))]"

definition uuid_str :: "uuid \<Rightarrow> string" where
  "uuid_str u =
     (let h = hex_digits 32 u in
      take 8 h @ ''-'' @ take 4 (drop 8 h) @ ''-'' @ take 4 (drop 12 h) @ ''-'' @ take 4 (drop 16 h) @ ''-'' @
      drop 20 h)"

text \<open>
  \<open>int(text, 16)\<close>: white space around it, a sign, a prefix \<open>0x\<close>, single underscores between digits.
\<close>

fun hex_run :: "int \<Rightarrow> string \<Rightarrow> int option" where
  "hex_run a [] = Some a"
| "hex_run a (c # s) =
     (if c = CHR ''_'' then
        (case s of d # t \<Rightarrow> (case hex_value d of Some v \<Rightarrow> hex_run (16 * a + int v) t | None \<Rightarrow> None) | [] \<Rightarrow> None)
      else (case hex_value c of Some v \<Rightarrow> hex_run (16 * a + int v) s | None \<Rightarrow> None))"

definition int16 :: "string \<Rightarrow> int option" where
  "int16 text =
     (let s = strip text;
          (neg, s1) = (case s of c # t \<Rightarrow> if c = CHR ''-'' then (True, t) else if c = CHR ''+'' then (False, t)
            else (False, s) | [] \<Rightarrow> (False, s));
          (pre, s2) = (if startswith s1 ''0x'' \<or> startswith s1 ''0X'' then (True, drop 2 s1) else (False, s1));
          s3 = (if pre \<and> startswith s2 ''_'' then drop 1 s2 else s2)
      in case s3 of [] \<Rightarrow> None
         | c # t \<Rightarrow> if c = CHR ''_'' then None
             else map_option (\<lambda>n. if neg then - n else n) (hex_run 0 s3))"

text \<open>\<open>s.replace(p, "")\<close> for a nonempty \<open>p\<close>; the number counts the characters of a match still to drop.\<close>

fun remove_at :: "string \<Rightarrow> nat \<Rightarrow> string \<Rightarrow> string" where
  "remove_at p k [] = []"
| "remove_at p (Suc k) (c # s) = remove_at p k s"
| "remove_at p 0 (c # s) = (if startswith (c # s) p then remove_at p (length p - 1) s else c # remove_at p 0 s)"

definition remove_all :: "string \<Rightarrow> string \<Rightarrow> string" where
  "remove_all p s = remove_at p 0 s"

definition strip_braces :: "string \<Rightarrow> string" where
  "strip_braces s = (let f = dropWhile (\<lambda>c. c = CHR ''{'' \<or> c = CHR ''}'') in rev (f (rev (f s))))"

definition uuid_of :: "string \<Rightarrow> uuid result" where
  "uuid_of s =
     (let h = filter (\<lambda>c. c \<noteq> CHR ''-'') (strip_braces (remove_all ''uuid:'' (remove_all ''urn:'' s))) in
      if length h \<noteq> 32 then Inl (ValueError ''badly formed hexadecimal UUID string'')
      else (case int16 h of
          None \<Rightarrow> Inl (ValueError ''invalid literal for int() with base 16'')
        | Some n \<Rightarrow> if n < 0 then Inl (ValueError ''int is out of range (need a 128-bit value)'') else Inr n))"

lemma uuid_example: "uuid_of (uuid_str 0x0123456789abcdef0123456789abcdef) = Inr 0x0123456789abcdef0123456789abcdef"
  "uuid_str 0x0123456789abcdef0123456789abcdef = ''01234567-89ab-cdef-0123-456789abcdef''"
  by code_simp+

end
