(* ===== verification/Records.thy ===== *)
theory Records imports Py_Uuid Py_Time begin

text \<open>
  The tables of the program (\<open>modules/*/models.py\<close>): one record per Django model and the record
  \<open>db\<close> of all tables, each a list of rows in the order of their primary keys. The primary keys
  are UUIDs whose leading bits are the clock (\<open>uuid7\<close>), so new rows are appended; \<open>db_next\<close> is
  the next key. A foreign key is the key of its row. A model's \<open>created_at\<close>, \<open>updated_at\<close> and
  \<open>lock_version\<close> are fields where the program reads them.

  A \<open>db\<close> holds what the session of one tenant sees: row-level security (migration
  \<open>0002_tenant_security\<close>) hides the rows of other organizations. An operation returns the exception
  or a result and the new tables; an exception rolls its transaction back.
\<close>

section \<open>Generic tables\<close>

definition row_by :: "('r \<Rightarrow> 'k) \<Rightarrow> 'k \<Rightarrow> 'r list \<Rightarrow> 'r option" where
  "row_by key k rows = find (\<lambda>r. key r = k) rows"

text \<open>\<open>row.save()\<close> of a row that exists, and \<open>filter(P).update(f)\<close>.\<close>

definition save_row :: "('r \<Rightarrow> 'k) \<Rightarrow> 'r \<Rightarrow> 'r list \<Rightarrow> 'r list" where
  "save_row key r rows = map (\<lambda>x. if key x = key r then r else x) rows"

definition update_where :: "('r \<Rightarrow> bool) \<Rightarrow> ('r \<Rightarrow> 'r) \<Rightarrow> 'r list \<Rightarrow> 'r list" where
  "update_where P f rows = map (\<lambda>x. if P x then f x else x) rows"

text \<open>\<open>objects.get(...)\<close>: the only row, or an exception.\<close>

definition get_row :: "string \<Rightarrow> ('r \<Rightarrow> bool) \<Rightarrow> 'r list \<Rightarrow> 'r result" where
  "get_row name P rows = (case find P rows of Some r \<Rightarrow> Inr r | None \<Rightarrow> Inl (DoesNotExist name))"

lemma row_by_Some: "row_by key k rows = Some r \<Longrightarrow> r \<in> set rows \<and> key r = k"
  by (auto simp: row_by_def find_Some_iff)

lemma row_by_None: "row_by key k rows = None \<longleftrightarrow> k \<notin> key ` set rows"
  by (auto simp: row_by_def find_None_iff)

lemma find_append: "find P (xs @ ys) = (case find P xs of Some x \<Rightarrow> Some x | None \<Rightarrow> find P ys)"
  by (induction xs) auto

lemma row_by_append: "row_by key k (rows @ [r]) =
    (case row_by key k rows of Some x \<Rightarrow> Some x | None \<Rightarrow> if key r = k then Some r else None)"
  by (simp add: row_by_def find_append split: option.split)

lemma row_by_save: "row_by key k (save_row key r rows) =
    (if key r = k then (if k \<in> key ` set rows then Some r else None) else row_by key k rows)"
  by (induction rows) (auto simp: row_by_def save_row_def)

lemma save_row_keys [simp]: "map key (save_row key r rows) = map key rows"
  by (induction rows) (auto simp: save_row_def)

lemma get_row_Inr: "get_row name P rows = Inr r \<Longrightarrow> r \<in> set rows \<and> P r"
  by (auto simp: get_row_def find_Some_iff split: option.splits)

section \<open>Accounts\<close>

record directory_entry =
  dir_id :: uuid
  dir_active :: bool
  dir_erased :: "datetime option"
  dir_digest :: string

record organization =
  org_id :: uuid
  org_name :: string
  org_active :: bool
  org_retention :: int
  org_alerts :: bool
  org_deleted :: "datetime option"
  org_lock :: int

record user =
  usr_id :: int
  usr_username :: string
  usr_password :: string
  usr_email :: string
  usr_active :: bool
  usr_staff :: bool

record membership =
  mem_id :: uuid
  mem_org :: uuid
  mem_user :: int
  mem_role :: string
  mem_active :: bool
  mem_store :: "uuid option"
  mem_lock :: int

record invitation =
  inv_id :: uuid
  inv_org :: uuid
  inv_store :: "uuid option"
  inv_email :: string
  inv_role :: string
  inv_token_hash :: string
  inv_expires :: datetime
  inv_accepted :: "datetime option"
  inv_by :: int

record support_grant =
  gra_id :: uuid
  gra_org :: uuid
  gra_user :: int
  gra_approved_by :: int
  gra_reason :: string
  gra_expires :: datetime
  gra_revoked :: "datetime option"

record audit_log =
  aud_id :: uuid
  aud_org :: uuid
  aud_actor :: string
  aud_action :: string
  aud_resource :: string
  aud_correlation :: string
  aud_details :: json
  aud_created :: datetime

section \<open>Connectors\<close>

record locator =
  loc_id :: uuid
  loc_org :: uuid
  loc_kind :: string

record store =
  sto_id :: uuid
  sto_org :: uuid
  sto_name :: string
  sto_hostname :: string
  sto_mode :: string
  sto_active :: bool
  sto_policy_version :: int
  sto_instant :: int
  sto_async :: int
  sto_refund :: int
  sto_freshness :: int
  sto_disabled :: "string list"
  sto_shadow :: bool
  sto_alerts :: bool
  sto_reviewed :: "datetime option"
  sto_lock :: int

record installation =
  ins_id :: uuid
  ins_org :: uuid
  ins_kind :: string
  ins_store :: "uuid option"
  ins_mode :: string
  ins_account :: string
  ins_status :: string
  ins_destination :: "uuid option"
  ins_credential :: json
  ins_webhook :: json
  ins_token_expires :: "datetime option"
  ins_heartbeat :: "datetime option"
  ins_versions :: json
  ins_health :: "(string \<times> json) list"
  ins_error :: string
  ins_next_api :: "datetime option"
  ins_created :: datetime
  ins_lock :: int

record link =
  lnk_id :: uuid
  lnk_org :: uuid
  lnk_store :: uuid
  lnk_stripe :: uuid
  lnk_status :: string
  lnk_owner_confirmed :: "datetime option"
  lnk_merchant_confirmed :: "datetime option"
  lnk_verified_payment :: string

record public_key =
  key_id :: uuid
  key_org :: uuid
  key_installation :: uuid
  key_key_id :: uuid
  key_public :: string
  key_expires :: "datetime option"
  key_revoked :: "datetime option"

record pairing_code =
  pai_id :: uuid
  pai_org :: uuid
  pai_store :: uuid
  pai_code_hash :: string
  pai_expires :: datetime
  pai_used :: "datetime option"
  pai_issued_by :: string

record pairing_locator =
  plo_code_hash :: string
  plo_org :: uuid

record oauth_state =
  oau_id :: uuid
  oau_org :: uuid
  oau_state_hash :: string
  oau_user :: int
  oau_session_hash :: string
  oau_store :: uuid
  oau_expires :: datetime
  oau_consumed :: "datetime option"
  oau_mode :: string

section \<open>Ingestion\<close>

record receipt =
  rec_id :: uuid
  rec_org :: uuid
  rec_connector :: uuid
  rec_external :: string
  rec_body_hash :: string
  rec_kind :: string
  rec_source :: string
  rec_event_type :: string
  rec_event_created :: "datetime option"
  rec_status :: string
  rec_result :: "(string \<times> json) list"
  rec_created :: datetime

record observation =
  obs_id :: uuid
  obs_org :: uuid
  obs_connector :: uuid
  obs_kind :: string
  obs_source :: string
  obs_revision :: datetime
  obs_hash :: string
  obs_data :: "(string \<times> json) list"
  obs_table :: string
  obs_created :: datetime

record projection =
  pro_id :: uuid
  pro_org :: uuid
  pro_connector :: uuid
  pro_store :: "uuid option"
  pro_kind :: string
  pro_source :: string
  pro_mode :: string
  pro_status :: string
  pro_amount :: int
  pro_received :: int
  pro_refunded :: int
  pro_capturable :: int
  pro_currency :: string
  pro_exponent :: int
  pro_parent :: string
  pro_transaction :: string
  pro_pi :: string
  pro_charge :: string
  pro_session :: string
  pro_method :: string
  pro_capture :: string
  pro_store_hint :: string
  pro_order_hint :: string
  pro_created :: datetime
  pro_revision :: datetime
  pro_paid :: "datetime option"
  pro_succeeded :: "datetime option"
  pro_observation :: uuid
  pro_updated :: datetime
  pro_lock :: int

record cursor =
  cur_id :: uuid
  cur_org :: uuid
  cur_connector :: uuid
  cur_class :: string
  cur_from :: "datetime option"
  cur_through :: "datetime option"
  cur_observed :: "datetime option"
  cur_complete :: bool
  cur_scan :: "uuid option"
  cur_scan_from :: "datetime option"
  cur_scan_through :: "datetime option"
  cur_next_page :: int
  cur_failed :: bool
  cur_updated :: datetime
  cur_lock :: int

record idempotency =
  ide_id :: uuid
  ide_org :: uuid
  ide_principal :: string
  ide_route :: string
  ide_key :: string
  ide_request_hash :: string
  ide_response :: json
  ide_status :: int
  ide_expires :: datetime

record quota_row =
  quo_id :: uuid
  quo_org :: uuid
  quo_bucket :: string
  quo_window :: int
  quo_count :: int
  quo_created :: datetime

record scan =
  sca_id :: uuid
  sca_org :: uuid
  sca_connector :: uuid
  sca_from :: datetime
  sca_through :: datetime
  sca_phase :: nat
  sca_cursor :: string
  sca_pages :: int
  sca_status :: string
  sca_repair :: bool
  sca_updated :: datetime

record batch_page =
  pag_id :: uuid
  pag_org :: uuid
  pag_connector :: uuid
  pag_scan :: uuid
  pag_page :: int
  pag_hash :: string
  pag_result :: "(string \<times> json) list"
  pag_created :: datetime

section \<open>Findings\<close>

record run_row =
  run_id :: uuid
  run_org :: uuid
  run_store :: uuid
  run_mode :: string
  run_rule_version :: string
  run_match_version :: string
  run_policy_version :: int
  run_digest :: string
  run_evaluated :: datetime
  run_coverage :: json
  run_warnings :: json
  run_proposals :: json
  run_shadow :: bool
  run_created :: datetime

record finding =
  fin_id :: uuid
  fin_org :: uuid
  fin_store :: uuid
  fin_mode :: string
  fin_key :: string
  fin_rule :: string
  fin_rule_version :: string
  fin_policy_version :: int
  fin_severity :: string
  fin_state :: string
  fin_identities :: "string list"
  fin_risk :: "int option"
  fin_currency :: string
  fin_exponent :: int
  fin_confidence :: int
  fin_first_seen :: datetime
  fin_last_seen :: datetime
  fin_eligible :: datetime
  fin_occurrences :: int
  fin_evidence :: "(string \<times> json) list"
  fin_evidence_hash :: string
  fin_suppressed_until :: "datetime option"
  fin_clean_since :: "datetime option"
  fin_clean_digest :: string
  fin_resolved :: "datetime option"
  fin_updated :: datetime
  fin_lock :: int

record finding_event =
  eve_id :: uuid
  eve_org :: uuid
  eve_finding :: uuid
  eve_type :: string
  eve_actor :: string
  eve_previous :: string
  eve_new :: string
  eve_evidence :: "(string \<times> json) list"
  eve_note :: string
  eve_run :: "uuid option"

record outbox =
  out_id :: uuid
  out_org :: uuid
  out_key :: string
  out_task :: string
  out_resource :: uuid
  out_status :: string
  out_attempts :: int
  out_available :: datetime
  out_lease :: "datetime option"
  out_provider :: string
  out_error :: string
  out_delivery :: string
  out_created :: datetime

record alert_route =
  rou_id :: uuid
  rou_org :: uuid
  rou_email :: string
  rou_verified :: "datetime option"
  rou_active :: bool
  rou_bounced :: "datetime option"

record email_delivery =
  del_id :: uuid
  del_org :: uuid
  del_digest_key :: "string option"
  del_event :: "uuid option"
  del_security :: "uuid option"
  del_route :: uuid
  del_status :: string
  del_provider :: string
  del_accepted :: "datetime option"
  del_feedback :: "datetime option"
  del_created :: datetime

record report =
  rep_id :: uuid
  rep_org :: uuid
  rep_store :: "uuid option"
  rep_by :: int
  rep_format :: string
  rep_status :: string
  rep_object :: string
  rep_sha256 :: string
  rep_expires :: datetime

section \<open>The tables\<close>

record db =
  db_next :: uuid
  db_directory :: "directory_entry list"
  db_orgs :: "organization list"
  db_users :: "user list"
  db_members :: "membership list"
  db_invitations :: "invitation list"
  db_grants :: "support_grant list"
  db_audit :: "audit_log list"
  db_locators :: "locator list"
  db_stores :: "store list"
  db_installations :: "installation list"
  db_links :: "link list"
  db_keys :: "public_key list"
  db_pairings :: "pairing_code list"
  db_pairing_locators :: "pairing_locator list"
  db_oauth :: "oauth_state list"
  db_receipts :: "receipt list"
  db_observations :: "observation list"
  db_projections :: "projection list"
  db_cursors :: "cursor list"
  db_idempotency :: "idempotency list"
  db_quotas :: "quota_row list"
  db_scans :: "scan list"
  db_pages :: "batch_page list"
  db_runs :: "run_row list"
  db_findings :: "finding list"
  db_events :: "finding_event list"
  db_outbox :: "outbox list"
  db_routes :: "alert_route list"
  db_deliveries :: "email_delivery list"
  db_reports :: "report list"

type_synonym 'a trans = "db \<Rightarrow> ('a \<times> db) result"

definition empty_db :: db where
  "empty_db = \<lparr>db_next = 1, db_directory = [], db_orgs = [], db_users = [], db_members = [],
     db_invitations = [], db_grants = [], db_audit = [], db_locators = [], db_stores = [],
     db_installations = [], db_links = [], db_keys = [], db_pairings = [], db_pairing_locators = [],
     db_oauth = [], db_receipts = [], db_observations = [], db_projections = [], db_cursors = [],
     db_idempotency = [], db_quotas = [], db_scans = [], db_pages = [], db_runs = [],
     db_findings = [], db_events = [], db_outbox = [], db_routes = [], db_deliveries = [],
     db_reports = []\<rparr>"

text \<open>A new primary key.\<close>

definition fresh_id :: "db \<Rightarrow> uuid \<times> db" where
  "fresh_id d = (db_next d, d\<lparr>db_next := db_next d + 1\<rparr>)"

section \<open>Composition of transactions\<close>

definition tbind :: "'a trans \<Rightarrow> ('a \<Rightarrow> 'b trans) \<Rightarrow> 'b trans" where
  "tbind m f d = (case m d of Inl e \<Rightarrow> Inl e | Inr (x, d') \<Rightarrow> f x d')"

definition treturn :: "'a \<Rightarrow> 'a trans" where "treturn x d = Inr (x, d)"
definition traise :: "exn \<Rightarrow> 'a trans" where "traise e d = Inl e"
definition tlift :: "'a result \<Rightarrow> 'a trans" where
  "tlift r d = (case r of Inl e \<Rightarrow> Inl e | Inr x \<Rightarrow> Inr (x, d))"
definition tguard :: "bool \<Rightarrow> exn \<Rightarrow> unit trans" where "tguard ok e = tlift (guard ok e)"
definition tread :: "(db \<Rightarrow> 'a) \<Rightarrow> 'a trans" where "tread f d = Inr (f d, d)"
definition tmodify :: "(db \<Rightarrow> db) \<Rightarrow> unit trans" where "tmodify f d = Inr ((), f d)"

fun tfor :: "('a \<Rightarrow> unit trans) \<Rightarrow> 'a list \<Rightarrow> unit trans" where
  "tfor f [] = treturn ()"
| "tfor f (x # xs) = tbind (f x) (\<lambda>_. tfor f xs)"

lemma tbind_Inr_iff: "tbind m f d = Inr r \<longleftrightarrow> (\<exists>x d'. m d = Inr (x, d') \<and> f x d' = Inr r)"
  by (auto simp: tbind_def split: sum.splits)

lemma tbindE [elim!]:
  assumes "tbind m f d = Inr r"
  obtains x d' where "m d = Inr (x, d')" "f x d' = Inr r"
  using assms by (auto simp: tbind_Inr_iff)

lemma trans_simps [simp]:
  "treturn x d = Inr (x, d)" "traise e d = Inl e" "tread g d = Inr (g d, d)" "tmodify h d = Inr ((), h d)"
  "tbind (treturn x) f = f x" "tbind (traise e) f = traise e"
  "tbind (tread g) f d = f (g d) d" "tbind (tmodify h) k d = k () (h d)"
  by (auto simp: treturn_def traise_def tread_def tmodify_def tbind_def fun_eq_iff)

lemma tlift_Inr [simp]: "tlift r d = Inr (x, d') \<longleftrightarrow> r = Inr x \<and> d' = d"
  by (auto simp: tlift_def split: sum.splits)

lemma tguard_Inr [simp]: "tguard ok e d = Inr (u, d') \<longleftrightarrow> ok \<and> d' = d"
  by (auto simp: tguard_def)

lemma tfor_invariant:
  assumes "tfor f xs d = Inr (u, d')" and "P d"
    and "\<And>x d u d'. x \<in> set xs \<Longrightarrow> P d \<Longrightarrow> f x d = Inr (u, d') \<Longrightarrow> P d'"
  shows "P d'"
  using assms by (induction xs arbitrary: d) (auto, blast)

end
