(* ===== verification/Validation.thy ===== *)
theory Validation imports Py_Uuid Py_Time begin

text \<open>
  \<open>modules/ingestion/validation.py\<close>: reading and writing of UTC timestamps, the bounded JSON
  reader \<open>parse_body\<close> and the checks on a request's body. A body is its ASCII text. The JSON
  schema validator is a third-party library and a parameter, SHA-256 the parameter \<open>digest\<close>.
\<close>

definition MAX_BODY :: nat where "MAX_BODY = 1048576"

section \<open>Timestamps\<close>

text \<open>
  \<open>datetime.fromisoformat\<close> on the extended format: a date, any one separator, a time with hours,
  minutes, seconds and a fraction (digits after the sixth are cut), an offset that can only be
  \<open>+00:00\<close> here, because \<open>timestamp\<close> puts it at the end. Without offset the time is local,
  which is UTC (\<open>TIME_ZONE\<close>). The basic and week formats, which the schemas exclude, fail here.
\<close>

definition all_digits :: "string \<Rightarrow> bool" where
  "all_digits s \<longleftrightarrow> s \<noteq> [] \<and> list_all is_digit s"

definition read_digits :: "string \<Rightarrow> int" where
  "read_digits s = foldl (\<lambda>a c. 10 * a + int (digit_value c)) 0 s"

definition read_date :: "string \<Rightarrow> int option" where
  "read_date s =
     (let y = read_digits (take 4 s); m = read_digits (take 2 (drop 5 s)); d = read_digits (take 2 (drop 8 s)) in
      if length s = 10 \<and> list_all is_digit (take 4 s) \<and> s ! 4 = CHR ''-'' \<and> list_all is_digit (take 2 (drop 5 s)) \<and>
         s ! 7 = CHR ''-'' \<and> list_all is_digit (take 2 (drop 8 s)) \<and>
         1 \<le> y \<and> 1 \<le> m \<and> m \<le> 12 \<and> civil_from_days (days_from_civil y m d) = (y, m, d)
      then Some (days_from_civil y m d) else None)"

definition two_digits :: "string \<Rightarrow> int \<Rightarrow> int option" where
  "two_digits s bound =
     (if length s = 2 \<and> list_all is_digit s \<and> read_digits s < bound then Some (read_digits s) else None)"

definition read_fraction :: "string \<Rightarrow> int option" where
  "read_fraction f = (if all_digits f then Some (read_digits (ljust0 6 (take 6 f))) else None)"

definition read_seconds :: "string \<Rightarrow> int option" where
  "read_seconds s =
     (let (w, dot, f) = partition_at (CHR ''.'') (map (\<lambda>c. if c = CHR '','' then CHR ''.'' else c) s) in
      case (two_digits w 60, if dot then read_fraction f else Some 0) of
        (Some x, Some us) \<Rightarrow> Some (seconds x + us) | _ \<Rightarrow> None)"

definition read_time :: "string \<Rightarrow> int option" where
  "read_time s =
     (case split_at (CHR '':'') s of
        [h] \<Rightarrow> map_option hours (two_digits h 24)
      | [h, m] \<Rightarrow> (case (two_digits h 24, two_digits m 60) of
            (Some a, Some b) \<Rightarrow> Some (hours a + minutes b) | _ \<Rightarrow> None)
      | [h, m, x] \<Rightarrow> (case (two_digits h 24, two_digits m 60, read_seconds x) of
            (Some a, Some b, Some c) \<Rightarrow> Some (hours a + minutes b + c) | _ \<Rightarrow> None)
      | _ \<Rightarrow> None)"

definition fromisoformat :: "string \<Rightarrow> datetime option" where
  "fromisoformat s =
     (let time = takeWhile (\<lambda>c. c \<noteq> CHR ''+'' \<and> c \<noteq> CHR ''-'') (drop 11 s);
          zone = dropWhile (\<lambda>c. c \<noteq> CHR ''+'' \<and> c \<noteq> CHR ''-'') (drop 11 s) in
      if length s < 11 \<or> zone \<notin> {[], ''+00:00''} then None
      else case (read_date (take 10 s), read_time time) of
        (Some day, Some t) \<Rightarrow> Some (days day + t) | _ \<Rightarrow> None)"

definition replace_Z :: "string \<Rightarrow> string" where
  "replace_Z s = concat (map (\<lambda>c. if c = CHR ''Z'' then ''+00:00'' else [c]) s)"

definition timestamp :: "json \<Rightarrow> datetime result" where
  "timestamp v =
     (case v of
        JStr s \<Rightarrow>
          if \<not> endswith s ''Z'' then Inl (ValueError ''UTC timestamp required'')
          else (case fromisoformat (replace_Z s) of
              None \<Rightarrow> Inl (ValueError ''Invalid isoformat string'') | Some d \<Rightarrow> Inr d)
      | _ \<Rightarrow> Inl (ValueError ''UTC timestamp required''))"

text \<open>\<open>isoformat()\<close> ends with the only \<open>+00:00\<close> of the text.\<close>

definition utc :: "datetime \<Rightarrow> string" where
  "utc d = (let s = isoformat d in take (length s - 6) s @ ''Z'')"

lemma timestamp_example:
  "timestamp (JStr ''2026-09-05T12:00:00.25Z'') = Inr 1788609600250000"
  "timestamp (JStr ''2026-02-30T12:00:00Z'') = Inl (ValueError ''Invalid isoformat string'')"
  "utc 1788609600000000 = ''2026-09-05T12:00:00Z''"
  by code_simp+

section \<open>Bodies\<close>

text \<open>
  The nesting scanner of \<open>parse_body\<close>: \<open>True\<close> when it reaches the end, \<open>False\<close> when it raises
  \<open>JSON_DEPTH_EXCEEDED\<close>. The arguments are its variables \<open>depth\<close>, \<open>quoted\<close> and \<open>escaped\<close>.
\<close>

fun depth_scan :: "int \<Rightarrow> bool \<Rightarrow> bool \<Rightarrow> string \<Rightarrow> bool" where
  "depth_scan depth quoted escaped [] = True"
| "depth_scan depth quoted escaped (c # s) =
     (if quoted then
        (if escaped then depth_scan depth quoted False s
         else if c = CHR 0x5C then depth_scan depth quoted True s
         else if c = CHR 0x22 then depth_scan depth False escaped s
         else depth_scan depth quoted escaped s)
      else if c = CHR 0x22 then depth_scan depth True escaped s
      else if c = CHR ''{'' \<or> c = CHR ''['' then depth + 1 \<le> 12 \<and> depth_scan (depth + 1) quoted escaped s
      else if c = CHR ''}'' \<or> c = CHR '']'' then depth_scan (depth - 1) quoted escaped s
      else depth_scan depth quoted escaped s)"

definition parse_body :: "string \<Rightarrow> (string \<times> json) list result" where
  "parse_body body =
     (if MAX_BODY < length body then Inl (Problem ''PAYLOAD_TOO_LARGE'' 413)
      else if \<not> depth_scan 0 False False body then Inl (Problem ''JSON_DEPTH_EXCEEDED'' 400)
      else case loads_with \<lparr>hk_unique = True, hk_finite = True\<rparr> body of
          Some (JObj kvs) \<Rightarrow> Inr kvs
        | _ \<Rightarrow> Inl (Problem ''INVALID_JSON'' 400))"

text \<open>\<open>int(text)\<close> in base ten, and the checks on the headers. Header values are looked up by name.\<close>

fun digit_run :: "int \<Rightarrow> string \<Rightarrow> int option" where
  "digit_run a [] = Some a"
| "digit_run a (c # s) =
     (if c = CHR ''_'' then
        (case s of d # t \<Rightarrow> if is_digit d then digit_run (10 * a + int (digit_value d)) t else None | [] \<Rightarrow> None)
      else if is_digit c then digit_run (10 * a + int (digit_value c)) s else None)"

definition int10 :: "string \<Rightarrow> int option" where
  "int10 text =
     (let s = strip text;
          (neg, s1) = (case s of c # t \<Rightarrow> if c = CHR ''-'' then (True, t) else if c = CHR ''+'' then (False, t)
            else (False, s) | [] \<Rightarrow> (False, s))
      in case s1 of [] \<Rightarrow> None
         | c # t \<Rightarrow> if c = CHR ''_'' then None
             else map_option (\<lambda>n. if neg then - n else n) (digit_run 0 s1))"

record request =
  rq_headers :: "(string \<times> string) list"
  rq_content_type :: string
  rq_body :: string

definition header_or :: "request \<Rightarrow> string \<Rightarrow> string \<Rightarrow> string" where
  "header_or rq k d = (case map_of (rq_headers rq) k of None \<Rightarrow> d | Some v \<Rightarrow> v)"

definition request_body :: "request \<Rightarrow> string result" where
  "request_body rq =
     (if header_or rq ''Content-Encoding'' ''identity'' \<noteq> ''identity'' then Inl (Problem ''UNSUPPORTED_ENCODING'' 415)
      else if rq_content_type rq \<noteq> ''application/json'' then Inl (Problem ''UNSUPPORTED_MEDIA_TYPE'' 415)
      else case int10 (header_or rq ''Content-Length'' ''0'') of
          None \<Rightarrow> Inl (Problem ''INVALID_CONTENT_LENGTH'' 400)
        | Some n \<Rightarrow>
            if int MAX_BODY < n \<or> n < 0 then Inl (Problem ''PAYLOAD_TOO_LARGE'' 413)
            else if MAX_BODY < length (rq_body rq) then Inl (Problem ''PAYLOAD_TOO_LARGE'' 413)
            else Inr (rq_body rq))"

text \<open>\<open>valid\<close> stands for the \<open>jsonschema\<close> validator: whether a value has no error under a schema.\<close>

definition validate_schema :: "(string \<Rightarrow> json \<Rightarrow> bool) \<Rightarrow> json \<Rightarrow> string \<Rightarrow> unit result" where
  "validate_schema valid v schema = guard (valid schema v) (Problem ''SCHEMA_VALIDATION_FAILED'' 422)"

section \<open>What an accepted body is\<close>

fun json_depth :: "json \<Rightarrow> nat" where
  "json_depth (JList xs) = Suc (foldr (\<lambda>v m. max (json_depth v) m) xs 0)"
| "json_depth (JObj kvs) = Suc (foldr (\<lambda>(k, v) m. max (json_depth v) m) kvs 0)"
| "json_depth _ = 0"

fun unique_members :: "json \<Rightarrow> bool" where
  "unique_members (JList xs) = list_all unique_members xs"
| "unique_members (JObj kvs) = (distinct (map fst kvs) \<and> list_all (\<lambda>(k, v). unique_members v) kvs)"
| "unique_members _ = True"

lemma hex_value_plain: "hex_value c = Some v \<Longrightarrow> c \<noteq> CHR 0x22 \<and> c \<noteq> CHR 0x5C"
  by (auto simp: hex_value_def Let_def split: if_splits)

lemma hex4_plain: "hex4 x y z w = Some n \<Longrightarrow>
    x \<noteq> CHR 0x22 \<and> x \<noteq> CHR 0x5C \<and> y \<noteq> CHR 0x22 \<and> y \<noteq> CHR 0x5C \<and>
    z \<noteq> CHR 0x22 \<and> z \<noteq> CHR 0x5C \<and> w \<noteq> CHR 0x22 \<and> w \<noteq> CHR 0x5C"
  by (auto simp: hex4_def dest: hex_value_plain split: option.splits)

lemma depth_scan_quoted:
  "depth_scan d True True (c # s) = depth_scan d True False s"
  "c \<noteq> CHR 0x5C \<Longrightarrow> c \<noteq> CHR 0x22 \<Longrightarrow> depth_scan d True False (c # s) = depth_scan d True False s"
  "depth_scan d True False (CHR 0x22 # s) = depth_scan d False False s"
  "depth_scan d True False (CHR 0x5C # s) = depth_scan d True True s"
  by simp_all

lemma scan_string_depth:
  "scan_string s = Some (x, r) \<Longrightarrow> depth_scan d True False s \<Longrightarrow> depth_scan d False False r"
proof (induction s arbitrary: x rule: scan_string.induct)
  case (2 c s)
  note dq = depth_scan_quoted
  consider "c = CHR 0x22" | "c = CHR 0x5C" | "c \<noteq> CHR 0x22" "c \<noteq> CHR 0x5C" by blast
  then show ?case
  proof cases
    case 1
    then show ?thesis using "2.prems" by (simp add: dq)
  next
    case 2
    then obtain e t where s: "s = e # t" using "2.prems" by (cases s) auto
    have t: "depth_scan d True False t" using "2.prems"(2) by (simp only: 2 s dq)
    show ?thesis
    proof (cases "e = CHR ''u''")
      case True
      then obtain p q z w t' n y where u: "t = p # q # z # w # t'" "hex4 p q z w = Some n" "n < 256"
          "scan_string t' = Some (y, r)"
        using "2.prems"(1) 2 s by (auto split: list.splits option.splits if_splits)
      have "depth_scan d True False t'" using t hex4_plain[OF u(2)] by (simp add: u(1) dq del: depth_scan.simps)
      then show ?thesis using "2.IH"(1)[OF _ 2 s True u(1) refl refl refl u(2,3,4)] 2 by simp
    next
      case False
      then obtain y where "scan_string t = Some (y, r)"
        using "2.prems"(1) 2 s by (auto split: option.splits)
      then show ?thesis using "2.IH"(2) 2 s False t "2.prems"(1) by (auto split: option.splits)
    qed
  next
    case 3
    then obtain y where "scan_string s = Some (y, r)" using "2.prems"(1) by (auto split: if_splits)
    then show ?thesis using "2.IH"(3) 3 "2.prems" by (auto simp: dq split: if_splits)
  qed
qed simp

definition plain :: "char \<Rightarrow> bool" where
  "plain c \<longleftrightarrow> c \<notin> {CHR 0x22, CHR ''{'', CHR ''}'', CHR ''['', CHR '']''}"

lemma depth_scan_char: "plain c \<Longrightarrow> depth_scan d False False (c # s) = depth_scan d False False s"
  by (simp add: plain_def)

lemma depth_scan_plain: "list_all plain u \<Longrightarrow> depth_scan d False False (u @ s) = depth_scan d False False s"
  by (induction u) (simp_all add: depth_scan_char del: depth_scan.simps)

lemma plain_space: "is_json_space c \<Longrightarrow> plain c"
  by (auto simp: is_json_space_def plain_def)

lemma plain_digit: "is_digit c \<Longrightarrow> plain c"
  by (auto simp: is_digit_def plain_def)

lemma takeWhile_plain: "(\<And>c. P c \<Longrightarrow> plain c) \<Longrightarrow> depth_scan d False False (dropWhile P s) = depth_scan d False False s"
proof -
  assume "\<And>c. P c \<Longrightarrow> plain c"
  then have "list_all plain (takeWhile P s)" by (induction s) auto
  from depth_scan_plain[OF this, of d "dropWhile P s"] show ?thesis by (simp del: depth_scan.simps)
qed

lemma depth_scan_space: "depth_scan d False False (skip_space s) = depth_scan d False False s"
  unfolding skip_space_def by (rule takeWhile_plain) (rule plain_space)

lemma scan_digits_depth: "depth_scan d False False (snd (scan_digits s)) = depth_scan d False False s"
  unfolding scan_digits_def snd_conv by (rule takeWhile_plain) (rule plain_digit)

lemma scan_whole_depth:
  assumes "scan_whole s = Some (w, r)"
  shows "depth_scan d False False r = depth_scan d False False s"
proof (cases s)
  case (Cons c t)
  have "plain (CHR ''0'')" by (simp add: plain_def)
  then show ?thesis
    using assms Cons scan_digits_depth[of d s] depth_scan_char[of "CHR ''0''" d t]
    by (auto simp: scan_whole_def simp del: depth_scan.simps split: if_splits)
qed (use assms in \<open>simp add: scan_whole_def\<close>)

lemma scan_fraction_depth:
  assumes "scan_fraction s = (w, r)"
  shows "depth_scan d False False r = depth_scan d False False s"
proof (cases s)
  case (Cons c t)
  have "plain (CHR ''.'')" by (simp add: plain_def)
  then show ?thesis
    using assms Cons scan_digits_depth[of d t] depth_scan_char[of "CHR ''.''" d t]
    by (auto simp: scan_fraction_def simp del: depth_scan.simps split: if_splits)
qed (use assms in \<open>simp add: scan_fraction_def\<close>)

lemma scan_sign_depth: "depth_scan d False False (snd (scan_sign s)) = depth_scan d False False s"
proof (cases s)
  case (Cons c t)
  have "plain (CHR ''-'')" "plain (CHR ''+'')" by (simp_all add: plain_def)
  then show ?thesis
    using Cons depth_scan_char[of "CHR ''-''" d t] depth_scan_char[of "CHR ''+''" d t]
    by (auto simp: scan_sign_def simp del: depth_scan.simps)
qed (simp add: scan_sign_def)

lemma scan_exponent_depth:
  assumes "scan_exponent s = (w, r)"
  shows "depth_scan d False False r = depth_scan d False False s"
proof (cases s)
  case (Cons c t)
  obtain sg u where su: "scan_sign t = (sg, u)" by (cases "scan_sign t")
  have "plain (CHR ''e'')" "plain (CHR ''E'')" by (simp_all add: plain_def)
  then show ?thesis
    using assms Cons scan_digits_depth[of d u] scan_sign_depth[of d t]
      depth_scan_char[of "CHR ''e''" d t] depth_scan_char[of "CHR ''E''" d t]
    by (auto simp: scan_exponent_def su simp del: depth_scan.simps split: if_splits)
qed (use assms in \<open>simp add: scan_exponent_def\<close>)

lemma scan_number_depth:
  assumes "scan_number s = Some (v, r)"
  shows "depth_scan d False False r = depth_scan d False False s" and "json_depth v = 0"
proof -
  define p where "p = (case s of c # t \<Rightarrow> if c = CHR ''-'' then (True, t) else (False, s) | [] \<Rightarrow> (False, s))"
  obtain neg s1 where ns: "p = (neg, s1)" by (cases p)
  have s1: "depth_scan d False False s1 = depth_scan d False False s"
  proof (cases s)
    case (Cons c t)
    have "plain (CHR ''-'')" by (simp add: plain_def)
    then show ?thesis
      using ns Cons depth_scan_char[of "CHR ''-''" d t]
      by (auto simp: p_def simp del: depth_scan.simps split: if_splits)
  qed (use ns in \<open>simp add: p_def\<close>)
  note def = assms[unfolded scan_number_def Let_def p_def[symmetric] ns prod.case]
  from def obtain w s2 where w: "scan_whole s1 = Some (w, s2)"
    by (cases "scan_whole s1") auto
  obtain f s3 where f: "scan_fraction s2 = (f, s3)" by (cases "scan_fraction s2")
  obtain x s4 where x: "scan_exponent s3 = (x, s4)" by (cases "scan_exponent s3")
  have r: "r = s4" and v: "json_depth v = 0" using def by (auto simp: w f x)
  show "depth_scan d False False r = depth_scan d False False s"
    unfolding r scan_exponent_depth[OF x] scan_fraction_depth[OF f] scan_whole_depth[OF w] s1 ..
  show "json_depth v = 0" by (rule v)
qed

lemma startswith_split: "startswith s p \<Longrightarrow> s = p @ drop (length p) s"
  unfolding startswith_def by (metis append_take_drop_id)

lemma scan_literal_depth:
  assumes "scan_literal lit v s = Some (w, r)" "list_all plain lit"
  shows "w = v" "depth_scan d False False r = depth_scan d False False s"
proof -
  have st: "startswith s lit" "w = v" "r = drop (length lit) s"
    using assms(1) by (auto simp: scan_literal_def split: if_splits)
  show "w = v" by (rule st)
  show "depth_scan d False False r = depth_scan d False False s"
    using depth_scan_plain[OF assms(2), of d r] startswith_split[OF st(1)] st(3) by simp
qed

lemma foldr_max_bound: "foldr (\<lambda>v m. max (f v) m) xs 0 \<le> n \<longleftrightarrow> (\<forall>v \<in> set xs. f v \<le> (n::nat))"
  by (induction xs) auto

lemma json_depth_bound:
  "json_depth (JList xs) \<le> Suc n \<longleftrightarrow> (\<forall>v \<in> set xs. json_depth v \<le> n)"
  "json_depth (JObj kvs) \<le> Suc n \<longleftrightarrow> (\<forall>kv \<in> set kvs. json_depth (snd kv) \<le> n)"
  using foldr_max_bound[of json_depth xs n] foldr_max_bound[of "\<lambda>kv. json_depth (snd kv)" kvs n]
  by (simp_all add: case_prod_beta')

lemma dict_put_set: "kv \<in> set (dict_put k v kvs) \<Longrightarrow> kv = (k, v) \<or> kv \<in> set kvs"
  by (induction k v kvs rule: dict_put.induct) (auto split: if_splits)

lemma dict_of_set: "kv \<in> set (dict_of kvs) \<Longrightarrow> kv \<in> set kvs"
proof -
  have "kv \<in> set (foldl (\<lambda>d (k, v). dict_put k v d) acc kvs) \<Longrightarrow> kv \<in> set acc \<union> set kvs" for acc
    by (induction kvs arbitrary: acc) (auto dest!: dict_put_set)
  from this[of "[]"] show "kv \<in> set (dict_of kvs) \<Longrightarrow> kv \<in> set kvs" by (simp add: dict_of_def)
qed

text \<open>
  The scanner of values consumes exactly the brackets that the nesting scanner counts: when
  \<open>depth_scan\<close> accepts the text at some depth, the value read fits below the limit, and the
  rest is accepted at the depth that reading left behind.
\<close>

lemma depth_scan_brackets:
  "depth_scan d False False (CHR ''['' # s) \<longleftrightarrow> d + 1 \<le> 12 \<and> depth_scan (d + 1) False False s"
  "depth_scan d False False (CHR ''{'' # s) \<longleftrightarrow> d + 1 \<le> 12 \<and> depth_scan (d + 1) False False s"
  "depth_scan d False False (CHR '']'' # s) \<longleftrightarrow> depth_scan (d - 1) False False s"
  "depth_scan d False False (CHR ''}'' # s) \<longleftrightarrow> depth_scan (d - 1) False False s"
  "depth_scan d False False (CHR '','' # s) \<longleftrightarrow> depth_scan d False False s"
  "depth_scan d False False (CHR '':'' # s) \<longleftrightarrow> depth_scan d False False s"
  "depth_scan d False False (CHR 0x22 # s) \<longleftrightarrow> depth_scan d True False s"
  by simp_all

lemmas depth_simps = depth_scan_brackets depth_scan_space

lemma space_Cons: "skip_space s = c # t \<Longrightarrow> depth_scan d False False s = depth_scan d False False (c # t)"
  using depth_scan_space[of d s] by (simp del: depth_scan.simps)

lemma scan_depth:
  "scan_value hk n s = Some (v, r) \<Longrightarrow> d \<le> 12 \<Longrightarrow> depth_scan d False False s \<Longrightarrow>
     depth_scan d False False r \<and> d + int (json_depth v) \<le> 12"
  "scan_items hk n s = Some (vs, r) \<Longrightarrow> d \<le> 12 \<Longrightarrow> depth_scan d False False s \<Longrightarrow>
     depth_scan (d - 1) False False r \<and> (\<forall>v \<in> set vs. d + int (json_depth v) \<le> 12)"
  "scan_members hk n s = Some (kvs, r) \<Longrightarrow> d \<le> 12 \<Longrightarrow> depth_scan d False False s \<Longrightarrow>
     depth_scan (d - 1) False False r \<and> (\<forall>kv \<in> set kvs. d + int (json_depth (snd kv)) \<le> 12)"
proof (induction hk n s and hk n s and hk n s arbitrary: v r d and vs r d and kvs r d
    rule: scan_value_scan_items_scan_members.induct)
  case (2 hk n s)
  then obtain c t where s: "s = c # t" by (cases s) auto
  have list_bound: "d + int (json_depth (JList xs)) \<le> 12" if "d + 1 \<le> 12" "\<forall>v \<in> set xs. d + 1 + int (json_depth v) \<le> 12" for xs
  proof -
    have "json_depth (JList xs) \<le> Suc (nat (11 - d))"
      unfolding json_depth_bound using that by fastforce
    then show ?thesis using that(1) by linarith
  qed
  have obj_bound: "d + int (json_depth (JObj kvs)) \<le> 12" if "d + 1 \<le> 12" "\<forall>kv \<in> set kvs. d + 1 + int (json_depth (snd kv)) \<le> 12" for kvs
  proof -
    have "json_depth (JObj kvs) \<le> Suc (nat (11 - d))"
      unfolding json_depth_bound using that by fastforce
    then show ?thesis using that(1) by linarith
  qed
  consider (str) "c = CHR 0x22" | (list) "c = CHR ''[''" | (obj) "c = CHR ''{''"
    | (other) "c \<noteq> CHR 0x22" "c \<noteq> CHR ''[''" "c \<noteq> CHR ''{''" by blast
  then show ?case
  proof cases
    case str
    then obtain x where "scan_string t = Some (x, r)" "v = JStr x" using "2.prems"(1) s by auto
    then show ?thesis using "2.prems" scan_string_depth by (auto simp: s str depth_simps simp del: depth_scan.simps)
  next
    case list
    have d: "d + 1 \<le> 12" "depth_scan (d + 1) False False t" using "2.prems"(3) by (simp_all only: s list depth_simps)
    obtain b u where u: "skip_space t = b # u" using "2.prems"(1) s list by (cases "skip_space t") auto
    have du: "depth_scan (d + 1) False False (b # u)" using d(2) space_Cons[OF u] by simp
    show ?thesis
    proof (cases "b = CHR '']''")
      case True
      then have "v = JList []" "r = u" using "2.prems"(1) s list u by auto
      then show ?thesis using du d(1) by (simp add: True depth_simps del: depth_scan.simps)
    next
      case False
      then obtain xs where xs: "scan_items hk n (skip_space t) = Some (xs, r)" "v = JList xs"
        using "2.prems"(1) s list u by auto
      then have "depth_scan d False False r \<and> (\<forall>v \<in> set xs. d + 1 + int (json_depth v) \<le> 12)"
        using "2.IH"(1)[OF s _ list u False, of xs r "d + 1"] d by (simp add: list depth_scan_space del: depth_scan.simps)
      then show ?thesis using list_bound[of xs] d(1) xs(2) by blast
    qed
  next
    case obj
    have d: "d + 1 \<le> 12" "depth_scan (d + 1) False False t" using "2.prems"(3) by (simp_all only: s obj depth_simps)
    obtain b u where u: "skip_space t = b # u" using "2.prems"(1) s obj by (cases "skip_space t") auto
    have du: "depth_scan (d + 1) False False (b # u)" using d(2) space_Cons[OF u] by simp
    show ?thesis
    proof (cases "b = CHR ''}''")
      case True
      then have "v = JObj []" "r = u" using "2.prems"(1) s obj u by auto
      then show ?thesis using du d(1) by (simp add: True depth_simps del: depth_scan.simps)
    next
      case False
      then obtain kvs where kvs: "scan_members hk n (skip_space t) = Some (kvs, r)" "v = JObj (dict_of kvs)"
        using "2.prems"(1) s obj u by (auto split: option.splits if_splits)
      then have "depth_scan d False False r \<and> (\<forall>kv \<in> set kvs. d + 1 + int (json_depth (snd kv)) \<le> 12)"
        using "2.IH"(2)[OF s _ _ obj u False, of kvs r "d + 1"] d by (simp add: obj depth_scan_space del: depth_scan.simps)
      then show ?thesis using obj_bound[of "dict_of kvs"] d(1) kvs(2) dict_of_set by blast
    qed
  next
    case other
    have lits: "list_all plain ''null''" "list_all plain ''true''" "list_all plain ''false''" "list_all plain ''NaN''"
      "list_all plain ''Infinity''" "list_all plain ''-Infinity''" by (simp_all add: plain_def)
    have "scan_number s = Some (v, r) \<or> (\<exists>lit w. list_all plain lit \<and> json_depth w = 0 \<and> scan_literal lit w s = Some (v, r))"
    proof -
      have flat: "json_depth JNull = 0" "json_depth (JBool b) = 0" "json_depth (JFloat f) = 0" for b f by simp_all
      from "2.prems"(1) other s show ?thesis
        by (simp split: if_split_asm) (use lits flat in blast)+
    qed
    then have "depth_scan d False False r = depth_scan d False False s \<and> json_depth v = 0"
      using scan_number_depth(1)[of s v r d] scan_number_depth(2)[of s v r] scan_literal_depth by metis
    then show ?thesis using "2.prems" by simp
  qed
next
  case (4 hk n s)
  then obtain v t where v: "scan_value hk n s = Some (v, t)" by (auto split: option.splits)
  have one: "depth_scan d False False t \<and> d + int (json_depth v) \<le> 12"
    using "4.IH"(1)[OF v "4.prems"(2,3)] .
  obtain b u where u: "skip_space t = b # u" using "4.prems"(1) v by (cases "skip_space t") auto
  have du: "depth_scan d False False (b # u)" using one space_Cons[OF u] by simp
  show ?case
  proof (cases "b = CHR '']''")
    case True
    then have "vs = [v]" "r = u" using "4.prems"(1) v u by auto
    then show ?thesis using du one by (simp add: True depth_simps del: depth_scan.simps)
  next
    case False
    then have b: "b = CHR '',''" using "4.prems"(1) v u by (auto split: if_splits)
    then obtain ws where ws: "scan_items hk n (skip_space u) = Some (ws, r)" "vs = v # ws"
      using "4.prems"(1) v u False by auto
    have "depth_scan d False False (skip_space u)" using du by (simp only: b depth_simps)
    then show ?thesis using "4.IH"(2)[OF v refl u False b ws(1) "4.prems"(2)] one ws(2) by simp
  qed
next
  case (6 hk n s)
  then obtain t where s: "s = CHR 0x22 # t" by (cases s) (auto split: if_splits)
  obtain k t1 where k: "scan_string t = Some (k, t1)" using "6.prems"(1) s by (auto split: option.splits)
  obtain c u where u: "skip_space t1 = c # u" using "6.prems"(1) s k by (cases "skip_space t1") auto
  have c: "c = CHR '':''" using "6.prems"(1) s k u by (auto split: if_splits)
  obtain v t2 where v: "scan_value hk n (skip_space u) = Some (v, t2)"
    using "6.prems"(1) s k u c by (auto split: option.splits)
  obtain e w where w: "skip_space t2 = e # w" using "6.prems"(1) s k u c v by (cases "skip_space t2") auto
  have "depth_scan d True False t" using "6.prems"(3) by (simp only: s depth_simps)
  then have "depth_scan d False False (c # u)" using scan_string_depth[OF k] space_Cons[OF u] by simp
  then have "depth_scan d False False (skip_space u)" by (simp only: c depth_simps)
  then have one: "depth_scan d False False t2 \<and> d + int (json_depth v) \<le> 12"
    using "6.IH"(1)[OF s _ k refl u _ v "6.prems"(2)] c by simp
  then have dw: "depth_scan d False False (e # w)" using space_Cons[OF w] by simp
  show ?case
  proof (cases "e = CHR ''}''")
    case True
    then have "kvs = [(k, v)]" "r = w" using "6.prems"(1) s k u c v w by auto
    then show ?thesis using dw one by (simp add: True depth_simps del: depth_scan.simps)
  next
    case False
    then have e: "e = CHR '',''" using "6.prems"(1) s k u c v w by (auto split: if_splits)
    then obtain ws where ws: "scan_members hk n (skip_space w) = Some (ws, r)" "kvs = (k, v) # ws"
      using "6.prems"(1) s k u c v w False by auto
    have "depth_scan d False False (skip_space w)" using dw by (simp only: e depth_simps)
    then show ?thesis using "6.IH"(2)[OF s _ k refl u _ v refl w False e ws(1) "6.prems"(2)] one ws(2) c by simp
  qed
qed simp_all

lemma loads_with_depth:
  assumes "loads_with hk s = Some v" "depth_scan 0 False False s"
  shows "json_depth v \<le> 12"
proof -
  obtain r where "scan_value hk (Suc (length s)) (skip_space s) = Some (v, r)"
    using assms(1) by (auto simp: loads_with_def split: option.splits if_splits)
  from scan_depth(1)[OF this, of 0] show ?thesis
    using assms(2) by (simp add: depth_scan_space del: depth_scan.simps scan_value.simps)
qed


end
