(* ===== verification/Ingestion.thy ===== *)
theory Ingestion imports Records Validation Domain begin

text \<open>
  \<open>modules/ingestion/service.py\<close>: rate limits, the transactional outbox, the projection of source
  facts with their immutable observations, the acceptance of WooCommerce batches page by page, and
  the advance of Stripe coverage. \<open>now\<close> is \<open>timezone.now()\<close>, read once per operation; \<open>H\<close> is
  SHA-256 in hexadecimal.
\<close>

type_synonym dict = "(string \<times> json) list"

section \<open>Reading members\<close>

definition str_of :: "json \<Rightarrow> string result" where
  "str_of v = (case v of JStr s \<Rightarrow> Inr s | _ \<Rightarrow> Inl (TypeError ''string expected''))"

definition int_of :: "json \<Rightarrow> int result" where
  "int_of v = (case v of JInt i \<Rightarrow> Inr i | _ \<Rightarrow> Inl (TypeError ''integer expected''))"

definition dict_of_json :: "json \<Rightarrow> dict result" where
  "dict_of_json v = (case v of JObj kvs \<Rightarrow> Inr kvs | _ \<Rightarrow> Inl (TypeError ''object expected''))"

text \<open>A value whose method \<open>get\<close> is called.\<close>

definition attr_dict :: "json \<Rightarrow> dict result" where
  "attr_dict v = (case v of JObj kvs \<Rightarrow> Inr kvs | _ \<Rightarrow> Inl (OtherError ''AttributeError''))"

definition list_of_json :: "json \<Rightarrow> json list result" where
  "list_of_json v = (case v of JList xs \<Rightarrow> Inr xs | _ \<Rightarrow> Inl (TypeError ''list expected''))"

definition str_at :: "dict \<Rightarrow> string \<Rightarrow> string result" where
  "str_at d k = rbind (dict_at d k) str_of"

definition int_at :: "dict \<Rightarrow> string \<Rightarrow> int result" where
  "int_at d k = rbind (dict_at d k) int_of"

section \<open>Quotas and the outbox\<close>

definition quota :: "uuid \<Rightarrow> string \<Rightarrow> int \<Rightarrow> int \<Rightarrow> datetime \<Rightarrow> unit trans" where
  "quota org bucket limit secs now d =
     (let window = unix_seconds now div secs;
          mine = (\<lambda>q. quo_org q = org \<and> quo_bucket q = bucket \<and> quo_window q = window) in
      case (case find mine (db_quotas d) of
          Some q \<Rightarrow> (q, d)
        | None \<Rightarrow>
            (let q = \<lparr>quo_id = db_next d, quo_org = org, quo_bucket = bucket, quo_window = window, quo_count = 0, quo_created = now\<rparr>
             in (q, d\<lparr>db_next := db_next d + 1, db_quotas := db_quotas d @ [q]\<rparr>))) of
        (q, d1) \<Rightarrow>
          if limit \<le> quo_count q then Inl (Problem ''RATE_LIMITED'' 429)
          else Inr ((), d1\<lparr>db_quotas := save_row quo_id (q\<lparr>quo_count := quo_count q + 1\<rparr>) (db_quotas d1)\<rparr>))"

definition new_outbox :: "uuid \<Rightarrow> uuid \<Rightarrow> string \<Rightarrow> uuid \<Rightarrow> string \<Rightarrow> datetime \<Rightarrow> outbox" where
  "new_outbox i org task resource key now =
     \<lparr>out_id = i, out_org = org, out_key = key, out_task = task, out_resource = resource,
       out_status = ''pending'', out_attempts = 0, out_available = now, out_lease = None,
       out_provider = [], out_error = [], out_delivery = [], out_created = now\<rparr>"

definition enqueue :: "datetime \<Rightarrow> uuid \<Rightarrow> string \<Rightarrow> uuid \<Rightarrow> string \<Rightarrow> outbox trans" where
  "enqueue now org task resource key d =
     (case row_by out_key key (db_outbox d) of
        Some r \<Rightarrow> Inr (r, d)
      | None \<Rightarrow>
          (let r = new_outbox (db_next d) org task resource key now in
           Inr (r, d\<lparr>db_next := db_next d + 1, db_outbox := db_outbox d @ [r]\<rparr>)))"

definition reconcile_stores :: "installation \<Rightarrow> db \<Rightarrow> uuid list" where
  "reconcile_stores con d =
     (case ins_store con of Some s \<Rightarrow> [s]
      | None \<Rightarrow> map lnk_store (filter (\<lambda>l. lnk_stripe l = ins_id con) (db_links d)))"

definition reconcile_later :: "datetime \<Rightarrow> installation \<Rightarrow> string \<Rightarrow> unit trans" where
  "reconcile_later now con reason d =
     tfor (\<lambda>s. tbind (enqueue now (ins_org con) ''reconcile_store'' s
         (''reconcile:'' @ uuid_str s @ '':'' @ reason)) (\<lambda>_. treturn ()))
       (reconcile_stores con d) d"

section \<open>Projections\<close>

definition find_projection :: "installation \<Rightarrow> string \<Rightarrow> string \<Rightarrow> db \<Rightarrow> projection option" where
  "find_projection con kind source d =
     find (\<lambda>p. pro_connector p = ins_id con \<and> pro_kind p = kind \<and> pro_source p = source) (db_projections d)"

definition hash_of_observation :: "uuid \<Rightarrow> db \<Rightarrow> string" where
  "hash_of_observation i d = (case row_by obs_id i (db_observations d) of Some ob \<Rightarrow> obs_hash ob | None \<Rightarrow> [])"

definition observe :: "datetime \<Rightarrow> installation \<Rightarrow> string \<Rightarrow> string \<Rightarrow> datetime \<Rightarrow> string \<Rightarrow> dict \<Rightarrow> observation trans" where
  "observe now con kind source revision content data d =
     (case find (\<lambda>ob. obs_connector ob = ins_id con \<and> obs_kind ob = kind \<and> obs_source ob = source \<and>
         obs_revision ob = revision \<and> obs_hash ob = content) (db_observations d) of
        Some ob \<Rightarrow> Inr (ob, d)
      | None \<Rightarrow>
          (let ob = \<lparr>obs_id = db_next d, obs_org = ins_org con, obs_connector = ins_id con, obs_kind = kind,
             obs_source = source, obs_revision = revision, obs_hash = content, obs_data = data,
             obs_table = CURRENCY_TABLE_VERSION, obs_created = now\<rparr> in
           Inr (ob, d\<lparr>db_next := db_next d + 1, db_observations := db_observations d @ [ob]\<rparr>)))"

text \<open>
  \<open>setattr(current, key, value)\<close> for a member of the data. Members that are no field of the model
  (\<open>refund_ids\<close>) are left out; the three times are read with \<open>timestamp\<close> unless they are null or empty.
\<close>

definition time_field :: "json \<Rightarrow> datetime option result" where
  "time_field v = (if truthy v then rbind (timestamp v) (\<lambda>t. Inr (Some t))
     else if v = JNull then Inr None else Inl (ValueError ''invalid date''))"

definition set_field :: "string \<times> json \<Rightarrow> projection \<Rightarrow> projection result" where
  "set_field kv p =
     (case kv of (k, v) \<Rightarrow>
        if k = ''status'' then rbind (str_of v) (\<lambda>x. Inr (p\<lparr>pro_status := x\<rparr>))
        else if k = ''amount_minor'' then rbind (int_of v) (\<lambda>x. Inr (p\<lparr>pro_amount := x\<rparr>))
        else if k = ''received_minor'' then rbind (int_of v) (\<lambda>x. Inr (p\<lparr>pro_received := x\<rparr>))
        else if k = ''refunded_minor'' then rbind (int_of v) (\<lambda>x. Inr (p\<lparr>pro_refunded := x\<rparr>))
        else if k = ''capturable_minor'' then rbind (int_of v) (\<lambda>x. Inr (p\<lparr>pro_capturable := x\<rparr>))
        else if k = ''currency'' then rbind (str_of v) (\<lambda>x. Inr (p\<lparr>pro_currency := x\<rparr>))
        else if k = ''exponent'' then rbind (int_of v) (\<lambda>x. Inr (p\<lparr>pro_exponent := x\<rparr>))
        else if k = ''parent_id'' then rbind (str_of v) (\<lambda>x. Inr (p\<lparr>pro_parent := x\<rparr>))
        else if k = ''transaction_id'' then rbind (str_of v) (\<lambda>x. Inr (p\<lparr>pro_transaction := x\<rparr>))
        else if k = ''pi_id'' then rbind (str_of v) (\<lambda>x. Inr (p\<lparr>pro_pi := x\<rparr>))
        else if k = ''charge_id'' then rbind (str_of v) (\<lambda>x. Inr (p\<lparr>pro_charge := x\<rparr>))
        else if k = ''session_id'' then rbind (str_of v) (\<lambda>x. Inr (p\<lparr>pro_session := x\<rparr>))
        else if k = ''method'' then rbind (str_of v) (\<lambda>x. Inr (p\<lparr>pro_method := x\<rparr>))
        else if k = ''capture_method'' then rbind (str_of v) (\<lambda>x. Inr (p\<lparr>pro_capture := x\<rparr>))
        else if k = ''store_hint'' then rbind (str_of v) (\<lambda>x. Inr (p\<lparr>pro_store_hint := x\<rparr>))
        else if k = ''order_hint'' then rbind (str_of v) (\<lambda>x. Inr (p\<lparr>pro_order_hint := x\<rparr>))
        else if k = ''created_at_source'' then rbind (timestamp v) (\<lambda>x. Inr (p\<lparr>pro_created := x\<rparr>))
        else if k = ''paid_at'' then rbind (time_field v) (\<lambda>x. Inr (p\<lparr>pro_paid := x\<rparr>))
        else Inr p)"

definition new_projection :: "uuid \<Rightarrow> installation \<Rightarrow> string \<Rightarrow> string \<Rightarrow> projection" where
  "new_projection i con kind source =
     \<lparr>pro_id = i, pro_org = ins_org con, pro_connector = ins_id con, pro_store = ins_store con,
       pro_kind = kind, pro_source = source, pro_mode = ins_mode con, pro_status = [], pro_amount = 0,
       pro_received = 0, pro_refunded = 0, pro_capturable = 0, pro_currency = [], pro_exponent = 0,
       pro_parent = [], pro_transaction = [], pro_pi = [], pro_charge = [], pro_session = [],
       pro_method = [], pro_capture = [], pro_store_hint = [], pro_order_hint = [], pro_created = 0,
       pro_revision = 0, pro_paid = None, pro_succeeded = None, pro_observation = 0, pro_updated = 0,
       pro_lock = 0\<rparr>"

text \<open>\<open>fields.update(...)\<close> with the attempt's time of success and the columns of the connector.\<close>

definition project :: "installation \<Rightarrow> string \<Rightarrow> datetime \<Rightarrow> observation \<Rightarrow> datetime \<Rightarrow> dict \<Rightarrow> projection \<Rightarrow> projection result" where
  "project con kind revision ob now data p =
     rbind (fold_res set_field data p) (\<lambda>q.
     rbind (if kind = ''payment'' then str_at data ''status'' else Inr []) (\<lambda>status.
     Inr (q\<lparr>pro_succeeded := (if kind = ''payment'' \<and> status = ''succeeded''
              then (case pro_succeeded p of Some t \<Rightarrow> Some t | None \<Rightarrow> Some revision) else pro_succeeded p),
       pro_org := ins_org con, pro_store := ins_store con, pro_mode := ins_mode con,
       pro_revision := revision, pro_observation := obs_id ob, pro_updated := now\<rparr>)))"

definition upsert :: "digest \<Rightarrow> datetime \<Rightarrow> installation \<Rightarrow> string \<Rightarrow> string \<Rightarrow> datetime \<Rightarrow> dict \<Rightarrow>
    (projection \<times> string) trans" where
  "upsert H now con kind source revision data d =
     (let content = H (dumps (JObj data)) in
      case find_projection con kind source d of
        Some cur \<Rightarrow>
          if hash_of_observation (pro_observation cur) d = content then Inr ((cur, ''duplicate''), d)
          else tbind (observe now con kind source revision content data) (\<lambda>ob d1.
            if revision < pro_revision cur then Inr ((cur, ''duplicate''), d1)
            else if revision = pro_revision cur then Inl (Problem ''SOURCE_REVISION_CONFLICT'' 409)
            else rbind (project con kind revision ob now data cur) (\<lambda>p.
              let p' = p\<lparr>pro_lock := pro_lock p + 1\<rparr> in
              Inr ((p', ''accepted''), d1\<lparr>db_projections := save_row pro_id p' (db_projections d1)\<rparr>))) d
      | None \<Rightarrow>
          tbind (observe now con kind source revision content data) (\<lambda>ob d1.
            rbind (project con kind revision ob now data (new_projection (db_next d1) con kind source)) (\<lambda>p.
              Inr ((p, ''accepted''), d1\<lparr>db_next := db_next d1 + 1, db_projections := db_projections d1 @ [p]\<rparr>))) d)"

section \<open>WooCommerce records\<close>

definition sub_id :: "dict \<Rightarrow> string \<Rightarrow> json" where
  "sub_id ids k = dict_get_or ids k (JStr [])"

definition normalize_woo :: "dict \<Rightarrow> dict result" where
  "normalize_woo record =
     rbind (str_at record ''currency'') (\<lambda>cur.
     rbind (dict_at record ''amount'') (\<lambda>amount.
     rbind (parse_woo amount cur) (\<lambda>money.
     rbind (dict_at record ''status'') (\<lambda>status.
     rbind (dict_at record ''created_at'') (\<lambda>created.
     rbind (dict_at record ''kind'') (\<lambda>kind.
     let data = [(''status'', status), (''amount_minor'', JInt (minor money)), (''currency'', JStr (currency money)),
       (''exponent'', JInt (exponent money)), (''created_at_source'', created)] in
     if kind = JStr ''order'' then
       rbind (dict_at record ''total_refunded'') (\<lambda>total.
       rbind (parse_woo total cur) (\<lambda>refunded.
       rbind (dict_at record ''payment_method'') (\<lambda>method.
       rbind (dict_at record ''transaction_id'') (\<lambda>transaction.
       rbind (rbind (dict_at record ''stripe_ids'') dict_of_json) (\<lambda>ids.
       rbind (dict_at record ''paid_at'') (\<lambda>paid.
       rbind (dict_at record ''refund_ids'') (\<lambda>refunds.
       Inr (data @ [(''refunded_minor'', JInt (minor refunded)), (''method'', method),
         (''transaction_id'', transaction), (''pi_id'', sub_id ids ''payment_intent''),
         (''charge_id'', sub_id ids ''charge''), (''session_id'', sub_id ids ''checkout_session''),
         (''paid_at'', paid), (''refund_ids'', refunds)]))))))))
     else rbind (dict_at record ''parent_id'') (\<lambda>parent. Inr (data @ [(''parent_id'', parent)]))))))))"

section \<open>Batches\<close>

definition find_cursor :: "uuid \<Rightarrow> string \<Rightarrow> db \<Rightarrow> cursor option" where
  "find_cursor con cls d = find (\<lambda>c. cur_connector c = con \<and> cur_class c = cls) (db_cursors d)"

definition new_cursor :: "uuid \<Rightarrow> uuid \<Rightarrow> uuid \<Rightarrow> string \<Rightarrow> datetime \<Rightarrow> cursor" where
  "new_cursor i org con cls now = \<lparr>cur_id = i, cur_org = org, cur_connector = con, cur_class = cls,
     cur_from = None, cur_through = None, cur_observed = None, cur_complete = False, cur_scan = None,
     cur_scan_from = None, cur_scan_through = None, cur_next_page = 1, cur_failed = False,
     cur_updated = now, cur_lock = 0\<rparr>"

definition cursor_for :: "datetime \<Rightarrow> installation \<Rightarrow> string \<Rightarrow> cursor trans" where
  "cursor_for now con cls d =
     (case find_cursor (ins_id con) cls d of
        Some c \<Rightarrow> Inr (c, d)
      | None \<Rightarrow>
          (let c = new_cursor (db_next d) (ins_org con) (ins_id con) cls now in
           Inr (c, d\<lparr>db_next := db_next d + 1, db_cursors := db_cursors d @ [c]\<rparr>)))"

definition mark_incomplete :: "(cursor \<Rightarrow> bool) \<Rightarrow> db \<Rightarrow> db" where
  "mark_incomplete P d = d\<lparr>db_cursors := update_where P (\<lambda>c. c\<lparr>cur_complete := False\<rparr>) (db_cursors d)\<rparr>"

definition refunds_cursor :: "installation \<Rightarrow> cursor \<Rightarrow> bool" where
  "refunds_cursor con c \<longleftrightarrow> cur_connector c = ins_id con \<and> cur_class c = ''woo_refunds''"

text \<open>The page belongs to the scan in progress, or it starts a new one.\<close>

definition open_scan :: "datetime \<Rightarrow> installation \<Rightarrow> uuid \<Rightarrow> int \<Rightarrow> datetime \<Rightarrow> datetime \<Rightarrow> cursor \<Rightarrow> cursor trans" where
  "open_scan now con scan page start end cur d =
     (if cur_scan cur = Some scan then Inr (cur, d)
      else if page \<noteq> 1 \<or>
          (cur_scan cur \<noteq> None \<and> \<not> cur_failed cur \<and> cur_scan_through cur \<noteq> None \<and> now - minutes 30 < cur_updated cur)
        then Inl (Problem ''SCAN_SEQUENCE_CONFLICT'' 409)
      else Inr (cur\<lparr>cur_scan := Some scan, cur_scan_from := Some start, cur_scan_through := Some end,
             cur_next_page := 1, cur_failed := False, cur_complete := False\<rparr>,
           mark_incomplete (refunds_cursor con) d))"

definition check_page :: "int \<Rightarrow> datetime \<Rightarrow> datetime \<Rightarrow> cursor \<Rightarrow> unit result" where
  "check_page page start end cur =
     guard (cur_next_page cur = page \<and> cur_scan_from cur = Some start \<and> cur_scan_through cur = Some end)
       (Problem ''SCAN_SEQUENCE_CONFLICT'' 409)"

text \<open>One record inside its own savepoint; the state of the loop is the tables, the connector,
  \<open>cursor.scan_failed\<close> and the results.\<close>

record batch_state =
  bs_db :: db
  bs_connector :: installation
  bs_failed :: bool
  bs_results :: "json list"

definition accept_record :: "digest \<Rightarrow> datetime \<Rightarrow> installation \<Rightarrow> dict \<Rightarrow> string trans" where
  "accept_record H now con record =
     tbind (tlift (rbind (dict_at record ''revision'') timestamp)) (\<lambda>revision.
     tbind (tguard (revision \<le> now + seconds 120) (ValueError ''Future revision'')) (\<lambda>_.
     tbind (tlift (dict_at record ''kind'')) (\<lambda>kind.
     tbind (tlift (str_at record ''source_id'')) (\<lambda>source.
     tbind (tlift (normalize_woo record)) (\<lambda>data.
     tbind (upsert H now con (if kind = JStr ''order'' then ''order'' else ''woo_refund'') source revision data)
       (\<lambda>(p, disposition). treturn disposition))))))"

fun rejects_record :: "exn \<Rightarrow> bool" where
  "rejects_record (ValueError m) = True"
| "rejects_record (Problem c n) = True"
| "rejects_record (ConnectorFailure c p r) = True"
| "rejects_record e = False"

definition record_step :: "digest \<Rightarrow> datetime \<Rightarrow> json \<Rightarrow> batch_state \<Rightarrow> batch_state result" where
  "record_step H now v b =
     rbind (dict_of_json v) (\<lambda>record.
     case accept_record H now (bs_connector b) record (bs_db b) of
       Inr (disposition, d) \<Rightarrow>
         rbind (dict_at record ''source_id'') (\<lambda>source. rbind (dict_at record ''kind'') (\<lambda>kind.
         Inr (b\<lparr>bs_db := d, bs_results := bs_results b @
           [JObj [(''source_id'', source), (''kind'', kind), (''status'', JStr disposition)]]\<rparr>)))
     | Inl e \<Rightarrow>
         if \<not> rejects_record e then Inl e
         else rbind (dict_at record ''source_id'') (\<lambda>source. rbind (dict_at record ''kind'') (\<lambda>kind.
           let con = (if e = Problem ''SOURCE_REVISION_CONFLICT'' 409
                 then (bs_connector b)\<lparr>ins_error := ''SOURCE_REVISION_CONFLICT''\<rparr> else bs_connector b);
               d = (if e = Problem ''SOURCE_REVISION_CONFLICT'' 409
                 then (bs_db b)\<lparr>db_installations := update_where (\<lambda>i. ins_id i = ins_id con)
                    (\<lambda>i. i\<lparr>ins_error := ''SOURCE_REVISION_CONFLICT''\<rparr>) (db_installations (bs_db b))\<rparr>
                 else bs_db b) in
           Inr (b\<lparr>bs_db := d, bs_connector := con, bs_failed := True, bs_results := bs_results b @
             [JObj [(''source_id'', source), (''kind'', kind), (''status'', JStr ''rejected''),
               (''code'', JStr ''INVALID_SOURCE_FACT'')]]\<rparr>))))"

definition opt_min :: "datetime option \<Rightarrow> datetime \<Rightarrow> datetime" where
  "opt_min a b = (case a of None \<Rightarrow> b | Some x \<Rightarrow> min x b)"

definition opt_max :: "datetime option \<Rightarrow> datetime \<Rightarrow> datetime" where
  "opt_max a b = (case a of None \<Rightarrow> b | Some x \<Rightarrow> max x b)"

definition contiguous :: "cursor \<Rightarrow> datetime \<Rightarrow> bool" where
  "contiguous cur start \<longleftrightarrow> (case cur_through cur of None \<Rightarrow> True | Some t \<Rightarrow> start \<le> t)"

text \<open>\<open>Cursor.objects.update_or_create\<close> of the refunds cursor with the coverage of the orders cursor.\<close>

definition copy_coverage :: "datetime \<Rightarrow> installation \<Rightarrow> cursor \<Rightarrow> db \<Rightarrow> db" where
  "copy_coverage now con cur d =
     (let f = (\<lambda>c. c\<lparr>cur_org := ins_org con, cur_from := cur_from cur, cur_through := cur_through cur,
           cur_observed := Some now, cur_complete := True\<rparr>) in
      if find_cursor (ins_id con) ''woo_refunds'' d = None
      then d\<lparr>db_next := db_next d + 1,
        db_cursors := db_cursors d @ [f (new_cursor (db_next d) (ins_org con) (ins_id con) ''woo_refunds'' now)]\<rparr>
      else d\<lparr>db_cursors := update_where (refunds_cursor con) f (db_cursors d)\<rparr>)"

text \<open>The end of a page: the cursor, the tables and whether coverage advanced.\<close>

definition finish_page :: "datetime \<Rightarrow> installation \<Rightarrow> bool \<Rightarrow> datetime \<Rightarrow> datetime \<Rightarrow> cursor \<Rightarrow> db \<Rightarrow> cursor \<times> db \<times> bool" where
  "finish_page now con final start end cur d =
     (let cur1 = cur\<lparr>cur_next_page := cur_next_page cur + 1, cur_updated := now\<rparr> in
      if \<not> final then (cur1, d, False)
      else if \<not> cur_failed cur1 \<and> contiguous cur1 start then
        (let cur2 = cur1\<lparr>cur_from := Some (opt_min (cur_from cur1) start),
              cur_through := Some (opt_max (cur_through cur1) end), cur_observed := Some now, cur_complete := True\<rparr> in
         (cur2\<lparr>cur_scan := None, cur_scan_through := None\<rparr>, copy_coverage now con cur2 d, True))
      else if cur_failed cur1 then
        (cur1\<lparr>cur_complete := False, cur_scan := None, cur_scan_through := None\<rparr>,
         mark_incomplete (refunds_cursor con) d, False)
      else (cur1\<lparr>cur_scan := None, cur_scan_through := None\<rparr>, d, False))"

text \<open>\<open>{**a, **b}\<close>\<close>

definition dict_merge :: "dict \<Rightarrow> dict \<Rightarrow> dict" where
  "dict_merge a b = foldl (\<lambda>d (k, v). dict_put k v d) a b"

definition page_content :: "dict \<Rightarrow> dict" where
  "page_content envelope = filter (\<lambda>(k, v). k \<noteq> ''request_id'' \<and> k \<noteq> ''sent_at'') envelope"

definition find_page :: "installation \<Rightarrow> uuid \<Rightarrow> int \<Rightarrow> db \<Rightarrow> batch_page option" where
  "find_page con scan page d =
     find (\<lambda>p. pag_connector p = ins_id con \<and> pag_scan p = scan \<and> pag_page p = page) (db_pages d)"

definition replay_page :: "datetime \<Rightarrow> dict \<Rightarrow> string \<Rightarrow> batch_page \<Rightarrow> dict result" where
  "replay_page now envelope content prior =
     rbind (guard (pag_hash prior = content) (Problem ''SCAN_PAGE_CONTENT_CONFLICT'' 409)) (\<lambda>_.
     rbind (dict_at envelope ''request_id'') (\<lambda>rid.
     Inr (dict_merge (pag_result prior) [(''request_id'', rid), (''server_time'', JStr (utc now))])))"

definition new_page :: "digest \<Rightarrow> datetime \<Rightarrow> installation \<Rightarrow> dict \<Rightarrow> uuid \<Rightarrow> int \<Rightarrow> string \<Rightarrow> dict trans" where
  "new_page H now con envelope scan page content =
     tbind (tlift (rbind (dict_at envelope ''covered_from'') timestamp)) (\<lambda>start.
     tbind (tlift (rbind (dict_at envelope ''covered_through'') timestamp)) (\<lambda>end.
     tbind (tguard (now - days 36 \<le> start \<and> start \<le> end \<and> end \<le> now + seconds 120)
       (Problem ''INVALID_COVERAGE_WINDOW'' 422)) (\<lambda>_.
     tbind (cursor_for now con ''woo_orders'') (\<lambda>cur0.
     tbind (open_scan now con scan page start end cur0) (\<lambda>cur1.
     tbind (tlift (check_page page start end cur1)) (\<lambda>_.
     tbind (tlift (rbind (dict_at envelope ''records'') list_of_json)) (\<lambda>records.
     tbind (tlift (dict_at envelope ''final_page'')) (\<lambda>final.
     tbind (tlift (str_at envelope ''request_id'')) (\<lambda>rid d.
     rbind (fold_res (record_step H now) records
         \<lparr>bs_db = d, bs_connector = con, bs_failed = cur_failed cur1, bs_results = []\<rparr>) (\<lambda>b.
     case finish_page now con (truthy final) start end (cur1\<lparr>cur_failed := bs_failed b\<rparr>) (bs_db b) of
       (cur2, d2, advanced) \<Rightarrow>
         tbind (tmodify (\<lambda>d. d\<lparr>db_cursors := save_row cur_id cur2 (db_cursors d)\<rparr>)) (\<lambda>_.
         tbind (reconcile_later now (bs_connector b) rid) (\<lambda>_ d3.
         let result = [(''request_id'', JStr rid), (''results'', JList (bs_results b)),
               (''coverage_advanced'', JBool advanced), (''server_time'', JStr (utc now))] in
         Inr (result, d3\<lparr>db_next := db_next d3 + 1, db_pages := db_pages d3 @
           [\<lparr>pag_id = db_next d3, pag_org = ins_org con, pag_connector = ins_id con, pag_scan = scan,
             pag_page = page, pag_hash = content, pag_result = result, pag_created = now\<rparr>]\<rparr>))) d2))))))))))"

definition accept_woo_batch :: "digest \<Rightarrow> datetime \<Rightarrow> installation \<Rightarrow> dict \<Rightarrow> dict trans" where
  "accept_woo_batch H now con envelope d =
     (let content = H (dumps (JObj (page_content envelope))) in
      rbind (rbind (str_at envelope ''scan_id'') uuid_of) (\<lambda>scan.
      rbind (int_at envelope ''page'') (\<lambda>page.
      case find_page con scan page d of
        Some prior \<Rightarrow> rbind (replay_page now envelope content prior) (\<lambda>r. Inr (r, d))
      | None \<Rightarrow> new_page H now con envelope scan page content d)))"

section \<open>Stripe coverage\<close>

definition advance_cursor :: "datetime \<Rightarrow> installation \<Rightarrow> datetime \<Rightarrow> datetime \<Rightarrow> string \<Rightarrow> unit trans" where
  "advance_cursor now con start end kind =
     tbind (cursor_for now con kind) (\<lambda>cur d.
       if \<not> contiguous cur start then Inl (Problem ''COVERAGE_GAP'' 409)
       else Inr ((), d\<lparr>db_cursors := save_row cur_id (cur\<lparr>
         cur_from := Some (opt_min (cur_from cur) start), cur_through := Some (opt_max (cur_through cur) end),
         cur_observed := Some now, cur_complete := True, cur_lock := cur_lock cur + 1\<rparr>) (db_cursors d)\<rparr>))"

definition advance_stripe_coverage :: "datetime \<Rightarrow> installation \<Rightarrow> datetime \<Rightarrow> datetime \<Rightarrow> unit trans" where
  "advance_stripe_coverage now con start end =
     tfor (advance_cursor now con start end) [''stripe_payments'', ''stripe_refunds'']"

end
