(* ===== verification/Tenancy.thy ===== *)
theory Tenancy imports Ingestion Errors begin

text \<open>
  \<open>modules/accounts/tenancy.py\<close>: the tenant context of a database session, the audit log with its
  security notifications, and the guard \<open>tenant_view\<close> in front of every tenant page. \<open>world\<close> is the
  database as a whole: the global tables and, for each organization, the tables that row-level
  security shows a session with that organization in its context.
\<close>

section \<open>Sessions of the database\<close>

text \<open>\<open>SELECT current_user, rolsuper, rolbypassrls\<close> gives the identity of the session.\<close>

definition require_database_role :: "string \<times> bool \<times> bool \<Rightarrow> string \<Rightarrow> unit result" where
  "require_database_role identity expected =
     guard (identity = (expected, False, False)) (PermissionError (expected @ '' database role required''))"

text \<open>The settings \<open>app.organization_id\<close> and \<open>app.user_id\<close> of a session, empty when unset.\<close>

record context_settings =
  ctx_org :: string
  ctx_user :: string

record world =
  wo_shared :: db
  wo_tenants :: "uuid \<Rightarrow> db"

text \<open>
  What a session in the context of an organization works on: its tenant tables beside the global
  ones (users, the directory, the locators and the supply of keys), and the world with them replaced.
\<close>

definition enter :: "uuid \<Rightarrow> world \<Rightarrow> db" where
  "enter org w = (wo_tenants w org)\<lparr>db_next := db_next (wo_shared w), db_directory := db_directory (wo_shared w),
     db_users := db_users (wo_shared w), db_locators := db_locators (wo_shared w),
     db_pairing_locators := db_pairing_locators (wo_shared w)\<rparr>"

definition leave :: "uuid \<Rightarrow> db \<Rightarrow> world \<Rightarrow> world" where
  "leave org d w = w\<lparr>wo_shared := (wo_shared w)\<lparr>db_next := db_next d, db_directory := db_directory d,
       db_users := db_users d, db_locators := db_locators d, db_pairing_locators := db_pairing_locators d\<rparr>,
     wo_tenants := (wo_tenants w)(org := d)\<rparr>"

text \<open>
  \<open>with tenant_scope(org, user): body\<close>. The body runs in the context of the organization; a
  completed body puts the old settings back, an exception rolls the tables and settings back.
\<close>

definition tenant_scope :: "uuid \<Rightarrow> int option \<Rightarrow> (context_settings \<Rightarrow> 'a trans) \<Rightarrow> context_settings \<Rightarrow> world \<Rightarrow>
    ('a \<times> context_settings \<times> world) result" where
  "tenant_scope org user body old w =
     (if ctx_org old \<noteq> [] \<and> ctx_org old \<noteq> uuid_str org then Inl (Problem ''TENANT_CONTEXT_CONFLICT'' 403)
      else rbind (body \<lparr>ctx_org = uuid_str org,
             ctx_user = (case user of Some u \<Rightarrow> if u = 0 then [] else show_int u | None \<Rightarrow> [])\<rparr> (enter org w))
         (\<lambda>(x, d). Inr (x, old, leave org d w)))"

section \<open>The audit log\<close>

definition SECURITY_NOTIFICATION_ACTIONS :: "string list" where
  "SECURITY_NOTIFICATION_ACTIONS =
     [''alert_route.updated'', ''connector.disconnected'', ''connector.suspended'', ''member.changed'',
      ''member.invited'', ''member.joined'', ''organization.deletion_requested'', ''report.requested'',
      ''stripe.connected'', ''stripe.webhook_secret_updated'', ''support.approved'', ''support.revoked'',
      ''woo.key_rotated'', ''woo.paired'']"

definition audit :: "datetime \<Rightarrow> uuid \<Rightarrow> string \<Rightarrow> string \<Rightarrow> string \<Rightarrow> dict \<Rightarrow> string \<Rightarrow> audit_log trans" where
  "audit now org actor action resource details correlation d =
     (let row = \<lparr>aud_id = db_next d, aud_org = org, aud_actor = actor, aud_action = action,
            aud_resource = resource, aud_correlation = correlation, aud_details = JObj details, aud_created = now\<rparr>;
          d1 = d\<lparr>db_next := db_next d + 1, db_audit := db_audit d @ [row]\<rparr> in
      if action \<in> set SECURITY_NOTIFICATION_ACTIONS
      then tbind (enqueue now org ''security_notify'' (aud_id row) (''security-notify:'' @ uuid_str (aud_id row)))
         (\<lambda>_. treturn row) d1
      else Inr (row, d1))"

section \<open>Guards\<close>

record principal =
  pr_authenticated :: bool
  pr_user :: int
  pr_staff :: bool

record http_session =
  se_org :: string
  se_authenticated :: datetime

record view_call =
  vc_principal :: principal
  vc_session :: http_session
  vc_method :: string
  vc_correlation :: string
  vc_kwargs :: "(string \<times> uuid) list"

text \<open>What \<open>tenant_view\<close> adds to the request.\<close>

record access =
  ac_org :: uuid
  ac_role :: string
  ac_support :: bool
  ac_user :: int

definition require_recent_auth :: "datetime \<Rightarrow> http_session \<Rightarrow> unit result" where
  "require_recent_auth now se =
     guard (now - se_authenticated se \<le> seconds 600) (Problem ''RECENT_AUTHENTICATION_REQUIRED'' 403)"

definition require_role :: "access \<Rightarrow> string list \<Rightarrow> unit result" where
  "require_role a roles = guard (ac_role a \<in> set roles) (Problem ''FORBIDDEN'' 403)"

definition kwarg :: "view_call \<Rightarrow> string \<Rightarrow> uuid option" where
  "kwarg vc k = map_of (vc_kwargs vc) k"

definition RESOURCE_KEYS :: "string list" where
  "RESOURCE_KEYS = [''store_id'', ''finding_id'', ''report_id'', ''connector_id'']"

definition resource_of :: "view_call \<Rightarrow> uuid option" where
  "resource_of vc = (case filter (\<lambda>k. kwarg vc k \<noteq> None) RESOURCE_KEYS of [] \<Rightarrow> None | k # ks \<Rightarrow> kwarg vc k)"

text \<open>The organization of the call: of the named resource, of the path, or of the session.\<close>

definition organization_of :: "view_call \<Rightarrow> world \<Rightarrow> uuid result" where
  "organization_of vc w =
     (case resource_of vc of
        Some r \<Rightarrow> (case row_by loc_id r (db_locators (wo_shared w)) of
            None \<Rightarrow> Inl (Problem ''NOT_FOUND'' 404) | Some l \<Rightarrow> Inr (loc_org l))
      | None \<Rightarrow> (case kwarg vc ''organization_id'' of
            Some org \<Rightarrow> Inr org
          | None \<Rightarrow> if se_org (vc_session vc) = [] then Inl (Problem ''ORGANIZATION_REQUIRED'' 400)
              else uuid_of (se_org (vc_session vc))))"

definition membership_of :: "uuid \<Rightarrow> int \<Rightarrow> db \<Rightarrow> membership option" where
  "membership_of org user d = find (\<lambda>m. mem_org m = org \<and> mem_user m = user \<and> mem_active m) (db_members d)"

definition grant_of :: "datetime \<Rightarrow> uuid \<Rightarrow> int \<Rightarrow> db \<Rightarrow> support_grant option" where
  "grant_of now org user d =
     find (\<lambda>g. gra_org g = org \<and> gra_user g = user \<and> gra_revoked g = None \<and> now < gra_expires g) (db_grants d)"

text \<open>The store a merchant asks for: the one named in the path, or that of the named finding.\<close>

definition asked_store :: "view_call \<Rightarrow> db \<Rightarrow> uuid option" where
  "asked_store vc d =
     (case kwarg vc ''finding_id'' of
        Some f \<Rightarrow> map_option fin_store (row_by fin_id f (db_findings d))
      | None \<Rightarrow> kwarg vc ''store_id'')"

definition authorize :: "datetime \<Rightarrow> view_call \<Rightarrow> uuid \<Rightarrow> db \<Rightarrow> access result" where
  "authorize now vc org d =
     (let user = pr_user (vc_principal vc);
          member = membership_of org user d;
          grant = (if member = None \<and> pr_staff (vc_principal vc) then grant_of now org user d else None) in
      rbind (guard (member \<noteq> None \<or> grant \<noteq> None) (Problem ''NOT_FOUND'' 404)) (\<lambda>_.
      rbind (guard (\<exists>o' \<in> set (db_orgs d). org_id o' = org \<and> org_active o') (Problem ''ORGANIZATION_INACTIVE'' 403)) (\<lambda>_.
      rbind (case member of
          Some m \<Rightarrow>
            if mem_role m = ''merchant''
            then guard (asked_store vc d \<noteq> None \<and> asked_store vc d = mem_store m) (Problem ''NOT_FOUND'' 404)
            else Inr ()
        | None \<Rightarrow> Inr ()) (\<lambda>_.
      Inr \<lparr>ac_org = org, ac_role = (case member of Some m \<Rightarrow> mem_role m | None \<Rightarrow> ''support''),
        ac_support = (grant \<noteq> None), ac_user = user\<rparr>))))"

text \<open>The body inside the tenant's scope: the session remembers the organization once access is granted.\<close>

definition guarded_view :: "datetime \<Rightarrow> (view_call \<Rightarrow> access \<Rightarrow> response trans) \<Rightarrow> view_call \<Rightarrow> access \<Rightarrow> response trans" where
  "guarded_view now view vc a =
     tbind (if ac_support a
        then tbind (audit now (ac_org a) (show_int (ac_user a)) ''support.request''
          (uuid_str (case resource_of vc of Some r \<Rightarrow> r | None \<Rightarrow> ac_org a)) [(''method'', JStr (vc_method vc))] [])
          (\<lambda>_. treturn ())
        else treturn ())
     (\<lambda>_. view (vc\<lparr>vc_session := (vc_session vc)\<lparr>se_org := uuid_str (ac_org a)\<rparr>\<rparr>) a)"

definition problem_of :: "string \<Rightarrow> exn \<Rightarrow> response result" where
  "problem_of correlation e =
     (case e of
        Problem code status \<Rightarrow> Inr (problem_response correlation code status (detail_of code))
      | ConnectorFailure code p r \<Rightarrow> Inr (problem_response correlation code 503 DEFAULT_DETAIL)
      | Http404 \<Rightarrow> Inr (problem_response correlation ''NOT_FOUND'' 404 DEFAULT_DETAIL)
      | ValidationError \<Rightarrow> Inr (problem_response correlation ''VALIDATION_FAILED'' 422 DEFAULT_DETAIL)
      | _ \<Rightarrow> Inl e)"

definition authorized :: "datetime \<Rightarrow> view_call \<Rightarrow> context_settings \<Rightarrow> world \<Rightarrow> access result" where
  "authorized now vc old w =
     rbind (guard (pr_authenticated (vc_principal vc)) (Problem ''AUTHENTICATION_REQUIRED'' 401)) (\<lambda>_.
     rbind (organization_of vc w) (\<lambda>org.
     rbind (guard (ctx_org old = [] \<or> ctx_org old = uuid_str org) (Problem ''TENANT_CONTEXT_CONFLICT'' 403)) (\<lambda>_.
     authorize now vc org (enter org w))))"

text \<open>The response, the session that is saved and the database.\<close>

definition tenant_view :: "datetime \<Rightarrow> (view_call \<Rightarrow> access \<Rightarrow> response trans) \<Rightarrow> view_call \<Rightarrow> context_settings \<Rightarrow> world \<Rightarrow>
    (response \<times> http_session \<times> world) result" where
  "tenant_view now view vc old w =
     (case authorized now vc old w of
        Inl e \<Rightarrow> rbind (problem_of (vc_correlation vc) e) (\<lambda>r. Inr (r, vc_session vc, w))
      | Inr a \<Rightarrow>
          (let session = (vc_session vc)\<lparr>se_org := uuid_str (ac_org a)\<rparr> in
           case tenant_scope (ac_org a) (Some (ac_user a)) (\<lambda>_. guarded_view now view vc a) old w of
             Inl e \<Rightarrow> rbind (problem_of (vc_correlation vc) e) (\<lambda>r. Inr (r, session, w))
           | Inr (r, _, w') \<Rightarrow> Inr (r, session, w')))"

end
