(* ===== verification/Findings.thy ===== *)
theory Findings imports Tenancy Engine begin

text \<open>
  \<open>modules/findings/service.py\<close>: the snapshot of a store that the engine evaluates, the life of a
  finding across the runs of the engine, and the actions of operators. A projection's times are
  instants, because the ORM returns UTC. Metrics leave through the log and change no state.
\<close>

section \<open>The snapshot of a store\<close>

definition row_money :: "projection \<Rightarrow> (projection \<Rightarrow> int) \<Rightarrow> money result" where
  "row_money p field = mk_money (field p) (pro_currency p) (pro_exponent p)"

text \<open>\<open>int(value)\<close> of a member of the health record; the schema of heartbeats requires an integer.\<close>

definition py_int :: "json \<Rightarrow> int result" where
  "py_int v = (case v of JInt i \<Rightarrow> Inr i | JBool b \<Rightarrow> Inr (if b then 1 else 0)
     | JStr s \<Rightarrow> (case int10 s of Some i \<Rightarrow> Inr i | None \<Rightarrow> Inl (ValueError ''invalid literal for int()''))
     | _ \<Rightarrow> Inl (TypeError ''int() argument''))"

definition store_link :: "uuid \<Rightarrow> db \<Rightarrow> link option" where
  "store_link s d = find (\<lambda>l. lnk_store l = s) (db_links d)"

definition active_woo :: "uuid \<Rightarrow> db \<Rightarrow> installation option" where
  "active_woo s d = find (\<lambda>i. ins_store i = Some s \<and> ins_kind i = ''woo'' \<and> ins_status i = ''active'') (db_installations d)"

definition linked_stripe :: "uuid \<Rightarrow> db \<Rightarrow> installation option" where
  "linked_stripe s d = (case store_link s d of None \<Rightarrow> None | Some l \<Rightarrow> row_by ins_id (lnk_stripe l) (db_installations d))"

definition cursor_coverage :: "installation \<Rightarrow> cursor \<Rightarrow> coverage option result" where
  "cursor_coverage con c =
     (case (cur_from c, cur_through c, cur_observed c) of
        (Some f, Some t, Some ob) \<Rightarrow>
          rbind (py_int (dict_get_or (ins_health con) ''clock_offset_seconds'' (JInt 0))) (\<lambda>offset.
          rbind (mk_coverage \<lparr>cov_source = cur_class c, cov_from = Aware f, cov_through = Aware t, cov_observed = Aware ob,
            cov_complete = (cur_complete c \<and> ins_status con = ''active''), cov_offset = offset\<rparr>) (\<lambda>v. Inr (Some v)))
      | _ \<Rightarrow> Inr None)"

definition connector_coverage :: "db \<Rightarrow> installation \<Rightarrow> coverage list result" where
  "connector_coverage d con =
     rbind (map_res (cursor_coverage con) (filter (\<lambda>c. cur_connector c = ins_id con) (db_cursors d)))
       (\<lambda>vs. Inr (List.map_filter id vs))"

definition opt_list :: "'a option \<Rightarrow> 'a list" where
  "opt_list v = (case v of None \<Rightarrow> [] | Some x \<Rightarrow> [x])"

definition rows_of :: "installation option \<Rightarrow> db \<Rightarrow> projection list" where
  "rows_of con d = (case con of None \<Rightarrow> [] | Some i \<Rightarrow> filter (\<lambda>p. pro_connector p = ins_id i) (db_projections d))"

text \<open>\<open>sorted(charges.get(p.source_id, set()) | {p.charge_id})\<close> and the sorted sessions.\<close>

definition child_ids :: "string \<Rightarrow> projection list \<Rightarrow> string \<Rightarrow> string list" where
  "child_ids kind rows parent =
     map pro_source (filter (\<lambda>r. pro_kind r = kind \<and> pro_parent r = parent) rows)"

definition payment_row :: "string \<Rightarrow> string \<Rightarrow> projection list \<Rightarrow> projection \<Rightarrow> payment result" where
  "payment_row account mode rows p =
     rbind (row_money p pro_amount) (\<lambda>amount.
     rbind (row_money p pro_received) (\<lambda>received.
     mk_payment \<lparr>pay_id = pro_source p, pay_account = account, pay_mode = mode, pay_status = pro_status p,
       pay_amount = amount, pay_received = received, pay_created = Aware (pro_created p),
       pay_changed = Aware (pro_revision p), pay_succeeded = map_option Aware (pro_succeeded p),
       pay_method = pro_method p, pay_capture_method = pro_capture p,
       pay_charge_ids = sort (remdups (child_ids ''charge'' rows (pro_source p) @
         (if pro_charge p \<noteq> [] then [pro_charge p] else []))),
       pay_session_ids = sort (remdups (child_ids ''session'' rows (pro_source p))),
       pay_store_hint = pro_store_hint p, pay_order_hint = pro_order_hint p,
       pay_observation = uuid_str (pro_observation p)\<rparr>))"

definition order_row :: "store \<Rightarrow> projection \<Rightarrow> order result" where
  "order_row s p =
     rbind (row_money p pro_amount) (\<lambda>amount.
     rbind (row_money p pro_refunded) (\<lambda>refunded.
     mk_order \<lparr>ord_id = pro_source p, ord_store = uuid_str (sto_id s), ord_mode = sto_mode s,
       ord_status = pro_status p, ord_amount = amount, ord_refunded = refunded,
       ord_created = Aware (pro_created p), ord_changed = Aware (pro_revision p),
       ord_paid = map_option Aware (pro_paid p), ord_method = pro_method p,
       ord_transaction = pro_transaction p, ord_intent = pro_pi p, ord_charge = pro_charge p,
       ord_session = pro_session p, ord_observation = uuid_str (pro_observation p)\<rparr>))"

text \<open>
  \<open>set(o.observation.data.get("refund_ids", []))\<close>, as the list of its elements: a list of scalars,
  the characters of a string or the keys of an object; other values are not iterable.
\<close>

definition refund_ids_of :: "dict \<Rightarrow> json list result" where
  "refund_ids_of data =
     (case dict_get_or data ''refund_ids'' (JList []) of
        JList xs \<Rightarrow> if list_all (\<lambda>x. case x of JList _ \<Rightarrow> False | JObj _ \<Rightarrow> False | _ \<Rightarrow> True) xs then Inr xs
          else Inl (TypeError ''unhashable type'')
      | JStr s \<Rightarrow> Inr (map (\<lambda>c. JStr [c]) s)
      | JObj kvs \<Rightarrow> Inr (map (\<lambda>(k, v). JStr k) kvs)
      | _ \<Rightarrow> Inl (TypeError ''object is not iterable''))"

definition observation_data :: "db \<Rightarrow> projection \<Rightarrow> dict" where
  "observation_data d p = (case row_by obs_id (pro_observation p) (db_observations d) of Some ob \<Rightarrow> obs_data ob | None \<Rightarrow> [])"

definition refund_inventory :: "db \<Rightarrow> projection list \<Rightarrow> (string \<times> json list) list result" where
  "refund_inventory d rows =
     map_res (\<lambda>p. rbind (refund_ids_of (observation_data d p)) (\<lambda>ids. Inr (pro_source p, ids)))
       (filter (\<lambda>p. pro_kind p = ''order'') rows)"

definition inventoried :: "(string \<times> json list) list \<Rightarrow> projection \<Rightarrow> bool" where
  "inventoried inventory r \<longleftrightarrow> pro_kind r = ''stripe_refund'' \<or>
     (pro_kind r = ''woo_refund'' \<and>
      (case map_of (rev inventory) (pro_parent r) of None \<Rightarrow> False | Some ids \<Rightarrow> JStr (pro_source r) \<in> set ids))"

definition refund_row :: "projection \<Rightarrow> refund result" where
  "refund_row r =
     rbind (row_money r pro_amount) (\<lambda>amount.
     mk_refund \<lparr>ref_id = pro_source r, ref_source = (if pro_kind r = ''stripe_refund'' then ''stripe'' else ''woo''),
       ref_parent = pro_parent r, ref_amount = amount, ref_status = pro_status r,
       ref_changed = Aware (pro_revision r), ref_observation = uuid_str (pro_observation r)\<rparr>)"

text \<open>Order numbers that two linked stores share. The order of the groups of the query is not specified.\<close>

definition ambiguous_orders :: "store \<Rightarrow> installation option \<Rightarrow> db \<Rightarrow> string list" where
  "ambiguous_orders s stripe d =
     (case stripe of
        None \<Rightarrow> []
      | Some con \<Rightarrow>
          (let linked = map lnk_store (filter (\<lambda>l. lnk_stripe l = ins_id con) (db_links d));
               rows = filter (\<lambda>p. (\<exists>x \<in> set linked. pro_store p = Some x) \<and> pro_kind p = ''order'' \<and>
                 pro_mode p = sto_mode s) (db_projections d) in
           filter (\<lambda>o'. 1 < length (remdups (map pro_store (filter (\<lambda>p. pro_source p = o') rows))))
             (remdups (map pro_source rows))))"

definition store_policy :: "store \<Rightarrow> policy result" where
  "store_policy s = mk_policy \<lparr>pol_version = sto_policy_version s, pol_instant = minutes (sto_instant s),
     pol_async = minutes (sto_async s), pol_refund = minutes (sto_refund s),
     pol_freshness = minutes (sto_freshness s), pol_disabled = sto_disabled s, pol_shadow = sto_shadow s\<rparr>"

definition account_of :: "installation option \<Rightarrow> string" where
  "account_of stripe = (case stripe of None \<Rightarrow> [] | Some i \<Rightarrow> ins_account i)"

definition link_status :: "uuid \<Rightarrow> string \<Rightarrow> db \<Rightarrow> bool" where
  "link_status s status d = (case store_link s d of None \<Rightarrow> False | Some l \<Rightarrow> lnk_status l = status)"

definition build_snapshot :: "store \<Rightarrow> datetime \<Rightarrow> db \<Rightarrow> snapshot result" where
  "build_snapshot s now d =
     (let woo = active_woo (sto_id s) d; stripe = linked_stripe (sto_id s) d;
          stripe_rows = rows_of stripe d; woo_rows = rows_of woo d in
      rbind (map_res (connector_coverage d) (opt_list woo @ opt_list stripe)) (\<lambda>coverage.
      rbind (map_res (payment_row (account_of stripe) (sto_mode s) stripe_rows)
        (filter (\<lambda>p. pro_kind p = ''payment'') stripe_rows)) (\<lambda>payments.
      rbind (map_res (order_row s) (filter (\<lambda>p. pro_kind p = ''order'') woo_rows)) (\<lambda>orders.
      rbind (refund_inventory d woo_rows) (\<lambda>inventory.
      rbind (map_res refund_row (filter (inventoried inventory) (stripe_rows @ woo_rows))) (\<lambda>refunds.
      rbind (store_policy s) (\<lambda>pol.
      Inr \<lparr>snap_org = uuid_str (sto_org s), snap_store = uuid_str (sto_id s), snap_account = account_of stripe,
        snap_mode = sto_mode s, snap_now = Aware now, snap_from = Aware (now - days 30), snap_payments = payments,
        snap_orders = orders, snap_refunds = refunds, snap_coverage = concat coverage,
        snap_link_verified = link_status (sto_id s) ''verified'' d,
        snap_link_conflict = link_status (sto_id s) ''conflict'' d,
        snap_ambiguous = ambiguous_orders s stripe d, snap_policy = pol\<rparr>)))))))"

end
