(* ===== verification/Lifecycle.thy ===== *)
theory Lifecycle imports Findings begin

text \<open>
  \<open>modules/findings/service.py\<close>, continued: \<open>reconcile\<close>, which evaluates a store and moves its
  findings through their states, and \<open>action\<close>, which applies the actions of operators.
\<close>

section \<open>Events\<close>

definition NOTIFYING :: "string list" where
  "NOTIFYING = [''opened'', ''reopened'', ''unsuppressed'']"

text \<open>\<open>_event\<close>\<close>

definition add_event :: "datetime \<Rightarrow> finding \<Rightarrow> string \<Rightarrow> string \<Rightarrow> string \<Rightarrow> uuid option \<Rightarrow> string \<Rightarrow> finding_event trans" where
  "add_event now f event_type previous actor run note d =
     (let e = \<lparr>eve_id = db_next d, eve_org = fin_org f, eve_finding = fin_id f, eve_type = event_type,
            eve_actor = actor, eve_previous = previous, eve_new = fin_state f, eve_evidence = fin_evidence f,
            eve_note = note, eve_run = run\<rparr>;
          d1 = d\<lparr>db_next := db_next d + 1, db_events := db_events d @ [e]\<rparr> in
      if event_type \<in> set NOTIFYING
      then tbind (enqueue now (fin_org f) ''notify'' (eve_id e) (''notify:'' @ uuid_str (eve_id e))) (\<lambda>_. treturn e) d1
      else Inr (e, d1))"

section \<open>A proposal meets its finding\<close>

definition money_opt_json :: "money option \<Rightarrow> json" where "money_opt_json = opt_json money_json"

definition proposal_json :: "proposal \<Rightarrow> json" where
  "proposal_json p = JObj [(''key'', JStr (prop_key p)), (''rule'', JStr (prop_rule p)),
     (''severity'', JStr (prop_severity p)), (''identities'', strs_json (prop_identities p)),
     (''risk'', money_opt_json (prop_risk p)), (''confidence'', JInt (prop_confidence p)),
     (''eligible_at'', time_json (prop_eligible p)), (''ready'', JBool (prop_ready p)),
     (''evidence_json'', JStr (prop_evidence p)), (''rule_version'', JStr (prop_rule_version p))]"

definition substantive :: "dict \<Rightarrow> dict" where
  "substantive evidence = filter (\<lambda>(k, v). k \<noteq> ''coverage'') evidence"

definition evidence_hash :: "digest \<Rightarrow> dict \<Rightarrow> string" where
  "evidence_hash H evidence = H (canonical (JObj (substantive evidence)))"

definition risk_minor :: "money option \<Rightarrow> int option" where "risk_minor = map_option minor"
definition risk_currency :: "money option \<Rightarrow> string" where
  "risk_currency r = (case r of None \<Rightarrow> [] | Some m \<Rightarrow> currency m)"
definition risk_exponent :: "money option \<Rightarrow> int" where
  "risk_exponent r = (case r of None \<Rightarrow> 2 | Some m \<Rightarrow> exponent m)"

definition new_finding :: "uuid \<Rightarrow> store \<Rightarrow> datetime \<Rightarrow> proposal \<Rightarrow> dict \<Rightarrow> string \<Rightarrow> finding" where
  "new_finding i s now p evidence content =
     \<lparr>fin_id = i, fin_org = sto_org s, fin_store = sto_id s, fin_mode = sto_mode s, fin_key = prop_key p,
       fin_rule = prop_rule p, fin_rule_version = prop_rule_version p, fin_policy_version = sto_policy_version s,
       fin_severity = prop_severity p, fin_state = ''provisional'', fin_identities = prop_identities p,
       fin_risk = risk_minor (prop_risk p), fin_currency = risk_currency (prop_risk p),
       fin_exponent = risk_exponent (prop_risk p), fin_confidence = prop_confidence p, fin_first_seen = now,
       fin_last_seen = now, fin_eligible = prop_eligible p, fin_occurrences = 0, fin_evidence = evidence,
       fin_evidence_hash = content, fin_suppressed_until = None, fin_clean_since = None, fin_clean_digest = [],
       fin_resolved = None, fin_updated = now, fin_lock = 0\<rparr>"

text \<open>The fields every sighting refreshes.\<close>

definition refresh :: "datetime \<Rightarrow> proposal \<Rightarrow> dict \<Rightarrow> string \<Rightarrow> finding \<Rightarrow> finding" where
  "refresh now p evidence content f =
     f\<lparr>fin_evidence := evidence, fin_evidence_hash := content, fin_risk := risk_minor (prop_risk p),
       fin_currency := risk_currency (prop_risk p), fin_exponent := risk_exponent (prop_risk p),
       fin_confidence := prop_confidence p, fin_last_seen := now, fin_eligible := prop_eligible p,
       fin_clean_since := None, fin_clean_digest := []\<rparr>"

text \<open>The transition of a ready proposal: the finding and the type of the event, empty for none.\<close>

definition promote :: "datetime \<Rightarrow> proposal \<Rightarrow> finding \<Rightarrow> finding \<times> string" where
  "promote now p f =
     (if \<not> prop_ready p then (f, [])
      else if fin_state f = ''provisional''
        then (f\<lparr>fin_state := ''open'', fin_occurrences := fin_occurrences f + 1\<rparr>, ''opened'')
      else if fin_state f = ''resolved''
        then (f\<lparr>fin_state := ''reopened'', fin_occurrences := fin_occurrences f + 1, fin_resolved := None\<rparr>, ''reopened'')
      else if fin_state f = ''suppressed'' \<and> (case fin_suppressed_until f of None \<Rightarrow> False | Some u \<Rightarrow> u \<le> now)
        then (f\<lparr>fin_state := ''open'', fin_suppressed_until := None\<rparr>, ''unsuppressed'')
      else (f, []))"

definition touched :: "datetime \<Rightarrow> finding \<Rightarrow> finding" where
  "touched now f = f\<lparr>fin_updated := now, fin_lock := fin_lock f + 1\<rparr>"

definition save_finding :: "finding \<Rightarrow> db \<Rightarrow> db" where
  "save_finding f d = d\<lparr>db_findings := save_row fin_id f (db_findings d)\<rparr>"

text \<open>The finding of a proposal's key, created with its locator when there is none.\<close>

definition obtain_finding :: "store \<Rightarrow> datetime \<Rightarrow> proposal \<Rightarrow> dict \<Rightarrow> string \<Rightarrow> db \<Rightarrow> finding \<times> bool \<times> db" where
  "obtain_finding s now p evidence content d =
     (case row_by fin_key (prop_key p) (db_findings d) of
        Some f \<Rightarrow> (f, False, d)
      | None \<Rightarrow>
          (let f = new_finding (db_next d) s now p evidence content in
           (f, True, d\<lparr>db_next := db_next d + 1, db_findings := db_findings d @ [f],
              db_locators := db_locators d @ [\<lparr>loc_id = fin_id f, loc_org = sto_org s, loc_kind = ''finding''\<rparr>]\<rparr>)))"

definition apply_proposal :: "digest \<Rightarrow> store \<Rightarrow> datetime \<Rightarrow> uuid \<Rightarrow> proposal \<Rightarrow> unit trans" where
  "apply_proposal H s now run p d =
     rbind (loads (prop_evidence p)) (\<lambda>v. rbind (dict_of_json v) (\<lambda>evidence.
     let content = evidence_hash H evidence in
     case obtain_finding s now p evidence content d of
       (f, created, d1) \<Rightarrow>
         (case promote now p (refresh now p evidence content f) of
            (f1, ev1) \<Rightarrow>
              let f2 = touched now f1;
                  ev = (if ev1 = [] \<and> (created \<or> fin_evidence_hash f \<noteq> content) then ''observed'' else ev1);
                  d2 = save_finding f2 d1 in
              if ev = [] then Inr ((), d2)
              else tbind (add_event now f2 ev (fin_state f) ''system'' (Some run) []) (\<lambda>_. treturn ()) d2)))"

section \<open>A finding that no proposal names\<close>

definition blocked_finding :: "evaluation \<Rightarrow> finding \<Rightarrow> bool" where
  "blocked_finding ev f \<longleftrightarrow> fin_rule f \<notin> set (ev_rules ev) \<or> set (fin_identities f) \<inter> set (ev_blocked ev) \<noteq> {}"

definition clean_enough :: "datetime \<Rightarrow> string \<Rightarrow> finding \<Rightarrow> bool" where
  "clean_enough now coverage f \<longleftrightarrow>
     (case fin_clean_since f of None \<Rightarrow> False | Some t \<Rightarrow> minutes 5 \<le> now - t) \<and>
     (fin_rule f \<noteq> ''PI-009'' \<or> fin_clean_digest f \<noteq> coverage)"

definition miss_finding :: "evaluation \<Rightarrow> string \<Rightarrow> datetime \<Rightarrow> uuid \<Rightarrow> finding \<Rightarrow> unit trans" where
  "miss_finding ev coverage now run f d =
     (if blocked_finding ev f then
        (if fin_clean_since f \<noteq> None
         then Inr ((), save_finding (touched now (f\<lparr>fin_clean_since := None, fin_clean_digest := []\<rparr>)) d)
         else Inr ((), d))
      else if fin_clean_since f = None then
        Inr ((), save_finding (touched now (f\<lparr>fin_clean_since := Some now, fin_clean_digest := coverage\<rparr>)) d)
      else if clean_enough now coverage f then
        (let f1 = f\<lparr>fin_state := ''resolved'', fin_resolved := Some now\<rparr> in
         tbind (add_event now f1 ''resolved'' (fin_state f) ''system'' (Some run) [])
           (\<lambda>_. tmodify (save_finding (touched now f1))) d)
      else Inr ((), save_finding (touched now f) d))"

definition coverage_digest :: "digest \<Rightarrow> snapshot \<Rightarrow> string" where
  "coverage_digest H s = H (canonical (JList (map (\<lambda>c. JList [JStr (cov_source c), time_json (cov_through c)])
     (sort_key cov_source (snap_coverage s)))))"

section \<open>A run\<close>

definition new_run :: "uuid \<Rightarrow> store \<Rightarrow> datetime \<Rightarrow> snapshot \<Rightarrow> evaluation \<Rightarrow> run_row result" where
  "new_run i s now snap ev =
     rbind (loads (canonical (JList (map coverage_json (snap_coverage snap))))) (\<lambda>coverage.
     rbind (loads (canonical (JList (map proposal_json (ev_proposals ev))))) (\<lambda>proposals.
     Inr \<lparr>run_id = i, run_org = sto_org s, run_store = sto_id s, run_mode = sto_mode s,
       run_rule_version = RULE_VERSION, run_match_version = MATCH_VERSION,
       run_policy_version = sto_policy_version s, run_digest = ev_digest ev, run_evaluated = now,
       run_coverage = coverage, run_warnings = strs_json (ev_warnings ev), run_proposals = proposals,
       run_shadow = sto_shadow s, run_created = now\<rparr>))"

definition unresolved_of :: "store \<Rightarrow> db \<Rightarrow> finding list" where
  "unresolved_of s d = filter (\<lambda>f. fin_store f = sto_id s \<and> fin_state f \<noteq> ''resolved'') (db_findings d)"

definition miss_all :: "store \<Rightarrow> string list \<Rightarrow> evaluation \<Rightarrow> string \<Rightarrow> datetime \<Rightarrow> uuid \<Rightarrow> unit trans" where
  "miss_all s present ev coverage now run d =
     tfor (miss_finding ev coverage now run) (filter (\<lambda>f. fin_key f \<notin> set present) (unresolved_of s d)) d"

definition reconcile :: "digest \<Rightarrow> datetime \<Rightarrow> uuid \<Rightarrow> run_row trans" where
  "reconcile H now store_id d =
     rbind (get_row ''Store'' (\<lambda>s. sto_id s = store_id \<and> sto_active s) (db_stores d)) (\<lambda>s.
     rbind (build_snapshot s now d) (\<lambda>snap.
     rbind (evaluate H snap) (\<lambda>ev.
     rbind (new_run (db_next d) s now snap ev) (\<lambda>run.
     let d1 = d\<lparr>db_next := db_next d + 1, db_runs := db_runs d @ [run]\<rparr> in
     if sto_shadow s then Inr (run, d1)
     else tbind (tfor (apply_proposal H s now (run_id run)) (ev_proposals ev))
       (\<lambda>_. tbind (miss_all s (map prop_key (ev_proposals ev)) ev (coverage_digest H snap) now (run_id run))
         (\<lambda>_. treturn run)) d1))))"

section \<open>Actions of operators\<close>

definition ACTIONS :: "string list" where
  "ACTIONS = [''acknowledge'', ''suppress'', ''resolve'', ''note'']"

text \<open>The guards of an action and the finding it leaves, before the version is counted up.\<close>

definition act :: "datetime \<Rightarrow> string \<Rightarrow> string \<Rightarrow> datetime option \<Rightarrow> finding \<Rightarrow> finding result" where
  "act now name note until f =
     rbind (guard (name \<in> set ACTIONS) (Problem ''INVALID_ACTION'' 400)) (\<lambda>_.
     if name = ''acknowledge'' then
       rbind (guard (fin_state f \<in> {''open'', ''reopened'', ''acknowledged''}) (Problem ''INVALID_TRANSITION'' 409))
         (\<lambda>_. Inr (f\<lparr>fin_state := ''acknowledged''\<rparr>))
     else if name = ''suppress'' then
       rbind (guard (fin_state f \<in> {''open'', ''reopened'', ''acknowledged'', ''suppressed''})
         (Problem ''INVALID_TRANSITION'' 409)) (\<lambda>_.
       rbind (guard (strip note \<noteq> [] \<and> (case until of None \<Rightarrow> False | Some u \<Rightarrow> now < u \<and> u \<le> now + days 7))
         (Problem ''SUPPRESSION_REASON_AND_EXPIRY_REQUIRED'' 422)) (\<lambda>_.
       Inr (f\<lparr>fin_state := ''suppressed'', fin_suppressed_until := until\<rparr>)))
     else
       rbind (guard (strip note \<noteq> []) (Problem ''NOTE_REQUIRED'' 422)) (\<lambda>_.
       Inr (if name = ''resolve'' then f\<lparr>fin_clean_since := None\<rparr> else f)))"

definition action :: "datetime \<Rightarrow> uuid \<Rightarrow> string \<Rightarrow> string \<Rightarrow> int \<Rightarrow> string \<Rightarrow> datetime option \<Rightarrow> finding trans" where
  "action now finding_id actor name version note until d =
     rbind (get_row ''Finding'' (\<lambda>f. fin_id f = finding_id) (db_findings d)) (\<lambda>f.
     rbind (guard (fin_lock f = version) (Problem ''FINDING_VERSION_CONFLICT'' 409)) (\<lambda>_.
     rbind (act now name note until f) (\<lambda>f1.
     let f2 = touched now f1 in
     tbind (add_event now f2 (if name = ''resolve'' then ''external_resolution_requested'' else name)
         (fin_state f) actor None (take 1000 note)) (\<lambda>_.
       tbind (audit now (fin_org f) actor (''finding.'' @ name) (uuid_str (fin_id f)) [] []) (\<lambda>_. treturn f2))
       (save_finding f2 d))))"

end
