(* ===== verification/Notifications.thy ===== *)
theory Notifications imports Lifecycle begin

text \<open>
  \<open>modules/findings/notifications.py\<close>: which recipients a finding or a security event is sent to,
  the deliveries and their outbox entries, the decision whether a delivery is still allowed when it
  is made, and the feedback of the mail provider. SES is a parameter: \<open>send\<close> maps the arguments of
  \<open>send_email\<close> to the message's id or the exception of the client.
\<close>

section \<open>Recipients\<close>

definition user_active :: "db \<Rightarrow> int \<Rightarrow> bool" where
  "user_active d u \<longleftrightarrow> (\<exists>x \<in> set (db_users d). usr_id x = u \<and> usr_active x)"

definition emails_where :: "(membership \<Rightarrow> bool) \<Rightarrow> db \<Rightarrow> string set" where
  "emails_where P d = (\<Union>m \<in> set (filter (\<lambda>m. mem_active m \<and> P m) (db_members d)).
     set (map usr_email (filter (\<lambda>u. usr_id u = mem_user m \<and> usr_active u) (db_users d))))"

definition usable_routes :: "string set \<Rightarrow> db \<Rightarrow> alert_route list" where
  "usable_routes emails d =
     filter (\<lambda>r. rou_active r \<and> rou_verified r \<noteq> None \<and> rou_bounced r = None \<and> rou_email r \<in> emails) (db_routes d)"

definition routes :: "db \<Rightarrow> alert_route list" where
  "routes d = usable_routes (emails_where (\<lambda>m. mem_role m \<noteq> ''merchant'') d) d"

definition owner_routes :: "db \<Rightarrow> alert_route list" where
  "owner_routes d = usable_routes (emails_where (\<lambda>m. mem_role m = ''owner'') d) d"

definition SECURITY_MESSAGES :: "(string \<times> string \<times> string) list" where
  "SECURITY_MESSAGES =
     [(''alert_route.updated'', ''Alert recipient changed'', ''An alert recipient setting was changed.''),
      (''connector.disconnected'', ''Connector disconnected'', ''A payment-data connector was disconnected.''),
      (''connector.suspended'', ''Connector suspended'', ''A connector was suspended after a permanent provider error.''),
      (''member.changed'', ''Member access changed'', ''An organization member's access was changed.''),
      (''member.invited'', ''Member invited'', ''A new organization invitation was created.''),
      (''member.joined'', ''Member joined'', ''An invited member joined the organization.''),
      (''organization.deletion_requested'', ''Organization deletion requested'',
        ''Organization deletion was requested and connector intake was disabled.''),
      (''report.requested'', ''Evidence export requested'', ''An evidence report export was requested.''),
      (''stripe.connected'', ''Stripe connected'', ''A Stripe account authorization was connected.''),
      (''stripe.webhook_secret_updated'', ''Stripe webhook secret changed'',
        ''The Stripe webhook verification secret was changed.''),
      (''support.approved'', ''Support access approved'', ''Time-limited support access was approved.''),
      (''support.revoked'', ''Support access revoked'', ''Time-limited support access was revoked.''),
      (''woo.key_rotated'', ''WooCommerce key rotated'', ''The WooCommerce connector signing key was rotated.''),
      (''woo.paired'', ''WooCommerce paired'', ''A WooCommerce connector was paired.'')]"

section \<open>Deliveries\<close>

definition new_delivery :: "datetime \<Rightarrow> uuid \<Rightarrow> uuid \<Rightarrow> uuid \<Rightarrow> string option \<Rightarrow> uuid option \<Rightarrow> uuid option \<Rightarrow> email_delivery" where
  "new_delivery now i org route key event security =
     \<lparr>del_id = i, del_org = org, del_digest_key = key, del_event = event, del_security = security,
       del_route = route, del_status = ''pending'', del_provider = [], del_accepted = None, del_feedback = None,
       del_created = now\<rparr>"

text \<open>\<open>EmailDelivery.objects.get_or_create\<close> by the predicate \<open>P\<close>, followed by its outbox entry.\<close>

definition intend :: "datetime \<Rightarrow> uuid \<Rightarrow> (email_delivery \<Rightarrow> bool) \<Rightarrow> (uuid \<Rightarrow> email_delivery) \<Rightarrow> unit trans" where
  "intend now org P create d =
     (case (case find P (db_deliveries d) of
          Some x \<Rightarrow> (x, d)
        | None \<Rightarrow> (create (db_next d), d\<lparr>db_next := db_next d + 1, db_deliveries := db_deliveries d @ [create (db_next d)]\<rparr>)) of
        (x, d1) \<Rightarrow> tbind (enqueue now org ''deliver_email'' (del_id x) (''email:'' @ uuid_str (del_id x)))
          (\<lambda>_. treturn ()) d1)"

definition intend_event :: "datetime \<Rightarrow> finding_event \<Rightarrow> alert_route \<Rightarrow> unit trans" where
  "intend_event now e r = intend now (eve_org e) (\<lambda>x. del_event x = Some (eve_id e) \<and> del_route x = rou_id r)
     (\<lambda>i. new_delivery now i (eve_org e) (rou_id r) None (Some (eve_id e)) None)"

definition intend_security :: "datetime \<Rightarrow> audit_log \<Rightarrow> alert_route \<Rightarrow> unit trans" where
  "intend_security now a r = intend now (aud_org a) (\<lambda>x. del_security x = Some (aud_id a) \<and> del_route x = rou_id r)
     (\<lambda>i. new_delivery now i (aud_org a) (rou_id r) None None (Some (aud_id a)))"

definition intend_digest :: "digest \<Rightarrow> datetime \<Rightarrow> uuid \<Rightarrow> string \<Rightarrow> alert_route \<Rightarrow> unit trans" where
  "intend_digest H now org intent_key r =
     (let key = H (intent_key @ '':'' @ uuid_str (rou_id r)) in
      intend now org (\<lambda>x. del_digest_key x = Some key) (\<lambda>i. new_delivery now i org (rou_id r) (Some key) None None))"

section \<open>Intents\<close>

definition event_of :: "uuid \<Rightarrow> db \<Rightarrow> (finding_event \<times> finding \<times> store) result" where
  "event_of i d =
     rbind (get_row ''FindingEvent'' (\<lambda>e. eve_id e = i) (db_events d)) (\<lambda>e.
     rbind (get_row ''Finding'' (\<lambda>f. fin_id f = eve_finding e) (db_findings d)) (\<lambda>f.
     rbind (get_row ''Store'' (\<lambda>s. sto_id s = fin_store f) (db_stores d)) (\<lambda>s. Inr (e, f, s))))"

definition QUIET :: "string list" where
  "QUIET = [''resolved'', ''suppressed'', ''provisional'']"

definition postpone :: "uuid \<Rightarrow> datetime \<Rightarrow> db \<Rightarrow> db" where
  "postpone i t d = d\<lparr>db_outbox := update_where (\<lambda>r. out_id r = i) (\<lambda>r. r\<lparr>out_available := t\<rparr>) (db_outbox d)\<rparr>"

definition prepare :: "datetime \<Rightarrow> uuid \<Rightarrow> unit trans" where
  "prepare now event_id d =
     rbind (event_of event_id d) (\<lambda>(e, f, s).
     if \<not> sto_alerts s then Inr ((), d)
     else rbind (get_row ''Organization'' (\<lambda>x. org_id x = eve_org e) (db_orgs d)) (\<lambda>org.
     if \<not> org_alerts org then Inr ((), d)
     else if fin_state f \<in> set QUIET then Inr ((), d)
     else case quota (eve_org e) (''notification:'' @ fin_rule f) 20 3600 now d of
         Inl _ \<Rightarrow>
           tbind (enqueue now (eve_org e) ''notify_digest'' (eve_org e)
             (''digest:'' @ uuid_str (eve_org e) @ '':'' @ show_int (unix_seconds now div 3600)))
             (\<lambda>r. tmodify (postpone (out_id r) (now + hours 1))) d
       | Inr (_, d1) \<Rightarrow> tfor (intend_event now e) (routes d1) d1))"

definition security :: "datetime \<Rightarrow> uuid \<Rightarrow> unit trans" where
  "security now event_id d =
     rbind (get_row ''AuditLog'' (\<lambda>a. aud_id a = event_id) (db_audit d)) (\<lambda>a.
     if map_of SECURITY_MESSAGES (aud_action a) = None then Inr ((), d)
     else tfor (intend_security now a) (owner_routes d) d)"

definition active_alerting :: "uuid \<Rightarrow> db \<Rightarrow> bool" where
  "active_alerting org d \<longleftrightarrow> (\<exists>x \<in> set (db_orgs d). org_id x = org \<and> org_active x \<and> org_alerts x)"

definition send_digest :: "digest \<Rightarrow> datetime \<Rightarrow> uuid \<Rightarrow> string \<Rightarrow> unit trans" where
  "send_digest H now org intent_key d =
     (if active_alerting org d then tfor (intend_digest H now org intent_key) (routes d) d else Inr ((), d))"

section \<open>Delivery\<close>

record mail_settings =
  ms_from :: string
  ms_production :: bool
  ms_configuration_set :: string
  ms_public_url :: string

definition FINAL :: "string list" where
  "FINAL = [''accepted'', ''delivered'', ''bounced'', ''complained'', ''local'', ''cancelled'']"

definition newline :: string where "newline = [CHR 0x0A]"

definition finding_allowed :: "email_delivery \<Rightarrow> finding \<Rightarrow> store \<Rightarrow> db \<Rightarrow> bool" where
  "finding_allowed x f s d \<longleftrightarrow> active_alerting (del_org x) d \<and> (\<exists>r \<in> set (routes d). rou_id r = del_route x) \<and>
     sto_alerts s \<and> fin_state f \<notin> set QUIET"

definition finding_mail :: "mail_settings \<Rightarrow> finding \<Rightarrow> store \<Rightarrow> string \<times> string" where
  "finding_mail ms f s =
     (''['' @ title_case (fin_severity f) @ ''] Payment integrity issue on '' @ sto_hostname s,
      ''A payment integrity finding needs review.'' @ newline @ newline @ ''Rule: '' @ fin_rule f @ newline @
      ''Store: '' @ sto_name s @ '' ('' @ fin_mode f @ '')'' @ newline @ newline @
      ''Review the evidence and diagnostic steps:'' @ newline @ ms_public_url ms @ ''/findings/'' @ uuid_str (fin_id f) @
      ''/'' @ newline @ newline @ ''LedgerGuard does not modify orders or payments.'')"

definition security_allowed :: "email_delivery \<Rightarrow> audit_log \<Rightarrow> db \<Rightarrow> bool" where
  "security_allowed x a d \<longleftrightarrow> map_of SECURITY_MESSAGES (aud_action a) \<noteq> None \<and>
     (\<exists>r \<in> set (owner_routes d). rou_id r = del_route x) \<and>
     (case row_by org_id (del_org x) (db_orgs d) of None \<Rightarrow> False
      | Some org \<Rightarrow> aud_action a = ''organization.deletion_requested'' \<or> org_active org)"

definition security_mail :: "mail_settings \<Rightarrow> email_delivery \<Rightarrow> audit_log \<Rightarrow> string \<times> string" where
  "security_mail ms x a =
     (case (case map_of SECURITY_MESSAGES (aud_action a) of Some m \<Rightarrow> m
          | None \<Rightarrow> (''Security change'', ''A security-sensitive change was recorded.'')) of
        (subject, description) \<Rightarrow>
          (subject, description @ newline @ newline @ ''Review organization activity and access controls:'' @ newline @
           (if aud_action a = ''organization.deletion_requested'' then ms_public_url ms @ ''/login/''
            else ms_public_url ms @ ''/o/'' @ uuid_str (del_org x) @ ''/settings/'') @ newline @ newline @
           ''If this change was unexpected, revoke affected access and follow the security incident runbook.''))"

definition open_count :: "db \<Rightarrow> nat" where
  "open_count d = length (filter (\<lambda>f. fin_state f \<in> {''open'', ''reopened''} \<and>
     (\<exists>s \<in> set (db_stores d). sto_id s = fin_store f \<and> sto_alerts s)) (db_findings d))"

definition digest_allowed :: "email_delivery \<Rightarrow> db \<Rightarrow> bool" where
  "digest_allowed x d \<longleftrightarrow> active_alerting (del_org x) d \<and> (\<exists>r \<in> set (routes d). rou_id r = del_route x) \<and>
     open_count d \<noteq> 0 \<and> (case del_digest_key x of None \<Rightarrow> False | Some k \<Rightarrow> k \<noteq> [])"

definition digest_mail :: "mail_settings \<Rightarrow> email_delivery \<Rightarrow> db \<Rightarrow> string \<times> string" where
  "digest_mail ms x d = (''Payment integrity findings require review'',
     show_nat (open_count d) @ '' findings remain open. Review your dashboard: '' @ ms_public_url ms @ ''/o/'' @
     uuid_str (del_org x) @ ''/'')"

text \<open>Whether the delivery may be made now, and its subject and body.\<close>

definition compose :: "mail_settings \<Rightarrow> email_delivery \<Rightarrow> db \<Rightarrow> (bool \<times> string \<times> string) result" where
  "compose ms x d =
     (case del_event x of
        Some e \<Rightarrow> rbind (event_of e d) (\<lambda>(ev, f, s). Inr (finding_allowed x f s d, finding_mail ms f s))
      | None \<Rightarrow> (case del_security x of
            Some a \<Rightarrow> rbind (get_row ''AuditLog'' (\<lambda>r. aud_id r = a) (db_audit d)) (\<lambda>a.
              Inr (security_allowed x a d, security_mail ms x a))
          | None \<Rightarrow> Inr (digest_allowed x d, digest_mail ms x d)))"

definition send_args :: "mail_settings \<Rightarrow> email_delivery \<Rightarrow> string \<Rightarrow> string \<Rightarrow> string \<Rightarrow> dict" where
  "send_args ms x email subject body =
     [(''Source'', JStr (ms_from ms)), (''Destination'', JObj [(''ToAddresses'', JList [JStr email])]),
      (''Message'', JObj [(''Subject'', JObj [(''Data'', JStr subject), (''Charset'', JStr ''UTF-8'')]),
         (''Body'', JObj [(''Text'', JObj [(''Data'', JStr body), (''Charset'', JStr ''UTF-8'')])])]),
      (''Tags'', JList [JObj [(''Name'', JStr ''organization''), (''Value'', JStr (uuid_str (del_org x)))],
         JObj [(''Name'', JStr ''delivery''), (''Value'', JStr (uuid_str (del_id x)))]])] @
     (if ms_configuration_set ms \<noteq> [] then [(''ConfigurationSetName'', JStr (ms_configuration_set ms))] else [])"

definition save_delivery :: "email_delivery \<Rightarrow> db \<Rightarrow> db" where
  "save_delivery x d = d\<lparr>db_deliveries := save_row del_id x (db_deliveries d)\<rparr>"

text \<open>The delivery, with the arguments of the mail that was sent, if one was.\<close>

definition deliver :: "mail_settings \<Rightarrow> (dict \<Rightarrow> string result) \<Rightarrow> datetime \<Rightarrow> uuid \<Rightarrow> dict option trans" where
  "deliver ms send now delivery_id d =
     rbind (get_row ''EmailDelivery'' (\<lambda>x. del_id x = delivery_id) (db_deliveries d)) (\<lambda>x.
     if del_status x \<in> set FINAL then Inr (None, d)
     else rbind (compose ms x d) (\<lambda>(allowed, subject, body).
     if \<not> allowed then Inr (None, save_delivery (x\<lparr>del_status := ''cancelled''\<rparr>) d)
     else if ms_from ms = [] then
       (if ms_production ms then Inl (Problem ''EMAIL_NOT_CONFIGURED'' 503)
        else Inr (None, save_delivery (x\<lparr>del_status := ''local''\<rparr>) d))
     else rbind (get_row ''AlertRoute'' (\<lambda>r. rou_id r = del_route x) (db_routes d)) (\<lambda>r.
       let args = send_args ms x (rou_email r) subject body in
       rbind (send args) (\<lambda>message.
         Inr (Some args, save_delivery (x\<lparr>del_status := ''accepted'', del_provider := message, del_accepted := Some now\<rparr>) d)))))"

section \<open>Feedback of the provider\<close>

definition feedback_status :: "json \<Rightarrow> string option" where
  "feedback_status v =
     (case v of JStr s \<Rightarrow> map_of [(''Bounce'', ''bounced''), (''Complaint'', ''complained''), (''Delivery'', ''delivered''),
        (''Reject'', ''bounced'')] s | _ \<Rightarrow> None)"

definition tag_id :: "dict \<Rightarrow> string \<Rightarrow> uuid result" where
  "tag_id tags k =
     rbind (rbind (dict_at tags k) list_of_json) (\<lambda>xs. case xs of
       [] \<Rightarrow> Inl (OtherError ''IndexError'') | v # vs \<Rightarrow> rbind (str_of v) uuid_of)"

text \<open>The references of a feedback message: organization, delivery, provider's id, new status.\<close>

definition feedback_refs :: "json \<Rightarrow> (uuid \<times> uuid \<times> json \<times> string option) result" where
  "feedback_refs value =
     rbind (attr_dict value) (\<lambda>v.
     rbind (attr_dict (dict_get_or v ''mail'' (JObj []))) (\<lambda>mail.
     rbind (dict_of_json (dict_get_or mail ''tags'' (JObj []))) (\<lambda>tags.
     rbind (tag_id tags ''organization'') (\<lambda>org.
     rbind (tag_id tags ''delivery'') (\<lambda>delivery.
     rbind (dict_at mail ''messageId'') (\<lambda>message.
     Inr (org, delivery, message, feedback_status (dict_get_or v ''eventType'' (JStr [])))))))))"

definition terminal_update :: "datetime \<Rightarrow> string option \<Rightarrow> email_delivery \<Rightarrow> db \<Rightarrow> db" where
  "terminal_update now status x d =
     (case status of
        None \<Rightarrow> d
      | Some st \<Rightarrow>
          if del_status x \<in> {''bounced'', ''complained''} \<and> st \<noteq> ''complained'' then d
          else (let d1 = save_delivery (x\<lparr>del_status := st, del_feedback := Some now\<rparr>) d in
            if st \<in> {''bounced'', ''complained''}
            then d1\<lparr>db_routes := update_where (\<lambda>r. rou_id r = del_route x)
              (\<lambda>r. r\<lparr>rou_bounced := Some now, rou_active := False\<rparr>) (db_routes d1)\<rparr>
            else d1))"

definition feedback :: "datetime \<Rightarrow> json \<Rightarrow> context_settings \<Rightarrow> world \<Rightarrow> (unit \<times> context_settings \<times> world) result" where
  "feedback now v old w =
     rbind (feedback_refs v) (\<lambda>(org, delivery, message, status).
     tenant_scope org None (\<lambda>_ d.
       rbind (get_row ''EmailDelivery'' (\<lambda>x. del_id x = delivery \<and> JStr (del_provider x) = message) (db_deliveries d))
         (\<lambda>x. Inr ((), terminal_update now status x d))) old w)"

end
