(* ===== verification/Base64.thy ===== *)
theory Base64 imports Py_Strings begin

text \<open>
  Python's \<open>base64\<close>: \<open>b64encode\<close>, \<open>b64decode(s, validate=True)\<close>, which accepts the alphabet
  and padding only, and \<open>b64decode(s)\<close>, which skips other characters. Bytes are characters below 256.
  The decoders accept what \<open>binascii.a2b_base64\<close> accepts for a text whose padding stands at its end.
\<close>

definition B64 :: string where
  "B64 = ''ABCDEFGHIJKLMNOPQRSTUVWXYZabcdefghijklmnopqrstuvwxyz0123456789+/''"

definition b64_char :: "nat \<Rightarrow> char" where "b64_char n = B64 ! n"

definition byte :: "nat \<Rightarrow> char" where "byte n = char_of (n mod 256)"

definition ord_of :: "char \<Rightarrow> nat" where "ord_of c = of_char c"

fun b64encode :: "string \<Rightarrow> string" where
  "b64encode [] = []"
| "b64encode [a] = [b64_char (ord_of a div 4), b64_char (ord_of a mod 4 * 16), CHR ''='', CHR ''='']"
| "b64encode [a, b] = [b64_char (ord_of a div 4), b64_char (ord_of a mod 4 * 16 + ord_of b div 16),
     b64_char (ord_of b mod 16 * 4), CHR ''='']"
| "b64encode (a # b # c # s) = b64_char (ord_of a div 4) # b64_char (ord_of a mod 4 * 16 + ord_of b div 16) #
     b64_char (ord_of b mod 16 * 4 + ord_of c div 64) # b64_char (ord_of c mod 64) # b64encode s"

definition b64_value :: "char \<Rightarrow> nat option" where
  "b64_value c = map_of (zip B64 [0..<64]) c"

text \<open>Groups of four values; the last may have two or three, followed by its padding.\<close>

fun b64_groups :: "nat list \<Rightarrow> nat \<Rightarrow> string option" where
  "b64_groups [] pad = (if pad = 0 then Some [] else None)"
| "b64_groups [p] pad = None"
| "b64_groups [p, q] pad = (if pad = 2 then Some [byte (p * 4 + q div 16)] else None)"
| "b64_groups [p, q, r] pad =
     (if pad = 1 then Some [byte (p * 4 + q div 16), byte (q * 16 + r div 4)] else None)"
| "b64_groups (p # q # r # s # rest) pad =
     map_option (\<lambda>t. byte (p * 4 + q div 16) # byte (q * 16 + r div 4) # byte (r * 64 + s) # t)
       (b64_groups rest pad)"

definition is_pad :: "char \<Rightarrow> bool" where "is_pad c \<longleftrightarrow> c = CHR ''=''"

definition b64decode_strict :: "string \<Rightarrow> string option" where
  "b64decode_strict s =
     (let body = takeWhile (\<lambda>c. \<not> is_pad c) s; pad = dropWhile (\<lambda>c. \<not> is_pad c) s in
      if list_all is_pad pad \<and> list_all (\<lambda>c. b64_value c \<noteq> None) body
      then b64_groups (List.map_filter b64_value body) (length pad) else None)"

definition b64decode :: "string \<Rightarrow> string option" where
  "b64decode s = b64decode_strict (filter (\<lambda>c. is_pad c \<or> b64_value c \<noteq> None) s)"

lemma ord_less [simp]: "ord_of c < 256"
  by (simp add: ord_of_def)

lemma byte_ord [simp]: "byte (ord_of c) = c"
  by (simp add: byte_def ord_of_def)

lemma b64_distinct: "distinct B64"
  by (simp add: B64_def)

lemma b64_length [simp]: "length B64 = 64"
  by (simp add: B64_def)

lemma b64_value_char [simp]: "n < 64 \<Longrightarrow> b64_value (b64_char n) = Some n"
  unfolding b64_value_def b64_char_def
  by (subst map_of_zip_nth) (simp_all add: b64_distinct)

lemma not_pad_char [simp]: "n < 64 \<Longrightarrow> \<not> is_pad (b64_char n)"
proof -
  assume n: "n < 64"
  have "CHR ''='' \<notin> set B64" by (simp add: B64_def)
  moreover have "B64 ! n \<in> set B64" using n by simp
  ultimately show ?thesis by (auto simp: is_pad_def b64_char_def)
qed

text \<open>The values of an encoded text and its padding.\<close>

fun b64_values :: "string \<Rightarrow> nat list" where
  "b64_values [] = []"
| "b64_values [a] = [ord_of a div 4, ord_of a mod 4 * 16]"
| "b64_values [a, b] = [ord_of a div 4, ord_of a mod 4 * 16 + ord_of b div 16, ord_of b mod 16 * 4]"
| "b64_values (a # b # c # s) = ord_of a div 4 # (ord_of a mod 4 * 16 + ord_of b div 16) #
     (ord_of b mod 16 * 4 + ord_of c div 64) # (ord_of c mod 64) # b64_values s"

fun b64_padding :: "string \<Rightarrow> nat" where
  "b64_padding [] = 0"
| "b64_padding [a] = 2"
| "b64_padding [a, b] = 1"
| "b64_padding (a # b # c # s) = b64_padding s"

lemma ord_parts:
  "ord_of a div 4 < 64" "ord_of a div 16 < 16" "ord_of a div 64 < 4" "ord_of a mod 4 < 4" "ord_of a mod 16 < 16" "ord_of a mod 64 < 64"
proof -
  have c: "ord_of a < 256" by (rule ord_less)
  show "ord_of a div 4 < 64" using c by (intro less_mult_imp_div_less) simp
  show "ord_of a div 16 < 16" using c by (intro less_mult_imp_div_less) simp
  show "ord_of a div 64 < 4" using c by (intro less_mult_imp_div_less) simp
qed (rule mod_less_divisor, simp)+

lemma sextet_join: "x < 4 \<Longrightarrow> y < 16 \<Longrightarrow> x * 16 + y < (64::nat)" "x < 16 \<Longrightarrow> y < 4 \<Longrightarrow> x * 4 + y < (64::nat)"
  "x < 4 \<Longrightarrow> x * 16 < (64::nat)" "x < 16 \<Longrightarrow> x * 4 < (64::nat)"
  by linarith+

lemma sextet_less:
  "ord_of a div 4 < 64" "ord_of a mod 4 * 16 + ord_of b div 16 < 64" "ord_of b mod 16 * 4 + ord_of c div 64 < 64"
  "ord_of a mod 4 * 16 < 64" "ord_of b mod 16 * 4 < 64" "ord_of c mod 64 < 64"
  by (intro sextet_join ord_parts)+

lemma b64_values_less: "list_all (\<lambda>n. n < 64) (b64_values s)"
  by (induction s rule: b64_values.induct) (simp_all add: sextet_less)

lemma b64encode_eq: "b64encode s = map b64_char (b64_values s) @ replicate (b64_padding s) (CHR ''='')"
  by (induction s rule: b64encode.induct) (simp_all add: numeral_2_eq_2)

lemma byte_high [simp]: "byte (ord_of b + 256 * k) = b"
  by (simp add: byte_def ord_of_def)

lemma ord_high [simp]: "ord_of b div 16 div 16 = 0" "ord_of c div 64 div 4 = 0"
  by (simp_all flip: div_mult2_eq)

lemma b64_groups_values: "b64_groups (b64_values s) (b64_padding s) = Some s"
  by (induction s rule: b64_values.induct) simp_all

lemma pad_split:
  assumes "list_all (\<lambda>n. n < 64) vs"
  shows "takeWhile (\<lambda>c. \<not> is_pad c) (map b64_char vs @ replicate k (CHR ''='')) = map b64_char vs"
    and "dropWhile (\<lambda>c. \<not> is_pad c) (map b64_char vs @ replicate k (CHR ''='')) = replicate k (CHR ''='')"
  using assms by (induction vs) (simp_all, (cases k; simp add: is_pad_def)+)

lemma map_filter_values: "list_all (\<lambda>n. n < 64) vs \<Longrightarrow> List.map_filter b64_value (map b64_char vs) = vs"
  by (induction vs) (simp_all add: List.map_filter_simps)

lemma b64decode_strict_encode: "b64decode_strict (b64encode s) = Some s"
proof -
  note v = b64_values_less[of s]
  have a: "list_all (\<lambda>c. \<exists>y. b64_value c = Some y) (map b64_char (b64_values s))"
    using v by (auto simp: list_all_iff)
  have b: "list_all is_pad (replicate (b64_padding s) (CHR ''=''))" by (simp add: list_all_iff is_pad_def)
  show ?thesis
    by (simp add: b64decode_strict_def Let_def b64encode_eq pad_split[OF v] a b map_filter_values[OF v] b64_groups_values)
qed

lemma b64decode_encode: "b64decode (b64encode s) = Some s"
proof -
  have "list_all (\<lambda>c. is_pad c \<or> b64_value c \<noteq> None) (b64encode s)"
    using b64_values_less[of s] by (auto simp: b64encode_eq list_all_iff is_pad_def)
  then have "filter (\<lambda>c. is_pad c \<or> b64_value c \<noteq> None) (b64encode s) = b64encode s"
    by (induction "b64encode s") (simp_all add: list_all_iff filter_id_conv)
  then show ?thesis by (simp add: b64decode_def b64decode_strict_encode)
qed

end
