(* ===== verification/Crypto.thy ===== *)
theory Crypto imports Base64 Validation begin

text \<open>
  \<open>modules/connectors/crypto.py\<close>: envelope encryption of the connectors' secrets, the text that a
  WooCommerce plugin signs, and the verification of both kinds of signatures. AES-GCM, KMS, Ed25519
  and HMAC are parameters; a drawn key or nonce is an argument. Bytes are characters.
\<close>

section \<open>Envelope encryption\<close>

record crypto_settings =
  cs_environment :: string
  cs_kms_key :: string
  cs_production :: bool
  cs_local_key :: string

text \<open>\<open>AESGCM(key).encrypt(nonce, data, aad)\<close> and \<open>decrypt\<close>, whose failures are both caught by the
  program; KMS's \<open>generate_data_key\<close> (plaintext and wrapped key for a context) and \<open>decrypt\<close>.\<close>

record cipher =
  ci_seal :: "string \<Rightarrow> string \<Rightarrow> string \<Rightarrow> string \<Rightarrow> string result"
  ci_open :: "string \<Rightarrow> string \<Rightarrow> string \<Rightarrow> string \<Rightarrow> string result"
  ci_kms_generate :: "string \<Rightarrow> (string \<times> string) result"
  ci_kms_decrypt :: "string \<Rightarrow> string \<Rightarrow> string result"

definition aad :: "crypto_settings \<Rightarrow> string \<Rightarrow> string \<Rightarrow> string \<Rightarrow> string" where
  "aad cs org connector kind = dumps (JObj [(''organization_id'', JStr org), (''connector_id'', JStr connector),
     (''environment'', JStr (cs_environment cs)), (''token_type'', JStr kind)])"

definition b64_strict :: "string \<Rightarrow> string result" where
  "b64_strict s = (case b64decode_strict s of None \<Rightarrow> Inl (ValueError ''binascii.Error'') | Some b \<Rightarrow> Inr b)"

definition b64_lenient :: "string \<Rightarrow> string result" where
  "b64_lenient s = (case b64decode s of None \<Rightarrow> Inl (ValueError ''binascii.Error'') | Some b \<Rightarrow> Inr b)"

record draws =
  dr_key :: string
  dr_wrap_nonce :: string
  dr_nonce :: string

text \<open>The data key, its wrapped form and the provider.\<close>

definition data_key :: "crypto_settings \<Rightarrow> cipher \<Rightarrow> draws \<Rightarrow> string \<Rightarrow> (string \<times> string \<times> string) result" where
  "data_key cs ci dr context =
     (if cs_kms_key cs \<noteq> [] then rbind (ci_kms_generate ci context) (\<lambda>(key, wrapped). Inr (key, wrapped, ''kms''))
      else rbind (guard (\<not> cs_production cs \<and> cs_local_key cs \<noteq> []) (Problem ''ENCRYPTION_UNAVAILABLE'' 503)) (\<lambda>_.
        rbind (b64_strict (cs_local_key cs)) (\<lambda>master.
        rbind (ci_seal ci master (dr_wrap_nonce dr) (dr_key dr) context) (\<lambda>sealed.
        Inr (dr_key dr, dr_wrap_nonce dr @ sealed, ''local'')))))"

definition encrypt_secret :: "crypto_settings \<Rightarrow> cipher \<Rightarrow> draws \<Rightarrow> (string \<times> json) list \<Rightarrow> string \<Rightarrow> string \<Rightarrow> string \<Rightarrow>
    (string \<times> json) list result" where
  "encrypt_secret cs ci dr value org connector kind =
     (let context = aad cs org connector kind in
      rbind (data_key cs ci dr context) (\<lambda>(key, wrapped, provider).
      rbind (ci_seal ci key (dr_nonce dr) (dumps_raw (JObj value)) context) (\<lambda>ciphertext.
      Inr [(''version'', JStr ''1''), (''provider'', JStr provider), (''key'', JStr (b64encode wrapped)),
        (''nonce'', JStr (b64encode (dr_nonce dr))), (''ciphertext'', JStr (b64encode ciphertext))])))"

definition text_at :: "(string \<times> json) list \<Rightarrow> string \<Rightarrow> string result" where
  "text_at value k = rbind (dict_at value k) (\<lambda>v. case v of JStr s \<Rightarrow> Inr s
     | _ \<Rightarrow> Inl (TypeError ''a bytes-like object or ASCII string is required''))"

definition unwrap_key :: "crypto_settings \<Rightarrow> cipher \<Rightarrow> json \<Rightarrow> string \<Rightarrow> string \<Rightarrow> string result" where
  "unwrap_key cs ci provider wrapped context =
     (if provider = JStr ''kms'' then ci_kms_decrypt ci wrapped context
      else if provider = JStr ''local'' \<and> \<not> cs_production cs then
        rbind (b64_strict (cs_local_key cs)) (\<lambda>master.
        ci_open ci master (take 12 wrapped) (drop 12 wrapped) context)
      else Inl (ValueError ''Unsupported encryption provider''))"

definition open_secret :: "crypto_settings \<Rightarrow> cipher \<Rightarrow> (string \<times> json) list \<Rightarrow> string \<Rightarrow> (string \<times> json) list result" where
  "open_secret cs ci value context =
     rbind (dict_at value ''version'') (\<lambda>version.
     rbind (guard (version = JStr ''1'') (ValueError ''Unsupported version'')) (\<lambda>_.
     rbind (rbind (text_at value ''key'') b64_strict) (\<lambda>wrapped.
     rbind (dict_at value ''provider'') (\<lambda>provider.
     rbind (unwrap_key cs ci provider wrapped context) (\<lambda>key.
     rbind (rbind (text_at value ''nonce'') b64_lenient) (\<lambda>nonce.
     rbind (rbind (text_at value ''ciphertext'') b64_lenient) (\<lambda>ciphertext.
     rbind (ci_open ci key nonce ciphertext context) (\<lambda>plain.
     rbind (loads plain) (\<lambda>result.
     case result of JObj kvs \<Rightarrow> Inr kvs | _ \<Rightarrow> Inl (ValueError ''Invalid secret''))))))))))"

text \<open>\<open>except (KeyError, ValueError, TypeError, InvalidTag)\<close>\<close>

fun unreadable :: "exn \<Rightarrow> bool" where
  "unreadable (KeyError k) = True"
| "unreadable (ValueError m) = True"
| "unreadable (TypeError m) = True"
| "unreadable (OtherError c) = (c = ''InvalidTag'')"
| "unreadable e = False"

definition decrypt_secret :: "crypto_settings \<Rightarrow> cipher \<Rightarrow> (string \<times> json) list \<Rightarrow> string \<Rightarrow> string \<Rightarrow> string \<Rightarrow>
    (string \<times> json) list result" where
  "decrypt_secret cs ci value org connector kind =
     (case open_secret cs ci value (aad cs org connector kind) of
        Inr kvs \<Rightarrow> Inr kvs
      | Inl e \<Rightarrow> Inl (if unreadable e then Problem ''CREDENTIAL_UNAVAILABLE'' 503 else e))"

section \<open>Signatures of the plugin\<close>

definition signature_base :: "digest \<Rightarrow> string \<Rightarrow> string \<Rightarrow> string \<Rightarrow> string \<Rightarrow> string" where
  "signature_base H installation request sent body =
     ''v1'' @ [CHR 0x0A] @ installation @ [CHR 0x0A] @ request @ [CHR 0x0A] @ sent @ [CHR 0x0A] @ H body"

text \<open>\<open>ed key signature message\<close>: whether the key is one and accepts the signature.\<close>

definition verify_woo :: "digest \<Rightarrow> (string \<Rightarrow> string \<Rightarrow> string \<Rightarrow> bool) \<Rightarrow> string \<Rightarrow> string \<Rightarrow> string \<Rightarrow> string \<Rightarrow> string \<Rightarrow>
    string \<Rightarrow> datetime \<Rightarrow> int \<Rightarrow> unit result" where
  "verify_woo H ed public signature installation request sent body now offset =
     rbind (timestamp (JStr sent)) (\<lambda>t.
     rbind (guard (\<bar>now - t - seconds offset\<bar> \<le> seconds 300) (Problem ''SIGNATURE_EXPIRED'' 401)) (\<lambda>_.
     guard (case b64decode_strict signature of None \<Rightarrow> False
       | Some sig \<Rightarrow> ed public sig (signature_base H installation request sent body))
       (Problem ''INVALID_SIGNATURE'' 401)))"

section \<open>Signatures of Stripe\<close>

text \<open>\<open>[part.split("=", 1) for part in header.split(",")]\<close>, unpacked into pairs.\<close>

definition header_field :: "string \<Rightarrow> (string \<times> string) result" where
  "header_field part = (case partition_at (CHR ''='') part of
     (k, found, v) \<Rightarrow> if found then Inr (k, v) else Inl (ValueError ''not enough values to unpack''))"

definition header_fields :: "string \<Rightarrow> (string \<times> string) list result" where
  "header_fields header = map_res header_field (split_at (CHR '','') header)"

definition values_of :: "string \<Rightarrow> (string \<times> string) list \<Rightarrow> string list" where
  "values_of k parts = map snd (filter (\<lambda>f. fst f = k) parts)"

definition is_ascii_text :: "string \<Rightarrow> bool" where
  "is_ascii_text s \<longleftrightarrow> list_all (\<lambda>c. (of_char c :: nat) < 128) s"

text \<open>\<open>any(hmac.compare_digest(...))\<close>: the first pair that agrees ends the search, and comparing a text
  that is not ASCII raises.\<close>

fun any_match :: "(string \<times> string) list \<Rightarrow> bool result" where
  "any_match [] = Inr False"
| "any_match ((mac, candidate) # rest) =
     (if \<not> is_ascii_text candidate then Inl (TypeError ''comparing strings with non-ASCII characters'')
      else if mac = candidate then Inr True else any_match rest)"

text \<open>\<open>mac secret message\<close> is HMAC-SHA-256 in hexadecimal.\<close>

definition check_stripe :: "(string \<Rightarrow> string \<Rightarrow> string) \<Rightarrow> string \<Rightarrow> string \<Rightarrow> string list \<Rightarrow> datetime \<Rightarrow> unit result" where
  "check_stripe mac body header secrets now =
     rbind (header_fields header) (\<lambda>parts.
     rbind (case values_of ''t'' parts of [t] \<Rightarrow> Inr t | _ \<Rightarrow> Inl (ValueError ''Timestamp'')) (\<lambda>time.
     rbind (case int10 time of Some n \<Rightarrow> Inr n | None \<Rightarrow> Inl (ValueError ''invalid literal for int()'')) (\<lambda>ts.
     rbind (guard (\<bar>now - seconds ts\<bar> \<le> seconds 300) (ValueError ''Expired'')) (\<lambda>_.
     rbind (any_match (List.product (map (\<lambda>s. mac s (show_int ts @ ''.'' @ body)) secrets) (values_of ''v1'' parts)))
       (\<lambda>valid. guard valid (ValueError ''Signature''))))))"

definition verify_stripe :: "(string \<Rightarrow> string \<Rightarrow> string) \<Rightarrow> string \<Rightarrow> string \<Rightarrow> string list \<Rightarrow> datetime \<Rightarrow> unit result" where
  "verify_stripe mac body header secrets now =
     (case check_stripe mac body header secrets now of
        Inr u \<Rightarrow> Inr u | Inl e \<Rightarrow> Inl (Problem ''INVALID_SIGNATURE'' 401))"

end
