(* ===== verification/Stripe_Api.thy ===== *)
theory Stripe_Api imports Lifecycle Crypto begin

text \<open>
  \<open>modules/connectors/stripe.py\<close>, first part: reading resources from Stripe, the checks on what it
  answers, and the normal form of the resources that become projections. The HTTP client is a
  parameter that answers the n-th request; the clock is read several times in one operation, so it
  is a parameter too. An exception inside an operation keeps the changes already made, as a
  statement inside a \<open>try\<close> does; the transaction around the operation undoes them.
\<close>

section \<open>Operations with effects that survive an exception\<close>

record http_reply =
  hr_status :: int
  hr_retry_after :: string
  hr_content :: string

record stripe_env =
  en_clock :: "nat \<Rightarrow> datetime"
  en_hash :: digest
  en_crypto :: crypto_settings
  en_cipher :: cipher
  en_draws :: draws
  en_get :: "nat \<Rightarrow> string \<Rightarrow> string \<Rightarrow> dict \<Rightarrow> http_reply option"
  en_post :: "string \<Rightarrow> (string \<times> string) list \<Rightarrow> http_reply option"
  en_live_key :: string
  en_test_key :: string
  en_live_client :: string
  en_test_client :: string
  en_public_url :: string

record stripe_state =
  ss_db :: db
  ss_con :: installation
  ss_ticks :: nat
  ss_calls :: "(string \<times> dict) list"

type_synonym 'a act = "stripe_state \<Rightarrow> 'a result \<times> stripe_state"

definition abind :: "'a act \<Rightarrow> ('a \<Rightarrow> 'b act) \<Rightarrow> 'b act" where
  "abind m f st = (case m st of (Inl e, st') \<Rightarrow> (Inl e, st') | (Inr x, st') \<Rightarrow> f x st')"

definition areturn :: "'a \<Rightarrow> 'a act" where "areturn x st = (Inr x, st)"
definition araise :: "exn \<Rightarrow> 'a act" where "araise e st = (Inl e, st)"
definition alift :: "'a result \<Rightarrow> 'a act" where "alift r st = (r, st)"
definition aguard :: "bool \<Rightarrow> exn \<Rightarrow> unit act" where "aguard ok e = alift (guard ok e)"
definition amodify :: "(stripe_state \<Rightarrow> stripe_state) \<Rightarrow> unit act" where "amodify f st = (Inr (), f st)"
definition aget :: "(stripe_state \<Rightarrow> 'a) \<Rightarrow> 'a act" where "aget f st = (Inr (f st), st)"

definition atrans :: "'a trans \<Rightarrow> 'a act" where
  "atrans t st = (case t (ss_db st) of Inl e \<Rightarrow> (Inl e, st) | Inr (x, d) \<Rightarrow> (Inr x, st\<lparr>ss_db := d\<rparr>))"

definition anow :: "stripe_env \<Rightarrow> datetime act" where
  "anow en st = (Inr (en_clock en (ss_ticks st)), st\<lparr>ss_ticks := ss_ticks st + 1\<rparr>)"

fun afor :: "('a \<Rightarrow> unit act) \<Rightarrow> 'a list \<Rightarrow> unit act" where
  "afor f [] = areturn ()"
| "afor f (x # xs) = abind (f x) (\<lambda>_. afor f xs)"

lemma abind_simps [simp]:
  "abind (areturn x) f = f x" "abind (araise e) f = araise e" "abind (aget g) f st = f (g st) st"
  "abind (amodify h) k st = k () (h st)" "areturn x st = (Inr x, st)" "araise e st = (Inl e, st)"
  by (simp_all add: abind_def areturn_def araise_def aget_def amodify_def fun_eq_iff)

lemma abind_Inr: "abind m f st = (Inr y, st') \<longleftrightarrow> (\<exists>x s1. m st = (Inr x, s1) \<and> f x s1 = (Inr y, st'))"
  by (auto simp: abind_def split: prod.splits sum.splits)

lemma abindE [elim!]:
  assumes "abind m f st = (Inr y, st')"
  obtains x s1 where "m st = (Inr x, s1)" "f x s1 = (Inr y, st')"
  using assms by (auto simp: abind_Inr)

lemma alift_Inr [simp]: "alift r st = (Inr x, st') \<longleftrightarrow> r = Inr x \<and> st' = st"
  by (auto simp: alift_def)

lemma aguard_Inr [simp]: "aguard ok e st = (Inr u, st') \<longleftrightarrow> ok \<and> st' = st"
  by (auto simp: aguard_def)

section \<open>Access tokens\<close>

definition access_token :: "stripe_env \<Rightarrow> string act" where
  "access_token en = abind (aget ss_con) (\<lambda>con.
     abind (aguard (ins_status con = ''active'') (ConnectorFailure ''CONNECTOR_INACTIVE'' True 0)) (\<lambda>_.
     abind (anow en) (\<lambda>now.
     abind (aguard (case ins_token_expires con of None \<Rightarrow> False | Some t \<Rightarrow> now < t)
       (ConnectorFailure ''OAUTH_REFRESH_REQUIRED'' False 0)) (\<lambda>_.
     alift (rbind (dict_of_json (ins_credential con)) (\<lambda>secret.
       rbind (decrypt_secret (en_crypto en) (en_cipher en) secret (uuid_str (ins_org con)) (uuid_str (ins_id con)) ''oauth'')
         (\<lambda>tokens. str_at tokens ''access_token'')))))))"

section \<open>Requests\<close>

definition RESOURCES :: "string list" where
  "RESOURCES = [''payment_intents'', ''charges'', ''refunds'', ''events'', ''checkout/sessions'']"

definition resource_path :: "string \<Rightarrow> bool" where
  "resource_path path \<longleftrightarrow> (\<exists>r \<in> set RESOURCES. path = ''/v1/'' @ r \<or>
     (startswith path (''/v1/'' @ r @ ''/'') \<and>
      (let rest = drop (length (''/v1/'' @ r @ ''/'')) path in rest \<noteq> [] \<and> list_all is_word_char rest)))"

definition set_next_api :: "datetime \<Rightarrow> stripe_state \<Rightarrow> stripe_state" where
  "set_next_api t st =
     (let con = (ss_con st)\<lparr>ins_next_api := Some t\<rparr> in
      st\<lparr>ss_con := con, ss_db := (ss_db st)\<lparr>db_installations :=
        update_where (\<lambda>i. ins_id i = ins_id con) (\<lambda>i. i\<lparr>ins_next_api := Some t\<rparr>) (db_installations (ss_db st))\<rparr>\<rparr>)"

definition milliseconds :: "int \<Rightarrow> timedelta" where "milliseconds n = n * 1000"

definition check_reply :: "http_reply option \<Rightarrow> dict result" where
  "check_reply r =
     (case r of
        None \<Rightarrow> Inl (ConnectorFailure ''STRIPE_NETWORK_FAILURE'' False 0)
      | Some hr \<Rightarrow>
          if hr_status hr \<in> {401, 403} then Inl (ConnectorFailure ''STRIPE_AUTHORIZATION_REVOKED'' True 0)
          else if hr_status hr = 429 then
            Inl (ConnectorFailure ''STRIPE_RATE_LIMITED'' False
              (if all_digits (hr_retry_after hr) then min (read_digits (hr_retry_after hr)) 300 else 5))
          else if 500 \<le> hr_status hr then Inl (ConnectorFailure ''STRIPE_UNAVAILABLE'' False 0)
          else if hr_status hr \<noteq> 200 then
            Inl (ConnectorFailure ''STRIPE_RESOURCE_UNAVAILABLE'' (hr_status hr \<noteq> 404) 0)
          else if 8388608 < length (hr_content hr) then Inl (ConnectorFailure ''STRIPE_RESPONSE_TOO_LARGE'' False 0)
          else case loads (hr_content hr) of
              Inr (JObj kvs) \<Rightarrow> Inr kvs
            | _ \<Rightarrow> Inl (ConnectorFailure ''STRIPE_SCHEMA_INVALID'' False 0))"

text \<open>\<open>StripeReader.get\<close>: the pause before a request is not modelled, the slot it reserves is.\<close>

definition reader_get :: "stripe_env \<Rightarrow> string \<Rightarrow> string \<Rightarrow> dict \<Rightarrow> dict act" where
  "reader_get en token path params =
     abind (aguard (resource_path path) (ValueError ''Unsupported read resource'')) (\<lambda>_.
     abind (anow en) (\<lambda>now.
     abind (amodify (set_next_api (now + milliseconds 200))) (\<lambda>_.
     abind (aget (\<lambda>st. length (ss_calls st))) (\<lambda>n.
     abind (amodify (\<lambda>st. st\<lparr>ss_calls := ss_calls st @ [(path, params)]\<rparr>)) (\<lambda>_.
     alift (check_reply (en_get en n token path params)))))))"

text \<open>The rows of a page and whether there are more.\<close>

definition page_rows :: "dict \<Rightarrow> (json list \<times> bool) result" where
  "page_rows page =
     (case (dict_get page ''data'', dict_get page ''has_more'') of
        (Some (JList rows), Some (JBool again)) \<Rightarrow> Inr (rows, again)
      | _ \<Rightarrow> Inl (ConnectorFailure ''STRIPE_PAGINATION_INVALID'' False 0))"

text \<open>
  \<open>StripeReader.pages\<close>: the loop \<open>for _ in range(2000)\<close> with the pages left as its argument; the
  pages it yields, or the exception after them.
\<close>

definition last_id :: "json list \<Rightarrow> json result" where
  "last_id rows = (case last rows of JObj kvs \<Rightarrow> Inr (dict_get_or kvs ''id'' JNull)
     | _ \<Rightarrow> Inl (OtherError ''AttributeError''))"

definition last_member :: "json list \<Rightarrow> json result" where
  "last_member rows = rbind (dict_of_json (last rows)) (\<lambda>kvs. dict_at kvs ''id'')"

definition page_params :: "dict \<Rightarrow> json \<Rightarrow> dict" where
  "page_params params cursor = dict_merge (dict_merge params [(''limit'', JInt 100)])
     (if truthy cursor then [(''starting_after'', cursor)] else [])"

fun pages :: "stripe_env \<Rightarrow> string \<Rightarrow> string \<Rightarrow> dict \<Rightarrow> nat \<Rightarrow> json \<Rightarrow> json list list \<Rightarrow> json list list act" where
  "pages en token path params 0 cursor acc = araise (ConnectorFailure ''STRIPE_SCAN_LIMIT_EXCEEDED'' False 0)"
| "pages en token path params (Suc n) cursor acc =
     abind (reader_get en token path (page_params params cursor)) (\<lambda>page.
     abind (alift (page_rows page)) (\<lambda>(rows, again).
     if \<not> again then areturn (acc @ [rows])
     else if rows = [] then araise (ConnectorFailure ''STRIPE_PAGINATION_STALLED'' False 0)
     else abind (alift (last_id rows)) (\<lambda>i.
       if i = cursor then araise (ConnectorFailure ''STRIPE_PAGINATION_STALLED'' False 0)
       else abind (alift (last_member rows)) (\<lambda>next. pages en token path params n next (acc @ [rows])))))"

section \<open>Identities\<close>

definition object_id :: "string \<Rightarrow> bool" where
  "object_id s \<longleftrightarrow> (\<exists>p \<in> set [''pi_'', ''ch_'', ''re_'', ''evt_'', ''cs_'']. startswith s p \<and>
     (let rest = drop (length p) s in rest \<noteq> [] \<and> length rest \<le> 240 \<and> list_all is_word_char rest))"

definition stripe_id :: "json \<Rightarrow> bool \<Rightarrow> string result" where
  "stripe_id v optional =
     (if v = JNull \<and> optional then Inr []
      else case (case v of JObj kvs \<Rightarrow> dict_get_or kvs ''id'' JNull | _ \<Rightarrow> v) of
          JStr s \<Rightarrow> if object_id s then Inr s else Inl (ConnectorFailure ''STRIPE_ID_INVALID'' False 0)
        | _ \<Rightarrow> Inl (ConnectorFailure ''STRIPE_ID_INVALID'' False 0))"

definition OBJECT_PREFIXES :: "(string \<times> string) list" where
  "OBJECT_PREFIXES = [(''payment_intent'', ''pi_''), (''charge'', ''ch_''), (''refund'', ''re_''),
     (''checkout.session'', ''cs_'')]"

section \<open>Normal forms\<close>

definition STATUSES :: "(string \<times> string list) list" where
  "STATUSES =
     [(''payment'', [''requires_payment_method'', ''requires_confirmation'', ''requires_action'', ''processing'',
         ''requires_capture'', ''canceled'', ''succeeded'']),
      (''stripe_refund'', [''pending'', ''requires_action'', ''succeeded'', ''failed'', ''canceled'']),
      (''session'', [''paid'', ''unpaid'', ''no_payment_required''])]"

definition mode_conflict :: "dict \<Rightarrow> installation \<Rightarrow> bool" where
  "mode_conflict value con \<longleftrightarrow> \<not> equals_bool (dict_get_or value ''livemode'' JNull) (ins_mode con = ''live'')"

text \<open>\<open>datetime.fromtimestamp(created, UTC)\<close> for a nonnegative integer, up to the year 9999.\<close>

definition created_time :: "json \<Rightarrow> datetime result" where
  "created_time v =
     (case v of
        JInt n \<Rightarrow> if n < 0 then Inl (ConnectorFailure ''STRIPE_TIMESTAMP_INVALID'' False 0)
          else if 253402300799 < n then Inl (ValueError ''year is out of range'') else Inr (seconds n)
      | _ \<Rightarrow> Inl (ConnectorFailure ''STRIPE_TIMESTAMP_INVALID'' False 0))"

definition status_of :: "dict \<Rightarrow> string \<Rightarrow> string result" where
  "status_of value kind =
     (if kind = ''charge'' then
        Inr (if dict_get value ''captured'' = Some (JBool True) then ''captured'' else ''uncaptured'')
      else case dict_get_or value (if kind = ''session'' then ''payment_status'' else ''status'') JNull of
          JStr s \<Rightarrow> (case map_of STATUSES kind of None \<Rightarrow> Inl (KeyError kind)
            | Some allowed \<Rightarrow> if s \<in> set allowed then Inr s
                else Inl (ConnectorFailure ''STRIPE_STATUS_UNSUPPORTED'' False 0))
        | JList xs \<Rightarrow> Inl (TypeError ''unhashable type'')
        | JObj kvs \<Rightarrow> Inl (TypeError ''unhashable type'')
        | _ \<Rightarrow> Inl (ConnectorFailure ''STRIPE_STATUS_UNSUPPORTED'' False 0))"

text \<open>\<open>value.get(k) or {}\<close> of the metadata.\<close>

definition metadata_of :: "dict \<Rightarrow> dict result" where
  "metadata_of value =
     (let v = dict_get_or value ''metadata'' JNull in
      if \<not> truthy v then Inr [] else case v of JObj kvs \<Rightarrow> Inr kvs | _ \<Rightarrow> Inl (OtherError ''AttributeError''))"

definition order_hint_of :: "dict \<Rightarrow> string" where
  "order_hint_of metadata =
     (case dict_get_or metadata ''order_id'' (JStr []) of
        JStr s \<Rightarrow> if s \<noteq> [] \<and> length s \<le> 20 \<and> hd s \<noteq> CHR ''0'' \<and> list_all is_digit s then s else []
      | _ \<Rightarrow> [])"

definition store_hint_of :: "dict \<Rightarrow> string result" where
  "store_hint_of metadata =
     (let v = dict_get_or metadata ''ledgerguard_store_id'' (JStr []) in
      if \<not> truthy v then Inr []
      else case v of
          JStr s \<Rightarrow> (case uuid_of s of Inr u \<Rightarrow> Inr (uuid_str u) | Inl e \<Rightarrow> Inr [])
        | _ \<Rightarrow> Inl (OtherError ''AttributeError''))"

definition method_name :: "string \<Rightarrow> bool" where
  "method_name s \<longleftrightarrow> s \<noteq> [] \<and> length s \<le> 64 \<and> list_all (\<lambda>c. is_ascii_lower c \<or> c = CHR ''_'') s"

definition method_of :: "dict \<Rightarrow> string result" where
  "method_of value =
     (let v = dict_get_or value ''payment_method_types'' JNull in
      if \<not> truthy v then Inr ''unknown''
      else case v of
          JList [JStr s] \<Rightarrow> Inr (if method_name s then s else ''unknown'')
        | JList [x] \<Rightarrow> Inl (TypeError ''expected string or bytes-like object'')
        | JList xs \<Rightarrow> Inr ''unknown''
        | JStr [c] \<Rightarrow> Inr (if method_name [c] then [c] else ''unknown'')
        | JStr s \<Rightarrow> Inr ''unknown''
        | JObj [x] \<Rightarrow> Inl (KeyError ''0'')
        | JObj kvs \<Rightarrow> Inr ''unknown''
        | _ \<Rightarrow> Inl (TypeError ''object has no len()''))"

definition stripe_amount :: "dict \<Rightarrow> string \<Rightarrow> string \<Rightarrow> int result" where
  "stripe_amount value k cur = rbind (dict_at value k) (\<lambda>v. rbind (parse_stripe v cur) (\<lambda>m. Inr (minor m)))"

definition currency_text :: "dict \<Rightarrow> string result" where
  "currency_text value = (case dict_get_or value ''currency'' (JStr []) of JStr s \<Rightarrow> Inr s
     | _ \<Rightarrow> Inl (OtherError ''AttributeError''))"

definition kind_fields :: "dict \<Rightarrow> string \<Rightarrow> string \<Rightarrow> dict result" where
  "kind_fields value kind cur =
     (if kind = ''payment'' then
        rbind (metadata_of value) (\<lambda>metadata.
        rbind (store_hint_of metadata) (\<lambda>store_hint.
        rbind (method_of value) (\<lambda>method.
        rbind (stripe_amount value ''amount_received'' cur) (\<lambda>received.
        rbind (stripe_amount value ''amount_capturable'' cur) (\<lambda>capturable.
        rbind (stripe_id (dict_get_or value ''latest_charge'' JNull) True) (\<lambda>charge.
        Inr [(''received_minor'', JInt received), (''capturable_minor'', JInt capturable), (''charge_id'', JStr charge),
          (''method'', JStr method), (''capture_method'', dict_get_or value ''capture_method'' (JStr ''automatic'')),
          (''order_hint'', JStr (order_hint_of metadata)), (''store_hint'', JStr store_hint)]))))))
      else if kind = ''charge'' then
        rbind (stripe_id (dict_get_or value ''payment_intent'' JNull) True) (\<lambda>parent.
        rbind (stripe_amount value ''amount_refunded'' cur) (\<lambda>refunded.
        Inr [(''parent_id'', JStr parent), (''refunded_minor'', JInt refunded)]))
      else
        rbind (stripe_id (dict_get_or value ''payment_intent'' JNull) True) (\<lambda>parent.
        rbind (if kind = ''stripe_refund'' then stripe_id (dict_get_or value ''charge'' JNull) True else Inr []) (\<lambda>charge.
        Inr [(''parent_id'', JStr parent), (''charge_id'', JStr charge)])))"

definition normalize :: "dict \<Rightarrow> string \<Rightarrow> installation \<Rightarrow> (string \<times> dict) result" where
  "normalize value kind con =
     rbind (stripe_id (dict_get_or value ''id'' JNull) False) (\<lambda>source_id.
     rbind (guard (\<not> mode_conflict value con) (ConnectorFailure ''STRIPE_MODE_CONFLICT'' True 0)) (\<lambda>_.
     rbind (dict_at value (if kind = ''session'' then ''amount_total'' else ''amount'')) (\<lambda>amount.
     rbind (currency_text value) (\<lambda>cur.
     rbind (parse_stripe amount cur) (\<lambda>money.
     rbind (created_time (dict_get_or value ''created'' JNull)) (\<lambda>created.
     rbind (status_of value kind) (\<lambda>status.
     rbind (kind_fields value kind (currency money)) (\<lambda>extra.
     Inr (source_id, [(''amount_minor'', JInt (minor money)), (''currency'', JStr (currency money)),
       (''exponent'', JInt (exponent money)), (''status'', JStr status),
       (''created_at_source'', JStr (utc created))] @ extra)))))))))"

end
