(* ===== verification/Stripe_Sync.thy ===== *)
theory Stripe_Sync imports Stripe_Api begin

text \<open>
  \<open>modules/connectors/stripe.py\<close>, second part: the OAuth exchange and the rotation of tokens, the
  projection of a resource with its parent payment, receipts of webhooks, and the scan that walks
  through the provider's lists page by page and then through the references of the linked orders.
\<close>

section \<open>Authorization\<close>

definition developer_key :: "stripe_env \<Rightarrow> string \<Rightarrow> string result" where
  "developer_key en mode =
     (let key = (if mode = ''live'' then en_live_key en else en_test_key en) in
      if key = [] then Inl (Problem ''STRIPE_APP_NOT_CONFIGURED'' 503) else Inr key)"

definition is_alnum :: "char \<Rightarrow> bool" where
  "is_alnum c \<longleftrightarrow> is_ascii_upper c \<or> is_ascii_lower c \<or> is_digit c"

definition account_id :: "string \<Rightarrow> bool" where
  "account_id s \<longleftrightarrow> startswith s ''acct_'' \<and> drop 5 s \<noteq> [] \<and> list_all is_alnum (drop 5 s)"

text \<open>\<open>value.get("stripe_user_id") or value.get("account_id")\<close>\<close>

definition granted_account :: "dict \<Rightarrow> json" where
  "granted_account value =
     (let v = dict_get_or value ''stripe_user_id'' JNull in if truthy v then v else dict_get_or value ''account_id'' JNull)"

definition token_text :: "json \<Rightarrow> string option" where
  "token_text v = (case v of JStr s \<Rightarrow> if 10 \<le> length s \<and> length s \<le> 4096 then Some s else None | _ \<Rightarrow> None)"

record tokens =
  tk_access :: string
  tk_refresh :: string
  tk_account :: string

definition check_grant :: "string \<Rightarrow> dict \<Rightarrow> tokens result" where
  "check_grant mode value =
     (case granted_account value of
        JStr account \<Rightarrow>
          if dict_get value ''scope'' \<noteq> Some (JStr ''stripe_apps'') \<or>
             dict_get value ''token_type'' \<noteq> Some (JStr ''bearer'') \<or>
             \<not> equals_bool (dict_get_or value ''livemode'' JNull) (mode = ''live'') \<or> \<not> account_id account
          then Inl (ConnectorFailure ''OAUTH_IDENTITY_INVALID'' True 0)
          else (case (token_text (dict_get_or value ''access_token'' JNull), token_text (dict_get_or value ''refresh_token'' JNull)) of
              (Some a, Some r) \<Rightarrow> Inr \<lparr>tk_access = a, tk_refresh = r, tk_account = account\<rparr>
            | _ \<Rightarrow> Inl (ConnectorFailure ''OAUTH_TOKEN_INVALID'' True 0))
      | _ \<Rightarrow> Inl (ConnectorFailure ''OAUTH_IDENTITY_INVALID'' True 0))"

definition exchange :: "stripe_env \<Rightarrow> string \<Rightarrow> (string \<times> string) list \<Rightarrow> tokens result" where
  "exchange en mode grant =
     rbind (developer_key en mode) (\<lambda>key.
     case en_post en key grant of
       None \<Rightarrow> Inl (ConnectorFailure ''OAUTH_EXCHANGE_UNCERTAIN'' True 0)
     | Some hr \<Rightarrow>
         if hr_status hr \<noteq> 200 then Inl (ConnectorFailure ''OAUTH_REAUTHORIZATION_REQUIRED'' True 0)
         else case loads (hr_content hr) of
             Inr (JObj value) \<Rightarrow> check_grant mode value
           | _ \<Rightarrow> Inl (ConnectorFailure ''OAUTH_RESPONSE_INVALID'' True 0))"

definition tokens_dict :: "tokens \<Rightarrow> dict" where
  "tokens_dict t = [(''access_token'', JStr (tk_access t)), (''refresh_token'', JStr (tk_refresh t)),
     (''account_id'', JStr (tk_account t))]"

definition seal_tokens :: "stripe_env \<Rightarrow> installation \<Rightarrow> tokens \<Rightarrow> json result" where
  "seal_tokens en con t = rbind (encrypt_secret (en_crypto en) (en_cipher en) (en_draws en) (tokens_dict t)
     (uuid_str (ins_org con)) (uuid_str (ins_id con)) ''oauth'') (\<lambda>v. Inr (JObj v))"

definition save_con :: "installation \<Rightarrow> stripe_state \<Rightarrow> stripe_state" where
  "save_con con st = st\<lparr>ss_con := con, ss_db := (ss_db st)\<lparr>db_installations :=
     save_row ins_id con (db_installations (ss_db st))\<rparr>\<rparr>"

text \<open>A savepoint: an exception puts the tables back.\<close>

definition asave :: "'a act \<Rightarrow> 'a act" where
  "asave m st = (case m st of (Inl e, st') \<Rightarrow> (Inl e, st'\<lparr>ss_db := ss_db st\<rparr>) | (Inr x, st') \<Rightarrow> (Inr x, st'))"

section \<open>Connecting an account\<close>

text \<open>\<open>urlencode\<close>: letters, digits and \<open>_.-~\<close> stay, a space becomes \<open>+\<close>, other bytes \<open>%XX\<close>.\<close>

definition url_char :: "char \<Rightarrow> string" where
  "url_char c =
     (if is_alnum c \<or> c \<in> set ''_.-~'' then [c] else if c = CHR '' '' then ''+''
      else CHR ''%'' # upper (hex_digits 2 (int (of_char c))))"

definition urlencode :: "(string \<times> string) list \<Rightarrow> string" where
  "urlencode kvs = join ''&'' (map (\<lambda>(k, v). concat (map url_char k) @ ''='' @ concat (map url_char v)) kvs)"

definition oauth_start :: "stripe_env \<Rightarrow> datetime \<Rightarrow> string \<Rightarrow> store \<Rightarrow> int \<Rightarrow> string \<Rightarrow> string trans" where
  "oauth_start en now state s user session_key d =
     (let row = \<lparr>oau_id = db_next d, oau_org = sto_org s, oau_state_hash = en_hash en state, oau_user = user,
            oau_session_hash = en_hash en session_key, oau_store = sto_id s, oau_expires = now + minutes 10,
            oau_consumed = None, oau_mode = sto_mode s\<rparr>;
          client = (if sto_mode s = ''live'' then en_live_client en else en_test_client en) in
      if client = [] then Inl (Problem ''STRIPE_APP_NOT_CONFIGURED'' 503)
      else Inr (''https://marketplace.stripe.com/oauth/v2/authorize?'' @ urlencode [(''client_id'', client),
          (''redirect_uri'', en_public_url en @ ''/oauth/stripe/callback''), (''state'', state)],
        d\<lparr>db_next := db_next d + 1, db_oauth := db_oauth d @ [row]\<rparr>))"

definition find_state :: "stripe_env \<Rightarrow> string \<Rightarrow> int \<Rightarrow> string \<Rightarrow> datetime \<Rightarrow> db \<Rightarrow> oauth_state option" where
  "find_state en state user session_key now d =
     find (\<lambda>o'. oau_state_hash o' = en_hash en state \<and> oau_user o' = user \<and>
       oau_session_hash o' = en_hash en session_key \<and> oau_consumed o' = None \<and> now < oau_expires o') (db_oauth d)"

definition consume_state :: "oauth_state \<Rightarrow> datetime \<Rightarrow> db \<Rightarrow> db" where
  "consume_state row now d = d\<lparr>db_oauth := update_where (\<lambda>o'. oau_id o' = oau_id row)
     (\<lambda>o'. o'\<lparr>oau_consumed := Some now\<rparr>) (db_oauth d)\<rparr>"

definition new_stripe :: "uuid \<Rightarrow> uuid \<Rightarrow> string \<Rightarrow> string \<Rightarrow> uuid \<Rightarrow> datetime \<Rightarrow> installation" where
  "new_stripe i org mode account dest now =
     \<lparr>ins_id = i, ins_org = org, ins_kind = ''stripe'', ins_store = None, ins_mode = mode, ins_account = account,
       ins_status = ''active'', ins_destination = Some dest, ins_credential = JObj [], ins_webhook = JObj [],
       ins_token_expires = None, ins_heartbeat = None, ins_versions = JObj [], ins_health = [], ins_error = [],
       ins_next_api = None, ins_created = now, ins_lock = 0\<rparr>"

text \<open>The account's active connector, created with its two locators when there is none.\<close>

definition obtain_stripe :: "oauth_state \<Rightarrow> tokens \<Rightarrow> uuid \<Rightarrow> datetime \<Rightarrow> db \<Rightarrow> installation \<times> db" where
  "obtain_stripe row t dest now d =
     (case find (\<lambda>i. ins_org i = oau_org row \<and> ins_kind i = ''stripe'' \<and> ins_account i = tk_account t \<and>
         ins_mode i = oau_mode row \<and> ins_status i = ''active'') (db_installations d) of
        Some con \<Rightarrow> (con, d)
      | None \<Rightarrow>
          (let con = new_stripe (db_next d) (oau_org row) (oau_mode row) (tk_account t) dest now in
           (con, d\<lparr>db_next := db_next d + 1, db_installations := db_installations d @ [con],
              db_locators := db_locators d @ [\<lparr>loc_id = ins_id con, loc_org = oau_org row, loc_kind = ''connector''\<rparr>,
                \<lparr>loc_id = dest, loc_org = oau_org row, loc_kind = ''destination''\<rparr>]\<rparr>)))"

definition link_store :: "oauth_state \<Rightarrow> installation \<Rightarrow> datetime \<Rightarrow> db \<Rightarrow> db" where
  "link_store row con now d =
     (let merchant = map_option ins_created (active_woo (oau_store row) d);
          f = (\<lambda>l. l\<lparr>lnk_org := oau_org row, lnk_stripe := ins_id con, lnk_status := ''unverified'',
                lnk_owner_confirmed := Some now, lnk_merchant_confirmed := merchant, lnk_verified_payment := []\<rparr>) in
      case store_link (oau_store row) d of
        Some l \<Rightarrow> d\<lparr>db_links := update_where (\<lambda>x. lnk_id x = lnk_id l) f (db_links d)\<rparr>
      | None \<Rightarrow> d\<lparr>db_next := db_next d + 1, db_links := db_links d @
          [\<lparr>lnk_id = db_next d, lnk_org = oau_org row, lnk_store = oau_store row, lnk_stripe = ins_id con,
            lnk_status = ''unverified'', lnk_owner_confirmed = Some now, lnk_merchant_confirmed = merchant,
            lnk_verified_payment = []\<rparr>]\<rparr>)"

definition connect :: "stripe_env \<Rightarrow> oauth_state \<Rightarrow> tokens \<Rightarrow> uuid \<Rightarrow> int \<Rightarrow> installation act" where
  "connect en row t dest user =
     abind (anow en) (\<lambda>now.
     abind (atrans (\<lambda>d. Inr (obtain_stripe row t dest now d))) (\<lambda>con0.
     abind (alift (seal_tokens en con0 t)) (\<lambda>sealed.
     let con = con0\<lparr>ins_credential := sealed, ins_token_expires := Some (now + minutes 55), ins_status := ''active'',
           ins_lock := ins_lock con0 + 1\<rparr> in
     abind (amodify (save_con con)) (\<lambda>_.
     abind (amodify (\<lambda>st. st\<lparr>ss_db := link_store row con now (ss_db st)\<rparr>)) (\<lambda>_.
     abind (atrans (audit now (oau_org row) (show_int user) ''stripe.connected'' (uuid_str (ins_id con)) [] [])) (\<lambda>_.
     abind (atrans (enqueue now (oau_org row) ''stripe_repair'' (ins_id con)
       (''initial-stripe:'' @ uuid_str (ins_id con) @ '':'' @ show_int (ins_lock con)))) (\<lambda>_. areturn con)))))))"

definition oauth_callback :: "stripe_env \<Rightarrow> string \<Rightarrow> string \<Rightarrow> int \<Rightarrow> string \<Rightarrow> uuid \<Rightarrow> installation act" where
  "oauth_callback en state grant_code user session_key dest =
     abind (anow en) (\<lambda>now.
     abind (aget (\<lambda>st. find_state en state user session_key now (ss_db st))) (\<lambda>found.
     case found of
       None \<Rightarrow> araise (Problem ''INVALID_OAUTH_STATE'' 400)
     | Some row \<Rightarrow>
         abind (amodify (\<lambda>st. st\<lparr>ss_db := consume_state row now (ss_db st)\<rparr>)) (\<lambda>_.
         abind (alift (exchange en (oau_mode row) [(''grant_type'', ''authorization_code''), (''code'', grant_code)])) (\<lambda>t.
         asave (connect en row t dest user)))))"

section \<open>Rotating and dropping credentials\<close>

definition rotate_tokens :: "stripe_env \<Rightarrow> string \<Rightarrow> string act" where
  "rotate_tokens en refresh_token =
     abind (aget ss_con) (\<lambda>con.
     abind (alift (exchange en (ins_mode con) [(''grant_type'', ''refresh_token''), (''refresh_token'', refresh_token)])) (\<lambda>t.
     abind (aguard (tk_account t = ins_account con) (ConnectorFailure ''OAUTH_ACCOUNT_CHANGED'' True 0)) (\<lambda>_.
     abind (alift (seal_tokens en con t)) (\<lambda>sealed.
     abind (anow en) (\<lambda>now.
     abind (amodify (save_con (con\<lparr>ins_credential := sealed, ins_token_expires := Some (now + minutes 55),
       ins_lock := ins_lock con + 1\<rparr>))) (\<lambda>_.
     abind (atrans (audit now (ins_org con) ''worker'' ''stripe.tokens_rotated'' (uuid_str (ins_id con)) [] [])) (\<lambda>_.
     areturn (tk_access t))))))))"

definition refresh_access_token :: "stripe_env \<Rightarrow> string act" where
  "refresh_access_token en =
     abind (aget ss_con) (\<lambda>con.
     abind (aguard (ins_status con = ''active'') (ConnectorFailure ''CONNECTOR_INACTIVE'' True 0)) (\<lambda>_.
     abind (alift (rbind (dict_of_json (ins_credential con)) (\<lambda>secret.
       decrypt_secret (en_crypto en) (en_cipher en) secret (uuid_str (ins_org con)) (uuid_str (ins_id con)) ''oauth''))) (\<lambda>old.
     abind (anow en) (\<lambda>now.
     if (case ins_token_expires con of None \<Rightarrow> True | Some t \<Rightarrow> t \<le> now)
     then abind (alift (str_at old ''refresh_token'')) (rotate_tokens en)
     else alift (str_at old ''access_token'')))))"

definition disconnect :: "datetime \<Rightarrow> installation \<Rightarrow> string \<Rightarrow> unit trans" where
  "disconnect now con actor d =
     (let con' = con\<lparr>ins_status := ''disconnected'', ins_credential := JObj [], ins_webhook := JObj [],
            ins_token_expires := None\<rparr>;
          d1 = mark_incomplete (\<lambda>c. cur_connector c = ins_id con)
            (d\<lparr>db_installations := save_row ins_id con' (db_installations d)\<rparr>) in
      tbind (audit now (ins_org con) actor ''connector.disconnected'' (uuid_str (ins_id con)) [] []) (\<lambda>_. treturn ()) d1)"

section \<open>Fetching a resource\<close>

definition RESOURCE_OF :: "(string \<times> string \<times> string) list" where
  "RESOURCE_OF = [(''payment_intent'', ''payment_intents'', ''payment''), (''charge'', ''charges'', ''charge''),
     (''refund'', ''refunds'', ''stripe_refund''), (''checkout.session'', ''checkout/sessions'', ''session'')]"

text \<open>The identity of the answer must be the one asked for.\<close>

definition check_identity :: "dict \<Rightarrow> string \<Rightarrow> string \<Rightarrow> unit result" where
  "check_identity value object_kind expected =
     rbind (stripe_id (dict_get_or value ''id'' JNull) False) (\<lambda>i.
     guard (i = expected \<and> dict_get value ''object'' = Some (JStr object_kind))
       (ConnectorFailure ''STRIPE_IDENTITY_CONFLICT'' True 0))"

text \<open>A refund without a payment takes the payment of its charge.\<close>

definition refund_parent :: "stripe_env \<Rightarrow> string \<Rightarrow> string \<Rightarrow> string \<Rightarrow> string \<Rightarrow> string act" where
  "refund_parent en token kind parent charge =
     (if kind = ''stripe_refund'' \<and> parent = [] \<and> charge \<noteq> []
      then abind (reader_get en token (''/v1/charges/'' @ charge) []) (\<lambda>value.
        alift (stripe_id (dict_get_or value ''payment_intent'' JNull) True))
      else areturn parent)"

definition str_member :: "dict \<Rightarrow> string \<Rightarrow> string" where
  "str_member data k = (case dict_get data k of Some (JStr s) \<Rightarrow> s | _ \<Rightarrow> [])"

text \<open>
  The body of \<open>fetch_resource\<close> up to its recursive call: the projection and the payment it belongs to
  (empty for a payment), or nothing for a resource outside the contract.
\<close>

definition fetch_one :: "stripe_env \<Rightarrow> string \<Rightarrow> string \<Rightarrow> json \<Rightarrow> (projection \<times> string) option act" where
  "fetch_one en token object_kind source_id =
     (case map_of RESOURCE_OF object_kind of
        None \<Rightarrow> araise (KeyError object_kind)
      | Some (path, kind) \<Rightarrow>
          abind (alift (stripe_id source_id False)) (\<lambda>expected.
          abind (aguard (case map_of OBJECT_PREFIXES object_kind of None \<Rightarrow> False | Some p \<Rightarrow> startswith expected p)
            (ConnectorFailure ''STRIPE_ID_INVALID'' True 0)) (\<lambda>_.
          abind (reader_get en token (''/v1/'' @ path @ ''/'' @ expected) []) (\<lambda>value.
          abind (alift (check_identity value object_kind expected)) (\<lambda>_.
          abind (aget ss_con) (\<lambda>con.
          abind (aguard (\<not> mode_conflict value con) (ConnectorFailure ''STRIPE_MODE_CONFLICT'' True 0)) (\<lambda>_.
          if object_kind = ''checkout.session'' \<and> dict_get_or value ''payment_intent'' JNull = JNull
          then areturn None
          else abind (alift (normalize value kind con)) (\<lambda>(sid, data).
            abind (refund_parent en token kind (str_member data ''parent_id'') (str_member data ''charge_id'')) (\<lambda>parent.
            if kind \<noteq> ''payment'' \<and> parent = [] then areturn None
            else abind (anow en) (\<lambda>now.
              abind (atrans (upsert (en_hash en) now con kind sid now
                (if kind = ''payment'' then data else dict_put ''parent_id'' (JStr parent) data))) (\<lambda>(p, _).
              areturn (Some (p, if kind = ''payment'' then [] else parent)))))))))))))"

text \<open>\<open>fetch_resource\<close>: the recursion ends because the fetch of a payment has no parent.\<close>

function fetch_resource :: "stripe_env \<Rightarrow> string \<Rightarrow> string \<Rightarrow> json \<Rightarrow> projection option act" where
  "fetch_resource en token object_kind source_id st =
     (case fetch_one en token object_kind source_id st of
        (Inl e, s1) \<Rightarrow> (Inl e, s1)
      | (Inr None, s1) \<Rightarrow> (Inr None, s1)
      | (Inr (Some (p, parent)), s1) \<Rightarrow>
          if object_kind = ''payment_intent'' \<or> parent = [] then (Inr (Some p), s1)
          else (case fetch_resource en token ''payment_intent'' (JStr parent) s1 of
              (Inl e, s2) \<Rightarrow> (Inl e, s2) | (Inr _, s2) \<Rightarrow> (Inr (Some p), s2)))"
  by pat_completeness auto
termination by (relation "measure (\<lambda>(en, token, kind, i, st). if kind = ''payment_intent'' then 0 else 1)") auto

declare fetch_resource.simps [simp del]

section \<open>Receipts of webhooks\<close>

definition load_connector :: "(installation \<Rightarrow> bool) \<Rightarrow> unit act" where
  "load_connector P st =
     (case get_row ''Installation'' P (db_installations (ss_db st)) of
        Inl e \<Rightarrow> (Inl e, st) | Inr con \<Rightarrow> (Inr (), st\<lparr>ss_con := con\<rparr>))"

definition process_receipt :: "stripe_env \<Rightarrow> uuid \<Rightarrow> unit act" where
  "process_receipt en receipt_id =
     abind (aget (\<lambda>st. get_row ''Receipt'' (\<lambda>r. rec_id r = receipt_id) (db_receipts (ss_db st)))) (\<lambda>found.
     abind (alift found) (\<lambda>r.
     if rec_status r \<in> {''normalized'', ''ignored''} then areturn ()
     else abind (load_connector (\<lambda>i. ins_id i = rec_connector r \<and> ins_status i = ''active'')) (\<lambda>_.
       abind (access_token en) (\<lambda>token.
       abind (fetch_resource en token (rec_kind r) (JStr (rec_source r))) (\<lambda>_.
       abind (amodify (\<lambda>st. st\<lparr>ss_db := (ss_db st)\<lparr>db_receipts := update_where (\<lambda>x. rec_id x = receipt_id)
         (\<lambda>x. x\<lparr>rec_status := ''normalized''\<rparr>) (db_receipts (ss_db st))\<rparr>\<rparr>)) (\<lambda>_.
       abind (aget ss_con) (\<lambda>con. abind (anow en) (\<lambda>now.
       atrans (reconcile_later now con (uuid_str receipt_id))))))))))"

section \<open>Scans\<close>

text \<open>\<open>now.replace(microsecond=0)\<close>\<close>

definition whole_second :: "datetime \<Rightarrow> datetime" where "whole_second t = seconds (unix_seconds t)"

definition new_scan :: "uuid \<Rightarrow> installation \<Rightarrow> datetime \<Rightarrow> datetime \<Rightarrow> bool \<Rightarrow> datetime \<Rightarrow> scan" where
  "new_scan i con start through repair now = \<lparr>sca_id = i, sca_org = ins_org con, sca_connector = ins_id con,
     sca_from = start, sca_through = through, sca_phase = 0, sca_cursor = [], sca_pages = 0,
     sca_status = ''pending'', sca_repair = repair, sca_updated = now\<rparr>"

definition scan_start :: "datetime \<Rightarrow> bool \<Rightarrow> cursor option \<Rightarrow> datetime" where
  "scan_start through repair cur =
     (if repair then through - days 30
      else case cur of None \<Rightarrow> through - days 30
        | Some c \<Rightarrow> (case cur_through c of None \<Rightarrow> through - days 30
            | Some t \<Rightarrow> max (through - days 30) (t - minutes 30)))"

definition poll :: "datetime \<Rightarrow> uuid \<Rightarrow> bool \<Rightarrow> unit trans" where
  "poll now connector_id repair d =
     rbind (get_row ''Installation'' (\<lambda>i. ins_id i = connector_id \<and> ins_kind i = ''stripe'' \<and> ins_status i = ''active'')
       (db_installations d)) (\<lambda>con.
     if \<exists>s \<in> set (db_scans d). sca_connector s = ins_id con \<and> sca_status s = ''pending'' then Inr ((), d)
     else (let through = whole_second now - seconds 30;
               start = scan_start through repair (find_cursor (ins_id con) ''stripe_payments'' d);
               s = new_scan (db_next d) con start through repair now in
       tbind (enqueue now (ins_org con) ''stripe_scan_page'' (sca_id s) (''scan:'' @ uuid_str (sca_id s) @ '':0''))
         (\<lambda>_. treturn ()) (d\<lparr>db_next := db_next d + 1, db_scans := db_scans d @ [s]\<rparr>)))"

definition PHASES :: "(string \<times> string option) list" where
  "PHASES = [(''events'', None), (''payment_intents'', Some ''payment_intent''), (''refunds'', Some ''refund''),
     (''checkout/sessions'', Some ''checkout.session'')]"

definition scan_params :: "scan \<Rightarrow> dict" where
  "scan_params s = [(''created[gte]'', JInt (unix_seconds (sca_from s))),
     (''created[lte]'', JInt (unix_seconds (sca_through s))), (''limit'', JInt 100)] @
     (if sca_cursor s \<noteq> [] then [(''starting_after'', JStr (sca_cursor s))] else [])"

text \<open>The object of a row and its kind: the event's object, or the row itself.\<close>

definition row_object :: "string option \<Rightarrow> json \<Rightarrow> (json \<times> dict) result" where
  "row_object kind value =
     (case kind of
        None \<Rightarrow>
          rbind (attr_dict value) (\<lambda>kvs.
          rbind (attr_dict (dict_get_or kvs ''data'' (JObj []))) (\<lambda>data.
          rbind (attr_dict (dict_get_or data ''object'' (JObj []))) (\<lambda>obj.
          Inr (dict_get_or obj ''object'' JNull, obj))))
      | Some k \<Rightarrow> rbind (dict_of_json value) (\<lambda>obj. Inr (JStr k, obj)))"

definition scan_row :: "stripe_env \<Rightarrow> string \<Rightarrow> string option \<Rightarrow> json \<Rightarrow> unit act" where
  "scan_row en token kind value =
     abind (alift (row_object kind value)) (\<lambda>(k, obj).
     case k of
       JStr object_kind \<Rightarrow>
         if object_kind \<in> fst ` set RESOURCE_OF
         then abind (alift (dict_at obj ''id'')) (\<lambda>i. abind (fetch_resource en token object_kind i) (\<lambda>_. areturn ()))
         else areturn ()
     | JList xs \<Rightarrow> araise (TypeError ''unhashable type'')
     | JObj kvs \<Rightarrow> araise (TypeError ''unhashable type'')
     | _ \<Rightarrow> areturn ())"

definition next_cursor :: "json list \<Rightarrow> scan \<Rightarrow> string result" where
  "next_cursor rows s =
     (if rows = [] then Inl (ConnectorFailure ''STRIPE_PAGINATION_STALLED'' False 0)
      else rbind (rbind (dict_of_json (last rows)) (\<lambda>kvs. str_at kvs ''id'')) (\<lambda>i.
        if i = sca_cursor s then Inl (ConnectorFailure ''STRIPE_PAGINATION_STALLED'' False 0) else Inr i))"

definition scan_list :: "stripe_env \<Rightarrow> string \<Rightarrow> scan \<Rightarrow> scan act" where
  "scan_list en token s =
     (case PHASES ! sca_phase s of (path, kind) \<Rightarrow>
        abind (reader_get en token (''/v1/'' @ path) (scan_params s)) (\<lambda>page.
        abind (alift (page_rows page)) (\<lambda>(rows, again).
        abind (afor (scan_row en token kind) rows) (\<lambda>_.
        if again then abind (alift (next_cursor rows s)) (\<lambda>c. areturn (s\<lparr>sca_cursor := c\<rparr>))
        else areturn (s\<lparr>sca_phase := sca_phase s + 1, sca_cursor := []\<rparr>)))))"

definition projection_refs :: "projection \<Rightarrow> string list" where
  "projection_refs p = sort (remdups (filter (\<lambda>r. r \<noteq> []) [pro_transaction p, pro_pi p, pro_charge p, pro_session p]))"

definition ref_kind :: "string \<Rightarrow> string" where
  "ref_kind ref = (if startswith ref ''pi_'' then ''payment_intent'' else if startswith ref ''ch_'' then ''charge''
     else ''checkout.session'')"

text \<open>An unavailable resource is passed over; what was already projected stays.\<close>

definition fetch_ref :: "stripe_env \<Rightarrow> string \<Rightarrow> string \<Rightarrow> unit act" where
  "fetch_ref en token ref st =
     (case fetch_resource en token (ref_kind ref) (JStr ref) st of
        (Inr _, s1) \<Rightarrow> (Inr (), s1)
      | (Inl (ConnectorFailure c p r), s1) \<Rightarrow>
          if c = ''STRIPE_RESOURCE_UNAVAILABLE'' then (Inr (), s1) else (Inl (ConnectorFailure c p r), s1)
      | (Inl e, s1) \<Rightarrow> (Inl e, s1))"

definition order_batch :: "installation \<Rightarrow> scan \<Rightarrow> db \<Rightarrow> projection list result" where
  "order_batch con s d =
     (let linked = map lnk_store (filter (\<lambda>l. lnk_stripe l = ins_id con) (db_links d));
          orders = sort_key pro_id (filter (\<lambda>p. (\<exists>x \<in> set linked. pro_store p = Some x) \<and> pro_kind p = ''order'')
            (db_projections d)) in
      if sca_cursor s = [] then Inr (take 25 orders)
      else case uuid_of (sca_cursor s) of
          Inl e \<Rightarrow> Inl ValidationError
        | Inr i \<Rightarrow> Inr (take 25 (filter (\<lambda>p. i < pro_id p) orders)))"

definition scan_orders :: "stripe_env \<Rightarrow> string \<Rightarrow> scan \<Rightarrow> scan act" where
  "scan_orders en token s =
     abind (aget ss_con) (\<lambda>con.
     abind (aget (\<lambda>st. order_batch con s (ss_db st))) (\<lambda>found. abind (alift found) (\<lambda>batch.
     abind (afor (\<lambda>p. afor (fetch_ref en token) (projection_refs p)) batch) (\<lambda>_.
     if batch \<noteq> [] then areturn (s\<lparr>sca_cursor := uuid_str (pro_id (last batch))\<rparr>)
     else abind (aget ss_con) (\<lambda>con1. abind (anow en) (\<lambda>now.
       abind (atrans (advance_stripe_coverage now con1 (sca_from s) (sca_through s))) (\<lambda>_.
       abind (atrans (reconcile_later now con1 (uuid_str (sca_id s)))) (\<lambda>_.
       areturn (s\<lparr>sca_status := ''complete''\<rparr>)))))))))"

definition save_scan :: "scan \<Rightarrow> stripe_state \<Rightarrow> stripe_state" where
  "save_scan s st = st\<lparr>ss_db := (ss_db st)\<lparr>db_scans := save_row sca_id s (db_scans (ss_db st))\<rparr>\<rparr>"

definition finish_scan_page :: "stripe_env \<Rightarrow> scan \<Rightarrow> unit act" where
  "finish_scan_page en s0 =
     (let s1 = s0\<lparr>sca_pages := sca_pages s0 + 1\<rparr> in
      abind (aguard (sca_pages s1 \<le> 10000) (ConnectorFailure ''STRIPE_SCAN_LIMIT_EXCEEDED'' False 0)) (\<lambda>_.
      abind (anow en) (\<lambda>now.
      let s = s1\<lparr>sca_updated := now\<rparr> in
      abind (amodify (save_scan s)) (\<lambda>_.
      if sca_status s = ''pending'' then
        abind (aget ss_con) (\<lambda>con. abind (atrans (enqueue now (ins_org con) ''stripe_scan_page'' (sca_id s)
          (''scan:'' @ uuid_str (sca_id s) @ '':'' @ show_int (sca_pages s)))) (\<lambda>_. areturn ()))
      else areturn ()))))"

definition scan_page :: "stripe_env \<Rightarrow> uuid \<Rightarrow> unit act" where
  "scan_page en scan_id =
     abind (aget (\<lambda>st. get_row ''Scan'' (\<lambda>s. sca_id s = scan_id) (db_scans (ss_db st)))) (\<lambda>found.
     abind (alift found) (\<lambda>s.
     if sca_status s \<noteq> ''pending'' then areturn ()
     else abind (load_connector (\<lambda>i. ins_id i = sca_connector s \<and> ins_status i = ''active'')) (\<lambda>_.
       abind (access_token en) (\<lambda>token.
       abind (if sca_phase s < length PHASES then scan_list en token s else scan_orders en token s)
         (finish_scan_page en)))))"

end
