(* ===== verification/Reporting.thy ===== *)
theory Reporting imports Findings begin

text \<open>
  \<open>modules/reporting\<close>: the rows of a report, its CSV and HTML forms, the generation of a requested
  report and its download. Texts have code points below 256 and are written as UTF-8 bytes; the dash
  that stands for an unknown amount is written as its bytes. The library that lays a PDF document out
  and the object store are parameters; the document that the library is given is modelled.
\<close>

section \<open>Playbooks\<close>

definition PLAYBOOKS :: "(string \<times> string \<times> string) list" where
  "PLAYBOOKS =
     [(''PI-001'',
       ''Stripe payment succeeded; Woo order remains unpaid'',
       ''Check the exact payment and Woo transaction IDs. Inspect gateway and Action Scheduler failures. Search for a second order before correcting fulfilment in the source system.''),
      (''PI-002'',
       ''Stripe payment has no confirmed Woo order'',
       ''Search Woo admin for the PaymentIntent and Charge IDs. Confirm store attribution, archive/trash filters and gateway logs. Do not create an order or refund until duplicate fulfilment has been ruled out.''),
      (''PI-003'',
       ''Woo order is paid without a succeeded Stripe attempt'',
       ''Check all attempts and manual-capture state in Stripe. Confirm that another gateway or an offline payment was not used. Review fulfilment before taking action in Woo.''),
      (''PI-004'',
       ''Multiple successful payments match one order'',
       ''Verify each distinct PaymentIntent. Charges belonging to the same PaymentIntent are one attempt. Check authorised split payments and prior refunds before deciding on remediation.''),
      (''PI-005'',
       ''Payment amount or currency differs from the order'',
       ''Compare the original transaction currency, captured amount and Woo total. Review partial captures, currency conversion extensions and manually edited totals.''),
      (''PI-006'',
       ''Stripe refund is missing from Woo'',
       ''Confirm that the Stripe refund succeeded. Inspect Woo refund records and job failures. Avoid issuing a second refund while synchronising the records.''),
      (''PI-007'',
       ''Woo refund has no succeeded Stripe refund'',
       ''Woo can show a manual refund without money movement. Review refund IDs, status and the operator history in each source before issuing any new refund.''),
      (''PI-008'',
       ''Refund totals or currencies disagree'',
       ''Compare all succeeded Stripe refunds with Woo refund records. Exclude pending and failed Stripe refunds. Verify partial refunds individually.''),
      (''PI-009'',
       ''Connector coverage is stale or incomplete'',
       ''Check connector authorization, plugin job failures, clock drift and scan progress. Restore contiguous coverage before interpreting payment mismatches.''),
      (''PI-010'',
       ''Exact identifiers conflict or cannot be verified'',
       ''Check the linked Stripe account and live/test mode. Compare the Woo transaction, PaymentIntent, Charge and Session IDs. Correct the explicit link; do not guess another account.'')]"

section \<open>Text\<close>

text \<open>\<open>str(value)\<close> of the values of a row.\<close>

definition py_str :: "json \<Rightarrow> string" where
  "py_str v = (case v of JNull \<Rightarrow> ''None'' | JBool b \<Rightarrow> (if b then ''True'' else ''False'') | JInt i \<Rightarrow> show_int i
     | JFloat r \<Rightarrow> r | JStr s \<Rightarrow> s | JList xs \<Rightarrow> dumps_raw v | JObj kvs \<Rightarrow> dumps_raw v)"

definition utf8_char :: "char \<Rightarrow> string" where
  "utf8_char c =
     (let n = (of_char c :: nat) in
      if n < 128 then [c] else [char_of (192 + n div 64), char_of (128 + n mod 64)])"

definition utf8 :: "string \<Rightarrow> string" where "utf8 s = concat (map utf8_char s)"

definition TAB :: char where "TAB = CHR 0x09"
definition LF :: char where "LF = CHR 0x0A"
definition CR :: char where "CR = CHR 0x0D"
definition APOSTROPHE :: char where "APOSTROPHE = CHR 0x27"
definition QUOTE :: char where "QUOTE = CHR 0x22"

section \<open>CSV\<close>

definition formula_char :: "char \<Rightarrow> bool" where
  "formula_char c \<longleftrightarrow> c \<in> set ''=+-@''"

definition risky :: "string \<Rightarrow> bool" where
  "risky text \<longleftrightarrow>
     (case lstrip text of [] \<Rightarrow> False | c # s \<Rightarrow> formula_char c) \<or>
     (case text of [] \<Rightarrow> False | c # s \<Rightarrow> c = TAB \<or> c = CR \<or> c = LF)"

definition safe_cell :: "json \<Rightarrow> string" where
  "safe_cell v = (let text = (if v = JNull then [] else py_str v) in if risky text then APOSTROPHE # text else text)"

text \<open>\<open>csv.writer\<close> with minimal quoting: a field with a comma, a quote or a line end is quoted.\<close>

definition needs_quotes :: "string \<Rightarrow> bool" where
  "needs_quotes s \<longleftrightarrow> (\<exists>c \<in> set s. c = CHR '','' \<or> c = QUOTE \<or> c = CR \<or> c = LF)"

definition csv_field :: "string \<Rightarrow> string" where
  "csv_field s = (if needs_quotes s
     then QUOTE # concat (map (\<lambda>c. if c = QUOTE then [QUOTE, QUOTE] else [c]) s) @ [QUOTE] else s)"

definition csv_line :: "string list \<Rightarrow> string" where
  "csv_line cells = join '','' (map csv_field cells) @ [CR, LF]"

definition COLUMNS :: "string list" where
  "COLUMNS = [''finding_key'', ''rule'', ''severity'', ''state'', ''store'', ''mode'', ''amount_minor'', ''currency'',
     ''exponent'', ''confidence'', ''first_seen'', ''last_seen'', ''identities'', ''next_step'']"

definition report_cells :: "dict \<Rightarrow> string list" where
  "report_cells row = map (\<lambda>k. safe_cell (dict_get_or row k (JStr []))) COLUMNS"

definition BOM :: string where "BOM = [CHR 0xEF, CHR 0xBB, CHR 0xBF]"

definition csv_report :: "dict list \<Rightarrow> string" where
  "csv_report rows = BOM @ utf8 (concat (map csv_line (COLUMNS # map report_cells rows)))"

section \<open>HTML\<close>

definition html_char :: "char \<Rightarrow> string" where
  "html_char c =
     (if c = CHR ''&'' then ''&amp;'' else if c = CHR ''<'' then ''&lt;'' else if c = CHR ''>'' then ''&gt;''
      else if c = QUOTE then ''&quot;'' else if c = APOSTROPHE then ''&#x27;'' else [c])"

definition html_escape :: "string \<Rightarrow> string" where "html_escape s = concat (map html_char s)"

definition DASH :: string where "DASH = [CHR 0xE2, CHR 0x80, CHR 0x94]"

text \<open>The fields of a section, as UTF-8: escaping changes ASCII characters only, so it may follow.\<close>

definition risk_text :: "dict \<Rightarrow> string result" where
  "risk_text row =
     (if dict_get_or row ''amount_minor'' JNull = JNull then Inr DASH
      else rbind (int_at row ''amount_minor'') (\<lambda>n. rbind (str_at row ''currency'') (\<lambda>c. rbind (int_at row ''exponent'') (\<lambda>e.
        rbind (mk_money n c e) (\<lambda>m. Inr (utf8 (c @ '' '' @ decimal m)))))))"

definition shown :: "dict \<Rightarrow> string \<Rightarrow> string" where
  "shown row k = py_str (dict_get_or row k (JStr []))"

definition display_fields :: "dict \<Rightarrow> (string \<times> string) list result" where
  "display_fields row =
     rbind (risk_text row) (\<lambda>risk.
     Inr [(''State'', utf8 (title_case (shown row ''state''))), (''Severity'', utf8 (title_case (shown row ''severity''))),
       (''Store'', utf8 (shown row ''store'')), (''Mode'', utf8 (title_case (shown row ''mode''))),
       (''Amount at risk'', risk), (''Source identities'', utf8 (shown row ''identities'')),
       (''Match confidence'', utf8 (shown row ''confidence'' @ '' / 100'')),
       (''First observed (UTC)'', utf8 (shown row ''first_seen'')), (''Last observed (UTC)'', utf8 (shown row ''last_seen''))])"

definition html_details :: "(string \<times> string) list \<Rightarrow> string" where
  "html_details kvs = concat (map (\<lambda>(k, v). ''<dt>'' @ html_escape k @ ''</dt><dd>'' @ html_escape v @ ''</dd>'') kvs)"

definition html_section :: "dict \<Rightarrow> string result" where
  "html_section row =
     rbind (str_at row ''rule'') (\<lambda>rule.
     case map_of PLAYBOOKS rule of
       None \<Rightarrow> Inl (KeyError rule)
     | Some (label, step) \<Rightarrow> rbind (display_fields row) (\<lambda>kvs.
         Inr (''<section><h2>'' @ utf8 rule @ '': '' @ html_escape label @ ''</h2><dl>'' @ html_details kvs @
           ''</dl><h3>Diagnostic steps</h3><p>'' @ html_escape step @ ''</p></section>'')))"

definition html_quoted :: "string \<Rightarrow> string \<Rightarrow> string" where
  "html_quoted name v = name @ ''='' @ [QUOTE] @ v @ [QUOTE]"

definition html_head :: "string \<Rightarrow> string" where
  "html_head title =
     ''<!doctype html><html '' @ html_quoted ''lang'' ''en'' @ ''><meta '' @ html_quoted ''charset'' ''utf-8'' @
     ''><meta '' @ html_quoted ''name'' ''viewport'' @ '' '' @ html_quoted ''content'' ''width=device-width'' @
     ''><meta '' @ html_quoted ''http-equiv'' ''Content-Security-Policy'' @ '' '' @
     html_quoted ''content'' (''default-src '' @ [APOSTROPHE] @ ''none'' @ [APOSTROPHE] @ ''; style-src '' @ [APOSTROPHE] @
       ''unsafe-inline'' @ [APOSTROPHE]) @
     ''><title>'' @ html_escape title @
     ''</title><style>body{font:16px/1.5 system-ui;max-width:900px;margin:40px auto;padding:0 24px;color:#142431}section{border-top:1px solid #bbc6cc;padding:20px 0;break-inside:avoid}dt{font-weight:600}dd{margin:0 0 8px;overflow-wrap:anywhere}h1{font-size:32px}@media print{body{margin:0}}</style><body><h1>'' @
     html_escape title @
     ''</h1><p>Read-only reconciliation. Financial actions require verification in the source systems.</p>''"

definition html_report :: "string \<Rightarrow> dict list \<Rightarrow> string result" where
  "html_report title rows =
     rbind (map_res html_section rows) (\<lambda>sections.
     let content = (if concat sections = []
       then ''<p>No eligible mismatch was found in the supplied coverage window.</p>'' else concat sections) in
     Inr (html_head title @ content @ ''</body></html>''))"

definition REPORT_TITLE :: string where "REPORT_TITLE = ''Payment integrity report''"

section \<open>PDF\<close>

text \<open>
  The document given to the layout library: paragraphs with the name of their style, gaps, and tables
  of two columns, under the fonts of the report.
\<close>

datatype flowable =
    Paragraph string string
  | Spacer int int
  | Table "(flowable \<times> flowable) list" "int list"

record pdf_document =
  pd_title :: string
  pd_author :: string
  pd_margins :: "int list"
  pd_fonts :: "(string \<times> string) list"
  pd_style_font :: "string \<Rightarrow> string"
  pd_table_style :: "(string \<times> (int \<times> int) \<times> (int \<times> int) \<times> string) list"
  pd_story :: "flowable list"

definition REPORT_FONTS :: "(string \<times> string) list" where
  "REPORT_FONTS = [(''LedgerGuard'', ''DejaVuSans.ttf''), (''LedgerGuard-Bold'', ''DejaVuSans-Bold.ttf'')]"

text \<open>The font that replaces the one of a style, by whether its name says that it is bold.\<close>

definition style_font :: "string \<Rightarrow> string" where
  "style_font font = (if has_part ''Bold'' font then ''LedgerGuard-Bold'' else ''LedgerGuard'')"

definition TABLE_STYLE :: "(string \<times> (int \<times> int) \<times> (int \<times> int) \<times> string) list" where
  "TABLE_STYLE = [(''VALIGN'', (0, 0), (- 1, - 1), ''TOP''), (''BACKGROUND'', (0, 0), (0, - 1), ''#eef2f4''),
     (''BOTTOMPADDING'', (0, 0), (- 1, - 1), ''6''), (''TOPPADDING'', (0, 0), (- 1, - 1), ''6'')]"

definition pdf_cells :: "(string \<times> string) list \<Rightarrow> (flowable \<times> flowable) list" where
  "pdf_cells kvs = map (\<lambda>(k, v). (Paragraph k ''BodyText'', Paragraph (html_escape v) ''BodyText'')) kvs"

definition pdf_section :: "dict \<Rightarrow> flowable list result" where
  "pdf_section row =
     rbind (str_at row ''rule'') (\<lambda>rule.
     case map_of PLAYBOOKS rule of
       None \<Rightarrow> Inl (KeyError rule)
     | Some (label, step) \<Rightarrow> rbind (display_fields row) (\<lambda>kvs.
         Inr [Paragraph (html_escape (utf8 rule @ '' | '' @ label)) ''Heading2'', Table (pdf_cells kvs) [110, 400 - 12],
           Spacer 1 8, Paragraph (html_escape step) ''BodyText'', Spacer 1 16]))"

definition pdf_story :: "string \<Rightarrow> dict list \<Rightarrow> flowable list result" where
  "pdf_story title rows =
     rbind (map_res pdf_section rows) (\<lambda>sections.
     Inr ([Paragraph (html_escape title) ''Title'', Spacer 1 14,
         Paragraph ''Read-only reconciliation. Verify source evidence before taking financial action.'' ''BodyText'',
         Spacer 1 20] @ concat sections @
       (if rows = [] then [Paragraph ''No eligible mismatch was found in the supplied coverage window.'' ''BodyText''] else [])))"

text \<open>The texts at the foot of a page: their font size, position and alignment.\<close>

definition pdf_footer :: "nat \<Rightarrow> (string \<times> int \<times> string) list" where
  "pdf_footer page = [(''left'', 42, ''LedgerGuard | Payment integrity''), (''right'', - 42, show_nat page)]"

definition pdf_report :: "(pdf_document \<Rightarrow> (nat \<Rightarrow> (string \<times> int \<times> string) list) \<Rightarrow> string) \<Rightarrow> string \<Rightarrow> dict list \<Rightarrow> string result" where
  "pdf_report build title rows =
     rbind (pdf_story title rows) (\<lambda>story.
     Inr (build \<lparr>pd_title = title, pd_author = ''LedgerGuard'', pd_margins = [42, 42, 40, 40], pd_fonts = REPORT_FONTS, pd_style_font = style_font,
       pd_table_style = TABLE_STYLE, pd_story = story\<rparr> pdf_footer))"

section \<open>Generation\<close>

definition opt_int_json :: "int option \<Rightarrow> json" where
  "opt_int_json v = (case v of None \<Rightarrow> JNull | Some i \<Rightarrow> JInt i)"

definition finding_row :: "db \<Rightarrow> finding \<Rightarrow> dict result" where
  "finding_row d f =
     rbind (get_row ''Store'' (\<lambda>s. sto_id s = fin_store f) (db_stores d)) (\<lambda>s.
     case map_of PLAYBOOKS (fin_rule f) of
       None \<Rightarrow> Inl (KeyError (fin_rule f))
     | Some (label, step) \<Rightarrow> Inr
         [(''id'', JStr (uuid_str (fin_id f))), (''finding_key'', JStr (fin_key f)), (''rule'', JStr (fin_rule f)),
          (''severity'', JStr (fin_severity f)), (''state'', JStr (fin_state f)), (''store'', JStr (sto_name s)),
          (''mode'', JStr (fin_mode f)), (''amount_minor'', opt_int_json (fin_risk f)),
          (''currency'', JStr (fin_currency f)), (''exponent'', JInt (fin_exponent f)),
          (''confidence'', JInt (fin_confidence f)), (''first_seen'', JStr (isoformat (fin_first_seen f))),
          (''last_seen'', JStr (isoformat (fin_last_seen f))), (''identities'', JStr (join ''; '' (fin_identities f))),
          (''next_step'', JStr step)])"

record report_env =
  re_hash :: digest
  re_pdf :: "pdf_document \<Rightarrow> (nat \<Rightarrow> (string \<times> int \<times> string) list) \<Rightarrow> string"
  re_bucket :: string
  re_production :: bool
  re_put :: "string \<Rightarrow> string \<Rightarrow> unit result"

definition render :: "report_env \<Rightarrow> string \<Rightarrow> dict list \<Rightarrow> string result" where
  "render re format rows =
     (if format = ''csv'' then Inr (csv_report rows)
      else if format = ''html'' then html_report REPORT_TITLE rows
      else if format = ''pdf'' then pdf_report (re_pdf re) REPORT_TITLE rows
      else Inl (KeyError format))"

definition report_key :: "report \<Rightarrow> string" where
  "report_key r = ''reports/'' @ uuid_str (rep_org r) @ ''/'' @ uuid_str (rep_id r) @ ''.'' @ rep_format r"

definition report_findings :: "report \<Rightarrow> db \<Rightarrow> finding list" where
  "report_findings r d = sort_key fin_first_seen
     (filter (\<lambda>f. case rep_store r of None \<Rightarrow> True | Some s \<Rightarrow> fin_store f = s) (db_findings d))"

text \<open>The bytes that were stored under the report's key, when it was not complete already.\<close>

definition generate :: "report_env \<Rightarrow> uuid \<Rightarrow> string option trans" where
  "generate re report_id d =
     rbind (get_row ''Report'' (\<lambda>r. rep_id r = report_id) (db_reports d)) (\<lambda>r.
     if rep_status r = ''complete'' then Inr (None, d)
     else rbind (guard (length (report_findings r d) \<le> 10000) (Problem ''REPORT_LIMIT_EXCEEDED'' 422)) (\<lambda>_.
       rbind (map_res (finding_row d) (report_findings r d)) (\<lambda>rows.
       rbind (render re (rep_format r) rows) (\<lambda>content.
       rbind (if re_bucket re \<noteq> [] then re_put re (report_key r) content
         else guard (\<not> re_production re) (Problem ''REPORT_STORAGE_UNAVAILABLE'' 503)) (\<lambda>_.
       Inr (Some content, d\<lparr>db_reports := save_row rep_id (r\<lparr>rep_object := report_key r, rep_status := ''complete'',
         rep_sha256 := re_hash re content\<rparr>) (db_reports d)\<rparr>))))))"

text \<open>Where a report is read: a link the object store signs for a minute, or the local file.\<close>

datatype download_source = Presigned string string | LocalFile string string

definition download :: "report_env \<Rightarrow> datetime \<Rightarrow> report \<Rightarrow> download_source result" where
  "download re now r =
     rbind (guard (rep_status r = ''complete'' \<and> now < rep_expires r) (Problem ''REPORT_UNAVAILABLE'' 404)) (\<lambda>_.
     Inr (if re_bucket re \<noteq> [] then Presigned (rep_object r) (''ledgerguard-'' @ uuid_str (rep_id r) @ ''.'' @ rep_format r)
       else LocalFile (rep_object r) (rep_format r)))"

end
