(* ===== verification/Worker.thy ===== *)
theory Worker imports Notifications Stripe_Sync Reporting begin

text \<open>
  \<open>workers/runtime.py\<close>: the periodic schedule, the dispatch of outbox rows to queues, and the worker
  that performs the work a message refers to. The work and the mark \<open>done\<close> commit together; a failure
  is recorded in a transaction of its own, with a delay before the next attempt. The clock is read
  once per message (the provider's operations read their own), the random delay is an argument.
\<close>

record worker_env =
  we_now :: datetime
  we_hash :: digest
  we_valid :: "string \<Rightarrow> json \<Rightarrow> bool"
  we_stripe :: stripe_env
  we_mail :: mail_settings
  we_send :: "dict \<Rightarrow> string result"
  we_report :: report_env
  we_jitter :: int

section \<open>Performing a task\<close>

definition no_connector :: installation where
  "no_connector = new_stripe 0 0 [] [] 0 0"

definition run_act :: "installation \<Rightarrow> 'a act \<Rightarrow> 'a trans" where
  "run_act con m d =
     (case m \<lparr>ss_db = d, ss_con = con, ss_ticks = 0, ss_calls = []\<rparr> of
        (Inl e, st) \<Rightarrow> Inl e | (Inr x, st) \<Rightarrow> Inr (x, ss_db st))"

definition ignore :: "'a trans \<Rightarrow> unit trans" where
  "ignore t = tbind t (\<lambda>_. treturn ())"

definition handle :: "worker_env \<Rightarrow> outbox \<Rightarrow> unit trans" where
  "handle we row =
     (let task = out_task row; i = out_resource row in
      if task = ''stripe_receipt'' then run_act no_connector (process_receipt (we_stripe we) i)
      else if task \<in> {''stripe_poll'', ''stripe_repair''} then poll (we_now we) i (task = ''stripe_repair'')
      else if task = ''stripe_scan_page'' then run_act no_connector (scan_page (we_stripe we) i)
      else if task = ''reconcile_store'' then ignore (reconcile (we_hash we) (we_now we) i)
      else if task = ''notify'' then prepare (we_now we) i
      else if task = ''security_notify'' then security (we_now we) i
      else if task = ''deliver_email'' then ignore (deliver (we_mail we) (we_send we) (we_now we) i)
      else if task = ''notify_digest'' then send_digest (we_hash we) (we_now we) (out_org row) (out_key row)
      else if task = ''report'' then ignore (generate (we_report we) i)
      else if task \<in> {''delete_tenant'', ''retention''} then traise (ProblemMaintenance ''A maintenance worker is required'')
      else traise (ValueError ''Unknown task type''))"

section \<open>Messages\<close>

definition message :: "string \<Rightarrow> outbox \<Rightarrow> dict" where
  "message trace row =
     [(''schema_version'', JInt 1), (''message_id'', JStr (uuid_str (out_id row))), (''task_type'', JStr (out_task row)),
      (''organization_id'', JStr (uuid_str (out_org row))), (''resource_id'', JStr (uuid_str (out_resource row))),
      (''attempt_context'', JInt (out_attempts row)), (''traceparent'', JStr trace)]"

definition queue_kind :: "string \<Rightarrow> string" where
  "queue_kind task =
     (if task \<in> {''notify'', ''security_notify'', ''deliver_email'', ''notify_digest''} then ''notification''
      else if task = ''reconcile_store'' then ''reconciliation''
      else if task = ''report'' then ''reporting''
      else if task \<in> {''stripe_poll'', ''stripe_repair'', ''stripe_scan_page''} then ''repair''
      else ''ingestion'')"

definition queue_for :: "(string \<times> string) list \<Rightarrow> string \<Rightarrow> string \<Rightarrow> string" where
  "queue_for urls fallback task = (case map_of urls (queue_kind task) of Some u \<Rightarrow> u | None \<Rightarrow> fallback)"

section \<open>One attempt\<close>

definition organization_active :: "uuid \<Rightarrow> db \<Rightarrow> bool" where
  "organization_active org d \<longleftrightarrow> (\<exists>x \<in> set (db_orgs d). org_id x = org \<and> org_active x)"

definition deletion_audit :: "uuid \<Rightarrow> db \<Rightarrow> bool" where
  "deletion_audit i d \<longleftrightarrow> (\<exists>a \<in> set (db_audit d). aud_id a = i \<and> aud_action a = ''organization.deletion_requested'')"

text \<open>The notices of a deletion are still sent for an organization that is no longer active.\<close>

definition deletion_work :: "outbox \<Rightarrow> db \<Rightarrow> bool" where
  "deletion_work row d \<longleftrightarrow>
     (out_task row = ''security_notify'' \<and> deletion_audit (out_resource row) d) \<or>
     (out_task row = ''deliver_email'' \<and> (\<exists>x \<in> set (db_deliveries d). del_id x = out_resource row \<and>
        (case del_security x of Some a \<Rightarrow> deletion_audit a d | None \<Rightarrow> False)))"

definition receipt_connector :: "outbox \<Rightarrow> db \<Rightarrow> uuid option" where
  "receipt_connector row d = map_option rec_connector (find (\<lambda>r. rec_id r = out_resource row \<and>
     rec_status r \<notin> {''normalized'', ''ignored''}) (db_receipts d))"

definition scan_connector :: "outbox \<Rightarrow> db \<Rightarrow> uuid option" where
  "scan_connector row d = map_option sca_connector (find (\<lambda>s. sca_id s = out_resource row \<and>
     sca_status s = ''pending'') (db_scans d))"

definition credential_connector :: "outbox \<Rightarrow> db \<Rightarrow> installation option result" where
  "credential_connector row d =
     (case (if out_task row = ''stripe_receipt'' then receipt_connector row d
         else if out_task row = ''stripe_scan_page'' then scan_connector row d else None) of
        None \<Rightarrow> Inr None
      | Some c \<Rightarrow> rbind (get_row ''Installation'' (\<lambda>i. ins_id i = c \<and> ins_kind i = ''stripe'' \<and> ins_status i = ''active'')
          (db_installations d)) (\<lambda>i. Inr (Some i)))"

definition save_outbox :: "outbox \<Rightarrow> db \<Rightarrow> db" where
  "save_outbox r d = d\<lparr>db_outbox := save_row out_id r (db_outbox d)\<rparr>"

text \<open>The rotation of the credential, before the work; what is not the provider's failure is uncertain.\<close>

definition refresh_first :: "worker_env \<Rightarrow> installation option \<Rightarrow> db \<Rightarrow> db result" where
  "refresh_first we con d =
     (case con of
        None \<Rightarrow> Inr d
      | Some c \<Rightarrow>
          (case run_act c (refresh_access_token (we_stripe we)) d of
             Inr (token, d1) \<Rightarrow> Inr d1
           | Inl (ConnectorFailure code' permanent retry) \<Rightarrow> Inl (ConnectorFailure code' permanent retry)
           | Inl e \<Rightarrow> Inl (ConnectorFailure ''OAUTH_PERSISTENCE_UNCERTAIN'' True 0)))"

definition suspend :: "uuid \<Rightarrow> string \<Rightarrow> db \<Rightarrow> db" where
  "suspend con error d = d\<lparr>db_installations := update_where (\<lambda>i. ins_id i = con)
     (\<lambda>i. i\<lparr>ins_status := ''suspended'', ins_error := error, ins_credential := JObj []\<rparr>) (db_installations d)\<rparr>"

definition complete_row :: "outbox \<Rightarrow> outbox" where
  "complete_row row = row\<lparr>out_status := ''done'', out_lease := None, out_error := []\<rparr>"

text \<open>The tables that are committed, and the failure of the work if there was one.\<close>

definition suspend_if_permanent :: "installation option \<Rightarrow> exn \<Rightarrow> db \<Rightarrow> db" where
  "suspend_if_permanent con e d =
     (case (con, e) of (Some c, ConnectorFailure error True retry) \<Rightarrow> suspend (ins_id c) error d | _ \<Rightarrow> d)"

definition work :: "worker_env \<Rightarrow> outbox \<Rightarrow> installation option \<Rightarrow> db \<Rightarrow> exn option \<times> db" where
  "work we row con d =
     (case refresh_first we con d of
        Inl e \<Rightarrow> (Some e, suspend_if_permanent con e d)
      | Inr d1 \<Rightarrow>
          (case handle we row d1 of
             Inl e \<Rightarrow> (Some e, suspend_if_permanent con e d1)
           | Inr (u, d2) \<Rightarrow> (None, save_outbox (complete_row row) d2)))"

datatype attempt_outcome = Settled bool | Performed | Failure exn

definition attempt :: "worker_env \<Rightarrow> dict \<Rightarrow> uuid \<Rightarrow> uuid \<Rightarrow> attempt_outcome trans" where
  "attempt we value org row_id d =
     (case row_by out_id row_id (db_outbox d) of
        None \<Rightarrow> Inl (ValueError ''Unknown work reference'')
      | Some row \<Rightarrow>
          rbind (dict_at value ''task_type'') (\<lambda>task. rbind (dict_at value ''resource_id'') (\<lambda>resource.
          if JStr (out_task row) \<noteq> task \<or> JStr (uuid_str (out_resource row)) \<noteq> resource
          then Inl (InvalidMessage ''Work reference mismatch'')
          else if out_status row = ''done'' then Inr (Settled True, d)
          else if out_status row = ''dead'' then Inr (Settled False, d)
          else if we_now we < out_available row then Inr (Settled False, d)
          else if \<not> organization_active org d \<and> \<not> deletion_work row d
          then Inr (Settled True, save_outbox (row\<lparr>out_status := ''done''\<rparr>) d)
          else rbind (credential_connector row d) (\<lambda>con.
            case work we row con d of
              (None, d1) \<Rightarrow> Inr (Performed, d1) | (Some e, d1) \<Rightarrow> Inr (Failure e, d1)))))"

section \<open>Recording a failure\<close>

definition exn_name :: "exn \<Rightarrow> string" where
  "exn_name e =
     (case e of ValueError m \<Rightarrow> ''ValueError'' | KeyError m \<Rightarrow> ''KeyError'' | TypeError m \<Rightarrow> ''TypeError''
      | DoesNotExist m \<Rightarrow> ''DoesNotExist'' | RuntimeError m \<Rightarrow> ''RuntimeError'' | PermissionError m \<Rightarrow> ''PermissionError''
      | InvalidMessage m \<Rightarrow> ''InvalidMessage'' | ProblemMaintenance m \<Rightarrow> ''ProblemMaintenance''
      | Problem c s \<Rightarrow> ''Problem'' | ConnectorFailure c p r \<Rightarrow> c | ValidationError \<Rightarrow> ''ValidationError''
      | Http404 \<Rightarrow> ''Http404'' | OtherError c \<Rightarrow> c)"

definition is_permanent :: "exn \<Rightarrow> bool" where
  "is_permanent e = (case e of ConnectorFailure c p r \<Rightarrow> p | _ \<Rightarrow> False)"

definition retry_of :: "exn \<Rightarrow> int" where
  "retry_of e = (case e of ConnectorFailure c p r \<Rightarrow> r | _ \<Rightarrow> 0)"

definition retry_delay :: "int \<Rightarrow> int \<Rightarrow> exn \<Rightarrow> int" where
  "retry_delay attempts jitter e =
     (let delay = min 900 (2 ^ nat attempts) + jitter in
      case e of ConnectorFailure c p r \<Rightarrow> max delay r | _ \<Rightarrow> delay)"

definition failed_row :: "datetime \<Rightarrow> int \<Rightarrow> exn \<Rightarrow> outbox \<Rightarrow> outbox" where
  "failed_row now jitter e row =
     (let attempts = out_attempts row + 1 in
      row\<lparr>out_attempts := attempts, out_error := take 64 (exn_name e),
        out_status := (if is_permanent e \<or> 8 \<le> attempts then ''dead'' else ''pending''),
        out_available := now + seconds (retry_delay attempts jitter e), out_lease := None\<rparr>)"

definition failed_connector :: "outbox \<Rightarrow> db \<Rightarrow> uuid option" where
  "failed_connector row d =
     (if out_task row \<in> {''stripe_poll'', ''stripe_repair''} then Some (out_resource row)
      else if out_task row = ''stripe_receipt'' then map_option rec_connector (row_by rec_id (out_resource row) (db_receipts d))
      else if out_task row = ''stripe_scan_page'' then map_option sca_connector (row_by sca_id (out_resource row) (db_scans d))
      else None)"

text \<open>What a dead row does to the object of its work.\<close>

definition bury :: "datetime \<Rightarrow> outbox \<Rightarrow> db \<Rightarrow> db" where
  "bury now row d =
     (if out_status row \<noteq> ''dead'' then d
      else if out_task row = ''report'' then d\<lparr>db_reports := update_where
        (\<lambda>r. rep_id r = out_resource row \<and> rep_status r \<noteq> ''complete'') (\<lambda>r. r\<lparr>rep_status := ''failed''\<rparr>) (db_reports d)\<rparr>
      else if out_task row = ''stripe_receipt'' then d\<lparr>db_receipts := update_where
        (\<lambda>r. rec_id r = out_resource row) (\<lambda>r. r\<lparr>rec_status := ''failed''\<rparr>) (db_receipts d)\<rparr>
      else if out_task row = ''stripe_scan_page'' then d\<lparr>db_scans := update_where
        (\<lambda>s. sca_id s = out_resource row \<and> sca_status s = ''pending'')
        (\<lambda>s. s\<lparr>sca_status := ''failed'', sca_updated := now\<rparr>) (db_scans d)\<rparr>
      else d)"

text \<open>A dead row ends the coverage of its connector; a permanent failure suspends the connector and its scans.\<close>

definition lose_coverage :: "uuid \<Rightarrow> db \<Rightarrow> db" where
  "lose_coverage con d = mark_incomplete (\<lambda>c. cur_connector c = con) d"

definition fail_scans :: "datetime \<Rightarrow> uuid \<Rightarrow> db \<Rightarrow> db" where
  "fail_scans now con d = d\<lparr>db_scans := update_where (\<lambda>s. sca_connector s = con \<and> sca_status s = ''pending'')
     (\<lambda>s. s\<lparr>sca_status := ''failed'', sca_updated := now\<rparr>) (db_scans d)\<rparr>"

definition suspend_failed :: "datetime \<Rightarrow> uuid \<Rightarrow> string \<Rightarrow> uuid \<Rightarrow> unit trans" where
  "suspend_failed now org error con d =
     ignore (audit now org ''worker'' ''connector.suspended'' (uuid_str con) [(''error_code'', JStr error)] [])
       (fail_scans now con (suspend con error d))"

definition record_failure :: "worker_env \<Rightarrow> uuid \<Rightarrow> uuid \<Rightarrow> exn \<Rightarrow> unit trans" where
  "record_failure we org row_id e d =
     (case row_by out_id row_id (db_outbox d) of
        None \<Rightarrow> Inl e
      | Some row0 \<Rightarrow>
          (let row = failed_row (we_now we) (we_jitter we) e row0;
               d1 = bury (we_now we) row (save_outbox row d);
               con = failed_connector row d1;
               d2 = (case con of Some c \<Rightarrow> if out_status row = ''dead'' then lose_coverage c d1 else d1 | None \<Rightarrow> d1) in
           case con of
             Some c \<Rightarrow> if is_permanent e then suspend_failed (we_now we) org (exn_name e) c d2 else Inr ((), d2)
           | None \<Rightarrow> Inr ((), d2)))"

text \<open>\<open>_run_message\<close>: whether the message is settled.\<close>

definition settle_failure :: "worker_env \<Rightarrow> uuid \<Rightarrow> uuid \<Rightarrow> exn \<Rightarrow> context_settings \<Rightarrow> world \<Rightarrow> (bool \<times> world) result" where
  "settle_failure we org row_id e old w =
     (case e of
        InvalidMessage m \<Rightarrow> Inr (False, w)
      | _ \<Rightarrow> rbind (tenant_scope org None (\<lambda>_. record_failure we org row_id e) old w) (\<lambda>(u, c, w'). Inr (False, w')))"

definition run_message :: "worker_env \<Rightarrow> dict \<Rightarrow> context_settings \<Rightarrow> world \<Rightarrow> (bool \<times> world) result" where
  "run_message we value old w =
     rbind (validate_schema (we_valid we) (JObj value) ''queue-1.json'') (\<lambda>_.
     rbind (rbind (str_at value ''organization_id'') uuid_of) (\<lambda>org.
     rbind (rbind (str_at value ''message_id'') uuid_of) (\<lambda>row_id.
     case tenant_scope org None (\<lambda>_. attempt we value org row_id) old w of
       Inl e \<Rightarrow> settle_failure we org row_id e old w
     | Inr (Settled b, c, w') \<Rightarrow> Inr (b, w')
     | Inr (Performed, c, w') \<Rightarrow> Inr (True, w')
     | Inr (Failure e, c, w') \<Rightarrow> settle_failure we org row_id e old w')))"

section \<open>The schedule and the dispatch\<close>

definition active_orgs :: "world \<Rightarrow> uuid list" where
  "active_orgs w = map dir_id (filter dir_active (db_directory (wo_shared w)))"

definition scan_bucket :: "datetime \<Rightarrow> int" where "scan_bucket now = unix_seconds now div 300"

definition schedule_org :: "datetime \<Rightarrow> uuid \<Rightarrow> unit trans" where
  "schedule_org now org d =
     (if \<not> organization_active org d then Inr ((), d)
      else tbind (tfor (\<lambda>s. ignore (enqueue now org ''reconcile_store'' (sto_id s)
             (''periodic-reconcile:'' @ uuid_str (sto_id s) @ '':'' @ show_int (scan_bucket now))))
           (filter sto_active (db_stores d)))
         (\<lambda>_. tfor (\<lambda>i. ignore (enqueue now org (if scan_bucket now mod 288 = 0 then ''stripe_repair'' else ''stripe_poll'')
             (ins_id i) (''periodic-stripe:'' @ uuid_str (ins_id i) @ '':'' @ show_int (scan_bucket now))))
           (filter (\<lambda>i. ins_kind i = ''stripe'' \<and> ins_status i = ''active'' \<and>
             dict_get (ins_health i) ''synthetic'' \<noteq> Some (JBool True)) (db_installations d))) d)"

fun each_org :: "(uuid \<Rightarrow> 'a trans) \<Rightarrow> uuid list \<Rightarrow> world \<Rightarrow> ('a list \<times> world) result" where
  "each_org f [] w = Inr ([], w)"
| "each_org f (org # orgs) w =
     rbind (tenant_scope org None (\<lambda>_. f org) \<lparr>ctx_org = [], ctx_user = []\<rparr> w) (\<lambda>(x, c, w1).
     rbind (each_org f orgs w1) (\<lambda>(xs, w2). Inr (x # xs, w2)))"

definition schedule :: "datetime \<Rightarrow> world \<Rightarrow> world result" where
  "schedule now w = rbind (each_org (schedule_org now) (active_orgs w) w) (\<lambda>(xs, w'). Inr w')"

record queue_env =
  qe_urls :: "(string \<times> string) list"
  qe_default :: string
  qe_trace :: "outbox \<Rightarrow> string"
  qe_send :: "string \<Rightarrow> string \<Rightarrow> unit result"

definition dispatchable :: "datetime \<Rightarrow> outbox \<Rightarrow> bool" where
  "dispatchable now r \<longleftrightarrow>
     (out_status r = ''pending'' \<or>
      out_status r = ''queued'' \<and> (case out_lease r of Some t \<Rightarrow> t < now | None \<Rightarrow> False)) \<and> out_available r \<le> now"

definition MAINTENANCE :: "string list" where "MAINTENANCE = [''delete_tenant'', ''retention'']"

definition due_rows :: "datetime \<Rightarrow> db \<Rightarrow> outbox list" where
  "due_rows now d = take 100 (sort_key out_available (filter (dispatchable now) (db_outbox d)))"

definition send_row :: "queue_env \<Rightarrow> datetime \<Rightarrow> outbox \<Rightarrow> unit trans" where
  "send_row qe now r d =
     rbind (qe_send qe (queue_for (qe_urls qe) (qe_default qe) (out_task r)) (dumps_raw (JObj (message (qe_trace qe r) r)))) (\<lambda>_.
     Inr ((), d\<lparr>db_outbox := update_where (\<lambda>x. out_id x = out_id r)
       (\<lambda>x. x\<lparr>out_status := ''queued'', out_lease := Some (now + minutes 20)\<rparr>) (db_outbox d)\<rparr>))"

definition dispatch_org :: "queue_env \<Rightarrow> datetime \<Rightarrow> int trans" where
  "dispatch_org qe now d =
     (let rows = filter (\<lambda>r. out_task r \<notin> set MAINTENANCE) (due_rows now d) in
      tbind (tfor (send_row qe now) rows) (\<lambda>_. treturn (int (length rows))) d)"

definition dispatch :: "queue_env \<Rightarrow> datetime \<Rightarrow> world \<Rightarrow> (int \<times> world) result" where
  "dispatch qe now w =
     (if qe_default qe = [] \<and> qe_urls qe = [] then Inr (0, w)
      else rbind (each_org (\<lambda>org. dispatch_org qe now) (active_orgs w) w) (\<lambda>(ns, w'). Inr (sum_list ns, w')))"

definition local_rows :: "datetime \<Rightarrow> db \<Rightarrow> outbox list" where
  "local_rows now d = take 100 (sort_key out_available (filter (\<lambda>r. out_status r = ''pending'' \<and> out_available r \<le> now \<and>
     out_task r \<notin> set MAINTENANCE) (db_outbox d)))"

fun run_all :: "worker_env \<Rightarrow> dict list \<Rightarrow> world \<Rightarrow> (int \<times> world) result" where
  "run_all we [] w = Inr (0, w)"
| "run_all we (v # vs) w =
     rbind (run_message we v \<lparr>ctx_org = [], ctx_user = []\<rparr> w) (\<lambda>(b, w1).
     rbind (run_all we vs w1) (\<lambda>(n, w2). Inr (n + 1, w2)))"

fun local_orgs :: "worker_env \<Rightarrow> (outbox \<Rightarrow> string) \<Rightarrow> uuid list \<Rightarrow> world \<Rightarrow> (int \<times> world) result" where
  "local_orgs we trace [] w = Inr (0, w)"
| "local_orgs we trace (org # orgs) w =
     rbind (run_all we (map (\<lambda>r. message (trace r) r) (local_rows (we_now we) (enter org w))) w) (\<lambda>(n, w1).
     rbind (local_orgs we trace orgs w1) (\<lambda>(m, w2). Inr (n + m, w2)))"

definition local_once :: "worker_env \<Rightarrow> (outbox \<Rightarrow> string) \<Rightarrow> world \<Rightarrow> (int \<times> world) result" where
  "local_once we trace w = local_orgs we trace (active_orgs w) w"

section \<open>Feedback messages\<close>

text \<open>One entry of the feedback queue: whether it is deleted from the queue; malformed entries stay.\<close>

fun poison :: "exn \<Rightarrow> bool" where
  "poison (ValueError m) = True"
| "poison (KeyError m) = True"
| "poison (TypeError m) = True"
| "poison (DoesNotExist m) = True"
| "poison e = False"

definition consume_entry :: "datetime \<Rightarrow> string \<Rightarrow> context_settings \<Rightarrow> world \<Rightarrow> (bool \<times> world) result" where
  "consume_entry now body old w =
     (case rbind (loads body) (\<lambda>v. feedback now v old w) of
        Inr (u, c, w') \<Rightarrow> Inr (True, w')
      | Inl e \<Rightarrow> if poison e then Inr (False, w) else Inl e)"

end
