(* ===== verification/Plugin_Views.thy ===== *)
theory Plugin_Views imports Stripe_Sync begin

text \<open>
  \<open>modules/connectors/views.py\<close>: the endpoints of machines. A WooCommerce plugin claims a pairing code
  and then sends signed batches, heartbeats and key rotations; Stripe delivers signed webhooks. Each
  request runs in the scope of the organization its route names, so an error undoes all of it. The
  schema validator, SHA-256, Ed25519, HMAC and the cipher are parameters of the environment.
\<close>

record machine_env =
  me_now :: datetime
  me_hash :: digest
  me_valid :: "string \<Rightarrow> json \<Rightarrow> bool"
  me_ed :: "string \<Rightarrow> string \<Rightarrow> string \<Rightarrow> bool"
  me_mac :: "string \<Rightarrow> string \<Rightarrow> string"
  me_crypto :: crypto_settings
  me_cipher :: cipher

definition json_response :: "int \<Rightarrow> dict \<Rightarrow> response" where
  "json_response status body = \<lparr>rs_status = status, rs_content_type = ''application/json'', rs_headers = [], rs_body = JObj body\<rparr>"

section \<open>Errors\<close>

definition envelope_error :: "string \<Rightarrow> exn \<Rightarrow> response result" where
  "envelope_error correlation e =
     (case e of
        Problem code status \<Rightarrow> Inr (problem_response correlation code status (detail_of code))
      | ConnectorFailure code p r \<Rightarrow> Inr (problem_response correlation code 503 DEFAULT_DETAIL)
      | ValueError m \<Rightarrow> Inr (problem_response correlation ''INVALID_ENVELOPE'' 422 DEFAULT_DETAIL)
      | KeyError m \<Rightarrow> Inr (problem_response correlation ''INVALID_ENVELOPE'' 422 DEFAULT_DETAIL)
      | TypeError m \<Rightarrow> Inr (problem_response correlation ''INVALID_ENVELOPE'' 422 DEFAULT_DETAIL)
      | _ \<Rightarrow> Inl e)"

type_synonym endpoint = "request \<Rightarrow> world \<Rightarrow> (response \<times> world) result"

definition machine_errors :: "string \<Rightarrow> endpoint \<Rightarrow> endpoint" where
  "machine_errors correlation view rq w =
     (case view rq w of Inr r \<Rightarrow> Inr r | Inl e \<Rightarrow> rbind (envelope_error correlation e) (\<lambda>r. Inr (r, w)))"

text \<open>\<open>with tenant_scope(org)\<close> at the top of a request, where no context is set.\<close>

definition no_context :: context_settings where "no_context = \<lparr>ctx_org = [], ctx_user = []\<rparr>"

definition scoped :: "uuid \<Rightarrow> response trans \<Rightarrow> world \<Rightarrow> (response \<times> world) result" where
  "scoped org body w = rbind (tenant_scope org None (\<lambda>_. body) no_context w) (\<lambda>(r, _, w'). Inr (r, w'))"

definition check_active :: "installation \<Rightarrow> db \<Rightarrow> unit result" where
  "check_active con d = guard (ins_status con = ''active'' \<and>
     (\<exists>x \<in> set (db_orgs d). org_id x = ins_org con \<and> org_active x)) (Problem ''CONNECTOR_INACTIVE'' 403)"

definition model_uuid :: "string \<Rightarrow> uuid result" where
  "model_uuid s = (case uuid_of s of Inl e \<Rightarrow> Inl ValidationError | Inr u \<Rightarrow> Inr u)"

section \<open>Receipts\<close>

definition new_receipt :: "datetime \<Rightarrow> uuid \<Rightarrow> installation \<Rightarrow> string \<Rightarrow> string \<Rightarrow> string \<Rightarrow> string \<Rightarrow> dict \<Rightarrow> receipt" where
  "new_receipt now i con external content kind status result =
     \<lparr>rec_id = i, rec_org = ins_org con, rec_connector = ins_id con, rec_external = external, rec_body_hash = content,
       rec_kind = kind, rec_source = [], rec_event_type = [], rec_event_created = None, rec_status = status,
       rec_result = result, rec_created = now\<rparr>"

definition find_receipt :: "uuid \<Rightarrow> string \<Rightarrow> db \<Rightarrow> receipt option" where
  "find_receipt con external d = find (\<lambda>r. rec_connector r = con \<and> rec_external r = external) (db_receipts d)"

definition add_receipt :: "(uuid \<Rightarrow> receipt) \<Rightarrow> receipt trans" where
  "add_receipt create d = Inr (create (db_next d),
     d\<lparr>db_next := db_next d + 1, db_receipts := db_receipts d @ [create (db_next d)]\<rparr>)"

section \<open>Claiming a pairing code\<close>

definition claim_facts_of :: "digest \<Rightarrow> dict \<Rightarrow> (string \<times> json) result" where
  "claim_facts_of H envelope =
     rbind (str_at envelope ''pairing_code'') (\<lambda>c. rbind (dict_at envelope ''mode'') (\<lambda>mode. Inr (H c, mode)))"

definition find_pairing :: "string \<Rightarrow> datetime \<Rightarrow> db \<Rightarrow> pairing_code option" where
  "find_pairing h now d = find (\<lambda>p. pai_code_hash p = h \<and> now < pai_expires p) (db_pairings d)"

definition find_key :: "uuid \<Rightarrow> db \<Rightarrow> (public_key \<times> installation) option" where
  "find_key k d = (case row_by key_key_id k (db_keys d) of None \<Rightarrow> None
     | Some key \<Rightarrow> map_option (Pair key) (row_by ins_id (key_installation key) (db_installations d)))"

text \<open>The first answer to a claim is repeated to the plugin that made it.\<close>

definition repeat_claim :: "machine_env \<Rightarrow> pairing_code \<Rightarrow> (public_key \<times> installation) option \<Rightarrow> string \<Rightarrow> string \<Rightarrow>
    string \<Rightarrow> db \<Rightarrow> response result" where
  "repeat_claim me pairing existing public request content d =
     (case existing of
        Some (key, con) \<Rightarrow>
          if ins_store con = Some (pai_store pairing) \<and> key_public key = public \<and> ins_status con = ''active'' then
            (case (case find (\<lambda>r. rec_connector r = ins_id con \<and> rec_external r = request \<and> rec_body_hash r = content)
                (db_receipts d) of
                  Some r \<Rightarrow> Some r
                | None \<Rightarrow> find (\<lambda>r. rec_connector r = ins_id con \<and> rec_kind r = ''claim'') (db_receipts d)) of
               Some r \<Rightarrow> Inr (json_response 200 (dict_put ''server_time'' (JStr (utc (me_now me))) (rec_result r)))
             | None \<Rightarrow> Inl (Problem ''PAIRING_CODE_USED'' 409))
          else Inl (Problem ''PAIRING_CODE_USED'' 409)
      | None \<Rightarrow> Inl (Problem ''PAIRING_CODE_USED'' 409))"

definition new_woo :: "uuid \<Rightarrow> store \<Rightarrow> uuid \<Rightarrow> json \<Rightarrow> datetime \<Rightarrow> installation" where
  "new_woo i s org versions now =
     \<lparr>ins_id = i, ins_org = org, ins_kind = ''woo'', ins_store = Some (sto_id s), ins_mode = sto_mode s,
       ins_account = [], ins_status = ''active'', ins_destination = None, ins_credential = JObj [],
       ins_webhook = JObj [], ins_token_expires = None, ins_heartbeat = None, ins_versions = versions,
       ins_health = [], ins_error = [], ins_next_api = None, ins_created = now, ins_lock = 0\<rparr>"

definition add_key :: "uuid \<Rightarrow> installation \<Rightarrow> uuid \<Rightarrow> string \<Rightarrow> db \<Rightarrow> db" where
  "add_key org con k public d = d\<lparr>db_next := db_next d + 1, db_keys := db_keys d @
     [\<lparr>key_id = db_next d, key_org = org, key_installation = ins_id con, key_key_id = k, key_public = public,
       key_expires = None, key_revoked = None\<rparr>]\<rparr>"

text \<open>The new installation replaces the active one of the store; the code is used, the merchant confirmed.\<close>

definition install_woo :: "machine_env \<Rightarrow> pairing_code \<Rightarrow> store \<Rightarrow> uuid \<Rightarrow> uuid \<Rightarrow> string \<Rightarrow> json \<Rightarrow> db \<Rightarrow> installation \<times> db" where
  "install_woo me pairing s org k public versions d =
     (let con = new_woo (db_next d) s org versions (me_now me);
          d1 = d\<lparr>db_next := db_next d + 1,
            db_installations := update_where (\<lambda>i. ins_store i = Some (sto_id s) \<and> ins_kind i = ''woo'' \<and> ins_status i = ''active'')
              (\<lambda>i. i\<lparr>ins_status := ''disconnected''\<rparr>) (db_installations d) @ [con]\<rparr>;
          d2 = add_key org con k public d1 in
      (con, d2\<lparr>db_locators := db_locators d2 @ [\<lparr>loc_id = ins_id con, loc_org = org, loc_kind = ''connector''\<rparr>],
        db_pairings := update_where (\<lambda>p. pai_id p = pai_id pairing) (\<lambda>p. p\<lparr>pai_used := Some (me_now me)\<rparr>) (db_pairings d2),
        db_links := update_where (\<lambda>l. lnk_store l = sto_id s) (\<lambda>l. l\<lparr>lnk_merchant_confirmed := Some (me_now me)\<rparr>) (db_links d2)\<rparr>))"

definition claim_result :: "machine_env \<Rightarrow> installation \<Rightarrow> string \<Rightarrow> dict" where
  "claim_result me con key_text =
     [(''installation_id'', JStr (uuid_str (ins_id con))), (''key_id'', JStr key_text), (''mode'', JStr (ins_mode con)),
      (''server_time'', JStr (utc (me_now me))), (''schema_version'', JStr ''1.0'')]"

definition finish_claim :: "machine_env \<Rightarrow> pairing_code \<Rightarrow> store \<Rightarrow> uuid \<Rightarrow> uuid \<Rightarrow> string \<Rightarrow> string \<Rightarrow> json \<Rightarrow> string \<Rightarrow> string \<Rightarrow>
    response trans" where
  "finish_claim me pairing s org k key_text public versions request content d =
     (case install_woo me pairing s org k public versions d of
        (con, d1) \<Rightarrow>
          let result = claim_result me con key_text in
          tbind (add_receipt (\<lambda>i. (new_receipt (me_now me) i con request content ''claim'' ''normalized'' result)\<lparr>rec_org := org\<rparr>)) (\<lambda>_.
          tbind (audit (me_now me) org ''woo_admin'' ''woo.paired'' (uuid_str (ins_id con))
            [(''public_key_id'', JStr key_text)] []) (\<lambda>_.
          treturn (json_response 201 result))) d1)"

text \<open>The body of the scope: \<open>h\<close> is the hash of the code.\<close>

definition claim_in_scope :: "machine_env \<Rightarrow> request \<Rightarrow> string \<Rightarrow> dict \<Rightarrow> uuid \<Rightarrow> string \<Rightarrow> json \<Rightarrow> response trans" where
  "claim_in_scope me rq body envelope org h mode d =
     (case find_pairing h (me_now me) d of
        None \<Rightarrow> Inl (Problem ''PAIRING_CODE_INVALID'' 401)
      | Some pairing \<Rightarrow>
          rbind (get_row ''Store'' (\<lambda>s. sto_id s = pai_store pairing) (db_stores d)) (\<lambda>s.
          rbind (guard (JStr (sto_mode s) = mode) (Problem ''PAIRING_CODE_INVALID'' 401)) (\<lambda>_.
          tbind (quota org ''pairing'' 20 60 (me_now me)) (\<lambda>_ d1.
            rbind (rbind (str_at envelope ''public_key'') b64_strict) (\<lambda>public.
            rbind (str_at envelope ''request_id'') (\<lambda>request.
            rbind (str_at envelope ''sent_at'') (\<lambda>sent.
            rbind (verify_woo (me_hash me) (me_ed me) public (header_or rq ''X-LedgerGuard-Signature'' []) ''claim''
              request sent body (me_now me) 0) (\<lambda>_.
            rbind (str_at envelope ''key_id'') (\<lambda>key_text.
            rbind (model_uuid key_text) (\<lambda>k.
            let existing = find_key k d1 in
            if pai_used pairing \<noteq> None
            then rbind (repeat_claim me pairing existing public request (me_hash me body) d1) (\<lambda>r. Inr (r, d1))
            else rbind (guard (\<exists>x \<in> set (db_orgs d1). org_id x = org \<and> org_active x)
                (Problem ''ORGANIZATION_INACTIVE'' 403)) (\<lambda>_.
              rbind (guard (existing = None) (OtherError ''IntegrityError'')) (\<lambda>_.
              rbind (dict_at envelope ''versions'') (\<lambda>versions.
              finish_claim me pairing s org k key_text public versions request (me_hash me body) d1)))))))))) d)))"

definition claim :: "machine_env \<Rightarrow> endpoint" where
  "claim me rq w =
     rbind (request_body rq) (\<lambda>body.
     rbind (parse_body body) (\<lambda>envelope.
     rbind (validate_schema (me_valid me) (JObj envelope) ''woo-claim-1.0.json'') (\<lambda>_.
     rbind (claim_facts_of (me_hash me) envelope) (\<lambda>(h, mode).
     case row_by plo_code_hash h (db_pairing_locators (wo_shared w)) of
       None \<Rightarrow> Inl (Problem ''PAIRING_CODE_INVALID'' 401)
     | Some route \<Rightarrow> scoped (plo_org route) (claim_in_scope me rq body envelope (plo_org route) h mode) w))))"

section \<open>Signed requests of a plugin\<close>

text \<open>\<open>round(delta.total_seconds())\<close>: to the nearest second, a half to the even one.\<close>

definition round_seconds :: "timedelta \<Rightarrow> int" where
  "round_seconds t =
     (let q = t div 1000000; r = t mod 1000000 in
      if r < 500000 then q else if 500000 < r then q + 1 else if even q then q else q + 1)"

definition heartbeat_step :: "machine_env \<Rightarrow> installation \<Rightarrow> dict \<Rightarrow> dict trans" where
  "heartbeat_step me con envelope d =
     rbind (dict_at envelope ''versions'') (\<lambda>versions.
     rbind (dict_at envelope ''queue_depth'') (\<lambda>depth.
     rbind (dict_at envelope ''hpos'') (\<lambda>hpos.
     rbind (dict_at envelope ''clock_offset_seconds'') (\<lambda>offset.
     rbind (rbind (dict_at envelope ''sent_at'') timestamp) (\<lambda>sent.
     rbind (dict_at envelope ''request_id'') (\<lambda>rid.
     let con' = con\<lparr>ins_heartbeat := Some (me_now me), ins_versions := versions,
           ins_health := [(''queue_depth'', depth), (''hpos'', hpos),
             (''clock_offset_seconds'', JInt (round_seconds (sent - me_now me)))]\<rparr> in
     Inr ([(''request_id'', rid), (''server_time'', JStr (utc (me_now me))), (''status'', JStr ''accepted'')],
       d\<lparr>db_installations := save_row ins_id con' (db_installations d)\<rparr>)))))))"

text \<open>The new key is stored, unless it is known already: then it must be this installation's own.\<close>

definition store_key :: "installation \<Rightarrow> uuid \<Rightarrow> string result \<Rightarrow> db \<Rightarrow> db result" where
  "store_key con k public d =
     (case row_by key_key_id k (db_keys d) of
        Some x \<Rightarrow>
          rbind (guard (key_installation x = ins_id con) (Problem ''KEY_ID_CONFLICT'' 409)) (\<lambda>_.
          rbind public (\<lambda>p. rbind (guard (key_public x = p \<and> key_revoked x = None) (Problem ''KEY_ID_CONFLICT'' 409)) (\<lambda>_.
          Inr d)))
      | None \<Rightarrow> rbind public (\<lambda>p. Inr (add_key (ins_org con) con k p d)))"

text \<open>The old key stays valid for a day, counted from the first rotation away from it.\<close>

definition retire_key :: "datetime \<Rightarrow> public_key \<Rightarrow> db \<Rightarrow> db" where
  "retire_key now key d = (if key_expires key \<noteq> None then d
     else d\<lparr>db_keys := update_where (\<lambda>x. key_id x = key_id key) (\<lambda>x. x\<lparr>key_expires := Some (now + hours 24)\<rparr>) (db_keys d)\<rparr>)"

definition rotate_step :: "machine_env \<Rightarrow> installation \<Rightarrow> public_key \<Rightarrow> dict \<Rightarrow> dict trans" where
  "rotate_step me con key envelope d =
     rbind (rbind (str_at envelope ''new_key_id'') model_uuid) (\<lambda>k.
     rbind (store_key con k (rbind (str_at envelope ''new_public_key'') b64_strict) d) (\<lambda>d1.
     tbind (audit (me_now me) (ins_org con) ''woo_admin'' ''woo.key_rotated'' (uuid_str (ins_id con)) [] [])
       (\<lambda>_. tbind (tlift (dict_at envelope ''request_id'')) (\<lambda>rid.
         treturn [(''request_id'', rid), (''status'', JStr ''accepted''), (''server_time'', JStr (utc (me_now me)))]))
       (retire_key (me_now me) key d1)))"

definition plugin_step :: "machine_env \<Rightarrow> string \<Rightarrow> installation \<Rightarrow> public_key \<Rightarrow> dict \<Rightarrow> dict trans" where
  "plugin_step me kind con key envelope =
     (if kind = ''batch'' then accept_woo_batch (me_hash me) (me_now me) con envelope
      else if kind = ''heartbeat'' then heartbeat_step me con envelope
      else rotate_step me con key envelope)"

text \<open>The key named in the header, when it belongs to the installation and is neither revoked nor expired.\<close>

definition signing_key :: "datetime \<Rightarrow> installation \<Rightarrow> string \<Rightarrow> db \<Rightarrow> public_key result" where
  "signing_key now con header d =
     rbind (model_uuid header) (\<lambda>k.
     case find (\<lambda>x. key_installation x = ins_id con \<and> key_key_id x = k \<and> key_revoked x = None) (db_keys d) of
       None \<Rightarrow> Inl (Problem ''KEY_INACTIVE'' 401)
     | Some key \<Rightarrow> (case key_expires key of
           Some t \<Rightarrow> if t \<le> now then Inl (Problem ''KEY_INACTIVE'' 401) else Inr key
         | None \<Rightarrow> Inr key))"

text \<open>A request that was authenticated: answered from its receipt, or performed and recorded.\<close>

definition answer_plugin :: "machine_env \<Rightarrow> string \<Rightarrow> string \<Rightarrow> installation \<Rightarrow> public_key \<Rightarrow> dict \<Rightarrow> string \<Rightarrow> response trans" where
  "answer_plugin me kind body con key envelope request d =
     (case find_receipt (ins_id con) request d of
        Some r \<Rightarrow>
          if rec_body_hash r \<noteq> me_hash me body then Inl (Problem ''REQUEST_ID_CONFLICT'' 409)
          else Inr (json_response 200 (rec_result r), d)
      | None \<Rightarrow>
          tbind (quota (ins_org con) (''plugin:'' @ uuid_str (ins_id con)) 240 60 (me_now me)) (\<lambda>_.
          tbind (plugin_step me kind con key envelope) (\<lambda>result.
          tbind (add_receipt (\<lambda>i. new_receipt (me_now me) i con request (me_hash me body) kind ''normalized'' result)) (\<lambda>_.
          treturn (json_response 200 result)))) d)"

definition plugin_in_scope :: "machine_env \<Rightarrow> string \<Rightarrow> request \<Rightarrow> string \<Rightarrow> dict \<Rightarrow> uuid \<Rightarrow> response trans" where
  "plugin_in_scope me kind rq body envelope route_id d =
     rbind (get_row ''Installation'' (\<lambda>i. ins_id i = route_id \<and> ins_kind i = ''woo'') (db_installations d)) (\<lambda>con.
     rbind (check_active con d) (\<lambda>_.
     rbind (signing_key (me_now me) con (header_or rq ''X-LedgerGuard-Key-ID'' []) d) (\<lambda>key.
     rbind (str_at envelope ''installation_id'') (\<lambda>installation.
     rbind (str_at envelope ''request_id'') (\<lambda>request.
     rbind (str_at envelope ''sent_at'') (\<lambda>sent.
     rbind (verify_woo (me_hash me) (me_ed me) (key_public key) (header_or rq ''X-LedgerGuard-Signature'' []) installation
       request sent body (me_now me) 0) (\<lambda>_.
     answer_plugin me kind body con key envelope request d)))))))"

definition signed_plugin :: "machine_env \<Rightarrow> string \<Rightarrow> endpoint" where
  "signed_plugin me kind rq w =
     rbind (request_body rq) (\<lambda>body.
     rbind (parse_body body) (\<lambda>envelope.
     rbind (validate_schema (me_valid me) (JObj envelope) (''woo-'' @ kind @ ''-1.0.json'')) (\<lambda>_.
     rbind (rbind (str_at envelope ''installation_id'') model_uuid) (\<lambda>i.
     case find (\<lambda>l. loc_id l = i \<and> loc_kind l = ''connector'') (db_locators (wo_shared w)) of
       None \<Rightarrow> Inl (Problem ''INSTALLATION_UNKNOWN'' 401)
     | Some route \<Rightarrow> scoped (loc_org route) (plugin_in_scope me kind rq body envelope (loc_id route)) w))))"

definition plugin_endpoint :: "machine_env \<Rightarrow> string \<Rightarrow> string \<Rightarrow> endpoint" where
  "plugin_endpoint me correlation kind = machine_errors correlation (signed_plugin me kind)"

section \<open>Webhooks of Stripe\<close>

text \<open>\<open>datetime.fromisoformat\<close> of a stored expiry, which carries \<open>+00:00\<close>.\<close>

definition webhook_secrets :: "datetime \<Rightarrow> dict \<Rightarrow> string list result" where
  "webhook_secrets now stored =
     rbind (rbind (dict_at stored ''secrets'') list_of_json) (\<lambda>vs.
     rbind (map_res str_of vs) (\<lambda>secrets.
     let previous = dict_get_or stored ''previous'' JNull in
     if \<not> truthy previous then Inr secrets
     else rbind (dict_of_json previous) (\<lambda>p.
       rbind (str_at p ''expires_at'') (\<lambda>t.
       case fromisoformat t of
         None \<Rightarrow> Inl (ValueError ''Invalid isoformat string'')
       | Some expires \<Rightarrow> if now < expires then rbind (str_at p ''value'') (\<lambda>v. Inr (secrets @ [v])) else Inr secrets))))"

definition event_identity :: "dict \<Rightarrow> string result" where
  "event_identity value =
     (case dict_get_or value ''id'' (JStr []) of
        JStr s \<Rightarrow> if startswith s ''evt_'' \<and> object_id s then Inr s else Inl (Problem ''STRIPE_EVENT_INVALID'' 422)
      | _ \<Rightarrow> Inl (Problem ''STRIPE_EVENT_INVALID'' 422))"

text \<open>The kind of the event's object, when it is supported, with its identity.\<close>

definition event_object :: "dict \<Rightarrow> (string \<times> string) option result" where
  "event_object value =
     (case dict_get value ''data'' of
        Some (JObj data) \<Rightarrow>
          (case dict_get data ''object'' of
             Some (JObj obj) \<Rightarrow>
               (case dict_get_or obj ''object'' JNull of
                  JStr kind \<Rightarrow>
                    (case map_of OBJECT_PREFIXES kind of
                       None \<Rightarrow> Inr None
                     | Some p \<Rightarrow>
                         (case dict_get_or obj ''id'' (JStr []) of
                            JStr s \<Rightarrow> if object_id s \<and> startswith s p then Inr (Some (kind, s))
                              else Inl (Problem ''STRIPE_OBJECT_INVALID'' 422)
                          | _ \<Rightarrow> Inl (Problem ''STRIPE_OBJECT_INVALID'' 422)))
                | JList xs \<Rightarrow> Inl (TypeError ''unhashable type'')
                | JObj kvs \<Rightarrow> Inl (TypeError ''unhashable type'')
                | _ \<Rightarrow> Inr None)
           | _ \<Rightarrow> Inl (Problem ''STRIPE_EVENT_INVALID'' 422))
      | _ \<Rightarrow> Inl (Problem ''STRIPE_EVENT_INVALID'' 422))"

definition event_type_of :: "dict \<Rightarrow> string result" where
  "event_type_of value =
     (case dict_get_or value ''type'' (JStr []) of
        JStr s \<Rightarrow> if s \<noteq> [] \<and> length s \<le> 100 \<and> list_all (\<lambda>c. is_ascii_lower c \<or> is_digit c \<or> c = CHR ''_'' \<or> c = CHR ''.'') s
          then Inr s else Inl (Problem ''STRIPE_EVENT_INVALID'' 422)
      | _ \<Rightarrow> Inl (Problem ''STRIPE_EVENT_INVALID'' 422))"

definition event_created :: "datetime \<Rightarrow> dict \<Rightarrow> datetime result" where
  "event_created now value =
     (case dict_get_or value ''created'' JNull of
        JInt n \<Rightarrow> if 0 \<le> n \<and> n \<le> unix_seconds (now + minutes 5) then Inr (seconds n)
          else Inl (Problem ''STRIPE_EVENT_INVALID'' 422)
      | _ \<Rightarrow> Inl (Problem ''STRIPE_EVENT_INVALID'' 422))"

definition record_event :: "machine_env \<Rightarrow> installation \<Rightarrow> string \<Rightarrow> string \<Rightarrow> (string \<times> string) option \<Rightarrow> string \<Rightarrow> datetime \<Rightarrow>
    response trans" where
  "record_event me con event_id content obj event_type created =
     tbind (add_receipt (\<lambda>i. \<lparr>rec_id = i, rec_org = ins_org con, rec_connector = ins_id con, rec_external = event_id,
         rec_body_hash = content, rec_kind = (case obj of Some (k, s) \<Rightarrow> k | None \<Rightarrow> ''unsupported''),
         rec_source = (case obj of Some (k, s) \<Rightarrow> s | None \<Rightarrow> []), rec_event_type = event_type,
         rec_event_created = Some created, rec_status = (if obj = None then ''ignored'' else ''pending''), rec_result = [],
         rec_created = me_now me\<rparr>)) (\<lambda>r.
     tbind (if obj = None then treturn ()
       else tbind (enqueue (me_now me) (ins_org con) ''stripe_receipt'' (rec_id r) (''stripe-receipt:'' @ uuid_str (rec_id r)))
         (\<lambda>_. treturn ())) (\<lambda>_.
     treturn (json_response 200 [(''receipt_id'', JStr (uuid_str (rec_id r))), (''status'', JStr ''accepted'')])))"

definition accept_event :: "machine_env \<Rightarrow> installation \<Rightarrow> string \<Rightarrow> dict \<Rightarrow> response trans" where
  "accept_event me con body value d =
     rbind (guard (\<not> mode_conflict value con \<and> dict_get_or value ''account'' (JStr (ins_account con)) = JStr (ins_account con))
       (Problem ''STRIPE_NAMESPACE_CONFLICT'' 403)) (\<lambda>_.
     rbind (event_identity value) (\<lambda>event_id.
     case find_receipt (ins_id con) event_id d of
       Some r \<Rightarrow>
         if rec_body_hash r \<noteq> me_hash me body then Inl (Problem ''STRIPE_EVENT_ID_CONFLICT'' 409)
         else Inr (json_response 200 [(''receipt_id'', JStr (uuid_str (rec_id r))), (''status'', JStr ''duplicate'')], d)
     | None \<Rightarrow>
         tbind (quota (ins_org con) (''stripe:'' @ uuid_str (ins_id con)) 2400 60 (me_now me)) (\<lambda>_.
         tbind (tlift (event_object value)) (\<lambda>obj.
         tbind (tlift (event_type_of value)) (\<lambda>event_type.
         tbind (tlift (event_created (me_now me) value)) (\<lambda>created.
         record_event me con event_id (me_hash me body) obj event_type created)))) d))"

definition webhook_in_scope :: "machine_env \<Rightarrow> request \<Rightarrow> string \<Rightarrow> uuid \<Rightarrow> response trans" where
  "webhook_in_scope me rq body destination d =
     rbind (get_row ''Installation'' (\<lambda>i. ins_destination i = Some destination) (db_installations d)) (\<lambda>con.
     rbind (check_active con d) (\<lambda>_.
     rbind (dict_of_json (ins_webhook con)) (\<lambda>sealed.
     rbind (decrypt_secret (me_crypto me) (me_cipher me) sealed (uuid_str (ins_org con)) (uuid_str (ins_id con)) ''webhook'') (\<lambda>stored.
     rbind (webhook_secrets (me_now me) stored) (\<lambda>secrets.
     rbind (verify_stripe (me_mac me) body (header_or rq ''Stripe-Signature'' []) secrets (me_now me)) (\<lambda>_.
     rbind (parse_body body) (\<lambda>value.
     accept_event me con body value d)))))))"

definition stripe_webhook :: "machine_env \<Rightarrow> uuid \<Rightarrow> endpoint" where
  "stripe_webhook me destination rq w =
     rbind (request_body rq) (\<lambda>body.
     case find (\<lambda>l. loc_id l = destination \<and> loc_kind l = ''destination'') (db_locators (wo_shared w)) of
       None \<Rightarrow> Inl (Problem ''DESTINATION_UNKNOWN'' 401)
     | Some route \<Rightarrow> scoped (loc_org route) (webhook_in_scope me rq body destination) w)"

end
