(* ===== verification/Api.thy ===== *)
theory Api imports Worker Plugin_Views begin

text \<open>
  \<open>apps/control_plane/api.py\<close>, first part: what the views of the control plane share. A view runs
  behind \<open>tenant_view\<close>; most change state behind \<open>idempotent\<close>, which answers a repeated request from its
  record. The fields of the REST framework, the signer of cursors, the object store and the drawn
  tokens are parameters of the environment.
\<close>

section \<open>Requests and the environment\<close>

record api_call =
  ap_http :: request
  ap_path :: string
  ap_query :: "(string \<times> string) list"
  ap_session_key :: string

text \<open>
  \<open>run_validation\<close> of the fields: \<open>CharField(max_length, allow_blank)\<close>, \<open>RegexField\<close> with its expression as
  a predicate, \<open>ChoiceField\<close>, \<open>EmailField\<close> and \<open>DateTimeField\<close>; nothing for a value that is refused.
\<close>

record field_lib =
  fl_char :: "nat \<Rightarrow> bool \<Rightarrow> json \<Rightarrow> string option"
  fl_regex :: "(string \<Rightarrow> bool) \<Rightarrow> json \<Rightarrow> string option"
  fl_choice :: "string list \<Rightarrow> json \<Rightarrow> string option"
  fl_email :: "json \<Rightarrow> string option"
  fl_datetime :: "json \<Rightarrow> datetime option"

text \<open>
  \<open>ae_token\<close> is \<open>secrets.token_urlsafe(32)\<close>, \<open>ae_enumerate\<close> the order in which a set of strings is
  walked through, \<open>ae_float\<close> the text of a float. \<open>ae_unsign\<close> is \<open>signing.loads\<close> of a cursor.
\<close>

record api_env =
  ae_now :: datetime
  ae_hash :: digest
  ae_crypto :: crypto_settings
  ae_cipher :: cipher
  ae_draws :: draws
  ae_token :: string
  ae_destination :: uuid
  ae_stripe :: stripe_env
  ae_report :: report_env
  ae_fields :: field_lib
  ae_public_url :: string
  ae_enumerate :: "string list \<Rightarrow> string list"
  ae_float :: "string \<Rightarrow> string"
  ae_sign :: "json \<Rightarrow> string"
  ae_unsign :: "string \<Rightarrow> json option"
  ae_presign :: "string \<Rightarrow> string \<Rightarrow> string"
  ae_read_file :: "string \<Rightarrow> string result"

type_synonym page_view = "view_call \<Rightarrow> access \<Rightarrow> response trans"

definition redirect :: "string \<Rightarrow> response" where
  "redirect url = \<lparr>rs_status = 302, rs_content_type = ''text/html; charset=utf-8'',
     rs_headers = [(''Location'', url)], rs_body = JStr []\<rparr>"

text \<open>Who a completed guard lets through: \<open>user_id(request)\<close> and the text it is recorded by.\<close>

definition user_id :: "view_call \<Rightarrow> int result" where
  "user_id vc = rbind (guard (pr_authenticated (vc_principal vc)) (Problem ''AUTHENTICATION_REQUIRED'' 401))
     (\<lambda>_. Inr (pr_user (vc_principal vc)))"

definition actor :: "view_call \<Rightarrow> string" where "actor vc = show_int (pr_user (vc_principal vc))"

section \<open>Python values\<close>

text \<open>\<open>str(value)\<close> of a JSON value, for code points below 256.\<close>

definition printable :: "char \<Rightarrow> bool" where
  "printable c \<longleftrightarrow> (let n = (of_char c :: nat) in (32 \<le> n \<and> n \<le> 126) \<or> (161 \<le> n \<and> n \<noteq> 173))"

definition repr_char :: "char \<Rightarrow> char \<Rightarrow> string" where
  "repr_char q c =
     (if c = q \<or> c = CHR 0x5C then [CHR 0x5C, c]
      else if c = TAB then [CHR 0x5C, CHR ''t''] else if c = LF then [CHR 0x5C, CHR ''n'']
      else if c = CR then [CHR 0x5C, CHR ''r'']
      else if printable c then [c] else [CHR 0x5C, CHR ''x''] @ hex_digits 2 (int (of_char c)))"

definition repr_str :: "string \<Rightarrow> string" where
  "repr_str s = (let q = (if APOSTROPHE \<in> set s \<and> QUOTE \<notin> set s then QUOTE else APOSTROPHE) in
     q # concat (map (repr_char q) s) @ [q])"

fun py_repr :: "(string \<Rightarrow> string) \<Rightarrow> json \<Rightarrow> string" where
  "py_repr fl JNull = ''None''"
| "py_repr fl (JBool b) = (if b then ''True'' else ''False'')"
| "py_repr fl (JInt i) = show_int i"
| "py_repr fl (JFloat r) = fl r"
| "py_repr fl (JStr s) = repr_str s"
| "py_repr fl (JList xs) = ''['' @ join '', '' (map (py_repr fl) xs) @ '']''"
| "py_repr fl (JObj kvs) = ''{'' @ join '', '' (map (\<lambda>(k, v). repr_str k @ '': '' @ py_repr fl v) kvs) @ ''}''"

definition text_of :: "api_env \<Rightarrow> json \<Rightarrow> string" where
  "text_of ae v = (case v of JStr s \<Rightarrow> s | _ \<Rightarrow> py_repr (ae_float ae) v)"

text \<open>\<open>value not in {...}\<close> for a set of strings: a list or an object cannot be hashed.\<close>

definition among :: "string list \<Rightarrow> json \<Rightarrow> bool result" where
  "among allowed v = (case v of
     JStr s \<Rightarrow> Inr (s \<in> set allowed)
   | JList xs \<Rightarrow> Inl (TypeError ''unhashable type'')
   | JObj kvs \<Rightarrow> Inl (TypeError ''unhashable type'')
   | _ \<Rightarrow> Inr False)"

definition check_among :: "string list \<Rightarrow> json \<Rightarrow> exn \<Rightarrow> string result" where
  "check_among allowed v e = rbind (among allowed v) (\<lambda>ok. rbind (guard ok e) (\<lambda>_. str_of v))"

definition bool_of :: "json \<Rightarrow> exn \<Rightarrow> bool result" where
  "bool_of v e = (case v of JBool b \<Rightarrow> Inr b | _ \<Rightarrow> Inl e)"

section \<open>Rows named by a request\<close>

text \<open>\<open>get_object_or_404\<close>, and a value compared with a primary key: null matches nothing, text and
  integers are read as a UUID, anything else is refused by the field.\<close>

definition get_or_404 :: "('r \<Rightarrow> bool) \<Rightarrow> 'r list \<Rightarrow> 'r result" where
  "get_or_404 P rows = (case find P rows of None \<Rightarrow> Inl Http404 | Some r \<Rightarrow> Inr r)"

definition uuid_field :: "json \<Rightarrow> uuid option result" where
  "uuid_field v = (case v of
     JNull \<Rightarrow> Inr None
   | JStr s \<Rightarrow> (case uuid_of s of Inl e \<Rightarrow> Inl ValidationError | Inr u \<Rightarrow> Inr (Some u))
   | JInt i \<Rightarrow> if 0 \<le> i \<and> i < 2 ^ 128 then Inr (Some i) else Inl ValidationError
   | JBool b \<Rightarrow> Inr (Some (if b then 1 else 0))
   | _ \<Rightarrow> Inl ValidationError)"

definition named_row :: "('r \<Rightarrow> uuid) \<Rightarrow> json \<Rightarrow> ('r \<Rightarrow> bool) \<Rightarrow> 'r list \<Rightarrow> 'r result" where
  "named_row key v P rows = rbind (uuid_field v) (\<lambda>i. get_or_404 (\<lambda>r. Some (key r) = i \<and> P r) rows)"

section \<open>Payloads\<close>

definition payload_data :: "api_call \<Rightarrow> dict result" where
  "payload_data ap = rbind (request_body (ap_http ap)) parse_body"

definition payload :: "api_call \<Rightarrow> string list \<Rightarrow> dict result" where
  "payload ap allowed = rbind (payload_data ap) (\<lambda>data.
     rbind (guard (fst ` set data \<subseteq> set allowed) (Problem ''UNKNOWN_FIELDS'' 422)) (\<lambda>_. Inr data))"

text \<open>A serializer: unknown members and any refused field refuse the request.\<close>

definition required_field :: "dict \<Rightarrow> string \<Rightarrow> (json \<Rightarrow> 'a option) \<Rightarrow> 'a option" where
  "required_field data k f = (case dict_get data k of None \<Rightarrow> None | Some v \<Rightarrow> f v)"

definition optional_field :: "dict \<Rightarrow> string \<Rightarrow> 'a \<Rightarrow> (json \<Rightarrow> 'a option) \<Rightarrow> 'a option" where
  "optional_field data k d f = (case dict_get data k of None \<Rightarrow> Some d | Some v \<Rightarrow> f v)"

definition known_fields :: "dict \<Rightarrow> string list \<Rightarrow> bool" where
  "known_fields data names \<longleftrightarrow> fst ` set data \<subseteq> set names"

definition label_ok :: "string \<Rightarrow> bool" where
  "label_ok s \<longleftrightarrow> s \<noteq> [] \<and> length s \<le> 63 \<and> list_all (\<lambda>c. is_ascii_lower c \<or> is_digit c \<or> c = CHR ''-'') s \<and>
     hd s \<noteq> CHR ''-'' \<and> last s \<noteq> CHR ''-''"

text \<open>The expression of a hostname; \<open>$\<close> also matches before a final line feed.\<close>

definition hostname_ok :: "string \<Rightarrow> bool" where
  "hostname_ok s =
     (let t = (if s \<noteq> [] \<and> last s = LF then butlast s else s); parts = split_at (CHR ''.'') t in
      length t \<le> 253 \<and> 2 \<le> length parts \<and> list_all label_ok (butlast parts) \<and>
      2 \<le> length (last parts) \<and> length (last parts) \<le> 63 \<and> list_all is_ascii_lower (last parts))"

record store_data =
  sd_name :: string
  sd_hostname :: string
  sd_mode :: string

definition store_payload :: "api_env \<Rightarrow> api_call \<Rightarrow> store_data result" where
  "store_payload ae ap = rbind (payload_data ap) (\<lambda>data.
     case (required_field data ''name'' (fl_char (ae_fields ae) 100 False),
           required_field data ''hostname'' (fl_regex (ae_fields ae) hostname_ok),
           required_field data ''mode'' (fl_choice (ae_fields ae) [''test'', ''live''])) of
       (Some n, Some h, Some m) \<Rightarrow>
         if known_fields data [''name'', ''hostname'', ''mode'']
         then Inr \<lparr>sd_name = n, sd_hostname = h, sd_mode = m\<rparr> else Inl (Problem ''VALIDATION_FAILED'' 422)
     | _ \<Rightarrow> Inl (Problem ''VALIDATION_FAILED'' 422))"

definition action_payload :: "api_env \<Rightarrow> api_call \<Rightarrow> (string \<times> datetime option) result" where
  "action_payload ae ap = rbind (payload_data ap) (\<lambda>data.
     case (optional_field data ''note'' [] (fl_char (ae_fields ae) 1000 True),
           optional_field data ''until'' None (\<lambda>v. map_option Some (fl_datetime (ae_fields ae) v))) of
       (Some n, Some u) \<Rightarrow>
         if known_fields data [''note'', ''until''] then Inr (n, u) else Inl (Problem ''VALIDATION_FAILED'' 422)
     | _ \<Rightarrow> Inl (Problem ''VALIDATION_FAILED'' 422))"

section \<open>Headers\<close>

definition strip_quotes :: "string \<Rightarrow> string" where
  "strip_quotes s = (let f = dropWhile (\<lambda>c. c = QUOTE) in rev (f (rev (f s))))"

definition lock_version :: "api_call \<Rightarrow> int result" where
  "lock_version ap =
     (let v = strip_quotes (header_or (ap_http ap) ''If-Match'' []) in
      if v \<noteq> [] \<and> length v \<le> 10 \<and> list_all is_digit v then Inr (int (read_nat v))
      else Inl (Problem ''IF_MATCH_REQUIRED'' 428))"

definition key_char :: "char \<Rightarrow> bool" where
  "key_char c \<longleftrightarrow> is_alnum c \<or> c = CHR ''_'' \<or> c = CHR ''-''"

definition idempotency_key :: "api_call \<Rightarrow> string result" where
  "idempotency_key ap =
     (let k = header_or (ap_http ap) ''Idempotency-Key'' [] in
      if 16 \<le> length k \<and> length k \<le> 128 \<and> list_all key_char k then Inr k
      else Inl (Problem ''IDEMPOTENCY_KEY_REQUIRED'' 400))"

section \<open>Idempotent requests\<close>

definition find_record :: "string \<Rightarrow> string \<Rightarrow> string \<Rightarrow> db \<Rightarrow> idempotency option" where
  "find_record who route key d =
     find (\<lambda>r. ide_principal r = who \<and> ide_route r = route \<and> ide_key r = key) (db_idempotency d)"

definition body_hash :: "api_env \<Rightarrow> api_call \<Rightarrow> string" where
  "body_hash ae ap = ae_hash ae (rq_body (ap_http ap))"

text \<open>The recorded answer, opened when it was sealed.\<close>

definition repeat_response :: "api_env \<Rightarrow> api_call \<Rightarrow> uuid \<Rightarrow> idempotency \<Rightarrow> response result" where
  "repeat_response ae ap org r =
     rbind (guard (ide_request_hash r = body_hash ae ap) (Problem ''IDEMPOTENCY_KEY_CONFLICT'' 409)) (\<lambda>_.
     rbind (dict_of_json (ide_response r)) (\<lambda>value.
     case dict_get value ''sealed_response'' of
       None \<Rightarrow> Inr (json_response (ide_status r) value)
     | Some v \<Rightarrow> rbind (dict_of_json v) (\<lambda>sealed.
         rbind (decrypt_secret (ae_crypto ae) (ae_cipher ae) sealed (uuid_str org) (uuid_str (ide_id r)) ''idempotency'')
           (\<lambda>opened. Inr (json_response (ide_status r) opened)))))"

definition new_record :: "datetime \<Rightarrow> uuid \<Rightarrow> uuid \<Rightarrow> string \<Rightarrow> string \<Rightarrow> string \<Rightarrow> string \<Rightarrow> json \<Rightarrow> int \<Rightarrow> idempotency" where
  "new_record now i org who route key content response status =
     \<lparr>ide_id = i, ide_org = org, ide_principal = who, ide_route = route, ide_key = key,
       ide_request_hash = content, ide_response = response, ide_status = status, ide_expires = now + hours 24\<rparr>"

definition SECRETS :: "string list" where "SECRETS = [''pairing_code'', ''invitation_token'']"

definition sealed_response :: "api_env \<Rightarrow> uuid \<Rightarrow> uuid \<Rightarrow> dict \<Rightarrow> json result" where
  "sealed_response ae org i result =
     (if \<exists>k \<in> set SECRETS. dict_get result k \<noteq> None
      then rbind (encrypt_secret (ae_crypto ae) (ae_cipher ae) (ae_draws ae) result (uuid_str org) (uuid_str i) ''idempotency'')
        (\<lambda>sealed. Inr (JObj [(''sealed_response'', JObj sealed)]))
      else Inr (JObj result))"

text \<open>The answer is recorded when it is a success; its bytes are read back as the value they were
  written from.\<close>

definition record_response :: "api_env \<Rightarrow> api_call \<Rightarrow> uuid \<Rightarrow> string \<Rightarrow> string \<Rightarrow> response \<Rightarrow> response trans" where
  "record_response ae ap org who key r d =
     (if rs_content_type r = ''application/json'' \<and> rs_status r < 400
      then rbind (dict_of_json (rs_body r)) (\<lambda>result.
        rbind (sealed_response ae org (db_next d) result) (\<lambda>value.
        Inr (r, d\<lparr>db_next := db_next d + 1, db_idempotency := db_idempotency d @
          [new_record (ae_now ae) (db_next d) org who (ap_path ap) key (body_hash ae ap) value (rs_status r)]\<rparr>)))
      else Inr (r, d))"

definition forget_record :: "idempotency option \<Rightarrow> db \<Rightarrow> db" where
  "forget_record r d = (case r of None \<Rightarrow> d
     | Some x \<Rightarrow> d\<lparr>db_idempotency := filter (\<lambda>y. ide_id y \<noteq> ide_id x) (db_idempotency d)\<rparr>)"

definition idempotent :: "api_env \<Rightarrow> api_call \<Rightarrow> page_view \<Rightarrow> page_view" where
  "idempotent ae ap view vc a d =
     rbind (idempotency_key ap) (\<lambda>key.
     rbind (user_id vc) (\<lambda>user.
     rbind (get_row ''Organization'' (\<lambda>x. org_id x = ac_org a) (db_orgs d)) (\<lambda>_.
     let existing = find_record (show_int user) (ap_path ap) key d in
     case existing of
       Some r \<Rightarrow> if ae_now ae < ide_expires r then rbind (repeat_response ae ap (ac_org a) r) (\<lambda>x. Inr (x, d))
         else tbind (view vc a) (record_response ae ap (ac_org a) (show_int user) key) (forget_record existing d)
     | None \<Rightarrow> tbind (view vc a) (record_response ae ap (ac_org a) (show_int user) key) d)))"

text \<open>An answered request: repeated from its record, or performed and recorded.\<close>

lemma idempotentE:
  assumes "idempotent ae ap view vc a d = Inr (x, d')"
  obtains (repeated) key r where "idempotency_key ap = Inr key"
      "find_record (actor vc) (ap_path ap) key d = Some r" "ae_now ae < ide_expires r"
      "repeat_response ae ap (ac_org a) r = Inr x" "d' = d"
  | (performed) key d0 r d1 where "idempotency_key ap = Inr key"
      "\<And>r. find_record (actor vc) (ap_path ap) key d = Some r \<Longrightarrow> ide_expires r \<le> ae_now ae"
      "d0 = forget_record (find_record (actor vc) (ap_path ap) key d) d"
      "view vc a d0 = Inr (r, d1)" "record_response ae ap (ac_org a) (actor vc) key r d1 = Inr (x, d')"
proof -
  let ?found = "\<lambda>key. find_record (actor vc) (ap_path ap) key d"
  obtain key where k: "idempotency_key ap = Inr key" and
    h: "(case ?found key of
       Some r \<Rightarrow> if ae_now ae < ide_expires r then rbind (repeat_response ae ap (ac_org a) r) (\<lambda>x. Inr (x, d))
         else tbind (view vc a) (record_response ae ap (ac_org a) (actor vc) key) (forget_record (?found key) d)
     | None \<Rightarrow> tbind (view vc a) (record_response ae ap (ac_org a) (actor vc) key) d) = Inr (x, d')"
    using assms unfolding idempotent_def Let_def user_id_def actor_def by (elim rbindE) auto
  show thesis
  proof (cases "?found key")
    case None
    then show thesis using h performed[OF k, of d] by (auto simp: forget_record_def)
  next
    case (Some r)
    show thesis
    proof (cases "ae_now ae < ide_expires r")
      case True
      then show thesis using h Some repeated[OF k Some] by auto
    next
      case False
      then show thesis using h Some performed[OF k] by auto
    qed
  qed
qed

end
