(* ===== verification/Api_Views.thy ===== *)
theory Api_Views imports Api begin

text \<open>
  \<open>apps/control_plane/api.py\<close>, second part: the views of stores, connectors, findings, runs and reports.
  Each view here is the function under its decorators; \<open>Api_Pages\<close> applies them. A view receives the
  keys of its route as arguments.
\<close>

definition managed :: "api_env \<Rightarrow> view_call \<Rightarrow> access \<Rightarrow> string list \<Rightarrow> unit trans" where
  "managed ae vc a roles = tlift (rbind (require_role a roles) (\<lambda>_. require_recent_auth (ae_now ae) (vc_session vc)))"

definition note_audit :: "api_env \<Rightarrow> view_call \<Rightarrow> uuid \<Rightarrow> string \<Rightarrow> uuid \<Rightarrow> dict \<Rightarrow> unit trans" where
  "note_audit ae vc org action_name resource details =
     ignore (audit (ae_now ae) org (actor vc) action_name (uuid_str resource) details [])"

section \<open>Stores\<close>

definition new_store :: "uuid \<Rightarrow> uuid \<Rightarrow> store_data \<Rightarrow> store" where
  "new_store i org sd =
     \<lparr>sto_id = i, sto_org = org, sto_name = sd_name sd, sto_hostname = sd_hostname sd, sto_mode = sd_mode sd,
       sto_active = True, sto_policy_version = 1, sto_instant = 10, sto_async = 30, sto_refund = 60, sto_freshness = 15,
       sto_disabled = [], sto_shadow = False, sto_alerts = False, sto_reviewed = None, sto_lock = 0\<rparr>"

definition add_store :: "uuid \<Rightarrow> store_data \<Rightarrow> store trans" where
  "add_store org sd d = (let s = new_store (db_next d) org sd in
     Inr (s, d\<lparr>db_next := db_next d + 1, db_stores := db_stores d @ [s],
       db_locators := db_locators d @ [\<lparr>loc_id = sto_id s, loc_org = org, loc_kind = ''store''\<rparr>]\<rparr>))"

definition create_store :: "api_env \<Rightarrow> api_call \<Rightarrow> uuid \<Rightarrow> page_view" where
  "create_store ae ap org vc a =
     tbind (managed ae vc a [''owner'', ''admin'']) (\<lambda>_.
     tbind (tlift (store_payload ae ap)) (\<lambda>sd.
     tbind (tread (\<lambda>d. \<exists>s \<in> set (db_stores d). sto_hostname s = sd_hostname sd \<and> sto_mode s = sd_mode sd)) (\<lambda>taken.
     tbind (tguard (\<not> taken) (Problem ''STORE_ALREADY_EXISTS'' 409)) (\<lambda>_.
     tbind (quota org ''store-create'' 20 3600 (ae_now ae)) (\<lambda>_.
     tbind (add_store org sd) (\<lambda>s.
     tbind (note_audit ae vc org ''store.created'' (sto_id s) []) (\<lambda>_.
     treturn (json_response 201 [(''id'', JStr (uuid_str (sto_id s))),
       (''location'', JStr (''/stores/'' @ uuid_str (sto_id s) @ ''/'')), (''lock_version'', JInt (sto_lock s))]))))))))"

text \<open>A code is stored by its hash, beside the locator that leads a claim to the organization.\<close>

definition add_pairing :: "api_env \<Rightarrow> view_call \<Rightarrow> store \<Rightarrow> string \<Rightarrow> datetime \<Rightarrow> db \<Rightarrow> db" where
  "add_pairing ae vc s h expiry d =
     d\<lparr>db_next := db_next d + 1,
       db_pairings := db_pairings d @ [\<lparr>pai_id = db_next d, pai_org = sto_org s, pai_store = sto_id s, pai_code_hash = h,
         pai_expires = expiry, pai_used = None, pai_issued_by = actor vc\<rparr>],
       db_pairing_locators := db_pairing_locators d @ [\<lparr>plo_code_hash = h, plo_org = sto_org s\<rparr>]\<rparr>"

definition issue_code :: "api_env \<Rightarrow> api_call \<Rightarrow> uuid \<Rightarrow> page_view" where
  "issue_code ae ap store_id vc a =
     tbind (managed ae vc a [''owner'', ''admin'']) (\<lambda>_.
     tbind (tlift (payload ap [])) (\<lambda>_.
     tbind (tread (\<lambda>d. get_or_404 (\<lambda>s. sto_id s = store_id \<and> sto_active s) (db_stores d))) (\<lambda>found.
     tbind (tlift found) (\<lambda>s.
     let expiry = ae_now ae + minutes 10 in
     tbind (tmodify (add_pairing ae vc s (ae_hash ae (ae_token ae)) expiry)) (\<lambda>_.
     tbind (note_audit ae vc (sto_org s) ''pairing_code.created'' (sto_id s) []) (\<lambda>_.
     treturn (json_response 201 [(''pairing_code'', JStr (ae_token ae)), (''expires_at'', JStr (isoformat expiry)),
       (''mode'', JStr (sto_mode s))])))))))"

section \<open>The policy of a store\<close>

definition POLICY_FIELDS :: "string list" where
  "POLICY_FIELDS = [''instant_grace_minutes'', ''async_grace_minutes'', ''refund_grace_minutes'', ''freshness_minutes'',
     ''disabled_rules'', ''shadow_rules'', ''alerts_enabled'', ''review_dry_run'']"

text \<open>A member with minutes between two bounds, given to its field when it is present.\<close>

definition set_minutes :: "dict \<Rightarrow> string \<Rightarrow> int \<Rightarrow> int \<Rightarrow> (int \<Rightarrow> store \<Rightarrow> store) \<Rightarrow> store \<Rightarrow> store result" where
  "set_minutes data k low high put s =
     (case dict_get data k of
        None \<Rightarrow> Inr s
      | Some (JInt n) \<Rightarrow> if low \<le> n \<and> n \<le> high then Inr (put n s) else Inl (Problem ''POLICY_OUT_OF_BOUNDS'' 422)
      | Some _ \<Rightarrow> Inl (Problem ''POLICY_OUT_OF_BOUNDS'' 422))"

definition set_bounds :: "dict \<Rightarrow> store \<Rightarrow> store result" where
  "set_bounds data s =
     rbind (set_minutes data ''instant_grace_minutes'' 5 60 (\<lambda>n s. s\<lparr>sto_instant := n\<rparr>) s) (\<lambda>s1.
     rbind (set_minutes data ''async_grace_minutes'' 10 120 (\<lambda>n s. s\<lparr>sto_async := n\<rparr>) s1) (\<lambda>s2.
     rbind (set_minutes data ''refund_grace_minutes'' 30 120 (\<lambda>n s. s\<lparr>sto_refund := n\<rparr>) s2) (\<lambda>s3.
     set_minutes data ''freshness_minutes'' 5 30 (\<lambda>n s. s\<lparr>sto_freshness := n\<rparr>) s3)))"

fun rule_of :: "json \<Rightarrow> string option" where
  "rule_of (JStr s) = (if s \<in> set RULE_CODES then Some s else None)"
| "rule_of v = None"

text \<open>\<open>sorted(set(rules))\<close> once every member is the code of a rule.\<close>

definition set_disabled :: "dict \<Rightarrow> store \<Rightarrow> store result" where
  "set_disabled data s =
     (case dict_get data ''disabled_rules'' of
        None \<Rightarrow> Inr s
      | Some (JList vs) \<Rightarrow>
          if \<exists>v \<in> set vs. rule_of v = None then Inl (Problem ''INVALID_RULE_CODE'' 422)
          else Inr (s\<lparr>sto_disabled := sort (remdups (map (the \<circ> rule_of) vs))\<rparr>)
      | Some _ \<Rightarrow> Inl (Problem ''INVALID_RULE_CODE'' 422))"

definition check_flags :: "dict \<Rightarrow> unit result" where
  "check_flags data = guard (\<forall>k \<in> set [''shadow_rules'', ''alerts_enabled'', ''review_dry_run''].
     case dict_get data k of None \<Rightarrow> True | Some (JBool b) \<Rightarrow> True | Some v \<Rightarrow> False) (Problem ''INVALID_BOOLEAN'' 422)"

definition flag :: "dict \<Rightarrow> string \<Rightarrow> bool" where
  "flag data k = truthy (dict_get_or data k JNull)"

definition last_run :: "uuid \<Rightarrow> db \<Rightarrow> run_row option" where
  "last_run store_id d = find (\<lambda>r. run_store r = store_id) (rev (db_runs d))"

definition review :: "datetime \<Rightarrow> dict \<Rightarrow> db \<Rightarrow> store \<Rightarrow> store result" where
  "review now data d s =
     (if flag data ''review_dry_run''
      then rbind (guard (\<exists>r \<in> set (db_runs d). run_store r = sto_id s) (Problem ''DRY_RUN_REQUIRED'' 409))
        (\<lambda>_. Inr (s\<lparr>sto_reviewed := Some now\<rparr>))
      else Inr s)"

text \<open>\<open>any(p["rule"] == "PI-009" for p in last.proposals)\<close>\<close>

fun any_stale :: "json list \<Rightarrow> bool result" where
  "any_stale [] = Inr False"
| "any_stale (v # vs) = rbind (dict_of_json v) (\<lambda>p. rbind (dict_at p ''rule'') (\<lambda>rule.
     if rule = JStr ''PI-009'' then Inr True else any_stale vs))"

text \<open>Alerts need a reviewed dry run, a last run without a coverage finding, and a verified link.\<close>

definition onboarded :: "db \<Rightarrow> store \<Rightarrow> bool result" where
  "onboarded d s =
     (case (sto_reviewed s, last_run (sto_id s) d) of
        (Some t, Some r) \<Rightarrow>
          rbind (list_of_json (run_proposals r)) (\<lambda>ps. rbind (any_stale ps) (\<lambda>stale.
          Inr (\<not> stale \<and> (\<exists>l \<in> set (db_links d). lnk_store l = sto_id s \<and> lnk_status l = ''verified''))))
      | _ \<Rightarrow> Inr False)"

definition check_alerts :: "dict \<Rightarrow> db \<Rightarrow> store \<Rightarrow> unit result" where
  "check_alerts data d s =
     (if flag data ''alerts_enabled''
      then rbind (onboarded d s) (\<lambda>ok. guard ok (Problem ''ONBOARDING_INCOMPLETE'' 409)) else Inr ())"

definition set_flag :: "dict \<Rightarrow> string \<Rightarrow> bool \<Rightarrow> bool" where
  "set_flag data k old = (case dict_get data k of Some (JBool b) \<Rightarrow> b | _ \<Rightarrow> old)"

definition changed_policy :: "datetime \<Rightarrow> dict \<Rightarrow> db \<Rightarrow> store \<Rightarrow> store result" where
  "changed_policy now data d s =
     rbind (set_bounds data s) (\<lambda>s1.
     rbind (set_disabled data s1) (\<lambda>s2.
     rbind (check_flags data) (\<lambda>_.
     rbind (review now data d s2) (\<lambda>s3.
     rbind (check_alerts data d s3) (\<lambda>_.
     Inr (s3\<lparr>sto_shadow := set_flag data ''shadow_rules'' (sto_shadow s3),
       sto_alerts := set_flag data ''alerts_enabled'' (sto_alerts s3),
       sto_policy_version := sto_policy_version s3 + 1, sto_lock := sto_lock s3 + 1\<rparr>))))))"

definition save_store :: "store \<Rightarrow> db \<Rightarrow> db" where
  "save_store s d = d\<lparr>db_stores := save_row sto_id s (db_stores d)\<rparr>"

definition policy_view :: "api_env \<Rightarrow> api_call \<Rightarrow> uuid \<Rightarrow> page_view" where
  "policy_view ae ap store_id vc a =
     tbind (managed ae vc a [''owner'', ''admin'']) (\<lambda>_.
     tbind (tlift (payload ap POLICY_FIELDS)) (\<lambda>data.
     tbind (tread (\<lambda>d. get_or_404 (\<lambda>s. sto_id s = store_id) (db_stores d))) (\<lambda>found.
     tbind (tlift found) (\<lambda>s.
     tbind (tlift (lock_version ap)) (\<lambda>version.
     tbind (tguard (sto_lock s = version) (Problem ''VERSION_CONFLICT'' 409)) (\<lambda>_.
     tbind (tread (\<lambda>d. changed_policy (ae_now ae) data d s)) (\<lambda>changed.
     tbind (tlift changed) (\<lambda>s'.
     tbind (tmodify (save_store s')) (\<lambda>_.
     tbind (note_audit ae vc (sto_org s') ''policy.updated'' (sto_id s') data) (\<lambda>_.
     treturn (json_response 200 [(''policy_version'', JInt (sto_policy_version s')), (''lock_version'', JInt (sto_lock s'))])))))))))))"

end
