(* ===== verification/Api_Connectors.thy ===== *)
theory Api_Connectors imports Api_Views begin

text \<open>
  \<open>apps/control_plane/api.py\<close>, third part: the views of connectors (authorization of Stripe, the
  verification of a link, disconnection, the signing secret of webhooks), of findings, runs and reports.
\<close>

section \<open>Authorization of Stripe\<close>

definition query_text :: "api_call \<Rightarrow> string \<Rightarrow> string" where
  "query_text ap k = (case map_of (ap_query ap) k of None \<Rightarrow> [] | Some v \<Rightarrow> v)"

definition oauth_start_view :: "api_env \<Rightarrow> api_call \<Rightarrow> page_view" where
  "oauth_start_view ae ap vc a =
     tbind (managed ae vc a [''owner'', ''admin'']) (\<lambda>_.
     tbind (tlift (case uuid_of (query_text ap ''store_id'') of Inl e \<Rightarrow> Inl (Problem ''STORE_REQUIRED'' 422) | Inr i \<Rightarrow> Inr i)) (\<lambda>i.
     tbind (tread (\<lambda>d. get_or_404 (\<lambda>s. sto_id s = i) (db_stores d))) (\<lambda>found.
     tbind (tlift found) (\<lambda>s.
     tbind (oauth_start (ae_stripe ae) (ae_now ae) (ae_token ae) s (pr_user (vc_principal vc)) (ap_session_key ap)) (\<lambda>url.
     treturn (redirect url))))))"

text \<open>A refused exchange is answered as a problem, so that the use of the state is committed.\<close>

definition oauth_callback_view :: "api_env \<Rightarrow> api_call \<Rightarrow> page_view" where
  "oauth_callback_view ae ap vc a d =
     rbind (require_role a [''owner'', ''admin'']) (\<lambda>_.
     case oauth_callback (ae_stripe ae) (query_text ap ''state'') (query_text ap ''code'') (pr_user (vc_principal vc))
         (ap_session_key ap) (ae_destination ae) \<lparr>ss_db = d, ss_con = no_connector, ss_ticks = 0, ss_calls = []\<rparr> of
       (Inr con, st) \<Rightarrow> Inr (redirect (''/o/'' @ uuid_str (ins_org con) @ ''/''), ss_db st)
     | (Inl (Problem c n), st) \<Rightarrow> Inr (problem_response (vc_correlation vc) c n (detail_of c), ss_db st)
     | (Inl (ConnectorFailure c p r), st) \<Rightarrow> Inr (problem_response (vc_correlation vc) c 503 DEFAULT_DETAIL, ss_db st)
     | (Inl e, st) \<Rightarrow> Inl e)"

section \<open>Verification of a link\<close>

definition get_one_or_404 :: "('r \<Rightarrow> bool) \<Rightarrow> 'r list \<Rightarrow> 'r result" where
  "get_one_or_404 P rows = (case filter P rows of [] \<Rightarrow> Inl Http404 | [r] \<Rightarrow> Inr r
     | _ \<Rightarrow> Inl (OtherError ''MultipleObjectsReturned''))"

definition save_link :: "link \<Rightarrow> db \<Rightarrow> db" where
  "save_link l d = d\<lparr>db_links := save_row lnk_id l (db_links d)\<rparr>"

definition payment_of_source :: "projection \<Rightarrow> string" where
  "payment_of_source p = (if pro_kind p = ''payment'' then pro_source p else pro_parent p)"

text \<open>The payments the references lead to and the last one's projection; nothing when one of them
  does not resolve.\<close>

fun check_refs :: "stripe_env \<Rightarrow> installation \<Rightarrow> string \<Rightarrow> string list \<Rightarrow> string list \<Rightarrow> projection option \<Rightarrow>
    (string list \<times> projection option) option act" where
  "check_refs en con token [] matched payment st = (Inr (Some (matched, payment)), st)"
| "check_refs en con token (ref # refs) matched payment st =
     (case fetch_resource en token (ref_kind ref) (JStr ref) st of
        (Inl (ConnectorFailure c p r), s1) \<Rightarrow>
          if c = ''STRIPE_RESOURCE_UNAVAILABLE'' then (Inr None, s1) else (Inl (ConnectorFailure c p r), s1)
      | (Inl e, s1) \<Rightarrow> (Inl e, s1)
      | (Inr None, s1) \<Rightarrow> (Inr None, s1)
      | (Inr (Some source), s1) \<Rightarrow>
          (let pid = payment_of_source source in
           case get_row ''Projection'' (\<lambda>p. pro_connector p = ins_id con \<and> pro_kind p = ''payment'' \<and> pro_source p = pid)
               (db_projections (ss_db s1)) of
             Inl e \<Rightarrow> (Inl e, s1)
           | Inr p \<Rightarrow> check_refs en con token refs (List.insert pid matched) (Some p) s1))"

definition amount_agrees :: "projection \<Rightarrow> projection option \<Rightarrow> bool result" where
  "amount_agrees order payment =
     (case payment of
        None \<Rightarrow> Inr False
      | Some p \<Rightarrow>
          rbind (mk_money (pro_amount order) (pro_currency order) (pro_exponent order)) (\<lambda>m.
          rbind (mk_money (if pro_status p = ''succeeded'' then pro_received p else pro_amount p)
            (pro_currency p) (pro_exponent p)) (\<lambda>n.
          Inr (m = n))))"

definition link_conflict :: "api_env \<Rightarrow> view_call \<Rightarrow> uuid \<Rightarrow> link \<Rightarrow> response trans" where
  "link_conflict ae vc store_id l =
     tbind (tmodify (save_link (l\<lparr>lnk_status := ''conflict''\<rparr>))) (\<lambda>_.
     tbind (note_audit ae vc (lnk_org l) ''link.conflict'' store_id []) (\<lambda>_.
     treturn (json_response 200 [(''status'', JStr ''conflict''),
       (''detail'', JStr ''An exact identifier does not resolve in the selected account and mode.'')])))"

definition settle_link :: "api_env \<Rightarrow> view_call \<Rightarrow> uuid \<Rightarrow> link \<Rightarrow> projection \<Rightarrow> string list \<Rightarrow> projection option \<Rightarrow> response trans" where
  "settle_link ae vc store_id l order matched payment =
     tbind (tlift (amount_agrees order payment)) (\<lambda>agrees.
     let status = (if length matched = 1 \<and> agrees then ''verified'' else ''conflict'');
         l' = l\<lparr>lnk_status := status, lnk_verified_payment := (if status = ''verified'' then hd matched else [])\<rparr> in
     tbind (tmodify (save_link l')) (\<lambda>_.
     tbind (note_audit ae vc (lnk_org l) (''link.'' @ status) store_id []) (\<lambda>_.
     tbind (\<lambda>d. case fresh_id d of (i, d1) \<Rightarrow>
       enqueue (ae_now ae) (lnk_org l) ''reconcile_store'' store_id (''link:'' @ uuid_str (lnk_id l) @ '':'' @ uuid_str i) d1) (\<lambda>_.
     treturn (json_response 200 [(''status'', JStr status), (''payment_id'', JStr (lnk_verified_payment l'))])))))"

definition link_refs :: "api_env \<Rightarrow> projection \<Rightarrow> string list" where
  "link_refs ae order = ae_enumerate ae
     (remdups (filter (\<lambda>r. r \<noteq> []) [pro_transaction order, pro_pi order, pro_charge order, pro_session order]))"

definition verify_link :: "api_env \<Rightarrow> api_call \<Rightarrow> uuid \<Rightarrow> page_view" where
  "verify_link ae ap store_id vc a =
     tbind (managed ae vc a [''owner'', ''admin'']) (\<lambda>_.
     tbind (tlift (payload ap [''order_id''])) (\<lambda>data.
     let order_id = text_of ae (dict_get_or data ''order_id'' (JStr [])) in
     tbind (tread (\<lambda>d. get_one_or_404 (\<lambda>p. pro_store p = Some store_id \<and> pro_kind p = ''order'' \<and> pro_source p = order_id)
       (db_projections d))) (\<lambda>found. tbind (tlift found) (\<lambda>order.
     tbind (tread (\<lambda>d. get_or_404 (\<lambda>l. lnk_store l = store_id) (db_links d))) (\<lambda>found. tbind (tlift found) (\<lambda>l.
     tbind (tguard (lnk_owner_confirmed l \<noteq> None \<and> lnk_merchant_confirmed l \<noteq> None)
       (Problem ''BOTH_PARTIES_MUST_CONFIRM_LINK'' 409)) (\<lambda>_.
     tbind (tread (\<lambda>d. get_row ''Installation'' (\<lambda>i. ins_id i = lnk_stripe l \<and> ins_status i = ''active'')
       (db_installations d))) (\<lambda>found. tbind (tlift found) (\<lambda>con.
     let refs = link_refs ae order in
     tbind (tguard (refs \<noteq> []) (Problem ''EXACT_IDENTIFIER_REQUIRED'' 422)) (\<lambda>_.
     tbind (run_act con (abind (access_token (ae_stripe ae)) (\<lambda>token. check_refs (ae_stripe ae) con token refs [] None))) (\<lambda>r.
     case r of
       None \<Rightarrow> link_conflict ae vc store_id l
     | Some (matched, payment) \<Rightarrow> settle_link ae vc store_id l order matched payment)))))))))))"

section \<open>Connectors\<close>

definition connector_disconnect :: "api_env \<Rightarrow> api_call \<Rightarrow> uuid \<Rightarrow> page_view" where
  "connector_disconnect ae ap connector_id vc a =
     tbind (managed ae vc a [''owner'', ''admin'']) (\<lambda>_.
     tbind (tlift (payload ap [])) (\<lambda>_.
     tbind (tread (\<lambda>d. get_or_404 (\<lambda>i. ins_id i = connector_id) (db_installations d))) (\<lambda>found. tbind (tlift found) (\<lambda>con.
     tbind (tlift (lock_version ap)) (\<lambda>version.
     tbind (tguard (ins_lock con = version) (Problem ''VERSION_CONFLICT'' 409)) (\<lambda>_.
     tbind (disconnect (ae_now ae) con (actor vc)) (\<lambda>_.
     tbind (tmodify (\<lambda>d. d\<lparr>db_keys := update_where (\<lambda>k. key_installation k = ins_id con)
       (\<lambda>k. k\<lparr>key_revoked := Some (ae_now ae)\<rparr>) (db_keys d)\<rparr>)) (\<lambda>_.
     treturn (json_response 200 [(''status'', JStr ''disconnected'')])))))))))"

definition signing_secret :: "dict \<Rightarrow> string result" where
  "signing_secret data =
     (case dict_get_or data ''signing_secret'' JNull of
        JStr s \<Rightarrow> (let rest = drop 6 s in
          if startswith s ''whsec_'' \<and> 16 \<le> length rest \<and> length rest \<le> 200 \<and> list_all is_alnum rest then Inr s
          else Inl (Problem ''INVALID_SIGNING_SECRET'' 422))
      | _ \<Rightarrow> Inl (Problem ''INVALID_SIGNING_SECRET'' 422))"

text \<open>The secret in use stays valid for a day beside the new one.\<close>

definition previous_secret :: "api_env \<Rightarrow> installation \<Rightarrow> dict result" where
  "previous_secret ae con =
     (if \<not> truthy (ins_webhook con) then Inr []
      else rbind (dict_of_json (ins_webhook con)) (\<lambda>sealed.
        rbind (decrypt_secret (ae_crypto ae) (ae_cipher ae) sealed (uuid_str (ins_org con)) (uuid_str (ins_id con)) ''webhook'') (\<lambda>previous.
        rbind (rbind (dict_at previous ''secrets'') list_of_json) (\<lambda>secrets.
        if secrets = [] then Inl (OtherError ''IndexError'')
        else Inr [(''previous'', JObj [(''value'', hd secrets),
          (''expires_at'', JStr (isoformat (ae_now ae + hours 24)))])]))))"

definition sealed_webhook :: "api_env \<Rightarrow> installation \<Rightarrow> string \<Rightarrow> dict result" where
  "sealed_webhook ae con secret =
     rbind (previous_secret ae con) (\<lambda>previous.
     encrypt_secret (ae_crypto ae) (ae_cipher ae) (ae_draws ae) ((''secrets'', JList [JStr secret]) # previous)
       (uuid_str (ins_org con)) (uuid_str (ins_id con)) ''webhook'')"

definition webhook_secret :: "api_env \<Rightarrow> api_call \<Rightarrow> uuid \<Rightarrow> page_view" where
  "webhook_secret ae ap connector_id vc a =
     tbind (managed ae vc a [''owner'', ''admin'']) (\<lambda>_.
     tbind (tlift (payload ap [''signing_secret''])) (\<lambda>data.
     tbind (tlift (signing_secret data)) (\<lambda>secret.
     tbind (tread (\<lambda>d. get_or_404 (\<lambda>i. ins_id i = connector_id \<and> ins_kind i = ''stripe'' \<and> ins_status i = ''active'')
       (db_installations d))) (\<lambda>found. tbind (tlift found) (\<lambda>con.
     tbind (tlift (lock_version ap)) (\<lambda>version.
     tbind (tguard (ins_lock con = version) (Problem ''VERSION_CONFLICT'' 409)) (\<lambda>_.
     tbind (tlift (sealed_webhook ae con secret)) (\<lambda>sealed.
     let con' = con\<lparr>ins_webhook := JObj sealed, ins_lock := ins_lock con + 1\<rparr> in
     tbind (tmodify (\<lambda>d. d\<lparr>db_installations := save_row ins_id con' (db_installations d)\<rparr>)) (\<lambda>_.
     tbind (note_audit ae vc (ins_org con) ''stripe.webhook_secret_updated'' (ins_id con) []) (\<lambda>_.
     treturn (json_response 200 [(''destination_url'', JStr (ae_public_url ae @ ''/webhooks/stripe/'' @
         (case ins_destination con of None \<Rightarrow> ''None'' | Some u \<Rightarrow> uuid_str u))),
       (''lock_version'', JInt (ins_lock con'))])))))))))))"

section \<open>Findings and runs\<close>

text \<open>The key below which a page of findings starts.\<close>

definition cursor_key :: "api_env \<Rightarrow> uuid \<Rightarrow> string \<Rightarrow> uuid option result" where
  "cursor_key ae store_id text =
     (if text = [] then Inr None
      else case ae_unsign ae text of
          None \<Rightarrow> Inl (Problem ''INVALID_CURSOR'' 400)
        | Some v \<Rightarrow> rbind (dict_of_json v) (\<lambda>cursor.
            if dict_get cursor ''store'' \<noteq> Some (JStr (uuid_str store_id)) then Inl (Problem ''INVALID_CURSOR'' 400)
            else (case dict_get cursor ''id'' of
                None \<Rightarrow> Inl (Problem ''INVALID_CURSOR'' 400)
              | Some JNull \<Rightarrow> Inl (Problem ''INVALID_CURSOR'' 400)
              | Some i \<Rightarrow> uuid_field i)))"

definition listed_findings :: "api_call \<Rightarrow> uuid \<Rightarrow> uuid option \<Rightarrow> db \<Rightarrow> finding list" where
  "listed_findings ap store_id below d =
     rev (sort_key fin_id (filter (\<lambda>f. fin_store f = store_id \<and>
       (query_text ap ''state'' = [] \<or> fin_state f = query_text ap ''state'') \<and>
       (query_text ap ''rule'' = [] \<or> fin_rule f = query_text ap ''rule'') \<and>
       (case below of None \<Rightarrow> True | Some i \<Rightarrow> fin_id f < i)) (db_findings d)))"

definition next_page :: "api_env \<Rightarrow> uuid \<Rightarrow> finding list \<Rightarrow> json" where
  "next_page ae store_id rows =
     (if 50 < length rows then JStr (ae_sign ae (JObj [(''id'', JStr (uuid_str (fin_id (rows ! 49)))),
        (''store'', JStr (uuid_str store_id))])) else JNull)"

definition listed_row :: "db \<Rightarrow> finding \<Rightarrow> json result" where
  "listed_row d f = rbind (finding_row d f) (\<lambda>row. Inr (JObj (row @ [(''lock_version'', JInt (fin_lock f))])))"

definition findings_view :: "api_env \<Rightarrow> api_call \<Rightarrow> uuid \<Rightarrow> page_view" where
  "findings_view ae ap store_id vc a d =
     rbind (cursor_key ae store_id (query_text ap ''cursor'')) (\<lambda>below.
     let rows = take 51 (listed_findings ap store_id below d) in
     rbind (map_res (listed_row d) (take 50 rows)) (\<lambda>results.
     Inr (json_response 200 [(''results'', JList results), (''next_cursor'', next_page ae store_id rows)], d)))"

definition finding_action :: "api_env \<Rightarrow> api_call \<Rightarrow> uuid \<Rightarrow> string \<Rightarrow> page_view" where
  "finding_action ae ap finding_id action_name vc a =
     tbind (tlift (require_role a [''owner'', ''admin'', ''analyst''])) (\<lambda>_.
     tbind (tlift (action_payload ae ap)) (\<lambda>(text, until).
     tbind (tlift (lock_version ap)) (\<lambda>version.
     tbind (action (ae_now ae) finding_id (actor vc) action_name version text until) (\<lambda>f.
     treturn (json_response 200 [(''id'', JStr (uuid_str (fin_id f))), (''state'', JStr (fin_state f)),
       (''lock_version'', JInt (fin_lock f)), (''location'', JStr (''/findings/'' @ uuid_str (fin_id f) @ ''/''))])))))"

definition run_json :: "run_row \<Rightarrow> json" where
  "run_json r = JObj [(''id'', JStr (uuid_str (run_id r))), (''store_id'', JStr (uuid_str (run_store r))),
     (''rule_version'', JStr (run_rule_version r)), (''policy_version'', JInt (run_policy_version r)),
     (''input_digest'', JStr (run_digest r)), (''evaluated_at'', JStr (isoformat (run_evaluated r))),
     (''coverage'', run_coverage r), (''warnings'', run_warnings r), (''shadow'', JBool (run_shadow r))]"

definition runs_view :: "page_view" where
  "runs_view vc a = tbind (tread (\<lambda>d. take 50 (rev (db_runs d)))) (\<lambda>rows.
     treturn (json_response 200 [(''results'', JList (map run_json rows))]))"

section \<open>Reports\<close>

definition add_report :: "api_env \<Rightarrow> view_call \<Rightarrow> uuid \<Rightarrow> uuid option \<Rightarrow> string \<Rightarrow> report trans" where
  "add_report ae vc org store_id format d =
     (let r = \<lparr>rep_id = db_next d, rep_org = org, rep_store = store_id, rep_by = pr_user (vc_principal vc),
            rep_format = format, rep_status = ''pending'', rep_object = [], rep_sha256 = [],
            rep_expires = ae_now ae + days 1\<rparr> in
      Inr (r, d\<lparr>db_next := db_next d + 1, db_reports := db_reports d @ [r],
        db_locators := db_locators d @ [\<lparr>loc_id = rep_id r, loc_org = org, loc_kind = ''report''\<rparr>]\<rparr>))"

definition report_store :: "dict \<Rightarrow> db \<Rightarrow> uuid option result" where
  "report_store data d =
     (let v = dict_get_or data ''store_id'' JNull in
      if \<not> truthy v then Inr None
      else rbind (named_row sto_id v (\<lambda>_. True) (db_stores d)) (\<lambda>s. Inr (Some (sto_id s))))"

definition reports_view :: "api_env \<Rightarrow> api_call \<Rightarrow> page_view" where
  "reports_view ae ap vc a =
     tbind (managed ae vc a [''owner'', ''admin'', ''analyst'']) (\<lambda>_.
     tbind (tlift (payload ap [''format'', ''store_id''])) (\<lambda>data.
     tbind (tlift (check_among [''csv'', ''pdf'', ''html''] (dict_get_or data ''format'' JNull)
       (Problem ''FORMAT_UNSUPPORTED'' 422))) (\<lambda>format.
     tbind (tread (report_store data)) (\<lambda>found. tbind (tlift found) (\<lambda>store_id.
     tbind (quota (ac_org a) ''reports'' 20 3600 (ae_now ae)) (\<lambda>_.
     tbind (add_report ae vc (ac_org a) store_id format) (\<lambda>r.
     tbind (enqueue (ae_now ae) (ac_org a) ''report'' (rep_id r) (''report:'' @ uuid_str (rep_id r))) (\<lambda>_.
     tbind (note_audit ae vc (ac_org a) ''report.requested'' (rep_id r) []) (\<lambda>_.
     treturn (json_response 202 [(''id'', JStr (uuid_str (rep_id r))), (''status'', JStr ''pending''),
       (''location'', JStr (''/reports/'' @ uuid_str (rep_id r) @ ''/''))]))))))))))"

definition REPORT_TYPES :: "(string \<times> string) list" where
  "REPORT_TYPES = [(''csv'', ''text/csv''), (''html'', ''text/html''), (''pdf'', ''application/pdf'')]"

definition report_response :: "api_env \<Rightarrow> report \<Rightarrow> download_source \<Rightarrow> response result" where
  "report_response ae r source =
     (case source of
        Presigned key filename \<Rightarrow> Inr (redirect (ae_presign ae key filename))
      | LocalFile key format \<Rightarrow>
          rbind (ae_read_file ae key) (\<lambda>content.
          case map_of REPORT_TYPES format of
            None \<Rightarrow> Inl (KeyError format)
          | Some content_type \<Rightarrow> Inr \<lparr>rs_status = 200, rs_content_type = content_type,
              rs_headers = [(''Content-Disposition'', ''attachment; filename='' @ [QUOTE] @ ''ledgerguard-'' @
                uuid_str (rep_id r) @ ''.'' @ format @ [QUOTE])], rs_body = JStr content\<rparr>))"

definition report_download :: "api_env \<Rightarrow> uuid \<Rightarrow> page_view" where
  "report_download ae report_id vc a =
     tbind (tread (\<lambda>d. get_or_404 (\<lambda>r. rep_id r = report_id) (db_reports d))) (\<lambda>found. tbind (tlift found) (\<lambda>r.
     tbind (tlift (rbind (download (ae_report ae) (ae_now ae) r) (report_response ae r))) (\<lambda>response.
     tbind (note_audit ae vc (rep_org r) ''report.downloaded'' (rep_id r) []) (\<lambda>_. treturn response))))"

end
