(* ===== verification/Api_Members.thy ===== *)
theory Api_Members imports Api_Connectors begin

text \<open>
  \<open>apps/control_plane/api.py\<close>, last part: members, invitations, support grants, alert routes and the
  organization itself, the two pages that stand outside \<open>tenant_view\<close> because their user is in no
  organization yet, and the table of routes (\<open>urls.py\<close>).
\<close>

section \<open>Members\<close>

definition MEMBER_ROLES :: "string list" where
  "MEMBER_ROLES = [''admin'', ''analyst'', ''viewer'', ''merchant'']"

text \<open>\<open>get_object_or_404(Store, id=v, active=True).id if role == "merchant" else None\<close>\<close>

definition merchant_store :: "string \<Rightarrow> json \<Rightarrow> db \<Rightarrow> uuid option result" where
  "merchant_store role v d =
     (if role = ''merchant'' then rbind (named_row sto_id v sto_active (db_stores d)) (\<lambda>s. Inr (Some (sto_id s)))
      else Inr None)"

definition add_invitation :: "api_env \<Rightarrow> view_call \<Rightarrow> uuid \<Rightarrow> string \<Rightarrow> string \<Rightarrow> uuid option \<Rightarrow> invitation trans" where
  "add_invitation ae vc org email role store_id d =
     (let h = ae_hash ae (ae_token ae);
          x = \<lparr>inv_id = db_next d, inv_org = org, inv_store = store_id, inv_email = email, inv_role = role,
            inv_token_hash = h, inv_expires = ae_now ae + days 2, inv_accepted = None, inv_by = pr_user (vc_principal vc)\<rparr> in
      Inr (x, d\<lparr>db_next := db_next d + 1, db_invitations := db_invitations d @ [x],
        db_pairing_locators := db_pairing_locators d @ [\<lparr>plo_code_hash = h, plo_org = org\<rparr>]\<rparr>))"

definition invite_member :: "api_env \<Rightarrow> api_call \<Rightarrow> uuid \<Rightarrow> page_view" where
  "invite_member ae ap org vc a =
     tbind (managed ae vc a [''owner'']) (\<lambda>_.
     tbind (tlift (payload ap [''email'', ''role'', ''store_id''])) (\<lambda>data.
     tbind (tlift (case fl_email (ae_fields ae) (dict_get_or data ''email'' JNull) of
       None \<Rightarrow> Inl (Problem ''INVALID_EMAIL'' 422) | Some e \<Rightarrow> Inr e)) (\<lambda>email.
     tbind (tlift (check_among MEMBER_ROLES (dict_get_or data ''role'' JNull) (Problem ''INVALID_ROLE'' 422))) (\<lambda>role.
     tbind (tread (merchant_store role (dict_get_or data ''store_id'' JNull))) (\<lambda>found. tbind (tlift found) (\<lambda>store_id.
     tbind (add_invitation ae vc org email role store_id) (\<lambda>x.
     tbind (note_audit ae vc org ''member.invited'' (inv_id x) [(''role'', JStr role)]) (\<lambda>_.
     treturn (json_response 201 [(''invitation_token'', JStr (ae_token ae)),
       (''expires_at'', JStr (isoformat (inv_expires x)))])))))))))"

definition or_else :: "json \<Rightarrow> json \<Rightarrow> json" where "or_else v w = (if truthy v then v else w)"

definition opt_uuid :: "uuid option \<Rightarrow> json" where
  "opt_uuid u = (case u of None \<Rightarrow> JNull | Some x \<Rightarrow> JStr (uuid_str x))"

text \<open>The membership with the requested role, state and store.\<close>

definition changed_member :: "dict \<Rightarrow> db \<Rightarrow> membership \<Rightarrow> membership result" where
  "changed_member data d m =
     rbind (guard (mem_role m \<noteq> ''owner'') (Problem ''OWNERSHIP_TRANSFER_REQUIRES_REVIEW'' 409)) (\<lambda>_.
     rbind (check_among MEMBER_ROLES (dict_get_or data ''role'' (JStr (mem_role m))) (Problem ''INVALID_ROLE'' 422)) (\<lambda>role.
     rbind (bool_of (dict_get_or data ''active'' (JBool (mem_active m))) (Problem ''INVALID_BOOLEAN'' 422)) (\<lambda>active.
     rbind (merchant_store role (or_else (dict_get_or data ''store_id'' JNull) (opt_uuid (mem_store m))) d) (\<lambda>store_id.
     Inr (m\<lparr>mem_role := role, mem_store := store_id, mem_active := active, mem_lock := mem_lock m + 1\<rparr>)))))"

definition save_member :: "membership \<Rightarrow> db \<Rightarrow> db" where
  "save_member m d = d\<lparr>db_members := save_row mem_id m (db_members d)\<rparr>"

text \<open>A member who left or became a merchant receives no more alerts.\<close>

definition silence_member :: "membership \<Rightarrow> unit trans" where
  "silence_member m d =
     (if mem_active m \<and> mem_role m \<noteq> ''merchant'' then Inr ((), d)
      else rbind (get_row ''User'' (\<lambda>u. usr_id u = mem_user m) (db_users d)) (\<lambda>u.
        Inr ((), d\<lparr>db_routes := update_where (\<lambda>r. rou_email r = usr_email u) (\<lambda>r. r\<lparr>rou_active := False\<rparr>) (db_routes d)\<rparr>)))"

definition membership_change :: "api_env \<Rightarrow> api_call \<Rightarrow> uuid \<Rightarrow> page_view" where
  "membership_change ae ap org vc a =
     tbind (managed ae vc a [''owner'']) (\<lambda>_.
     tbind (tlift (payload ap [''membership_id'', ''role'', ''active'', ''store_id''])) (\<lambda>data.
     tbind (tread (\<lambda>d. named_row mem_id (dict_get_or data ''membership_id'' JNull) (\<lambda>_. True) (db_members d))) (\<lambda>found.
     tbind (tlift found) (\<lambda>m.
     tbind (tread (\<lambda>d. changed_member data d m)) (\<lambda>changed. tbind (tlift changed) (\<lambda>m'.
     tbind (tmodify (save_member m')) (\<lambda>_.
     tbind (silence_member m') (\<lambda>_.
     tbind (note_audit ae vc org ''member.changed'' (mem_id m') [(''role'', JStr (mem_role m')), (''active'', JBool (mem_active m'))]) (\<lambda>_.
     treturn (json_response 200 [(''status'', JStr ''updated'')]))))))))))"

section \<open>Support\<close>

text \<open>The reason, the user and the minutes of a grant.\<close>

definition grant_scope :: "dict \<Rightarrow> (string \<times> int \<times> int) result" where
  "grant_scope data =
     (case (dict_get_or data ''reason'' JNull, dict_get_or data ''support_user_id'' JNull, dict_get_or data ''minutes'' JNull) of
        (JStr reason, JInt user, JInt mins) \<Rightarrow>
          if 10 \<le> length reason \<and> length reason \<le> 500 \<and> 1 \<le> user \<and> 1 \<le> mins \<and> mins \<le> 120
          then Inr (reason, user, mins) else Inl (Problem ''SUPPORT_SCOPE_INVALID'' 422)
      | _ \<Rightarrow> Inl (Problem ''SUPPORT_SCOPE_INVALID'' 422))"

definition add_grant :: "api_env \<Rightarrow> view_call \<Rightarrow> uuid \<Rightarrow> string \<Rightarrow> int \<Rightarrow> int \<Rightarrow> support_grant trans" where
  "add_grant ae vc org reason user mins d =
     (let g = \<lparr>gra_id = db_next d, gra_org = org, gra_user = user, gra_approved_by = pr_user (vc_principal vc),
            gra_reason = reason, gra_expires = ae_now ae + minutes mins, gra_revoked = None\<rparr> in
      Inr (g, d\<lparr>db_next := db_next d + 1, db_grants := db_grants d @ [g]\<rparr>))"

definition revoke_grant :: "api_env \<Rightarrow> view_call \<Rightarrow> uuid \<Rightarrow> json \<Rightarrow> response trans" where
  "revoke_grant ae vc org i =
     tbind (tread (\<lambda>d. named_row gra_id i (\<lambda>_. True) (db_grants d))) (\<lambda>found. tbind (tlift found) (\<lambda>g.
     tbind (tmodify (\<lambda>d. d\<lparr>db_grants := save_row gra_id (g\<lparr>gra_revoked := Some (ae_now ae)\<rparr>) (db_grants d)\<rparr>)) (\<lambda>_.
     tbind (note_audit ae vc org ''support.revoked'' (gra_id g) []) (\<lambda>_.
     treturn (json_response 200 [(''status'', JStr ''revoked'')])))))"

definition approve_grant :: "api_env \<Rightarrow> view_call \<Rightarrow> uuid \<Rightarrow> dict \<Rightarrow> response trans" where
  "approve_grant ae vc org data =
     tbind (tlift (grant_scope data)) (\<lambda>(reason, user, mins).
     tbind (tread (\<lambda>d. get_or_404 (\<lambda>u. usr_id u = user \<and> usr_staff u \<and> usr_active u) (db_users d))) (\<lambda>found.
     tbind (tlift found) (\<lambda>u.
     tbind (add_grant ae vc org reason (usr_id u) mins) (\<lambda>g.
     tbind (note_audit ae vc org ''support.approved'' (gra_id g) [(''expires_at'', JStr (isoformat (gra_expires g)))]) (\<lambda>_.
     treturn (json_response 201 [(''id'', JStr (uuid_str (gra_id g))), (''expires_at'', JStr (isoformat (gra_expires g)))]))))))"

definition support_grant_view :: "api_env \<Rightarrow> api_call \<Rightarrow> uuid \<Rightarrow> page_view" where
  "support_grant_view ae ap org vc a =
     tbind (managed ae vc a [''owner'']) (\<lambda>_.
     tbind (tlift (payload ap [''support_user_id'', ''reason'', ''minutes'', ''revoke_id''])) (\<lambda>data.
     let i = dict_get_or data ''revoke_id'' JNull in
     if truthy i then revoke_grant ae vc org i else approve_grant ae vc org data))"

section \<open>Alert routes\<close>

text \<open>\<open>AlertRoute.objects.update_or_create(email=...)\<close>\<close>

definition put_route :: "datetime \<Rightarrow> uuid \<Rightarrow> string \<Rightarrow> bool \<Rightarrow> alert_route trans" where
  "put_route now org email active d =
     (case find (\<lambda>r. rou_email r = email) (db_routes d) of
        Some r \<Rightarrow> (let r' = r\<lparr>rou_org := org, rou_active := active, rou_verified := Some now, rou_bounced := None\<rparr> in
          Inr (r', d\<lparr>db_routes := save_row rou_id r' (db_routes d)\<rparr>))
      | None \<Rightarrow> (let r = \<lparr>rou_id = db_next d, rou_org = org, rou_email = email, rou_verified = Some now,
            rou_active = active, rou_bounced = None\<rparr> in
          Inr (r, d\<lparr>db_next := db_next d + 1, db_routes := db_routes d @ [r]\<rparr>)))"

definition alert_route_view :: "api_env \<Rightarrow> api_call \<Rightarrow> uuid \<Rightarrow> page_view" where
  "alert_route_view ae ap org vc a =
     tbind (managed ae vc a [''owner'', ''admin'']) (\<lambda>_.
     tbind (tlift (payload ap [''membership_id'', ''active''])) (\<lambda>data.
     tbind (tread (\<lambda>d. named_row mem_id (dict_get_or data ''membership_id'' JNull) mem_active (db_members d))) (\<lambda>found.
     tbind (tlift found) (\<lambda>m.
     tbind (tguard (mem_role m \<noteq> ''merchant'') (Problem ''ORGANIZATION_ALERTS_NOT_AVAILABLE_FOR_MERCHANT_ROLE'' 422)) (\<lambda>_.
     tbind (tread (\<lambda>d. get_row ''User'' (\<lambda>u. usr_id u = mem_user m) (db_users d))) (\<lambda>owner. tbind (tlift owner) (\<lambda>u.
     tbind (tguard (usr_email u \<noteq> []) (Problem ''VERIFIED_EMAIL_REQUIRED'' 422)) (\<lambda>_.
     tbind (tlift (bool_of (dict_get_or data ''active'' JNull) (Problem ''INVALID_BOOLEAN'' 422))) (\<lambda>active.
     tbind (put_route (ae_now ae) org (usr_email u) active) (\<lambda>r.
     tbind (note_audit ae vc org ''alert_route.updated'' (rou_id r) []) (\<lambda>_.
     treturn (json_response 200 [(''id'', JStr (uuid_str (rou_id r))), (''active'', JBool (rou_active r))]))))))))))))"

section \<open>The organization\<close>

definition save_org :: "organization \<Rightarrow> db \<Rightarrow> db" where
  "save_org x d = d\<lparr>db_orgs := save_row org_id x (db_orgs d)\<rparr>"

text \<open>Every connector loses its credentials, every plugin key its validity.\<close>

definition disconnect_all :: "datetime \<Rightarrow> db \<Rightarrow> db" where
  "disconnect_all now d =
     d\<lparr>db_installations := map (\<lambda>i. i\<lparr>ins_status := ''disconnected'', ins_credential := JObj [], ins_webhook := JObj []\<rparr>)
         (db_installations d),
       db_keys := map (\<lambda>k. k\<lparr>key_revoked := Some now\<rparr>) (db_keys d)\<rparr>"

definition organization_delete :: "api_env \<Rightarrow> api_call \<Rightarrow> uuid \<Rightarrow> page_view" where
  "organization_delete ae ap org vc a =
     tbind (managed ae vc a [''owner'']) (\<lambda>_.
     tbind (tlift (payload ap [''confirm_name''])) (\<lambda>data.
     tbind (tread (\<lambda>d. get_row ''Organization'' (\<lambda>x. org_id x = org) (db_orgs d))) (\<lambda>found. tbind (tlift found) (\<lambda>x.
     tbind (tguard (dict_get_or data ''confirm_name'' JNull = JStr (org_name x)) (Problem ''CONFIRMATION_NAME_MISMATCH'' 422)) (\<lambda>_.
     tbind (note_audit ae vc org ''organization.deletion_requested'' org []) (\<lambda>_.
     tbind (tmodify (save_org (x\<lparr>org_active := False, org_deleted := Some (ae_now ae)\<rparr>))) (\<lambda>_.
     tbind (tmodify (disconnect_all (ae_now ae))) (\<lambda>_.
     tbind (enqueue (ae_now ae) org ''delete_tenant'' org (''delete:'' @ uuid_str org)) (\<lambda>_.
     treturn (json_response 202 [(''status'', JStr ''deletion_pending'')]))))))))))"

text \<open>The retention in days, and whether alerts are sent.\<close>

definition changed_organization :: "dict \<Rightarrow> organization \<Rightarrow> organization result" where
  "changed_organization data x =
     rbind (case dict_get data ''retention_days'' of
         None \<Rightarrow> Inr x
       | Some (JInt n) \<Rightarrow> if n \<in> {90, 180, 400} then Inr (x\<lparr>org_retention := n\<rparr>) else Inl (Problem ''RETENTION_OUT_OF_BOUNDS'' 422)
       | Some _ \<Rightarrow> Inl (Problem ''RETENTION_OUT_OF_BOUNDS'' 422)) (\<lambda>y.
     rbind (bool_of (dict_get_or data ''alerts_enabled'' (JBool (org_alerts y))) (Problem ''INVALID_BOOLEAN'' 422)) (\<lambda>alerts.
     Inr (y\<lparr>org_alerts := alerts, org_lock := org_lock y + 1\<rparr>)))"

definition organization_policy :: "api_env \<Rightarrow> api_call \<Rightarrow> uuid \<Rightarrow> page_view" where
  "organization_policy ae ap org vc a =
     tbind (managed ae vc a [''owner'']) (\<lambda>_.
     tbind (tlift (payload ap [''retention_days'', ''alerts_enabled''])) (\<lambda>data.
     tbind (tread (\<lambda>d. get_row ''Organization'' (\<lambda>x. org_id x = org) (db_orgs d))) (\<lambda>found. tbind (tlift found) (\<lambda>x.
     tbind (tlift (lock_version ap)) (\<lambda>version.
     tbind (tguard (org_lock x = version) (Problem ''VERSION_CONFLICT'' 409)) (\<lambda>_.
     tbind (tlift (changed_organization data x)) (\<lambda>x'.
     tbind (tmodify (save_org x')) (\<lambda>_.
     tbind (note_audit ae vc org ''organization.policy_updated'' (org_id x') data) (\<lambda>_.
     treturn (json_response 200 [(''retention_days'', JInt (org_retention x')), (''alerts_enabled'', JBool (org_alerts x')),
       (''lock_version'', JInt (org_lock x'))]))))))))))"

section \<open>Pages of users without an organization\<close>

text \<open>The answer, the session and the database; a problem undoes everything.\<close>

type_synonym outcome = "response \<times> http_session \<times> world"

definition not_allowed :: "string \<Rightarrow> response" where
  "not_allowed method = \<lparr>rs_status = 405, rs_content_type = ''text/html; charset=utf-8'',
     rs_headers = [(''Allow'', method)], rs_body = JStr []\<rparr>"

definition plain_problems :: "view_call \<Rightarrow> (string \<Rightarrow> string) \<Rightarrow> world \<Rightarrow> outcome result \<Rightarrow> outcome result" where
  "plain_problems vc detail w r =
     (case r of
        Inr x \<Rightarrow> Inr x
      | Inl (Problem c n) \<Rightarrow> Inr (problem_response (vc_correlation vc) c n (detail c), vc_session vc, w)
      | Inl (ConnectorFailure c p n) \<Rightarrow> Inr (problem_response (vc_correlation vc) c 503 DEFAULT_DETAIL, vc_session vc, w)
      | Inl e \<Rightarrow> Inl e)"

text \<open>\<open>Membership.objects.filter(user=user, active=True)\<close> outside every tenant: the user's own rows.\<close>

definition own_memberships :: "int \<Rightarrow> world \<Rightarrow> membership list" where
  "own_memberships user w = concat (map (\<lambda>x. filter (\<lambda>m. mem_user m = user \<and> mem_active m)
     (db_members (wo_tenants w (dir_id x)))) (db_directory (wo_shared w)))"

definition prior_record :: "datetime \<Rightarrow> string \<Rightarrow> string \<Rightarrow> string \<Rightarrow> db \<Rightarrow> idempotency option" where
  "prior_record now who route key d =
     find (\<lambda>r. ide_principal r = who \<and> ide_route r = route \<and> ide_key r = key \<and> now < ide_expires r) (db_idempotency d)"

definition find_prior :: "datetime \<Rightarrow> string \<Rightarrow> string \<Rightarrow> string \<Rightarrow> membership list \<Rightarrow> world \<Rightarrow> (membership \<times> idempotency) option" where
  "find_prior now who route key ms w =
     (case filter (\<lambda>m. prior_record now who route key (enter (mem_org m) w) \<noteq> None) ms of
        [] \<Rightarrow> None
      | m # _ \<Rightarrow> map_option (Pair m) (prior_record now who route key (enter (mem_org m) w)))"

definition organization_json :: "uuid \<Rightarrow> dict" where
  "organization_json org = [(''id'', JStr (uuid_str org)), (''location'', JStr (''/o/'' @ uuid_str org @ ''/''))]"

text \<open>The rows of a new organization: its entry in the directory, the owner, the owner's alert route
  and the record of the request.\<close>

definition founded :: "api_env \<Rightarrow> api_call \<Rightarrow> int \<Rightarrow> string \<Rightarrow> string \<Rightarrow> string \<Rightarrow> uuid \<Rightarrow> db \<Rightarrow> db" where
  "founded ae ap user name key email org d =
     (let d1 = d\<lparr>db_directory := db_directory d @ [\<lparr>dir_id = org, dir_active = True, dir_erased = None, dir_digest = []\<rparr>],
            db_orgs := db_orgs d @ [\<lparr>org_id = org, org_name = strip name, org_active = True, org_retention = 400,
              org_alerts = False, org_deleted = None, org_lock = 0\<rparr>],
            db_next := db_next d + 1,
            db_members := db_members d @ [\<lparr>mem_id = db_next d, mem_org = org, mem_user = user, mem_role = ''owner'',
              mem_active = True, mem_store = None, mem_lock = 0\<rparr>]\<rparr>;
          d2 = (if email = [] then d1 else d1\<lparr>db_next := db_next d1 + 1, db_routes := db_routes d1 @
            [\<lparr>rou_id = db_next d1, rou_org = org, rou_email = email, rou_verified = Some (ae_now ae), rou_active = True,
              rou_bounced = None\<rparr>]\<rparr>) in
      d2\<lparr>db_next := db_next d2 + 1, db_idempotency := db_idempotency d2 @
        [new_record (ae_now ae) (db_next d2) org (show_int user) (ap_path ap) key (body_hash ae ap)
          (JObj (organization_json org)) 201]\<rparr>)"

definition new_organization :: "api_env \<Rightarrow> api_call \<Rightarrow> view_call \<Rightarrow> string \<Rightarrow> string \<Rightarrow> string \<Rightarrow> uuid \<Rightarrow> response trans" where
  "new_organization ae ap vc name key email org =
     tbind (tmodify (founded ae ap (pr_user (vc_principal vc)) name key email org)) (\<lambda>_.
     tbind (note_audit ae vc org ''organization.created'' org []) (\<lambda>_. treturn (json_response 201 (organization_json org))))"

text \<open>The checks before the transaction: the key of the request and the name of the organization.\<close>

definition organization_request :: "api_env \<Rightarrow> api_call \<Rightarrow> view_call \<Rightarrow> (string \<times> string) result" where
  "organization_request ae ap vc =
     rbind (require_recent_auth (ae_now ae) (vc_session vc)) (\<lambda>_.
     rbind (payload ap [''name'']) (\<lambda>data.
     rbind (idempotency_key ap) (\<lambda>key.
     case dict_get_or data ''name'' JNull of
       JStr name \<Rightarrow> if 1 \<le> length (strip name) \<and> length (strip name) \<le> 100 then Inr (key, name)
         else Inl (Problem ''VALIDATION_FAILED'' 422)
     | _ \<Rightarrow> Inl (Problem ''VALIDATION_FAILED'' 422))))"

definition fresh_organization :: "api_env \<Rightarrow> api_call \<Rightarrow> view_call \<Rightarrow> string \<Rightarrow> string \<Rightarrow> user \<Rightarrow> world \<Rightarrow> outcome result" where
  "fresh_organization ae ap vc name key u w =
     (let org = db_next (wo_shared w);
          w1 = w\<lparr>wo_shared := (wo_shared w)\<lparr>db_next := org + 1\<rparr>\<rparr> in
      rbind (tenant_scope org (Some (pr_user (vc_principal vc)))
          (\<lambda>_. new_organization ae ap vc name key (usr_email u) org) no_context w1) (\<lambda>(r, _, w2).
      Inr (r, (vc_session vc)\<lparr>se_org := uuid_str org\<rparr>, w2)))"

definition obtain_organization :: "api_env \<Rightarrow> api_call \<Rightarrow> view_call \<Rightarrow> world \<Rightarrow> outcome result" where
  "obtain_organization ae ap vc w =
     rbind (organization_request ae ap vc) (\<lambda>(key, name).
     rbind (get_row ''User'' (\<lambda>u. usr_id u = pr_user (vc_principal vc)) (db_users (wo_shared w))) (\<lambda>u.
     let ms = own_memberships (usr_id u) w in
     case find_prior (ae_now ae) (actor vc) (ap_path ap) key ms w of
       Some (m, r) \<Rightarrow>
         if ide_request_hash r \<noteq> body_hash ae ap then Inl (Problem ''IDEMPOTENCY_KEY_CONFLICT'' 409)
         else rbind (dict_of_json (ide_response r)) (\<lambda>value.
           Inr (json_response (ide_status r) value, (vc_session vc)\<lparr>se_org := uuid_str (mem_org m)\<rparr>, w))
     | None \<Rightarrow>
         if 50 \<le> length ms then Inl (Problem ''ORGANIZATION_LIMIT_REACHED'' 422)
         else fresh_organization ae ap vc name key u w))"

text \<open>The name's refusal carries the default detail; a user who is not signed in is turned away first.\<close>

definition organization_detail :: "string \<Rightarrow> string" where
  "organization_detail c = (if c = ''VALIDATION_FAILED'' then DEFAULT_DETAIL else detail_of c)"

definition create_organization :: "api_env \<Rightarrow> api_call \<Rightarrow> view_call \<Rightarrow> world \<Rightarrow> outcome result" where
  "create_organization ae ap vc w =
     (if vc_method vc \<noteq> ''POST'' then Inr (not_allowed ''POST'', vc_session vc, w)
      else plain_problems vc organization_detail w (rbind (user_id vc) (\<lambda>_. obtain_organization ae ap vc w)))"

text \<open>An invitation is accepted by the user it was addressed to, compared without case.\<close>

definition open_invitation :: "datetime \<Rightarrow> string \<Rightarrow> string \<Rightarrow> db \<Rightarrow> invitation option" where
  "open_invitation now h email d = find (\<lambda>x. inv_token_hash x = h \<and> lower (inv_email x) = lower email \<and>
     inv_accepted x = None \<and> now < inv_expires x) (db_invitations d)"

definition join_organization :: "api_env \<Rightarrow> view_call \<Rightarrow> string \<Rightarrow> user \<Rightarrow> invitation trans" where
  "join_organization ae vc h u d =
     (case open_invitation (ae_now ae) h (usr_email u) d of
        None \<Rightarrow> Inl (Problem ''INVITATION_INVALID'' 404)
      | Some x \<Rightarrow>
          rbind (guard (\<forall>m \<in> set (db_members d). mem_user m \<noteq> usr_id u) (Problem ''ALREADY_A_MEMBER'' 409)) (\<lambda>_.
          tbind (note_audit ae vc (inv_org x) ''member.joined'' (inv_id x) []) (\<lambda>_. treturn x)
            (d\<lparr>db_next := db_next d + 1, db_members := db_members d @ [\<lparr>mem_id = db_next d, mem_org = inv_org x,
                mem_user = usr_id u, mem_role = inv_role x, mem_active = True, mem_store = inv_store x, mem_lock = 0\<rparr>],
              db_invitations := save_row inv_id (x\<lparr>inv_accepted := Some (ae_now ae)\<rparr>) (db_invitations d)\<rparr>)))"

definition invitation_location :: "invitation \<Rightarrow> uuid \<Rightarrow> string" where
  "invitation_location x org =
     (if inv_role x = ''merchant'' then ''/stores/'' @ (case inv_store x of None \<Rightarrow> ''None'' | Some s \<Rightarrow> uuid_str s) @ ''/''
      else ''/o/'' @ uuid_str org @ ''/'')"

definition redeem_invitation :: "api_env \<Rightarrow> api_call \<Rightarrow> view_call \<Rightarrow> world \<Rightarrow> outcome result" where
  "redeem_invitation ae ap vc w =
     rbind (payload ap [''token'']) (\<lambda>data.
     let h = ae_hash ae (text_of ae (dict_get_or data ''token'' (JStr []))) in
     case row_by plo_code_hash h (db_pairing_locators (wo_shared w)) of
       None \<Rightarrow> Inl (Problem ''INVITATION_INVALID'' 404)
     | Some l \<Rightarrow>
         rbind (get_row ''User'' (\<lambda>u. usr_id u = pr_user (vc_principal vc)) (db_users (wo_shared w))) (\<lambda>u.
         rbind (tenant_scope (plo_org l) (Some (pr_user (vc_principal vc))) (\<lambda>_. join_organization ae vc h u) no_context w)
           (\<lambda>(x, _, w'). Inr (json_response 200 [(''location'', JStr (invitation_location x (plo_org l)))], vc_session vc, w'))))"

definition accept_invitation :: "api_env \<Rightarrow> api_call \<Rightarrow> view_call \<Rightarrow> world \<Rightarrow> outcome result" where
  "accept_invitation ae ap vc w =
     (if vc_method vc \<noteq> ''POST'' then Inr (not_allowed ''POST'', vc_session vc, w)
      else plain_problems vc detail_of w (rbind (user_id vc) (\<lambda>_. redeem_invitation ae ap vc w)))"

section \<open>Routes\<close>

text \<open>The pages of \<open>urls.py\<close> that the views above answer, with the keys of their routes.\<close>

datatype page =
    CreateStore uuid
  | InviteMember uuid
  | ChangeMembership uuid
  | SupportGrants uuid
  | AlertRoutes uuid
  | DeleteOrganization uuid
  | OrganizationPolicy uuid
  | PairingCodes uuid
  | VerifyLink uuid
  | StorePolicy uuid
  | StoreFindings uuid
  | OAuthStart
  | OAuthCallback
  | Disconnect uuid
  | WebhookSecret uuid
  | FindingAction uuid string
  | Runs
  | Reports
  | ReportDownload uuid

fun page_kwargs :: "page \<Rightarrow> (string \<times> uuid) list" where
  "page_kwargs (CreateStore org) = [(''organization_id'', org)]"
| "page_kwargs (InviteMember org) = [(''organization_id'', org)]"
| "page_kwargs (ChangeMembership org) = [(''organization_id'', org)]"
| "page_kwargs (SupportGrants org) = [(''organization_id'', org)]"
| "page_kwargs (AlertRoutes org) = [(''organization_id'', org)]"
| "page_kwargs (DeleteOrganization org) = [(''organization_id'', org)]"
| "page_kwargs (OrganizationPolicy org) = [(''organization_id'', org)]"
| "page_kwargs (PairingCodes s) = [(''store_id'', s)]"
| "page_kwargs (VerifyLink s) = [(''store_id'', s)]"
| "page_kwargs (StorePolicy s) = [(''store_id'', s)]"
| "page_kwargs (StoreFindings s) = [(''store_id'', s)]"
| "page_kwargs OAuthStart = []"
| "page_kwargs OAuthCallback = []"
| "page_kwargs (Disconnect c) = [(''connector_id'', c)]"
| "page_kwargs (WebhookSecret c) = [(''connector_id'', c)]"
| "page_kwargs (FindingAction f n) = [(''finding_id'', f)]"
| "page_kwargs Runs = []"
| "page_kwargs Reports = []"
| "page_kwargs (ReportDownload r) = [(''report_id'', r)]"

text \<open>The view of a page under its decorators; the pages that only read are not idempotent.\<close>

fun page_view_of :: "api_env \<Rightarrow> api_call \<Rightarrow> page \<Rightarrow> page_view" where
  "page_view_of ae ap (CreateStore org) = idempotent ae ap (create_store ae ap org)"
| "page_view_of ae ap (InviteMember org) = idempotent ae ap (invite_member ae ap org)"
| "page_view_of ae ap (ChangeMembership org) = idempotent ae ap (membership_change ae ap org)"
| "page_view_of ae ap (SupportGrants org) = idempotent ae ap (support_grant_view ae ap org)"
| "page_view_of ae ap (AlertRoutes org) = idempotent ae ap (alert_route_view ae ap org)"
| "page_view_of ae ap (DeleteOrganization org) = idempotent ae ap (organization_delete ae ap org)"
| "page_view_of ae ap (OrganizationPolicy org) = idempotent ae ap (organization_policy ae ap org)"
| "page_view_of ae ap (PairingCodes s) = idempotent ae ap (issue_code ae ap s)"
| "page_view_of ae ap (VerifyLink s) = idempotent ae ap (verify_link ae ap s)"
| "page_view_of ae ap (StorePolicy s) = idempotent ae ap (policy_view ae ap s)"
| "page_view_of ae ap (StoreFindings s) = findings_view ae ap s"
| "page_view_of ae ap OAuthStart = oauth_start_view ae ap"
| "page_view_of ae ap OAuthCallback = oauth_callback_view ae ap"
| "page_view_of ae ap (Disconnect c) = idempotent ae ap (connector_disconnect ae ap c)"
| "page_view_of ae ap (WebhookSecret c) = idempotent ae ap (webhook_secret ae ap c)"
| "page_view_of ae ap (FindingAction f n) = idempotent ae ap (finding_action ae ap f n)"
| "page_view_of ae ap Runs = runs_view"
| "page_view_of ae ap Reports = idempotent ae ap (reports_view ae ap)"
| "page_view_of ae ap (ReportDownload r) = report_download ae r"

text \<open>\<open>require_GET\<close> and \<open>require_POST\<close>\<close>

definition reads_only :: "page \<Rightarrow> bool" where
  "reads_only p = (case p of StoreFindings s \<Rightarrow> True | OAuthStart \<Rightarrow> True | OAuthCallback \<Rightarrow> True | Runs \<Rightarrow> True
     | ReportDownload r \<Rightarrow> True | _ \<Rightarrow> False)"

definition page_method :: "page \<Rightarrow> string" where
  "page_method p = (if reads_only p then ''GET'' else ''POST'')"

definition serve_page :: "api_env \<Rightarrow> api_call \<Rightarrow> page \<Rightarrow> view_call \<Rightarrow> world \<Rightarrow> outcome result" where
  "serve_page ae ap p vc w =
     (if vc_method vc \<noteq> page_method p then Inr (not_allowed (page_method p), vc_session vc, w)
      else tenant_view (ae_now ae) (page_view_of ae ap p) (vc\<lparr>vc_kwargs := page_kwargs p\<rparr>) no_context w)"

end
