(* ===== verification/Sessions.thy ===== *)
theory Sessions imports Api_Members Telemetry begin

text \<open>
  \<open>modules/accounts/auth.py\<close>, \<open>apps/control_plane/middleware.py\<close> and \<open>health.py\<close>: signing in at the
  identity provider, the age of a session, and the wrappers around every request. Times are
  microseconds; a number that the session stores as a float of seconds is its microseconds. The
  session store of the framework, the provider's token endpoint and the verification of a token are
  parameters.
\<close>

section \<open>Sessions and visits\<close>

datatype stored = Number datetime | Text string | Fields "(string \<times> stored) list"

record web_session =
  ws_key :: string
  ws_user :: "int option"
  ws_data :: "(string \<times> stored) list"

text \<open>
  The framework's session: the user a session authenticates, a new key for the same content, \<open>login\<close>
  and \<open>logout\<close>, \<open>float\<close> of a text, and whether the session is saved with an answer of a status.
  Only their documented behaviour is relied upon.
\<close>

record session_backend =
  sb_user :: "db \<Rightarrow> web_session \<Rightarrow> int option"
  sb_cycle :: "web_session \<Rightarrow> web_session"
  sb_login :: "int \<Rightarrow> web_session \<Rightarrow> web_session"
  sb_logout :: "web_session \<Rightarrow> web_session"
  sb_float :: "string \<Rightarrow> datetime option"
  sb_saves :: "int \<Rightarrow> bool"

definition documented :: "session_backend \<Rightarrow> bool" where
  "documented b \<longleftrightarrow>
     (\<forall>d s u. sb_user b d s = Some u \<longrightarrow> ws_user s = Some u) \<and>
     (\<forall>s. ws_user (sb_cycle b s) = ws_user s \<and> ws_data (sb_cycle b s) = ws_data s) \<and>
     (\<forall>u s. ws_user (sb_login b u s) = Some u \<and> ws_data (sb_login b u s) \<in> {ws_data s, []}) \<and>
     (\<forall>s. ws_user (sb_logout b s) = None \<and> ws_data (sb_logout b s) = []) \<and>
     (\<forall>n. n < 500 \<longrightarrow> sb_saves b n)"

text \<open>A request on its way: the session, \<open>request.user\<close> and the database.\<close>

record visit =
  vi_session :: web_session
  vi_user :: "int option"
  vi_world :: world

type_synonym site_view = "visit \<Rightarrow> (response \<times> visit) result"

definition session_get :: "string \<Rightarrow> web_session \<Rightarrow> stored option" where
  "session_get k s = map_of (ws_data s) k"

definition session_put :: "string \<Rightarrow> stored \<Rightarrow> web_session \<Rightarrow> web_session" where
  "session_put k x s = s\<lparr>ws_data := dict_put k x (ws_data s)\<rparr>"

definition session_pop :: "string \<Rightarrow> web_session \<Rightarrow> web_session" where
  "session_pop k s = s\<lparr>ws_data := filter (\<lambda>p. fst p \<noteq> k) (ws_data s)\<rparr>"

definition log_in :: "session_backend \<Rightarrow> int \<Rightarrow> visit \<Rightarrow> visit" where
  "log_in b u v = v\<lparr>vi_session := sb_login b u (vi_session v), vi_user := Some u\<rparr>"

definition log_out :: "session_backend \<Rightarrow> visit \<Rightarrow> visit" where
  "log_out b v = v\<lparr>vi_session := sb_logout b (vi_session v), vi_user := None\<rparr>"

definition stamp_session :: "datetime \<Rightarrow> datetime \<Rightarrow> visit \<Rightarrow> visit" where
  "stamp_session authenticated active v = v\<lparr>vi_session := session_put ''last_active_at'' (Number active)
     (session_put ''authenticated_at'' (Number authenticated) (vi_session v))\<rparr>"

section \<open>The identity provider\<close>

text \<open>
  \<open>ls_token\<close> posts a form to the token endpoint and reads the JSON of a successful answer;
  \<open>ls_claims\<close> fetches the provider's keys and verifies a token for an audience and an issuer;
  \<open>ls_unusable\<close> is the password that \<open>set_unusable_password\<close> draws.
\<close>

record login_settings =
  ls_backend :: session_backend
  ls_domain :: string
  ls_client :: string
  ls_secret :: string
  ls_issuer :: string
  ls_public_url :: string
  ls_production :: bool
  ls_sha256 :: "string \<Rightarrow> string"
  ls_token :: "string \<Rightarrow> (string \<times> string) list \<Rightarrow> (string \<times> string) option \<Rightarrow> json result"
  ls_claims :: "string \<Rightarrow> json \<Rightarrow> string \<Rightarrow> string \<Rightarrow> (string \<times> json) list result"
  ls_unusable :: string

definition url_safe :: "string \<Rightarrow> string" where
  "url_safe s = map (\<lambda>c. if c = CHR ''+'' then CHR ''-'' else if c = CHR ''/'' then CHR ''_'' else c) s"

definition code_challenge :: "login_settings \<Rightarrow> string \<Rightarrow> string" where
  "code_challenge ls verifier =
     filter (\<lambda>c. c \<noteq> CHR ''='') (url_safe (b64encode (ls_sha256 ls verifier)))"

definition problem_answer :: "string \<Rightarrow> string \<Rightarrow> nat \<Rightarrow> response" where
  "problem_answer correlation code status = problem_response correlation code status (detail_of code)"

definition oidc_start :: "login_settings \<Rightarrow> string \<Rightarrow> datetime \<Rightarrow> string \<times> string \<times> string \<Rightarrow> site_view" where
  "oidc_start ls correlation now drawn v =
     (let (state, nonce, verifier) = drawn in
      if ls_domain ls = [] \<or> ls_client ls = []
      then Inr (problem_answer correlation ''AUTH_PROVIDER_UNAVAILABLE'' 503, v)
      else Inr (redirect (ls_domain ls @ ''/oauth2/authorize?'' @ urlencode [(''client_id'', ls_client ls),
          (''response_type'', ''code''), (''scope'', ''openid email''),
          (''redirect_uri'', ls_public_url ls @ ''/auth/callback''), (''state'', state), (''nonce'', nonce),
          (''code_challenge'', code_challenge ls verifier), (''code_challenge_method'', ''S256''),
          (''prompt'', ''login'')]),
        v\<lparr>vi_session := session_put ''oidc'' (Fields [(''state'', Text state), (''nonce'', Text nonce),
          (''verifier'', Text verifier), (''created_at'', Number now)])
          (sb_cycle (ls_backend ls) (vi_session v))\<rparr>))"

text \<open>\<open>hmac.compare_digest\<close> of two \<open>str\<close> raises for a character that is not ASCII.\<close>

definition compare_digest :: "string \<Rightarrow> string \<Rightarrow> bool result" where
  "compare_digest a b =
     (if list_all (\<lambda>c. (of_char c :: nat) < 128) (a @ b) then Inr (a = b)
      else Inl (TypeError ''comparing strings with non-ASCII characters is not supported''))"

text \<open>The login state of the session, when it has its four fields: state, nonce, verifier, creation.\<close>

definition login_state :: "stored option \<Rightarrow> (string \<times> string \<times> string \<times> datetime) option" where
  "login_state x =
     (case x of
        Some (Fields kvs) \<Rightarrow>
          (case (map_of kvs ''state'', map_of kvs ''nonce'', map_of kvs ''verifier'', map_of kvs ''created_at'') of
             (Some (Text s), Some (Text n), Some (Text k), Some (Number t)) \<Rightarrow> Some (s, n, k, t)
           | _ \<Rightarrow> None)
      | _ \<Rightarrow> None)"

definition valid_login_state :: "datetime \<Rightarrow> string \<Rightarrow> stored option \<Rightarrow> (string \<times> string \<times> string \<times> datetime) option result" where
  "valid_login_state now given x =
     (case login_state x of
        None \<Rightarrow> Inr None
      | Some (s, n, k, created) \<Rightarrow>
          if seconds 600 < now - created \<or> now + seconds 60 < created then Inr None
          else rbind (compare_digest s given) (\<lambda>same. Inr (if same then Some (s, n, k, created) else None)))"

definition token_form :: "login_settings \<Rightarrow> string \<Rightarrow> string \<Rightarrow> (string \<times> string) list" where
  "token_form ls authorization verifier =
     [(''grant_type'', ''authorization_code''), (''client_id'', ls_client ls), (''code'', authorization),
      (''redirect_uri'', ls_public_url ls @ ''/auth/callback''), (''code_verifier'', verifier)]"

definition id_token :: "json \<Rightarrow> json result" where
  "id_token answer = (case answer of JObj kvs \<Rightarrow> dict_at kvs ''id_token''
     | _ \<Rightarrow> Inl (TypeError ''indices must be integers''))"

definition exchange_code :: "login_settings \<Rightarrow> string \<Rightarrow> string \<Rightarrow> (string \<times> json) list result" where
  "exchange_code ls authorization verifier =
     rbind (ls_token ls (ls_domain ls @ ''/oauth2/token'') (token_form ls authorization verifier)
       (if ls_secret ls \<noteq> [] then Some (ls_client ls, ls_secret ls) else None)) (\<lambda>answer.
     rbind (id_token answer) (\<lambda>token.
     ls_claims ls (ls_issuer ls @ ''/.well-known/jwks.json'') token (ls_client ls) (ls_issuer ls)))"

text \<open>
  The authentication time and the address of claims that are acceptable for a login. The conditions
  stand in the code's order: a value that cannot be compared raises only when it is reached.
\<close>

definition same_nonce :: "(string \<times> json) list \<Rightarrow> string \<Rightarrow> bool result" where
  "same_nonce claims nonce =
     (case dict_get claims ''nonce'' of Some (JStr n) \<Rightarrow> compare_digest n nonce | _ \<Rightarrow> Inr False)"

definition acceptable_address :: "string \<Rightarrow> bool" where
  "acceptable_address email \<longleftrightarrow> 3 \<le> length email \<and> length email \<le> 254 \<and> CHR ''@'' \<in> set email"

definition check_claims :: "datetime \<Rightarrow> string \<Rightarrow> (string \<times> json) list \<Rightarrow> (datetime \<times> string) result" where
  "check_claims now nonce claims =
     (let invalid = Inl (ValueError ''Invalid authentication context'') in
      if dict_get claims ''token_use'' \<noteq> Some (JStr ''id'') then invalid
      else rbind (same_nonce claims nonce) (\<lambda>same.
        if \<not> same \<or> dict_get claims ''email_verified'' \<noteq> Some (JBool True) then invalid
        else (case (dict_get claims ''auth_time'', dict_get claims ''email'') of
            (Some (JInt t), Some (JStr email)) \<Rightarrow>
              if seconds t \<le> now + seconds 60 \<and> now - seconds t \<le> seconds 600 \<and> acceptable_address email
              then Inr (seconds t, email) else invalid
          | _ \<Rightarrow> invalid)))"

text \<open>\<open>get_or_create\<close> by the subject; the next key of the user table is above all present ones.\<close>

definition next_user_id :: "db \<Rightarrow> int" where
  "next_user_id d = foldr max (map usr_id (db_users d)) 0 + 1"

definition subject_name :: "(string \<times> json) list \<Rightarrow> string result" where
  "subject_name claims = rbind (dict_at claims ''sub'') (\<lambda>x. case x of JStr sub \<Rightarrow> Inr (''cognito:'' @ sub)
     | _ \<Rightarrow> Inl (TypeError ''can only concatenate str''))"

definition provider_user :: "string \<Rightarrow> string \<Rightarrow> db \<Rightarrow> user" where
  "provider_user name email d =
     (case find (\<lambda>u. usr_username u = name) (db_users d) of
        Some u \<Rightarrow> u
      | None \<Rightarrow> \<lparr>usr_id = next_user_id d, usr_username = name, usr_password = [], usr_email = email,
          usr_active = True, usr_staff = False\<rparr>)"

definition admit_user :: "login_settings \<Rightarrow> string \<Rightarrow> string \<Rightarrow> db \<Rightarrow> (int \<times> db) result" where
  "admit_user ls name email d =
     (let u = provider_user name email d;
          u' = u\<lparr>usr_email := email, usr_password := ls_unusable ls\<rparr> in
      rbind (guard (usr_active u) (ValueError ''Disabled identity'')) (\<lambda>_.
      Inr (usr_id u, d\<lparr>db_users := (if find (\<lambda>x. usr_username x = name) (db_users d) = None
        then db_users d @ [u'] else save_row usr_id u' (db_users d))\<rparr>)))"

definition LOGIN_ERRORS :: "exn \<Rightarrow> bool" where
  "LOGIN_ERRORS e \<longleftrightarrow> (case e of TypeError _ \<Rightarrow> True | ValueError _ \<Rightarrow> True | KeyError _ \<Rightarrow> True
     | OtherError c \<Rightarrow> c = ''HTTPError'' \<or> c = ''PyJWTError'' | _ \<Rightarrow> False)"

definition query_or :: "(string \<times> string) list \<Rightarrow> string \<Rightarrow> string" where
  "query_or query k = (case map_of query k of Some x \<Rightarrow> x | None \<Rightarrow> [])"

definition complete_login :: "login_settings \<Rightarrow> datetime \<Rightarrow> string \<Rightarrow> string \<times> string \<times> string \<times> datetime \<Rightarrow> site_view" where
  "complete_login ls now authorization st v =
     (let (s, nonce, verifier, created) = st in
      rbind (exchange_code ls authorization verifier) (\<lambda>claims.
      rbind (check_claims now nonce claims) (\<lambda>(authenticated, email).
      rbind (subject_name claims) (\<lambda>name.
      rbind (admit_user ls name email (wo_shared (vi_world v))) (\<lambda>(user, shared).
      Inr (redirect ''/'', stamp_session authenticated now
        (log_in (ls_backend ls) user (v\<lparr>vi_world := (vi_world v)\<lparr>wo_shared := shared\<rparr>\<rparr>))))))))"

definition oidc_callback :: "login_settings \<Rightarrow> string \<Rightarrow> datetime \<Rightarrow> (string \<times> string) list \<Rightarrow> site_view" where
  "oidc_callback ls correlation now query v =
     (let stored = session_get ''oidc'' (vi_session v);
          v1 = v\<lparr>vi_session := session_pop ''oidc'' (vi_session v)\<rparr> in
      rbind (valid_login_state now (query_or query ''state'') stored) (\<lambda>found.
      case found of
        None \<Rightarrow> Inr (problem_answer correlation ''INVALID_LOGIN_STATE'' 400, v1)
      | Some st \<Rightarrow>
          (case complete_login ls now (query_or query ''code'') st v1 of
             Inr x \<Rightarrow> Inr x
           | Inl e \<Rightarrow> if LOGIN_ERRORS e then Inr (problem_answer correlation ''LOGIN_FAILED'' 401, v1) else Inl e)))"

section \<open>Local sign-in, sign-out and the entry page\<close>

text \<open>The framework's \<open>LoginView\<close> answers the request, or accepts a form for a user with its answer.\<close>

definition local_form_valid :: "session_backend \<Rightarrow> datetime \<Rightarrow> int \<Rightarrow> response \<Rightarrow> visit \<Rightarrow> response \<times> visit" where
  "local_form_valid b now user answer v = (answer, stamp_session now now (log_in b user v))"

definition local_login :: "login_settings \<Rightarrow> datetime \<Rightarrow> (visit \<Rightarrow> response + int \<times> response) \<Rightarrow> site_view" where
  "local_login ls now parent v =
     Inr (if ls_production ls then (redirect ''/auth/start'', v)
       else (case parent v of
           Inl answer \<Rightarrow> (answer, v)
         | Inr (user, answer) \<Rightarrow> local_form_valid (ls_backend ls) now user answer v))"

text \<open>\<open>require_POST\<close> and \<open>logout\<close>.\<close>

definition not_allowed :: response where
  "not_allowed = \<lparr>rs_status = 405, rs_content_type = ''text/html; charset=utf-8'',
     rs_headers = [(''Allow'', ''POST'')], rs_body = JStr []\<rparr>"

definition sign_out :: "session_backend \<Rightarrow> string \<Rightarrow> site_view" where
  "sign_out b http_method v =
     Inr (if http_method = ''POST'' then (redirect ''/login/'', log_out b v) else (not_allowed, v))"

text \<open>A rendered template, by its name and context.\<close>

definition rendered :: "string \<Rightarrow> (string \<times> json) list \<Rightarrow> response" where
  "rendered template context = \<lparr>rs_status = 200, rs_content_type = ''text/html; charset=utf-8'', rs_headers = [],
     rs_body = JObj [(''template'', JStr template), (''context'', JObj context)]\<rparr>"

definition membership_json :: "membership \<Rightarrow> json" where
  "membership_json m = JObj [(''organization_id'', JStr (uuid_str (mem_org m))), (''role'', JStr (mem_role m))]"

definition home :: site_view where
  "home v = Inr (case vi_user v of
       None \<Rightarrow> (redirect ''/login/'', v)
     | Some u \<Rightarrow> (rendered ''organizations.html''
         [(''memberships'', JList (map membership_json (own_memberships u (vi_world v))))], v))"

section \<open>The wrappers of every request\<close>

definition SESSION_COOKIE_AGE :: timedelta where "SESSION_COOKIE_AGE = seconds 28800"
definition SESSION_IDLE_SECONDS :: timedelta where "SESSION_IDLE_SECONDS = seconds 1800"

text \<open>\<open>float(request.session.get(key, default))\<close>.\<close>

definition session_time :: "session_backend \<Rightarrow> string \<Rightarrow> datetime \<Rightarrow> web_session \<Rightarrow> datetime result" where
  "session_time b k fallback s =
     (case session_get k s of
        None \<Rightarrow> Inr fallback
      | Some (Number t) \<Rightarrow> Inr t
      | Some (Text x) \<Rightarrow> (case sb_float b x of Some t \<Rightarrow> Inr t
          | None \<Rightarrow> Inl (ValueError ''could not convert string to float''))
      | Some (Fields kvs) \<Rightarrow> Inl (TypeError ''float() argument must be a string or a real number''))"

definition too_old :: "datetime \<Rightarrow> datetime \<Rightarrow> datetime \<Rightarrow> bool" where
  "too_old now authenticated last_active \<longleftrightarrow>
     SESSION_COOKIE_AGE < now - authenticated \<or> SESSION_IDLE_SECONDS < now - last_active"

definition check_session_age :: "session_backend \<Rightarrow> datetime \<Rightarrow> visit \<Rightarrow> visit result" where
  "check_session_age b now v =
     (if vi_user v = None then Inr v
      else rbind (session_time b ''authenticated_at'' 0 (vi_session v)) (\<lambda>authenticated.
        rbind (session_time b ''last_active_at'' authenticated (vi_session v)) (\<lambda>last_active.
        Inr (if authenticated \<noteq> 0 \<and> too_old now authenticated last_active then log_out b v
          else if authenticated \<noteq> 0
          then v\<lparr>vi_session := session_put ''last_active_at'' (Number now) (vi_session v)\<rparr>
          else v))))"

definition set_header :: "string \<Rightarrow> string \<Rightarrow> response \<Rightarrow> response" where
  "set_header k x r = r\<lparr>rs_headers := dict_put k x (rs_headers r)\<rparr>"

definition quoted_word :: "string \<Rightarrow> string" where
  "quoted_word w = [APOSTROPHE] @ w @ [APOSTROPHE]"

definition CONTENT_POLICY :: string where
  "CONTENT_POLICY =
     ''default-src '' @ quoted_word ''self'' @ ''; script-src '' @ quoted_word ''self'' @ ''; style-src '' @ quoted_word ''self'' @
     ''; img-src '' @ quoted_word ''self'' @ '' data:; connect-src '' @ quoted_word ''self'' @ ''; object-src '' @
     quoted_word ''none'' @ ''; base-uri '' @ quoted_word ''none'' @ ''; form-action '' @ quoted_word ''self'' @
     ''; frame-ancestors '' @ quoted_word ''none''"

definition never_cached :: "string \<Rightarrow> bool" where
  "never_cached path \<longleftrightarrow> startswith path ''/oauth/'' \<or> startswith path ''/api/'' \<or> startswith path ''/webhooks/''"

definition security_headers :: "string \<Rightarrow> string \<Rightarrow> string \<Rightarrow> bool \<Rightarrow> response \<Rightarrow> response" where
  "security_headers path trace correlation signed_in r =
     (let r1 = set_header ''Permissions-Policy'' ''camera=(), microphone=(), geolocation=()''
            (set_header ''X-Frame-Options'' ''DENY'' (set_header ''Content-Security-Policy'' CONTENT_POLICY
            (set_header ''X-Correlation-ID'' correlation (set_header ''traceparent'' trace r)))) in
      if signed_in \<or> never_cached path then set_header ''Cache-Control'' ''no-store'' r1 else r1)"

record site_request =
  sq_method :: string
  sq_path :: string
  sq_parent :: string
  sq_correlation :: string
  sq_hex16 :: string
  sq_hex8 :: string
  sq_elapsed :: measure

definition security_context :: "session_backend \<Rightarrow> datetime \<Rightarrow> site_request \<Rightarrow> site_view \<Rightarrow> site_view" where
  "security_context b now rq view v =
     rbind (check_session_age b now v) (\<lambda>v1.
     let trace = new_trace (sq_hex16 rq) (sq_hex8 rq) (sq_parent rq) in
     rbind (view v1) (\<lambda>(r, v2).
     rbind (metric (if startswith (sq_path rq) ''/webhooks/'' then ''WebhookDurationMs'' else ''RequestDurationMs'')
       (sq_elapsed rq)) (\<lambda>_.
     Inr (security_headers (sq_path rq) trace (sq_correlation rq) (vi_user v2 \<noteq> None) r, v2))))"

text \<open>The state of the database that \<open>ready\<close> asks for; each query may raise.\<close>

record database_state =
  ds_identity :: "(string \<times> bool \<times> bool) result"
  ds_owner :: "bool result"
  ds_secured :: "bool option result"
  ds_sessions :: "bool result"

definition status_answer :: "int \<Rightarrow> string \<Rightarrow> response" where
  "status_answer n status = \<lparr>rs_status = n, rs_content_type = ''application/json'', rs_headers = [],
     rs_body = JObj [(''status'', JStr status)]\<rparr>"

definition live :: response where "live = status_answer 200 ''ok''"

definition database_ready :: "database_state \<Rightarrow> bool result" where
  "database_ready ds =
     rbind (ds_identity ds) (\<lambda>identity. rbind (require_database_role identity ''ledgerguard_app'') (\<lambda>_.
     rbind (ds_owner ds) (\<lambda>owner. rbind (ds_secured ds) (\<lambda>secured. rbind (ds_sessions ds) (\<lambda>sessions.
     Inr (\<not> owner \<and> secured = Some True \<and> sessions))))))"

definition ready :: "database_state \<Rightarrow> response" where
  "ready ds = (if database_ready ds = Inr True then status_answer 200 ''ready'' else status_answer 503 ''unavailable'')"

definition health_middleware :: "database_state \<Rightarrow> site_request \<Rightarrow> site_view \<Rightarrow> site_view" where
  "health_middleware ds rq view v =
     (if sq_method rq \<in> {''GET'', ''HEAD''} \<and> sq_path rq \<in> {''/health/live'', ''/health/ready''}
      then Inr (set_header ''X-Content-Type-Options'' ''nosniff'' (set_header ''Cache-Control'' ''no-store''
        (if endswith (sq_path rq) ''ready'' then ready ds else live)), v)
      else view v)"

section \<open>Requests of one browser\<close>

text \<open>The views that sign in or out, and every other view of the site.\<close>

datatype site_call =
    Start_Login "string \<times> string \<times> string"
  | Callback "(string \<times> string) list"
  | Local_Login "visit \<Rightarrow> response + int \<times> response"
  | Sign_Out
  | Home
  | Page site_view

definition site_view_of :: "login_settings \<Rightarrow> datetime \<Rightarrow> site_request \<Rightarrow> site_call \<Rightarrow> site_view" where
  "site_view_of ls now rq call =
     (case call of
        Start_Login drawn \<Rightarrow> oidc_start ls (sq_correlation rq) now drawn
      | Callback query \<Rightarrow> oidc_callback ls (sq_correlation rq) now query
      | Local_Login parent \<Rightarrow> local_login ls now parent
      | Sign_Out \<Rightarrow> sign_out (ls_backend ls) (sq_method rq)
      | Home \<Rightarrow> home
      | Page view \<Rightarrow> view)"

text \<open>The visit that a request starts as: \<open>request.user\<close> is read from the session.\<close>

definition arrival :: "session_backend \<Rightarrow> web_session \<times> world \<Rightarrow> visit" where
  "arrival b sw = \<lparr>vi_session = fst sw, vi_user = sb_user b (wo_shared (snd sw)) (fst sw), vi_world = snd sw\<rparr>"

definition site_answer :: "login_settings \<Rightarrow> datetime \<Rightarrow> site_request \<Rightarrow> site_call \<Rightarrow> web_session \<times> world \<Rightarrow> (response \<times> visit) result" where
  "site_answer ls now rq call sw =
     security_context (ls_backend ls) now rq (site_view_of ls now rq call) (arrival (ls_backend ls) sw)"

text \<open>
  The stored session and the database after a request: an uncaught exception is an answer of 500,
  and whether an answer saves the session depends on its status.
\<close>

definition after_request :: "login_settings \<Rightarrow> datetime \<Rightarrow> site_request \<Rightarrow> site_call \<Rightarrow> web_session \<times> world \<Rightarrow> web_session \<times> world" where
  "after_request ls now rq call sw =
     (case site_answer ls now rq call sw of
        Inl e \<Rightarrow> sw
      | Inr (r, v) \<Rightarrow> (if sb_saves (ls_backend ls) (rs_status r) then vi_session v else fst sw, vi_world v))"

end
