(* ===== verification/Sessions_Props.thy ===== *)
theory Sessions_Props imports Sessions begin

text \<open>
  The histories of one browser session: its requests in order, with whatever others do to the
  database between them, and what is recorded of each. Every sign-in at the provider uses up a start
  of its own, and a session is shown to a user only for a limited time after the sign-in and after
  the last request.
\<close>

section \<open>Histories\<close>

datatype site_event =
    Started string
  | Signed_In datetime int datetime string
  | Signed_Locally int datetime
  | Shown datetime int

text \<open>The user whom a request is shown to: the one that the age of the session leaves signed in.\<close>

definition shown_user :: "login_settings \<Rightarrow> datetime \<Rightarrow> web_session \<times> world \<Rightarrow> int option" where
  "shown_user ls now sw =
     (case check_session_age (ls_backend ls) now (arrival (ls_backend ls) sw) of Inl e \<Rightarrow> None | Inr v \<Rightarrow> vi_user v)"

definition shown_events :: "login_settings \<Rightarrow> datetime \<Rightarrow> web_session \<times> world \<Rightarrow> site_event list" where
  "shown_events ls now sw = (case shown_user ls now sw of None \<Rightarrow> [] | Some u \<Rightarrow> [Shown now u])"

definition parent_user :: "login_settings \<Rightarrow> datetime \<Rightarrow> (visit \<Rightarrow> response + int \<times> response) \<Rightarrow> web_session \<times> world \<Rightarrow> int option" where
  "parent_user ls now parent sw =
     (case check_session_age (ls_backend ls) now (arrival (ls_backend ls) sw) of
        Inl e \<Rightarrow> None
      | Inr v \<Rightarrow> (case parent v of Inl _ \<Rightarrow> None | Inr (u, _) \<Rightarrow> Some u))"

definition sign_in_events :: "login_settings \<Rightarrow> datetime \<Rightarrow> site_request \<Rightarrow> site_call \<Rightarrow> web_session \<times> world \<Rightarrow> site_event list" where
  "sign_in_events ls now rq call sw =
     (case site_answer ls now rq call sw of
        Inl e \<Rightarrow> []
      | Inr (r, v) \<Rightarrow>
          (case call of
             Start_Login (state, nonce, verifier) \<Rightarrow> (if rs_status r = 302 then [Started state] else [])
           | Callback query \<Rightarrow>
               (if rs_status r \<noteq> 302 then []
                else (case (vi_user v, session_get ''authenticated_at'' (vi_session v)) of
                  (Some u, Some (Number t)) \<Rightarrow> [Signed_In now u t (query_or query ''state'')]
                | _ \<Rightarrow> []))
           | Local_Login parent \<Rightarrow>
               (case parent_user ls now parent sw of
                  Some u \<Rightarrow> if ls_production ls then [] else [Signed_Locally u now] | None \<Rightarrow> [])
           | _ \<Rightarrow> []))"

definition request_events :: "login_settings \<Rightarrow> datetime \<Rightarrow> site_request \<Rightarrow> site_call \<Rightarrow> web_session \<times> world \<Rightarrow> site_event list" where
  "request_events ls now rq call sw = shown_events ls now sw @ sign_in_events ls now rq call sw"

text \<open>A page leaves the session's user and the marks of the sign-in as they are.\<close>

definition keeps_login :: "site_view \<Rightarrow> bool" where
  "keeps_login view \<longleftrightarrow> (\<forall>v r v'. view v = Inr (r, v') \<longrightarrow> vi_user v' = vi_user v \<and>
     ws_user (vi_session v') = ws_user (vi_session v) \<and>
     (\<forall>k \<in> {''oidc'', ''authenticated_at'', ''last_active_at''}. session_get k (vi_session v') = session_get k (vi_session v)))"

definition proper_call :: "site_call \<Rightarrow> bool" where
  "proper_call call \<longleftrightarrow> (\<forall>view. call = Page view \<longrightarrow> keeps_login view)"

inductive browses :: "login_settings \<Rightarrow> site_event list \<Rightarrow> web_session \<times> world \<Rightarrow> bool" for ls where
  Fresh: "ws_user s = None \<Longrightarrow> ws_data s = [] \<Longrightarrow> browses ls [] (s, w)"
| Others: "browses ls es (s, w) \<Longrightarrow> browses ls es (s, w')"
| Request: "browses ls es sw \<Longrightarrow> proper_call call \<Longrightarrow> seconds 600 < now \<Longrightarrow>
    browses ls (es @ request_events ls now rq call sw) (after_request ls now rq call sw)"

section \<open>Reading and writing the session\<close>

lemma map_of_dict_put: "map_of (dict_put k x kvs) k' = (if k' = k then Some x else map_of kvs k')"
  by (induction kvs) auto

lemma map_of_pop: "map_of (filter (\<lambda>p. fst p \<noteq> k') kvs) k = (if k = k' then None else map_of kvs k)"
  by (induction kvs) auto

lemma session_get_put [simp]: "session_get k (session_put k' x s) = (if k = k' then Some x else session_get k s)"
  by (simp add: session_get_def session_put_def map_of_dict_put)

lemma session_get_pop [simp]: "session_get k (session_pop k' s) = (if k = k' then None else session_get k s)"
  by (simp add: session_get_def session_pop_def map_of_pop)

lemma session_user_puts [simp]:
  "ws_user (session_put k x s) = ws_user s" "ws_user (session_pop k s) = ws_user s"
  by (simp_all add: session_put_def session_pop_def)

lemma documentedD:
  assumes "documented b"
  shows "sb_user b d s = Some u \<Longrightarrow> ws_user s = Some u"
    and "ws_user (sb_cycle b s) = ws_user s" "ws_data (sb_cycle b s) = ws_data s"
    and "ws_user (sb_login b u s) = Some u" "ws_data (sb_login b u s) = ws_data s \<or> ws_data (sb_login b u s) = []"
    and "ws_user (sb_logout b s) = None" "ws_data (sb_logout b s) = []"
    and "n < 500 \<Longrightarrow> sb_saves b n"
  using assms by (auto simp: documented_def)


lemma session_get_data: "ws_data s = ws_data s' \<Longrightarrow> session_get k s = session_get k s'" "ws_data s = [] \<Longrightarrow> session_get k s = None"
  by (simp_all add: session_get_def)

lemma session_get_cycle: "documented b \<Longrightarrow> session_get k (sb_cycle b s) = session_get k s"
  by (simp add: session_get_def documentedD)

lemma session_get_login: "documented b \<Longrightarrow> session_get k (sb_login b u s) = session_get k s \<or> session_get k (sb_login b u s) = None"
  using documentedD(5)[of b u s] by (auto simp: session_get_def)

lemma session_get_logout: "documented b \<Longrightarrow> session_get k (sb_logout b s) = None"
  by (simp add: session_get_def documentedD)

section \<open>A request taken apart\<close>

lemma site_answerE:
  assumes "site_answer ls now rq call sw = Inr (r, v)"
  obtains v1 r0 where "check_session_age (ls_backend ls) now (arrival (ls_backend ls) sw) = Inr v1"
    "site_view_of ls now rq call v1 = Inr (r0, v)" "rs_status r = rs_status r0"
  using assms
  by (auto simp: site_answer_def security_context_def Let_def security_headers_def set_header_def split: if_splits)

lemma after_request_cases:
  assumes "documented (ls_backend ls)"
  obtains (unsaved) w where "after_request ls now rq call sw = (fst sw, w)"
      "\<And>r v. site_answer ls now rq call sw = Inr (r, v) \<Longrightarrow> \<not> rs_status r < 500"
  | (saved) r v where "site_answer ls now rq call sw = Inr (r, v)"
      "after_request ls now rq call sw = (vi_session v, vi_world v)"
proof (cases "site_answer ls now rq call sw")
  case (Inl e)
  then show ?thesis using unsaved[of "snd sw"] by (simp add: after_request_def)
next
  case (Inr x)
  obtain r v where x: "x = (r, v)" by (cases x)
  show ?thesis
  proof (cases "sb_saves (ls_backend ls) (rs_status r)")
    case True
    then show ?thesis using saved[of r v] Inr x by (simp add: after_request_def)
  next
    case False
    with documentedD(8)[OF assms] have "\<not> rs_status r < 500" by blast
    then show ?thesis using unsaved[of "vi_world v"] Inr x False by (simp add: after_request_def)
  qed
qed

lemma age_effects:
  assumes "check_session_age b now v = Inr v1"
  shows "v1 = v \<or> v1 = log_out b v \<or> v1 = v\<lparr>vi_session := session_put ''last_active_at'' (Number now) (vi_session v)\<rparr>"
  using assms by (auto simp: check_session_age_def split: if_splits)

section \<open>Sign-ins at the provider\<close>

definition pending :: "string \<Rightarrow> web_session \<Rightarrow> nat" where
  "pending st s = (case login_state (session_get ''oidc'' s) of None \<Rightarrow> 0 | Some (x, rest) \<Rightarrow> if x = st then 1 else 0)"

definition starts_of :: "string \<Rightarrow> site_event list \<Rightarrow> nat" where
  "starts_of st es = length (filter (\<lambda>e. e = Started st) es)"

definition sign_ins_of :: "string \<Rightarrow> site_event list \<Rightarrow> nat" where
  "sign_ins_of st es = length (filter (\<lambda>e. case e of Signed_In n u t x \<Rightarrow> x = st | _ \<Rightarrow> False) es)"

lemma counts_append [simp]:
  "starts_of st (es @ es') = starts_of st es + starts_of st es'"
  "sign_ins_of st (es @ es') = sign_ins_of st es + sign_ins_of st es'"
  by (simp_all add: starts_of_def sign_ins_of_def)

lemma counts_shown [simp]:
  "starts_of st (shown_events ls now sw) = 0" "sign_ins_of st (shown_events ls now sw) = 0"
  by (simp_all add: starts_of_def sign_ins_of_def shown_events_def split: option.splits)

lemma pending_None [simp]: "session_get ''oidc'' s = None \<Longrightarrow> pending st s = 0"
  by (simp add: pending_def login_state_def)

lemma pending_same: "session_get ''oidc'' s = session_get ''oidc'' s' \<Longrightarrow> pending st s = pending st s'"
  by (simp add: pending_def)

lemma pending_le: "session_get ''oidc'' s' = session_get ''oidc'' s \<or> session_get ''oidc'' s' = None \<Longrightarrow> pending st s' \<le> pending st s"
  by (auto simp: pending_def login_state_def)

lemma age_pending:
  assumes "documented b" and "check_session_age b now v = Inr v1"
  shows "pending st (vi_session v1) \<le> pending st (vi_session v)"
  using age_effects[OF assms(2)] session_get_logout[OF assms(1)] by (auto intro!: pending_le simp: log_out_def)

lemma start_effect:
  assumes "documented (ls_backend ls)" and "oidc_start ls c now (s, n, k) v = Inr (r, v')"
  shows "rs_status r = 302 \<and> pending st (vi_session v') = (if s = st then 1 else 0) \<or>
    rs_status r \<noteq> 302 \<and> v' = v"
  using assms by (auto simp: oidc_start_def problem_answer_def problem_response_def redirect_def pending_def login_state_def split: if_splits)

lemma complete_loginE:
  assumes "complete_login ls now a (s, nonce, verifier, created) v = Inr (r, v')"
  obtains claims authenticated email name user shared where "exchange_code ls a verifier = Inr claims"
    "check_claims now nonce claims = Inr (authenticated, email)" "subject_name claims = Inr name"
    "admit_user ls name email (wo_shared (vi_world v)) = Inr (user, shared)" "r = redirect ''/''"
    "v' = stamp_session authenticated now (log_in (ls_backend ls) user (v\<lparr>vi_world := (vi_world v)\<lparr>wo_shared := shared\<rparr>\<rparr>))"
  using assms unfolding complete_login_def Let_def prod.case by (auto split: prod.splits)

lemma completed_session:
  assumes "documented (ls_backend ls)" and "complete_login ls now a x v = Inr (r, v')" and "session_get ''oidc'' (vi_session v) = None"
  shows "session_get ''oidc'' (vi_session v') = None"
proof -
  obtain s n k c where x: "x = (s, n, k, c)" by (cases x)
  obtain t email name user shared where
    v': "v' = stamp_session t now (log_in (ls_backend ls) user (v\<lparr>vi_world := (vi_world v)\<lparr>wo_shared := shared\<rparr>\<rparr>))"
    by (rule complete_loginE [OF assms(2)[unfolded x]])
  show ?thesis using session_get_login[OF assms(1), of "''oidc''" user "vi_session v"] assms(3)
    by (auto simp: v' stamp_session_def log_in_def)
qed

lemma callback_effect:
  assumes "documented (ls_backend ls)" and "oidc_callback ls c now q v = Inr (r, v')"
  shows "session_get ''oidc'' (vi_session v') = None"
    and "rs_status r = 302 \<Longrightarrow> pending (query_or q ''state'') (vi_session v) = 1"
proof -
  let ?v = "v\<lparr>vi_session := session_pop ''oidc'' (vi_session v)\<rparr>"
  obtain found where f: "valid_login_state now (query_or q ''state'') (session_get ''oidc'' (vi_session v)) = Inr found"
    using assms(2) by (auto simp: oidc_callback_def Let_def)
  have pend: "found = Some x \<Longrightarrow> pending (query_or q ''state'') (vi_session v) = 1" for x
    using f by (auto simp: valid_login_state_def pending_def compare_digest_def split: option.splits if_splits)
  have "found = None \<and> rs_status r \<noteq> 302 \<and> v' = ?v \<or>
      (\<exists>x. found = Some x \<and> (complete_login ls now (query_or q ''code'') x ?v = Inr (r, v') \<or> rs_status r \<noteq> 302 \<and> v' = ?v))"
    using assms(2) f
    by (auto simp: oidc_callback_def Let_def problem_answer_def problem_response_def split: option.splits sum.splits if_splits)
  then show "session_get ''oidc'' (vi_session v') = None" and "rs_status r = 302 \<Longrightarrow> pending (query_or q ''state'') (vi_session v) = 1"
    using completed_session[OF assms(1)] pend by auto
qed


lemma login_pending:
  assumes "documented b"
  shows "pending st (vi_session (stamp_session t now (log_in b u v))) \<le> pending st (vi_session v)"
  using session_get_login[OF assms, of "''oidc''" u "vi_session v"]
  by (intro pending_le) (simp add: stamp_session_def log_in_def)

lemma local_effect:
  assumes "documented (ls_backend ls)" and "local_login ls now parent v = Inr (r, v')"
  shows "pending st (vi_session v') \<le> pending st (vi_session v)"
  using assms(2) login_pending[OF assms(1)]
  by (auto simp: local_login_def local_form_valid_def split: if_splits sum.splits)

lemma view_pending:
  assumes doc: "documented (ls_backend ls)" and "proper_call call"
    and view: "site_view_of ls now rq call v = Inr (r, v')"
    and plain: "\<And>x. call \<noteq> Start_Login x" "\<And>q. call \<noteq> Callback q"
  shows "pending st (vi_session v') \<le> pending st (vi_session v)"
proof (cases call)
  case (Local_Login parent)
  then show ?thesis using local_effect[OF doc] view by (auto simp: site_view_of_def)
next
  case Sign_Out
  then show ?thesis using view session_get_logout[OF doc]
    by (auto simp: site_view_of_def sign_out_def log_out_def split: if_splits)
next
  case Home
  then show ?thesis using view by (auto simp: site_view_of_def home_def split: option.splits)
next
  case (Page f)
  then have "keeps_login f" and "f v = Inr (r, v')" using assms(2) view by (auto simp: site_view_of_def proper_call_def)
  then have "session_get ''oidc'' (vi_session v') = session_get ''oidc'' (vi_session v)" by (auto simp: keeps_login_def)
  then show ?thesis by (auto intro: pending_le)
qed (use plain in auto)

lemma no_redirect_events:
  assumes "\<And>r v. site_answer ls now rq call sw = Inr (r, v) \<Longrightarrow> rs_status r \<noteq> 302"
  shows "starts_of st (sign_in_events ls now rq call sw) = 0" "sign_ins_of st (sign_in_events ls now rq call sw) = 0"
  using assms
  by (auto simp: sign_in_events_def starts_of_def sign_ins_of_def split: sum.splits site_call.splits option.splits prod.splits)

lemma other_events:
  assumes "\<And>x. call \<noteq> Start_Login x" "\<And>q. call \<noteq> Callback q"
  shows "sign_ins_of st (sign_in_events ls now rq call sw) = 0"
  using assms
  by (auto simp: sign_in_events_def starts_of_def sign_ins_of_def split: sum.splits site_call.splits option.splits prod.splits)

lemma saved_pending:
  assumes doc: "documented (ls_backend ls)" and "proper_call call" and ans: "site_answer ls now rq call sw = Inr (r, v)"
  shows "sign_ins_of st (sign_in_events ls now rq call sw) + pending st (vi_session v)
    \<le> starts_of st (sign_in_events ls now rq call sw) + pending st (fst sw)"
proof -
  obtain v1 r0 where age: "check_session_age (ls_backend ls) now (arrival (ls_backend ls) sw) = Inr v1"
    and view: "site_view_of ls now rq call v1 = Inr (r0, v)" and st: "rs_status r = rs_status r0"
    by (rule site_answerE [OF ans])
  have p1: "pending st (vi_session v1) \<le> pending st (fst sw)" for st
    using age_pending[OF doc age] by (simp add: arrival_def)
  consider (start) s n k where "call = Start_Login (s, n, k)" | (callback) q where "call = Callback q"
    | (other) "\<And>x. call \<noteq> Start_Login x" "\<And>q. call \<noteq> Callback q"
    by (cases call) auto
  then show ?thesis
  proof cases
    case start
    have ev: "sign_in_events ls now rq call sw = (if rs_status r0 = 302 then [Started s] else [])"
      using ans st start by (simp add: sign_in_events_def)
    have "oidc_start ls (sq_correlation rq) now (s, n, k) v1 = Inr (r0, v)"
      using view start by (simp add: site_view_of_def)
    from start_effect[OF doc this, of st] show ?thesis
      using p1[of st] by (auto simp: ev starts_of_def sign_ins_of_def)
  next
    case callback
    have c: "oidc_callback ls (sq_correlation rq) now q v1 = Inr (r0, v)" using view callback by (simp add: site_view_of_def)
    have "sign_ins_of st (sign_in_events ls now rq call sw) \<le> pending st (vi_session v1)"
    proof (cases "rs_status r0 = 302 \<and> query_or q ''state'' = st")
      case True
      then have "pending st (vi_session v1) = 1" using callback_effect(2)[OF doc c] by auto
      moreover have "sign_ins_of st (sign_in_events ls now rq call sw) \<le> 1"
        using ans callback by (auto simp: sign_in_events_def sign_ins_of_def split: option.splits stored.splits if_splits)
      ultimately show ?thesis by simp
    next
      case False
      then have "sign_ins_of st (sign_in_events ls now rq call sw) = 0"
        using ans callback st by (auto simp: sign_in_events_def sign_ins_of_def split: option.splits stored.splits if_splits)
      then show ?thesis by simp
    qed
    then show ?thesis using p1[of st] callback_effect(1)[OF doc c] by simp
  next
    case other
    then show ?thesis using view_pending[OF doc assms(2) view, of st] p1[of st] other_events[of call st ls now rq sw] by simp
  qed
qed

lemma request_pending:
  assumes doc: "documented (ls_backend ls)" and "proper_call call"
  shows "sign_ins_of st (request_events ls now rq call sw) + pending st (fst (after_request ls now rq call sw))
    \<le> starts_of st (request_events ls now rq call sw) + pending st (fst sw)"
  using doc
proof (cases rule: after_request_cases [of ls now rq call sw])
  case (unsaved w)
  have "site_answer ls now rq call sw = Inr (r, v) \<Longrightarrow> rs_status r \<noteq> 302" for r v using unsaved(2) by force
  then show ?thesis using no_redirect_events[of ls now rq call sw] unsaved(1) by (simp add: request_events_def)
next
  case (saved r v)
  then show ?thesis using saved_pending[OF assms saved(1), of st] by (simp add: request_events_def)
qed

lemma history_pending:
  assumes "browses ls es sw" and "documented (ls_backend ls)"
  shows "sign_ins_of st es + pending st (fst sw) \<le> starts_of st es"
  using assms
proof (induction rule: browses.induct)
  case (Fresh s w)
  then show ?case by (simp add: sign_ins_of_def session_get_data)
next
  case (Request es sw call now rq)
  then show ?case using request_pending[of ls call st now rq sw] by fastforce
qed simp


section \<open>The age of a session\<close>

definition signed_in_at :: "int \<Rightarrow> datetime \<Rightarrow> site_event list \<Rightarrow> bool" where
  "signed_in_at u auth es \<longleftrightarrow> (\<exists>n st. Signed_In n u auth st \<in> set es) \<or> Signed_Locally u auth \<in> set es"

definition active_at :: "int \<Rightarrow> datetime \<Rightarrow> site_event list \<Rightarrow> bool" where
  "active_at u t es \<longleftrightarrow> Shown t u \<in> set es \<or> (\<exists>auth st. Signed_In t u auth st \<in> set es) \<or> Signed_Locally u t \<in> set es"

definition dated :: "site_event list \<Rightarrow> web_session \<Rightarrow> bool" where
  "dated es s \<longleftrightarrow> (\<forall>u. ws_user s = Some u \<longrightarrow> (\<exists>auth last_seen.
     session_get ''authenticated_at'' s = Some (Number auth) \<and> session_get ''last_active_at'' s = Some (Number last_seen) \<and>
     auth \<noteq> 0 \<and> signed_in_at u auth es \<and> active_at u last_seen es))"

lemma dated_more: "dated es s \<Longrightarrow> dated (es @ es') s"
  by (fastforce simp: dated_def signed_in_at_def active_at_def)

lemma dated_same:
  assumes "dated es s" and "ws_user s' = ws_user s"
    and "\<And>k. k \<noteq> ''oidc'' \<Longrightarrow> k \<in> {''authenticated_at'', ''last_active_at''} \<Longrightarrow> session_get k s' = session_get k s"
  shows "dated es s'"
  using assms by (auto simp: dated_def)

lemma dated_anonymous: "ws_user s = None \<Longrightarrow> dated es s"
  by (simp add: dated_def)

lemma dated_stamp:
  assumes "documented b" and "signed_in_at u auth es" and "active_at u now es" and "auth \<noteq> 0"
  shows "dated es (vi_session (stamp_session auth now (log_in b u v)))"
  using assms documentedD(4)[OF assms(1)] by (auto simp: dated_def stamp_session_def log_in_def)

text \<open>What the age of a session of a history lets through.\<close>

lemma age_of_dated:
  assumes doc: "documented b" and "dated es (fst sw)" and age: "check_session_age b now (arrival b sw) = Inr v1"
    and user: "vi_user v1 = Some u"
  obtains auth last_seen where "signed_in_at u auth es" "active_at u last_seen es" "\<not> too_old now auth last_seen"
    "vi_session v1 = session_put ''last_active_at'' (Number now) (fst sw)" "ws_user (fst sw) = Some u"
    "auth \<noteq> 0" "session_get ''authenticated_at'' (fst sw) = Some (Number auth)"
proof -
  have "sb_user b (wo_shared (snd sw)) (fst sw) = Some u"
    using age_effects[OF age] user by (auto simp: arrival_def log_out_def)
  then have u: "vi_user (arrival b sw) = Some u" and ws: "ws_user (fst sw) = Some u"
    using documentedD(1)[OF doc] by (auto simp: arrival_def)
  with assms(2) obtain auth last_seen where d: "session_get ''authenticated_at'' (fst sw) = Some (Number auth)"
    "session_get ''last_active_at'' (fst sw) = Some (Number last_seen)" "auth \<noteq> 0"
    "signed_in_at u auth es" "active_at u last_seen es"
    by (auto simp: dated_def)
  have "\<not> too_old now auth last_seen" and "vi_session v1 = session_put ''last_active_at'' (Number now) (fst sw)"
    using age user u d by (auto simp: check_session_age_def session_time_def arrival_def log_out_def split: if_splits)
  with d ws show ?thesis by (intro that)
qed

lemma dated_after_age:
  assumes doc: "documented (ls_backend ls)" and dated: "dated es (fst sw)"
    and age: "check_session_age (ls_backend ls) now (arrival (ls_backend ls) sw) = Inr v1"
  shows "dated (es @ shown_events ls now sw) (vi_session v1)"
proof (cases "vi_user v1")
  case None
  then have "v1 = arrival (ls_backend ls) sw \<or> v1 = log_out (ls_backend ls) (arrival (ls_backend ls) sw)"
    using age by (auto simp: check_session_age_def split: if_splits)
  then show ?thesis using dated_more[OF dated] documentedD(6)[OF doc]
    by (auto simp: arrival_def log_out_def intro: dated_anonymous)
next
  case (Some u)
  then obtain auth where "signed_in_at u auth es" "auth \<noteq> 0" "ws_user (fst sw) = Some u"
    "session_get ''authenticated_at'' (fst sw) = Some (Number auth)"
    and v1: "vi_session v1 = session_put ''last_active_at'' (Number now) (fst sw)"
    by (rule age_of_dated [OF doc dated age])
  moreover have "shown_events ls now sw = [Shown now u]" using age Some by (simp add: shown_events_def shown_user_def)
  ultimately show ?thesis by (auto simp: v1 dated_def signed_in_at_def active_at_def)
qed

lemma checked_time:
  assumes "check_claims now nonce claims = Inr (t, email)"
  shows "now - seconds 600 \<le> t" "t \<le> now + seconds 60"
  using assms by (auto simp: check_claims_def Let_def split: option.splits json.splits if_splits)

lemma callback_dated:
  assumes doc: "documented (ls_backend ls)" and call: "oidc_callback ls c now q v = Inr (r, v')"
    and dated: "dated es (vi_session v)" and clock: "seconds 600 < now"
  shows "rs_status r \<noteq> 302 \<and> dated es (vi_session v') \<or>
    (\<exists>u t. rs_status r = 302 \<and> vi_user v' = Some u \<and> session_get ''authenticated_at'' (vi_session v') = Some (Number t) \<and>
      dated (es @ [Signed_In now u t st]) (vi_session v'))"
proof -
  let ?v = "v\<lparr>vi_session := session_pop ''oidc'' (vi_session v)\<rparr>"
  consider (refused) "rs_status r \<noteq> 302" "v' = ?v" | (completed) x where "complete_login ls now (query_or q ''code'') x ?v = Inr (r, v')"
    using call
    by (auto simp: oidc_callback_def Let_def problem_answer_def problem_response_def split: option.splits sum.splits if_splits)
  then show ?thesis
  proof cases
    case refused
    have "dated es (vi_session ?v)" by (rule dated_same [OF dated]) simp_all
    with refused show ?thesis by simp
  next
    case (completed x)
    obtain s n k created where x: "x = (s, n, k, created)" by (cases x)
    obtain claims t email user shared where t: "check_claims now n claims = Inr (t, email)" and r: "r = redirect ''/''"
      and v': "v' = stamp_session t now (log_in (ls_backend ls) user (?v\<lparr>vi_world := (vi_world ?v)\<lparr>wo_shared := shared\<rparr>\<rparr>))"
      by (rule complete_loginE [OF completed[unfolded x]])
    have "t \<noteq> 0" using checked_time(1)[OF t] clock by simp
    then have "dated (es @ [Signed_In now user t st]) (vi_session v')"
      unfolding v' by (intro dated_stamp [OF doc]) (auto simp: signed_in_at_def active_at_def)
    moreover have "vi_user v' = Some user" "session_get ''authenticated_at'' (vi_session v') = Some (Number t)"
      by (simp_all add: v' stamp_session_def log_in_def)
    ultimately show ?thesis using r by (auto simp: redirect_def)
  qed
qed


lemma view_dated:
  assumes doc: "documented (ls_backend ls)" and "proper_call call" and clock: "seconds 600 < now"
    and view: "site_view_of ls now rq call v = Inr (r, v')" and dated: "dated es (vi_session v)"
    and plain: "\<And>q. call \<noteq> Callback q" "\<And>p. call \<noteq> Local_Login p"
  shows "dated es (vi_session v')"
proof (cases call)
  case (Start_Login x)
  then have "v' = v \<or> (\<exists>y. vi_session v' = session_put ''oidc'' y (sb_cycle (ls_backend ls) (vi_session v)))"
    using view by (cases x) (auto simp: site_view_of_def oidc_start_def split: if_splits)
  then show ?thesis
    by (elim disjE exE) (auto intro!: dated_same [OF dated] simp: documentedD[OF doc] session_get_cycle[OF doc] dated)
next
  case Sign_Out
  then show ?thesis using view dated documentedD(6)[OF doc]
    by (auto simp: site_view_of_def sign_out_def log_out_def intro: dated_anonymous split: if_splits)
next
  case Home
  then show ?thesis using view dated by (auto simp: site_view_of_def home_def split: option.splits)
next
  case (Page f)
  then have "keeps_login f" and "f v = Inr (r, v')" using assms(2) view by (auto simp: site_view_of_def proper_call_def)
  then show ?thesis by (intro dated_same [OF dated]) (auto simp: keeps_login_def)
qed (use plain in auto)

lemma local_dated:
  assumes doc: "documented (ls_backend ls)" and view: "local_login ls now parent v = Inr (r, v')"
    and dated: "dated es (vi_session v)" and clock: "seconds 600 < now"
  shows "(ls_production ls \<or> (\<exists>x. parent v = Inl x)) \<and> dated es (vi_session v') \<or>
    (\<exists>u x. \<not> ls_production ls \<and> parent v = Inr (u, x) \<and> dated (es @ [Signed_Locally u now]) (vi_session v'))"
proof (cases "\<not> ls_production ls \<and> (\<exists>y. parent v = Inr y)")
  case True
  then obtain u x where p: "parent v = Inr (u, x)" by auto
  with True view have v': "v' = stamp_session now now (log_in (ls_backend ls) u v)"
    by (simp add: local_login_def local_form_valid_def)
  have "dated (es @ [Signed_Locally u now]) (vi_session v')"
    unfolding v' using clock by (intro dated_stamp [OF doc]) (auto simp: signed_in_at_def active_at_def seconds_def)
  with True p show ?thesis by blast
next
  case False
  then have v': "v' = v" using view by (auto simp: local_login_def split: sum.splits if_splits)
  have "ls_production ls \<or> (\<exists>x. parent v = Inl x)" using False by (cases "parent v") auto
  with v' dated show ?thesis by blast
qed

lemma request_dated:
  assumes doc: "documented (ls_backend ls)" and "proper_call call" and clock: "seconds 600 < now" and dated: "dated es (fst sw)"
  shows "dated (es @ request_events ls now rq call sw) (fst (after_request ls now rq call sw))"
  using doc
proof (cases rule: after_request_cases [of ls now rq call sw])
  case (unsaved w)
  then show ?thesis using dated_more[OF dated] by simp
next
  case (saved r v)
  obtain v1 r0 where age: "check_session_age (ls_backend ls) now (arrival (ls_backend ls) sw) = Inr v1"
    and view: "site_view_of ls now rq call v1 = Inr (r0, v)" and st: "rs_status r = rs_status r0"
    by (rule site_answerE [OF saved(1)])
  let ?es = "es @ shown_events ls now sw"
  have d1: "dated ?es (vi_session v1)" by (rule dated_after_age [OF doc dated age])
  have "dated (?es @ sign_in_events ls now rq call sw) (vi_session v)"
  proof (cases "(\<exists>q. call = Callback q) \<or> (\<exists>p. call = Local_Login p)")
    case False
    then have "dated ?es (vi_session v)" by (intro view_dated [OF doc assms(2) clock view d1]) auto
    then show ?thesis by (rule dated_more)
  next
    case True
    then show ?thesis
    proof (elim disjE exE)
      fix q assume q: "call = Callback q"
      with view have "oidc_callback ls (sq_correlation rq) now q v1 = Inr (r0, v)" by (simp add: site_view_of_def)
      from callback_dated[OF doc this d1 clock, of "query_or q ''state''"] show ?thesis
        using saved(1) q st by (auto simp: sign_in_events_def)
    next
      fix p assume p: "call = Local_Login p"
      with view have l: "local_login ls now p v1 = Inr (r0, v)" by (simp add: site_view_of_def)
      from local_dated[OF doc l d1 clock] show ?thesis
        using saved(1) p age dated_more
        by (auto simp: sign_in_events_def parent_user_def split: sum.split option.split prod.split)
    qed
  qed
  then show ?thesis by (simp add: request_events_def saved(2))
qed

lemma history_dated:
  assumes "browses ls es sw" and "documented (ls_backend ls)"
  shows "dated es (fst sw)"
  using assms
proof (induction rule: browses.induct)
  case (Request es sw call now rq)
  then show ?case using request_dated by simp
qed (simp_all add: dated_anonymous)

section \<open>The properties\<close>

text \<open>C1: Login states are used once: in every history of a browser's session, starting without a user,
  the sign-ins that the provider's callback completed with a given \<open>state\<close> are at most as many as
  the redirects to the provider that were issued with it: neither a replayed callback nor one that
  this browser did not ask for signs in.\<close>

theorem sign_ins_use_up_their_starts:
  assumes "browses ls es sw" and "documented (ls_backend ls)"
  shows "length (filter (\<lambda>e. case e of Signed_In n u t x \<Rightarrow> x = st | _ \<Rightarrow> False) es) \<le> length (filter (\<lambda>e. e = Started st) es)"
  using history_pending[OF assms, of st] by (simp add: sign_ins_of_def starts_of_def)

text \<open>C36: Sessions end: whenever the age check lets a request of a history be shown to a user, that user
  signed in within this session not more than eight hours before, by the time the provider attests,
  and the session was in use not more than thirty minutes before.\<close>

theorem sessions_are_shown_for_a_limited_time:
  assumes "browses ls es sw" and "documented (ls_backend ls)" and "shown_user ls now sw = Some u"
  shows "\<exists>auth last_seen. signed_in_at u auth es \<and> active_at u last_seen es \<and>
    now - auth \<le> hours 8 \<and> now - last_seen \<le> minutes 30"
proof -
  obtain v1 where age: "check_session_age (ls_backend ls) now (arrival (ls_backend ls) sw) = Inr v1" and u: "vi_user v1 = Some u"
    using assms(3) by (auto simp: shown_user_def split: sum.splits)
  obtain auth last_seen where "signed_in_at u auth es" "active_at u last_seen es" "\<not> too_old now auth last_seen"
    by (rule age_of_dated [OF assms(2) history_dated [OF assms(1,2)] age u])
  then show ?thesis
    by (intro exI[of _ auth] exI[of _ last_seen])
      (simp add: too_old_def SESSION_COOKIE_AGE_def SESSION_IDLE_SECONDS_def hours_def minutes_def seconds_def)
qed

section \<open>A browser that signs in\<close>

definition ex_backend :: session_backend where
  "ex_backend = \<lparr>sb_user = (\<lambda>d s. ws_user s), sb_cycle = (\<lambda>s. s\<lparr>ws_key := ''k'' @ ws_key s\<rparr>),
     sb_login = (\<lambda>u s. s\<lparr>ws_user := Some u\<rparr>), sb_logout = (\<lambda>s. s\<lparr>ws_user := None, ws_data := []\<rparr>),
     sb_float = (\<lambda>_. None), sb_saves = (\<lambda>n. n < 500)\<rparr>"

definition ex_login :: login_settings where
  "ex_login = \<lparr>ls_backend = ex_backend, ls_domain = ''https://login'', ls_client = ''client'', ls_secret = [],
     ls_issuer = ''https://issuer'', ls_public_url = ''https://app'', ls_production = True, ls_sha256 = id,
     ls_token = (\<lambda>url form auth. Inr (JObj [(''id_token'', JStr ''n'')])),
     ls_claims = (\<lambda>url token audience issuer. Inr [(''token_use'', JStr ''id''), (''nonce'', token),
       (''email_verified'', JBool True), (''auth_time'', JInt 1000), (''email'', JStr ''a@b''), (''sub'', JStr ''x'')]),
     ls_unusable = ''!''\<rparr>"

definition ex_site_request :: site_request where
  "ex_site_request = \<lparr>sq_method = ''GET'', sq_path = ''/auth/callback'', sq_parent = [], sq_correlation = ''c'',
     sq_hex16 = replicate 32 (CHR ''1''), sq_hex8 = replicate 16 (CHR ''1''),
     sq_elapsed = \<lparr>me_repr = ''1.0'', me_finite = True, me_negative = False\<rparr>\<rparr>"

definition ex_world :: world where
  "ex_world = \<lparr>wo_shared = empty_db, wo_tenants = (\<lambda>_. empty_db)\<rparr>"

definition ex_anonymous :: web_session where
  "ex_anonymous = \<lparr>ws_key = [], ws_user = None, ws_data = []\<rparr>"

definition ex_started :: "web_session \<times> world" where
  "ex_started = after_request ex_login (seconds 1000) ex_site_request (Start_Login (''s'', ''n'', ''v'')) (ex_anonymous, ex_world)"

definition ex_query :: "(string \<times> string) list" where
  "ex_query = [(''state'', ''s''), (''code'', ''a'')]"

definition ex_signed_in :: "web_session \<times> world" where
  "ex_signed_in = after_request ex_login (seconds 1010) ex_site_request (Callback ex_query) ex_started"

lemma ex_backend_documented: "documented (ls_backend ex_login)"
  by (simp add: documented_def ex_login_def ex_backend_def)

lemma ex_started_events:
  "request_events ex_login (seconds 1000) ex_site_request (Start_Login (''s'', ''n'', ''v'')) (ex_anonymous, ex_world) = [Started ''s'']"
  by code_simp

lemma ex_signed_in_events:
  "request_events ex_login (seconds 1010) ex_site_request (Callback ex_query) ex_started = [Signed_In (seconds 1010) 1 (seconds 1000) ''s'']"
  by code_simp

lemma ex_fresh_session: "ws_user ex_anonymous = None" "ws_data ex_anonymous = []" "proper_call (Start_Login x)"
  "proper_call (Callback q)" "seconds 600 < seconds 1000" "seconds 600 < seconds 1010"
  by (simp_all add: ex_anonymous_def proper_call_def seconds_def)

lemma ex_browses: "browses ex_login [Started ''s'', Signed_In (seconds 1010) 1 (seconds 1000) ''s''] ex_signed_in"
proof -
  have "browses ex_login [Started ''s''] ex_started"
    using browses.Request[OF browses.Fresh[of ex_anonymous ex_login ex_world], of "Start_Login (''s'', ''n'', ''v'')" "seconds 1000" ex_site_request]
    by (simp only: ex_started_events ex_started_def [symmetric] append_Nil ex_fresh_session)
  from browses.Request[OF this, of "Callback ex_query" "seconds 1010" ex_site_request] show ?thesis
    by (simp only: ex_signed_in_events ex_signed_in_def [symmetric] append.simps ex_fresh_session)
qed

lemma ex_shown: "shown_user ex_login (seconds 1020) ex_signed_in = Some 1"
  by code_simp

theorem sign_ins_use_up_their_starts_witness:
  "length (filter (\<lambda>e. case e of Signed_In n u t x \<Rightarrow> x = ''s'' | _ \<Rightarrow> False) [Started ''s'', Signed_In (seconds 1010) 1 (seconds 1000) ''s''])
    \<le> length (filter (\<lambda>e. e = Started ''s'') [Started ''s'', Signed_In (seconds 1010) 1 (seconds 1000) ''s''])"
  by (rule sign_ins_use_up_their_starts [OF ex_browses ex_backend_documented])

theorem sessions_are_shown_for_a_limited_time_witness:
  "\<exists>auth last_seen. signed_in_at 1 auth [Started ''s'', Signed_In (seconds 1010) 1 (seconds 1000) ''s''] \<and>
    active_at 1 last_seen [Started ''s'', Signed_In (seconds 1010) 1 (seconds 1000) ''s''] \<and>
    seconds 1020 - auth \<le> hours 8 \<and> seconds 1020 - last_seen \<le> minutes 30"
  by (rule sessions_are_shown_for_a_limited_time [OF ex_browses ex_backend_documented ex_shown])

end
