(* ===== verification/Csv_Reader.thy ===== *)
theory Csv_Reader imports Reporting begin

text \<open>
  The reader of \<open>modules/reporting/cli.py\<close>: Python's \<open>csv\<close> module on a text file (default dialect),
  \<open>csv.DictReader\<close>, and the bounded import \<open>rows\<close>. The reader is the state machine of the
  library: a text is fed line by line, each line followed by an end-of-line event, and a record ends
  when the machine is back in its first state.
\<close>

section \<open>The state machine\<close>

datatype csv_mode = Start_Record | Start_Field | In_Field | In_Quoted | Quote_In_Quoted | Eat_Newline

record csv_state =
  cv_mode :: csv_mode
  cv_field :: string
  cv_fields :: "string list"

definition FIELD_LIMIT :: nat where "FIELD_LIMIT = 131072"

definition COMMA :: char where "COMMA = CHR '',''"

definition csv_fresh :: csv_state where
  "csv_fresh = \<lparr>cv_mode = Start_Record, cv_field = [], cv_fields = []\<rparr>"

definition add_char :: "csv_mode \<Rightarrow> char \<Rightarrow> csv_state \<Rightarrow> csv_state result" where
  "add_char mode c st =
     (if FIELD_LIMIT \<le> length (cv_field st) then Inl (OtherError ''csv.Error'')
      else Inr (st\<lparr>cv_mode := mode, cv_field := cv_field st @ [c]\<rparr>))"

definition save_field :: "csv_mode \<Rightarrow> csv_state \<Rightarrow> csv_state" where
  "save_field mode st = st\<lparr>cv_mode := mode, cv_field := [], cv_fields := cv_fields st @ [cv_field st]\<rparr>"

definition line_char :: "char option \<Rightarrow> bool" where
  "line_char e \<longleftrightarrow> e = None \<or> e = Some CR \<or> e = Some LF"

text \<open>Where a line end leads: the end-of-line event ends the record, a character is skipped with its kin.\<close>

definition line_mode :: "char option \<Rightarrow> csv_mode" where
  "line_mode e = (if e = None then Start_Record else Eat_Newline)"

definition start_field :: "char option \<Rightarrow> csv_state \<Rightarrow> csv_state result" where
  "start_field e st =
     (if line_char e then Inr (save_field (line_mode e) st)
      else if e = Some QUOTE then Inr (st\<lparr>cv_mode := In_Quoted\<rparr>)
      else if e = Some COMMA then Inr (save_field Start_Field st)
      else (case e of None \<Rightarrow> Inr st | Some c \<Rightarrow> add_char In_Field c st))"

text \<open>One event: a character of the line, or nothing for the end of the line.\<close>

definition csv_step :: "char option \<Rightarrow> csv_state \<Rightarrow> csv_state result" where
  "csv_step e st =
     (case cv_mode st of
        Start_Record \<Rightarrow>
          (if e = None then Inr st else if line_char e then Inr (st\<lparr>cv_mode := Eat_Newline\<rparr>) else start_field e st)
      | Start_Field \<Rightarrow> start_field e st
      | In_Field \<Rightarrow>
          (if line_char e then Inr (save_field (line_mode e) st)
           else if e = Some COMMA then Inr (save_field Start_Field st)
           else (case e of None \<Rightarrow> Inr st | Some c \<Rightarrow> add_char In_Field c st))
      | In_Quoted \<Rightarrow>
          (case e of None \<Rightarrow> Inr st
           | Some c \<Rightarrow> if c = QUOTE then Inr (st\<lparr>cv_mode := Quote_In_Quoted\<rparr>) else add_char In_Quoted c st)
      | Quote_In_Quoted \<Rightarrow>
          (if e = Some QUOTE then add_char In_Quoted QUOTE st
           else if e = Some COMMA then Inr (save_field Start_Field st)
           else if line_char e then Inr (save_field (line_mode e) st)
           else (case e of None \<Rightarrow> Inr st | Some c \<Rightarrow> add_char In_Field c st))
      | Eat_Newline \<Rightarrow>
          (if e = None then Inr (st\<lparr>cv_mode := Start_Record\<rparr>)
           else if line_char e then Inr st else Inl (OtherError ''csv.Error'')))"

text \<open>
  The lines of a text opened with \<open>newline=''\<close>: they end after LF, after CRLF and after any other CR,
  and keep their ends. The flag says whether characters of an unfinished line were seen.
\<close>

fun line_events :: "bool \<Rightarrow> string \<Rightarrow> char option list" where
  "line_events pending [] = (if pending then [None] else [])"
| "line_events pending (c # s) =
     Some c # (if c = LF \<or> c = CR \<and> (s = [] \<or> hd s \<noteq> LF) then None # line_events False s else line_events True s)"

text \<open>
  The records up to the end of the text or the first error. At the end an open quoted field is
  closed. The second component is an error that ends the text itself (undecodable bytes).
\<close>

fun csv_records :: "char option list \<Rightarrow> exn option \<Rightarrow> csv_state \<Rightarrow> string list list \<times> exn option" where
  "csv_records [] err st =
     (if err = None \<and> (cv_field st \<noteq> [] \<or> cv_mode st = In_Quoted) then ([cv_fields st @ [cv_field st]], None)
      else ([], err))"
| "csv_records (e # es) err st =
     (case csv_step e st of
        Inl x \<Rightarrow> ([], Some x)
      | Inr st' \<Rightarrow>
          if e = None \<and> cv_mode st' = Start_Record
          then (case csv_records es err csv_fresh of (rs, x) \<Rightarrow> (cv_fields st' # rs, x))
          else csv_records es err st')"

definition csv_text :: "string \<Rightarrow> exn option \<Rightarrow> string list list \<times> exn option" where
  "csv_text text err = csv_records (line_events False text) err csv_fresh"

section \<open>The bounded import\<close>

definition MAX_IMPORT :: nat where "MAX_IMPORT = 20 * 1024 * 1024"

definition MAX_RECORDS :: nat where "MAX_RECORDS = 100000"

type_synonym csv_row = "(string \<times> string) list"

text \<open>\<open>DictReader\<close> skips empty records; a record of another length than the header has a \<open>None\<close> in its dictionary.\<close>

fun import_rows :: "string list \<Rightarrow> string list list \<Rightarrow> exn option \<Rightarrow> nat \<Rightarrow> csv_row list result" where
  "import_rows header [] err n = (case err of None \<Rightarrow> Inr [] | Some e \<Rightarrow> Inl e)"
| "import_rows header (r # rs) err n =
     (if r = [] then import_rows header rs err n
      else rbind (guard (length r = length header) (ValueError ''Malformed CSV record'')) (\<lambda>_.
        rbind (guard (n < MAX_RECORDS) (ValueError ''Import exceeds 100,000 records'')) (\<lambda>_.
        rbind (import_rows header rs err (Suc n)) (\<lambda>rows. Inr (zip header r # rows)))))"

definition import_table :: "string list \<Rightarrow> string list list \<times> exn option \<Rightarrow> csv_row list result" where
  "import_table required t =
     (let bad = Inl (ValueError ''CSV header is missing required fields or contains duplicates'') in
      case t of
        ([], Some e) \<Rightarrow> Inl e
      | ([], None) \<Rightarrow> bad
      | (header # rs, err) \<Rightarrow>
          if header = [] \<or> \<not> distinct header \<or> \<not> set required \<subseteq> set header then bad
          else import_rows header rs err 0)"

text \<open>\<open>decode\<close> is the codec \<open>utf-8-sig\<close>: the text before an undecodable byte, and the error if there is one.\<close>

definition csv_rows :: "(string \<Rightarrow> string \<times> exn option) \<Rightarrow> string list \<Rightarrow> string result \<Rightarrow> csv_row list result" where
  "csv_rows decode required content =
     rbind content (\<lambda>bytes.
     rbind (guard (length bytes \<le> MAX_IMPORT) (ValueError ''Import exceeds 20 MiB'')) (\<lambda>_.
     case decode bytes of (text, err) \<Rightarrow> import_table required (csv_text text err)))"

end
