(* ===== verification/Audit_Cli.thy ===== *)
theory Audit_Cli imports Csv_Reader Engine Validation begin

text \<open>
  The command of \<open>modules/reporting/cli.py\<close>: the offline audit of exported payments, orders and
  refunds. The file system, the UTF-8 codec, the PDF library and SHA-256 are parameters, and so is
  \<open>datetime.fromisoformat\<close> on the basic and week formats.
\<close>

section \<open>Cells\<close>

record audit_env =
  au_hash :: digest
  au_iso :: "string \<Rightarrow> datetime option"
  au_decode :: "string \<Rightarrow> string \<times> exn option"
  au_read :: "string \<Rightarrow> string result"
  au_mkdir :: "string \<Rightarrow> unit result"
  au_write :: "string \<Rightarrow> string \<Rightarrow> unit result"
  au_pdf :: "pdf_document \<Rightarrow> (nat \<Rightarrow> (string \<times> int \<times> string) list) \<Rightarrow> string"

definition cli_date :: "audit_env \<Rightarrow> string \<Rightarrow> datetime result" where
  "cli_date au s =
     (if \<not> endswith s ''Z'' then Inl (ValueError ''Timestamps must be UTC and end in Z'')
      else (case fromisoformat (replace_Z s) of
          Some d \<Rightarrow> Inr d
        | None \<Rightarrow> (case au_iso au (replace_Z s) of Some d \<Rightarrow> Inr d
            | None \<Rightarrow> Inl (ValueError ''Invalid isoformat string''))))"

definition cli_integer :: "string \<Rightarrow> int result" where
  "cli_integer s =
     rbind (guard (s \<noteq> [] \<and> length s \<le> 19 \<and> list_all is_digit s) (ValueError ''Expected integer minor units'')) (\<lambda>_.
     Inr (read_digits s))"

text \<open>\<open>r.get(k, "")\<close>; a required column is always present.\<close>

definition cell :: "csv_row \<Rightarrow> string \<Rightarrow> string" where
  "cell r k = (case map_of r k of Some x \<Rightarrow> x | None \<Rightarrow> [])"

definition cell_or :: "csv_row \<Rightarrow> string \<Rightarrow> string \<Rightarrow> string" where
  "cell_or r k fallback = (if cell r k = [] then fallback else cell r k)"

definition cell_ids :: "csv_row \<Rightarrow> string \<Rightarrow> string list" where
  "cell_ids r k = filter (\<lambda>x. x \<noteq> []) (split_at (CHR '';'') (cell r k))"

definition cell_date_opt :: "audit_env \<Rightarrow> csv_row \<Rightarrow> string \<Rightarrow> datetime option result" where
  "cell_date_opt au r k = (if cell r k = [] then Inr None else rbind (cli_date au (cell r k)) (\<lambda>d. Inr (Some d)))"

definition stripe_cell :: "csv_row \<Rightarrow> string \<Rightarrow> money result" where
  "stripe_cell r k = rbind (cli_integer (cell r k)) (\<lambda>n. parse_stripe (JInt n) (cell r ''currency''))"

definition woo_cell :: "csv_row \<Rightarrow> string \<Rightarrow> money result" where
  "woo_cell r k = parse_woo (JStr (cell r k)) (cell r ''currency'')"

section \<open>Facts\<close>

definition STRIPE_COLUMNS :: "string list" where
  "STRIPE_COLUMNS = [''id'', ''status'', ''amount'', ''amount_received'', ''currency'', ''created_at'', ''changed_at'',
     ''account_id'', ''mode'']"

definition csv_payment :: "audit_env \<Rightarrow> string \<Rightarrow> string \<Rightarrow> csv_row \<Rightarrow> payment result" where
  "csv_payment au account mode r =
     rbind (guard (cell r ''account_id'' = account \<and> cell r ''mode'' = mode) (ValueError ''Stripe namespace mismatch'')) (\<lambda>_.
     rbind (stripe_cell r ''amount'') (\<lambda>amount. rbind (stripe_cell r ''amount_received'') (\<lambda>received.
     rbind (cli_date au (cell r ''created_at'')) (\<lambda>created. rbind (cli_date au (cell r ''changed_at'')) (\<lambda>changed.
     rbind (cell_date_opt au r ''succeeded_at'') (\<lambda>succeeded.
     mk_payment \<lparr>pay_id = cell r ''id'', pay_account = account, pay_mode = mode, pay_status = cell r ''status'',
       pay_amount = amount, pay_received = received, pay_created = Aware created, pay_changed = Aware changed,
       pay_succeeded = map_option Aware succeeded, pay_method = cell_or r ''method'' ''card'',
       pay_capture_method = cell_or r ''capture_method'' ''automatic'', pay_charge_ids = cell_ids r ''charge_id'',
       pay_session_ids = cell_ids r ''session_id'', pay_store_hint = cell r ''store_id'',
       pay_order_hint = cell r ''order_id'', pay_observation = []\<rparr>))))))"

definition WOO_COLUMNS :: "string list" where
  "WOO_COLUMNS = [''id'', ''status'', ''amount'', ''total_refunded'', ''currency'', ''created_at'', ''changed_at'', ''store_id'',
     ''mode'', ''transaction_id'']"

definition csv_order :: "audit_env \<Rightarrow> string \<Rightarrow> string \<Rightarrow> csv_row \<Rightarrow> order result" where
  "csv_order au store mode r =
     rbind (guard (cell r ''store_id'' = store \<and> cell r ''mode'' = mode) (ValueError ''Woo namespace mismatch'')) (\<lambda>_.
     rbind (woo_cell r ''amount'') (\<lambda>amount. rbind (woo_cell r ''total_refunded'') (\<lambda>refunded.
     rbind (cli_date au (cell r ''created_at'')) (\<lambda>created. rbind (cli_date au (cell r ''changed_at'')) (\<lambda>changed.
     rbind (cell_date_opt au r ''paid_at'') (\<lambda>paid.
     mk_order \<lparr>ord_id = cell r ''id'', ord_store = store, ord_mode = mode, ord_status = cell r ''status'',
       ord_amount = amount, ord_refunded = refunded, ord_created = Aware created, ord_changed = Aware changed,
       ord_paid = map_option Aware paid, ord_method = cell_or r ''payment_method'' ''stripe'',
       ord_transaction = cell r ''transaction_id'', ord_intent = cell r ''payment_intent_id'',
       ord_charge = cell r ''charge_id'', ord_session = cell r ''session_id'', ord_observation = []\<rparr>))))))"

definition REFUND_COLUMNS :: "string list" where
  "REFUND_COLUMNS = [''id'', ''source'', ''parent_id'', ''amount'', ''currency'', ''status'', ''changed_at'']"

definition csv_refund :: "audit_env \<Rightarrow> csv_row \<Rightarrow> refund result" where
  "csv_refund au r =
     rbind (guard (cell r ''source'' \<in> {''stripe'', ''woo''}) (ValueError ''Invalid refund source'')) (\<lambda>_.
     rbind (if cell r ''source'' = ''stripe'' then stripe_cell r ''amount'' else woo_cell r ''amount'') (\<lambda>amount.
     rbind (cli_date au (cell r ''changed_at'')) (\<lambda>changed.
     mk_refund \<lparr>ref_id = cell r ''id'', ref_source = cell r ''source'', ref_parent = cell r ''parent_id'',
       ref_amount = amount, ref_status = cell r ''status'', ref_changed = Aware changed, ref_observation = []\<rparr>)))"

section \<open>The audit\<close>

definition SOURCES :: "string list" where
  "SOURCES = [''stripe_payments'', ''stripe_refunds'', ''woo_orders'', ''woo_refunds'']"

definition audit_coverage :: "datetime \<Rightarrow> datetime \<Rightarrow> datetime \<Rightarrow> string \<Rightarrow> coverage result" where
  "audit_coverage from through as_of source = mk_coverage \<lparr>cov_source = source, cov_from = Aware from,
     cov_through = Aware through, cov_observed = Aware as_of, cov_complete = True, cov_offset = 0\<rparr>"

definition load_facts :: "audit_env \<Rightarrow> string list \<Rightarrow> (csv_row \<Rightarrow> 'a result) \<Rightarrow> string \<Rightarrow> 'a list result" where
  "load_facts au columns read_row path =
     rbind (csv_rows (au_decode au) columns (au_read au path)) (\<lambda>rows. map_res read_row rows)"

definition audit_csv :: "audit_env \<Rightarrow> string \<Rightarrow> string \<Rightarrow> string \<Rightarrow> string \<Rightarrow> string \<Rightarrow> string \<Rightarrow> datetime \<Rightarrow> datetime \<Rightarrow> datetime \<Rightarrow>
    string option \<Rightarrow> evaluation result" where
  "audit_csv au stripe_path woo_path org store account mode as_of from through refund_path =
     rbind (guard (mode \<in> {''test'', ''live''}) (ValueError ''Mode must be test or live'')) (\<lambda>_.
     rbind (guard (as_of - days 35 \<le> from \<and> from < through \<and> through \<le> as_of) (ValueError ''Invalid audit coverage'')) (\<lambda>_.
     rbind (load_facts au STRIPE_COLUMNS (csv_payment au account mode) stripe_path) (\<lambda>payments.
     rbind (load_facts au WOO_COLUMNS (csv_order au store mode) woo_path) (\<lambda>orders.
     rbind (case refund_path of None \<Rightarrow> Inr [] | Some p \<Rightarrow> load_facts au REFUND_COLUMNS (csv_refund au) p) (\<lambda>refunds.
     rbind (map_res (audit_coverage from through as_of) SOURCES) (\<lambda>coverage.
     evaluate (au_hash au) \<lparr>snap_org = org, snap_store = store, snap_account = account, snap_mode = mode,
       snap_now = Aware as_of, snap_from = Aware from, snap_payments = payments, snap_orders = orders,
       snap_refunds = refunds, snap_coverage = coverage, snap_link_verified = True, snap_link_conflict = False,
       snap_ambiguous = [], snap_policy = default_policy\<rparr>))))))"


section \<open>The command\<close>

record audit_args =
  aa_stripe_csv :: string
  aa_woo_csv :: string
  aa_organization :: string
  aa_store :: string
  aa_account :: string
  aa_mode :: string
  aa_as_of :: string
  aa_covered_from :: string
  aa_covered_through :: string
  aa_output :: string
  aa_refund_csv :: "string option"

definition AUDIT_FLAGS :: "(string \<times> bool) list" where
  "AUDIT_FLAGS = map (\<lambda>f. (f, True)) [''stripe-csv'', ''woo-csv'', ''organization'', ''store'', ''account'', ''mode'', ''as-of'',
     ''covered-from'', ''covered-through'', ''output''] @ [(''refund-csv'', False)]"

definition money_or_none :: "money option \<Rightarrow> json" where
  "money_or_none m = (case m of None \<Rightarrow> JNull | Some x \<Rightarrow> money_json x)"

definition proposal_json :: "proposal \<Rightarrow> json" where
  "proposal_json p = JObj [(''key'', JStr (prop_key p)), (''rule'', JStr (prop_rule p)), (''severity'', JStr (prop_severity p)),
     (''identities'', strs_json (prop_identities p)), (''risk'', money_or_none (prop_risk p)),
     (''confidence'', JInt (prop_confidence p)), (''eligible_at'', time_json (prop_eligible p)),
     (''ready'', JBool (prop_ready p)), (''evidence_json'', JStr (prop_evidence p)),
     (''rule_version'', JStr (prop_rule_version p))]"

definition evaluation_json :: "evaluation \<Rightarrow> json" where
  "evaluation_json ev = JObj [(''proposals'', JList (map proposal_json (ev_proposals ev))),
     (''evaluated_rules'', strs_json (ev_rules ev)), (''blocked_identities'', strs_json (ev_blocked ev)),
     (''warnings'', strs_json (ev_warnings ev)), (''input_digest'', JStr (ev_digest ev))]"

definition report_row :: "audit_args \<Rightarrow> proposal \<Rightarrow> dict result" where
  "report_row aa p =
     (case map_of PLAYBOOKS (prop_rule p) of
        None \<Rightarrow> Inl (KeyError (prop_rule p))
      | Some (label, step) \<Rightarrow> Inr
          [(''finding_key'', JStr (prop_key p)), (''rule'', JStr (prop_rule p)), (''severity'', JStr (prop_severity p)),
           (''state'', JStr (if prop_ready p then ''open'' else ''provisional'')), (''store'', JStr (aa_store aa)),
           (''mode'', JStr (aa_mode aa)),
           (''amount_minor'', case prop_risk p of None \<Rightarrow> JNull | Some m \<Rightarrow> JInt (minor m)),
           (''currency'', case prop_risk p of None \<Rightarrow> JStr [] | Some m \<Rightarrow> JStr (currency m)),
           (''exponent'', case prop_risk p of None \<Rightarrow> JStr [] | Some m \<Rightarrow> JInt (exponent m)),
           (''confidence'', JInt (prop_confidence p)), (''first_seen'', JStr (aa_as_of aa)),
           (''last_seen'', JStr (aa_as_of aa)), (''identities'', JStr (join ''; '' (prop_identities p))),
           (''next_step'', JStr step)])"

text \<open>The four files, in the order they are made: a file is written before the next is rendered.\<close>

definition audit_files :: "audit_env \<Rightarrow> dict list \<Rightarrow> evaluation \<Rightarrow> (string \<times> string result) list" where
  "audit_files au rows ev =
     [(''findings.csv'', Inr (csv_report rows)), (''report.html'', html_report REPORT_TITLE rows),
      (''report.pdf'', pdf_report (au_pdf au) REPORT_TITLE rows),
      (''evidence.json'', Inr (canonical (evaluation_json ev) @ [LF]))]"

fun write_files :: "audit_env \<Rightarrow> string \<Rightarrow> (string \<times> string result) list \<Rightarrow> unit result" where
  "write_files au directory [] = Inr ()"
| "write_files au directory ((name, content) # files) =
     rbind content (\<lambda>bytes. rbind (au_write au (directory @ ''/'' @ name) bytes) (\<lambda>_. write_files au directory files))"

definition run_audit :: "audit_env \<Rightarrow> audit_args \<Rightarrow> string result" where
  "run_audit au aa =
     rbind (cli_date au (aa_as_of aa)) (\<lambda>as_of. rbind (cli_date au (aa_covered_from aa)) (\<lambda>from.
     rbind (cli_date au (aa_covered_through aa)) (\<lambda>through.
     rbind (audit_csv au (aa_stripe_csv aa) (aa_woo_csv aa) (aa_organization aa) (aa_store aa) (aa_account aa)
       (aa_mode aa) as_of from through (case aa_refund_csv aa of Some (c # p) \<Rightarrow> Some (c # p) | _ \<Rightarrow> None)) (\<lambda>ev.
     rbind (au_mkdir au (aa_output aa)) (\<lambda>_.
     rbind (map_res (report_row aa) (ev_proposals ev)) (\<lambda>rows.
     rbind (write_files au (aa_output aa) (audit_files au rows ev)) (\<lambda>_.
     Inr (show_nat (length rows) @ '' findings; '' @ show_nat (length (ev_warnings ev)) @ '' data warnings. Reports: '' @
       aa_output aa))))))))"

text \<open>
  The exit of the command: the line it prints, the text of \<open>parser.exit(2, ...)\<close>, or a traceback. A
  failure of the file system is named by its class in place of its text.
\<close>

datatype audit_exit = Printed string | Rejected string | Traceback exn

definition audit_main :: "audit_env \<Rightarrow> audit_args \<Rightarrow> audit_exit" where
  "audit_main au aa =
     (case run_audit au aa of
        Inr line \<Rightarrow> Printed line
      | Inl (ValueError m) \<Rightarrow> Rejected (''Audit rejected: '' @ m @ [LF])
      | Inl (OtherError c) \<Rightarrow> if c = ''OSError'' then Rejected (''Audit rejected: '' @ c @ [LF]) else Traceback (OtherError c)
      | Inl (KeyError k) \<Rightarrow> Rejected (''Audit rejected: '' @ [APOSTROPHE] @ k @ [APOSTROPHE] @ [LF])
      | Inl e \<Rightarrow> Traceback e)"

end
