(* ===== verification/Csv_Props.thy ===== *)
theory Csv_Props imports Audit_Cli begin

text \<open>
  The reader of the offline audit against the writer of the reports: a table that was written is read
  back cell for cell, whatever line ends and quotes its cells hold, and the cells of a report are
  inert in a spreadsheet.
\<close>

section \<open>Written fields\<close>

definition quoted_char :: "char \<Rightarrow> string" where
  "quoted_char c = (if c = QUOTE then [QUOTE, QUOTE] else [c])"

lemma csv_field_alt: "csv_field s = (if needs_quotes s then QUOTE # concat (map quoted_char s) @ [QUOTE] else s)"
  by (simp add: csv_field_def quoted_char_def [abs_def])

lemma chars_distinct [simp]:
  "QUOTE \<noteq> CR" "QUOTE \<noteq> LF" "CR \<noteq> QUOTE" "LF \<noteq> QUOTE" "COMMA \<noteq> QUOTE" "COMMA \<noteq> CR" "COMMA \<noteq> LF" "CR \<noteq> LF" "LF \<noteq> CR"
  "CR \<noteq> COMMA" "LF \<noteq> COMMA" "QUOTE \<noteq> COMMA"
  by (simp_all add: QUOTE_def CR_def LF_def COMMA_def)

lemma comma_string: "'','' = [COMMA]"
  by (simp add: COMMA_def)

lemma csv_line_alt: "csv_line cells = join [COMMA] (map csv_field cells) @ [CR, LF]"
  by (simp add: csv_line_def comma_string)

lemma needs_quotes_alt: "needs_quotes s \<longleftrightarrow> (\<exists>c \<in> set s. c = COMMA \<or> c = QUOTE \<or> c = CR \<or> c = LF)"
  by (simp add: needs_quotes_def COMMA_def)

section \<open>The machine on them\<close>

abbreviation machine :: "csv_mode \<Rightarrow> string \<Rightarrow> string list \<Rightarrow> csv_state" where
  "machine m f fs \<equiv> \<lparr>cv_mode = m, cv_field = f, cv_fields = fs\<rparr>"

abbreviation reads :: "string \<Rightarrow> csv_state \<Rightarrow> string list list \<times> exn option" where
  "reads s st \<equiv> csv_records (line_events True s) None st"

text \<open>A line end inside a quoted field is an event that changes nothing.\<close>

lemma reads_quoted_step:
  assumes "c \<noteq> QUOTE" and "length a < FIELD_LIMIT" and "s \<noteq> []"
  shows "reads (c # s) (machine In_Quoted a fs) = reads s (machine In_Quoted (a @ [c]) fs)"
proof -
  have "line_events False s = line_events True s" using assms(3) by (cases s) simp_all
  then show ?thesis using assms by (simp add: csv_step_def add_char_def)
qed

lemma reads_quoted:
  assumes "length a + length s \<le> FIELD_LIMIT"
  shows "reads (concat (map quoted_char s) @ QUOTE # rest) (machine In_Quoted a fs)
    = reads (QUOTE # rest) (machine In_Quoted (a @ s) fs)"
  using assms
proof (induction s arbitrary: a)
  case Nil
  show ?case by simp
next
  case (Cons c s)
  then have less: "length a < FIELD_LIMIT" and IH: "reads (concat (map quoted_char s) @ QUOTE # rest) (machine In_Quoted (a @ [c]) fs)
      = reads (QUOTE # rest) (machine In_Quoted ((a @ [c]) @ s) fs)" by auto
  have "reads (concat (map quoted_char (c # s)) @ QUOTE # rest) (machine In_Quoted a fs)
      = reads (concat (map quoted_char s) @ QUOTE # rest) (machine In_Quoted (a @ [c]) fs)"
  proof (cases "c = QUOTE")
    case True
    then show ?thesis using less by (simp add: quoted_char_def csv_step_def add_char_def)
  next
    case False
    have "concat (map quoted_char (c # s)) @ QUOTE # rest = c # concat (map quoted_char s) @ QUOTE # rest"
      using False by (simp add: quoted_char_def)
    then show ?thesis using reads_quoted_step[OF False less] by simp
  qed
  with IH show ?case by simp
qed

lemma reads_plain:
  assumes "\<not> needs_quotes s" and "length a + length s \<le> FIELD_LIMIT"
  shows "reads (s @ rest) (machine In_Field a fs) = reads rest (machine In_Field (a @ s) fs)"
  using assms
proof (induction s arbitrary: a)
  case (Cons c s)
  then show ?case by (simp add: needs_quotes_alt csv_step_def line_char_def add_char_def)
qed simp

lemma starts_field:
  assumes "m \<in> {Start_Record, Start_Field}" and "e \<noteq> None" and "\<not> line_char e"
  shows "csv_step e (machine m [] fs) = start_field e (machine m [] fs)"
  using assms by (auto simp: csv_step_def)

text \<open>A whole field, up to the separator that follows it.\<close>

lemma reads_field:
  assumes "length f \<le> FIELD_LIMIT" and m: "m \<in> {Start_Record, Start_Field}" and "f \<noteq> []"
  shows "\<exists>m'. m' \<in> {In_Field, Quote_In_Quoted} \<and>
    reads (csv_field f @ d # rest) (machine m [] fs) = reads (d # rest) (machine m' f fs)"
proof (cases "needs_quotes f")
  case True
  have "reads (csv_field f @ d # rest) (machine m [] fs)
      = reads (concat (map quoted_char f) @ QUOTE # d # rest) (machine In_Quoted [] fs)"
    using m True by (simp add: csv_field_alt starts_field start_field_def line_char_def)
  also have "\<dots> = reads (QUOTE # d # rest) (machine In_Quoted f fs)"
    using reads_quoted[of "[]" f "d # rest" fs] assms(1) by simp
  also have "\<dots> = reads (d # rest) (machine Quote_In_Quoted f fs)" by (simp add: csv_step_def)
  finally show ?thesis by blast
next
  case False
  obtain c s where f: "f = c # s" using assms(3) by (cases f) auto
  have "reads (csv_field f @ d # rest) (machine m [] fs) = reads (s @ d # rest) (machine In_Field [c] fs)"
    using m False unfolding csv_field_alt f
    by (simp add: starts_field start_field_def line_char_def add_char_def needs_quotes_alt FIELD_LIMIT_def)
  also have "\<dots> = reads (d # rest) (machine In_Field f fs)"
    using reads_plain[of s "[c]" "d # rest" fs] False assms(1) by (simp add: f needs_quotes_alt)
  finally show ?thesis by blast
qed

lemma reads_separated:
  assumes "length f \<le> FIELD_LIMIT" and m: "m \<in> {Start_Record, Start_Field}"
  shows "reads (csv_field f @ COMMA # rest) (machine m [] fs) = reads rest (machine Start_Field [] (fs @ [f]))"
proof (cases "f = []")
  case True
  then show ?thesis using m
    by (simp add: csv_field_alt needs_quotes_def starts_field start_field_def line_char_def save_field_def)
next
  case False
  obtain m' where "m' \<in> {In_Field, Quote_In_Quoted}"
    and e: "reads (csv_field f @ COMMA # rest) (machine m [] fs) = reads (COMMA # rest) (machine m' f fs)"
    using reads_field[OF assms False] by blast
  then show ?thesis unfolding e by (auto simp: csv_step_def save_field_def line_char_def)
qed

lemma reads_line_end:
  assumes "length f \<le> FIELD_LIMIT" and m: "m = Start_Field \<or> m = Start_Record \<and> f \<noteq> []"
  shows "reads (csv_field f @ CR # LF # rest) (machine m [] fs) =
    (case csv_records (line_events False rest) None csv_fresh of (rs, x) \<Rightarrow> ((fs @ [f]) # rs, x))"
proof (cases "f = []")
  case True
  then show ?thesis using m
    by (simp add: csv_field_alt needs_quotes_def csv_step_def start_field_def line_char_def line_mode_def save_field_def)
next
  case False
  have m': "m \<in> {Start_Record, Start_Field}" using m by auto
  obtain k where "k \<in> {In_Field, Quote_In_Quoted}"
    and e: "reads (csv_field f @ CR # LF # rest) (machine m [] fs) = reads (CR # LF # rest) (machine k f fs)"
    using reads_field[OF assms(1) m' False] by blast
  then show ?thesis unfolding e by (auto simp: csv_step_def save_field_def line_char_def line_mode_def)
qed


section \<open>The reader inverts the writer\<close>

lemma reads_cells:
  assumes "\<forall>f \<in> set (f # fs). length f \<le> FIELD_LIMIT" and "m = Start_Field \<or> m = Start_Record \<and> (f \<noteq> [] \<or> fs \<noteq> [])"
  shows "reads (join [COMMA] (map csv_field (f # fs)) @ CR # LF # rest) (machine m [] done_fields) =
    (case csv_records (line_events False rest) None csv_fresh of (rs, x) \<Rightarrow> ((done_fields @ f # fs) # rs, x))"
  using assms
proof (induction fs arbitrary: f m done_fields)
  case Nil
  then show ?case using reads_line_end[of f m rest done_fields] by auto
next
  case (Cons g fs)
  have "reads (join [COMMA] (map csv_field (f # g # fs)) @ CR # LF # rest) (machine m [] done_fields)
      = reads (join [COMMA] (map csv_field (g # fs)) @ CR # LF # rest) (machine Start_Field [] (done_fields @ [f]))"
    using reads_separated[of f m "join [COMMA] (map csv_field (g # fs)) @ CR # LF # rest" done_fields] Cons.prems by auto
  also have "\<dots> = (case csv_records (line_events False rest) None csv_fresh of (rs, x) \<Rightarrow> (((done_fields @ [f]) @ g # fs) # rs, x))"
    using Cons.prems by (intro Cons.IH) auto
  finally show ?case by simp
qed

text \<open>A row that the writer can be read back from: two cells or more, within the limit of a field.\<close>

definition readable_row :: "string list \<Rightarrow> bool" where
  "readable_row cells \<longleftrightarrow> 2 \<le> length cells \<and> (\<forall>c \<in> set cells. length c \<le> FIELD_LIMIT)"

lemma line_events_pending: "s \<noteq> [] \<Longrightarrow> line_events p s = line_events True s"
  by (cases s) simp_all

lemma csv_line_nonempty: "csv_line cells @ s \<noteq> []"
  by (simp add: csv_line_def)

lemma csv_text_lines:
  assumes "\<forall>cells \<in> set table. readable_row cells"
  shows "csv_text (concat (map csv_line table)) None = (table, None)"
  using assms
proof (induction table)
  case Nil
  show ?case by (simp add: csv_text_def csv_fresh_def)
next
  case (Cons cells table)
  obtain f g fs where cells: "cells = f # g # fs"
    using Cons.prems by (cases cells; cases "tl cells") (auto simp: readable_row_def)
  have lim: "\<forall>x \<in> set (f # g # fs). length x \<le> FIELD_LIMIT" using Cons.prems by (auto simp: readable_row_def cells)
  have "csv_text (concat (map csv_line (cells # table))) None = reads (csv_line cells @ concat (map csv_line table)) csv_fresh"
    using line_events_pending[OF csv_line_nonempty, of False cells "concat (map csv_line table)"] by (simp add: csv_text_def)
  also have "\<dots> = (case csv_text (concat (map csv_line table)) None of (rs, x) \<Rightarrow> (cells # rs, x))"
    using reads_cells[OF lim, of Start_Record "concat (map csv_line table)" "[]"]
    by (simp add: csv_line_alt cells csv_fresh_def csv_text_def)
  finally show ?case using Cons by simp
qed

lemma import_rows_equal:
  assumes "\<forall>r \<in> set rs. length r = length header" and "header \<noteq> []" and "n + length rs \<le> MAX_RECORDS"
  shows "import_rows header rs None n = Inr (map (zip header) rs)"
  using assms by (induction rs arbitrary: n) auto

section \<open>Inert cells\<close>

lemma safe_cell_inert: "\<not> risky (safe_cell v)"
proof -
  have "\<not> risky (APOSTROPHE # s)" for s
    by (simp add: risky_def lstrip_def is_space_def formula_char_def APOSTROPHE_def TAB_def CR_def LF_def)
  then show ?thesis by (simp add: safe_cell_def Let_def)
qed

lemma columns_inert: "c \<in> set COLUMNS \<Longrightarrow> \<not> risky c"
  by (auto simp: COLUMNS_def risky_def lstrip_def is_space_def formula_char_def TAB_def CR_def LF_def)

lemma COLUMNS_facts: "length COLUMNS = 14" "distinct COLUMNS" "\<forall>c \<in> set COLUMNS. length c \<le> FIELD_LIMIT"
  by (simp_all add: COLUMNS_def FIELD_LIMIT_def)

lemma report_cells_length [simp]: "length (report_cells row) = 14"
  by (simp add: report_cells_def COLUMNS_facts)


section \<open>A report read back\<close>

text \<open>C37: The offline audit's reader inverts the report's writer: a CSV report of at most 100,000 rows, whose
  cells are within the limits of a field and of an import, is read back as one record per row with the
  same cells under the same columns, whatever separators, quotes and line ends the cells hold; and no
  cell of it starts a formula in a spreadsheet. The codec only has to undo what it wrote.\<close>

theorem csv_reports_read_back:
  assumes "\<And>t. decode (BOM @ utf8 t) = (t, None)"
    and "length rows \<le> MAX_RECORDS" and "\<forall>row \<in> set rows. \<forall>c \<in> set (report_cells row). length c \<le> FIELD_LIMIT"
    and "length (csv_report rows) \<le> MAX_IMPORT" and "set required \<subseteq> set COLUMNS"
  shows "csv_rows decode required (Inr (csv_report rows)) = Inr (map (\<lambda>row. zip COLUMNS (report_cells row)) rows) \<and>
    (\<forall>row \<in> set rows. \<forall>c \<in> set (report_cells row). \<not> risky c)"
proof -
  let ?table = "COLUMNS # map report_cells rows"
  have "\<forall>cells \<in> set ?table. readable_row cells"
    using assms(3) COLUMNS_facts by (auto simp: readable_row_def)
  then have t: "csv_text (concat (map csv_line ?table)) None = (?table, None)" by (rule csv_text_lines)
  have "import_rows COLUMNS (map report_cells rows) None 0 = Inr (map (zip COLUMNS) (map report_cells rows))"
    using assms(2) COLUMNS_facts by (intro import_rows_equal) auto
  then have "import_table required (?table, None) = Inr (map (\<lambda>row. zip COLUMNS (report_cells row)) rows)"
    using assms(5) COLUMNS_facts by (auto simp: import_table_def comp_def)
  moreover have "decode (csv_report rows) = (concat (map csv_line ?table), None)"
    unfolding csv_report_def by (rule assms(1))
  ultimately have "csv_rows decode required (Inr (csv_report rows)) = Inr (map (\<lambda>row. zip COLUMNS (report_cells row)) rows)"
    using assms(4) t by (simp add: csv_rows_def)
  then show ?thesis by (auto simp: report_cells_def safe_cell_inert)
qed

section \<open>A codec and a report\<close>

fun ex_utf8_read :: "string \<Rightarrow> string" where
  "ex_utf8_read [] = []"
| "ex_utf8_read [c] = [c]"
| "ex_utf8_read (c # d # s) =
     (if (of_char c :: nat) < 128 then c # ex_utf8_read (d # s)
      else char_of ((of_char c - 192) * 64 + (of_char d - 128) :: nat) # ex_utf8_read s)"

lemma utf8_lead: "128 \<le> (of_char c :: nat) \<Longrightarrow>
    char_of (((of_char (char_of (192 + of_char c div 64 :: nat)) :: nat) - 192) * 64 +
      ((of_char (char_of (128 + of_char c mod 64 :: nat)) :: nat) - 128) :: nat) = c"
  and utf8_lead_large: "128 \<le> (of_char (char_of (192 + of_char c div 64 :: nat)) :: nat)"
proof -
  have "(of_char c :: nat) < 4 * 64" using nat_of_char_less_256[of c] by simp
  then have q: "of_char c div 64 < (4 :: nat)" by (rule less_mult_imp_div_less)
  have r: "of_char c mod 64 < (64 :: nat)" by simp
  have l: "(of_char (char_of (192 + of_char c div 64 :: nat)) :: nat) = 192 + of_char c div 64"
    using q by simp
  have m: "(of_char (char_of (128 + of_char c mod 64 :: nat)) :: nat) = 128 + of_char c mod 64"
    using r by simp
  show "128 \<le> (of_char (char_of (192 + of_char c div 64 :: nat)) :: nat)" unfolding l by simp
  show "char_of (((of_char (char_of (192 + of_char c div 64 :: nat)) :: nat) - 192) * 64 +
      ((of_char (char_of (128 + of_char c mod 64 :: nat)) :: nat) - 128) :: nat) = c"
    unfolding l m by simp
qed

lemma ex_utf8_read_utf8: "ex_utf8_read (utf8 t) = t"
proof (induction t)
  case (Cons c t)
  have "ex_utf8_read (utf8_char c @ s) = c # ex_utf8_read s" if "s = utf8 t" for s
    using utf8_lead[of c] utf8_lead_large[of c]
    by (cases s) (auto simp: utf8_char_def Let_def)
  then show ?case using Cons by (simp add: utf8_def)
qed (simp add: utf8_def)

definition ex_decode :: "string \<Rightarrow> string \<times> exn option" where
  "ex_decode bytes = (ex_utf8_read (drop 3 bytes), None)"

lemma ex_decode_codec: "ex_decode (BOM @ utf8 t) = (t, None)"
  by (simp add: ex_decode_def BOM_def ex_utf8_read_utf8)

definition ex_csv_rows :: "dict list" where
  "ex_csv_rows = [[(''finding_key'', JStr [CHR ''='', QUOTE, COMMA, CR, LF, CHR 0xE9]), (''amount_minor'', JInt 5)]]"

theorem csv_reports_read_back_witness:
  "csv_rows ex_decode [''rule''] (Inr (csv_report ex_csv_rows)) = Inr (map (\<lambda>row. zip COLUMNS (report_cells row)) ex_csv_rows)"
proof (rule csv_reports_read_back[THEN conjunct1])
  show "length ex_csv_rows \<le> MAX_RECORDS" by (simp add: ex_csv_rows_def MAX_RECORDS_def)
  have "list_all (\<lambda>row. list_all (\<lambda>c. length c \<le> 10) (report_cells row)) ex_csv_rows" by code_simp
  then show "\<forall>row \<in> set ex_csv_rows. \<forall>c \<in> set (report_cells row). length c \<le> FIELD_LIMIT"
    by (force simp: list_all_iff FIELD_LIMIT_def)
  have "length (csv_report ex_csv_rows) \<le> 1000" by code_simp
  then show "length (csv_report ex_csv_rows) \<le> MAX_IMPORT" by (simp add: MAX_IMPORT_def)
qed (simp_all add: ex_decode_codec COLUMNS_def)

end
