(* ===== verification/Urls.thy ===== *)
theory Urls imports Validation begin

text \<open>
  Python's \<open>urllib.parse\<close>, as far as the program uses it: \<open>urlparse\<close> with the host, port and user
  information of its result, and \<open>unquote\<close>. The rules for a host in brackets differ between versions of
  Python and are a parameter, and so is the decoding of bytes that are not UTF-8.
\<close>

section \<open>Splitting a URL\<close>

record parsed_url =
  pu_scheme :: string
  pu_netloc :: string
  pu_path :: string
  pu_params :: string
  pu_query :: string
  pu_fragment :: string

definition is_ascii_letter :: "char \<Rightarrow> bool" where
  "is_ascii_letter c \<longleftrightarrow> is_ascii_upper c \<or> is_ascii_lower c"

definition scheme_char :: "char \<Rightarrow> bool" where
  "scheme_char c \<longleftrightarrow> is_ascii_letter c \<or> is_digit c \<or> c \<in> set ''+-.''"

text \<open>Leading control characters and spaces are dropped, tabs and line ends removed everywhere.\<close>

definition is_control_or_space :: "char \<Rightarrow> bool" where
  "is_control_or_space c \<longleftrightarrow> (of_char c :: nat) \<le> 32"

definition is_tab_or_line_end :: "char \<Rightarrow> bool" where
  "is_tab_or_line_end c \<longleftrightarrow> (of_char c :: nat) \<in> {9, 10, 13}"

definition clean_url :: "string \<Rightarrow> string" where
  "clean_url s = filter (\<lambda>c. \<not> is_tab_or_line_end c) (dropWhile is_control_or_space s)"

definition split_scheme :: "string \<Rightarrow> string \<times> string" where
  "split_scheme s =
     (case partition_at (CHR '':'') s of (a, found, b) \<Rightarrow>
        if found \<and> a \<noteq> [] \<and> is_ascii_letter (hd a) \<and> list_all scheme_char a then (lower a, b) else ([], s))"

definition in_netloc :: "char \<Rightarrow> bool" where
  "in_netloc c \<longleftrightarrow> c \<notin> set ''/?#''"

definition split_netloc :: "string \<Rightarrow> string \<times> string" where
  "split_netloc s =
     (if take 2 s = ''//'' then (takeWhile in_netloc (drop 2 s), dropWhile in_netloc (drop 2 s)) else ([], s))"

definition before_after :: "char \<Rightarrow> string \<Rightarrow> string \<times> string" where
  "before_after c s = (case partition_at c s of (a, found, b) \<Rightarrow> (a, b))"

definition good_brackets :: "(string \<Rightarrow> bool) \<Rightarrow> string \<Rightarrow> bool" where
  "good_brackets check netloc \<longleftrightarrow> (CHR ''['' \<in> set netloc) = (CHR '']'' \<in> set netloc) \<and>
     (CHR ''['' \<in> set netloc \<longrightarrow> check netloc)"

definition USES_PARAMS :: "string list" where
  "USES_PARAMS = [[], ''ftp'', ''hdl'', ''prospero'', ''http'', ''https'', ''shttp'', ''rtsp'', ''rtsps'', ''sip'', ''sips'',
     ''mms'', ''sftp'', ''tel'']"

text \<open>The parameters follow the first semicolon of the last segment of a path.\<close>

definition last_segment :: "string \<Rightarrow> string" where
  "last_segment path = rev (takeWhile (\<lambda>c. c \<noteq> CHR ''/'') (rev path))"

definition split_params :: "string \<Rightarrow> string \<Rightarrow> string \<times> string" where
  "split_params scheme path =
     (if scheme \<notin> set USES_PARAMS then (path, [])
      else (case before_after (CHR '';'') (last_segment path) of (a, b) \<Rightarrow>
        (take (length path - length (last_segment path)) path @ a, b)))"

definition urlparse :: "(string \<Rightarrow> bool) \<Rightarrow> string \<Rightarrow> parsed_url result" where
  "urlparse check url =
     (case split_scheme (clean_url url) of (scheme, s1) \<Rightarrow>
      case split_netloc s1 of (netloc, s2) \<Rightarrow>
      rbind (guard (good_brackets check netloc) (ValueError ''Invalid IPv6 URL'')) (\<lambda>_.
      case before_after (CHR ''#'') s2 of (s3, fragment) \<Rightarrow>
      case before_after (CHR ''?'') s3 of (s4, query) \<Rightarrow>
      case split_params scheme s4 of (path, params) \<Rightarrow>
      Inr \<lparr>pu_scheme = scheme, pu_netloc = netloc, pu_path = path, pu_params = params, pu_query = query,
        pu_fragment = fragment\<rparr>))"

section \<open>The parts of the network location\<close>

text \<open>\<open>rpartition\<close> at the last \<open>@\<close>: the user information, when there is one, and the host.\<close>

definition user_and_host :: "string \<Rightarrow> string option \<times> string" where
  "user_and_host netloc =
     (case partition_at (CHR ''@'') (rev netloc) of (host, found, user) \<Rightarrow>
        (if found then Some (rev user) else None, rev host))"

definition host_and_port :: "string \<Rightarrow> string \<times> string" where
  "host_and_port netloc =
     (let host = snd (user_and_host netloc) in
      case partition_at (CHR ''['') host of (a, found, bracketed) \<Rightarrow>
        if found then (case before_after (CHR '']'') bracketed of (h, rest) \<Rightarrow> (h, snd (before_after (CHR '':'') rest)))
        else before_after (CHR '':'') host)"

definition hostname :: "parsed_url \<Rightarrow> string option" where
  "hostname u =
     (case fst (host_and_port (pu_netloc u)) of
        [] \<Rightarrow> None
      | h \<Rightarrow> Some (lower (takeWhile (\<lambda>c. c \<noteq> CHR ''%'') h) @ dropWhile (\<lambda>c. c \<noteq> CHR ''%'') h))"

definition port_of :: "parsed_url \<Rightarrow> int option result" where
  "port_of u =
     (case snd (host_and_port (pu_netloc u)) of
        [] \<Rightarrow> Inr None
      | p \<Rightarrow> rbind (guard (list_all is_digit p) (ValueError ''Port could not be cast to integer value'')) (\<lambda>_.
          rbind (guard (read_digits p \<le> 65535) (ValueError ''Port out of range 0-65535'')) (\<lambda>_.
          Inr (Some (read_digits p)))))"

definition username :: "parsed_url \<Rightarrow> string option" where
  "username u = map_option (\<lambda>x. fst (before_after (CHR '':'') x)) (fst (user_and_host (pu_netloc u)))"

definition password :: "parsed_url \<Rightarrow> string option" where
  "password u =
     (case fst (user_and_host (pu_netloc u)) of
        None \<Rightarrow> None
      | Some x \<Rightarrow> (case partition_at (CHR '':'') x of (name, found, secret) \<Rightarrow> if found then Some secret else None))"

section \<open>Percent-encoding\<close>

fun unquote_bytes :: "string \<Rightarrow> string" where
  "unquote_bytes (a # b # c # s) =
     (if a = CHR ''%'' then (case (hex_value b, hex_value c) of
          (Some x, Some y) \<Rightarrow> char_of (16 * x + y) # unquote_bytes s
        | _ \<Rightarrow> a # unquote_bytes (b # c # s))
      else a # unquote_bytes (b # c # s))"
| "unquote_bytes s = s"

definition is_ascii :: "char \<Rightarrow> bool" where
  "is_ascii c \<longleftrightarrow> (of_char c :: nat) < 128"

fun ascii_runs :: "string \<Rightarrow> (bool \<times> string) list" where
  "ascii_runs [] = []"
| "ascii_runs (c # s) =
     (case ascii_runs s of
        (a, r) # rs \<Rightarrow> if a = is_ascii c then (a, c # r) # rs else (is_ascii c, [c]) # (a, r) # rs
      | [] \<Rightarrow> [(is_ascii c, [c])])"

text \<open>\<open>decode\<close> is \<open>bytes.decode("utf-8", "replace")\<close>.\<close>

definition unquote :: "(string \<Rightarrow> string) \<Rightarrow> string \<Rightarrow> string" where
  "unquote decode s =
     (if CHR ''%'' \<notin> set s then s
      else concat (map (\<lambda>(ascii, r). if ascii then decode (unquote_bytes r) else r) (ascii_runs s)))"

lemma urlparse_example:
  "urlparse (\<lambda>_. True) ''HTTPS://Sqs.eu-west-1.amazonaws.com:443/123/q;p?x=1#f'' = Inr
     \<lparr>pu_scheme = ''https'', pu_netloc = ''Sqs.eu-west-1.amazonaws.com:443'', pu_path = ''/123/q'', pu_params = ''p'',
       pu_query = ''x=1'', pu_fragment = ''f''\<rparr>"
  "map_option hostname (case urlparse (\<lambda>_. True) ''postgresql://u%20:p@Host:5432/db'' of Inr u \<Rightarrow> Some u | Inl e \<Rightarrow> None) = Some (Some ''host'')"
  "unquote id ''a%20b%2'' = ''a b%2''"
  by code_simp+

end
