(* ===== verification/Json_Roundtrip.thy ===== *)
theory Json_Roundtrip imports Json_Read begin

text \<open>
  What the program writes with \<open>json.dumps\<close> it reads back with \<open>json.loads\<close>: for values without
  floats whose objects have distinct members, \<open>loads (dumps_raw v) = v\<close>, and \<open>dumps\<close>, which sorts
  the members, reads back as the value with sorted members. The lemmas also show that the fuel
  \<open>loads\<close> starts with is enough for these texts.
\<close>

section \<open>Strings\<close>

lemma hex_value_char [simp]: "n < 16 \<Longrightarrow> hex_value (hex_char n) = Some n"
proof -
  assume "n < 16"
  then have "n \<in> set [0..<16]" by simp
  moreover have "list_all (\<lambda>n. hex_value (hex_char n) = Some n) [0..<16]" by code_simp
  ultimately show ?thesis by (simp only: list_all_iff)
qed

lemma hex_value_0 [simp]: "hex_value (CHR ''0'') = Some 0"
  by (simp add: hex_value_def)

lemma scan_esc_char: "scan_string (esc_char c @ t) = map_option (apfst (Cons c)) (scan_string t)"
proof -
  have n: "(of_char c :: nat) < 256" by simp
  have u: "of_char c = (k::nat) \<Longrightarrow> c = char_of k" for k by (metis char_of_char)
  have q: "(of_char c :: nat) = 92 \<longleftrightarrow> c = CHR 0x5C" "(of_char c :: nat) = 34 \<longleftrightarrow> c = CHR 0x22"
    using of_char_eqI[of c "CHR 0x5C"] of_char_eqI[of c "CHR 0x22"] by auto
  show ?thesis
  proof (cases "32 \<le> (of_char c :: nat) \<and> (of_char c :: nat) \<le> 126")
    case True
    then show ?thesis
      by (auto simp: esc_char_def Let_def simple_escape_def q dest: u)
  next
    case False
    note hx = hex_value_char[of "of_char c div 16"] hex_value_char[of "of_char c mod 16"]
    have "hex4 (CHR ''0'') (CHR ''0'') (hex_char (of_char c div 16)) (hex_char (of_char c mod 16)) = Some (of_char c)"
      by (simp add: hex4_def)
    with False n show ?thesis
      by (auto simp: esc_char_def Let_def simple_escape_def dest: u)
  qed
qed

lemma scan_string_quoted: "scan_string (concat (map esc_char s) @ CHR 0x22 # r) = Some (s, r)"
  by (induction s) (simp_all add: scan_esc_char)

lemma scan_quote: "quote s @ r = CHR 0x22 # t \<Longrightarrow> scan_string t = Some (s, r)"
  by (auto simp: quote_def scan_string_quoted)

section \<open>Integers\<close>

definition stops :: "string \<Rightarrow> bool" where
  "stops r \<longleftrightarrow> (case r of [] \<Rightarrow> True | c # t \<Rightarrow> \<not> is_digit c \<and> c \<noteq> CHR ''.'' \<and> c \<noteq> CHR ''e'' \<and> c \<noteq> CHR ''E'')"

lemma stops_simps [simp]: "stops []" "stops (CHR '','' # t)" "stops (CHR '']'' # t)" "stops (CHR ''}'' # t)"
  by (simp_all add: stops_def is_digit_def)

lemma scan_digits_all:
  assumes "\<forall>c \<in> set w. is_digit c" "stops r"
  shows "scan_digits (w @ r) = (w, r)"
proof -
  have "takeWhile is_digit r = []" "dropWhile is_digit r = r"
    using assms(2) by (cases r; simp add: stops_def)+
  with assms(1) show ?thesis by (simp add: scan_digits_def takeWhile_append2 dropWhile_append2)
qed

lemma scan_whole_show:
  assumes "stops r"
  shows "scan_whole (show_nat m @ r) = Some (show_nat m, r)"
proof (cases "m = 0")
  case True
  then show ?thesis by (simp add: show_nat_0 scan_whole_def)
next
  case False
  obtain c t where ct: "show_nat m = c # t" by (cases "show_nat m") simp_all
  have "is_digit c" "c \<noteq> CHR ''0''" using show_nat_digits[of m] show_nat_hd[of m] False ct by simp_all
  then show ?thesis
    using scan_digits_all[OF show_nat_digits[of m] assms] by (simp add: scan_whole_def ct)
qed

lemma scan_tail_none:
  assumes "stops r"
  shows "scan_fraction r = ([], r)" "scan_exponent r = ([], r)"
  using assms by (auto simp: stops_def scan_fraction_def scan_exponent_def split: list.splits prod.splits)

lemma scan_number_show:
  assumes "stops r"
  shows "scan_number (show_int i @ r) = Some (JInt i, r)"
proof (cases "i < 0")
  case True
  then show ?thesis
    using scan_whole_show[OF assms, of "nat (- i)"]
    by (simp add: scan_number_def show_int_def scan_tail_none[OF assms])
next
  case False
  obtain c t where ct: "show_nat (nat i) = c # t" by (cases "show_nat (nat i)") simp_all
  have "is_digit c" using show_nat_digits[of "nat i"] ct by simp
  then have "c \<noteq> CHR ''-''" by auto
  moreover have "int (read_nat (c # t)) = i" using read_show_nat[of "nat i"] ct False by simp
  ultimately show ?thesis
    using scan_whole_show[OF assms, of "nat i"] False
    by (simp add: scan_number_def show_int_def ct scan_tail_none[OF assms])
qed

lemma digit_first: "is_digit c \<Longrightarrow> c \<noteq> CHR 0x22 \<and> c \<noteq> CHR ''['' \<and> c \<noteq> CHR ''{'' \<and> c \<noteq> CHR ''n'' \<and> c \<noteq> CHR ''t'' \<and>
    c \<noteq> CHR ''f'' \<and> c \<noteq> CHR ''N'' \<and> c \<noteq> CHR ''I'' \<and> c \<noteq> CHR '']'' \<and> c \<noteq> CHR ''}'' \<and> \<not> is_json_space c"
  by (auto simp: is_digit_def is_json_space_def)

lemma show_int_shape:
  obtains (neg) t d where "show_int i = CHR ''-'' # d # t" "is_digit d"
  | (pos) d t where "show_int i = d # t" "is_digit d"
proof (cases "i < 0")
  case True
  obtain d t where "show_nat (nat (- i)) = d # t" by (cases "show_nat (nat (- i))") simp_all
  then show ?thesis using neg True show_nat_digits[of "nat (- i)"] by (simp add: show_int_def)
next
  case False
  obtain d t where "show_nat (nat i) = d # t" by (cases "show_nat (nat i)") simp_all
  then show ?thesis using pos False show_nat_digits[of "nat i"] by (simp add: show_int_def)
qed

lemma scan_value_int:
  assumes "stops r"
  shows "scan_value hk (Suc n) (show_int i @ r) = Some (JInt i, r)"
  using scan_number_show[OF assms, of i]
proof (cases i rule: show_int_shape)
  case (neg t d)
  have "d \<noteq> CHR ''I''" using digit_first[OF neg(2)] by simp
  then have "\<not> startswith (show_int i @ r) ''-Infinity''" by (simp add: neg(1) startswith_def)
  then show ?thesis using scan_number_show[OF assms, of i] by (simp add: neg(1))
next
  case (pos d t)
  have "d \<noteq> CHR ''-''" using pos(2) by auto
  then have "\<not> startswith (show_int i @ r) ''-Infinity''" by (simp add: pos(1) startswith_def)
  then show ?thesis using scan_number_show[OF assms, of i] digit_first[OF pos(2)] by (simp add: pos(1))
qed

section \<open>Values\<close>

fun readable :: "json \<Rightarrow> bool" where
  "readable (JFloat r) = False"
| "readable (JList xs) = list_all readable xs"
| "readable (JObj kvs) = (distinct (map fst kvs) \<and> list_all (\<lambda>(k, v). readable v) kvs)"
| "readable _ = True"

definition opens :: "char \<Rightarrow> bool" where
  "opens c \<longleftrightarrow> \<not> is_json_space c \<and> c \<noteq> CHR '']'' \<and> c \<noteq> CHR ''}''"

lemma dumps_raw_first:
  assumes "readable v"
  obtains c t where "dumps_raw v = c # t" "opens c"
proof (cases v)
  case (JInt i)
  show ?thesis
  proof (cases i rule: show_int_shape)
    case (neg t d)
    then show ?thesis using that JInt by (simp add: opens_def is_json_space_def)
  next
    case (pos d t)
    then show ?thesis using that JInt digit_first[OF pos(2)] by (simp add: opens_def)
  qed
next
  case (JBool b)
  then show ?thesis using that by (cases b) (simp_all add: opens_def is_json_space_def)
qed (use assms that in \<open>auto simp: opens_def is_json_space_def quote_def\<close>)

lemma skip_space_first: "opens c \<Longrightarrow> skip_space (c # t) = c # t"
  by (simp add: skip_space_def opens_def)

lemma skip_space_punct [simp]:
  "skip_space (CHR '','' # t) = CHR '','' # t" "skip_space (CHR '']'' # t) = CHR '']'' # t"
  "skip_space (CHR ''}'' # t) = CHR ''}'' # t" "skip_space (CHR '':'' # t) = CHR '':'' # t"
  "skip_space (CHR 0x22 # t) = CHR 0x22 # t"
  by (simp_all add: skip_space_def is_json_space_def)

lemma skip_space_dumps: "readable v \<Longrightarrow> skip_space (dumps_raw v @ r) = dumps_raw v @ r"
  by (erule dumps_raw_first) (simp add: skip_space_first)

lemma dumps_raw_nonempty: "readable v \<Longrightarrow> 0 < length (dumps_raw v)"
  by (erule dumps_raw_first) simp

abbreviation item_texts :: "json list \<Rightarrow> string" where "item_texts vs \<equiv> join '','' (map dumps_raw vs)"

definition reads :: "hooks \<Rightarrow> json \<Rightarrow> bool" where
  "reads hk v \<longleftrightarrow> (\<forall>n r. length (dumps_raw v) \<le> n \<longrightarrow> stops r \<longrightarrow> scan_value hk n (dumps_raw v @ r) = Some (v, r))"

lemma readsD: "reads hk v \<Longrightarrow> length (dumps_raw v) \<le> n \<Longrightarrow> stops r \<Longrightarrow> scan_value hk n (dumps_raw v @ r) = Some (v, r)"
  by (simp add: reads_def)

lemma scan_items_join:
  assumes "\<forall>v \<in> set vs. readable v \<and> reads hk v" "vs \<noteq> []" "length (item_texts vs) < n"
  shows "scan_items hk n (item_texts vs @ CHR '']'' # r) = Some (vs, r)"
  using assms
proof (induction vs arbitrary: n)
  case (Cons v vs)
  obtain m where n: "n = Suc m" using Cons.prems(3) by (cases n) simp_all
  have v: "readable v" "reads hk v" using Cons.prems(1) by simp_all
  show ?case
  proof (cases vs)
    case Nil
    then have "scan_value hk m (dumps_raw v @ CHR '']'' # r) = Some (v, CHR '']'' # r)"
      using readsD[OF v(2)] Cons.prems(3) n by simp
    then show ?thesis by (simp add: Nil n)
  next
    case (Cons w ws)
    have len: "length (dumps_raw v) + length (item_texts vs) + 1 < n"
      using Cons.prems(3) Cons by simp
    have first: "scan_value hk m (dumps_raw v @ CHR '','' # item_texts vs @ CHR '']'' # r) =
        Some (v, CHR '','' # item_texts vs @ CHR '']'' # r)"
      using readsD[OF v(2)] len n by simp
    have w: "readable w" using Cons.prems(1) Cons by simp
    have sk: "skip_space (item_texts vs @ CHR '']'' # r) = item_texts vs @ CHR '']'' # r"
    proof -
      obtain c t where "dumps_raw w = c # t" "opens c" using w by (rule dumps_raw_first)
      then show ?thesis by (cases ws) (simp_all add: Cons skip_space_first)
    qed
    have rest: "scan_items hk m (item_texts vs @ CHR '']'' # r) = Some (vs, r)"
      using Cons.IH[of m] Cons.prems(1) Cons len n by simp
    have "item_texts (v # vs) = dumps_raw v @ CHR '','' # item_texts vs" by (simp add: Cons)
    then show ?thesis using first sk rest by (simp add: n)
  qed
qed simp

definition member_text :: "string \<times> json \<Rightarrow> string" where
  "member_text kv = (case kv of (k, v) \<Rightarrow> quote k @ '':'' @ dumps_raw v)"

abbreviation member_texts :: "(string \<times> json) list \<Rightarrow> string" where
  "member_texts kvs \<equiv> join '','' (map member_text kvs)"

lemma member_text_Cons: "\<exists>t. member_text kv = CHR 0x22 # t"
  by (cases kv) (simp add: member_text_def quote_def)

lemma member_texts_first: "kvs \<noteq> [] \<Longrightarrow> \<exists>t. member_texts kvs = CHR 0x22 # t"
  using member_text_Cons[of "hd kvs"] by (cases kvs; cases "tl kvs") auto

lemma quote_rest: "quote k @ r = CHR 0x22 # concat (map esc_char k) @ CHR 0x22 # r"
  by (simp add: quote_def)

text \<open>One member and what follows it: the end of the object, or a comma and the other members.\<close>

lemma scan_member:
  assumes "readable v" "reads hk v" "length (dumps_raw v) \<le> n" "e = CHR ''}'' \<or> e = CHR '',''"
  shows "scan_members hk (Suc n) (member_text (k, v) @ e # w) =
    (if e = CHR ''}'' then Some ([(k, v)], w) else map_option (apfst (Cons (k, v))) (scan_members hk n (skip_space w)))"
proof -
  have v: "scan_value hk n (dumps_raw v @ e # w) = Some (v, e # w)"
    using readsD[OF assms(2,3), of "e # w"] assms(4) by auto
  have sk: "skip_space (dumps_raw v @ e # w) = dumps_raw v @ e # w" using skip_space_dumps[OF assms(1)] .
  have e: "skip_space (e # w) = e # w" using assms(4) by auto
  show ?thesis
    using assms(4) by (auto simp: member_text_def quote_rest scan_string_quoted sk v e)
qed

lemma scan_members_join:
  assumes "\<forall>kv \<in> set kvs. readable (snd kv) \<and> reads hk (snd kv)" "kvs \<noteq> []" "length (member_texts kvs) < n"
  shows "scan_members hk n (member_texts kvs @ CHR ''}'' # r) = Some (kvs, r)"
  using assms
proof (induction kvs arbitrary: n)
  case (Cons kv kvs)
  obtain k v where kv: "kv = (k, v)" by (cases kv)
  obtain m where n: "n = Suc m" using Cons.prems(3) by (cases n) simp_all
  have v: "readable v" "reads hk v" using Cons.prems(1) kv by simp_all
  have lv: "length (dumps_raw v) \<le> length (member_text kv)" by (simp add: kv member_text_def)
  show ?case
  proof (cases kvs)
    case Nil
    have "length (dumps_raw v) \<le> m" using Cons.prems(3) n lv by (simp add: Nil)
    from scan_member[OF v this, of "CHR ''}''" k r] show ?thesis by (simp add: Nil n kv)
  next
    case (Cons kw kws)
    have len: "length (member_text kv) + length (member_texts kvs) + 1 < n"
      using Cons.prems(3) Cons by simp
    have "length (dumps_raw v) \<le> m" using len lv n by simp
    note one = scan_member[OF v this, of "CHR '',''" k "member_texts kvs @ CHR ''}'' # r"]
    obtain t where t: "member_texts kvs = CHR 0x22 # t" using member_texts_first[of kvs] Cons by auto
    have rest: "scan_members hk m (member_texts kvs @ CHR ''}'' # r) = Some (kvs, r)"
      using Cons.IH[of m] Cons.prems(1) Cons len n by simp
    have "member_texts (kv # kvs) = member_text kv @ CHR '','' # member_texts kvs" by (simp add: Cons)
    then show ?thesis using one rest by (simp add: n kv t)
  qed
qed simp

lemma dict_put_new: "k \<notin> fst ` set d \<Longrightarrow> dict_put k v d = d @ [(k, v)]"
  by (induction d) auto

lemma dict_of_distinct: "distinct (map fst kvs) \<Longrightarrow> dict_of kvs = kvs"
proof -
  have "distinct (map fst (d @ kvs)) \<Longrightarrow> foldl (\<lambda>d (k, v). dict_put k v d) d kvs = d @ kvs" for d
    by (induction kvs arbitrary: d) (auto simp: dict_put_new)
  from this[of "[]"] show "distinct (map fst kvs) \<Longrightarrow> dict_of kvs = kvs" by (simp add: dict_of_def)
qed

lemma dumps_raw_JObj: "dumps_raw (JObj kvs) = CHR ''{'' # member_texts kvs @ ''}''"
proof -
  have "member_text = (\<lambda>(k, v). quote k @ '':'' @ dumps_raw v)"
    by (simp add: member_text_def fun_eq_iff)
  then show ?thesis by simp
qed

lemma reads_readable: "readable v \<Longrightarrow> reads hk v"
proof (induction v)
  case (JList xs)
  have xs: "\<forall>v \<in> set xs. readable v \<and> reads hk v" using JList by (auto simp: list_all_iff)
  show ?case
  proof (cases "xs = []")
    case True
    show ?thesis unfolding reads_def
    proof (intro allI impI)
      fix n r assume "length (dumps_raw (JList xs)) \<le> n"
      then obtain m where "n = Suc m" by (cases n) simp_all
      then show "scan_value hk n (dumps_raw (JList xs) @ r) = Some (JList xs, r)" by (simp add: True)
    qed
  next
    case False
    show ?thesis unfolding reads_def
    proof (intro allI impI)
      fix n r assume l: "length (dumps_raw (JList xs)) \<le> n"
      then obtain m where n: "n = Suc m" by (cases n) simp_all
      have "length (item_texts xs) < m" using l n by simp
      from scan_items_join[OF xs False this, of r]
      have it: "scan_items hk m (item_texts xs @ CHR '']'' # r) = Some (xs, r)" .
      obtain y ys where y: "xs = y # ys" using False by (cases xs) auto
      then have "readable y" using xs by simp
      then obtain c t where ct: "dumps_raw y = c # t" "opens c" by (rule dumps_raw_first)
      obtain u where u: "item_texts xs = c # u" using ct(1) y by (cases ys) simp_all
      have "skip_space (item_texts xs @ CHR '']'' # r) = item_texts xs @ CHR '']'' # r"
        using ct(2) by (simp add: u skip_space_first)
      then show "scan_value hk n (dumps_raw (JList xs) @ r) = Some (JList xs, r)"
        using it ct(2) by (simp add: n u opens_def)
    qed
  qed
next
  case (JObj kvs)
  have kvs: "\<forall>kv \<in> set kvs. readable (snd kv) \<and> reads hk (snd kv)" using JObj by (fastforce simp: list_all_iff)
  have d: "distinct (map fst kvs)" using JObj.prems by simp
  show ?case
  proof (cases "kvs = []")
    case True
    show ?thesis unfolding reads_def
    proof (intro allI impI)
      fix n r assume "length (dumps_raw (JObj kvs)) \<le> n"
      then obtain m where "n = Suc m" by (cases n) simp_all
      then show "scan_value hk n (dumps_raw (JObj kvs) @ r) = Some (JObj kvs, r)" by (simp add: True)
    qed
  next
    case False
    show ?thesis unfolding reads_def
    proof (intro allI impI)
      fix n r assume l: "length (dumps_raw (JObj kvs)) \<le> n"
      then obtain m where n: "n = Suc m" by (cases n) simp_all
      have "length (member_texts kvs) < m" using l n by (simp add: dumps_raw_JObj del: dumps_raw.simps)
      from scan_members_join[OF kvs False this, of r]
      have it: "scan_members hk m (member_texts kvs @ CHR ''}'' # r) = Some (kvs, r)" .
      obtain t where t: "member_texts kvs = CHR 0x22 # t" using member_texts_first[OF False] by auto
      show "scan_value hk n (dumps_raw (JObj kvs) @ r) = Some (JObj kvs, r)"
        using it d by (simp add: dumps_raw_JObj n t dict_of_distinct del: dumps_raw.simps)
    qed
  qed
next
  case (JInt i)
  show ?case unfolding reads_def
  proof (intro allI impI)
    fix n r assume l: "length (dumps_raw (JInt i)) \<le> n" and "stops r"
    moreover have "show_int i \<noteq> []" by (cases i rule: show_int_shape) simp_all
    ultimately obtain m where "n = Suc m" by (cases n) simp_all
    then show "scan_value hk n (dumps_raw (JInt i) @ r) = Some (JInt i, r)"
      using scan_value_int[OF \<open>stops r\<close>] by simp
  qed
next
  case (JStr s)
  show ?case unfolding reads_def
  proof (intro allI impI)
    fix n r assume l: "length (dumps_raw (JStr s)) \<le> n"
    then obtain m where "n = Suc m" by (cases n) (simp_all add: quote_def)
    then show "scan_value hk n (dumps_raw (JStr s) @ r) = Some (JStr s, r)"
      by (simp add: quote_rest scan_string_quoted)
  qed
next
  case JNull
  show ?case unfolding reads_def
  proof (intro allI impI)
    fix n r assume l: "length (dumps_raw JNull) \<le> n"
    then obtain m where "n = Suc m" by (cases n) simp_all
    then show "scan_value hk n (dumps_raw JNull @ r) = Some (JNull, r)" by (simp add: scan_literal_def startswith_def)
  qed
next
  case (JBool b)
  show ?case unfolding reads_def
  proof (intro allI impI)
    fix n r assume l: "length (dumps_raw (JBool b)) \<le> n"
    then obtain m where "n = Suc m" by (cases n; cases b) simp_all
    then show "scan_value hk n (dumps_raw (JBool b) @ r) = Some (JBool b, r)"
      by (cases b) (simp_all add: scan_literal_def startswith_def)
  qed
qed simp

theorem loads_with_dumps_raw: "readable v \<Longrightarrow> loads_with hk (dumps_raw v) = Some v"
proof -
  assume v: "readable v"
  have "scan_value hk (Suc (length (dumps_raw v))) (dumps_raw v @ []) = Some (v, [])"
    by (rule readsD[OF reads_readable[OF v]]) simp_all
  moreover have "skip_space (dumps_raw v) = dumps_raw v" using skip_space_dumps[OF v, of "[]"] by simp
  ultimately show ?thesis by (simp add: loads_with_def skip_space_def)
qed

theorem loads_dumps_raw: "readable v \<Longrightarrow> loads (dumps_raw v) = Inr v"
  by (simp add: loads_def loads_with_dumps_raw)

section \<open>Sorted members\<close>

text \<open>The value with the members of every object sorted, as \<open>sort_keys\<close> writes them.\<close>

fun sorted_members :: "json \<Rightarrow> json" where
  "sorted_members (JList xs) = JList (map sorted_members xs)"
| "sorted_members (JObj kvs) = JObj (sort_key fst (map (\<lambda>(k, v). (k, sorted_members v)) kvs))"
| "sorted_members v = v"

lemma insort_key_map:
  "(\<And>x. f (g x) = f' x) \<Longrightarrow> map g (insort_key f' a xs) = insort_key f (g a) (map g xs)"
  by (induction xs) auto

lemma sort_key_map:
  "(\<And>x. f (g x) = f' x) \<Longrightarrow> map g (sort_key f' xs) = sort_key f (map g xs)"
proof (induction xs)
  case (Cons x xs)
  then show ?case using insort_key_map[of f g f'] by simp
qed simp

lemma dumps_sorted: "dumps v = dumps_raw (sorted_members v)"
proof (induction v)
  case (JList xs)
  then show ?case by (simp cong: map_cong)
next
  case (JObj kvs)
  let ?g = "\<lambda>kv. (fst kv, dumps_raw (snd kv))"
  have eq: "map (\<lambda>(k, v). (k, dumps v)) kvs = map ?g (map (\<lambda>(k, v). (k, sorted_members v)) kvs)"
    using JObj by (force intro: map_cong)
  have "sort_key fst (map (\<lambda>(k, v). (k, dumps v)) kvs) =
      map ?g (sort_key fst (map (\<lambda>(k, v). (k, sorted_members v)) kvs))"
    unfolding eq by (rule sort_key_map[symmetric]) simp
  then show ?case by (simp add: comp_def case_prod_beta')
qed simp_all

lemma readable_sorted: "readable v \<Longrightarrow> readable (sorted_members v)"
proof (induction v)
  case (JObj kvs)
  let ?ks = "map (\<lambda>(k, v). (k, sorted_members v)) kvs"
  have "mset (map fst (sort_key fst ?ks)) = mset (map fst ?ks)" by (simp only: mset_map mset_sort)
  moreover have "map fst ?ks = map fst kvs" by (simp add: comp_def case_prod_beta')
  ultimately have "distinct (map fst (sort_key fst ?ks))"
    using JObj.prems by (metis mset_eq_imp_distinct_iff readable.simps(3))
  then show ?case using JObj by (fastforce simp: list_all_iff)
qed (auto simp: list_all_iff)

theorem loads_dumps: "readable v \<Longrightarrow> loads (dumps v) = Inr (sorted_members v)"
  by (simp add: dumps_sorted loads_dumps_raw readable_sorted)

end
