(* ===== verification/Configuration_Props.thy ===== *)
theory Configuration_Props imports Configuration Json_Roundtrip begin

text \<open>
  What the configuration of a deployed process guarantees once it is accepted: one account for its
  keys and queues, the database user of its role, one host name, and nothing of local development.
\<close>

lemma require_Inr [simp]: "require ok m = Inr x \<longleftrightarrow> ok"
  by (simp add: require_def)

lemma require_True: "require True m = Inr ()"
  by simp

lemma https_urlE:
  assumes "https_url ul name s allow = Inr u"
  shows "urlparse (ul_brackets ul) s = Inr u" "port_of u \<in> {Inr None, Inr (Some 443)}" "pu_scheme u = ''https''"
    "username u = None" "pu_query u = []" "pu_fragment u = []"
  using assms
  by (auto simp: https_url_def parsed_or_def parse_with_port_def split: sum.splits if_splits)

lemma validate_originE:
  assumes "validate_origin ul c database = Inr x"
  shows "40 \<le> length (rc_secret_key c)" "\<forall>k \<in> set (rc_fallbacks c). 40 \<le> length k"
    "\<exists>public h. https_url ul ''PUBLIC_URL'' (rc_public_url c) False = Inr public \<and> hostname public = Some h \<and> rc_hosts c = [h]"
    "rc_sslmode c = ''verify-full''"
    "map_of DATABASE_USERS (rc_role c) = Some (unquote (ul_decode ul) (or_empty (username database)))"
  using assms by (auto simp: validate_origin_def weak_key_def list_ex_iff not_less)

lemma validate_storesE:
  assumes "validate_stores c = Inr account"
  shows "kms_account (rc_kms_key c) = Some account" "rc_local_key c = []" "rc_report_bucket c \<noteq> rc_ledger_bucket c"
    "valid_s3_bucket (rc_report_bucket c)" "valid_s3_bucket (rc_ledger_bucket c)"
  using assms by (auto simp: validate_stores_def split: option.splits)

lemma validate_queuesE:
  assumes "validate_queues ul account c = Inr x"
  shows "set (map fst (rc_queue_urls c)) = set QUEUE_CLASSES" "distinct (all_queue_urls c)"
    "\<And>q. q \<in> set (all_queue_urls c) \<Longrightarrow> \<exists>u. urlparse (ul_brackets ul) q = Inr u \<and> pu_scheme u = ''https'' \<and>
      hostname u = Some ''sqs.eu-west-1.amazonaws.com'' \<and> sqs_queue_path (pu_path u) = Some account"
proof -
  obtain ys where ys: "map_res (validate_queue ul account) (all_queue_urls c) = Inr ys"
    and rest: "set (map fst (rc_queue_urls c)) = set QUEUE_CLASSES" "distinct (all_queue_urls c)"
    using assms by (auto simp: validate_queues_def)
  have each: "map_res f xs = Inr zs \<Longrightarrow> x \<in> set xs \<Longrightarrow> \<exists>y. f x = Inr y" for f :: "string \<Rightarrow> unit result" and xs zs x
    by (induction xs arbitrary: zs) auto
  show "\<exists>u. urlparse (ul_brackets ul) q = Inr u \<and> pu_scheme u = ''https'' \<and>
      hostname u = Some ''sqs.eu-west-1.amazonaws.com'' \<and> sqs_queue_path (pu_path u) = Some account"
    if q: "q \<in> set (all_queue_urls c)" for q
  proof -
    obtain y where "validate_queue ul account q = Inr y" using each[OF ys q] by blast
    then obtain u where "https_url ul ''SQS queue URL'' q True = Inr u" "hostname u = Some ''sqs.eu-west-1.amazonaws.com''"
      "sqs_queue_path (pu_path u) = Some account" unfolding validate_queue_def by auto
    with https_urlE[of ul "''SQS queue URL''" q True u] show ?thesis by blast
  qed
  show "set (map fst (rc_queue_urls c)) = set QUEUE_CLASSES" "distinct (all_queue_urls c)" by (fact rest)+
qed

text \<open>C38: An accepted configuration of a deployed process is confined: its key and its queues belong to one
  account, the six queue URLs differ pairwise and serve exactly the five classes beside the mail
  feedback, the database is used over a verified connection by the user of the configured role, the
  only host is that of the public URL, the two buckets differ, and no key of local development is left.\<close>

theorem accepted_deployments_are_confined:
  assumes "from_environ ul e = Inr c" and "deployed c"
  shows "(\<exists>account. kms_account (rc_kms_key c) = Some account \<and>
      (\<forall>q \<in> set (all_queue_urls c). \<exists>u. urlparse (ul_brackets ul) q = Inr u \<and> pu_scheme u = ''https'' \<and>
        hostname u = Some ''sqs.eu-west-1.amazonaws.com'' \<and> sqs_queue_path (pu_path u) = Some account)) \<and>
    set (map fst (rc_queue_urls c)) = set QUEUE_CLASSES \<and> distinct (all_queue_urls c) \<and>
    (\<exists>u. urlparse (ul_brackets ul) (rc_database_url c) = Inr u \<and>
      map_of DATABASE_USERS (rc_role c) = Some (unquote (ul_decode ul) (or_empty (username u)))) \<and>
    rc_sslmode c = ''verify-full'' \<and>
    (\<exists>u h. urlparse (ul_brackets ul) (rc_public_url c) = Inr u \<and> pu_scheme u = ''https'' \<and> hostname u = Some h \<and> rc_hosts c = [h]) \<and>
    rc_report_bucket c \<noteq> rc_ledger_bucket c \<and> rc_local_key c = [] \<and>
    (\<forall>k \<in> set (rc_secret_key c # rc_fallbacks c). 40 \<le> length k)"
proof -
  have "validate ul c = Inr ()" using assms(1) by (auto simp: from_environ_def Let_def)
  then obtain database account where db: "postgresql_url ul (rc_database_url c) = Inr database"
    and origin: "validate_origin ul c database = Inr ()" and stores: "validate_stores c = Inr account"
    and queues: "validate_queues ul account c = Inr ()"
    using assms(2) by (auto simp: validate_def)
  obtain public h where p: "https_url ul ''PUBLIC_URL'' (rc_public_url c) False = Inr public" "hostname public = Some h" "rc_hosts c = [h]"
    using validate_originE(3)[OF origin] by blast
  have "urlparse (ul_brackets ul) (rc_database_url c) = Inr database"
    using db by (auto simp: postgresql_url_def parsed_or_def parse_with_port_def split: sum.splits if_splits)
  moreover have "\<forall>k \<in> set (rc_secret_key c # rc_fallbacks c). 40 \<le> length k" using validate_originE(1,2)[OF origin] by auto
  ultimately show ?thesis
    using validate_originE(4,5)[OF origin] validate_storesE[OF stores] validate_queuesE[OF queues]
      https_urlE(1,3)[OF p(1)] p(2,3) by blast
qed

section \<open>An accepted environment\<close>

definition ex_url_lib :: url_lib where
  "ex_url_lib = \<lparr>ul_brackets = (\<lambda>_. False), ul_decode = id\<rparr>"

definition ex_queue :: "string \<Rightarrow> string" where
  "ex_queue name = ''https://sqs.eu-west-1.amazonaws.com/123456789012/'' @ name"

definition ex_queue_map :: string where
  "ex_queue_map = dumps_raw (JObj (map (\<lambda>k. (k, JStr (ex_queue k))) QUEUE_CLASSES))"

definition ex_environ :: environ where
  "ex_environ = [(''LEDGERGUARD_ENV'', ''production''), (''DJANGO_SECRET_KEY'', replicate 40 (CHR ''k'')),
     (''ALLOWED_HOSTS'', ''app.example''), (''PUBLIC_URL'', ''https://app.example/''),
     (''DATABASE_URL'', ''postgresql://ledgerguard_app:pw@db:5432/ledgerguard''), (''LEDGERGUARD_DATABASE_ROLE'', ''application''),
     (''KMS_KEY_ID'', ''arn:aws:kms:eu-west-1:123456789012:key/a-1''), (''QUEUE_URLS'', ex_queue_map),
     (''REPORT_BUCKET'', ''reports''), (''DELETION_LEDGER_BUCKET'', ''ledger''), (''SES_FROM_EMAIL'', ''a@b''),
     (''SES_CONFIGURATION_SET'', ''mail''), (''SES_FEEDBACK_QUEUE_URL'', ex_queue ''feedback''),
     (''COGNITO_ISSUER'', ''https://cognito-idp.eu-west-1.amazonaws.com/eu-west-1_Ab1''),
     (''COGNITO_DOMAIN'', ''https://x.auth.eu-west-1.amazoncognito.com''), (''COGNITO_CLIENT_ID'', ''client12''),
     (''COGNITO_CLIENT_SECRET'', ''0123456789abcdef''), (''COGNITO_MFA_ENFORCED'', ''1'')]"

definition ex_queue_pairs :: "(string \<times> string) list" where
  "ex_queue_pairs = map (\<lambda>k. (k, ex_queue k)) QUEUE_CLASSES"

definition ex_configuration :: runtime_configuration where
  "ex_configuration =
     \<lparr>rc_environment = ''production'', rc_secret_key = replicate 40 (CHR ''k''), rc_fallbacks = [], rc_hosts = [''app.example''],
       rc_public_url = ''https://app.example'', rc_database_url = ''postgresql://ledgerguard_app:pw@db:5432/ledgerguard'',
       rc_database_supplied = True, rc_sslmode = ''verify-full'', rc_role = ''application'', rc_region = ''eu-west-1'',
       rc_kms_key = ''arn:aws:kms:eu-west-1:123456789012:key/a-1'', rc_local_key = [], rc_queue_url = [],
       rc_queue_urls = ex_queue_pairs, rc_queue_class = ''ingestion'', rc_report_bucket = ''reports'',
       rc_ledger_bucket = ''ledger'', rc_ses_from = ''a@b'', rc_ses_set = ''mail'', rc_ses_queue = ex_queue ''feedback'',
       rc_issuer = ''https://cognito-idp.eu-west-1.amazonaws.com/eu-west-1_Ab1'',
       rc_domain = ''https://x.auth.eu-west-1.amazoncognito.com'', rc_client = ''client12'',
       rc_client_secret = ''0123456789abcdef'', rc_mfa = True\<rparr>"

lemma ex_read: "read_environ ex_environ ''production'' ex_queue_pairs = ex_configuration"
  by code_simp

lemma ex_queues: "rc_queue_urls ex_configuration = ex_queue_pairs"
  by (simp add: ex_configuration_def)

lemma ex_queue_map_read: "queue_urls (env_or ex_environ ''QUEUE_URLS'' ''{}'') = Inr (rc_queue_urls ex_configuration)"
proof -
  have "env_or ex_environ ''QUEUE_URLS'' ''{}'' = ex_queue_map" by (simp add: env_or_def ex_environ_def)
  moreover have "loads ex_queue_map = Inr (JObj (map (\<lambda>k. (k, JStr (ex_queue k))) QUEUE_CLASSES))"
    unfolding ex_queue_map_def by (rule loads_dumps_raw) (simp add: QUEUE_CLASSES_def)
  ultimately show ?thesis
    by (simp add: queue_urls_def ex_queues ex_queue_pairs_def QUEUE_CLASSES_def text_pair_def List.map_filter_def)
qed

lemma ex_database: "rbind (postgresql_url ex_url_lib (rc_database_url ex_configuration)) (validate_origin ex_url_lib ex_configuration) = Inr ()"
  by code_simp

lemma ex_stores: "validate_stores ex_configuration = Inr ''123456789012''"
  by code_simp

lemma ex_provider: "validate_provider ex_url_lib ex_configuration = Inr ()"
  by code_simp

lemma ex_queue_checked:
  "list_all (\<lambda>k. validate_queue ex_url_lib ''123456789012'' (ex_queue k) = Inr ()) (QUEUE_CLASSES @ [''feedback''])"
  by code_simp

lemma ex_all_queues: "all_queue_urls ex_configuration = map ex_queue (QUEUE_CLASSES @ [''feedback''])"
  "distinct (map ex_queue (QUEUE_CLASSES @ [''feedback'']))" "rc_queue_url ex_configuration = []"
  by code_simp+

lemma ex_queues_validated: "validate_queues ex_url_lib ''123456789012'' ex_configuration = Inr ()"
proof -
  have "list_all (\<lambda>k. f (g k) = Inr ()) ks \<Longrightarrow> \<exists>ys. map_res f (map g ks) = Inr ys" for f :: "string \<Rightarrow> unit result" and g ks
    by (induction ks) auto
  then obtain ys where "map_res (validate_queue ex_url_lib ''123456789012'') (map ex_queue (QUEUE_CLASSES @ [''feedback''])) = Inr ys"
    using ex_queue_checked by blast
  moreover have "set (map fst (rc_queue_urls ex_configuration)) = set QUEUE_CLASSES" by (simp add: ex_queues ex_queue_pairs_def)
  ultimately show ?thesis
    unfolding validate_queues_def ex_all_queues(1) using ex_all_queues(2,3) by (simp only: require_True rbind_simps simp_thms)
qed

lemma ex_validated: "validate ex_url_lib ex_configuration = Inr ()"
proof -
  obtain database where db: "postgresql_url ex_url_lib (rc_database_url ex_configuration) = Inr database"
    and origin: "validate_origin ex_url_lib ex_configuration database = Inr ()" using ex_database by auto
  have flags: "rc_queue_class ex_configuration \<in> set QUEUE_CLASSES" "map_of DATABASE_USERS (rc_role ex_configuration) \<noteq> None"
    "deployed ex_configuration" by code_simp+
  show ?thesis
    by (simp only: validate_def db rbind_simps origin flags ex_stores ex_provider ex_queues_validated require_True simp_thms if_False)
qed

lemma ex_deployed: "deployed ex_configuration"
  by code_simp


lemma ex_environment: "env_or ex_environ ''LEDGERGUARD_ENV'' ''development'' = ''production''"
  by code_simp

lemma ex_accepted: "from_environ ex_url_lib ex_environ = Inr ex_configuration"
proof -
  have known: "require (''production'' \<in> set ENVIRONMENTS) m = Inr ()" for m by (simp add: ENVIRONMENTS_def CLOUD_ENVIRONMENTS_def)
  have c: "read_environ ex_environ ''production'' (rc_queue_urls ex_configuration) = ex_configuration"
    unfolding ex_queues by (rule ex_read)
  show ?thesis
    unfolding from_environ_def Let_def ex_environment ex_queue_map_read known rbind_simps c ex_validated ..
qed

theorem accepted_deployments_are_confined_witness:
  "(\<exists>account. kms_account (rc_kms_key ex_configuration) = Some account \<and>
      (\<forall>q \<in> set (all_queue_urls ex_configuration). \<exists>u. urlparse (ul_brackets ex_url_lib) q = Inr u \<and> pu_scheme u = ''https'' \<and>
        hostname u = Some ''sqs.eu-west-1.amazonaws.com'' \<and> sqs_queue_path (pu_path u) = Some account)) \<and>
    set (map fst (rc_queue_urls ex_configuration)) = set QUEUE_CLASSES \<and> distinct (all_queue_urls ex_configuration)"
  using accepted_deployments_are_confined [OF ex_accepted ex_deployed] by blast

section \<open>Distinct texts for one queue\<close>

text \<open>The check that the queue URLs differ compares their texts: two classes can be given one queue.\<close>

lemma distinct_urls_may_share_a_queue:
  "validate_queue ex_url_lib ''123456789012'' ''https://sqs.eu-west-1.amazonaws.com/123456789012/work'' = Inr () \<and>
   validate_queue ex_url_lib ''123456789012'' ''https://sqs.eu-west-1.amazonaws.com:443/123456789012/work'' = Inr ()"
  by code_simp

end
