(* ===== verification/Settings.thy ===== *)
theory Settings imports Configuration begin

text \<open>
  \<open>apps/control_plane/settings.py\<close>: the settings of the framework as they follow from the configuration
  and the environment. A setting is its name with its value as JSON data; paths are joined to the
  base directory.
\<close>

definition js :: "string list \<Rightarrow> json" where "js xs = JList (map JStr xs)"

text \<open>\<open>os.environ.get(name, "0") == "1" and not PRODUCTION\<close>\<close>

definition debug_mode :: "environ \<Rightarrow> runtime_configuration \<Rightarrow> bool" where
  "debug_mode e c \<longleftrightarrow> env_or e ''DJANGO_DEBUG'' ''0'' = ''1'' \<and> \<not> deployed c"

definition collected_static :: "environ \<Rightarrow> runtime_configuration \<Rightarrow> bool" where
  "collected_static e c \<longleftrightarrow> deployed c \<or> map_of e ''STATIC_MANIFEST'' = Some ''1''"

definition text_or_null :: "string option \<Rightarrow> json" where
  "text_or_null x = (case x of None \<Rightarrow> JNull | Some s \<Rightarrow> JStr s)"

text \<open>\<open>db.port or 5432\<close>\<close>

definition port_or :: "int \<Rightarrow> int option \<Rightarrow> int" where
  "port_or fallback p = (case p of None \<Rightarrow> fallback | Some n \<Rightarrow> if n = 0 then fallback else n)"

definition database_setting :: "url_lib \<Rightarrow> string \<Rightarrow> runtime_configuration \<Rightarrow> parsed_url \<Rightarrow> json result" where
  "database_setting ul base c db =
     rbind (port_of db) (\<lambda>port.
     Inr (JObj [(''default'', JObj [
       (''ENGINE'', JStr ''django.db.backends.postgresql''), (''NAME'', JStr (lstrip_slash (pu_path db))),
       (''USER'', JStr (unquote (ul_decode ul) (or_empty (username db)))),
       (''PASSWORD'', JStr (unquote (ul_decode ul) (or_empty (password db)))),
       (''HOST'', text_or_null (hostname db)), (''PORT'', JInt (port_or 5432 port)), (''CONN_MAX_AGE'', JInt 0),
       (''OPTIONS'', JObj ([(''connect_timeout'', JInt 5)] @
         (if deployed c then [(''sslrootcert'', JStr (base @ ''/infra/certificates/rds-eu-west-1.pem''))] else []) @
         [(''sslmode'', JStr (rc_sslmode c))]))])]))"

definition INSTALLED_APPS :: "string list" where
  "INSTALLED_APPS =
     [''django.contrib.auth'', ''django.contrib.contenttypes'', ''django.contrib.sessions'', ''django.contrib.messages'',
      ''django.contrib.staticfiles'', ''rest_framework''] @
     map (\<lambda>m. ''modules.'' @ m) [''accounts'', ''connectors'', ''ingestion'', ''findings'', ''reporting'']"

definition MIDDLEWARE :: "string list" where
  "MIDDLEWARE =
     [''apps.control_plane.middleware.HealthMiddleware'', ''django.middleware.security.SecurityMiddleware'',
      ''whitenoise.middleware.WhiteNoiseMiddleware'', ''django.contrib.sessions.middleware.SessionMiddleware'',
      ''django.middleware.common.CommonMiddleware'', ''django.middleware.clickjacking.XFrameOptionsMiddleware'',
      ''django.middleware.csrf.CsrfViewMiddleware'', ''django.contrib.auth.middleware.AuthenticationMiddleware'',
      ''apps.control_plane.middleware.SecurityContextMiddleware'', ''django.contrib.messages.middleware.MessageMiddleware'']"

definition TEMPLATES :: "string \<Rightarrow> json" where
  "TEMPLATES base = JList [JObj [(''BACKEND'', JStr ''django.template.backends.django.DjangoTemplates''),
     (''DIRS'', js [base @ ''/templates'']), (''APP_DIRS'', JBool True),
     (''OPTIONS'', JObj [(''context_processors'', js [''django.template.context_processors.request'',
        ''django.contrib.auth.context_processors.auth'', ''django.contrib.messages.context_processors.messages''])])]]"

definition framework_settings :: "string \<Rightarrow> (string \<times> json) list" where
  "framework_settings base =
     [(''INSTALLED_APPS'', js INSTALLED_APPS), (''MIDDLEWARE'', js MIDDLEWARE),
      (''ROOT_URLCONF'', JStr ''apps.control_plane.urls''), (''WSGI_APPLICATION'', JStr ''apps.control_plane.wsgi.application''),
      (''TEMPLATES'', TEMPLATES base), (''USE_TZ'', JBool True), (''TIME_ZONE'', JStr ''UTC''), (''LANGUAGE_CODE'', JStr ''en-gb''),
      (''DEFAULT_AUTO_FIELD'', JStr ''django.db.models.BigAutoField''), (''STATIC_URL'', JStr ''/static/'')]"

definition static_settings :: "string \<Rightarrow> bool \<Rightarrow> (string \<times> json) list" where
  "static_settings base collected =
     [(''STATIC_ROOT'', if collected then JStr (base @ ''/staticfiles'') else JNull),
      (''STATICFILES_DIRS'', js [base @ ''/static'']),
      (''STORAGES'', JObj [(''default'', JObj [(''BACKEND'', JStr ''django.core.files.storage.FileSystemStorage'')]),
        (''staticfiles'', JObj [(''BACKEND'', JStr (if collected then ''whitenoise.storage.CompressedManifestStaticFilesStorage''
          else ''django.contrib.staticfiles.storage.StaticFilesStorage''))])]),
      (''WHITENOISE_AUTOREFRESH'', JBool (\<not> collected)), (''WHITENOISE_USE_FINDERS'', JBool (\<not> collected))]"

text \<open>What protects sessions, cookies and connections; most of it holds for deployed processes only.\<close>

definition security_settings :: "runtime_configuration \<Rightarrow> (string \<times> json) list" where
  "security_settings c = (let production = deployed c in
     [(''SESSION_COOKIE_SECURE'', JBool production), (''CSRF_COOKIE_SECURE'', JBool production),
      (''SESSION_COOKIE_HTTPONLY'', JBool True), (''SESSION_COOKIE_SAMESITE'', JStr ''Lax''), (''SESSION_COOKIE_AGE'', JInt 28800),
      (''SESSION_SAVE_EVERY_REQUEST'', JBool False), (''SESSION_IDLE_SECONDS'', JInt 1800),
      (''SECURE_SSL_REDIRECT'', JBool production), (''SECURE_REDIRECT_EXEMPT'', js [''^health/(live|ready)$'']),
      (''SECURE_HSTS_SECONDS'', JInt (if production then 31536000 else 0)),
      (''SECURE_HSTS_INCLUDE_SUBDOMAINS'', JBool production), (''SECURE_HSTS_PRELOAD'', JBool production),
      (''SECURE_PROXY_SSL_HEADER'', if production then js [''HTTP_X_FORWARDED_PROTO'', ''https''] else JNull),
      (''SECURE_CONTENT_TYPE_NOSNIFF'', JBool True), (''SECURE_REFERRER_POLICY'', JStr ''same-origin''),
      (''CSRF_TRUSTED_ORIGINS'', if production then js [rc_public_url c] else JList []),
      (''DATA_UPLOAD_MAX_MEMORY_SIZE'', JInt 1048576), (''FILE_UPLOAD_MAX_MEMORY_SIZE'', JInt 0)])"

definition REST_FRAMEWORK :: json where
  "REST_FRAMEWORK = JObj [
     (''DEFAULT_AUTHENTICATION_CLASSES'', js [''rest_framework.authentication.SessionAuthentication'']),
     (''DEFAULT_PERMISSION_CLASSES'', js [''rest_framework.permissions.IsAuthenticated'']),
     (''DEFAULT_RENDERER_CLASSES'', js [''rest_framework.renderers.JSONRenderer'']),
     (''EXCEPTION_HANDLER'', JStr ''apps.control_plane.errors.exception_handler'')]"

definition service_settings :: "environ \<Rightarrow> runtime_configuration \<Rightarrow> (string \<times> json) list" where
  "service_settings e c =
     [(''REST_FRAMEWORK'', REST_FRAMEWORK), (''AWS_REGION'', JStr (rc_region c)), (''KMS_KEY_ID'', JStr (rc_kms_key c)),
      (''LOCAL_ENCRYPTION_KEY'', JStr (rc_local_key c)), (''QUEUE_URL'', JStr (rc_queue_url c)),
      (''REPORT_BUCKET'', JStr (rc_report_bucket c)), (''DELETION_LEDGER_BUCKET'', JStr (rc_ledger_bucket c)),
      (''SES_FROM_EMAIL'', JStr (rc_ses_from c)), (''SES_CONFIGURATION_SET'', JStr (rc_ses_set c)),
      (''EMAIL_BACKEND'', JStr (if deployed c then ''django.core.mail.backends.smtp.EmailBackend''
         else ''django.core.mail.backends.console.EmailBackend'')),
      (''STRIPE_DEVELOPER_TEST_KEY'', JStr (env_or e ''STRIPE_DEVELOPER_TEST_KEY'' [])),
      (''STRIPE_DEVELOPER_LIVE_KEY'', JStr (env_or e ''STRIPE_DEVELOPER_LIVE_KEY'' [])),
      (''STRIPE_TEST_CLIENT_ID'', JStr (env_or e ''STRIPE_TEST_CLIENT_ID'' [])),
      (''STRIPE_LIVE_CLIENT_ID'', JStr (env_or e ''STRIPE_LIVE_CLIENT_ID'' [])),
      (''STRIPE_API_VERSION'', JStr (env_or e ''STRIPE_API_VERSION'' ''2026-08-26.dahlia'')),
      (''COGNITO_ISSUER'', JStr (rc_issuer c)), (''COGNITO_DOMAIN'', JStr (rc_domain c)), (''COGNITO_CLIENT_ID'', JStr (rc_client c)),
      (''COGNITO_CLIENT_SECRET'', JStr (rc_client_secret c)), (''COGNITO_MFA_ENFORCED'', JBool (rc_mfa c)),
      (''LOGIN_URL'', JStr ''/login/''), (''LOGIN_REDIRECT_URL'', JStr ''/'')]"

definition LOGGING :: json where
  "LOGGING = JObj [(''version'', JInt 1), (''disable_existing_loggers'', JBool False),
     (''formatters'', JObj [(''safe'', JObj [(''()'', JStr ''apps.control_plane.telemetry.SafeFormatter'')])]),
     (''handlers'', JObj [(''console'', JObj [(''class'', JStr ''logging.StreamHandler''), (''formatter'', JStr ''safe'')])]),
     (''root'', JObj [(''handlers'', js [''console'']), (''level'', JStr ''INFO'')]),
     (''loggers'', JObj [
       (''django.request'', JObj [(''handlers'', js [''console'']), (''level'', JStr ''ERROR''), (''propagate'', JBool False)]),
       (''httpx'', JObj [(''level'', JStr ''WARNING'')]), (''botocore'', JObj [(''level'', JStr ''WARNING'')])])]"

definition queue_settings :: "runtime_configuration \<Rightarrow> (string \<times> json) list" where
  "queue_settings c =
     [(''QUEUE_URLS'', JObj (map (\<lambda>(k, u). (k, JStr u)) (rc_queue_urls c))), (''WORKER_QUEUE_CLASS'', JStr (rc_queue_class c)),
      (''SES_FEEDBACK_QUEUE_URL'', JStr (rc_ses_queue c))]"

text \<open>The module: it reads the configuration, which may refuse to start, and the database of it.\<close>

definition settings :: "url_lib \<Rightarrow> string \<Rightarrow> environ \<Rightarrow> (string \<times> json) list result" where
  "settings ul base e =
     rbind (from_environ ul e) (\<lambda>c.
     rbind (postgresql_url ul (rc_database_url c)) (\<lambda>db.
     rbind (database_setting ul base c db) (\<lambda>databases.
     Inr ([(''ENVIRONMENT'', JStr (rc_environment c)), (''PRODUCTION'', JBool (deployed c)), (''DEBUG'', JBool (debug_mode e c)),
         (''SECRET_KEY'', JStr (rc_secret_key c)), (''SECRET_KEY_FALLBACKS'', js (rc_fallbacks c)),
         (''ALLOWED_HOSTS'', js (rc_hosts c)), (''PUBLIC_URL'', JStr (rc_public_url c)),
         (''DATABASE_URL'', JStr (rc_database_url c)), (''DB_SSLMODE'', JStr (rc_sslmode c)),
         (''LEDGERGUARD_DATABASE_ROLE'', JStr (rc_role c)), (''DATABASES'', databases)] @
       framework_settings base @ [(''COLLECTED_STATIC'', JBool (collected_static e c))] @
       static_settings base (collected_static e c) @ security_settings c @ service_settings e c @
       [(''LOGGING'', LOGGING)] @ queue_settings c))))"

end
