(* ===== verification/Effects.thy ===== *)
theory Effects imports Prelude begin

text \<open>
  Operations on a state of their own whose effects survive an exception, as those of a script do: the
  exception ends the operation, the state keeps what happened before.
\<close>

type_synonym ('s, 'a) effect = "'s \<Rightarrow> 'a result \<times> 's"

definition dreturn :: "'a \<Rightarrow> ('s, 'a) effect" where "dreturn x = (\<lambda>st. (Inr x, st))"

definition draise :: "exn \<Rightarrow> ('s, 'a) effect" where "draise e = (\<lambda>st. (Inl e, st))"

definition dlift :: "'a result \<Rightarrow> ('s, 'a) effect" where "dlift r = (\<lambda>st. (r, st))"

definition dbind :: "('s, 'a) effect \<Rightarrow> ('a \<Rightarrow> ('s, 'b) effect) \<Rightarrow> ('s, 'b) effect" where
  "dbind m f = (\<lambda>st. case m st of (Inl e, st') \<Rightarrow> (Inl e, st') | (Inr x, st') \<Rightarrow> f x st')"

definition dmodify :: "('s \<Rightarrow> 's) \<Rightarrow> ('s, unit) effect" where "dmodify f = (\<lambda>st. (Inr (), f st))"

definition dread :: "('s \<Rightarrow> 'a) \<Rightarrow> ('s, 'a) effect" where "dread f = (\<lambda>st. (Inr (f st), st))"

definition dguard :: "bool \<Rightarrow> exn \<Rightarrow> ('s, unit) effect" where "dguard ok e = dlift (guard ok e)"

text \<open>\<open>try: m except Exception\<close>: whether \<open>m\<close> completed.\<close>

definition completes :: "('s, 'a) effect \<Rightarrow> ('s, bool) effect" where
  "completes m = (\<lambda>st. case m st of (Inl e, st') \<Rightarrow> (Inr False, st') | (Inr x, st') \<Rightarrow> (Inr True, st'))"

fun dmap :: "('a \<Rightarrow> ('s, 'b) effect) \<Rightarrow> 'a list \<Rightarrow> ('s, 'b list) effect" where
  "dmap f [] = dreturn []"
| "dmap f (x # xs) = dbind (f x) (\<lambda>y. dbind (dmap f xs) (\<lambda>ys. dreturn (y # ys)))"

definition dfor :: "('a \<Rightarrow> ('s, unit) effect) \<Rightarrow> 'a list \<Rightarrow> ('s, unit) effect" where
  "dfor f xs = dbind (dmap f xs) (\<lambda>_. dreturn ())"

text \<open>Conditions joined by \<open>and\<close>: the first that is false ends the evaluation.\<close>

fun all_hold :: "bool result list \<Rightarrow> bool result" where
  "all_hold [] = Inr True"
| "all_hold (r # rs) = rbind r (\<lambda>b. if b then all_hold rs else Inr False)"

lemma all_hold_True: "all_hold rs = Inr True \<longleftrightarrow> (\<forall>r \<in> set rs. r = Inr True)"
  by (induction rs) (auto simp: rbind_Inr_iff)

lemma dbind_pure [simp]:
  "dbind (dread f) g st = g (f st) st" "dbind (dlift (Inr x)) g st = g x st" "dbind (dlift (Inl e)) g st = (Inl e, st)"
  "dbind (dmodify h) g' st = g' () (h st)" "dbind (dreturn x) g st = g x st"
  by (simp_all add: dbind_def dread_def dlift_def dmodify_def dreturn_def)

lemma dread_step: "dbind (dread f) g st = (r, st') \<Longrightarrow> g (f st) st = (r, st')"
  by simp

lemma dlift_cases:
  assumes "dbind (dlift v) g st = (r, st')"
  obtains (raised) e where "v = Inl e" "st' = st" "r = Inl e" | (went_on) x where "v = Inr x" "g x st = (r, st')"
  using assms by (cases v) auto

lemma dbindE:
  assumes "dbind m f st = (r, st')"
  obtains (raised) e where "m st = (Inl e, st')" "r = Inl e" | (went_on) x st1 where "m st = (Inr x, st1)" "f x st1 = (r, st')"
  using assms by (auto simp: dbind_def split: prod.splits sum.splits)

end
