(* ===== verification/Deploy.thy ===== *)
theory Deploy imports Reporting Effects begin

text \<open>
  \<open>scripts/deploy.py\<close>: the rollout of an image to the services and the scheduled operations of an
  environment, and its reversal when a step fails. The cloud is a parameter: what it answers to a call
  may depend on all calls before it. Its answers are JSON data, whose numbers are integers; the state of a rollout keeps the calls
  that were made and the variables that the exception handler reads.
\<close>

section \<open>Calls and the state of a rollout\<close>

datatype call =
    Get_Caller
  | Describe_Services string "string list"
  | Describe_Task json
  | Register_Task dict
  | Run_Task string json json
  | Wait_Stopped string json
  | Describe_Run string json
  | Wait_Stable string "string list"
  | Update_Service string string json "json option"
  | Get_Schedule string
  | Update_Schedule dict
  | Sleep int
  | Write_Receipt dict

type_synonym cloud = "call list \<Rightarrow> call \<Rightarrow> json result"

record rollout =
  ro_calls :: "call list"
  ro_old :: "(string \<times> json) list"
  ro_schedules :: "(string \<times> dict) list"
  ro_changed :: "string list"
  ro_scheduled :: "string list"
  ro_targets :: "(string \<times> json) list"
  ro_new_tasks :: "(string \<times> json) list"
  ro_new_states :: "(string \<times> json) list"

type_synonym 'a deploy = "(rollout, 'a) effect"

definition ask :: "cloud \<Rightarrow> call \<Rightarrow> json deploy" where
  "ask cloud c = (\<lambda>ro. (cloud (ro_calls ro) c, ro\<lparr>ro_calls := ro_calls ro @ [c]\<rparr>))"

section \<open>Reading answers\<close>

definition field :: "json \<Rightarrow> string \<Rightarrow> json result" where
  "field v k = (case v of JObj kvs \<Rightarrow> dict_at kvs k | _ \<Rightarrow> Inl (TypeError ''indices must be integers''))"

definition items :: "json \<Rightarrow> json list result" where
  "items v = (case v of JList xs \<Rightarrow> Inr xs | _ \<Rightarrow> Inl (TypeError ''not a list''))"

definition members :: "json \<Rightarrow> dict result" where
  "members v = (case v of JObj kvs \<Rightarrow> Inr kvs | _ \<Rightarrow> Inl (OtherError ''AttributeError''))"

definition get_member :: "json \<Rightarrow> string \<Rightarrow> json \<Rightarrow> json result" where
  "get_member v k fallback = rbind (members v) (\<lambda>kvs. Inr (dict_get_or kvs k fallback))"

definition number :: "json \<Rightarrow> int result" where
  "number v = (case v of JInt n \<Rightarrow> Inr n | _ \<Rightarrow> Inl (TypeError ''not supported between instances''))"

definition text_key :: "json \<Rightarrow> string result" where
  "text_key v = (case v of JStr s \<Rightarrow> Inr s | _ \<Rightarrow> Inl (TypeError ''unhashable type''))"

definition lookup :: "string \<Rightarrow> (string \<times> 'v) list \<Rightarrow> 'v result" where
  "lookup k kvs = (case map_of kvs k of Some x \<Rightarrow> Inr x | None \<Rightarrow> Inl (KeyError k))"

section \<open>Steps\<close>

definition TASK_FIELDS :: "string list" where
  "TASK_FIELDS = [''family'', ''taskRoleArn'', ''executionRoleArn'', ''networkMode'', ''containerDefinitions'', ''volumes'',
     ''placementConstraints'', ''requiresCompatibilities'', ''cpu'', ''memory'', ''pidMode'', ''ipcMode'',
     ''proxyConfiguration'', ''inferenceAccelerators'', ''ephemeralStorage'', ''runtimePlatform'', ''enableFaultInjection'']"

definition SCHEDULE_FIELDS :: "string list" where
  "SCHEDULE_FIELDS = [''Name'', ''GroupName'', ''ScheduleExpression'', ''StartDate'', ''EndDate'', ''Description'',
     ''ScheduleExpressionTimezone'', ''State'', ''KmsKeyArn'', ''Target'', ''FlexibleTimeWindow'', ''ActionAfterCompletion'']"

definition DEPLOY_QUEUES :: "string list" where
  "DEPLOY_QUEUES = [''ingestion'', ''reconciliation'', ''notification'', ''reporting'', ''repair'']"

definition only_fields :: "string list \<Rightarrow> dict \<Rightarrow> dict" where
  "only_fields ks kvs = filter (\<lambda>kv. fst kv \<in> set ks) kvs"

text \<open>The definition that is registered: the known fields, with the image of its only container replaced.\<close>

definition with_image :: "string \<Rightarrow> string \<Rightarrow> json \<Rightarrow> dict result" where
  "with_image family img current =
     rbind (field current ''family'') (\<lambda>f.
     rbind (if f \<noteq> JStr family then Inr [] else rbind (field current ''containerDefinitions'') items) (\<lambda>containers.
     case containers of
       [c] \<Rightarrow> rbind (members current) (\<lambda>kvs. rbind (members c) (\<lambda>ckvs.
         Inr (dict_put ''containerDefinitions'' (JList [JObj (dict_put ''image'' (JStr img) ckvs)]) (only_fields TASK_FIELDS kvs))))
     | _ \<Rightarrow> Inl (ValueError ''Unexpected task family or container topology'')))"

definition revision :: "cloud \<Rightarrow> json \<Rightarrow> string \<Rightarrow> string \<Rightarrow> json deploy" where
  "revision cl reference family img =
     dbind (ask cl (Describe_Task reference)) (\<lambda>answer.
     dbind (dlift (rbind (field answer ''taskDefinition'') (with_image family img))) (\<lambda>definition'.
     dbind (ask cl (Register_Task definition')) (\<lambda>registered.
     dlift (rbind (field registered ''taskDefinition'') (\<lambda>t. field t ''taskDefinitionArn'')))))"

definition member_list :: "json \<Rightarrow> string \<Rightarrow> json list result" where
  "member_list v k = rbind (get_member v k (JList [])) items"

definition started_task :: "json \<Rightarrow> json result" where
  "started_task response =
     rbind (get_member response ''failures'' JNull) (\<lambda>failures.
     rbind (if truthy failures then Inr [] else member_list response ''tasks'') (\<lambda>tasks.
     case tasks of [t] \<Rightarrow> field t ''taskArn'' | _ \<Rightarrow> Inl (RuntimeError ''Operation task could not start'')))"

definition finished_task :: "json \<Rightarrow> unit result" where
  "finished_task answer =
     rbind (get_member answer ''tasks'' JNull) (\<lambda>ts.
     rbind (if truthy ts then rbind (items ts) (\<lambda>xs. member_list (hd xs) ''containers'') else Inr []) (\<lambda>containers.
     case containers of
       [c] \<Rightarrow> rbind (get_member c ''exitCode'' JNull) (\<lambda>code. guard (code = JInt 0)
         (RuntimeError ''Operation task failed; inspect the private task log before retrying''))
     | _ \<Rightarrow> Inl (RuntimeError ''Operation task failed; inspect the private task log before retrying'')))"

definition run_operation :: "cloud \<Rightarrow> string \<Rightarrow> json \<Rightarrow> json \<Rightarrow> unit deploy" where
  "run_operation cl cluster definition' network =
     dbind (ask cl (Run_Task cluster definition' network)) (\<lambda>response.
     dbind (dlift (started_task response)) (\<lambda>task.
     dbind (ask cl (Wait_Stopped cluster task)) (\<lambda>_.
     dbind (ask cl (Describe_Run cluster task)) (\<lambda>answer.
     dlift (finished_task answer)))))"

text \<open>A service of the answer runs the definition that was asked for, in the number that was asked for.\<close>

definition service_reached :: "(string \<times> json) list \<Rightarrow> json \<Rightarrow> unit result" where
  "service_reached targets service =
     rbind (rbind (field service ''serviceName'') text_key) (\<lambda>name. rbind (lookup name targets) (\<lambda>expected.
     rbind (field service ''taskDefinition'') (\<lambda>current.
     rbind (if current \<noteq> expected then Inr False
       else rbind (rbind (field service ''runningCount'') number) (\<lambda>running.
         rbind (rbind (field service ''desiredCount'') number) (\<lambda>desired. Inr (desired \<le> running)))) (\<lambda>ok.
     guard ok (RuntimeError ''A service rolled back or did not reach its requested revision'')))))"

definition described :: "nat \<Rightarrow> string \<Rightarrow> json \<Rightarrow> json list result" where
  "described n problem answer =
     rbind (get_member answer ''failures'' JNull) (\<lambda>failures.
     rbind (guard (\<not> truthy failures) (RuntimeError problem)) (\<lambda>_.
     rbind (rbind (field answer ''services'') items) (\<lambda>services.
     rbind (guard (length services = n) (RuntimeError problem)) (\<lambda>_. Inr services))))"

definition stable :: "cloud \<Rightarrow> string \<Rightarrow> (string \<times> json) list \<Rightarrow> unit deploy" where
  "stable cl cluster targets =
     (let names = map fst targets in
      dbind (ask cl (Wait_Stable cluster names)) (\<lambda>_.
      dbind (ask cl (Describe_Services cluster names)) (\<lambda>answer.
      dlift (rbind (described (length names) ''Could not verify every service'' answer)
        (\<lambda>services. rbind (map_res (service_reached targets) services) (\<lambda>_. Inr ()))))))"

definition schedule_reached :: "(string \<times> json) list \<Rightarrow> string \<times> json \<Rightarrow> json \<Rightarrow> bool result" where
  "schedule_reached states st current =
     rbind (get_member current ''State'' JNull) (\<lambda>state. rbind (lookup (fst st) states) (\<lambda>expected.
     if state \<noteq> expected then Inr False
     else rbind (get_member current ''Target'' (JObj [])) (\<lambda>t. rbind (get_member t ''EcsParameters'' (JObj [])) (\<lambda>p.
       rbind (get_member p ''TaskDefinitionArn'' JNull) (\<lambda>arn. Inr (arn = snd st))))))"

text \<open>\<open>all\<close> stops at the first schedule that is not current.\<close>

fun all_reached :: "(string \<times> json) list \<Rightarrow> ((string \<times> json) \<times> json) list \<Rightarrow> bool result" where
  "all_reached states [] = Inr True"
| "all_reached states ((st, current) # rest) =
     rbind (schedule_reached states st current) (\<lambda>ok. if ok then all_reached states rest else Inr False)"

fun schedules_current :: "cloud \<Rightarrow> string \<Rightarrow> (string \<times> json) list \<Rightarrow> (string \<times> json) list \<Rightarrow> nat \<Rightarrow> unit deploy" where
  "schedules_current cl name targets states 0 =
     draise (RuntimeError ''Scheduled operations did not reach their requested revisions'')"
| "schedules_current cl name targets states (Suc attempts) =
     dbind (dmap (\<lambda>st. dbind (ask cl (Get_Schedule (name @ ''-'' @ fst st))) (\<lambda>current. dreturn (st, current))) targets) (\<lambda>current.
     dbind (dlift (all_reached states current)) (\<lambda>ok.
     if ok then dreturn ()
     else if 0 < attempts then dbind (dmodify (\<lambda>ro. ro\<lparr>ro_calls := ro_calls ro @ [Sleep 2]\<rparr>)) (\<lambda>_. schedules_current cl name targets states attempts)
     else schedules_current cl name targets states attempts))"


section \<open>The command\<close>

record deploy_args =
  da_environment :: string
  da_image :: string
  da_initialize :: bool

definition environment_name :: "deploy_args \<Rightarrow> string" where
  "environment_name da = ''ledgerguard-'' @ da_environment da"

definition is_digest :: "string \<Rightarrow> bool" where
  "is_digest s \<longleftrightarrow> length s = 64 \<and> list_all (\<lambda>c. c \<in> set ''abcdef0123456789'') s"

text \<open>\<open>parser.error\<close> ends the process.\<close>

definition check_image :: "deploy_args \<Rightarrow> json \<Rightarrow> unit result" where
  "check_image da account =
     (let prefix = py_str account @ ''.dkr.ecr.eu-west-1.amazonaws.com/'' @ environment_name da @ ''@sha256:'' in
      guard (startswith (da_image da) prefix \<and> is_digest (drop (length prefix) (da_image da))) (OtherError ''SystemExit''))"

definition service_names :: "deploy_args \<Rightarrow> string list" where
  "service_names da = map (\<lambda>suffix. environment_name da @ ''-'' @ suffix) (''api'' # DEPLOY_QUEUES)"

text \<open>The present services by name; a later service of the same name replaces an earlier one.\<close>

definition named_service :: "json \<Rightarrow> (string \<times> json) result" where
  "named_service s = rbind (rbind (field s ''serviceName'') text_key) (\<lambda>name. Inr (name, s))"

definition desired_count :: "json \<Rightarrow> int result" where
  "desired_count s = rbind (field s ''desiredCount'') number"

definition by_name :: "(string \<times> json) list \<Rightarrow> (string \<times> json) list" where
  "by_name kvs = fold (\<lambda>(k, v) acc. dict_put k v acc) kvs []"

fun all_enabled :: "(string \<times> json) list \<Rightarrow> bool result" where
  "all_enabled [] = Inr True"
| "all_enabled ((name, s) # rest) = rbind (desired_count s) (\<lambda>n. if n < 1 then Inr False else all_enabled rest)"

definition read_services :: "cloud \<Rightarrow> deploy_args \<Rightarrow> unit deploy" where
  "read_services cl da =
     dbind (ask cl (Describe_Services (environment_name da) (service_names da))) (\<lambda>answer.
     dbind (dlift (described (length (service_names da)) ''Terraform must provision all six services before deployment'' answer)) (\<lambda>services.
     dbind (dlift (map_res named_service services)) (\<lambda>named.
     dbind (dlift (if da_initialize da then Inr True else all_enabled (by_name named))) (\<lambda>enabled.
     dbind (dguard enabled (RuntimeError ''Use the documented first-deployment sequence for disabled services'')) (\<lambda>_.
     dmodify (\<lambda>ro. ro\<lparr>ro_old := by_name named\<rparr>))))))"

definition SUFFIXES :: "string list" where "SUFFIXES = [''scheduler'', ''maintenance'']"

definition read_schedule :: "cloud \<Rightarrow> deploy_args \<Rightarrow> string \<Rightarrow> (string \<times> dict) deploy" where
  "read_schedule cl da suffix =
     dbind (ask cl (Get_Schedule (environment_name da @ ''-'' @ suffix))) (\<lambda>answer.
     dbind (dlift (members answer)) (\<lambda>kvs. dreturn (suffix, only_fields SCHEDULE_FIELDS kvs)))"

definition private_network :: "deploy_args \<Rightarrow> rollout \<Rightarrow> json result" where
  "private_network da ro =
     rbind (lookup (environment_name da @ ''-api'') (ro_old ro)) (\<lambda>api.
     rbind (field api ''networkConfiguration'') (\<lambda>network.
     rbind (field network ''awsvpcConfiguration'') (\<lambda>vpc. rbind (get_member vpc ''assignPublicIp'' JNull) (\<lambda>ip.
     rbind (guard (ip = JStr ''DISABLED'') (RuntimeError ''Operation tasks must use private networking'')) (\<lambda>_. Inr network)))))"

definition run_named :: "cloud \<Rightarrow> deploy_args \<Rightarrow> json \<Rightarrow> string \<Rightarrow> json deploy" where
  "run_named cl da network suffix =
     (let family = environment_name da @ ''-'' @ suffix in
      dbind (revision cl (JStr family) family (da_image da)) (\<lambda>definition'.
      dbind (run_operation cl (environment_name da) definition' network) (\<lambda>_. dreturn definition')))"

text \<open>The wished number of instances of a first deployment.\<close>

definition initial_count :: "deploy_args \<Rightarrow> string \<Rightarrow> json \<Rightarrow> json option result" where
  "initial_count da service old =
     (if da_initialize da
      then rbind (desired_count old) (\<lambda>n.
        Inr (Some (JInt (max n (if endswith service ''-api'' \<and> da_environment da = ''production'' then 2 else 1)))))
      else Inr None)"

definition roll_service :: "cloud \<Rightarrow> deploy_args \<Rightarrow> string \<Rightarrow> unit deploy" where
  "roll_service cl da service =
     dbind (dread ro_old) (\<lambda>old.
     dbind (dlift (lookup service old)) (\<lambda>s. dbind (dlift (field s ''taskDefinition'')) (\<lambda>reference.
     dbind (revision cl reference service (da_image da)) (\<lambda>target.
     dbind (dlift (initial_count da service s)) (\<lambda>count'.
     dbind (dmodify (\<lambda>ro. ro\<lparr>ro_changed := ro_changed ro @ [service]\<rparr>)) (\<lambda>_.
     dbind (ask cl (Update_Service (environment_name da) service target count')) (\<lambda>_.
     dmodify (\<lambda>ro. ro\<lparr>ro_targets := dict_put service target (ro_targets ro)\<rparr>))))))))"

definition task_of :: "dict \<Rightarrow> json result" where
  "task_of kvs = rbind (dict_at kvs ''Target'') (\<lambda>t. rbind (field t ''EcsParameters'') (\<lambda>p. field p ''TaskDefinitionArn''))"

definition with_task :: "json \<Rightarrow> dict \<Rightarrow> dict result" where
  "with_task task kvs =
     rbind (rbind (dict_at kvs ''Target'') members) (\<lambda>t. rbind (rbind (dict_at t ''EcsParameters'') members) (\<lambda>p.
     Inr (dict_put ''Target'' (JObj (dict_put ''EcsParameters'' (JObj (dict_put ''TaskDefinitionArn'' task p)) t)) kvs)))"

definition roll_schedule :: "cloud \<Rightarrow> deploy_args \<Rightarrow> string \<times> dict \<Rightarrow> unit deploy" where
  "roll_schedule cl da entry =
     (case entry of (suffix, original) \<Rightarrow>
      dbind (dlift (task_of original)) (\<lambda>reference.
      dbind (revision cl reference (environment_name da @ ''-'' @ suffix) (da_image da)) (\<lambda>task.
      dbind (dlift (with_task task original)) (\<lambda>v0.
      let v = (if da_initialize da then dict_put ''State'' (JStr ''ENABLED'') v0 else v0) in
      dbind (dmodify (\<lambda>ro. ro\<lparr>ro_scheduled := ro_scheduled ro @ [suffix]\<rparr>)) (\<lambda>_.
      dbind (ask cl (Update_Schedule v)) (\<lambda>_.
      dbind (dmodify (\<lambda>ro. ro\<lparr>ro_new_tasks := dict_put suffix task (ro_new_tasks ro)\<rparr>)) (\<lambda>_.
      dbind (dlift (dict_at v ''State'')) (\<lambda>state.
      dmodify (\<lambda>ro. ro\<lparr>ro_new_states := dict_put suffix state (ro_new_states ro)\<rparr>)))))))))"

definition roll_out :: "cloud \<Rightarrow> deploy_args \<Rightarrow> unit deploy" where
  "roll_out cl da =
     dbind (dfor (roll_service cl da) (service_names da)) (\<lambda>_.
     dbind (dread ro_targets) (\<lambda>targets.
     dbind (stable cl (environment_name da) targets) (\<lambda>_.
     dbind (dread ro_schedules) (\<lambda>schedules.
     dbind (dfor (roll_schedule cl da) schedules) (\<lambda>_.
     dbind (dread (\<lambda>ro. (ro_new_tasks ro, ro_new_states ro))) (\<lambda>(tasks, states).
     schedules_current cl (environment_name da) tasks states 15))))))"

section \<open>The way back\<close>

text \<open>Each request of the way back is tried; what does not complete is named.\<close>

definition attempt_back :: "string \<Rightarrow> unit deploy \<Rightarrow> string list deploy" where
  "attempt_back problem m = dbind (completes m) (\<lambda>ok. dreturn (if ok then [] else [problem]))"

definition back_schedule :: "cloud \<Rightarrow> string \<Rightarrow> string list deploy" where
  "back_schedule cl suffix = attempt_back (''schedule:'' @ suffix)
     (dbind (dread ro_schedules) (\<lambda>schedules. dbind (dlift (lookup suffix schedules)) (\<lambda>original.
      dbind (ask cl (Update_Schedule original)) (\<lambda>_. dreturn ()))))"

definition original_tasks :: "rollout \<Rightarrow> (string \<times> json) list result" where
  "original_tasks ro = map_res (\<lambda>suffix. rbind (lookup suffix (ro_schedules ro)) (\<lambda>o'. rbind (task_of o') (\<lambda>t. Inr (suffix, t)))) (ro_scheduled ro)"

definition original_states :: "rollout \<Rightarrow> (string \<times> json) list result" where
  "original_states ro = map_res (\<lambda>suffix. rbind (lookup suffix (ro_schedules ro)) (\<lambda>o'. rbind (dict_at o' ''State'') (\<lambda>t. Inr (suffix, t)))) (ro_scheduled ro)"

definition verify_back :: "cloud \<Rightarrow> deploy_args \<Rightarrow> string list deploy" where
  "verify_back cl da = attempt_back ''schedule-verification''
     (dbind (dread original_tasks) (\<lambda>ts. dbind (dlift ts) (\<lambda>tasks. dbind (dread original_states) (\<lambda>ss. dbind (dlift ss) (\<lambda>states.
      schedules_current cl (environment_name da) tasks states 15)))))"

definition back_service :: "cloud \<Rightarrow> deploy_args \<Rightarrow> string \<Rightarrow> string list deploy" where
  "back_service cl da service = attempt_back (''service:'' @ service)
     (dbind (dread ro_old) (\<lambda>old. dbind (dlift (lookup service old)) (\<lambda>s.
      dbind (dlift (field s ''taskDefinition'')) (\<lambda>task. dbind (dlift (field s ''desiredCount'')) (\<lambda>count'.
      dbind (ask cl (Update_Service (environment_name da) service task (Some count'))) (\<lambda>_. dreturn ()))))))"

definition old_targets :: "rollout \<Rightarrow> (string \<times> json) list result" where
  "old_targets ro = map_res (\<lambda>service. rbind (lookup service (ro_old ro)) (\<lambda>s. rbind (field s ''taskDefinition'') (\<lambda>t. Inr (service, t)))) (ro_changed ro)"

definition roll_back :: "cloud \<Rightarrow> deploy_args \<Rightarrow> unit deploy" where
  "roll_back cl da =
     dbind (dread ro_scheduled) (\<lambda>scheduled. dbind (dread ro_changed) (\<lambda>changed.
     dbind (dmap (back_schedule cl) scheduled) (\<lambda>e1.
     dbind (if scheduled \<noteq> [] \<and> concat e1 = [] then verify_back cl da else dreturn []) (\<lambda>e2.
     dbind (dmap (back_service cl da) changed) (\<lambda>e3.
     let errors = concat e1 @ e2 @ concat e3 in
     dbind (dguard (errors = []) (RuntimeError (''Rollback requires operator attention for '' @ join '', '' errors))) (\<lambda>_.
     dbind (if changed \<noteq> []
       then dbind (dread old_targets) (\<lambda>ts. dbind (dlift ts) (\<lambda>targets. stable cl (environment_name da) targets))
       else dreturn ()) (\<lambda>_.
     draise (RuntimeError ''Rollout reverted. Migrations remain applied; use the documented expand-contract recovery procedure.''))))))))"

definition receipt :: "deploy_args \<Rightarrow> json \<Rightarrow> rollout \<Rightarrow> dict" where
  "receipt da migrator ro =
     [(''environment'', JStr (da_environment da)), (''image'', JStr (da_image da)), (''services'', JObj (ro_targets ro)),
      (''scheduled_operations'', JObj (ro_new_tasks ro)), (''migrator'', migrator)]"

definition deploy_main :: "cloud \<Rightarrow> deploy_args \<Rightarrow> unit deploy" where
  "deploy_main cl da =
     dbind (ask cl Get_Caller) (\<lambda>caller. dbind (dlift (field caller ''Account'')) (\<lambda>account.
     dbind (dlift (check_image da account)) (\<lambda>_.
     dbind (read_services cl da) (\<lambda>_.
     dbind (dmap (read_schedule cl da) SUFFIXES) (\<lambda>schedules.
     dbind (dmodify (\<lambda>ro. ro\<lparr>ro_schedules := schedules\<rparr>)) (\<lambda>_.
     dbind (dread (private_network da)) (\<lambda>n. dbind (dlift n) (\<lambda>network.
     dbind (if da_initialize da then dbind (run_named cl da network ''bootstrap'') (\<lambda>_. dreturn ()) else dreturn ()) (\<lambda>_.
     dbind (run_named cl da network ''migrator'') (\<lambda>migrator.
     dbind (completes (roll_out cl da)) (\<lambda>ok.
     if \<not> ok then roll_back cl da
     else dbind (dread (receipt da migrator)) (\<lambda>r. dbind (ask cl (Write_Receipt r)) (\<lambda>_. dreturn ())))))))))))))"

definition no_rollout :: rollout where
  "no_rollout = \<lparr>ro_calls = [], ro_old = [], ro_schedules = [], ro_changed = [], ro_scheduled = [], ro_targets = [],
     ro_new_tasks = [], ro_new_states = []\<rparr>"

definition deploy :: "cloud \<Rightarrow> deploy_args \<Rightarrow> unit result \<times> rollout" where
  "deploy cl da = deploy_main cl da no_rollout"

end
