(* ===== verification/Deploy_Props.thy ===== *)
theory Deploy_Props imports Deploy begin

text \<open>
  The reversal of a failed rollout: whatever the cloud answers, the requests that changed a service or
  a schedule are followed by requests that ask each of them back.
\<close>

named_theorems quiet_intros \<open>computations that request no update\<close>

section \<open>Updates\<close>

definition is_update :: "call \<Rightarrow> bool" where
  "is_update c \<longleftrightarrow> (case c of Update_Service cluster s t n \<Rightarrow> True | Update_Schedule v \<Rightarrow> True | _ \<Rightarrow> False)"

definition updates :: "call list \<Rightarrow> call list" where "updates cs = filter is_update cs"

lemma updates_simps [simp]:
  "updates [] = []" "updates (c # cs) = (if is_update c then c # updates cs else updates cs)"
  "updates (cs @ ds) = updates cs @ updates ds"
  by (simp_all add: updates_def)

lemma is_update_simps [simp]:
  "is_update (Update_Service cluster s t n)" "is_update (Update_Schedule v)" "\<not> is_update Get_Caller"
  "\<not> is_update (Describe_Services a b)" "\<not> is_update (Describe_Task j)" "\<not> is_update (Register_Task kvs)"
  "\<not> is_update (Run_Task a j k)" "\<not> is_update (Wait_Stopped a j)" "\<not> is_update (Describe_Run a j)"
  "\<not> is_update (Wait_Stable a b)" "\<not> is_update (Get_Schedule a)" "\<not> is_update (Sleep i)" "\<not> is_update (Write_Receipt kvs)"
  by (simp_all add: is_update_def)

text \<open>A computation that requests no update and touches nothing but the list of calls; it writes no receipt either.\<close>

definition harmless :: "call \<Rightarrow> bool" where
  "harmless c \<longleftrightarrow> \<not> is_update c \<and> (\<forall>r. c \<noteq> Write_Receipt r)"

definition quiet :: "'a deploy \<Rightarrow> bool" where
  "quiet m \<longleftrightarrow> (\<forall>ro r ro'. m ro = (r, ro') \<longrightarrow> (\<exists>cs. ro' = ro\<lparr>ro_calls := ro_calls ro @ cs\<rparr> \<and> list_all harmless cs))"

lemma quietE:
  assumes "quiet m" and "m ro = (r, ro')"
  obtains cs where "ro' = ro\<lparr>ro_calls := ro_calls ro @ cs\<rparr>" "list_all harmless cs"
  using assms unfolding quiet_def by blast

lemma same_calls: "ro = ro\<lparr>ro_calls := ro_calls ro @ []\<rparr>"
  by simp

lemma quiet_pure [quiet_intros]: "quiet (dreturn x)" "quiet (draise e)" "quiet (dlift r)" "quiet (dread f)" "quiet (dguard ok e)"
  unfolding quiet_def dreturn_def draise_def dlift_def dread_def dguard_def by (auto intro!: exI[of _ "[]"])

lemma quiet_ask [quiet_intros]: "harmless c \<Longrightarrow> quiet (ask cl c)"
  unfolding quiet_def ask_def by auto

lemma quiet_dbind [quiet_intros]:
  assumes "quiet m" and "\<And>x. quiet (f x)"
  shows "quiet (dbind m f)"
  unfolding quiet_def
proof (intro allI impI)
  fix ro r ro' assume run: "dbind m f ro = (r, ro')"
  obtain a ro1 where m: "m ro = (a, ro1)" by (cases "m ro")
  obtain cs where cs: "ro1 = ro\<lparr>ro_calls := ro_calls ro @ cs\<rparr>" "list_all harmless cs" by (rule quietE [OF assms(1) m])
  show "\<exists>cs. ro' = ro\<lparr>ro_calls := ro_calls ro @ cs\<rparr> \<and> list_all harmless cs"
  proof (cases a)
    case (Inl e)
    with run m cs show ?thesis by (auto simp: dbind_def)
  next
    case (Inr x)
    with run m have "f x ro1 = (r, ro')" by (simp add: dbind_def)
    then obtain ds where "ro' = ro1\<lparr>ro_calls := ro_calls ro1 @ ds\<rparr>" "list_all harmless ds" by (rule quietE [OF assms(2)])
    with cs show ?thesis by (intro exI[of _ "cs @ ds"]) simp
  qed
qed

lemma quiet_completes [quiet_intros]: "quiet m \<Longrightarrow> quiet (completes m)"
  unfolding quiet_def completes_def by (auto split: prod.splits sum.splits)

lemma quiet_dmap [quiet_intros]: "(\<And>x. quiet (f x)) \<Longrightarrow> quiet (dmap f xs)"
  by (induction xs) (auto intro!: quiet_intros)

lemma harmless_calls [quiet_intros]:
  "harmless Get_Caller" "harmless (Describe_Services a b)" "harmless (Describe_Task j)" "harmless (Register_Task kvs)"
  "harmless (Run_Task a j k)" "harmless (Wait_Stopped a j)" "harmless (Describe_Run a j)" "harmless (Wait_Stable a b)"
  "harmless (Get_Schedule a)" "harmless (Sleep n)"
  by (simp_all add: harmless_def)

lemma quiet_sleep [quiet_intros]: "quiet (dmodify (\<lambda>ro. ro\<lparr>ro_calls := ro_calls ro @ [Sleep n]\<rparr>))"
  unfolding quiet_def dmodify_def by (auto simp: harmless_def)

lemma quiet_if [quiet_intros]: "quiet m \<Longrightarrow> quiet m' \<Longrightarrow> quiet (if b then m else m')"
  by simp

lemma quiet_steps [quiet_intros]:
  "quiet (revision cl reference family img)" "quiet (run_operation cl cluster d network)" "quiet (stable cl cluster targets)"
  "quiet (read_schedule cl da suffix)" "quiet (run_named cl da network suffix)"
  unfolding revision_def run_operation_def stable_def read_schedule_def run_named_def Let_def
  by (intro quiet_intros)+

lemma quiet_schedules_current [quiet_intros]: "quiet (schedules_current cl name targets states n)"
proof (induction n)
  case (Suc n)
  show ?case unfolding schedules_current.simps by (intro quiet_intros Suc)
qed (simp add: quiet_intros)

lemma quiet_verify_back [quiet_intros]: "quiet (verify_back cl da)"
  unfolding verify_back_def attempt_back_def by (intro quiet_intros)


section \<open>What a rollout has to undo\<close>

definition restorable :: "(string \<times> json) list \<Rightarrow> string \<Rightarrow> bool" where
  "restorable old s \<longleftrightarrow> (\<exists>j t n. map_of old s = Some j \<and> field j ''taskDefinition'' = Inr t \<and> field j ''desiredCount'' = Inr n)"

definition accounted :: "rollout \<Rightarrow> call \<Rightarrow> bool" where
  "accounted ro c \<longleftrightarrow> (case c of
     Update_Service cluster s t n \<Rightarrow> s \<in> set (ro_changed ro)
   | Update_Schedule v \<Rightarrow> (\<exists>suffix original. suffix \<in> set (ro_scheduled ro) \<and> map_of (ro_schedules ro) suffix = Some original \<and>
       dict_get v ''Name'' = dict_get original ''Name'')
   | _ \<Rightarrow> True)"

definition tracked :: "(string \<times> json) list \<Rightarrow> (string \<times> dict) list \<Rightarrow> rollout \<Rightarrow> bool" where
  "tracked old schedules ro \<longleftrightarrow> ro_old ro = old \<and> ro_schedules ro = schedules \<and>
     (\<forall>c \<in> set (updates (ro_calls ro)). accounted ro c) \<and> (\<forall>s \<in> set (ro_changed ro). restorable old s) \<and>
     (\<forall>x \<in> set (ro_scheduled ro). map_of schedules x \<noteq> None) \<and> (\<forall>r. Write_Receipt r \<notin> set (ro_calls ro))"

lemma harmless_updates: "list_all harmless cs \<Longrightarrow> updates cs = []"
  by (induction cs) (auto simp: harmless_def)

lemma harmless_receipt: "list_all harmless cs \<Longrightarrow> Write_Receipt r \<notin> set cs"
  by (auto simp: list_all_iff harmless_def)

lemma accounted_calls [simp]: "accounted (ro\<lparr>ro_calls := x\<rparr>) c = accounted ro c"
  by (simp add: accounted_def split: call.split)

definition keeps :: "(rollout \<Rightarrow> bool) \<Rightarrow> 'a deploy \<Rightarrow> bool" where
  "keeps P m \<longleftrightarrow> (\<forall>ro r ro'. P ro \<longrightarrow> m ro = (r, ro') \<longrightarrow> P ro')"

lemma keeps_calls: "keeps P m \<Longrightarrow> P ro \<Longrightarrow> m ro = (r, ro') \<Longrightarrow> P ro'"
  by (auto simp: keeps_def)

lemma keeps_quiet: "quiet m \<Longrightarrow> keeps (tracked old schedules) m"
  by (auto simp: keeps_def tracked_def harmless_updates harmless_receipt elim: quietE)

lemma keeps_dbind:
  assumes "keeps P m" and "\<And>x. keeps P (f x)"
  shows "keeps P (dbind m f)"
  unfolding keeps_def
proof (intro allI impI)
  fix ro r ro' assume "P ro" and "dbind m f ro = (r, ro')"
  from this(2) show "P ro'"
  proof (cases rule: dbindE)
    case (raised e)
    from keeps_calls[OF assms(1) \<open>P ro\<close> raised(1)] show ?thesis .
  next
    case (went_on x ro1)
    from keeps_calls[OF assms(2) keeps_calls[OF assms(1) \<open>P ro\<close> went_on(1)] went_on(2)] show ?thesis .
  qed
qed

lemma keeps_dreturn: "keeps P (dreturn x)"
  by (simp add: keeps_def dreturn_def)

lemma keeps_dmap: "(\<And>x. x \<in> set xs \<Longrightarrow> keeps P (f x)) \<Longrightarrow> keeps P (dmap f xs)"
proof (induction xs)
  case (Cons x xs)
  then show ?case unfolding dmap.simps by (intro keeps_dbind keeps_dreturn) auto
qed (simp add: keeps_dreturn)

definition counted :: "deploy_args \<Rightarrow> (string \<times> json) list \<Rightarrow> bool" where
  "counted da old \<longleftrightarrow> da_initialize da \<or> (\<forall>s j. map_of old s = Some j \<longrightarrow> (\<exists>n. desired_count j = Inr n))"

lemma desired_count_field: "desired_count j = Inr n \<Longrightarrow> \<exists>v. field j ''desiredCount'' = Inr v"
  by (auto simp: desired_count_def)

lemma initial_count_counted:
  assumes "counted da old" and "map_of old s = Some j" and "initial_count da service j = Inr c"
  shows "\<exists>v. field j ''desiredCount'' = Inr v"
proof (cases "da_initialize da")
  case True
  then obtain n where "desired_count j = Inr n" using assms(3) by (auto simp: initial_count_def)
  then show ?thesis by (rule desired_count_field)
next
  case False
  then obtain n where "desired_count j = Inr n" using assms(1,2) unfolding counted_def by blast
  then show ?thesis by (rule desired_count_field)
qed

lemma tracked_quiet: "tracked old schedules ro \<Longrightarrow> quiet m \<Longrightarrow> m ro = (r, ro') \<Longrightarrow> tracked old schedules ro'"
  using keeps_quiet keeps_calls by blast

lemma accounted_more:
  "accounted ro c \<Longrightarrow> accounted (ro\<lparr>ro_changed := ro_changed ro @ [s]\<rparr>) c"
  "accounted ro c \<Longrightarrow> accounted (ro\<lparr>ro_scheduled := ro_scheduled ro @ [s]\<rparr>) c"
  by (auto simp: accounted_def split: call.splits)

lemma ask_result: "ask cl c ro = (cl (ro_calls ro) c, ro\<lparr>ro_calls := ro_calls ro @ [c]\<rparr>)"
  by (simp add: ask_def)

lemma tracked_targets: "tracked old schedules ro \<Longrightarrow> tracked old schedules (ro\<lparr>ro_targets := x\<rparr>)"
  "tracked old schedules ro \<Longrightarrow> tracked old schedules (ro\<lparr>ro_new_tasks := x\<rparr>)"
  "tracked old schedules ro \<Longrightarrow> tracked old schedules (ro\<lparr>ro_new_states := x\<rparr>)"
  by (auto simp: tracked_def accounted_def split: call.splits)

lemma tracked_change:
  assumes "tracked old schedules ro" and "restorable old s"
  shows "tracked old schedules (ro\<lparr>ro_changed := ro_changed ro @ [s], ro_calls := ro_calls ro @ [Update_Service cluster s t n]\<rparr>)"
  using assms by (auto simp: tracked_def accounted_def split: call.splits)

lemma keeps_roll_service:
  assumes "counted da old"
  shows "keeps (tracked old schedules) (roll_service cl da s)"
  unfolding keeps_def
proof (intro allI impI)
  fix ro r ro' assume tr: "tracked old schedules ro" and run: "roll_service cl da s ro = (r, ro')"
  have old: "ro_old ro = old" using tr by (simp add: tracked_def)
  from run show "tracked old schedules ro'" unfolding roll_service_def dbind_pure
  proof (cases rule: dlift_cases)
    case raised with tr show ?thesis by simp
  next
    case (went_on j)
    then have j: "map_of old s = Some j" by (simp add: lookup_def old split: option.splits)
    from went_on(2) show ?thesis
    proof (cases rule: dlift_cases)
      case raised with tr show ?thesis by simp
    next
      case ref: (went_on reference)
      from ref(2) show ?thesis
      proof (cases rule: dbindE)
        case (raised e)
        with tracked_quiet[OF tr quiet_steps(1)] show ?thesis by blast
      next
        case rev: (went_on target ro1)
        from tracked_quiet[OF tr quiet_steps(1) rev(1)] have tr1: "tracked old schedules ro1" .
        from rev(2) show ?thesis
        proof (cases rule: dlift_cases)
          case raised with tr1 show ?thesis by simp
        next
          case cnt: (went_on c)
          from initial_count_counted[OF assms j cnt(1)] j ref(1) have "restorable old s" by (auto simp: restorable_def)
          note tr2 = tracked_change[OF tr1 this]
          show ?thesis using cnt(2) tr2 by (auto simp: dbind_def ask_result dmodify_def split: sum.splits intro!: tracked_targets)
        qed
      qed
    qed
  qed
qed


lemma dict_get_put_other: "k \<noteq> k' \<Longrightarrow> dict_get (dict_put k x kvs) k' = dict_get kvs k'"
  by (induction kvs) (auto simp: dict_get_def)

lemma with_task_name: "with_task task kvs = Inr v \<Longrightarrow> dict_get v ''Name'' = dict_get kvs ''Name''"
  by (auto simp: with_task_def dict_get_put_other)

lemma tracked_reschedule:
  assumes "tracked old schedules ro" and "map_of schedules suffix = Some original" and "dict_get v ''Name'' = dict_get original ''Name''"
  shows "tracked old schedules (ro\<lparr>ro_scheduled := ro_scheduled ro @ [suffix], ro_calls := ro_calls ro @ [Update_Schedule v]\<rparr>)"
proof -
  let ?ro = "ro\<lparr>ro_scheduled := ro_scheduled ro @ [suffix]\<rparr>"
  have "accounted ?ro (Update_Schedule v)" using assms by (auto simp: accounted_def tracked_def)
  moreover have "\<forall>c \<in> set (updates (ro_calls ro)). accounted ?ro c" using assms(1) accounted_more(2) by (auto simp: tracked_def)
  ultimately show ?thesis using assms by (auto simp: tracked_def)
qed

lemma keeps_roll_schedule:
  assumes "map_of schedules suffix = Some original"
  shows "keeps (tracked old schedules) (roll_schedule cl da (suffix, original))"
  unfolding keeps_def
proof (intro allI impI)
  fix ro r ro' assume tr: "tracked old schedules ro" and run: "roll_schedule cl da (suffix, original) ro = (r, ro')"
  from run show "tracked old schedules ro'" unfolding roll_schedule_def prod.case
  proof (cases rule: dlift_cases)
    case raised with tr show ?thesis by simp
  next
    case (went_on reference)
    from went_on(2) show ?thesis
    proof (cases rule: dbindE)
      case (raised e)
      with tracked_quiet[OF tr quiet_steps(1)] show ?thesis by blast
    next
      case rev: (went_on task ro1)
      from tracked_quiet[OF tr quiet_steps(1) rev(1)] have tr1: "tracked old schedules ro1" .
      from rev(2) show ?thesis
      proof (cases rule: dlift_cases)
        case raised with tr1 show ?thesis by simp
      next
        case put: (went_on v0)
        let ?v = "if da_initialize da then dict_put ''State'' (JStr ''ENABLED'') v0 else v0"
        have "dict_get ?v ''Name'' = dict_get original ''Name''"
          using with_task_name[OF put(1)] by (simp add: dict_get_put_other)
        note tr2 = tracked_reschedule[OF tr1 assms this]
        show ?thesis using put(2) tr2
          by (auto simp: Let_def dbind_def ask_result dmodify_def dlift_def split: sum.splits prod.splits intro!: tracked_targets)
      qed
    qed
  qed
qed

lemma keeps_roll_out:
  assumes "counted da old" and "distinct (map fst schedules)"
  shows "keeps (tracked old schedules) (roll_out cl da)"
  unfolding keeps_def
proof (intro allI impI)
  fix ro r ro' assume tr: "tracked old schedules ro" and run: "roll_out cl da ro = (r, ro')"
  have services: "keeps (tracked old schedules) (dfor (roll_service cl da) (service_names da))"
    unfolding dfor_def by (intro keeps_dbind keeps_dmap keeps_roll_service [OF assms(1)] keeps_dreturn)
  have entries: "keeps (tracked old schedules) (dfor (roll_schedule cl da) schedules)"
    unfolding dfor_def
  proof (intro keeps_dbind keeps_dmap keeps_dreturn)
    fix x assume "x \<in> set schedules"
    then have "map_of schedules (fst x) = Some (snd x)" using assms(2) by (simp add: map_of_is_SomeI)
    from keeps_roll_schedule[OF this] show "keeps (tracked old schedules) (roll_schedule cl da x)" by simp
  qed
  have tail: "keeps (tracked old schedules) (dbind (dread (\<lambda>ro. (ro_new_tasks ro, ro_new_states ro)))
      (\<lambda>(tasks, states). schedules_current cl (environment_name da) tasks states 15))"
    by (rule keeps_quiet) (auto intro!: quiet_intros split: prod.split)
  from run[unfolded roll_out_def] show "tracked old schedules ro'"
  proof (cases rule: dbindE)
    case (raised e)
    from keeps_calls[OF services tr raised(1)] show ?thesis .
  next
    case (went_on u ro1)
    from keeps_calls[OF services tr went_on(1)] have tr1: "tracked old schedules ro1" .
    from dread_step[OF went_on(2)] show ?thesis
    proof (cases rule: dbindE)
      case (raised e)
      with tracked_quiet[OF tr1 quiet_steps(3)] show ?thesis by blast
    next
      case st: (went_on u' ro2)
      from tracked_quiet[OF tr1 quiet_steps(3) st(1)] have tr2: "tracked old schedules ro2" .
      then have sc: "ro_schedules ro2 = schedules" by (simp add: tracked_def)
      from dread_step[OF st(2), unfolded sc] have "dbind (dfor (roll_schedule cl da) schedules) (\<lambda>_. dbind (dread (\<lambda>ro. (ro_new_tasks ro, ro_new_states ro)))
          (\<lambda>(tasks, states). schedules_current cl (environment_name da) tasks states 15)) ro2 = (r, ro')" .
      from keeps_calls[OF keeps_dbind[OF entries tail] tr2 this] show ?thesis .
    qed
  qed
qed

section \<open>The way back\<close>

definition restores :: "deploy_args \<Rightarrow> rollout \<Rightarrow> call list" where
  "restores da ro =
     map (\<lambda>x. Update_Schedule (the (map_of (ro_schedules ro) x))) (ro_scheduled ro) @
     map (\<lambda>s. let j = the (map_of (ro_old ro) s) in
       Update_Service (environment_name da) s (projr (field j ''taskDefinition'')) (Some (projr (field j ''desiredCount'')))) (ro_changed ro)"

text \<open>A computation that requests exactly these updates, whatever its result, and changes nothing else.\<close>

definition requests :: "(rollout \<Rightarrow> bool) \<Rightarrow> call list \<Rightarrow> 'a deploy \<Rightarrow> bool" where
  "requests P us m \<longleftrightarrow> (\<forall>ro r ro'. P ro \<longrightarrow> m ro = (r, ro') \<longrightarrow>
     (\<exists>cs. ro' = ro\<lparr>ro_calls := ro_calls ro @ cs\<rparr> \<and> updates cs = us \<and> (\<forall>x. Write_Receipt x \<notin> set cs)) \<and> (\<exists>y. r = Inr y))"


definition based :: "(string \<times> json) list \<Rightarrow> (string \<times> dict) list \<Rightarrow> rollout \<Rightarrow> bool" where
  "based old schedules ro \<longleftrightarrow> ro_old ro = old \<and> ro_schedules ro = schedules"

lemma based_calls [simp]: "based old schedules (ro\<lparr>ro_calls := x\<rparr>) = based old schedules ro"
  by (simp add: based_def)

lemma requestsE:
  assumes "requests P us m" and "P ro" and "m ro = (r, ro')"
  obtains cs y where "ro' = ro\<lparr>ro_calls := ro_calls ro @ cs\<rparr>" "updates cs = us" "\<forall>x. Write_Receipt x \<notin> set cs" "r = Inr y"
  using assms unfolding requests_def by blast

lemma requests_attempt:
  assumes "\<And>ro r ro'. P ro \<Longrightarrow> m ro = (r, ro') \<Longrightarrow>
    \<exists>cs. ro' = ro\<lparr>ro_calls := ro_calls ro @ cs\<rparr> \<and> updates cs = us \<and> (\<forall>x. Write_Receipt x \<notin> set cs)"
  shows "requests P us (attempt_back problem m)"
  unfolding requests_def
proof (intro allI impI)
  fix ro r ro' assume "P ro" and run: "attempt_back problem m ro = (r, ro')"
  obtain a ro1 where m: "m ro = (a, ro1)" by (cases "m ro")
  from run m have "ro' = ro1 \<and> (\<exists>y. r = Inr y)"
    by (cases a) (auto simp: attempt_back_def completes_def dbind_def dreturn_def)
  with assms[OF \<open>P ro\<close> m]
  show "(\<exists>cs. ro' = ro\<lparr>ro_calls := ro_calls ro @ cs\<rparr> \<and> updates cs = us \<and> (\<forall>x. Write_Receipt x \<notin> set cs)) \<and> (\<exists>y. r = Inr y)"
    by simp
qed

lemma requests_back_schedule:
  assumes "map_of schedules x = Some original"
  shows "requests (based old schedules) [Update_Schedule original] (back_schedule cl x)"
  unfolding back_schedule_def
proof (rule requests_attempt)
  fix ro :: rollout and r ro'
  assume "based old schedules ro"
    and "dbind (dread ro_schedules) (\<lambda>schedules. dbind (dlift (lookup x schedules)) (\<lambda>original.
      dbind (ask cl (Update_Schedule original)) (\<lambda>_. dreturn ()))) ro = (r, ro')"
  then show "\<exists>cs. ro' = ro\<lparr>ro_calls := ro_calls ro @ cs\<rparr> \<and> updates cs = [Update_Schedule original] \<and> (\<forall>x. Write_Receipt x \<notin> set cs)"
    using assms
    by (auto simp: based_def lookup_def dbind_def ask_result dreturn_def dread_def dlift_def split: sum.splits
        intro!: exI[of _ "[Update_Schedule original]"])
qed

lemma requests_back_service:
  assumes "map_of old x = Some j" "field j ''taskDefinition'' = Inr t" "field j ''desiredCount'' = Inr n"
  shows "requests (based old schedules) [Update_Service (environment_name da) x t (Some n)] (back_service cl da x)"
  unfolding back_service_def
proof (rule requests_attempt)
  fix ro :: rollout and r ro'
  assume "based old schedules ro"
    and "dbind (dread ro_old) (\<lambda>old. dbind (dlift (lookup x old)) (\<lambda>s.
      dbind (dlift (field s ''taskDefinition'')) (\<lambda>task. dbind (dlift (field s ''desiredCount'')) (\<lambda>count'.
      dbind (ask cl (Update_Service (environment_name da) x task (Some count'))) (\<lambda>_. dreturn ()))))) ro = (r, ro')"
  then show "\<exists>cs. ro' = ro\<lparr>ro_calls := ro_calls ro @ cs\<rparr> \<and>
      updates cs = [Update_Service (environment_name da) x t (Some n)] \<and> (\<forall>x. Write_Receipt x \<notin> set cs)"
    using assms
    by (auto simp: based_def lookup_def dbind_def ask_result dreturn_def dread_def dlift_def split: sum.splits
        intro!: exI[of _ "[Update_Service (environment_name da) x t (Some n)]"])
qed

lemma requests_nothing: "quiet m \<Longrightarrow> requests P [] (attempt_back problem m)"
  by (rule requests_attempt, erule quietE, assumption) (auto simp: harmless_updates harmless_receipt)

lemma requests_dreturn: "requests P [] (dreturn x)"
  unfolding requests_def dreturn_def by (auto intro!: exI[of _ "[]"])

lemma requests_dbind:
  assumes "requests P us m" and "\<And>x. requests P vs (f x)" and "\<And>ro x. P ro \<Longrightarrow> P (ro\<lparr>ro_calls := x\<rparr>)"
  shows "requests P (us @ vs) (dbind m f)"
  unfolding requests_def
proof (intro allI impI)
  fix ro r ro' assume P: "P ro" and run: "dbind m f ro = (r, ro')"
  obtain a ro1 where m: "m ro = (a, ro1)" by (cases "m ro")
  obtain cs y where cs: "ro1 = ro\<lparr>ro_calls := ro_calls ro @ cs\<rparr>" "updates cs = us" "\<forall>x. Write_Receipt x \<notin> set cs" "a = Inr y"
    by (rule requestsE [OF assms(1) P m])
  from run m cs(4) have f: "f y ro1 = (r, ro')" by (simp add: dbind_def)
  have "P ro1" using assms(3)[OF P] cs(1) by simp
  from assms(2) this f obtain ds z where "ro' = ro1\<lparr>ro_calls := ro_calls ro1 @ ds\<rparr>" "updates ds = vs"
    "\<forall>x. Write_Receipt x \<notin> set ds" "r = Inr z" by (rule requestsE)
  with cs show "(\<exists>cs. ro' = ro\<lparr>ro_calls := ro_calls ro @ cs\<rparr> \<and> updates cs = us @ vs \<and> (\<forall>x. Write_Receipt x \<notin> set cs)) \<and> (\<exists>y. r = Inr y)"
    by (intro conjI exI[of _ "cs @ ds"]) auto
qed

lemma requests_dmap:
  assumes "\<And>x. x \<in> set xs \<Longrightarrow> requests P [us x] (f x)" and "\<And>ro x. P ro \<Longrightarrow> P (ro\<lparr>ro_calls := x\<rparr>)"
  shows "requests P (map us xs) (dmap f xs)"
  using assms(1)
proof (induction xs)
  case Nil
  show ?case by (simp add: requests_dreturn)
next
  case (Cons x xs)
  have tail: "requests P (map us xs @ []) (dbind (dmap f xs) (\<lambda>ys. dreturn (y # ys)))" for y
  proof (rule requests_dbind)
    show "requests P (map us xs) (dmap f xs)" using Cons by auto
  qed (use requests_dreturn assms(2) in auto)
  have "requests P ([us x] @ (map us xs @ [])) (dmap f (x # xs))"
    unfolding dmap.simps
  proof (rule requests_dbind)
    show "requests P [us x] (f x)" using Cons.prems by simp
  qed (use tail assms(2) in auto)
  then show ?case by simp
qed

text \<open>The first part of the way back requests what has to be restored; the rest verifies, and raises.\<close>

lemma roll_back_requests:
  assumes "tracked old schedules ro" and "roll_back cl da ro = (r, ro')"
  shows "(\<exists>cs. ro' = ro\<lparr>ro_calls := ro_calls ro @ cs\<rparr> \<and> updates cs = restores da ro \<and> (\<forall>x. Write_Receipt x \<notin> set cs)) \<and>
    (\<exists>e. r = Inl e)"
proof -
  have base: "based old schedules ro" "ro_old ro = old" "ro_schedules ro = schedules" using assms(1) by (auto simp: based_def tracked_def)
  let ?us = "\<lambda>x. Update_Schedule (the (map_of schedules x))"
  let ?vs = "\<lambda>s. let j = the (map_of old s) in
    Update_Service (environment_name da) s (projr (field j ''taskDefinition'')) (Some (projr (field j ''desiredCount'')))"
  have b1: "requests (based old schedules) (map ?us (ro_scheduled ro)) (dmap (back_schedule cl) (ro_scheduled ro))"
  proof (rule requests_dmap)
    fix x assume "x \<in> set (ro_scheduled ro)"
    then obtain o' where "map_of schedules x = Some o'" using assms(1) by (auto simp: tracked_def)
    then show "requests (based old schedules) [?us x] (back_schedule cl x)" using requests_back_schedule by simp
  qed simp
  have b2: "requests (based old schedules) [] (if ro_scheduled ro \<noteq> [] \<and> concat e1 = [] then verify_back cl da else dreturn [])" for e1
    unfolding verify_back_def by (auto intro!: requests_nothing requests_dreturn quiet_intros)
  have b3: "requests (based old schedules) (map ?vs (ro_changed ro)) (dmap (back_service cl da) (ro_changed ro))"
  proof (rule requests_dmap)
    fix x assume "x \<in> set (ro_changed ro)"
    then obtain j t n where "map_of old x = Some j" "field j ''taskDefinition'' = Inr t" "field j ''desiredCount'' = Inr n"
      using assms(1) by (auto simp: tracked_def restorable_def)
    then show "requests (based old schedules) [?vs x] (back_service cl da x)" using requests_back_service by (simp add: Let_def)
  qed simp
  obtain a1 ro1 where m1: "dmap (back_schedule cl) (ro_scheduled ro) ro = (a1, ro1)" by (cases "dmap (back_schedule cl) (ro_scheduled ro) ro")
  from b1 base(1) m1 obtain c1 e1 where s1: "ro1 = ro\<lparr>ro_calls := ro_calls ro @ c1\<rparr>" "updates c1 = map ?us (ro_scheduled ro)"
    "\<forall>x. Write_Receipt x \<notin> set c1" "a1 = Inr e1" by (rule requestsE)
  let ?v = "if ro_scheduled ro \<noteq> [] \<and> concat e1 = [] then verify_back cl da else dreturn []"
  obtain a2 ro2 where m2: "?v ro1 = (a2, ro2)" by (cases "?v ro1")
  have "based old schedules ro1" using base(1) s1(1) by simp
  from b2 this m2 obtain c2 e2 where s2: "ro2 = ro1\<lparr>ro_calls := ro_calls ro1 @ c2\<rparr>" "updates c2 = []"
    "\<forall>x. Write_Receipt x \<notin> set c2" "a2 = Inr e2" by (rule requestsE)
  obtain a3 ro3 where m3: "dmap (back_service cl da) (ro_changed ro) ro2 = (a3, ro3)" by (cases "dmap (back_service cl da) (ro_changed ro) ro2")
  have "based old schedules ro2" using base(1) s1(1) s2(1) by simp
  from b3 this m3 obtain c3 e3 where s3: "ro3 = ro2\<lparr>ro_calls := ro_calls ro2 @ c3\<rparr>" "updates c3 = map ?vs (ro_changed ro)"
    "\<forall>x. Write_Receipt x \<notin> set c3" "a3 = Inr e3" by (rule requestsE)
  define errors where "errors = concat e1 @ e2 @ concat e3"
  define tail :: "unit deploy" where "tail = dbind (dguard (errors = []) (RuntimeError (''Rollback requires operator attention for '' @ join '', '' errors)))
     (\<lambda>_. dbind (if ro_changed ro \<noteq> []
        then dbind (dread old_targets) (\<lambda>ts. dbind (dlift ts) (\<lambda>targets. stable cl (environment_name da) targets))
        else dreturn ()) (\<lambda>_.
       draise (RuntimeError ''Rollout reverted. Migrations remain applied; use the documented expand-contract recovery procedure.'')))"
  have run: "tail ro3 = (r, ro')"
    using assms(2) m1 m2 m3 s1(4) s2(4) s3(4)
    by (simp add: roll_back_def dbind_def dread_def Let_def tail_def errors_def)
  have "quiet tail" unfolding tail_def by (intro quiet_intros)
  from this run obtain c4 where s4: "ro' = ro3\<lparr>ro_calls := ro_calls ro3 @ c4\<rparr>" "list_all harmless c4" by (rule quietE)
  have "\<exists>e. r = Inl e"
    using run unfolding tail_def by (auto simp: dbind_def draise_def split: prod.splits sum.splits)
  moreover have "ro' = ro\<lparr>ro_calls := ro_calls ro @ (c1 @ c2 @ c3 @ c4)\<rparr>" using s1 s2 s3 s4 by simp
  moreover have "updates (c1 @ c2 @ c3 @ c4) = restores da ro"
    using s1 s2 s3 harmless_updates[OF s4(2)] base by (simp add: restores_def)
  ultimately show ?thesis
    using s1(3) s2(3) s3(3) harmless_receipt[OF s4(2)] by (intro conjI exI[of _ "c1 @ c2 @ c3 @ c4"]) auto
qed


section \<open>The command\<close>

text \<open>What holds before the rollout starts, and after it when the receipt was not written.\<close>

definition unchanged :: "rollout \<Rightarrow> bool" where
  "unchanged ro \<longleftrightarrow> ro_changed ro = [] \<and> ro_scheduled ro = [] \<and> list_all harmless (ro_calls ro)"

lemma unchanged_quiet: "unchanged ro \<Longrightarrow> quiet m \<Longrightarrow> m ro = (r, ro') \<Longrightarrow> unchanged ro' \<and> ro_old ro' = ro_old ro \<and> ro_schedules ro' = ro_schedules ro"
  by (erule quietE, assumption) (simp add: unchanged_def)

definition asked_back :: "deploy_args \<Rightarrow> rollout \<Rightarrow> bool" where
  "asked_back da ro \<longleftrightarrow> (\<exists>forth back. ro_calls ro = forth @ back \<and> (\<forall>c \<in> set (updates forth). accounted ro c) \<and>
     updates back = restores da ro)"

lemma unchanged_asked_back: "unchanged ro \<Longrightarrow> asked_back da ro"
  unfolding asked_back_def unchanged_def
  by (intro exI[of _ "ro_calls ro"] exI[of _ "[]"]) (simp add: harmless_updates restores_def)

lemma counted_services:
  assumes "all_enabled kvs = Inr True" and "map_of kvs s = Some j"
  shows "\<exists>n. desired_count j = Inr n"
  using assms by (induction kvs rule: all_enabled.induct) (auto split: if_splits)

lemma read_services_counted:
  assumes "unchanged ro" and "read_services cl da ro = (r, ro')"
  shows "unchanged ro' \<and> ((\<exists>x. r = Inr x) \<longrightarrow> counted da (ro_old ro'))"
proof -
  from assms(2)[unfolded read_services_def] show ?thesis
  proof (cases rule: dbindE)
    case (raised e)
    then show ?thesis using assms(1) by (auto simp: ask_result unchanged_def harmless_def)
  next
    case (went_on answer ro1)
    then have u: "unchanged ro1" using assms(1) by (auto simp: ask_result unchanged_def harmless_def)
    from went_on(2) show ?thesis
    proof (cases rule: dlift_cases)
      case raised with u show ?thesis by simp
    next
      case s: (went_on services)
      from s(2) show ?thesis
      proof (cases rule: dlift_cases)
        case raised with u show ?thesis by simp
      next
        case n: (went_on named)
        from n(2) show ?thesis
        proof (cases rule: dlift_cases)
          case raised with u show ?thesis by simp
        next
          case en: (went_on enabled)
          from en(1) have "enabled \<Longrightarrow> counted da (by_name named)"
            using counted_services[of "by_name named"] by (auto simp: counted_def split: if_splits)
          then show ?thesis using en(2) u
            by (auto simp: dguard_def dbind_def dlift_def dmodify_def guard_def unchanged_def split: if_splits)
        qed
      qed
    qed
  qed
qed

lemma read_schedules_suffixes:
  assumes "dmap (read_schedule cl da) xs ro = (Inr ys, ro')"
  shows "map fst ys = xs"
  using assms
proof (induction xs arbitrary: ro ys ro')
  case (Cons x xs)
  from Cons.prems[unfolded dmap.simps] obtain y ro1 where y: "read_schedule cl da x ro = (Inr y, ro1)"
    and rest: "dbind (dmap (read_schedule cl da) xs) (\<lambda>ys. dreturn (y # ys)) ro1 = (Inr ys, ro')"
    by (cases rule: dbindE) auto
  from rest obtain zs ro2 where zs: "dmap (read_schedule cl da) xs ro1 = (Inr zs, ro2)" and ys: "ys = y # zs"
    by (cases rule: dbindE) (auto simp: dreturn_def)
  have "fst y = x" using y by (auto simp: read_schedule_def dbind_def ask_result dlift_def dreturn_def split: sum.splits)
  with Cons.IH[OF zs] ys show ?case by simp
qed (simp add: dreturn_def)

lemma tracked_start:
  "unchanged ro \<Longrightarrow> tracked (ro_old ro) (ro_schedules ro) ro"
  by (auto simp: unchanged_def tracked_def harmless_updates harmless_receipt)

lemma rolled_out:
  assumes u: "unchanged ro" and "counted da (ro_old ro)" and "map fst (ro_schedules ro) = SUFFIXES"
    and run: "completes (roll_out cl da) ro = (Inr ok, ro')"
  shows "tracked (ro_old ro) (ro_schedules ro) ro'"
proof -
  have "distinct (map fst (ro_schedules ro))" unfolding assms(3) by (simp add: SUFFIXES_def)
  note keep = keeps_roll_out[OF assms(2) this, of cl]
  obtain a ro1 where m: "roll_out cl da ro = (a, ro1)" by (cases "roll_out cl da ro")
  with run have "ro' = ro1" by (cases a) (auto simp: completes_def)
  with keeps_calls[OF keep tracked_start[OF u] m] show ?thesis by simp
qed

lemma rolled_back:
  assumes "tracked old schedules ro" and "roll_back cl da ro = (r, ro')"
  shows "asked_back da ro'"
proof -
  obtain cs where cs: "ro' = ro\<lparr>ro_calls := ro_calls ro @ cs\<rparr>" "updates cs = restores da ro"
    using roll_back_requests[OF assms] by blast
  have "restores da ro' = restores da ro" by (simp add: cs(1) restores_def)
  moreover have "\<forall>c \<in> set (updates (ro_calls ro)). accounted ro' c" using assms(1) by (simp add: cs(1) tracked_def)
  ultimately show ?thesis unfolding asked_back_def by (intro exI[of _ "ro_calls ro"] exI[of _ cs]) (simp add: cs)
qed


lemma quiet_step:
  assumes "unchanged ro" and "dbind m f ro = (r, ro')" and "quiet m"
  obtains (raised) "asked_back da ro'"
  | (went_on) x ro1 where "m ro = (Inr x, ro1)" "unchanged ro1" "ro_old ro1 = ro_old ro" "ro_schedules ro1 = ro_schedules ro" "f x ro1 = (r, ro')"
  using assms(2)
proof (cases rule: dbindE)
  case (raised e)
  with unchanged_quiet[OF assms(1,3)] show ?thesis using that(1) unchanged_asked_back by blast
next
  case (went_on x ro1)
  with unchanged_quiet[OF assms(1,3)] show ?thesis using that(2) by blast
qed

lemma last_part:
  assumes u: "unchanged ro" and c: "counted da (ro_old ro)" and s: "map fst (ro_schedules ro) = SUFFIXES"
    and run: "dbind (completes (roll_out cl da)) (\<lambda>ok. if \<not> ok then roll_back cl da
       else dbind (dread (receipt da migrator)) (\<lambda>r. dbind (ask cl (Write_Receipt r)) (\<lambda>_. dreturn ()))) ro = (Inl e, ro')"
    and "\<forall>r. Write_Receipt r \<notin> set (ro_calls ro')"
  shows "asked_back da ro'"
  using run
proof (cases rule: dbindE)
  case (raised e')
  then show ?thesis by (auto simp: completes_def split: prod.splits sum.splits)
next
  case (went_on ok ro1)
  have tr: "tracked (ro_old ro) (ro_schedules ro) ro1" by (rule rolled_out [OF u c s went_on(1)])
  show ?thesis
  proof (cases ok)
    case True
    then have "\<exists>r. Write_Receipt r \<in> set (ro_calls ro')"
      using went_on(2) by (auto simp: dbind_def dread_def ask_result dreturn_def split: sum.splits)
    with assms(5) show ?thesis by blast
  next
    case False
    then show ?thesis using went_on(2) rolled_back[OF tr] by simp
  qed
qed

lemma deploy_asked_back:
  assumes "unchanged ro" and "deploy_main cl da ro = (Inl e, ro')" and w: "\<forall>r. Write_Receipt r \<notin> set (ro_calls ro')"
  shows "asked_back da ro'"
  using assms(1) assms(2)[unfolded deploy_main_def] quiet_ask[OF harmless_calls(1)]
proof (cases rule: quiet_step[where da = da])
  case raised then show ?thesis .
next
  case a: (went_on caller ro1)
  from a(2,5) quiet_pure(3) show ?thesis
  proof (cases rule: quiet_step[where da = da])
    case raised then show ?thesis .
  next
    case b: (went_on account ro2)
    from b(2,5) quiet_pure(3) show ?thesis
    proof (cases rule: quiet_step[where da = da])
      case raised then show ?thesis .
    next
      case c: (went_on u ro3)
      from c(5) show ?thesis
      proof (cases rule: dbindE)
        case (raised e')
        with read_services_counted[OF c(2)] show ?thesis using unchanged_asked_back by blast
      next
        case d: (went_on u' ro4)
        then have u4: "unchanged ro4" and c4: "counted da (ro_old ro4)" using read_services_counted[OF c(2) d(1)] by auto
        from u4 d(2) quiet_dmap[OF quiet_steps(4)] show ?thesis
        proof (cases rule: quiet_step[where da = da])
          case raised then show ?thesis .
        next
          case f: (went_on schedules ro5)
          let ?ro = "ro5\<lparr>ro_schedules := schedules\<rparr>"
          have u: "unchanged ?ro" and c': "counted da (ro_old ?ro)" and s: "map fst (ro_schedules ?ro) = SUFFIXES"
            using f(2,3) c4 read_schedules_suffixes[OF f(1)] by (auto simp: unchanged_def)
          have step: "dbind (dmodify h) g ro5 = g () (h ro5)" for h and g :: "unit \<Rightarrow> unit deploy" by simp
          from u dread_step[OF f(5)[unfolded step]] quiet_pure(3) show ?thesis
          proof (cases rule: quiet_step[where da = da])
            case raised then show ?thesis .
          next
            case g: (went_on network ro6)
            have q: "quiet (if da_initialize da then dbind (run_named cl da network ''bootstrap'') (\<lambda>_. dreturn ()) else dreturn ())"
              by (intro quiet_intros)
            from g(2,5) q show ?thesis
            proof (cases rule: quiet_step[where da = da])
              case raised then show ?thesis .
            next
              case h: (went_on u'' ro7)
              from h(2,5) quiet_steps(5) show ?thesis
              proof (cases rule: quiet_step[where da = da])
                case raised then show ?thesis .
              next
                case i: (went_on migrator ro8)
                have "counted da (ro_old ro8)" "map fst (ro_schedules ro8) = SUFFIXES"
                  using c' s g(3,4) h(3,4) i(3,4) by auto
                from last_part[OF i(2) this i(5) w] show ?thesis .
              qed
            qed
          qed
        qed
      qed
    qed
  qed
qed



section \<open>A rollout whose services do not become stable\<close>

definition ex_service :: "string \<Rightarrow> json" where
  "ex_service name = JObj [(''serviceName'', JStr name), (''taskDefinition'', JStr name), (''desiredCount'', JInt 1),
     (''runningCount'', JInt 1),
     (''networkConfiguration'', JObj [(''awsvpcConfiguration'', JObj [(''assignPublicIp'', JStr ''DISABLED'')])])]"

definition ex_cloud :: cloud where
  "ex_cloud calls c = (case c of
     Get_Caller \<Rightarrow> Inr (JObj [(''Account'', JStr ''1'')])
   | Describe_Services cluster names \<Rightarrow> Inr (JObj [(''services'', JList (map ex_service names))])
   | Describe_Task reference \<Rightarrow> Inr (JObj [(''taskDefinition'', JObj [(''family'', reference), (''containerDefinitions'', JList [JObj []])])])
   | Register_Task d \<Rightarrow> Inr (JObj [(''taskDefinition'', JObj [(''taskDefinitionArn'', JStr ''new'')])])
   | Run_Task cluster d network \<Rightarrow> Inr (JObj [(''tasks'', JList [JObj [(''taskArn'', JStr ''t'')]])])
   | Describe_Run cluster t \<Rightarrow> Inr (JObj [(''tasks'', JList [JObj [(''containers'', JList [JObj [(''exitCode'', JInt 0)]])]])])
   | Wait_Stable cluster names \<Rightarrow> Inl (OtherError ''WaiterError'')
   | Get_Schedule name \<Rightarrow> Inr (JObj [(''Name'', JStr name), (''State'', JStr ''ENABLED'')])
   | _ \<Rightarrow> Inr (JObj []))"

definition ex_args :: deploy_args where
  "ex_args = \<lparr>da_environment = ''dev'',
     da_image = ''1.dkr.ecr.eu-west-1.amazonaws.com/ledgerguard-dev@sha256:'' @ replicate 64 (CHR ''a''), da_initialize = False\<rparr>"

definition ex_failed :: "unit result \<times> rollout" where "ex_failed = deploy ex_cloud ex_args"

lemma ex_args_facts:
  "check_image ex_args (JStr ''1'') = Inr ()" "environment_name ex_args = ''ledgerguard-dev''" "da_initialize ex_args = False"
  "service_names ex_args = [''ledgerguard-dev-api'', ''ledgerguard-dev-ingestion'', ''ledgerguard-dev-reconciliation'',
     ''ledgerguard-dev-notification'', ''ledgerguard-dev-reporting'', ''ledgerguard-dev-repair'']"
  by code_simp+

lemmas answer_simps = ask_result field_def items_def members_def get_member_def number_def text_key_def lookup_def dict_at_def
  dict_get_def dict_get_or_def

lemma dbind_run: "m ro = (Inr x, ro1) \<Longrightarrow> dbind m f ro = f x ro1" "m ro = (Inl e, ro1) \<Longrightarrow> dbind m f ro = (Inl e, ro1)"
  by (simp_all add: dbind_def)

definition ex_task :: "string \<Rightarrow> call list" where
  "ex_task family = [Describe_Task (JStr family), Register_Task [(''family'', JStr family),
     (''containerDefinitions'', JList [JObj [(''image'', JStr (da_image ex_args))]])]]"

lemma ex_revision: "revision ex_cloud (JStr family) family (da_image ex_args) ro = (Inr (JStr ''new''), ro\<lparr>ro_calls := ro_calls ro @ ex_task family\<rparr>)"
  by (simp add: revision_def dbind_def ex_cloud_def with_image_def answer_simps only_fields_def TASK_FIELDS_def dlift_def ex_task_def)

lemma ex_run_operation:
  "\<exists>cs. run_operation ex_cloud cluster d network ro = (Inr (), ro\<lparr>ro_calls := ro_calls ro @ cs\<rparr>) \<and> list_all harmless cs"
  by (rule exI[of _ "[Run_Task cluster d network, Wait_Stopped cluster (JStr ''t''), Describe_Run cluster (JStr ''t'')]"])
    (simp add: run_operation_def dbind_def ex_cloud_def started_task_def finished_task_def member_list_def answer_simps dlift_def harmless_def)

lemma ex_run_named:
  "\<exists>cs. run_named ex_cloud ex_args network suffix ro = (Inr (JStr ''new''), ro\<lparr>ro_calls := ro_calls ro @ cs\<rparr>)"
proof -
  let ?f = "environment_name ex_args @ ''-'' @ suffix"
  let ?ro = "ro\<lparr>ro_calls := ro_calls ro @ ex_task ?f\<rparr>"
  obtain cs where "run_operation ex_cloud (environment_name ex_args) (JStr ''new'') network ?ro = (Inr (), ?ro\<lparr>ro_calls := ro_calls ?ro @ cs\<rparr>)"
    using ex_run_operation by blast
  then show ?thesis by (auto simp: run_named_def Let_def dbind_def ex_revision dreturn_def)
qed

lemma ex_roll_service:
  assumes "map_of (ro_old ro) s = Some (ex_service s)"
  shows "\<exists>cs x. roll_service ex_cloud ex_args s ro =
    (Inr (), ro\<lparr>ro_changed := ro_changed ro @ [s], ro_calls := ro_calls ro @ cs, ro_targets := x\<rparr>)"
proof -
  have "field (ex_service s) ''taskDefinition'' = Inr (JStr s)" by (simp add: ex_service_def answer_simps)
  moreover have "ex_cloud cs (Update_Service a b c d) = Inr (JObj [])" for cs a b c d by (simp add: ex_cloud_def)
  ultimately show ?thesis
    using assms by (simp add: roll_service_def dbind_def dread_def dlift_def dmodify_def lookup_def ex_revision initial_count_def
        ex_args_facts ask_result) blast
qed

lemma ex_roll_services:
  assumes "\<And>s. s \<in> set ss \<Longrightarrow> map_of (ro_old ro) s = Some (ex_service s)"
  shows "\<exists>cs x us. dmap (roll_service ex_cloud ex_args) ss ro =
    (Inr us, ro\<lparr>ro_changed := ro_changed ro @ ss, ro_calls := ro_calls ro @ cs, ro_targets := x\<rparr>)"
  using assms
proof (induction ss arbitrary: ro)
  case Nil
  show ?case by (auto simp: dreturn_def intro!: exI[of _ "[]"] exI[of _ "ro_targets ro"])
next
  case (Cons s ss)
  obtain cs x where one: "roll_service ex_cloud ex_args s ro =
      (Inr (), ro\<lparr>ro_changed := ro_changed ro @ [s], ro_calls := ro_calls ro @ cs, ro_targets := x\<rparr>)"
    using ex_roll_service Cons.prems by (meson list.set_intros(1))
  let ?ro = "ro\<lparr>ro_changed := ro_changed ro @ [s], ro_calls := ro_calls ro @ cs, ro_targets := x\<rparr>"
  obtain ds y us where "dmap (roll_service ex_cloud ex_args) ss ?ro =
      (Inr us, ?ro\<lparr>ro_changed := ro_changed ?ro @ ss, ro_calls := ro_calls ?ro @ ds, ro_targets := y\<rparr>)"
    using Cons.IH[of ?ro] Cons.prems by auto
  with one show ?case by (auto simp: dbind_def dreturn_def)
qed


lemma ex_fails_to_settle:
  assumes "\<And>s. s \<in> set (service_names ex_args) \<Longrightarrow> map_of (ro_old ro) s = Some (ex_service s)"
  shows "\<exists>ro'. completes (roll_out ex_cloud ex_args) ro = (Inr False, ro') \<and> ro_changed ro' = ro_changed ro @ service_names ex_args"
proof -
  obtain cs x us where r: "dmap (roll_service ex_cloud ex_args) (service_names ex_args) ro =
      (Inr us, ro\<lparr>ro_changed := ro_changed ro @ service_names ex_args, ro_calls := ro_calls ro @ cs, ro_targets := x\<rparr>)"
    using ex_roll_services assms by blast
  have "ex_cloud calls (Wait_Stable a b) = Inl (OtherError ''WaiterError'')" for calls a b by (simp add: ex_cloud_def)
  with r show ?thesis
    by (simp add: completes_def roll_out_def dfor_def dbind_def dreturn_def dread_def stable_def Let_def ask_result)
qed

definition ex_read :: "call list \<Rightarrow> rollout" where
  "ex_read calls = no_rollout\<lparr>ro_calls := calls, ro_old := map (\<lambda>n. (n, ex_service n)) (service_names ex_args)\<rparr>"

lemma ex_read_services:
  "\<exists>calls. read_services ex_cloud ex_args (no_rollout\<lparr>ro_calls := cs\<rparr>) = (Inr (), ex_read calls)"
proof -
  let ?names = "service_names ex_args"
  have d: "described (length ?names) m (JObj [(''services'', JList (map ex_service ?names))]) = Inr (map ex_service ?names)" for m
    by (simp add: described_def answer_simps)
  have n: "map_res named_service (map ex_service ?names) = Inr (map (\<lambda>n. (n, ex_service n)) ?names)"
    by (induction ?names) (simp_all add: named_service_def ex_service_def answer_simps ex_args_facts)
  have b: "by_name (map (\<lambda>n. (n, ex_service n)) ?names) = map (\<lambda>n. (n, ex_service n)) ?names"
    by (simp add: by_name_def ex_args_facts)
  have e: "all_enabled (map (\<lambda>n. (n, ex_service n)) ns) = Inr True" for ns
    by (induction ns) (simp_all add: desired_count_def ex_service_def answer_simps)
  have c: "ex_cloud calls (Describe_Services a ns) = Inr (JObj [(''services'', JList (map ex_service ns))])" for calls a ns
    by (simp add: ex_cloud_def)
  show ?thesis
    by (simp add: read_services_def dbind_def ask_result c d n b e dlift_def dguard_def dmodify_def ex_args_facts(3) ex_read_def guard_def)
      (auto simp: no_rollout_def)
qed

lemma ex_read_schedules:
  "\<exists>schedules calls. dmap (read_schedule ex_cloud ex_args) SUFFIXES ro = (Inr schedules, ro\<lparr>ro_calls := calls\<rparr>)"
  by (simp add: SUFFIXES_def read_schedule_def dbind_def ask_result ex_cloud_def dlift_def members_def dreturn_def) blast

lemma map_of_graph: "s \<in> set ns \<Longrightarrow> map_of (map (\<lambda>n. (n, f n)) ns) s = Some (f s)"
  by (induction ns) auto

lemma ex_private_network: "\<exists>network. private_network ex_args (ex_read calls\<lparr>ro_calls := cs, ro_schedules := schedules\<rparr>) = Inr network"
  by (simp add: private_network_def ex_read_def ex_args_facts answer_simps ex_service_def)

lemma ex_failed_facts:
  "\<exists>e. fst ex_failed = Inl e" "length (ro_changed (snd ex_failed)) = 6" "\<forall>r. Write_Receipt r \<notin> set (ro_calls (snd ex_failed))"
proof -
  obtain calls where rs: "read_services ex_cloud ex_args (no_rollout\<lparr>ro_calls := [Get_Caller]\<rparr>) = (Inr (), ex_read calls)"
    using ex_read_services by blast
  obtain schedules calls1 where sc: "dmap (read_schedule ex_cloud ex_args) SUFFIXES (ex_read calls) = (Inr schedules, ex_read calls\<lparr>ro_calls := calls1\<rparr>)"
    using ex_read_schedules by blast
  let ?ro = "ex_read calls\<lparr>ro_calls := calls1, ro_schedules := schedules\<rparr>"
  obtain network where net: "private_network ex_args ?ro = Inr network" using ex_private_network by blast
  obtain cs where mig: "run_named ex_cloud ex_args network ''migrator'' ?ro = (Inr (JStr ''new''), ?ro\<lparr>ro_calls := ro_calls ?ro @ cs\<rparr>)"
    using ex_run_named by blast
  let ?start = "?ro\<lparr>ro_calls := ro_calls ?ro @ cs\<rparr>"
  have old: "s \<in> set (service_names ex_args) \<Longrightarrow> map_of (ro_old ?start) s = Some (ex_service s)" for s
    by (simp add: ex_read_def map_of_graph)
  obtain ro' where out: "completes (roll_out ex_cloud ex_args) ?start = (Inr False, ro')"
    and ch: "ro_changed ro' = ro_changed ?start @ service_names ex_args"
    using ex_fails_to_settle[of ?start, OF old] by blast
  have u0: "unchanged (no_rollout\<lparr>ro_calls := [Get_Caller]\<rparr>)" by (simp add: unchanged_def no_rollout_def harmless_def)
  have u1: "unchanged (ex_read calls)" and c1: "counted ex_args (ro_old (ex_read calls))" using read_services_counted[OF u0 rs] by auto
  have "unchanged (ex_read calls\<lparr>ro_calls := calls1\<rparr>)" using unchanged_quiet[OF u1 quiet_dmap[OF quiet_steps(4)] sc] by simp
  then have u2: "unchanged ?ro" by (simp add: unchanged_def)
  have u3: "unchanged ?start" using unchanged_quiet[OF u2 quiet_steps(5) mig] by simp
  have "map fst (ro_schedules ?start) = SUFFIXES" using read_schedules_suffixes[OF sc] by simp
  from rolled_out[OF u3 _ this out] c1 have tr: "tracked (ro_old ?start) schedules ro'" by simp
  obtain r ro2 where bk: "roll_back ex_cloud ex_args ro' = (r, ro2)" by (cases "roll_back ex_cloud ex_args ro'")
  obtain ds e where "ro2 = ro'\<lparr>ro_calls := ro_calls ro' @ ds\<rparr>" "\<forall>x. Write_Receipt x \<notin> set ds" "r = Inl e"
    using roll_back_requests[OF tr bk] by blast
  moreover have "ex_failed = (r, ro2)"
  proof -
    have caller: "ex_cloud c Get_Caller = Inr (JObj [(''Account'', JStr ''1'')])" for c by (simp add: ex_cloud_def)
    have fresh: "ro_calls no_rollout = []" by (simp add: no_rollout_def)
    show ?thesis
      unfolding ex_failed_def deploy_def deploy_main_def
      by (simp add: dbind_def ask_result caller fresh answer_simps dlift_def ex_args_facts(1,3) rs sc dmodify_def dread_def net[simplified] dreturn_def
          mig[simplified] out[simplified] bk del: dbind_pure)
  qed
  moreover from this have "snd ex_failed = ro2 \<and> fst ex_failed = r" by (metis fst_conv snd_conv)
  moreover have "length (ro_changed ro') = 6" using ch by (simp add: ex_args_facts(4) ex_read_def no_rollout_def)
  moreover have "\<forall>x. Write_Receipt x \<notin> set (ro_calls ro')" using tr by (simp add: tracked_def)
  ultimately show "\<exists>e. fst ex_failed = Inl e" "length (ro_changed (snd ex_failed)) = 6"
    "\<forall>r. Write_Receipt r \<notin> set (ro_calls (snd ex_failed))" by auto
qed


end
