(* ===== verification/Preflight.thy ===== *)
theory Preflight imports Deploy Stripe_Sync begin

text \<open>
  \<open>packages/acceptance/aws.py\<close>: the read-only inspection of a deployment. The cloud is a parameter whose
  answers are JSON data (a time in an answer is its microseconds, an integer); the pages of a listing
  are the answers to its requests in order. An exception of the cloud or of the data makes a check an error, any other one ends the
  inspection.
\<close>

section \<open>The expected deployment\<close>

definition REGION :: string where "REGION = ''eu-west-1''"

definition lower_alnum :: "char \<Rightarrow> bool" where
  "lower_alnum c \<longleftrightarrow> is_ascii_lower c \<or> is_digit c"

text \<open>\<open>[a-z0-9]+(?:[.-][a-z0-9]+)+\<close>: at least two nonempty parts.\<close>

definition mail_domain :: "string \<Rightarrow> bool" where
  "mail_domain s \<longleftrightarrow> (let parts = split_at (CHR ''.'') (replace_char (CHR ''-'') (CHR ''.'') s) in
     1 < length parts \<and> list_all (\<lambda>p. p \<noteq> [] \<and> list_all lower_alnum p) parts)"

text \<open>A fixed text followed by characters of a class, as many as a predicate allows.\<close>

definition prefixed :: "string \<Rightarrow> (char \<Rightarrow> bool) \<Rightarrow> (nat \<Rightarrow> bool) \<Rightarrow> string \<Rightarrow> bool" where
  "prefixed prefix member size_ok s \<longleftrightarrow> startswith s prefix \<and>
     (let rest = drop (length prefix) s in size_ok (length rest) \<and> list_all member rest)"

definition config_get :: "(string \<times> string) list \<Rightarrow> string \<Rightarrow> string option" where "config_get config k = map_of config k"

definition config_text :: "(string \<times> string) list \<Rightarrow> string \<Rightarrow> string" where
  "config_text config k = (case config_get config k of None \<Rightarrow> [] | Some s \<Rightarrow> s)"

text \<open>An object whose members are all texts.\<close>

fun texts_of :: "dict \<Rightarrow> (string \<times> string) list option" where
  "texts_of [] = Some []"
| "texts_of ((k, JStr s) # kvs) = map_option (\<lambda>rest. (k, s) # rest) (texts_of kvs)"
| "texts_of (kv # kvs) = None"

definition agrees :: "(string \<times> string) list \<Rightarrow> string \<Rightarrow> string \<Rightarrow> string \<Rightarrow> bool" where
  "agrees config account environment image' \<longleftrightarrow>
     (let name = ''ledgerguard-'' @ environment in
      length account = 12 \<and> list_all is_digit account \<and> environment \<in> {''dev'', ''staging'', ''production''} \<and>
      config_get config ''account_id'' = Some account \<and> config_get config ''environment'' = Some environment \<and>
      config_get config ''region'' = Some REGION \<and> config_get config ''database_identifier'' = Some name \<and>
      config_get config ''cluster_name'' = Some name \<and>
      prefixed (account @ ''.dkr.ecr.'' @ REGION @ ''.amazonaws.com/'' @ name @ ''@sha256:'') (\<lambda>c. c \<in> set ''abcdef0123456789'') (\<lambda>n. n = 64) image' \<and>
      prefixed (''arn:aws:kms:'' @ REGION @ '':'' @ account @ '':key/'') (\<lambda>c. c \<in> set ''abcdef0123456789-'') (\<lambda>n. n = 36)
        (config_text config ''kms_key_arn'') \<and>
      prefixed (REGION @ ''_'') is_alnum (\<lambda>n. 0 < n) (config_text config ''cognito_user_pool_id'') \<and>
      mail_domain (config_text config ''email_domain''))"

definition own_buckets :: "(string \<times> string) list \<Rightarrow> string \<Rightarrow> string \<Rightarrow> bool" where
  "own_buckets config account environment \<longleftrightarrow>
     (let name = ''ledgerguard-'' @ environment; bucket = config_text config ''report_bucket'' in
      prefixed (name @ ''-reports-'') (\<lambda>c. lower_alnum c \<or> c = CHR ''-'') (\<lambda>n. 0 < n) bucket \<and> length bucket \<le> 63 \<and>
      config_get config ''deletion_ledger_bucket'' = Some (name @ ''-'' @ account @ ''-audit''))"

definition validate_config :: "json \<Rightarrow> string \<Rightarrow> string \<Rightarrow> string \<Rightarrow> (string \<times> string) list result" where
  "validate_config v account environment image' =
     (case (case v of JObj kvs \<Rightarrow> texts_of kvs | _ \<Rightarrow> None) of
        None \<Rightarrow> Inl (ValueError ''Expected an object containing only deployment identifiers'')
      | Some config \<Rightarrow>
          rbind (guard (agrees config account environment image')
            (ValueError ''Expected account, environment and immutable deployment resources must agree'')) (\<lambda>_.
          rbind (guard (own_buckets config account environment)
            (ValueError ''Expected environment-scoped report and erasure buckets'')) (\<lambda>_. Inr config)))"

section \<open>Requests and checks\<close>

datatype aws_call =
    Caller_Identity
  | Db_Instances string
  | Db_Parameters json nat
  | Describe_Key string
  | Key_Rotation string
  | Public_Access string string
  | Bucket_Encryption string string
  | Bucket_Versioning string string
  | Pool_Mfa string
  | Queue_Attributes string
  | Ecs_Service string string
  | Task_Definition json
  | Scheduled string
  | Mail_Account
  | Mail_Identity string

text \<open>The number of pages of a listing and the answer to a request after the requests before it.\<close>

record aws =
  aw_answer :: "aws_call list \<Rightarrow> aws_call \<Rightarrow> json result"
  aw_pages :: "json \<Rightarrow> nat"

record preflight =
  pf_calls :: "aws_call list"
  pf_checks :: "(string \<times> string) list"

type_synonym 'a inspection = "(preflight, 'a) effect"

definition request_aws :: "aws \<Rightarrow> aws_call \<Rightarrow> json inspection" where
  "request_aws aw c = (\<lambda>pf. (aw_answer aw (pf_calls pf) c, pf\<lparr>pf_calls := pf_calls pf @ [c]\<rparr>))"

definition note_check :: "string \<Rightarrow> string \<Rightarrow> unit inspection" where
  "note_check name status = dmodify (\<lambda>pf. pf\<lparr>pf_checks := pf_checks pf @ [(name, status)]\<rparr>)"

fun expected_error :: "exn \<Rightarrow> bool" where
  "expected_error (KeyError k) = True"
| "expected_error (ValueError m) = True"
| "expected_error (TypeError m) = True"
| "expected_error (OtherError n) = (n \<in> {''IndexError'', ''BotoCoreError'', ''ClientError''})"
| "expected_error e = False"

definition check :: "string \<Rightarrow> bool inspection \<Rightarrow> bool inspection" where
  "check name m = (\<lambda>pf. case m pf of
     (Inr passed, pf') \<Rightarrow> dbind (note_check name (if passed then ''pass'' else ''fail'')) (\<lambda>_. dreturn passed) pf'
   | (Inl e, pf') \<Rightarrow> if expected_error e then dbind (note_check name ''error'') (\<lambda>_. dreturn False) pf' else (Inl e, pf'))"

section \<open>Conditions on answers\<close>

definition member_is :: "json \<Rightarrow> string \<Rightarrow> json \<Rightarrow> bool result" where
  "member_is v k expected = rbind (field v k) (\<lambda>x. Inr (x = expected))"

text \<open>\<open>v.get(k)\<close>\<close>

definition get_is :: "json \<Rightarrow> string \<Rightarrow> json \<Rightarrow> bool result" where
  "get_is v k expected = rbind (get_member v k JNull) (\<lambda>x. Inr (x = expected))"

definition at_least :: "json \<Rightarrow> string \<Rightarrow> int \<Rightarrow> bool result" where
  "at_least v k low = rbind (rbind (field v k) number) (\<lambda>n. Inr (low \<le> n))"

definition the_only :: "json \<Rightarrow> string \<Rightarrow> json option result" where
  "the_only v k = rbind (rbind (field v k) items) (\<lambda>xs. Inr (case xs of [x] \<Rightarrow> Some x | _ \<Rightarrow> None))"

text \<open>\<open>int\<close> of a text of the queue's attributes.\<close>

definition int_member :: "json \<Rightarrow> string \<Rightarrow> int result" where
  "int_member v k = rbind (field v k) (\<lambda>x. case x of
      JStr s \<Rightarrow> (case int10 s of Some n \<Rightarrow> Inr n | None \<Rightarrow> Inl (ValueError ''invalid literal for int()''))
    | JInt n \<Rightarrow> Inr n | _ \<Rightarrow> Inl (TypeError ''int() argument''))"

fun any_holds :: "bool result list \<Rightarrow> bool result" where
  "any_holds [] = Inr False"
| "any_holds (r # rs) = rbind r (\<lambda>b. if b then Inr True else any_holds rs)"

section \<open>The database and its key\<close>

definition recent_restore :: "datetime \<Rightarrow> json \<Rightarrow> bool" where
  "recent_restore now v = (case v of JInt t \<Rightarrow> 0 \<le> now - t \<and> now - t \<le> seconds 300 | _ \<Rightarrow> False)"

definition forces_tls :: "json \<Rightarrow> bool result" where
  "forces_tls page = rbind (rbind (field page ''Parameters'') items) (\<lambda>ps. any_holds (map (\<lambda>p.
     all_hold [member_is p ''ParameterName'' (JStr ''rds.force_ssl''), get_is p ''ParameterValue'' (JStr ''1'')]) ps))"

text \<open>The pages are requested until one holds the parameter.\<close>

fun any_page :: "aws \<Rightarrow> json \<Rightarrow> nat \<Rightarrow> nat \<Rightarrow> bool inspection" where
  "any_page aw name n 0 = dreturn False"
| "any_page aw name n (Suc k) =
     dbind (request_aws aw (Db_Parameters name n)) (\<lambda>page. dbind (dlift (forces_tls page)) (\<lambda>found.
     if found then dreturn True else any_page aw name (n + 1) k))"

definition tls_forced :: "aws \<Rightarrow> json option \<Rightarrow> bool inspection" where
  "tls_forced aw grp =
     (case grp of
        None \<Rightarrow> dreturn False
      | Some g \<Rightarrow> dbind (dlift (member_is g ''ParameterApplyStatus'' (JStr ''in-sync''))) (\<lambda>ok.
          if \<not> ok then dreturn False
          else dbind (dlift (field g ''DBParameterGroupName'')) (\<lambda>name. any_page aw name 0 (aw_pages aw name))))"

definition major_version :: "json \<Rightarrow> bool result" where
  "major_version db = rbind (field db ''EngineVersion'') (\<lambda>v. case v of
      JStr s \<Rightarrow> Inr (hd (split_at (CHR ''.'') s) = ''17'') | _ \<Rightarrow> Inl (OtherError ''AttributeError''))"

definition inspect_database :: "aws \<Rightarrow> (string \<times> string) list \<Rightarrow> datetime \<Rightarrow> bool inspection" where
  "inspect_database aw config now =
     dbind (request_aws aw (Db_Instances (config_text config ''database_identifier''))) (\<lambda>answer.
     dbind (dlift (the_only answer ''DBInstances'')) (\<lambda>row.
     case row of
       None \<Rightarrow> dreturn False
     | Some db \<Rightarrow>
         dbind (dlift (get_member db ''LatestRestorableTime'' JNull)) (\<lambda>latest.
         dbind (note_check ''rds.pitr_recency_not_measured_rpo'' (if recent_restore now latest then ''pass'' else ''fail'')) (\<lambda>_.
         dbind (dlift (the_only db ''DBParameterGroups'')) (\<lambda>grp.
         dbind (tls_forced aw grp) (\<lambda>tls.
         dlift (all_hold [member_is db ''DBInstanceStatus'' (JStr ''available''), member_is db ''Engine'' (JStr ''postgres''),
           major_version db, member_is db ''PubliclyAccessible'' (JBool False), member_is db ''StorageEncrypted'' (JBool True),
           member_is db ''KmsKeyId'' (JStr (config_text config ''kms_key_arn'')), at_least db ''BackupRetentionPeriod'' 35,
           member_is db ''MultiAZ'' (JBool True), member_is db ''DeletionProtection'' (JBool True), Inr tls])))))))"

definition inspect_key :: "aws \<Rightarrow> string \<Rightarrow> bool inspection" where
  "inspect_key aw kms = dbind (request_aws aw (Describe_Key kms)) (\<lambda>answer.
     dlift (rbind (field answer ''KeyMetadata'') (\<lambda>m. member_is m ''KeyState'' (JStr ''Enabled''))))"

definition inspect_rotation :: "aws \<Rightarrow> string \<Rightarrow> bool inspection" where
  "inspect_rotation aw kms = dbind (request_aws aw (Key_Rotation kms)) (\<lambda>answer.
     dlift (member_is answer ''KeyRotationEnabled'' (JBool True)))"

section \<open>Buckets, users and queues\<close>

definition kms_default :: "string \<Rightarrow> json \<Rightarrow> bool" where
  "kms_default kms v = (case v of JObj kvs \<Rightarrow> fst ` set kvs = {''SSEAlgorithm'', ''KMSMasterKeyID''} \<and>
     dict_get kvs ''SSEAlgorithm'' = Some (JStr ''aws:kms'') \<and> dict_get kvs ''KMSMasterKeyID'' = Some (JStr kms) | _ \<Rightarrow> False)"

definition encrypted_by :: "string \<Rightarrow> json \<Rightarrow> bool result" where
  "encrypted_by kms rules = rbind (items rules) (\<lambda>xs. case xs of
      [r] \<Rightarrow> rbind (field r ''ApplyServerSideEncryptionByDefault'') (\<lambda>x. Inr (kms_default kms x)) | _ \<Rightarrow> Inr False)"

definition inspect_bucket :: "aws \<Rightarrow> (string \<times> string) list \<Rightarrow> string \<Rightarrow> string \<Rightarrow> bool inspection" where
  "inspect_bucket aw config account key =
     (let bucket = config_text config key in
      dbind (request_aws aw (Public_Access bucket account)) (\<lambda>a1.
      dbind (dlift (field a1 ''PublicAccessBlockConfiguration'')) (\<lambda>block.
      dbind (request_aws aw (Bucket_Encryption bucket account)) (\<lambda>a2.
      dbind (dlift (rbind (field a2 ''ServerSideEncryptionConfiguration'') (\<lambda>c. field c ''Rules''))) (\<lambda>rules.
      dbind (dlift (all_hold (map (\<lambda>k. get_is block k (JBool True))
          [''BlockPublicAcls'', ''IgnorePublicAcls'', ''BlockPublicPolicy'', ''RestrictPublicBuckets''] @
          [encrypted_by (config_text config ''kms_key_arn'') rules]))) (\<lambda>ok.
      if \<not> ok then dreturn False
      else dbind (request_aws aw (Bucket_Versioning bucket account)) (\<lambda>a3. dlift (get_is a3 ''Status'' (JStr ''Enabled'')))))))))"

definition inspect_mfa :: "aws \<Rightarrow> string \<Rightarrow> bool inspection" where
  "inspect_mfa aw pool = dbind (request_aws aw (Pool_Mfa pool)) (\<lambda>v. dlift (all_hold [member_is v ''MfaConfiguration'' (JStr ''ON''),
     rbind (field v ''SoftwareTokenMfaConfiguration'') (\<lambda>x. member_is x ''Enabled'' (JBool True))]))"

definition redrive_of :: "json \<Rightarrow> json result" where
  "redrive_of work = rbind (field work ''RedrivePolicy'') (\<lambda>v. case v of
      JStr s \<Rightarrow> loads s | _ \<Rightarrow> Inl (TypeError ''the JSON object must be str''))"

definition int_holds :: "json \<Rightarrow> string \<Rightarrow> (int \<Rightarrow> bool) \<Rightarrow> bool result" where
  "int_holds v k P = rbind (int_member v k) (\<lambda>n. Inr (P n))"

definition inspect_queue :: "aws \<Rightarrow> (string \<times> string) list \<Rightarrow> string \<Rightarrow> string \<Rightarrow> string \<Rightarrow> bool inspection" where
  "inspect_queue aw config account name kind =
     (let prefix = ''https://sqs.'' @ REGION @ ''.amazonaws.com/'' @ account @ ''/'' @ name @ ''-'' @ kind in
      dbind (request_aws aw (Queue_Attributes prefix)) (\<lambda>a1. dbind (dlift (field a1 ''Attributes'')) (\<lambda>work.
      dbind (request_aws aw (Queue_Attributes (prefix @ ''-dlq''))) (\<lambda>a2. dbind (dlift (field a2 ''Attributes'')) (\<lambda>dead.
      dlift (rbind (redrive_of work) (\<lambda>redrive. all_hold ([
        rbind (field work ''KmsMasterKeyId'') (\<lambda>x. rbind (field dead ''KmsMasterKeyId'') (\<lambda>y.
          Inr (x = y \<and> y = JStr (config_text config ''kms_key_arn'')))),
        member_is redrive ''deadLetterTargetArn''
          (JStr (''arn:aws:sqs:'' @ REGION @ '':'' @ account @ '':'' @ name @ ''-'' @ kind @ ''-dlq'')),
        int_holds redrive ''maxReceiveCount'' (\<lambda>n. n = 8), int_holds work ''VisibilityTimeout'' (\<lambda>n. 900 \<le> n),
        int_holds dead ''MessageRetentionPeriod'' (\<lambda>n. 1209600 \<le> n)] @
        map (\<lambda>k. int_holds dead k (\<lambda>n. n = 0))
          [''ApproximateNumberOfMessages'', ''ApproximateNumberOfMessagesNotVisible'', ''ApproximateNumberOfMessagesDelayed'']))))))))"

section \<open>Services, schedules and mail\<close>

definition runs_image :: "string \<Rightarrow> json \<Rightarrow> bool result" where
  "runs_image image' containers = rbind (items containers) (\<lambda>cs. case cs of
      [c] \<Rightarrow> member_is c ''image'' (JStr image') | _ \<Rightarrow> Inr False)"

definition first_item :: "json \<Rightarrow> json result" where
  "first_item v = rbind (items v) (\<lambda>xs. case xs of [] \<Rightarrow> Inl (OtherError ''IndexError'') | x # rest \<Rightarrow> Inr x)"

definition one_deployment :: "json \<Rightarrow> bool result" where
  "one_deployment v = rbind (field v ''deployments'') (\<lambda>ds. rbind (items ds) (\<lambda>xs. case xs of
      [d] \<Rightarrow> member_is d ''rolloutState'' (JStr ''COMPLETED'') | _ \<Rightarrow> Inr False))"

definition private_address :: "json \<Rightarrow> string \<Rightarrow> string \<Rightarrow> bool result" where
  "private_address v network_key key = rbind (field v network_key) (\<lambda>n. rbind (field n ''awsvpcConfiguration'') (\<lambda>c.
     member_is c key (JStr ''DISABLED'')))"

definition wanted_tasks :: "string \<Rightarrow> string \<Rightarrow> int" where
  "wanted_tasks kind environment = (if kind = ''api'' \<and> environment = ''production'' then 2 else 1)"

definition inspect_service :: "aws \<Rightarrow> string \<Rightarrow> string \<Rightarrow> string \<Rightarrow> string \<Rightarrow> bool inspection" where
  "inspect_service aw name environment image' kind =
     dbind (request_aws aw (Ecs_Service name (name @ ''-'' @ kind))) (\<lambda>v.
     dbind (dlift (get_member v ''failures'' JNull)) (\<lambda>failures.
     if truthy failures then dreturn False
     else dbind (dlift (the_only v ''services'')) (\<lambda>row.
     case row of
       None \<Rightarrow> dreturn False
     | Some current \<Rightarrow>
         dbind (dlift (field current ''taskDefinition'')) (\<lambda>reference.
         dbind (request_aws aw (Task_Definition reference)) (\<lambda>answer.
         dbind (dlift (rbind (field answer ''taskDefinition'') (\<lambda>t. field t ''containerDefinitions''))) (\<lambda>containers.
         dlift (all_hold [member_is current ''status'' (JStr ''ACTIVE''), at_least current ''desiredCount'' (wanted_tasks kind environment),
           rbind (field current ''runningCount'') (\<lambda>x. member_is current ''desiredCount'' x),
           member_is current ''pendingCount'' (JInt 0), one_deployment current,
           private_address current ''networkConfiguration'' ''assignPublicIp'', runs_image image' containers,
           rbind (first_item containers) (\<lambda>c. member_is c ''readonlyRootFilesystem'' (JBool True))])))))))"

definition inspect_schedule :: "aws \<Rightarrow> string \<Rightarrow> string \<Rightarrow> string \<Rightarrow> bool inspection" where
  "inspect_schedule aw name image' kind =
     dbind (request_aws aw (Scheduled (name @ ''-'' @ kind))) (\<lambda>v.
     dbind (dlift (rbind (field v ''Target'') (\<lambda>t. field t ''EcsParameters''))) (\<lambda>target.
     dbind (dlift (field target ''TaskDefinitionArn'')) (\<lambda>reference.
     dbind (request_aws aw (Task_Definition reference)) (\<lambda>answer.
     dbind (dlift (rbind (field answer ''taskDefinition'') (\<lambda>t. field t ''containerDefinitions''))) (\<lambda>containers.
     dlift (all_hold [member_is v ''State'' (JStr ''ENABLED''), private_address target ''NetworkConfiguration'' ''AssignPublicIp'',
       runs_image image' containers]))))))"

definition inspect_mail :: "aws \<Rightarrow> string \<Rightarrow> bool inspection" where
  "inspect_mail aw k = dbind (request_aws aw Mail_Account) (\<lambda>v. dlift (member_is v k (JBool True)))"

definition inspect_mail_domain :: "aws \<Rightarrow> string \<Rightarrow> bool inspection" where
  "inspect_mail_domain aw domain = dbind (request_aws aw (Mail_Identity domain)) (\<lambda>v.
     dlift (member_is v ''VerifiedForSendingStatus'' (JBool True)))"

section \<open>The inspection\<close>

text \<open>Whether all checks passed, once the account was the expected one.\<close>

definition run_checks :: "(string \<times> bool inspection) list \<Rightarrow> unit inspection" where
  "run_checks cs = dfor (\<lambda>(name, m). dbind (check name m) (\<lambda>_. dreturn ())) cs"

definition account_check :: "aws \<Rightarrow> string \<Rightarrow> bool inspection" where
  "account_check aw account = dbind (request_aws aw Caller_Identity) (\<lambda>v. dlift (member_is v ''Account'' (JStr account)))"

definition resource_checks :: "aws \<Rightarrow> (string \<times> string) list \<Rightarrow> string \<Rightarrow> string \<Rightarrow> string \<Rightarrow> datetime \<Rightarrow> (string \<times> bool inspection) list" where
  "resource_checks aw config account environment image' now =
     (let name = config_text config ''cluster_name''; kms = config_text config ''kms_key_arn'' in
      [(''rds.private_encrypted_multi_az_tls_backups'', inspect_database aw config now),
       (''kms.enabled'', inspect_key aw kms), (''kms.rotation'', inspect_rotation aw kms)] @
      map (\<lambda>key. (''s3.'' @ key @ ''.private_encrypted_versioned'', inspect_bucket aw config account key))
        [''report_bucket'', ''deletion_ledger_bucket''] @
      [(''cognito.required_totp_configuration'', inspect_mfa aw (config_text config ''cognito_user_pool_id''))] @
      map (\<lambda>kind. (''sqs.'' @ kind @ ''.encryption_redrive_empty_dlq'', inspect_queue aw config account name kind)) DEPLOY_QUEUES @
      map (\<lambda>kind. (''ecs.'' @ kind @ ''.stable_private_expected_image'', inspect_service aw name environment image' kind))
        (''api'' # DEPLOY_QUEUES) @
      map (\<lambda>kind. (''scheduler.'' @ kind @ ''.enabled_expected_image'', inspect_schedule aw name image' kind)) SUFFIXES @
      [(''ses.sending_enabled'', inspect_mail aw ''SendingEnabled''),
       (''ses.outside_sandbox'', inspect_mail aw ''ProductionAccessEnabled''),
       (''ses.domain_verified'', inspect_mail_domain aw (config_text config ''email_domain''))])"

definition inspect_resources :: "aws \<Rightarrow> (string \<times> string) list \<Rightarrow> string \<Rightarrow> string \<Rightarrow> string \<Rightarrow> datetime \<Rightarrow> bool inspection" where
  "inspect_resources aw config account environment image' now =
     dbind (check ''caller.expected_account'' (account_check aw account)) (\<lambda>ok.
     if \<not> ok then dreturn False
     else dbind (run_checks (resource_checks aw config account environment image' now)) (\<lambda>_.
       dread (\<lambda>pf. list_all (\<lambda>(name, status). status = ''pass'') (pf_checks pf))))"

definition no_requests :: preflight where "no_requests = \<lparr>pf_calls = [], pf_checks = []\<rparr>"

definition preflight_report :: "datetime \<Rightarrow> string \<Rightarrow> string \<Rightarrow> bool \<Rightarrow> (string \<times> string) list \<Rightarrow> dict" where
  "preflight_report now environment image' passed checks =
     [(''schema_version'', JInt 1), (''kind'', JStr ''aws-configuration-preflight''), (''checked_at'', JStr (isoformat now)),
      (''environment'', JStr environment), (''image'', JStr image'),
      (''checks'', JList (map (\<lambda>(name, status). JObj [(''name'', JStr name), (''status'', JStr status)]) checks)),
      (''passed'', JBool passed), (''production_accepted'', JBool False)]"

text \<open>Whether the inspection passed, its checks and the report.\<close>

definition inspect :: "aws \<Rightarrow> json \<Rightarrow> string \<Rightarrow> string \<Rightarrow> string \<Rightarrow> datetime \<Rightarrow> (bool \<times> preflight \<times> dict) result" where
  "inspect aw config account environment image' now =
     rbind (validate_config config account environment image') (\<lambda>texts.
     case inspect_resources aw texts account environment image' now no_requests of
       (Inl e, pf) \<Rightarrow> Inl e
     | (Inr passed, pf) \<Rightarrow> Inr (passed, pf, preflight_report now environment image' passed (pf_checks pf)))"

text \<open>
  \<open>scripts/check_aws_readiness.py\<close>: the report that is written, the lines that are printed and the exit
  status. A refused configuration leaves no report.
\<close>

definition check_line :: "string \<times> string \<Rightarrow> string" where "check_line c = snd c @ '': '' @ fst c"

definition aws_readiness :: "aws \<Rightarrow> json result \<Rightarrow> string \<Rightarrow> string \<Rightarrow> string \<Rightarrow> datetime \<Rightarrow> (dict \<times> string list \<times> int) result" where
  "aws_readiness aw config account environment image' now =
     (case rbind config (\<lambda>c. inspect aw c account environment image' now) of
        Inr (passed, pf, r) \<Rightarrow> Inr (r, map check_line (pf_checks pf), if passed then 0 else 1)
      | Inl (ValueError m) \<Rightarrow> Inl (OtherError ''SystemExit'')
      | Inl (OtherError n) \<Rightarrow> Inl (if n = ''OSError'' then OtherError ''SystemExit'' else OtherError n)
      | Inl e \<Rightarrow> Inl e)"

section \<open>What a passed inspection says\<close>

text \<open>Operations that add checks and drop none.\<close>

definition adds_checks :: "'a inspection \<Rightarrow> bool" where
  "adds_checks m \<longleftrightarrow> (\<forall>pf. set (pf_checks pf) \<subseteq> set (pf_checks (snd (m pf))))"

named_theorems adding

lemma adds_bind [adding]: "adds_checks m \<Longrightarrow> (\<And>x. adds_checks (f x)) \<Longrightarrow> adds_checks (dbind m f)"
  unfolding adds_checks_def dbind_def by (fastforce split: prod.splits sum.splits)

lemma adds_basic [adding]:
  "adds_checks (dreturn x)" "adds_checks (dlift r)" "adds_checks (request_aws aw c)" "adds_checks (note_check name status)"
  by (auto simp: adds_checks_def dreturn_def dlift_def request_aws_def note_check_def dmodify_def)

lemma adds_if [adding]: "adds_checks m \<Longrightarrow> adds_checks n \<Longrightarrow> adds_checks (if b then m else n)"
  by simp

lemma adds_option [adding]: "adds_checks m \<Longrightarrow> (\<And>x. adds_checks (f x)) \<Longrightarrow> adds_checks (case v of None \<Rightarrow> m | Some x \<Rightarrow> f x)"
  by (cases v) simp_all

lemma adds_page [adding]: "adds_checks (any_page aw name n k)"
  by (induction k arbitrary: n) (simp_all add: adding)

lemma adds_inspections [adding]:
  "adds_checks (inspect_database aw config now)" "adds_checks (inspect_key aw kms)" "adds_checks (inspect_rotation aw kms)"
  "adds_checks (inspect_bucket aw config account key)" "adds_checks (inspect_mfa aw pool)"
  "adds_checks (inspect_queue aw config account name kind)" "adds_checks (inspect_service aw name environment image' kind)"
  "adds_checks (inspect_schedule aw name image' kind)" "adds_checks (inspect_mail aw k)" "adds_checks (inspect_mail_domain aw domain)"
  by (auto simp: inspect_database_def tls_forced_def inspect_key_def inspect_rotation_def inspect_bucket_def inspect_mfa_def Let_def
      inspect_queue_def inspect_service_def inspect_schedule_def inspect_mail_def inspect_mail_domain_def intro!: adding)

lemma resource_checks_add: "\<forall>c \<in> set (resource_checks aw config account environment image' now). adds_checks (snd c)"
  by (auto simp: resource_checks_def Let_def intro: adding)

lemma check_notes:
  assumes "check name m pf = (Inr b, pf')" and "adds_checks m"
  shows "\<exists>status. (name, status) \<in> set (pf_checks pf')" and "set (pf_checks pf) \<subseteq> set (pf_checks pf')"
  using assms by (auto simp: check_def note_check_def adds_checks_def dreturn_def dest!: spec [of _ pf]
      split: prod.splits sum.splits if_splits)

lemma run_checks_notes:
  assumes "run_checks cs pf = (Inr u, pf')" and "\<forall>c \<in> set cs. adds_checks (snd c)"
  shows "set (pf_checks pf) \<subseteq> set (pf_checks pf') \<and> fst ` set cs \<subseteq> fst ` set (pf_checks pf')"
  using assms
proof (induction cs arbitrary: pf u)
  case Nil then show ?case by (auto simp: run_checks_def dfor_def dreturn_def dbind_def)
next
  case (Cons c cs)
  obtain name m where c: "c = (name, m)" by fastforce
  obtain b pf1 u1 where first: "check name m pf = (Inr b, pf1)" and rest: "run_checks cs pf1 = (Inr u1, pf')"
    using Cons.prems(1) by (fastforce simp: c run_checks_def dfor_def dreturn_def dbind_def split: prod.splits sum.splits)
  have "adds_checks m" using Cons.prems(2) by (simp add: c)
  note noted = check_notes [OF first this]
  have after: "set (pf_checks pf1) \<subseteq> set (pf_checks pf') \<and> fst ` set cs \<subseteq> fst ` set (pf_checks pf')"
    using Cons.IH [OF rest] Cons.prems(2) by simp
  obtain status where "(name, status) \<in> set (pf_checks pf1)" using noted(1) by auto
  then have "(name, status) \<in> set (pf_checks pf')" using after by auto
  then have "name \<in> fst ` set (pf_checks pf')" by (metis fst_conv imageI)
  moreover have "set (pf_checks pf) \<subseteq> set (pf_checks pf')" using noted(2) after by (meson subset_trans)
  ultimately show ?case using after by (simp add: c)
qed

lemma inspect_ran:
  assumes "inspect aw config account environment image' now = Inr (passed, pf, r)"
  shows "\<exists>texts. validate_config config account environment image' = Inr texts \<and>
     inspect_resources aw texts account environment image' now no_requests = (Inr passed, pf) \<and>
     r = preflight_report now environment image' passed (pf_checks pf)"
proof -
  obtain texts where v: "validate_config config account environment image' = Inr texts"
    using assms by (cases "validate_config config account environment image'") (simp_all add: inspect_def rbind_def)
  obtain v1 pf1 where "inspect_resources aw texts account environment image' now no_requests = (v1, pf1)" by fastforce
  with v assms show ?thesis by (cases v1) (auto simp: inspect_def rbind_def)
qed

text \<open>Every resource of the deployment has a check that passed, and a report never accepts a release.\<close>

theorem passed_inspections_are_complete:
  assumes "inspect aw config account environment image' now = Inr (True, pf, r)"
  obtains texts where "validate_config config account environment image' = Inr texts"
    "\<forall>c \<in> set (resource_checks aw texts account environment image' now). (fst c, ''pass'') \<in> set (pf_checks pf)"
    "dict_get r ''production_accepted'' = Some (JBool False)"
proof -
  obtain texts where v: "validate_config config account environment image' = Inr texts"
    and run: "inspect_resources aw texts account environment image' now no_requests = (Inr True, pf)"
    and r: "r = preflight_report now environment image' True (pf_checks pf)"
    using inspect_ran [OF assms] by auto
  obtain pf1 where "run_checks (resource_checks aw texts account environment image' now) pf1 = (Inr (), pf)"
    and all: "list_all (\<lambda>(name, status). status = ''pass'') (pf_checks pf)"
    using run by (auto simp: inspect_resources_def dread_def dreturn_def elim!: dbindE split: if_splits)
  from run_checks_notes [OF this(1) resource_checks_add]
  have "fst ` set (resource_checks aw texts account environment image' now) \<subseteq> fst ` set (pf_checks pf)" by simp
  with all have "\<forall>c \<in> set (resource_checks aw texts account environment image' now). (fst c, ''pass'') \<in> set (pf_checks pf)"
    by (fastforce simp: list_all_iff)
  with v r show ?thesis by (intro that) (auto simp: preflight_report_def dict_get_def)
qed

text \<open>In an unexpected account the one request is the one that shows it.\<close>

theorem unexpected_account_is_left_alone:
  assumes "inspect aw config account environment image' now = Inr (passed, pf, r)"
    and "rbind (aw_answer aw [] Caller_Identity) (\<lambda>v. member_is v ''Account'' (JStr account)) \<noteq> Inr True"
  shows "\<not> passed \<and> pf_calls pf = [Caller_Identity] \<and> length (pf_checks pf) = 1"
proof -
  obtain texts where run: "inspect_resources aw texts account environment image' now no_requests = (Inr passed, pf)"
    using inspect_ran [OF assms(1)] by auto
  obtain answer where "answer \<noteq> Inr True"
    and "account_check aw account no_requests = (answer, \<lparr>pf_calls = [Caller_Identity], pf_checks = []\<rparr>)"
    using assms(2) by (cases "aw_answer aw [] Caller_Identity")
      (auto simp: account_check_def dbind_def request_aws_def no_requests_def dlift_def rbind_def)
  with run show ?thesis
    by (auto simp: inspect_resources_def check_def dbind_def note_check_def dmodify_def dreturn_def split: sum.splits if_splits)
qed

end
