(* ===== verification/Maintenance.thy ===== *)
theory Maintenance imports Plugin_Views begin

text \<open>
  \<open>modules/accounts/maintenance.py\<close>: the erasure of an organization and the bounded retention of its
  rows, run with the maintenance role of the database. The object store is a parameter; local files
  are named by the keys of the objects.
\<close>

record maintenance_env =
  mt_now :: datetime
  mt_hash :: digest
  mt_identity :: "string \<times> bool \<times> bool"
  mt_production :: bool
  mt_report_bucket :: string
  mt_versions :: "uuid \<Rightarrow> dict list"
  mt_delete :: "json list \<Rightarrow> dict result"
  mt_ledger_bucket :: string
  mt_put :: "string \<Rightarrow> json \<Rightarrow> unit result"

definition require_maintenance_role :: "maintenance_env \<Rightarrow> unit result" where
  "require_maintenance_role me = require_database_role (mt_identity me) ''ledgerguard_maintenance''"

section \<open>Reports of an organization\<close>

definition stored_version :: "json \<Rightarrow> json result" where
  "stored_version v = rbind (dict_of_json v) (\<lambda>item. rbind (dict_at item ''Key'') (\<lambda>k. rbind (dict_at item ''VersionId'') (\<lambda>i.
     Inr (JObj [(''Key'', k), (''VersionId'', i)]))))"

text \<open>One page of the listing: every version and every delete marker.\<close>

definition erase_page :: "maintenance_env \<Rightarrow> dict \<Rightarrow> unit result" where
  "erase_page me page =
     rbind (list_of_json (dict_get_or page ''Versions'' (JList []))) (\<lambda>versions.
     rbind (list_of_json (dict_get_or page ''DeleteMarkers'' (JList []))) (\<lambda>markers.
     rbind (map_res stored_version (versions @ markers)) (\<lambda>objects.
     if objects = [] then Inr ()
     else rbind (mt_delete me objects) (\<lambda>result.
       guard (\<not> truthy (dict_get_or result ''Errors'' JNull)) (RuntimeError ''Report erasure incomplete'')))))"

fun erase_pages :: "maintenance_env \<Rightarrow> dict list \<Rightarrow> unit result" where
  "erase_pages me [] = Inr ()"
| "erase_pages me (p # ps) = rbind (erase_page me p) (\<lambda>_. erase_pages me ps)"

definition erase_reports :: "maintenance_env \<Rightarrow> uuid \<Rightarrow> unit result" where
  "erase_reports me org = (if mt_report_bucket me \<noteq> [] then erase_pages me (mt_versions me org) else Inr ())"

section \<open>The order of deletion\<close>

text \<open>A model and the models its foreign keys refer to.\<close>

type_synonym model = "string \<times> string list"

definition is_referenced :: "model list \<Rightarrow> model \<Rightarrow> bool" where
  "is_referenced remaining m \<longleftrightarrow> (\<exists>x \<in> set remaining. fst m \<in> set (snd x))"

text \<open>\<open>tenant_models\<close>: the models that none of the remaining ones refers to come first.\<close>

function ordered_models :: "model list \<Rightarrow> model list result" where
  "ordered_models remaining =
     (if remaining = [] then Inr []
      else let leaves = filter (\<lambda>m. \<not> is_referenced remaining m) remaining in
        if leaves = [] then Inl (RuntimeError ''Tenant deletion dependency cycle'')
        else rbind (ordered_models (filter (\<lambda>m. m \<notin> set leaves) remaining)) (\<lambda>rest. Inr (leaves @ rest)))"
  by pat_completeness auto
termination
proof (relation "measure length", simp)
  fix remaining :: "model list" and leaves
  assume l: "leaves = filter (\<lambda>m. \<not> is_referenced remaining m) remaining" "leaves \<noteq> []"
  from l(2) obtain m where "m \<in> set leaves" by (metis last_in_set)
  then have "m \<in> set remaining" "m \<in> set leaves" using l(1) by auto
  then have "length (filter (\<lambda>m. m \<notin> set leaves) remaining) < length remaining"
    by (intro length_filter_less[of m]) auto
  then show "(filter (\<lambda>m. m \<notin> set leaves) remaining, remaining) \<in> measure length" by simp
qed

declare ordered_models.simps [simp del]

text \<open>The models with an \<open>organization_id\<close>, by application and in the order of their definition, with
  their tables. The locators are left out by name; the references to users lead to no tenant model.\<close>

record tenant_table =
  tt_model :: model
  tt_table :: string
  tt_count :: "uuid \<Rightarrow> db \<Rightarrow> nat"
  tt_delete :: "uuid \<Rightarrow> db \<Rightarrow> db"

definition rows_of :: "('r \<Rightarrow> uuid) \<Rightarrow> uuid \<Rightarrow> 'r list \<Rightarrow> nat" where
  "rows_of key org rows = length (filter (\<lambda>r. key r = org) rows)"

definition without :: "('r \<Rightarrow> uuid) \<Rightarrow> uuid \<Rightarrow> 'r list \<Rightarrow> 'r list" where
  "without key org rows = filter (\<lambda>r. key r \<noteq> org) rows"

definition table :: "string \<Rightarrow> string list \<Rightarrow> string \<Rightarrow> (uuid \<Rightarrow> db \<Rightarrow> nat) \<Rightarrow> (uuid \<Rightarrow> db \<Rightarrow> db) \<Rightarrow> tenant_table" where
  "table model refs name number remove = \<lparr>tt_model = (model, refs), tt_table = name, tt_count = number, tt_delete = remove\<rparr>"

definition ACCOUNT_TABLES :: "tenant_table list" where
  "ACCOUNT_TABLES =
     [table ''Organization'' [] ''accounts_organization'' (\<lambda>o' d. rows_of org_id o' (db_orgs d))
        (\<lambda>o' d. d\<lparr>db_orgs := without org_id o' (db_orgs d)\<rparr>),
      table ''Membership'' [] ''accounts_membership'' (\<lambda>o' d. rows_of mem_org o' (db_members d))
        (\<lambda>o' d. d\<lparr>db_members := without mem_org o' (db_members d)\<rparr>),
      table ''Invitation'' [] ''accounts_invitation'' (\<lambda>o' d. rows_of inv_org o' (db_invitations d))
        (\<lambda>o' d. d\<lparr>db_invitations := without inv_org o' (db_invitations d)\<rparr>),
      table ''SupportGrant'' [] ''accounts_supportgrant'' (\<lambda>o' d. rows_of gra_org o' (db_grants d))
        (\<lambda>o' d. d\<lparr>db_grants := without gra_org o' (db_grants d)\<rparr>),
      table ''AuditLog'' [] ''accounts_auditlog'' (\<lambda>o' d. rows_of aud_org o' (db_audit d))
        (\<lambda>o' d. d\<lparr>db_audit := without aud_org o' (db_audit d)\<rparr>)]"

definition CONNECTOR_TABLES :: "tenant_table list" where
  "CONNECTOR_TABLES =
     [table ''Store'' [] ''connectors_store'' (\<lambda>o' d. rows_of sto_org o' (db_stores d))
        (\<lambda>o' d. d\<lparr>db_stores := without sto_org o' (db_stores d)\<rparr>),
      table ''Installation'' [''Store''] ''connectors_installation'' (\<lambda>o' d. rows_of ins_org o' (db_installations d))
        (\<lambda>o' d. d\<lparr>db_installations := without ins_org o' (db_installations d)\<rparr>),
      table ''StoreStripeLink'' [''Store'', ''Installation''] ''connectors_storestripelink'' (\<lambda>o' d. rows_of lnk_org o' (db_links d))
        (\<lambda>o' d. d\<lparr>db_links := without lnk_org o' (db_links d)\<rparr>),
      table ''PublicKey'' [''Installation''] ''connectors_publickey'' (\<lambda>o' d. rows_of key_org o' (db_keys d))
        (\<lambda>o' d. d\<lparr>db_keys := without key_org o' (db_keys d)\<rparr>),
      table ''PairingCode'' [''Store''] ''connectors_pairingcode'' (\<lambda>o' d. rows_of pai_org o' (db_pairings d))
        (\<lambda>o' d. d\<lparr>db_pairings := without pai_org o' (db_pairings d)\<rparr>),
      table ''OAuthState'' [''Store''] ''connectors_oauthstate'' (\<lambda>o' d. rows_of oau_org o' (db_oauth d))
        (\<lambda>o' d. d\<lparr>db_oauth := without oau_org o' (db_oauth d)\<rparr>)]"

definition INGESTION_TABLES :: "tenant_table list" where
  "INGESTION_TABLES =
     [table ''Receipt'' [''Installation''] ''ingestion_receipt'' (\<lambda>o' d. rows_of rec_org o' (db_receipts d))
        (\<lambda>o' d. d\<lparr>db_receipts := without rec_org o' (db_receipts d)\<rparr>),
      table ''Observation'' [''Installation''] ''ingestion_observation'' (\<lambda>o' d. rows_of obs_org o' (db_observations d))
        (\<lambda>o' d. d\<lparr>db_observations := without obs_org o' (db_observations d)\<rparr>),
      table ''Projection'' [''Installation'', ''Store'', ''Observation''] ''ingestion_projection''
        (\<lambda>o' d. rows_of pro_org o' (db_projections d)) (\<lambda>o' d. d\<lparr>db_projections := without pro_org o' (db_projections d)\<rparr>),
      table ''Cursor'' [''Installation''] ''ingestion_cursor'' (\<lambda>o' d. rows_of cur_org o' (db_cursors d))
        (\<lambda>o' d. d\<lparr>db_cursors := without cur_org o' (db_cursors d)\<rparr>),
      table ''IdempotencyRecord'' [] ''ingestion_idempotencyrecord'' (\<lambda>o' d. rows_of ide_org o' (db_idempotency d))
        (\<lambda>o' d. d\<lparr>db_idempotency := without ide_org o' (db_idempotency d)\<rparr>),
      table ''Quota'' [] ''ingestion_quota'' (\<lambda>o' d. rows_of quo_org o' (db_quotas d))
        (\<lambda>o' d. d\<lparr>db_quotas := without quo_org o' (db_quotas d)\<rparr>),
      table ''Scan'' [''Installation''] ''ingestion_scan'' (\<lambda>o' d. rows_of sca_org o' (db_scans d))
        (\<lambda>o' d. d\<lparr>db_scans := without sca_org o' (db_scans d)\<rparr>),
      table ''BatchPage'' [''Installation''] ''ingestion_batchpage'' (\<lambda>o' d. rows_of pag_org o' (db_pages d))
        (\<lambda>o' d. d\<lparr>db_pages := without pag_org o' (db_pages d)\<rparr>)]"

definition FINDING_TABLES :: "tenant_table list" where
  "FINDING_TABLES =
     [table ''ReconciliationRun'' [''Store''] ''findings_reconciliationrun'' (\<lambda>o' d. rows_of run_org o' (db_runs d))
        (\<lambda>o' d. d\<lparr>db_runs := without run_org o' (db_runs d)\<rparr>),
      table ''Finding'' [''Store''] ''findings_finding'' (\<lambda>o' d. rows_of fin_org o' (db_findings d))
        (\<lambda>o' d. d\<lparr>db_findings := without fin_org o' (db_findings d)\<rparr>),
      table ''FindingEvent'' [''Finding'', ''ReconciliationRun''] ''findings_findingevent'' (\<lambda>o' d. rows_of eve_org o' (db_events d))
        (\<lambda>o' d. d\<lparr>db_events := without eve_org o' (db_events d)\<rparr>),
      table ''Outbox'' [] ''findings_outbox'' (\<lambda>o' d. rows_of out_org o' (db_outbox d))
        (\<lambda>o' d. d\<lparr>db_outbox := without out_org o' (db_outbox d)\<rparr>),
      table ''AlertRoute'' [] ''findings_alertroute'' (\<lambda>o' d. rows_of rou_org o' (db_routes d))
        (\<lambda>o' d. d\<lparr>db_routes := without rou_org o' (db_routes d)\<rparr>),
      table ''EmailDelivery'' [''FindingEvent'', ''AuditLog'', ''AlertRoute''] ''findings_emaildelivery''
        (\<lambda>o' d. rows_of del_org o' (db_deliveries d)) (\<lambda>o' d. d\<lparr>db_deliveries := without del_org o' (db_deliveries d)\<rparr>)]"

definition REPORT_TABLES :: "tenant_table list" where
  "REPORT_TABLES =
     [table ''Report'' [''Store''] ''reporting_report'' (\<lambda>o' d. rows_of rep_org o' (db_reports d))
        (\<lambda>o' d. d\<lparr>db_reports := without rep_org o' (db_reports d)\<rparr>)]"

definition TENANT_TABLES :: "tenant_table list" where
  "TENANT_TABLES = ACCOUNT_TABLES @ CONNECTOR_TABLES @ INGESTION_TABLES @ FINDING_TABLES @ REPORT_TABLES"

definition table_of :: "model \<Rightarrow> tenant_table option" where
  "table_of m = find (\<lambda>t. tt_model t = m) TENANT_TABLES"

definition tenant_models :: "tenant_table list result" where
  "tenant_models = rbind (ordered_models (map tt_model TENANT_TABLES)) (\<lambda>ms. Inr (List.map_filter table_of ms))"

section \<open>Erasure\<close>

record erasure_receipt =
  er_org :: uuid
  er_at :: datetime
  er_digest :: string

text \<open>\<open>DELETE FROM table WHERE organization_id = ...\<close> for every table, with the counts.\<close>

fun delete_tables :: "uuid \<Rightarrow> tenant_table list \<Rightarrow> db \<Rightarrow> (string \<times> nat) list \<times> db" where
  "delete_tables org [] d = ([], d)"
| "delete_tables org (t # ts) d =
     (case delete_tables org ts (tt_delete t org d) of (counts, d') \<Rightarrow> ((tt_table t, tt_count t org d) # counts, d'))"

text \<open>\<open>json.dumps(..., sort_keys=True)\<close> with the default separators, of the receipt.\<close>

definition counts_text :: "(string \<times> nat) list \<Rightarrow> string" where
  "counts_text counts = ''{'' @ join '', '' (map (\<lambda>(k, n). quote k @ '': '' @ show_nat n) (sort_key fst counts)) @ ''}''"

definition erasure_text :: "uuid \<Rightarrow> (string \<times> nat) list \<Rightarrow> string" where
  "erasure_text org counts =
     ''{'' @ quote ''counts'' @ '': '' @ counts_text counts @ '', '' @ quote ''organization_id'' @ '': '' @ quote (uuid_str org) @ ''}''"

definition erase_rows :: "uuid \<Rightarrow> (string \<times> nat) list trans" where
  "erase_rows org d =
     rbind tenant_models (\<lambda>ts.
     case delete_tables org ts d of (counts, d1) \<Rightarrow>
       rbind (guard (\<forall>t \<in> set ts. tt_count t org d1 = 0) (RuntimeError ''Tenant erasure verification failed'')) (\<lambda>_.
       Inr (counts, d1\<lparr>db_locators := without loc_org org (db_locators d1),
         db_pairing_locators := without plo_org org (db_pairing_locators d1)\<rparr>)))"

definition close_directory :: "uuid \<Rightarrow> datetime \<Rightarrow> string \<Rightarrow> db \<Rightarrow> db" where
  "close_directory org at receipt d =
     d\<lparr>db_directory := update_where (\<lambda>x. dir_id x = org) (\<lambda>x. x\<lparr>dir_active := False, dir_erased := Some at, dir_digest := receipt\<rparr>)
       (db_directory d)\<rparr>"

text \<open>The receipt is kept outside of the database, unless it is being replayed.\<close>

definition publish_receipt :: "maintenance_env \<Rightarrow> uuid \<Rightarrow> string \<Rightarrow> unit result" where
  "publish_receipt me org receipt =
     (if mt_ledger_bucket me \<noteq> [] then mt_put me (''erasures/'' @ uuid_str org @ ''.json'')
        (JObj [(''organization_id'', JStr (uuid_str org)), (''erased_at'', JStr (isoformat (mt_now me))), (''digest'', JStr receipt)])
      else guard (\<not> mt_production me) (RuntimeError ''A durable erasure ledger is required''))"

definition erase_in_scope :: "maintenance_env \<Rightarrow> uuid \<Rightarrow> erasure_receipt option \<Rightarrow> string trans" where
  "erase_in_scope me org replay =
     tbind (tread (\<lambda>d. get_row ''Organization'' (\<lambda>x. org_id x = org) (db_orgs d))) (\<lambda>found. tbind (tlift found) (\<lambda>x.
     tbind (tguard (\<not> org_active x \<and> org_deleted x \<noteq> None) (ValueError ''Tenant deletion has not been requested'')) (\<lambda>_.
     tbind (tlift (erase_reports me org)) (\<lambda>_.
     tbind (erase_rows org) (\<lambda>counts.
     let receipt = (case replay of Some r \<Rightarrow> er_digest r | None \<Rightarrow> mt_hash me (erasure_text org counts));
         at = (case replay of Some r \<Rightarrow> er_at r | None \<Rightarrow> mt_now me) in
     tbind (tmodify (close_directory org at receipt)) (\<lambda>_.
     tbind (tlift (if replay = None then publish_receipt me org receipt else Inr ())) (\<lambda>_.
     treturn receipt)))))))"

definition erase_tenant :: "maintenance_env \<Rightarrow> uuid \<Rightarrow> erasure_receipt option \<Rightarrow> world \<Rightarrow> (string \<times> world) result" where
  "erase_tenant me org replay w =
     rbind (require_maintenance_role me) (\<lambda>_.
     rbind (guard (case replay of Some r \<Rightarrow> er_org r = org | None \<Rightarrow> True) (ValueError ''Erasure receipt identity mismatch'')) (\<lambda>_.
     rbind (tenant_scope org None (\<lambda>_. erase_in_scope me org replay) no_context w) (\<lambda>(receipt, c, w').
     Inr (receipt, w'))))"

section \<open>Retention\<close>

text \<open>Records of requests, and what was received more than two days ago.\<close>

definition expire_requests :: "datetime \<Rightarrow> db \<Rightarrow> db" where
  "expire_requests now d =
     d\<lparr>db_idempotency := filter (\<lambda>r. \<not> ide_expires r < now) (db_idempotency d),
       db_receipts := filter (\<lambda>r. \<not> (rec_created r < now - days 2 \<and> rec_status r \<in> {''normalized'', ''ignored''})) (db_receipts d),
       db_pages := filter (\<lambda>p. \<not> pag_created p < now - days 2) (db_pages d),
       db_quotas := filter (\<lambda>q. \<not> quo_created q < now - days 2) (db_quotas d)\<rparr>"

text \<open>Codes and invitations a day after they expired, with their locators.\<close>

definition drop_locators :: "string list \<Rightarrow> db \<Rightarrow> db" where
  "drop_locators hashes d =
     d\<lparr>db_pairing_locators := filter (\<lambda>l. plo_code_hash l \<notin> set hashes) (db_pairing_locators d)\<rparr>"

definition expire_codes :: "datetime \<Rightarrow> db \<Rightarrow> db" where
  "expire_codes now d =
     (let old = filter (\<lambda>c. pai_expires c < now - days 1) (db_pairings d);
          d1 = (drop_locators (map pai_code_hash old) d)\<lparr>db_pairings := filter (\<lambda>c. \<not> pai_expires c < now - days 1) (db_pairings d)\<rparr>;
          gone = filter (\<lambda>i. inv_expires i < now - days 1) (db_invitations d1);
          d2 = (drop_locators (map inv_token_hash gone) d1)\<lparr>db_invitations :=
            filter (\<lambda>i. \<not> inv_expires i < now - days 1) (db_invitations d1)\<rparr> in
      d2\<lparr>db_oauth := filter (\<lambda>s. \<not> oau_expires s < now - days 1) (db_oauth d2)\<rparr>)"

text \<open>Resolved cases that were not seen since the cutoff, their events and the mails about them; mails
  about no finding; runs of before the cutoff that no event refers to.\<close>

definition expired_case :: "datetime \<Rightarrow> finding \<Rightarrow> bool" where
  "expired_case cutoff f \<longleftrightarrow> fin_state f = ''resolved'' \<and> fin_last_seen f < cutoff"

definition expired_keys :: "datetime \<Rightarrow> db \<Rightarrow> uuid set" where
  "expired_keys cutoff d = fin_id ` set (filter (expired_case cutoff) (db_findings d))"

definition expired_events :: "datetime \<Rightarrow> db \<Rightarrow> uuid set" where
  "expired_events cutoff d = eve_id ` set (filter (\<lambda>e. eve_finding e \<in> expired_keys cutoff d) (db_events d))"

definition expire_cases :: "datetime \<Rightarrow> db \<Rightarrow> db" where
  "expire_cases cutoff d =
     (let d1 = d\<lparr>db_deliveries := filter (\<lambda>x. \<not> (del_event x = None \<and> del_created x < cutoff)) (db_deliveries d)\<rparr>;
          d2 = d1\<lparr>db_deliveries := filter (\<lambda>x. case del_event x of None \<Rightarrow> True | Some e \<Rightarrow> e \<notin> expired_events cutoff d1)
                (db_deliveries d1),
              db_events := filter (\<lambda>e. eve_finding e \<notin> expired_keys cutoff d1) (db_events d1),
              db_findings := filter (\<lambda>f. \<not> expired_case cutoff f) (db_findings d1)\<rparr> in
      d2\<lparr>db_runs := filter (\<lambda>r. \<not> (run_created r < cutoff \<and> (\<forall>e \<in> set (db_events d2). eve_run e \<noteq> Some (run_id r)))) (db_runs d2)\<rparr>)"

text \<open>\<open>i.split(":", 1)[1] for i in identities if ":" in i\<close>\<close>

definition cited_ids :: "finding \<Rightarrow> string list" where
  "cited_ids f = concat (map (\<lambda>i. case partition_at (CHR '':'') i of (k, found, v) \<Rightarrow> if found then [v] else []) (fin_identities f))"

definition retained_ids :: "db \<Rightarrow> string set" where
  "retained_ids d = \<Union> (set ` cited_ids ` set (filter (\<lambda>f. fin_state f \<noteq> ''resolved'') (db_findings d)))"

definition expire_facts :: "datetime \<Rightarrow> db \<Rightarrow> db" where
  "expire_facts cutoff d =
     (let d1 = d\<lparr>db_projections := filter (\<lambda>p. \<not> (pro_revision p < cutoff \<and> pro_source p \<notin> retained_ids d)) (db_projections d)\<rparr> in
      d1\<lparr>db_observations := filter (\<lambda>x. \<not> (obs_created x < cutoff \<and> (\<forall>p \<in> set (db_projections d1). pro_observation p \<noteq> obs_id x)))
        (db_observations d1)\<rparr>)"

text \<open>Finished work, then the audit log after 400 days. A mail about an entry protects the entry.\<close>

definition expire_outbox :: "datetime \<Rightarrow> db \<Rightarrow> db" where
  "expire_outbox now d =
     d\<lparr>db_outbox := filter (\<lambda>r. \<not> (out_status r = ''done'' \<and> out_created r < now - days 2)) (db_outbox d)\<rparr>"

definition audit_expired :: "datetime \<Rightarrow> audit_log \<Rightarrow> bool" where
  "audit_expired now a \<longleftrightarrow> aud_created a < now - days 400"

definition expire_audit :: "datetime \<Rightarrow> unit trans" where
  "expire_audit now d =
     rbind (guard (\<forall>a \<in> set (db_audit d). audit_expired now a \<longrightarrow> (\<forall>x \<in> set (db_deliveries d). del_security x \<noteq> Some (aud_id a)))
       (OtherError ''ProtectedError'')) (\<lambda>_.
     Inr ((), d\<lparr>db_audit := filter (\<lambda>a. \<not> audit_expired now a) (db_audit d)\<rparr>))"

text \<open>Expired reports, and the local files that are removed with them.\<close>

definition expire_reports :: "maintenance_env \<Rightarrow> string list trans" where
  "expire_reports me d =
     (let old = filter (\<lambda>r. rep_expires r < mt_now me) (db_reports d) in
      Inr (if mt_report_bucket me = [] then filter (\<lambda>k. k \<noteq> []) (map rep_object old) else [],
        d\<lparr>db_reports := filter (\<lambda>r. \<not> rep_expires r < mt_now me) (db_reports d)\<rparr>))"

definition retain_in_scope :: "maintenance_env \<Rightarrow> uuid \<Rightarrow> string list trans" where
  "retain_in_scope me org =
     tbind (tread (\<lambda>d. get_row ''Organization'' (\<lambda>x. org_id x = org) (db_orgs d))) (\<lambda>found. tbind (tlift found) (\<lambda>x.
     let now = mt_now me; cutoff = now - days (org_retention x) in
     tbind (tmodify (expire_requests now)) (\<lambda>_.
     tbind (tmodify (expire_codes now)) (\<lambda>_.
     tbind (tmodify (expire_cases cutoff)) (\<lambda>_.
     tbind (tmodify (expire_facts cutoff)) (\<lambda>_.
     tbind (tmodify (expire_outbox now)) (\<lambda>_.
     tbind (expire_audit now) (\<lambda>_.
     expire_reports me))))))))"

definition retain :: "maintenance_env \<Rightarrow> uuid \<Rightarrow> world \<Rightarrow> (string list \<times> world) result" where
  "retain me org w =
     rbind (require_maintenance_role me) (\<lambda>_.
     rbind (tenant_scope org None (\<lambda>_. retain_in_scope me org) no_context w) (\<lambda>(files, c, w'). Inr (files, w')))"

end
