(* ===== verification/Operations.thy ===== *)
theory Operations imports Maintenance Worker begin

text \<open>
  The commands of operators (\<open>modules/accounts/management/commands\<close>): the maintenance pass, the replay
  of erasures into a restored database with its reader of receipts
  (\<open>modules/accounts/erasure_receipts.py\<close>), the replay of exhausted work, the schedule and the worker.
  Loops that wait for a signal are left out: a pass of theirs is modelled.
\<close>

definition command_error :: exn where "command_error = OtherError ''CommandError''"

section \<open>Receipts of erasure\<close>

text \<open>
  The offset of \<open>datetime.fromisoformat\<close>: none, \<open>Z\<close>, or hours, minutes and seconds with or without
  colons, below a day in all.
\<close>

definition offset_parts :: "string list \<Rightarrow> int option" where
  "offset_parts parts =
     (if list_all (\<lambda>p. length p = 2 \<and> list_all is_digit p) parts \<and> parts \<noteq> [] \<and> length parts \<le> 3
      then (let n = foldl (\<lambda>a p. 60 * a + read_digits p) 0 (parts @ replicate (3 - length parts) ''00'') in
        if n < 86400 then Some (seconds n) else None)
      else None)"

fun pairs_of :: "string \<Rightarrow> string list" where
  "pairs_of (a # b # s) = [a, b] # pairs_of s"
| "pairs_of [] = []"
| "pairs_of [a] = [[a]]"

definition read_offset :: "string \<Rightarrow> int option" where
  "read_offset s =
     (if s = ''Z'' then Some 0
      else case s of
          [] \<Rightarrow> None
        | sign # rest \<Rightarrow>
            (let parts = (if CHR '':'' \<in> set rest then split_at (CHR '':'') rest else pairs_of rest) in
             map_option (\<lambda>n. if sign = CHR ''-'' then - n else n) (offset_parts parts)))"

text \<open>A time with an offset, as UTC; a text without one is refused by the caller.\<close>

definition aware_time :: "string \<Rightarrow> datetime option" where
  "aware_time s =
     (let time = takeWhile (\<lambda>c. c \<noteq> CHR ''+'' \<and> c \<noteq> CHR ''-'' \<and> c \<noteq> CHR ''Z'') (drop 11 s);
          zone = dropWhile (\<lambda>c. c \<noteq> CHR ''+'' \<and> c \<noteq> CHR ''-'' \<and> c \<noteq> CHR ''Z'') (drop 11 s) in
      if length s < 11 then None
      else case (read_date (take 10 s), read_time time, read_offset zone) of
        (Some day, Some t, Some off) \<Rightarrow> Some (days day + t - off) | _ \<Rightarrow> None)"

definition is_digest :: "string \<Rightarrow> bool" where
  "is_digest s \<longleftrightarrow> length s = 64 \<and> list_all (\<lambda>c. c \<in> set ''abcdef0123456789'') s"

definition parse_receipt :: "string \<Rightarrow> string \<Rightarrow> erasure_receipt result" where
  "parse_receipt key raw =
     (let invalid = ValueError ''Invalid external erasure receipt'' in
      if 4096 < length raw then Inl invalid
      else case loads raw of
          Inr (JObj value) \<Rightarrow>
            if fst ` set value \<noteq> {''organization_id'', ''erased_at'', ''digest''} then Inl invalid
            else (case (dict_get value ''organization_id'', dict_get value ''erased_at'', dict_get value ''digest'') of
                (Some (JStr i), Some (JStr t), Some (JStr dg)) \<Rightarrow>
                  (case (uuid_of i, aware_time t) of
                     (Inr org, Some at) \<Rightarrow>
                       if key = ''erasures/'' @ uuid_str org @ ''.json'' \<and> is_digest dg
                       then Inr \<lparr>er_org = org, er_at = at, er_digest = dg\<rparr> else Inl invalid
                   | _ \<Rightarrow> Inl invalid)
              | _ \<Rightarrow> Inl invalid)
        | _ \<Rightarrow> Inl invalid)"

section \<open>The replay of erasures\<close>

record replay_options =
  ro_dry_run :: bool
  ro_confirmed :: bool
  ro_host :: string
  ro_name :: string

record replay_env =
  rp_maintenance :: maintenance_env
  rp_host :: string
  rp_name :: string
  rp_objects :: "(string \<times> string) list"

definition organization_exists :: "uuid \<Rightarrow> db \<Rightarrow> bool" where
  "organization_exists org d \<longleftrightarrow> (\<exists>x \<in> set (db_orgs d). org_id x = org)"

text \<open>A restored organization is marked for deletion again, and its connectors and keys are revoked.\<close>

definition close_restored :: "datetime \<Rightarrow> uuid \<Rightarrow> db \<Rightarrow> db" where
  "close_restored now org d =
     d\<lparr>db_orgs := update_where (\<lambda>x. org_id x = org) (\<lambda>x. x\<lparr>org_active := False, org_alerts := False, org_deleted := Some now\<rparr>) (db_orgs d),
       db_installations := map (\<lambda>i. i\<lparr>ins_status := ''disconnected'', ins_credential := JObj [], ins_webhook := JObj []\<rparr>)
         (db_installations d),
       db_keys := map (\<lambda>k. k\<lparr>key_revoked := Some now\<rparr>) (db_keys d)\<rparr>"

definition mark_restored :: "datetime \<Rightarrow> bool \<Rightarrow> uuid \<Rightarrow> bool trans" where
  "mark_restored now dry org d =
     (let exists = organization_exists org d in
      Inr (exists, if exists \<and> \<not> dry then close_restored now org d else d))"

text \<open>One object of the ledger: whether its organization was in the restored database. At most 4097
  bytes of the object are read.\<close>

definition replay_object :: "maintenance_env \<Rightarrow> bool \<Rightarrow> string \<Rightarrow> string \<Rightarrow> world \<Rightarrow> (bool \<times> world) result" where
  "replay_object me dry key body w =
     (case parse_receipt key (take 4097 body) of
        Inl e \<Rightarrow> Inl command_error
      | Inr r \<Rightarrow>
          rbind (tenant_scope (er_org r) None (\<lambda>_. mark_restored (mt_now me) dry (er_org r)) no_context w) (\<lambda>(exists, c, w1).
          if exists \<and> \<not> dry then rbind (erase_tenant me (er_org r) (Some r) w1) (\<lambda>(receipt, w2). Inr (True, w2))
          else Inr (exists, w1)))"

fun replay_objects :: "maintenance_env \<Rightarrow> bool \<Rightarrow> (string \<times> string) list \<Rightarrow> world \<Rightarrow> (nat \<times> world) result" where
  "replay_objects me dry [] w = Inr (0, w)"
| "replay_objects me dry ((key, body) # objects) w =
     rbind (replay_object me dry key body w) (\<lambda>(found, w1).
     rbind (replay_objects me dry objects w1) (\<lambda>(n, w2). Inr (if found then n + 1 else n, w2)))"

definition replay_erasures :: "replay_env \<Rightarrow> replay_options \<Rightarrow> world \<Rightarrow> (nat \<times> world) result" where
  "replay_erasures rp ro w =
     rbind (require_maintenance_role (rp_maintenance rp)) (\<lambda>_.
     rbind (guard (ro_host ro = rp_host rp \<and> ro_name ro = rp_name rp) command_error) (\<lambda>_.
     rbind (guard (ro_dry_run ro \<or> ro_confirmed ro) command_error) (\<lambda>_.
     rbind (guard (mt_ledger_bucket (rp_maintenance rp) \<noteq> []) command_error) (\<lambda>_.
     replay_objects (rp_maintenance rp) (ro_dry_run ro) (rp_objects rp) w))))"

section \<open>The maintenance pass\<close>

definition deletion_pending :: "uuid \<Rightarrow> bool trans" where
  "deletion_pending org = tread (\<lambda>d. \<exists>x \<in> set (db_orgs d). org_id x = org \<and> \<not> org_active x \<and> org_deleted x \<noteq> None)"

definition maintain_one :: "maintenance_env \<Rightarrow> uuid \<Rightarrow> world \<Rightarrow> (string list \<times> world) result" where
  "maintain_one me org w =
     rbind (tenant_scope org None (\<lambda>_. deletion_pending org) no_context w) (\<lambda>(pending, c, w1).
     if pending then rbind (erase_tenant me org None w1) (\<lambda>(receipt, w2). Inr ([''Deletion receipt: '' @ receipt], w2))
     else rbind (retain me org w1) (\<lambda>(files, w2). Inr ([], w2)))"

fun maintain_all :: "maintenance_env \<Rightarrow> uuid list \<Rightarrow> world \<Rightarrow> (string list \<times> world) result" where
  "maintain_all me [] w = Inr ([], w)"
| "maintain_all me (org # orgs) w =
     rbind (maintain_one me org w) (\<lambda>(out, w1). rbind (maintain_all me orgs w1) (\<lambda>(outs, w2). Inr (out @ outs, w2)))"

definition run_once :: "maintenance_env \<Rightarrow> world \<Rightarrow> (string list \<times> world) result" where
  "run_once me w = maintain_all me (active_orgs w) w"

definition maintain_command :: "maintenance_env \<Rightarrow> world \<Rightarrow> (string list \<times> world) result" where
  "maintain_command me w = rbind (require_maintenance_role me) (\<lambda>_. run_once me w)"

section \<open>The replay of exhausted work\<close>

definition replayed_row :: "datetime \<Rightarrow> outbox \<Rightarrow> outbox" where
  "replayed_row now r = r\<lparr>out_status := ''pending'', out_attempts := 0, out_available := now, out_lease := None\<rparr>"

definition replay_row :: "datetime \<Rightarrow> uuid \<Rightarrow> string \<Rightarrow> unit trans" where
  "replay_row now i reason d =
     (case find (\<lambda>r. out_id r = i \<and> out_status r = ''dead'') (db_outbox d) of
        None \<Rightarrow> Inl command_error
      | Some r \<Rightarrow> ignore (audit now (out_org r) ''operator'' ''work.replayed'' (uuid_str (out_id r)) [(''reason'', JStr reason)] [])
          (save_outbox (replayed_row now r) d))"

definition replay_work :: "(string \<times> bool \<times> bool) \<Rightarrow> datetime \<Rightarrow> uuid \<Rightarrow> uuid \<Rightarrow> string \<Rightarrow> world \<Rightarrow> world result" where
  "replay_work identity now org i reason w =
     rbind (require_database_role identity ''ledgerguard_app'') (\<lambda>_.
     rbind (guard (10 \<le> length reason \<and> length reason \<le> 500) command_error) (\<lambda>_.
     rbind (tenant_scope org None (\<lambda>_. replay_row now i reason) no_context w) (\<lambda>(u, c, w'). Inr w')))"

section \<open>The schedule and the worker\<close>

definition schedule_command :: "(string \<times> bool \<times> bool) \<Rightarrow> datetime \<Rightarrow> world \<Rightarrow> world result" where
  "schedule_command identity now w = rbind (require_database_role identity ''ledgerguard_app'') (\<lambda>_. schedule now w)"

text \<open>The options of the worker; without one it serves a queue until it is stopped.\<close>

datatype worker_mode = Dispatch queue_env | Once "outbox \<Rightarrow> string"

definition worker_command :: "(string \<times> bool \<times> bool) \<Rightarrow> worker_env \<Rightarrow> worker_mode \<Rightarrow> world \<Rightarrow> (int \<times> world) result" where
  "worker_command identity we mode w =
     rbind (require_database_role identity ''ledgerguard_app'') (\<lambda>_.
     case mode of Dispatch qe \<Rightarrow> dispatch qe (we_now we) w | Once trace \<Rightarrow> local_once we trace w)"

end
