(* ===== verification/Acceptance.thy ===== *)
theory Acceptance imports Stripe_Sync Operations begin

text \<open>
  \<open>modules/connectors/acceptance.py\<close> and the command \<open>check_stripe_readiness\<close>: ten bounded reads of a test
  account through the authorization of its installation, with an optional rotation of the tokens. A
  failure that is permanent suspends the connector; the tables are committed before the command
  reports a failure of the reads.
\<close>

section \<open>The samples\<close>

definition PROBED :: "(string \<times> string \<times> string) list" where
  "PROBED = [(''payment_intent'', ''payment_intents'', ''pi_''), (''charge'', ''charges'', ''ch_''),
     (''refund'', ''refunds'', ''re_''), (''event'', ''events'', ''evt_''),
     (''checkout.session'', ''checkout/sessions'', ''cs_test_'')]"

definition valid_sample :: "string \<Rightarrow> string \<Rightarrow> bool" where
  "valid_sample prefix s \<longleftrightarrow> startswith s prefix \<and>
     (let rest = drop (length prefix) s in rest \<noteq> [] \<and> length rest \<le> 200 \<and> list_all is_word_char rest)"

definition validate_samples :: "(string \<times> string) list \<Rightarrow> unit result" where
  "validate_samples samples =
     guard (fst ` set samples = fst ` set PROBED \<and>
        list_all (\<lambda>(kind, path, prefix). case map_of samples kind of None \<Rightarrow> False | Some s \<Rightarrow> valid_sample prefix s) PROBED)
       (ValueError ''Five exact synthetic test-resource IDs are required'')"

section \<open>The reads\<close>

definition test_mode :: "dict \<Rightarrow> bool" where
  "test_mode value \<longleftrightarrow> dict_get value ''livemode'' = Some (JBool False)"

text \<open>The rows of a listing; nothing when it is no list of the provider.\<close>

definition probed_rows :: "dict \<Rightarrow> json list option" where
  "probed_rows page =
     (case (dict_get page ''object'', dict_get page ''data'', dict_get page ''has_more'') of
        (Some (JStr k), Some (JList rows), Some (JBool again)) \<Rightarrow> if k = ''list'' then Some rows else None
      | _ \<Rightarrow> None)"

definition check_listing :: "dict \<Rightarrow> unit result" where
  "check_listing page =
     (case probed_rows page of
        None \<Rightarrow> Inl (ConnectorFailure ''STRIPE_ACCEPTANCE_LIST_INVALID'' False 0)
      | Some rows \<Rightarrow> guard (list_all (\<lambda>v. case v of JObj row \<Rightarrow> test_mode row | _ \<Rightarrow> False) rows)
          (ConnectorFailure ''STRIPE_MODE_CONFLICT'' True 0))"

definition check_resource :: "string \<Rightarrow> string \<Rightarrow> string \<Rightarrow> dict \<Rightarrow> unit result" where
  "check_resource account kind sample value =
     rbind (guard (dict_get value ''object'' = Some (JStr kind) \<and> dict_get value ''id'' = Some (JStr sample))
       (ConnectorFailure ''STRIPE_IDENTITY_CONFLICT'' True 0)) (\<lambda>_.
     rbind (guard (test_mode value) (ConnectorFailure ''STRIPE_MODE_CONFLICT'' True 0)) (\<lambda>_.
     guard (kind = ''event'' \<longrightarrow> dict_get_or value ''account'' (JStr account) = JStr account)
       (ConnectorFailure ''STRIPE_ACCOUNT_CONFLICT'' True 0)))"

definition sample_of :: "(string \<times> string) list \<Rightarrow> string \<Rightarrow> string" where
  "sample_of samples kind = (case map_of samples kind of None \<Rightarrow> [] | Some s \<Rightarrow> s)"

definition probe_kind :: "stripe_env \<Rightarrow> string \<Rightarrow> (string \<times> string) list \<Rightarrow> string \<times> string \<times> string \<Rightarrow> unit act" where
  "probe_kind en token samples entry =
     (case entry of (kind, path, prefix) \<Rightarrow>
      abind (reader_get en token (''/v1/'' @ path) [(''limit'', JInt 1)]) (\<lambda>page.
      abind (alift (check_listing page)) (\<lambda>_.
      abind (reader_get en token (''/v1/'' @ path @ ''/'' @ sample_of samples kind) []) (\<lambda>value.
      abind (aget ss_con) (\<lambda>con.
      alift (check_resource (ins_account con) kind (sample_of samples kind) value))))))"

definition probe :: "stripe_env \<Rightarrow> string \<Rightarrow> (string \<times> string) list \<Rightarrow> string list act" where
  "probe en token samples =
     abind (alift (validate_samples samples)) (\<lambda>_.
     abind (aget ss_con) (\<lambda>con.
     abind (aguard (ins_mode con = ''test'') (ValueError ''Provider acceptance reads are restricted to test mode'')) (\<lambda>_.
     abind (afor (probe_kind en token samples) PROBED) (\<lambda>_. areturn (map fst PROBED)))))"

section \<open>The command\<close>

text \<open>The rotation runs in a savepoint; what is no failure of the connector counts as uncertain.\<close>

definition refresh_step :: "stripe_env \<Rightarrow> unit act" where
  "refresh_step en st =
     (case refresh_access_token en st of
        (Inr token, st') \<Rightarrow> (Inr (), st')
      | (Inl e, st') \<Rightarrow> (Inl (case e of ConnectorFailure code permanent retry \<Rightarrow> e
            | _ \<Rightarrow> ConnectorFailure ''OAUTH_PERSISTENCE_UNCERTAIN'' True 0), st'\<lparr>ss_db := ss_db st\<rparr>))"

definition suspend_probed :: "uuid \<Rightarrow> string \<Rightarrow> datetime \<Rightarrow> db \<Rightarrow> db" where
  "suspend_probed con error now d =
     (let d1 = mark_incomplete (\<lambda>c. cur_connector c = con) (d\<lparr>db_installations := update_where (\<lambda>i. ins_id i = con)
            (\<lambda>i. i\<lparr>ins_status := ''suspended'', ins_error := error, ins_credential := JObj []\<rparr>) (db_installations d)\<rparr>) in
      d1\<lparr>db_scans := update_where (\<lambda>x. sca_connector x = con \<and> sca_status x = ''pending'')
        (\<lambda>x. x\<lparr>sca_status := ''failed'', sca_updated := now\<rparr>) (db_scans d1)\<rparr>)"

record reads =
  rd_checked :: "string list"
  rd_rotated :: bool
  rd_error :: string

definition settle_reads :: "stripe_env \<Rightarrow> exn \<Rightarrow> bool \<Rightarrow> reads act" where
  "settle_reads en e rotated =
     (case e of
        ConnectorFailure code permanent retry \<Rightarrow>
          (if permanent
           then abind (anow en) (\<lambda>now. abind (aget ss_con) (\<lambda>con.
             abind (amodify (\<lambda>st. st\<lparr>ss_db := suspend_probed (ins_id con) code now (ss_db st)\<rparr>))
               (\<lambda>_. areturn \<lparr>rd_checked = [], rd_rotated = rotated, rd_error = code\<rparr>)))
           else areturn \<lparr>rd_checked = [], rd_rotated = rotated, rd_error = code\<rparr>)
      | _ \<Rightarrow> araise e)"

definition attempt_reads :: "stripe_env \<Rightarrow> (string \<times> string) list \<Rightarrow> reads act" where
  "attempt_reads en samples st =
     (case refresh_step en st of
        (Inl e, st1) \<Rightarrow> settle_reads en e False st1
      | (Inr u, st1) \<Rightarrow>
          (let rotated = (ins_lock (ss_con st1) \<noteq> ins_lock (ss_con st)) in
           case abind (access_token en) (\<lambda>token. probe en token samples) st1 of
             (Inl e, st2) \<Rightarrow> settle_reads en e rotated st2
           | (Inr checked, st2) \<Rightarrow> (Inr \<lparr>rd_checked = checked, rd_rotated = rotated, rd_error = []\<rparr>, st2)))"

record readiness_options =
  rn_organization :: uuid
  rn_installation :: uuid
  rn_account :: string
  rn_rotate :: bool
  rn_samples :: "(string \<times> string) list"

record readiness_env =
  ry_environment :: string
  ry_api_version :: string
  ry_stripe :: stripe_env

definition test_account :: "string \<Rightarrow> bool" where
  "test_account s \<longleftrightarrow> startswith s ''acct_'' \<and> drop 5 s \<noteq> [] \<and> list_all is_alnum (drop 5 s)"

definition check_options :: "readiness_env \<Rightarrow> readiness_options \<Rightarrow> unit result" where
  "check_options ry ro =
     rbind (guard (ry_environment ry \<in> {''development'', ''dev'', ''staging''}) command_error) (\<lambda>_.
     rbind (guard (test_account (rn_account ro)) command_error) (\<lambda>_.
     case validate_samples (rn_samples ro) of Inl e \<Rightarrow> Inl command_error | Inr u \<Rightarrow> Inr ()))"

definition probed_connector :: "readiness_options \<Rightarrow> db \<Rightarrow> installation option" where
  "probed_connector ro d = find (\<lambda>i. ins_id i = rn_installation ro \<and> ins_kind i = ''stripe'' \<and> ins_mode i = ''test'' \<and>
     ins_status i = ''active'' \<and> ins_account i = rn_account ro) (db_installations d)"

text \<open>With \<open>--rotate-token\<close> the token of the row in memory counts as expired.\<close>

definition expire_token :: "stripe_env \<Rightarrow> bool \<Rightarrow> unit act" where
  "expire_token en renew =
     (if renew then abind (anow en) (\<lambda>now. amodify (\<lambda>st. st\<lparr>ss_con := (ss_con st)\<lparr>ins_token_expires := Some now\<rparr>\<rparr>))
      else areturn ())"

definition scoped_reads :: "readiness_env \<Rightarrow> readiness_options \<Rightarrow> reads trans" where
  "scoped_reads ry ro d =
     rbind (guard (\<exists>x \<in> set (db_orgs d). org_id x = rn_organization ro \<and> org_active x) command_error) (\<lambda>_.
     case probed_connector ro d of
       None \<Rightarrow> Inl command_error
     | Some con \<Rightarrow> run_act con (abind (expire_token (ry_stripe ry) (rn_rotate ro))
         (\<lambda>_. attempt_reads (ry_stripe ry) (rn_samples ro))) d)"

definition UNVERIFIED :: "string list" where
  "UNVERIFIED = [''installed_permission_grant'', ''oauth_browser_consent'', ''webhook_rotation_recovery'',
     ''overlap_backfill_parity'', ''managed_sandbox_support'']"

definition reads_report :: "readiness_env \<Rightarrow> datetime \<Rightarrow> reads \<Rightarrow> dict" where
  "reads_report ry now rd =
     [(''schema_version'', JInt 1), (''kind'', JStr ''stripe-test-resource-reads''), (''checked_at'', JStr (isoformat now)),
      (''environment'', JStr (ry_environment ry)), (''api_version'', JStr (ry_api_version ry)),
      (''checked_resources'', strs_json (rd_checked rd)), (''tokens_rotated'', JBool (rd_rotated rd)),
      (''passed'', JBool (rd_error rd = [])), (''error_code'', JStr (rd_error rd)), (''production_accepted'', JBool False),
      (''unverified'', strs_json UNVERIFIED)]"

text \<open>The report that is written, the end of the command and the tables that were committed; the time of the report is read after the
  transaction.\<close>

definition check_stripe_readiness :: "readiness_env \<Rightarrow> readiness_options \<Rightarrow> datetime \<Rightarrow> world \<Rightarrow> (dict \<times> unit result \<times> world) result" where
  "check_stripe_readiness ry ro finished w =
     rbind (check_options ry ro) (\<lambda>_.
     rbind (tenant_scope (rn_organization ro) None (\<lambda>_. scoped_reads ry ro) no_context w) (\<lambda>(rd, c, w').
     Inr (reads_report ry finished rd, guard (rd_error rd = []) command_error, w')))"

section \<open>Ten reads\<close>

text \<open>A completed probe made its ten requests, each kind of resource once as a list and once by its identity.\<close>

definition probe_calls :: "(string \<times> string) list \<Rightarrow> string \<times> string \<times> string \<Rightarrow> (string \<times> dict) list" where
  "probe_calls samples entry = (case entry of (kind, path, prefix) \<Rightarrow>
     [(''/v1/'' @ path, [(''limit'', JInt 1)]), (''/v1/'' @ path @ ''/'' @ sample_of samples kind, [])])"

lemma reader_get_calls: "reader_get en token path params st = (Inr v, st') \<Longrightarrow> ss_calls st' = ss_calls st @ [(path, params)]"
  by (auto simp: reader_get_def anow_def set_next_api_def Let_def aget_def amodify_def)

lemma probe_kind_calls:
  "probe_kind en token samples entry st = (Inr u, st') \<Longrightarrow> ss_calls st' = ss_calls st @ probe_calls samples entry"
  by (cases entry) (auto simp: probe_kind_def probe_calls_def aget_def dest!: reader_get_calls)

lemma probe_kinds_calls:
  "afor (probe_kind en token samples) entries st = (Inr u, st') \<Longrightarrow>
     ss_calls st' = ss_calls st @ concat (map (probe_calls samples) entries)"
  by (induction entries arbitrary: st) (auto dest!: probe_kind_calls)

theorem probe_reads_ten_times:
  assumes "probe en token samples st = (Inr kinds, st')"
  shows "kinds = map fst PROBED" and "ss_calls st' = ss_calls st @ concat (map (probe_calls samples) PROBED)"
    and "ins_mode (ss_con st) = ''test''"
  using assms by (auto simp: probe_def aget_def dest!: probe_kinds_calls)

text \<open>
  A failed read is meant to keep the rotation. When the key service fails as the reader opens the new
  tokens, the exception is none of the connector's: it ends the transaction, and the tokens that the
  provider has already replaced are lost.
\<close>

lemma unopened_tokens_are_lost:
  assumes "refresh_step en st = (Inr (), st1)" and "access_token en st1 = (Inl e, st2)"
    and "\<And>code permanent retry. e \<noteq> ConnectorFailure code permanent retry"
  shows "attempt_reads en samples st = (Inl e, st2)"
  using assms by (auto simp: attempt_reads_def abind_def settle_reads_def Let_def araise_def split: exn.splits)

end
