(* ===== verification/Dashboard.thy ===== *)
theory Dashboard imports Api_Members begin

text \<open>
  \<open>apps/control_plane/dashboard.py\<close> and the filter of \<open>modules/findings/templatetags/money.py\<close>: the pages
  that users see. A page is its context, the rows and values that its template is given; the template
  engine is a parameter that may read the tables while it renders. Queries without an order keep the order of the table;
  the creation time of an event or a report is its place in its table, as elsewhere.
\<close>

section \<open>Contexts\<close>

record overview_context =
  oc_organization :: organization
  oc_stores :: "(store \<times> nat) list"
  oc_findings :: "finding list"
  oc_open :: nat
  oc_acknowledged :: nat
  oc_suppressed :: nat
  oc_members :: "(membership \<times> user) list"
  oc_routes :: "alert_route list"
  oc_reports :: "report list"

record finding_page =
  fp_number :: nat
  fp_pages :: nat
  fp_rows :: "finding list"

record store_context =
  sc_store :: store
  sc_public_url :: string
  sc_page :: finding_page
  sc_state :: string
  sc_rules :: "string list"
  sc_link :: "link option"
  sc_connectors :: "installation list"
  sc_coverage :: "cursor list"
  sc_scans :: "scan list"
  sc_runs :: "run_row list"

text \<open>The amount of a row is absent where the page shows a dash.\<close>

record comparison_row =
  cr_source :: string
  cr_identity :: json
  cr_status :: string
  cr_amount :: "string option"
  cr_changed :: json

record coverage_row =
  cw_members :: dict
  cw_label :: string
  cw_through :: "datetime option"
  cw_observed :: "datetime option"

record finding_context =
  fc_finding :: finding
  fc_title :: string
  fc_playbook :: string
  fc_comparison :: "comparison_row list"
  fc_coverage :: "coverage_row list"
  fc_events :: "finding_event list"
  fc_deliveries :: "email_delivery list"

record settings_context =
  gc_organization :: organization
  gc_members :: "(membership \<times> user) list"
  gc_stores :: "store list"
  gc_emails :: "string set"
  gc_grants :: "(support_grant \<times> user) list"
  gc_audit :: "audit_log list"

datatype page_context =
    OverviewPage overview_context
  | StorePage store_context
  | FindingPage finding_context
  | ReportPage report
  | SettingsPage settings_context

text \<open>
  \<open>dv_int\<close> is \<open>int\<close> of a text, \<open>dv_datetime\<close> the framework's \<open>parse_datetime\<close> (nothing for a text
  that is not a time), \<open>dv_render\<close> the template engine.
\<close>

record dashboard_env =
  dv_now :: datetime
  dv_public_url :: string
  dv_int :: "string \<Rightarrow> int option"
  dv_datetime :: "string \<Rightarrow> datetime option result"
  dv_render :: "page_context \<Rightarrow> db \<Rightarrow> string result"

section \<open>Queries\<close>

definition with_user :: "('r \<Rightarrow> int) \<Rightarrow> db \<Rightarrow> 'r list \<Rightarrow> ('r \<times> user) list" where
  "with_user f d rows = List.map_filter (\<lambda>r. map_option (Pair r) (row_by usr_id (f r) (db_users d))) rows"

definition UNRESOLVED :: "string list" where "UNRESOLVED = [''open'', ''reopened'', ''acknowledged'']"

definition overview_context_of :: "uuid \<Rightarrow> db \<Rightarrow> overview_context result" where
  "overview_context_of org d =
     rbind (get_row ''Organization'' (\<lambda>x. org_id x = org) (db_orgs d)) (\<lambda>x.
     Inr \<lparr>oc_organization = x,
       oc_stores = map (\<lambda>s. (s, length (filter (\<lambda>f. fin_store f = sto_id s) (db_findings d)))) (filter sto_active (db_stores d)),
       oc_findings = take 25 (sort_key fin_severity (sort_key fin_first_seen
         (filter (\<lambda>f. fin_state f \<in> set UNRESOLVED) (db_findings d)))),
       oc_open = length (filter (\<lambda>f. fin_state f \<in> {''open'', ''reopened''}) (db_findings d)),
       oc_acknowledged = length (filter (\<lambda>f. fin_state f = ''acknowledged'') (db_findings d)),
       oc_suppressed = length (filter (\<lambda>f. fin_state f = ''suppressed'') (db_findings d)),
       oc_members = with_user mem_user d (db_members d), oc_routes = db_routes d,
       oc_reports = take 10 (rev (db_reports d))\<rparr>)"

text \<open>
  \<open>Paginator.get_page\<close>: the first page for what is no number, the last one for a number out of range;
  an empty list has one page.
\<close>

definition page_total :: "nat \<Rightarrow> nat \<Rightarrow> nat" where
  "page_total per n = max 1 ((n + per - 1) div per)"

definition page_number :: "(string \<Rightarrow> int option) \<Rightarrow> string option \<Rightarrow> nat \<Rightarrow> nat" where
  "page_number read asked count' =
     (case asked of
        None \<Rightarrow> 1
      | Some s \<Rightarrow> (case read s of None \<Rightarrow> 1 | Some n \<Rightarrow> if 1 \<le> n \<and> n \<le> int count' then nat n else count'))"

definition get_page :: "(string \<Rightarrow> int option) \<Rightarrow> nat \<Rightarrow> string option \<Rightarrow> finding list \<Rightarrow> finding_page" where
  "get_page read per asked rows =
     (let count' = page_total per (length rows); n = page_number read asked count' in
      \<lparr>fp_number = n, fp_pages = count', fp_rows = take per (drop ((n - 1) * per) rows)\<rparr>)"

definition STATE_FILTERS :: "string list" where
  "STATE_FILTERS = [''open'', ''reopened'', ''acknowledged'', ''suppressed'', ''resolved'']"

text \<open>The findings of a store that its page goes through, the latest first.\<close>

definition shown_findings :: "uuid \<Rightarrow> string \<Rightarrow> db \<Rightarrow> finding list" where
  "shown_findings store_id state d =
     sort_key (\<lambda>f. - fin_last_seen f) (sort_key fin_id (filter (\<lambda>f. fin_store f = store_id \<and> fin_state f \<noteq> ''provisional'' \<and>
       (state \<in> set STATE_FILTERS \<longrightarrow> fin_state f = state)) (db_findings d)))"

text \<open>\<open>first\<close> of a query without an order takes the least key.\<close>

definition first_link :: "uuid \<Rightarrow> db \<Rightarrow> link option" where
  "first_link store_id d =
     (case sort_key lnk_id (filter (\<lambda>l. lnk_store l = store_id) (db_links d)) of [] \<Rightarrow> None | l # ls \<Rightarrow> Some l)"

definition store_connectors :: "uuid \<Rightarrow> db \<Rightarrow> installation list" where
  "store_connectors store_id d =
     filter (\<lambda>i. ins_store i = Some store_id \<and> ins_kind i = ''woo'') (db_installations d) @
     (case first_link store_id d of None \<Rightarrow> []
      | Some l \<Rightarrow> (case row_by ins_id (lnk_stripe l) (db_installations d) of None \<Rightarrow> [] | Some i \<Rightarrow> [i]))"

definition RULE_NAMES :: "string list" where
  "RULE_NAMES = map (\<lambda>n. ''PI-'' @ pad0 3 n) [1..<11]"

definition store_context_of :: "dashboard_env \<Rightarrow> (string \<times> string) list \<Rightarrow> uuid \<Rightarrow> db \<Rightarrow> store_context result" where
  "store_context_of de query store_id d =
     rbind (get_or_404 (\<lambda>s. sto_id s = store_id) (db_stores d)) (\<lambda>s.
     let connectors = store_connectors store_id d;
         keys = map ins_id connectors;
         state = (case map_of query ''state'' of None \<Rightarrow> [] | Some t \<Rightarrow> t) in
     Inr \<lparr>sc_store = s, sc_public_url = dv_public_url de,
       sc_page = get_page (dv_int de) 50 (map_of query ''page'') (shown_findings store_id state d),
       sc_state = state, sc_rules = RULE_NAMES, sc_link = first_link store_id d, sc_connectors = connectors,
       sc_coverage = filter (\<lambda>c. cur_connector c \<in> set keys) (db_cursors d),
       sc_scans = filter (\<lambda>x. sca_connector x \<in> set keys \<and> sca_status x = ''pending'') (db_scans d),
       sc_runs = take 5 (sort_key (\<lambda>r. - run_created r) (rev (filter (\<lambda>r. run_store r = store_id) (db_runs d))))\<rparr>)"

section \<open>The comparison of a finding\<close>

text \<open>\<open>str.replace\<close> of a member that is no text fails.\<close>

definition spaced :: "dict \<Rightarrow> string \<Rightarrow> string result" where
  "spaced kvs k = rbind (dict_at kvs k) (\<lambda>v. case v of
      JStr s \<Rightarrow> Inr (replace_char (CHR ''_'') (CHR '' '') s) | _ \<Rightarrow> Inl (OtherError ''AttributeError''))"

text \<open>\<open>Money(**amount)\<close> needs exactly its three members.\<close>

definition money_of_members :: "dict \<Rightarrow> money result" where
  "money_of_members kvs =
     rbind (guard (fst ` set kvs = {''minor'', ''currency'', ''exponent''}) (TypeError ''unexpected or missing argument'')) (\<lambda>_.
     case (dict_get kvs ''minor'', dict_get kvs ''currency'', dict_get kvs ''exponent'') of
       (Some (JInt n), Some (JStr c), Some (JInt e)) \<Rightarrow> mk_money n c e
     | (Some (JInt n), _, _) \<Rightarrow> Inl (ValueError ''Unsupported currency or exponent'')
     | _ \<Rightarrow> Inl (ValueError ''Amount must be a nonnegative int64''))"

definition amount_text :: "json \<Rightarrow> string option result" where
  "amount_text v =
     (if \<not> truthy v then Inr None
      else rbind (dict_of_json v) (\<lambda>kvs. rbind (dict_at kvs ''currency'') (\<lambda>_.
        rbind (money_of_members kvs) (\<lambda>m. Inr (Some (currency m @ '' '' @ decimal m))))))"

definition comparison_of :: "string \<times> json \<Rightarrow> comparison_row result" where
  "comparison_of entry =
     (case entry of (source, v) \<Rightarrow>
      rbind (attr_dict v) (\<lambda>fact.
      let amount = dict_get_or fact (if source = ''Stripe payment'' then ''received'' else ''amount'') JNull in
      rbind (dict_at fact ''id'') (\<lambda>identity.
      rbind (spaced fact ''status'') (\<lambda>status.
      rbind (amount_text amount) (\<lambda>text.
      Inr \<lparr>cr_source = source, cr_identity = identity, cr_status = status, cr_amount = text,
        cr_changed = dict_get_or fact ''changed_at'' (JStr [])\<rparr>)))))"

text \<open>What a loop over a value goes through.\<close>

definition iterated :: "json \<Rightarrow> json list result" where
  "iterated v = (case v of JList xs \<Rightarrow> Inr xs | JObj kvs \<Rightarrow> Inr (map (JStr \<circ> fst) kvs)
     | JStr s \<Rightarrow> Inr (map (\<lambda>c. JStr [c]) s) | _ \<Rightarrow> Inl (TypeError ''object is not iterable''))"

definition listed :: "dict \<Rightarrow> string \<Rightarrow> string \<Rightarrow> (string \<times> json) list result" where
  "listed evidence k label = rbind (iterated (dict_get_or evidence k (JList []))) (\<lambda>vs. Inr (map (Pair label) vs))"

definition single :: "dict \<Rightarrow> string \<Rightarrow> string \<Rightarrow> (string \<times> json) list" where
  "single evidence k label = (let v = dict_get_or evidence k JNull in if truthy v then [(label, v)] else [])"

definition comparison_sources :: "dict \<Rightarrow> (string \<times> json) list result" where
  "comparison_sources evidence =
     rbind (listed evidence ''payments'' ''Stripe payment'') (\<lambda>payments.
     rbind (listed evidence ''stripe_refunds'' ''Stripe refund'') (\<lambda>stripe.
     rbind (listed evidence ''woo_refunds'' ''Woo refund'') (\<lambda>woo.
     Inr (single evidence ''order'' ''Woo order'' @ payments @ single evidence ''payment'' ''Stripe payment'' @ stripe @ woo))))"

definition comparison_rows :: "dict \<Rightarrow> comparison_row list result" where
  "comparison_rows evidence = rbind (comparison_sources evidence) (map_res comparison_of)"

definition text_member :: "dict \<Rightarrow> string \<Rightarrow> string result" where
  "text_member kvs k = rbind (dict_at kvs k) (\<lambda>v. case v of JStr s \<Rightarrow> Inr s | _ \<Rightarrow> Inl (TypeError ''expected string''))"

definition coverage_row_of :: "dashboard_env \<Rightarrow> json \<Rightarrow> coverage_row result" where
  "coverage_row_of de v =
     rbind (dict_of_json v) (\<lambda>kvs.
     rbind (spaced kvs ''source'') (\<lambda>source.
     rbind (rbind (text_member kvs ''covered_through'') (dv_datetime de)) (\<lambda>through.
     rbind (rbind (text_member kvs ''observed_at'') (dv_datetime de)) (\<lambda>observed.
     Inr \<lparr>cw_members = kvs, cw_label = title_case source, cw_through = through, cw_observed = observed\<rparr>))))"

definition finding_context_of :: "dashboard_env \<Rightarrow> uuid \<Rightarrow> db \<Rightarrow> finding_context result" where
  "finding_context_of de finding_id d =
     rbind (get_or_404 (\<lambda>f. fin_id f = finding_id) (db_findings d)) (\<lambda>f.
     rbind (case map_of PLAYBOOKS (fin_rule f) of None \<Rightarrow> Inl (KeyError (fin_rule f)) | Some p \<Rightarrow> Inr p) (\<lambda>(title, playbook).
     rbind (comparison_rows (fin_evidence f)) (\<lambda>rows.
     rbind (iterated (dict_get_or (fin_evidence f) ''coverage'' (JList []))) (\<lambda>cs.
     rbind (map_res (coverage_row_of de) cs) (\<lambda>coverage.
     let events = filter (\<lambda>e. eve_finding e = finding_id) (db_events d) in
     Inr \<lparr>fc_finding = f, fc_title = title, fc_playbook = playbook, fc_comparison = rows, fc_coverage = coverage,
       fc_events = take 100 (rev events),
       fc_deliveries = filter (\<lambda>m. del_event m \<in> Some ` eve_id ` set events) (db_deliveries d)\<rparr>)))))"

definition settings_context_of :: "uuid \<Rightarrow> db \<Rightarrow> settings_context result" where
  "settings_context_of org d =
     rbind (get_row ''Organization'' (\<lambda>x. org_id x = org) (db_orgs d)) (\<lambda>x.
     Inr \<lparr>gc_organization = x, gc_members = with_user mem_user d (db_members d), gc_stores = filter sto_active (db_stores d),
       gc_emails = rou_email ` set (filter rou_active (db_routes d)),
       gc_grants = take 20 (with_user gra_user d (rev (db_grants d))),
       gc_audit = take 50 (sort_key (\<lambda>x. - aud_created x) (rev (db_audit d)))\<rparr>)"

section \<open>The risk of a finding\<close>

text \<open>\<open>f"{whole:,}"\<close>: digits in groups of three from the right.\<close>

fun grouped :: "string \<Rightarrow> string" where
  "grouped s = (if length s \<le> 3 then s else grouped (take (length s - 3) s) @ '','' @ drop (length s - 3) s)"

declare grouped.simps [simp del]

definition risk_display :: "finding \<Rightarrow> string option" where
  "risk_display f =
     map_option (\<lambda>n. let factor = 10 ^ nat (fin_exponent f); whole = n div factor; rest = n mod factor in
       fin_currency f @ '' '' @ (if whole < 0 then ''-'' else []) @ grouped (show_nat (nat \<bar>whole\<bar>)) @
       (if fin_exponent f \<noteq> 0 then ''.'' @ pad0 (nat (fin_exponent f)) (nat rest) else [])) (fin_risk f)"

section \<open>The pages\<close>

datatype site_page = Overview uuid | StoreDetail uuid | FindingDetail uuid | ReportDetail uuid | OrganizationSettings uuid

fun site_kwargs :: "site_page \<Rightarrow> (string \<times> uuid) list" where
  "site_kwargs (Overview org) = [(''organization_id'', org)]"
| "site_kwargs (StoreDetail s) = [(''store_id'', s)]"
| "site_kwargs (FindingDetail f) = [(''finding_id'', f)]"
| "site_kwargs (ReportDetail r) = [(''report_id'', r)]"
| "site_kwargs (OrganizationSettings org) = [(''organization_id'', org)]"

fun site_context :: "dashboard_env \<Rightarrow> (string \<times> string) list \<Rightarrow> site_page \<Rightarrow> access \<Rightarrow> db \<Rightarrow> page_context result" where
  "site_context de query (Overview org) a d = map_sum id OverviewPage (overview_context_of org d)"
| "site_context de query (StoreDetail s) a d = map_sum id StorePage (store_context_of de query s d)"
| "site_context de query (FindingDetail f) a d = map_sum id FindingPage (finding_context_of de f d)"
| "site_context de query (ReportDetail r) a d = map_sum id ReportPage (get_or_404 (\<lambda>x. rep_id x = r) (db_reports d))"
| "site_context de query (OrganizationSettings org) a d =
     rbind (require_role a [''owner'', ''admin'']) (\<lambda>_. map_sum id SettingsPage (settings_context_of org d))"

definition html_page :: "string \<Rightarrow> response" where
  "html_page text = \<lparr>rs_status = 200, rs_content_type = ''text/html; charset=utf-8'', rs_headers = [], rs_body = JStr text\<rparr>"

definition site_view_of :: "dashboard_env \<Rightarrow> (string \<times> string) list \<Rightarrow> site_page \<Rightarrow> page_view" where
  "site_view_of de query p vc a =
     tbind (tread (site_context de query p a)) (\<lambda>found. tbind (tlift found) (\<lambda>context.
     tbind (tread (dv_render de context)) (\<lambda>text. tbind (tlift text) (\<lambda>html. treturn (html_page html)))))"

definition serve_site :: "dashboard_env \<Rightarrow> (string \<times> string) list \<Rightarrow> site_page \<Rightarrow> view_call \<Rightarrow> world \<Rightarrow> outcome result" where
  "serve_site de query p vc w =
     tenant_view (dv_now de) (site_view_of de query p) (vc\<lparr>vc_kwargs := site_kwargs p\<rparr>) no_context w"

end
