(* ===== verification/Frames.thy ===== *)
theory Frames imports Stripe_Api begin

text \<open>
  What a transaction does to the tables, seen as a relation between the tables before and after it.
  The locale \<open>trans_frame\<close> composes transactions under any reflexive and transitive relation; the
  locale \<open>get_or_create\<close> is the contract of Django's \<open>get_or_create\<close> on a table with a unique key.
\<close>

named_theorems keeps_intros \<open>transactions and operations that keep a relation\<close>

section \<open>Transactions that keep a relation\<close>

locale trans_frame =
  fixes R :: "db \<Rightarrow> db \<Rightarrow> bool"
  assumes R_refl: "R d d"
    and R_trans: "R d1 d2 \<Longrightarrow> R d2 d3 \<Longrightarrow> R d1 d3"
begin

definition keeps :: "'a trans \<Rightarrow> bool" where
  "keeps t \<longleftrightarrow> (\<forall>d x d'. t d = Inr (x, d') \<longrightarrow> R d d')"

lemma keepsI: "(\<And>d x d'. t d = Inr (x, d') \<Longrightarrow> R d d') \<Longrightarrow> keeps t"
  by (auto simp: keeps_def)

lemma keepsD: "keeps t \<Longrightarrow> t d = Inr (x, d') \<Longrightarrow> R d d'"
  by (auto simp: keeps_def)

lemma keeps_simple:
  "keeps (treturn x)" "keeps (traise e)" "keeps (tlift r)" "keeps (tguard ok e)" "keeps (tread g)"
  by (auto simp: keeps_def R_refl)

lemma keeps_modify: "(\<And>d. R d (f d)) \<Longrightarrow> keeps (tmodify f)"
  by (auto simp: keeps_def)

lemma keeps_bind: "keeps m \<Longrightarrow> (\<And>x. keeps (f x)) \<Longrightarrow> keeps (tbind m f)"
  by (rule keepsI) (blast intro: R_trans dest: keepsD)

lemma keeps_for: "(\<And>x. x \<in> set xs \<Longrightarrow> keeps (f x)) \<Longrightarrow> keeps (tfor f xs)"
  by (induction xs) (auto intro: keeps_bind keeps_simple)

text \<open>A run of a loop or a composition from known tables.\<close>

lemma bind_frame:
  assumes "tbind m f d = Inr (x, d')" "keeps m" "\<And>y d1. m d = Inr (y, d1) \<Longrightarrow> keeps (f y)"
  shows "R d d'"
  using assms by (blast intro: R_trans dest: keepsD)

lemma for_frame:
  assumes "tfor f xs d = Inr (u, d')" "\<And>x. x \<in> set xs \<Longrightarrow> keeps (f x)"
  shows "R d d'"
  using keepsD[OF keeps_for] assms by blast

text \<open>Operations whose effects survive an exception.\<close>

definition akeeps :: "'a act \<Rightarrow> bool" where
  "akeeps m \<longleftrightarrow> (\<forall>st r st'. m st = (r, st') \<longrightarrow> R (ss_db st) (ss_db st'))"

lemma akeepsI: "(\<And>st r st'. m st = (r, st') \<Longrightarrow> R (ss_db st) (ss_db st')) \<Longrightarrow> akeeps m"
  by (auto simp: akeeps_def)

lemma akeepsD: "akeeps m \<Longrightarrow> m st = (r, st') \<Longrightarrow> R (ss_db st) (ss_db st')"
  by (auto simp: akeeps_def)

lemma akeeps_simple:
  "akeeps (areturn x)" "akeeps (araise e)" "akeeps (alift r)" "akeeps (aguard ok e)" "akeeps (aget g)" "akeeps (anow en)"
  by (auto simp: akeeps_def alift_def aguard_def aget_def anow_def R_refl)

lemma akeeps_modify: "(\<And>st. R (ss_db st) (ss_db (f st))) \<Longrightarrow> akeeps (amodify f)"
  by (auto simp: akeeps_def amodify_def)

lemma akeeps_trans: "keeps t \<Longrightarrow> akeeps (atrans t)"
  by (auto simp: akeeps_def atrans_def R_refl split: sum.splits dest: keepsD)

lemma akeeps_bind:
  assumes "akeeps m" "\<And>x. akeeps (f x)"
  shows "akeeps (abind m f)"
proof (rule akeepsI)
  fix st r st'
  assume h: "abind m f st = (r, st')"
  obtain r1 s1 where m: "m st = (r1, s1)" by (cases "m st")
  show "R (ss_db st) (ss_db st')"
  proof (cases r1)
    case (Inl e)
    then show ?thesis using h m akeepsD[OF assms(1) m] by (simp add: abind_def)
  next
    case (Inr x)
    then have "f x s1 = (r, st')" using h m by (simp add: abind_def)
    then show ?thesis using akeepsD[OF assms(1) m] akeepsD[OF assms(2)] R_trans by blast
  qed
qed

lemma akeeps_for: "(\<And>x. x \<in> set xs \<Longrightarrow> akeeps (f x)) \<Longrightarrow> akeeps (afor f xs)"
  by (induction xs) (auto simp del: areturn_def intro: akeeps_bind akeeps_simple)

lemmas frame_rules = keeps_bind keeps_simple keeps_for akeeps_bind akeeps_simple akeeps_for akeeps_trans

end

section \<open>Rows that are created once\<close>

text \<open>
  \<open>find\<close> looks a key up, \<open>create\<close> adds a row for a key that is absent, \<open>obtain_row\<close> is what the client
  calls. After it the key is present, a second call changes nothing, and other keys are untouched.
\<close>

locale get_or_create =
  fixes lookup :: "'k \<Rightarrow> 's \<Rightarrow> 'v option"
    and create :: "'k \<Rightarrow> 's \<Rightarrow> 'v \<times> 's"
    and obtain_row :: "'k \<Rightarrow> 's \<Rightarrow> 'v \<times> 's"
  assumes obtain_row_eq: "obtain_row k s = (case lookup k s of Some v \<Rightarrow> (v, s) | None \<Rightarrow> create k s)"
    and lookup_created: "lookup k s = None \<Longrightarrow> lookup k (snd (create k s)) = Some (fst (create k s))"
    and lookup_other: "lookup k s = None \<Longrightarrow> k' \<noteq> k \<Longrightarrow> lookup k' (snd (create k s)) = lookup k' s"
begin

lemma obtain_present: "lookup k s = Some v \<Longrightarrow> obtain_row k s = (v, s)"
  by (simp add: obtain_row_eq)

lemma lookup_obtained: "lookup k (snd (obtain_row k s)) = Some (fst (obtain_row k s))"
  by (cases "lookup k s") (simp_all add: obtain_row_eq lookup_created)

lemma obtain_again: "obtain_row k (snd (obtain_row k s)) = obtain_row k s"
  using obtain_present[OF lookup_obtained, of k s] by simp

lemma obtain_other: "k' \<noteq> k \<Longrightarrow> lookup k' (snd (obtain_row k s)) = lookup k' s"
  by (cases "lookup k s") (simp_all add: obtain_row_eq lookup_other)

lemma obtain_keeps: "lookup k' s = Some v \<Longrightarrow> lookup k' (snd (obtain_row k s)) = Some v"
  by (cases "k' = k") (simp_all add: obtain_present obtain_other)

end

end
