(* ===== verification/Finding_Cases.thy ===== *)
theory Finding_Cases imports Lifecycle begin

text \<open>
  The completed operations of \<open>Lifecycle\<close> taken apart: what was computed on the way, and the tables
  that were committed. The proofs about findings eliminate with these rules.
\<close>

lemma apply_proposalE:
  assumes "apply_proposal H s now run p d = Inr (x, d')"
  obtains evidence content f created d1 f1 ev1 ev where
    "content = evidence_hash H evidence"
    "obtain_finding s now p evidence content d = (f, created, d1)"
    "promote now p (refresh now p evidence content f) = (f1, ev1)"
    "ev = (if ev1 = [] \<and> (created \<or> fin_evidence_hash f \<noteq> content) then ''observed'' else ev1)"
    "ev = [] \<Longrightarrow> d' = save_finding (touched now f1) d1"
    "ev \<noteq> [] \<Longrightarrow> \<exists>e. add_event now (touched now f1) ev (fin_state f) ''system'' (Some run) []
      (save_finding (touched now f1) d1) = Inr (e, d')"
proof -
  from assms obtain evidence where
    e: "(case obtain_finding s now p evidence (evidence_hash H evidence) d of (f, created, d1) \<Rightarrow>
        (case promote now p (refresh now p evidence (evidence_hash H evidence) f) of (f1, ev1) \<Rightarrow>
          let f2 = touched now f1;
              ev = (if ev1 = [] \<and> (created \<or> fin_evidence_hash f \<noteq> evidence_hash H evidence) then ''observed'' else ev1);
              d2 = save_finding f2 d1 in
          if ev = [] then Inr ((), d2)
          else tbind (add_event now f2 ev (fin_state f) ''system'' (Some run) []) (\<lambda>_. treturn ()) d2)) = Inr (x, d')"
    unfolding apply_proposal_def Let_def by blast
  obtain f created d1 where o: "obtain_finding s now p evidence (evidence_hash H evidence) d = (f, created, d1)"
    by (metis prod_cases3)
  obtain f1 ev1 where p: "promote now p (refresh now p evidence (evidence_hash H evidence) f) = (f1, ev1)"
    by fastforce
  define ev where "ev = (if ev1 = [] \<and> (created \<or> fin_evidence_hash f \<noteq> evidence_hash H evidence) then ''observed'' else ev1)"
  show thesis
    by (rule that[OF refl o p ev_def]) (use e in \<open>auto simp: o p Let_def ev_def[symmetric]\<close>)
qed

text \<open>A completed run: the row of the run, and in a store that is not in shadow mode the sightings.\<close>

lemma reconcileE:
  assumes "reconcile H now store d = Inr (run, d')"
  obtains s snap ev d1 where
    "s \<in> set (db_stores d)" "sto_id s = store" "sto_active s"
    "build_snapshot s now d = Inr snap" "evaluate H snap = Inr ev"
    "new_run (db_next d) s now snap ev = Inr run" "d1 = d\<lparr>db_next := db_next d + 1, db_runs := db_runs d @ [run]\<rparr>"
    "sto_shadow s \<Longrightarrow> d' = d1"
    "\<not> sto_shadow s \<Longrightarrow> \<exists>d2. tfor (apply_proposal H s now (run_id run)) (ev_proposals ev) d1 = Inr ((), d2) \<and>
        miss_all s (map prop_key (ev_proposals ev)) ev (coverage_digest H snap) now (run_id run) d2 = Inr ((), d')"
proof -
  from assms obtain s snap ev r where
    g: "get_row ''Store'' (\<lambda>s. sto_id s = store \<and> sto_active s) (db_stores d) = Inr s" and
    b: "build_snapshot s now d = Inr snap" and e: "evaluate H snap = Inr ev" and
    n: "new_run (db_next d) s now snap ev = Inr r" and
    r: "(if sto_shadow s then Inr (r, d\<lparr>db_next := db_next d + 1, db_runs := db_runs d @ [r]\<rparr>)
      else tbind (tfor (apply_proposal H s now (run_id r)) (ev_proposals ev))
       (\<lambda>_. tbind (miss_all s (map prop_key (ev_proposals ev)) ev (coverage_digest H snap) now (run_id r))
         (\<lambda>_. treturn r)) (d\<lparr>db_next := db_next d + 1, db_runs := db_runs d @ [r]\<rparr>)) = Inr (run, d')"
    unfolding reconcile_def Let_def by (elim rbindE)
  have "r = run" using r by (auto split: if_splits)
  then show thesis
    using that[OF _ _ _ b e, of "d\<lparr>db_next := db_next d + 1, db_runs := db_runs d @ [r]\<rparr>"] get_row_Inr[OF g] n r
    by (auto split: if_splits)
qed

lemma actionE:
  assumes "action now i actor name version note until d = Inr (x, d')"
  obtains f f1 e d1 a where
    "f \<in> set (db_findings d)" "fin_id f = i" "fin_lock f = version" "act now name note until f = Inr f1"
    "x = touched now f1"
    "add_event now x (if name = ''resolve'' then ''external_resolution_requested'' else name) (fin_state f) actor None
      (take 1000 note) (save_finding x d) = Inr (e, d1)"
    "audit now (fin_org f) actor (''finding.'' @ name) (uuid_str (fin_id f)) [] [] d1 = Inr (a, d')"
proof -
  from assms obtain f f1 where
    g: "get_row ''Finding'' (\<lambda>f. fin_id f = i) (db_findings d) = Inr f" and v: "fin_lock f = version" and
    a: "act now name note until f = Inr f1" and
    r: "tbind (add_event now (touched now f1) (if name = ''resolve'' then ''external_resolution_requested'' else name)
      (fin_state f) actor None (take 1000 note)) (\<lambda>_.
       tbind (audit now (fin_org f) actor (''finding.'' @ name) (uuid_str (fin_id f)) [] []) (\<lambda>_. treturn (touched now f1)))
       (save_finding (touched now f1) d) = Inr (x, d')"
    unfolding action_def Let_def by (elim rbindE) (simp only: guard_Inr)
  from r obtain e d1 b where "x = touched now f1"
    "add_event now (touched now f1) (if name = ''resolve'' then ''external_resolution_requested'' else name) (fin_state f)
      actor None (take 1000 note) (save_finding (touched now f1) d) = Inr (e, d1)"
    "audit now (fin_org f) actor (''finding.'' @ name) (uuid_str (fin_id f)) [] [] d1 = Inr (b, d')"
    by (elim tbindE) auto
  then show thesis using that[OF _ _ v a] get_row_Inr[OF g] by blast
qed

end
