(* ===== verification/Finding_History.thy ===== *)
theory Finding_History imports Finding_Cases begin

text \<open>
  The abstract life of a finding: a state machine whose transitions are labelled with the types of
  events, and its relation to the tables. The events of a finding are a path of the machine from
  \<open>provisional\<close> to the state its row is in (\<open>coherent\<close>); the machine knows nothing of proposals,
  coverage or versions.
\<close>

section \<open>The state machine\<close>

inductive moves :: "string \<Rightarrow> string \<Rightarrow> string \<Rightarrow> bool" where
  observed: "moves ''observed'' s s"
| opened: "moves ''opened'' ''provisional'' ''open''"
| reopened: "moves ''reopened'' ''resolved'' ''reopened''"
| unsuppressed: "moves ''unsuppressed'' ''suppressed'' ''open''"
| resolve: "s \<noteq> ''resolved'' \<Longrightarrow> moves ''resolved'' s ''resolved''"
| acknowledge: "s \<in> {''open'', ''reopened'', ''acknowledged''} \<Longrightarrow> moves ''acknowledge'' s ''acknowledged''"
| suppress: "s \<in> {''open'', ''reopened'', ''acknowledged'', ''suppressed''} \<Longrightarrow> moves ''suppress'' s ''suppressed''"
| noted: "moves ''note'' s s"
| resolution_requested: "moves ''external_resolution_requested'' s s"

inductive_cases moves_resolvedE: "moves t s ''resolved''"
inductive_cases moves_from_resolvedE: "moves t ''resolved'' s"
inductive_cases moves_reopenedE: "moves t s ''reopened''"

text \<open>A path of the machine, told by its events.\<close>

inductive event_path :: "string \<Rightarrow> finding_event list \<Rightarrow> string \<Rightarrow> bool" where
  Nil: "event_path s [] s"
| snoc: "event_path s es t \<Longrightarrow> eve_previous e = t \<Longrightarrow> moves (eve_type e) t (eve_new e) \<Longrightarrow> event_path s (es @ [e]) (eve_new e)"

inductive_cases path_NilE: "event_path s [] t"
inductive_cases path_snocE: "event_path s (es @ [e]) t"

definition STATES :: "string set" where
  "STATES = {''provisional'', ''open'', ''acknowledged'', ''suppressed'', ''resolved'', ''reopened''}"

lemma moves_states: "moves t s s' \<Longrightarrow> s \<in> STATES \<Longrightarrow> s' \<in> STATES"
  by (cases rule: moves.cases) (auto simp: STATES_def)

lemma path_states: "event_path s es t \<Longrightarrow> s \<in> STATES \<Longrightarrow> t \<in> STATES"
  by (induction rule: event_path.induct) (auto intro: moves_states)

section \<open>The history of a row\<close>

definition history :: "uuid \<Rightarrow> db \<Rightarrow> finding_event list" where
  "history i d = filter (\<lambda>e. eve_finding e = i) (db_events d)"

definition openings :: "finding_event list \<Rightarrow> int" where
  "openings es = int (length (filter (\<lambda>e. eve_type e \<in> {''opened'', ''reopened''}) es))"

text \<open>The columns of a row agree with its state.\<close>

definition row_ok :: "finding \<Rightarrow> bool" where
  "row_ok f \<longleftrightarrow> (fin_resolved f \<noteq> None \<longleftrightarrow> fin_state f = ''resolved'') \<and>
     (fin_state f = ''suppressed'' \<longrightarrow> fin_suppressed_until f \<noteq> None)"

definition told :: "finding \<Rightarrow> db \<Rightarrow> bool" where
  "told f d \<longleftrightarrow> event_path ''provisional'' (history (fin_id f) d) (fin_state f) \<and>
     fin_occurrences f = openings (history (fin_id f) d) \<and> row_ok f"

definition coherent :: "db \<Rightarrow> bool" where
  "coherent d \<longleftrightarrow> distinct (map fin_id (db_findings d)) \<and> distinct (map fin_key (db_findings d)) \<and>
     (\<forall>f \<in> set (db_findings d). fin_id f < db_next d \<and> told f d) \<and>
     (\<forall>e \<in> set (db_events d). eve_finding e \<in> fin_id ` set (db_findings d))"

text \<open>A replacement of a row is legal when its event moves it, and without an event the state stays.\<close>

definition row_step :: "finding \<Rightarrow> finding_event option \<Rightarrow> finding \<Rightarrow> bool" where
  "row_step f e f' \<longleftrightarrow> fin_id f' = fin_id f \<and> fin_key f' = fin_key f \<and> (row_ok f \<longrightarrow> row_ok f') \<and>
     (case e of None \<Rightarrow> fin_state f' = fin_state f \<and> fin_occurrences f' = fin_occurrences f
      | Some e \<Rightarrow> eve_finding e = fin_id f \<and> eve_previous e = fin_state f \<and> eve_new e = fin_state f' \<and>
          moves (eve_type e) (fin_state f) (fin_state f') \<and>
          fin_occurrences f' = fin_occurrences f + openings [e])"

lemma openings_snoc: "openings (es @ [e]) = openings es + openings [e]"
  by (simp add: openings_def)

lemma history_snoc: "db_events d' = db_events d @ [e] \<Longrightarrow>
    history i d' = (if eve_finding e = i then history i d @ [e] else history i d)"
  by (simp add: history_def)

lemma told_step:
  assumes "told f d" "row_step f e f'" "history (fin_id f) d' = history (fin_id f) d @ (case e of None \<Rightarrow> [] | Some e \<Rightarrow> [e])"
  shows "told f' d'"
proof (cases e)
  case None
  then show ?thesis using assms by (simp add: told_def row_step_def)
next
  case (Some ev)
  have "event_path ''provisional'' (history (fin_id f) d @ [ev]) (eve_new ev)"
    by (rule event_path.snoc[where t = "fin_state f"]) (use assms Some in \<open>simp_all add: told_def row_step_def\<close>)
  moreover have "eve_new ev = fin_state f'" using assms Some by (simp add: row_step_def)
  ultimately show ?thesis using assms Some by (simp add: told_def row_step_def openings_snoc)
qed

lemma set_save_row:
  assumes "distinct (map fin_id rows)" "f \<in> set rows" "fin_id f' = fin_id f"
  shows "set (save_row fin_id f' rows) = insert f' (set rows - {f})"
  using assms by (induction rows) (auto simp: save_row_def image_iff)

lemma map_save_same:
  assumes "fin_key f' = fin_key f" "f \<in> set rows" "fin_id f' = fin_id f" "distinct (map fin_id rows)"
  shows "map fin_key (save_row fin_id f' rows) = map fin_key rows"
proof -
  have "x = f" if "x \<in> set rows" "fin_id x = fin_id f" for x
    using assms that by (auto simp: distinct_map dest: inj_onD)
  then show ?thesis using assms by (fastforce simp: save_row_def)
qed

text \<open>The step of one row keeps the tables coherent.\<close>

lemma coherent_step:
  assumes c: "coherent d" and f: "f \<in> set (db_findings d)" and s: "row_step f e f'"
    and fs: "db_findings d' = save_row fin_id f' (db_findings d)"
    and es: "db_events d' = db_events d @ (case e of None \<Rightarrow> [] | Some e \<Rightarrow> [e])" and n: "db_next d \<le> db_next d'"
  shows "coherent d'"
proof -
  have i: "fin_id f' = fin_id f" "fin_key f' = fin_key f" using s by (auto simp: row_step_def)
  have di: "distinct (map fin_id (db_findings d))" using c by (simp add: coherent_def)
  have set: "set (db_findings d') = insert f' (set (db_findings d) - {f})"
    unfolding fs by (rule set_save_row[OF di f i(1)])
  have ei: "\<And>ev. e = Some ev \<Longrightarrow> eve_finding ev = fin_id f" using s by (simp add: row_step_def)
  have h: "history j d' = history j d @ (if j = fin_id f then (case e of None \<Rightarrow> [] | Some e \<Rightarrow> [e]) else [])" for j
    using ei by (auto simp: history_def es split: option.splits)
  have t: "told f' d'" by (rule told_step[OF _ s]) (use c f in \<open>auto simp: coherent_def h\<close>)
  have o: "told g d'" if "g \<in> set (db_findings d) - {f}" for g
  proof -
    have "fin_id g \<noteq> fin_id f" using that f di by (auto simp: distinct_map inj_on_def)
    then show ?thesis using c that by (simp add: coherent_def told_def h)
  qed
  have ids: "fin_id ` set (db_findings d') = fin_id ` set (db_findings d)" using set f i by auto
  have keys: "map fin_key (db_findings d') = map fin_key (db_findings d)"
    unfolding fs by (rule map_save_same[OF i(2) f i(1) di])
  have "\<forall>g \<in> set (db_findings d'). fin_id g < db_next d' \<and> told g d'"
    using c t o n f i unfolding set coherent_def by auto
  moreover have "\<forall>e \<in> set (db_events d'). eve_finding e \<in> fin_id ` set (db_findings d')"
    using c ei f unfolding ids es coherent_def by (auto split: option.splits)
  moreover have "distinct (map fin_id (db_findings d'))" using di by (simp add: fs)
  ultimately show ?thesis using c keys by (simp add: coherent_def)
qed

text \<open>Tables with the same findings and events.\<close>

lemma coherent_same: "coherent d \<Longrightarrow> db_findings d' = db_findings d \<Longrightarrow> db_events d' = db_events d \<Longrightarrow>
    db_next d \<le> db_next d' \<Longrightarrow> coherent d'"
  by (fastforce simp: coherent_def told_def history_def)

section \<open>The operations\<close>

lemma enqueue_findings: "enqueue now org t r k d = Inr (x, d') \<Longrightarrow>
    db_findings d' = db_findings d \<and> db_events d' = db_events d \<and> db_next d \<le> db_next d'"
  by (auto simp: enqueue_def Let_def split: option.splits)

lemma add_event_tables:
  assumes "add_event now f t p actor run note d = Inr (e, d')"
  shows "db_findings d' = db_findings d" "db_events d' = db_events d @ [e]" "db_next d \<le> db_next d'"
    "eve_finding e = fin_id f" "eve_type e = t" "eve_previous e = p" "eve_new e = fin_state f"
  using assms by (auto simp: add_event_def Let_def split: if_splits dest!: enqueue_findings)

lemma audit_findings: "audit now org a b c e f d = Inr (x, d') \<Longrightarrow>
    db_findings d' = db_findings d \<and> db_events d' = db_events d \<and> db_next d \<le> db_next d'"
  by (auto simp: audit_def Let_def split: if_splits dest!: enqueue_findings)

lemma obtain_finding_coherent:
  assumes "obtain_finding s now p ev c d = (f, created, d1)" "coherent d"
  shows "coherent d1" "f \<in> set (db_findings d1)" "db_next d \<le> db_next d1" "db_events d1 = db_events d"
    "created \<Longrightarrow> fin_state f = ''provisional''"
proof -
  show "f \<in> set (db_findings d1)" "db_next d \<le> db_next d1" "db_events d1 = db_events d"
    "created \<Longrightarrow> fin_state f = ''provisional''"
    using assms(1) by (auto simp: obtain_finding_def Let_def new_finding_def split: option.splits dest: row_by_Some)
  show "coherent d1"
  proof (cases "row_by fin_key (prop_key p) (db_findings d)")
    case (Some g)
    then show ?thesis using assms by (simp add: obtain_finding_def)
  next
    case None
    have new: "fin_id g < db_next d" if "g \<in> set (db_findings d)" for g
      using assms(2) that by (auto simp: coherent_def)
    have none: "history (db_next d) d = []"
      using assms(2) new by (fastforce simp: history_def coherent_def filter_empty_conv)
    have f: "f = new_finding (db_next d) s now p ev c" "db_findings d1 = db_findings d @ [f]" "db_events d1 = db_events d"
      "db_next d1 = db_next d + 1"
      using None assms(1) by (auto simp: obtain_finding_def Let_def)
    have "told f d1"
      using none by (simp add: told_def f new_finding_def history_def event_path.Nil openings_def row_ok_def)
    moreover have "told g d1" if "g \<in> set (db_findings d)" for g
      using assms(2) that by (auto simp: coherent_def told_def history_def f)
    ultimately show ?thesis
      using assms(2) new None f by (fastforce simp: coherent_def row_by_None new_finding_def)
  qed
qed

text \<open>The columns that \<open>refresh\<close> and \<open>touched\<close> leave alone, and the transition of a ready proposal.\<close>

lemma refresh_simps [simp]:
  "fin_id (refresh now p ev c f) = fin_id f" "fin_key (refresh now p ev c f) = fin_key f"
  "fin_state (refresh now p ev c f) = fin_state f" "fin_occurrences (refresh now p ev c f) = fin_occurrences f"
  "fin_resolved (refresh now p ev c f) = fin_resolved f"
  "fin_suppressed_until (refresh now p ev c f) = fin_suppressed_until f"
  "fin_clean_since (refresh now p ev c f) = None" "fin_store (refresh now p ev c f) = fin_store f"
  by (simp_all add: refresh_def)

lemma touched_simps [simp]:
  "fin_id (touched now f) = fin_id f" "fin_key (touched now f) = fin_key f" "fin_state (touched now f) = fin_state f"
  "fin_occurrences (touched now f) = fin_occurrences f" "fin_resolved (touched now f) = fin_resolved f"
  "fin_suppressed_until (touched now f) = fin_suppressed_until f" "fin_clean_since (touched now f) = fin_clean_since f"
  "fin_store (touched now f) = fin_store f" "row_ok (touched now f) = row_ok f"
  by (simp_all add: touched_def row_ok_def)

lemma promote_cases:
  assumes "promote now p f = (f1, t)"
  obtains (stay) "t = []" "f1 = f"
  | (opened) "t = ''opened''" "fin_state f = ''provisional''"
      "f1 = f\<lparr>fin_state := ''open'', fin_occurrences := fin_occurrences f + 1\<rparr>"
  | (reopened) "t = ''reopened''" "fin_state f = ''resolved''"
      "f1 = f\<lparr>fin_state := ''reopened'', fin_occurrences := fin_occurrences f + 1, fin_resolved := None\<rparr>"
  | (unsuppressed) u where "t = ''unsuppressed''" "fin_state f = ''suppressed''" "fin_suppressed_until f = Some u" "u \<le> now"
      "f1 = f\<lparr>fin_state := ''open'', fin_suppressed_until := None\<rparr>"
proof -
  consider "\<not> prop_ready p" | "prop_ready p" "fin_state f = ''provisional''" | "prop_ready p" "fin_state f = ''resolved''"
    | u where "prop_ready p" "fin_state f = ''suppressed''" "fin_suppressed_until f = Some u" "u \<le> now"
    | "fin_state f \<noteq> ''provisional''" "fin_state f \<noteq> ''resolved''"
      "\<not> (fin_state f = ''suppressed'' \<and> (case fin_suppressed_until f of None \<Rightarrow> False | Some u \<Rightarrow> u \<le> now))"
    by (cases "fin_suppressed_until f"; cases "prop_ready p"; cases "fin_state f = ''suppressed''") auto
  then show thesis
  proof cases
    case 1 then show ?thesis using assms by (intro stay) (simp_all add: promote_def)
  next
    case 2 then show ?thesis using assms by (intro opened) (simp_all add: promote_def)
  next
    case 3 then show ?thesis using assms by (intro reopened) (auto simp add: promote_def)
  next
    case (4 u) then show ?thesis using assms by (intro unsuppressed[of u]) (simp_all add: promote_def)
  next
    case 5 then show ?thesis using assms by (cases "prop_ready p"; intro stay) (simp_all add: promote_def)
  qed
qed

lemma promote_columns:
  assumes "promote now p f = (f1, t)"
  shows "fin_id f1 = fin_id f" "fin_key f1 = fin_key f" "fin_store f1 = fin_store f" "fin_clean_since f1 = fin_clean_since f"
  by (rule promote_cases[OF assms]; simp)+

lemma promote_step:
  assumes "promote now p f = (f1, t)"
  shows "row_ok f \<Longrightarrow> row_ok f1"
    "t = [] \<Longrightarrow> fin_state f1 = fin_state f \<and> fin_occurrences f1 = fin_occurrences f"
    "t \<noteq> [] \<Longrightarrow> moves t (fin_state f) (fin_state f1) \<and> fin_occurrences f1 = fin_occurrences f +
      (if t \<in> {''opened'', ''reopened''} then 1 else 0)"
  by (rule promote_cases[OF assms]; simp add: row_ok_def moves.intros)+

lemma openings_one: "openings [e] = (if eve_type e \<in> {''opened'', ''reopened''} then 1 else 0)"
  by (simp add: openings_def)

lemma apply_proposal_coherent:
  assumes "apply_proposal H s now run p d = Inr (x, d')" "coherent d"
  shows "coherent d' \<and> db_next d \<le> db_next d'"
proof (rule apply_proposalE[OF assms(1)])
  fix evidence content f created d1 f1 ev1 ev
  assume o: "obtain_finding s now p evidence content d = (f, created, d1)" and
    m: "promote now p (refresh now p evidence content f) = (f1, ev1)" and
    ev: "ev = (if ev1 = [] \<and> (created \<or> fin_evidence_hash f \<noteq> content) then ''observed'' else ev1)" and
    quiet: "ev = [] \<Longrightarrow> d' = save_finding (touched now f1) d1" and
    noisy: "ev \<noteq> [] \<Longrightarrow> \<exists>e. add_event now (touched now f1) ev (fin_state f) ''system'' (Some run) []
      (save_finding (touched now f1) d1) = Inr (e, d')"
  note o = obtain_finding_coherent[OF o assms(2)]
  have cols: "fin_id f1 = fin_id f" "fin_key f1 = fin_key f" "row_ok f \<Longrightarrow> row_ok f1"
    using promote_columns[OF m] promote_step(1)[OF m] by (simp_all add: row_ok_def)
  show ?thesis
  proof (cases "ev = []")
    case True
    then have "ev1 = []" using ev by (auto split: if_splits)
    then have "row_step f None (touched now f1)"
      using promote_step(2)[OF m] cols by (simp add: row_step_def)
    then show ?thesis
      using coherent_step[OF o(1,2), of None _ d'] quiet[OF True] o(3) by (simp add: save_finding_def)
  next
    case False
    then obtain e where e: "add_event now (touched now f1) ev (fin_state f) ''system'' (Some run) []
      (save_finding (touched now f1) d1) = Inr (e, d')" using noisy by blast
    note t = add_event_tables[OF e]
    have "moves ev (fin_state f) (fin_state f1) \<and> fin_occurrences f1 = fin_occurrences f + openings [e]"
      using ev False promote_step(2,3)[OF m] t(5) by (cases "ev1 = []") (auto simp: openings_one moves.observed split: if_splits)
    then have "row_step f (Some e) (touched now f1)" using cols t by (simp add: row_step_def)
    then show ?thesis
      using coherent_step[OF o(1,2), of "Some e" _ d'] t(1-3) o(3) by (simp add: save_finding_def)
  qed
qed

lemma miss_finding_step:
  assumes "miss_finding ev c now run f d = Inr (x, d')" "fin_state f \<noteq> ''resolved''"
  obtains e f' where "row_step f e f'" "db_findings d' = save_row fin_id f' (db_findings d)"
    "db_events d' = db_events d @ (case e of None \<Rightarrow> [] | Some e \<Rightarrow> [e])" "db_next d \<le> db_next d'"
  | "d' = d"
proof -
  consider "d' = d"
    | f' where "d' = save_finding (touched now f') d" "f' \<in> {f\<lparr>fin_clean_since := None, fin_clean_digest := []\<rparr>,
        f\<lparr>fin_clean_since := Some now, fin_clean_digest := c\<rparr>, f}"
    | e d1 where "add_event now (f\<lparr>fin_state := ''resolved'', fin_resolved := Some now\<rparr>) ''resolved'' (fin_state f) ''system''
        (Some run) [] d = Inr (e, d1)"
        "d' = save_finding (touched now (f\<lparr>fin_state := ''resolved'', fin_resolved := Some now\<rparr>)) d1"
    using assms(1) by (auto simp: miss_finding_def Let_def split: if_splits)
  then show thesis
  proof cases
    case (2 f')
    then have "row_step f None (touched now f')" by (auto simp: row_step_def row_ok_def)
    then show ?thesis using 2 by (intro that(1)[of None]) (simp_all add: save_finding_def)
  next
    case (3 e d1)
    note t = add_event_tables[OF 3(1)]
    have "row_step f (Some e) (touched now (f\<lparr>fin_state := ''resolved'', fin_resolved := Some now\<rparr>))"
      using t assms(2) by (simp add: row_step_def row_ok_def openings_one moves.resolve)
    then show ?thesis using 3 t by (intro that(1)[of "Some e"]) (simp_all add: save_finding_def)
  qed (rule that(2))
qed

lemma miss_findings_coherent:
  assumes "tfor (miss_finding ev c now run) xs d = Inr (u, d')" "coherent d" "set xs \<subseteq> set (db_findings d)"
    "distinct (map fin_id xs)" "\<And>f. f \<in> set xs \<Longrightarrow> fin_state f \<noteq> ''resolved''"
  shows "coherent d' \<and> db_next d \<le> db_next d'"
  using assms
proof (induction xs arbitrary: d)
  case (Cons f fs)
  then obtain x d1 where m: "miss_finding ev c now run f d = Inr (x, d1)" and r: "tfor (miss_finding ev c now run) fs d1 = Inr (u, d')"
    by auto
  have "coherent d1 \<and> db_next d \<le> db_next d1 \<and> set fs \<subseteq> set (db_findings d1)"
  proof (rule miss_finding_step[OF m])
    show "fin_state f \<noteq> ''resolved''" using Cons.prems by simp
  next
    fix e f'
    assume h: "row_step f e f'" "db_findings d1 = save_row fin_id f' (db_findings d)"
      "db_events d1 = db_events d @ (case e of None \<Rightarrow> [] | Some e \<Rightarrow> [e])" "db_next d \<le> db_next d1"
    have f: "f \<in> set (db_findings d)" using Cons.prems by simp
    have "set (db_findings d1) = insert f' (set (db_findings d) - {f})"
      using h(1,2) set_save_row[OF _ f] Cons.prems(2) by (simp add: coherent_def row_step_def)
    moreover have "f \<notin> set fs" using Cons.prems(4) by (auto simp: image_iff)
    ultimately show ?thesis using coherent_step[OF Cons.prems(2) f h] Cons.prems(3) h(4) by auto
  qed (use Cons.prems in auto)
  then show ?case using Cons.IH[OF r] Cons.prems by fastforce
qed auto

lemma reconcile_coherent:
  assumes "reconcile H now store d = Inr (run, d')" "coherent d"
  shows "coherent d' \<and> db_next d \<le> db_next d'"
proof (rule reconcileE[OF assms(1)])
  fix s snap ev d1
  assume d1: "d1 = d\<lparr>db_next := db_next d + 1, db_runs := db_runs d @ [run]\<rparr>" and
    shadow: "sto_shadow s \<Longrightarrow> d' = d1" and
    acted: "\<not> sto_shadow s \<Longrightarrow> \<exists>d2. tfor (apply_proposal H s now (run_id run)) (ev_proposals ev) d1 = Inr ((), d2) \<and>
        miss_all s (map prop_key (ev_proposals ev)) ev (coverage_digest H snap) now (run_id run) d2 = Inr ((), d')"
  have c1: "coherent d1" using assms(2) by (rule coherent_same) (simp_all add: d1)
  show ?thesis
  proof (cases "sto_shadow s")
    case True
    then show ?thesis using shadow c1 d1 by simp
  next
    case False
    then obtain d2 where a: "tfor (apply_proposal H s now (run_id run)) (ev_proposals ev) d1 = Inr ((), d2)" and
      m: "miss_all s (map prop_key (ev_proposals ev)) ev (coverage_digest H snap) now (run_id run) d2 = Inr ((), d')"
      using acted by blast
    have c2: "coherent d2 \<and> db_next d1 \<le> db_next d2"
      by (rule tfor_invariant[OF a]) (use c1 apply_proposal_coherent in \<open>auto intro: order_trans\<close>)
    have "distinct (map fin_id (db_findings d2))" using c2 by (simp add: coherent_def)
    then have "distinct (map fin_id (filter (\<lambda>f. fin_key f \<notin> set (map prop_key (ev_proposals ev))) (unresolved_of s d2)))"
      by (simp add: unresolved_of_def distinct_map_filter)
    then have "coherent d' \<and> db_next d2 \<le> db_next d'"
      by (intro miss_findings_coherent[OF m[unfolded miss_all_def]]) (use c2 in \<open>auto simp: unresolved_of_def\<close>)
    then show ?thesis using c2 d1 by auto
  qed
qed

lemma act_name: "act now name note until f = Inr f1 \<Longrightarrow> name \<in> set ACTIONS"
  unfolding act_def by (elim rbindE) simp

lemma act_equations:
  "act now ''acknowledge'' note until f = Inr f1 \<longleftrightarrow>
     fin_state f \<in> {''open'', ''reopened'', ''acknowledged''} \<and> f1 = f\<lparr>fin_state := ''acknowledged''\<rparr>"
  "act now ''suppress'' note until f = Inr f1 \<longleftrightarrow>
     fin_state f \<in> {''open'', ''reopened'', ''acknowledged'', ''suppressed''} \<and> strip note \<noteq> [] \<and>
     (\<exists>u. until = Some u \<and> now < u \<and> u \<le> now + days 7) \<and> f1 = f\<lparr>fin_state := ''suppressed'', fin_suppressed_until := until\<rparr>"
  "act now ''resolve'' note until f = Inr f1 \<longleftrightarrow> strip note \<noteq> [] \<and> f1 = f\<lparr>fin_clean_since := None\<rparr>"
  "act now ''note'' note until f = Inr f1 \<longleftrightarrow> strip note \<noteq> [] \<and> f1 = f"
  unfolding act_def by (simp_all add: ACTIONS_def rbind_Inr_iff eq_commute[of f1] split: option.split)

lemma act_cases:
  assumes "act now name note until f = Inr f1"
  obtains (ack) "name = ''acknowledge''" "fin_state f \<in> {''open'', ''reopened'', ''acknowledged''}"
      "f1 = f\<lparr>fin_state := ''acknowledged''\<rparr>"
    | (suppress) u where "name = ''suppress''" "fin_state f \<in> {''open'', ''reopened'', ''acknowledged'', ''suppressed''}"
        "until = Some u" "now < u" "u \<le> now + days 7" "f1 = f\<lparr>fin_state := ''suppressed'', fin_suppressed_until := until\<rparr>"
    | (resolve) "name = ''resolve''" "f1 = f\<lparr>fin_clean_since := None\<rparr>"
    | (noted) "name = ''note''" "f1 = f"
proof -
  have "name = ''acknowledge'' \<or> name = ''suppress'' \<or> name = ''resolve'' \<or> name = ''note''"
    using act_name[OF assms] by (simp add: ACTIONS_def)
  then show thesis
  proof (elim disjE)
    assume n: "name = ''acknowledge''" show thesis using assms[unfolded n act_equations] by (intro ack[OF n]) simp_all
  next
    assume n: "name = ''suppress''" show thesis using assms[unfolded n act_equations] suppress[OF n] by blast
  next
    assume n: "name = ''resolve''" show thesis using assms[unfolded n act_equations] by (intro resolve[OF n]) simp
  next
    assume n: "name = ''note''" show thesis using assms[unfolded n act_equations] by (intro noted[OF n]) simp
  qed
qed

lemma act_step:
  assumes "act now name note until f = Inr f1"
  shows "fin_id f1 = fin_id f \<and> fin_key f1 = fin_key f \<and> (row_ok f \<longrightarrow> row_ok f1) \<and> fin_occurrences f1 = fin_occurrences f \<and>
    moves (if name = ''resolve'' then ''external_resolution_requested'' else name) (fin_state f) (fin_state f1)"
proof (rule act_cases[OF assms])
  assume h: "name = ''acknowledge''" "fin_state f \<in> {''open'', ''reopened'', ''acknowledged''}" "f1 = f\<lparr>fin_state := ''acknowledged''\<rparr>"
  have "fin_state f \<noteq> ''resolved''" using h(2) by auto
  moreover have "moves ''acknowledge'' (fin_state f) ''acknowledged''" using h(2) by (rule moves.acknowledge)
  ultimately show ?thesis by (simp add: h(1,3) row_ok_def)
next
  fix u
  assume h: "name = ''suppress''" "fin_state f \<in> {''open'', ''reopened'', ''acknowledged'', ''suppressed''}"
    "until = Some u" "f1 = f\<lparr>fin_state := ''suppressed'', fin_suppressed_until := until\<rparr>"
  have "fin_state f \<noteq> ''resolved''" using h(2) by auto
  moreover have "moves ''suppress'' (fin_state f) ''suppressed''" using h(2) by (rule moves.suppress)
  ultimately show ?thesis by (simp add: h(1,3,4) row_ok_def)
qed (simp_all add: row_ok_def moves.resolution_requested moves.noted)

lemma action_coherent:
  assumes "action now i actor name version note until d = Inr (x, d')" "coherent d"
  shows "coherent d' \<and> db_next d \<le> db_next d'"
proof (rule actionE[OF assms(1)])
  fix f f1 e d1 a'
  assume f: "f \<in> set (db_findings d)" and a: "act now name note until f = Inr f1" and x: "x = touched now f1" and
    e: "add_event now x (if name = ''resolve'' then ''external_resolution_requested'' else name) (fin_state f) actor None
      (take 1000 note) (save_finding x d) = Inr (e, d1)" and
    au: "audit now (fin_org f) actor (''finding.'' @ name) (uuid_str (fin_id f)) [] [] d1 = Inr (a', d')"
  note t = add_event_tables[OF e] and s = act_step[OF a]
  have "openings [e] = 0"
    using act_name[OF a] by (auto simp: openings_one t(5) ACTIONS_def)
  then have "row_step f (Some e) x"
    using s t by (simp add: row_step_def x)
  then show ?thesis
    using coherent_step[OF assms(2) f, of "Some e" x d'] t(1-3) audit_findings[OF au] by (simp add: save_finding_def)
qed

end
