(* ===== verification/Ledger.thy ===== *)
theory Ledger imports Frames Finding_History Worker Plugin_Views "HOL-Library.Sublist" begin

text \<open>
  What every operation of the program does to the tables. The immutable tables
  (\<open>ImmutableTenantModel\<close>: the audit log, observations, finding events and reconciliation runs) are
  only extended at their end, keys are not used again, no row of the outbox is removed, and the rows
  of findings stay coherent with the log of their events. \<open>grows\<close> relates the tables before and after an operation by this.
\<close>

definition queued :: "db \<Rightarrow> uuid set" where
  "queued d = out_id ` set (db_outbox d)"

text \<open>Answers to machines stay: a receipt that is found keeps its body and its result.\<close>

definition answered :: "db \<Rightarrow> db \<Rightarrow> bool" where
  "answered d d' \<longleftrightarrow> (\<forall>c e r. find_receipt c e d = Some r \<longrightarrow> (\<exists>r'. find_receipt c e d' = Some r' \<and>
     rec_id r' = rec_id r \<and> rec_body_hash r' = rec_body_hash r \<and> rec_result r' = rec_result r))"

definition spans :: "db \<Rightarrow> db \<Rightarrow> bool" where
  "spans d d' \<longleftrightarrow> prefix (db_audit d) (db_audit d') \<and> prefix (db_observations d) (db_observations d') \<and>
     prefix (db_events d) (db_events d') \<and> prefix (db_runs d) (db_runs d') \<and> prefix (db_pages d) (db_pages d') \<and>
     queued d \<subseteq> queued d' \<and> answered d d'"

text \<open>
  The records of idempotent pages are written by \<open>idempotent\<close> alone, around the operation it runs;
  stores and members are changed by a few pages (\<open>Api_Ledger\<close>).
\<close>

definition extends :: "db \<Rightarrow> db \<Rightarrow> bool" where
  "extends d d' \<longleftrightarrow> spans d d' \<and> db_idempotency d' = db_idempotency d \<and> db_stores d' = db_stores d \<and>
     db_members d' = db_members d"

definition grows :: "db \<Rightarrow> db \<Rightarrow> bool" where
  "grows d d' \<longleftrightarrow> extends d d' \<and> db_next d \<le> db_next d' \<and> (coherent d \<longrightarrow> coherent d')"

lemmas extends_iff = extends_def spans_def queued_def

lemma answered_same [simp]: "db_receipts d' = db_receipts d \<Longrightarrow> answered d d'"
  by (simp add: answered_def find_receipt_def)

lemma answered_trans: "answered d1 d2 \<Longrightarrow> answered d2 d3 \<Longrightarrow> answered d1 d3"
  unfolding answered_def by metis

lemma answered_append: "db_receipts d' = db_receipts d @ [r] \<Longrightarrow> answered d d'"
  by (simp add: answered_def find_receipt_def find_append)

lemma find_map_same: "(\<And>x. P (f x) = P x) \<Longrightarrow> find P (map f xs) = map_option f (find P xs)"
  by (induction xs) auto

lemma answered_map:
  assumes "db_receipts d' = map f (db_receipts d)"
    and "\<And>r. rec_connector (f r) = rec_connector r \<and> rec_external (f r) = rec_external r \<and> rec_id (f r) = rec_id r \<and>
      rec_body_hash (f r) = rec_body_hash r \<and> rec_result (f r) = rec_result r"
  shows "answered d d'"
  using assms by (auto simp: answered_def find_receipt_def find_map_same)

lemma answered_update:
  "(\<And>r. rec_connector (f r) = rec_connector r \<and> rec_external (f r) = rec_external r \<and> rec_id (f r) = rec_id r \<and>
      rec_body_hash (f r) = rec_body_hash r \<and> rec_result (f r) = rec_result r) \<Longrightarrow>
    answered d (d\<lparr>db_receipts := update_where P f (db_receipts d)\<rparr>)"
  by (rule answered_map[where f = "\<lambda>x. if P x then f x else x"]) (auto simp: update_where_def)

lemma image_append [simp]: "f ` set xs \<subseteq> f ` set (xs @ ys)"
  by auto

lemma image_update [simp]: "(\<And>r. f (g r) = f r) \<Longrightarrow> f ` set xs \<subseteq> f ` set (update_where P g xs)"
  by (induction xs) (auto simp: update_where_def)

lemma image_save [simp]: "f ` set xs \<subseteq> f ` set (save_row f r xs)"
  by (auto simp: save_row_def image_iff)

lemma extends_refl [simp]: "extends d d"
  by (simp add: extends_iff)

lemma spans_trans: "spans d1 d2 \<Longrightarrow> spans d2 d3 \<Longrightarrow> spans d1 d3"
  unfolding spans_def by (blast intro: prefix_order.trans answered_trans)

lemma extends_trans: "extends d1 d2 \<Longrightarrow> extends d2 d3 \<Longrightarrow> extends d1 d3"
  unfolding extends_def using spans_trans by auto

interpretation ledger: trans_frame grows
  by unfold_locales (auto simp: grows_def intro: extends_trans)

lemma grows_refl [simp]: "grows d d" by (rule ledger.R_refl)

text \<open>Updates of other tables, and the extension of an immutable one.\<close>

lemma growsI: "db_audit d' = db_audit d \<Longrightarrow> db_observations d' = db_observations d \<Longrightarrow> db_events d' = db_events d \<Longrightarrow>
    db_runs d' = db_runs d \<Longrightarrow> db_findings d' = db_findings d \<Longrightarrow> prefix (db_pages d) (db_pages d') \<Longrightarrow>
    db_idempotency d' = db_idempotency d \<Longrightarrow> db_stores d' = db_stores d \<Longrightarrow> db_members d' = db_members d \<Longrightarrow>
    answered d d' \<Longrightarrow> db_next d \<le> db_next d' \<Longrightarrow>
    out_id ` set (db_outbox d) \<subseteq> out_id ` set (db_outbox d') \<Longrightarrow> grows d d'"
  using coherent_same by (simp add: grows_def extends_iff del: set_append)

lemma grows_via: "grows d1 d' \<Longrightarrow> db_audit d1 = db_audit d \<Longrightarrow> db_observations d1 = db_observations d \<Longrightarrow>
    db_events d1 = db_events d \<Longrightarrow> db_runs d1 = db_runs d \<Longrightarrow> db_findings d1 = db_findings d \<Longrightarrow>
    prefix (db_pages d) (db_pages d1) \<Longrightarrow> db_idempotency d1 = db_idempotency d \<Longrightarrow> db_stores d1 = db_stores d \<Longrightarrow>
    db_members d1 = db_members d \<Longrightarrow> answered d d1 \<Longrightarrow> db_next d \<le> db_next d1 \<Longrightarrow> out_id ` set (db_outbox d) \<subseteq> out_id ` set (db_outbox d1) \<Longrightarrow> grows d d'"
  by (rule ledger.R_trans[OF growsI])

lemma grows_from: "grows d1 d' \<Longrightarrow> grows d d1 \<Longrightarrow> grows d d'"
  by (rule ledger.R_trans)

lemma grows_audit: "db_audit d' = db_audit d @ [r] \<Longrightarrow> db_observations d' = db_observations d \<Longrightarrow> db_events d' = db_events d \<Longrightarrow>
    db_runs d' = db_runs d \<Longrightarrow> db_findings d' = db_findings d \<Longrightarrow> prefix (db_pages d) (db_pages d') \<Longrightarrow>
    db_idempotency d' = db_idempotency d \<Longrightarrow> db_stores d' = db_stores d \<Longrightarrow> db_members d' = db_members d \<Longrightarrow>
    answered d d' \<Longrightarrow> db_next d \<le> db_next d' \<Longrightarrow>
    out_id ` set (db_outbox d) \<subseteq> out_id ` set (db_outbox d') \<Longrightarrow> grows d d'"
  using coherent_same by (simp add: grows_def extends_iff del: set_append)

lemma grows_observation: "db_audit d' = db_audit d \<Longrightarrow> db_observations d' = db_observations d @ [r] \<Longrightarrow> db_events d' = db_events d \<Longrightarrow>
    db_runs d' = db_runs d \<Longrightarrow> db_findings d' = db_findings d \<Longrightarrow> prefix (db_pages d) (db_pages d') \<Longrightarrow>
    db_idempotency d' = db_idempotency d \<Longrightarrow> db_stores d' = db_stores d \<Longrightarrow> db_members d' = db_members d \<Longrightarrow>
    answered d d' \<Longrightarrow> db_next d \<le> db_next d' \<Longrightarrow>
    out_id ` set (db_outbox d) \<subseteq> out_id ` set (db_outbox d') \<Longrightarrow> grows d d'"
  using coherent_same by (simp add: grows_def extends_iff del: set_append)

section \<open>Ingestion\<close>

lemma enqueue_keeps [keeps_intros]: "ledger.keeps (enqueue now org t r k)"
  by (rule ledger.keepsI) (auto simp: enqueue_def Let_def growsI simp del: set_append split: option.splits)

lemma audit_keeps [keeps_intros]: "ledger.keeps (audit now org a b c e f)"
  by (rule ledger.keepsI)
    (auto simp: audit_def Let_def grows_audit split: if_splits dest!: ledger.keepsD[OF enqueue_keeps],
      erule grows_from, simp add: grows_audit)

lemma quota_keeps [keeps_intros]: "ledger.keeps (quota org b l s now)"
  by (rule ledger.keepsI) (auto simp: quota_def Let_def growsI split: option.splits if_splits)

lemma reconcile_later_keeps [keeps_intros]: "ledger.keeps (reconcile_later now con reason)"
  by (rule ledger.keepsI) (auto simp: reconcile_later_def elim!: ledger.for_frame intro: ledger.frame_rules keeps_intros)

lemma observe_keeps [keeps_intros]: "ledger.keeps (observe now con k s r c v)"
  by (rule ledger.keepsI) (auto simp: observe_def Let_def grows_observation split: option.splits)

lemma upsert_keeps [keeps_intros]: "ledger.keeps (upsert H now con k s r v)"
  by (rule ledger.keepsI)
    (auto simp: upsert_def Let_def split: option.splits if_splits dest!: ledger.keepsD[OF observe_keeps];
      erule ledger.R_trans; simp add: growsI)

lemma cursor_for_keeps [keeps_intros]: "ledger.keeps (cursor_for now con cls)"
  by (rule ledger.keepsI) (auto simp: cursor_for_def Let_def growsI split: option.splits)

lemma grows_mark [simp]: "grows d (mark_incomplete P d)"
  by (simp add: mark_incomplete_def growsI)

lemma open_scan_keeps [keeps_intros]: "ledger.keeps (open_scan now con scan page s e cur)"
  by (rule ledger.keepsI) (auto simp: open_scan_def split: if_splits)

lemma accept_record_keeps [keeps_intros]: "ledger.keeps (accept_record H now con record)"
  unfolding accept_record_def
  by (intro ledger.frame_rules keeps_intros) (auto split: prod.splits intro: ledger.keeps_simple)

lemma record_step_grows: "record_step H now v b = Inr b' \<Longrightarrow> grows (bs_db b) (bs_db b')"
  by (auto simp: record_step_def Let_def growsI split: sum.splits prod.splits if_splits
      dest!: ledger.keepsD[OF accept_record_keeps])

lemma copy_coverage_grows [simp]: "grows d (copy_coverage now con cur d)"
  by (simp add: copy_coverage_def Let_def growsI)

lemma finish_page_grows: "finish_page now con final s e cur d = (cur', d', adv) \<Longrightarrow> grows d d'"
  by (auto simp: finish_page_def Let_def split: if_splits)

text \<open>A page that was accepted, taken apart.\<close>

lemma new_pageE:
  assumes "new_page H now con envelope scan page content d = Inr (x, d')"
  obtains cur0 d0 start stop cur1 d1 records b final cur2 d2 adv rid u d3 where
    "now - days 36 \<le> start" "start \<le> stop" "stop \<le> now + seconds 120"
    "cursor_for now con ''woo_orders'' d = Inr (cur0, d0)"
    "open_scan now con scan page start stop cur0 d0 = Inr (cur1, d1)"
    "check_page page start stop cur1 = Inr ()"
    "fold_res (record_step H now) records
      \<lparr>bs_db = d1, bs_connector = con, bs_failed = cur_failed cur1, bs_results = []\<rparr> = Inr b"
    "finish_page now con final start stop (cur1\<lparr>cur_failed := bs_failed b\<rparr>) (bs_db b) = (cur2, d2, adv)"
    "reconcile_later now (bs_connector b) rid (d2\<lparr>db_cursors := save_row cur_id cur2 (db_cursors d2)\<rparr>) = Inr (u, d3)"
    "x = [(''request_id'', JStr rid), (''results'', JList (bs_results b)), (''coverage_advanced'', JBool adv),
      (''server_time'', JStr (utc now))]"
    "d' = d3\<lparr>db_next := db_next d3 + 1, db_pages := db_pages d3 @ [\<lparr>pag_id = db_next d3, pag_org = ins_org con,
      pag_connector = ins_id con, pag_scan = scan, pag_page = page, pag_hash = content, pag_result = x, pag_created = now\<rparr>]\<rparr>"
  using assms unfolding new_page_def Let_def
  by (elim tbindE rbindE) (simp only: tlift_Inr tguard_Inr, elim conjE, simp split: prod.splits, elim tbindE, simp, blast)

lemma new_page_keeps [keeps_intros]: "ledger.keeps (new_page H now con envelope scan page content)"
proof (rule ledger.keepsI)
  fix d x d'
  assume "new_page H now con envelope scan page content d = Inr (x, d')"
  then show "grows d d'"
  proof (rule new_pageE)
    fix cur0 d0 start stop cur1 d1 records b final cur2 d2 adv rid u d3
    assume c: "cursor_for now con ''woo_orders'' d = Inr (cur0, d0)"
      and o: "open_scan now con scan page start stop cur0 d0 = Inr (cur1, d1)"
      and r: "fold_res (record_step H now) records
        \<lparr>bs_db = d1, bs_connector = con, bs_failed = cur_failed cur1, bs_results = []\<rparr> = Inr b"
      and f: "finish_page now con final start stop (cur1\<lparr>cur_failed := bs_failed b\<rparr>) (bs_db b) = (cur2, d2, adv)"
      and l: "reconcile_later now (bs_connector b) rid (d2\<lparr>db_cursors := save_row cur_id cur2 (db_cursors d2)\<rparr>) = Inr (u, d3)"
      and e: "d' = d3\<lparr>db_next := db_next d3 + 1, db_pages := db_pages d3 @ [\<lparr>pag_id = db_next d3, pag_org = ins_org con,
        pag_connector = ins_id con, pag_scan = scan, pag_page = page, pag_hash = content, pag_result = x, pag_created = now\<rparr>]\<rparr>"
    have "grows d1 (bs_db b)"
      using fold_res_invariant[OF r, of "\<lambda>b. grows d1 (bs_db b)"] record_step_grows ledger.R_trans by fastforce
    moreover have "grows (bs_db b) d2" using f finish_page_grows by blast
    moreover have "grows d2 d3" using ledger.keepsD[OF reconcile_later_keeps l] by (rule grows_via) simp_all
    moreover have "grows d d1"
      using ledger.keepsD[OF cursor_for_keeps c] ledger.keepsD[OF open_scan_keeps o] by (rule ledger.R_trans)
    ultimately have "grows d d3" by (blast intro: ledger.R_trans)
    then show ?thesis by (rule ledger.R_trans) (simp add: growsI e)
  qed
qed

lemma accept_woo_batch_keeps [keeps_intros]: "ledger.keeps (accept_woo_batch H now con envelope)"
  by (rule ledger.keepsI) (auto simp: accept_woo_batch_def Let_def split: option.splits dest: ledger.keepsD[OF new_page_keeps])

lemma advance_cursor_keeps [keeps_intros]: "ledger.keeps (advance_cursor now con s e kind)"
  unfolding advance_cursor_def
  by (intro ledger.frame_rules keeps_intros, rule ledger.keepsI) (auto simp: growsI split: if_splits)

lemma advance_stripe_coverage_keeps [keeps_intros]: "ledger.keeps (advance_stripe_coverage now con s e)"
  unfolding advance_stripe_coverage_def by (intro ledger.frame_rules keeps_intros)

section \<open>Findings\<close>

text \<open>An event alone, and the row of a finding alone, extend the immutable tables.\<close>

lemma extends_enqueue: "enqueue now org t r k d = Inr (x, d') \<Longrightarrow> extends d d'"
  by (auto simp: enqueue_def Let_def extends_iff split: option.splits)

lemma add_event_extends: "add_event now f t p a run note d = Inr (e, d') \<Longrightarrow> extends d d'"
  by (auto simp: add_event_def Let_def split: if_splits dest!: extends_enqueue)
    (auto simp: extends_iff dest!: append_prefixD, erule answered_trans[rotated], simp)

lemma save_finding_extends [simp]: "extends d (save_finding f d)"
  by (simp add: extends_iff save_finding_def)

lemma save_finding_next [simp]: "db_next (save_finding f d) = db_next d"
  by (simp add: save_finding_def)

lemma obtain_finding_extends: "obtain_finding s now p ev c d = (f, created, d1) \<Longrightarrow> extends d d1"
  by (auto simp: obtain_finding_def Let_def extends_iff split: option.splits)

lemma apply_proposal_extends:
  assumes "apply_proposal H s now run p d = Inr (x, d')"
  shows "extends d d'"
proof (rule apply_proposalE[OF assms])
  fix evidence content f created d1 f1 ev1 ev
  assume o: "obtain_finding s now p evidence content d = (f, created, d1)" and
    r: "ev = [] \<Longrightarrow> d' = save_finding (touched now f1) d1"
       "ev \<noteq> [] \<Longrightarrow> \<exists>e. add_event now (touched now f1) ev (fin_state f) ''system'' (Some run) []
      (save_finding (touched now f1) d1) = Inr (e, d')"
  have "extends d1 d'"
    using r add_event_extends save_finding_extends extends_trans by (cases "ev = []") blast+
  then show ?thesis using obtain_finding_extends[OF o] extends_trans by blast
qed

lemma apply_proposal_next:
  assumes "apply_proposal H s now run p d = Inr (x, d')"
  shows "db_next d \<le> db_next d'"
proof (rule apply_proposalE[OF assms])
  fix evidence content f created d1 f1 ev1 ev
  assume o: "obtain_finding s now p evidence content d = (f, created, d1)" and
    r: "ev = [] \<Longrightarrow> d' = save_finding (touched now f1) d1"
       "ev \<noteq> [] \<Longrightarrow> \<exists>e. add_event now (touched now f1) ev (fin_state f) ''system'' (Some run) []
      (save_finding (touched now f1) d1) = Inr (e, d')"
  have "db_next d1 \<le> db_next d'"
    using r add_event_tables(3) by (cases "ev = []") (fastforce simp: save_finding_def)+
  then show ?thesis using o by (auto simp: obtain_finding_def Let_def split: option.splits)
qed

lemma apply_proposal_keeps [keeps_intros]: "ledger.keeps (apply_proposal H s now run p)"
  by (rule ledger.keepsI)
    (simp add: grows_def apply_proposal_extends apply_proposal_next apply_proposal_coherent)

lemma add_event_progress: "add_event now f t p a run note d = Inr (e, d') \<Longrightarrow> extends d d' \<and> db_next d \<le> db_next d'"
  using add_event_extends add_event_tables(3) by blast

lemma miss_finding_extends: "miss_finding ev c now run f d = Inr (x, d') \<Longrightarrow> extends d d' \<and> db_next d \<le> db_next d'"
  by (auto simp: miss_finding_def Let_def split: if_splits dest!: add_event_progress
      intro: extends_trans[OF _ save_finding_extends])

lemma reconcile_keeps [keeps_intros]: "ledger.keeps (reconcile H now store)"
proof (rule ledger.keepsI)
  fix d x d'
  assume h: "reconcile H now store d = Inr (x, d')"
  have "extends d d' \<and> db_next d \<le> db_next d'"
  proof (rule reconcileE[OF h])
    fix s snap ev d1
    assume d1: "d1 = d\<lparr>db_next := db_next d + 1, db_runs := db_runs d @ [x]\<rparr>" and
      r: "sto_shadow s \<Longrightarrow> d' = d1" "\<not> sto_shadow s \<Longrightarrow> \<exists>d2. tfor (apply_proposal H s now (run_id x)) (ev_proposals ev) d1 = Inr ((), d2) \<and>
        miss_all s (map prop_key (ev_proposals ev)) ev (coverage_digest H snap) now (run_id x) d2 = Inr ((), d')"
    have "extends d d1" by (simp add: d1 extends_iff)
    moreover have "extends d1 d' \<and> db_next d1 \<le> db_next d'"
    proof (cases "sto_shadow s")
      case False
      then obtain d2 where a: "tfor (apply_proposal H s now (run_id x)) (ev_proposals ev) d1 = Inr ((), d2)" and
        m: "miss_all s (map prop_key (ev_proposals ev)) ev (coverage_digest H snap) now (run_id x) d2 = Inr ((), d')"
        using r by blast
      have "grows d1 d2" using a by (rule ledger.for_frame) (rule apply_proposal_keeps)
      moreover have "extends d2 d' \<and> db_next d2 \<le> db_next d'"
        by (rule tfor_invariant[OF m[unfolded miss_all_def]]) (auto dest!: miss_finding_extends intro: extends_trans)
      ultimately show ?thesis by (auto simp: grows_def intro: extends_trans)
    qed (simp add: r)
    ultimately show ?thesis using d1 by (auto intro: extends_trans)
  qed
  then show "grows d d'" using reconcile_coherent[OF h] by (simp add: grows_def)
qed

lemma action_keeps [keeps_intros]: "ledger.keeps (action now i actor name version note until)"
proof (rule ledger.keepsI)
  fix d x d'
  assume h: "action now i actor name version note until d = Inr (x, d')"
  have "extends d d' \<and> db_next d \<le> db_next d'"
  proof (rule actionE[OF h])
    fix f e t p d1 a b c
    assume "add_event now x t (fin_state f) actor None (take 1000 note) (save_finding x d) = Inr (e, d1)"
      and "audit now (fin_org f) actor b c [] [] d1 = Inr (a, d')"
    then have "extends (save_finding x d) d1 \<and> db_next d \<le> db_next d1" "grows d1 d'"
      using add_event_extends add_event_tables(3) ledger.keepsD[OF audit_keeps] by fastforce+
    then show ?thesis
      using extends_trans[OF extends_trans[OF save_finding_extends]] by (auto simp: grows_def)
  qed
  then show "grows d d'" using action_coherent[OF h] by (simp add: grows_def)
qed

section \<open>Notifications\<close>

lemma intend_keeps [keeps_intros]: "ledger.keeps (intend now org P create)"
  by (rule ledger.keepsI)
    (auto simp: intend_def split: option.splits dest!: ledger.keepsD[OF enqueue_keeps], erule grows_via, simp_all)

lemma intents_keep [keeps_intros]: "ledger.keeps (intend_event now e r)" "ledger.keeps (intend_security now a r)"
    "ledger.keeps (intend_digest H now org k r)"
  by (simp_all add: intend_event_def intend_security_def intend_digest_def Let_def keeps_intros)

lemma event_of_fst: "event_of i d = Inr (e, f, s) \<Longrightarrow> e \<in> set (db_events d)"
  by (auto simp: event_of_def dest: get_row_Inr)

lemma grows_postpone [simp]: "grows d (postpone i t d)"
  by (simp add: postpone_def growsI)

lemma prepare_keeps [keeps_intros]: "ledger.keeps (prepare now i)"
proof (rule ledger.keepsI)
  fix d x d'
  assume h: "prepare now i d = Inr (x, d')"
  have p: "enqueue now a b c k d = Inr (r, d1) \<Longrightarrow> grows d (postpone i t d1)" for a b c k r d1 i t
    using ledger.keepsD[OF enqueue_keeps] grows_postpone ledger.R_trans by blast
  have q: "quota a b 20 3600 now d = Inr (u, d1) \<Longrightarrow> tfor (intend_event now e) xs d1 = Inr ((), d') \<Longrightarrow> grows d d'"
    for a b u d1 e xs
    by (rule ledger.R_trans[OF ledger.keepsD[OF quota_keeps]], assumption) (erule ledger.for_frame, rule intents_keep)
  from h show "grows d d'"
    by (auto simp: prepare_def split: if_splits sum.splits) (erule p | erule (1) q)+
qed

lemma security_keeps [keeps_intros]: "ledger.keeps (security now i)"
  by (rule ledger.keepsI)
    (auto simp: security_def split: if_splits elim!: ledger.for_frame intro: keeps_intros)

lemma send_digest_keeps [keeps_intros]: "ledger.keeps (send_digest H now org k)"
  by (rule ledger.keepsI)
    (auto simp: send_digest_def split: if_splits elim!: ledger.for_frame intro: keeps_intros)

lemma grows_save_delivery [simp]: "grows d (save_delivery x d)"
  by (simp add: save_delivery_def growsI)

lemma deliver_keeps [keeps_intros]: "ledger.keeps (deliver ms send now i)"
  by (rule ledger.keepsI) (auto simp: deliver_def Let_def split: if_splits prod.splits)

lemma terminal_update_grows: "grows d (terminal_update now status x d)"
  by (auto simp: terminal_update_def save_delivery_def Let_def growsI split: option.splits)

section \<open>Reports\<close>

lemma generate_keeps [keeps_intros]: "ledger.keeps (generate re i)"
  by (rule ledger.keepsI) (auto simp: generate_def Let_def growsI split: if_splits)

section \<open>Stripe\<close>

lemma reader_get_keeps [keeps_intros]: "ledger.akeeps (reader_get en token path params)"
  unfolding reader_get_def
  by (intro ledger.frame_rules ledger.akeeps_modify) (simp_all add: set_next_api_def Let_def growsI)

lemma access_token_keeps [keeps_intros]: "ledger.akeeps (access_token en)"
  unfolding access_token_def by (intro ledger.frame_rules)

lemma refund_parent_keeps [keeps_intros]: "ledger.akeeps (refund_parent en token kind parent charge)"
  unfolding refund_parent_def by (auto intro!: ledger.frame_rules keeps_intros simp del: abind_simps)

lemma fetch_one_keeps [keeps_intros]: "ledger.akeeps (fetch_one en token k i)"
  unfolding fetch_one_def
  by (auto split: option.splits prod.splits intro!: ledger.frame_rules keeps_intros simp del: abind_simps)

lemma fetch_resource_grows: "fetch_resource en token k i st = (r, st') \<Longrightarrow> grows (ss_db st) (ss_db st')"
proof (induction en token k i st arbitrary: r st' rule: fetch_resource.induct)
  case (1 en token k i st)
  obtain r1 s1 where o: "fetch_one en token k i st = (r1, s1)" by (cases "fetch_one en token k i st")
  have g: "grows (ss_db st) (ss_db s1)" using ledger.akeepsD[OF fetch_one_keeps o] .
  show ?case
    using 1 g ledger.R_trans
    by (subst (asm) fetch_resource.simps) (auto simp: o split: sum.splits option.splits prod.splits if_splits)
qed

lemma fetch_resource_keeps [keeps_intros]: "ledger.akeeps (fetch_resource en token k i)"
  using fetch_resource_grows by (blast intro: ledger.akeepsI)

lemma load_connector_keeps [keeps_intros]: "ledger.akeeps (load_connector P)"
  by (rule ledger.akeepsI) (auto simp: load_connector_def split: sum.splits)

lemma process_receipt_keeps [keeps_intros]: "ledger.akeeps (process_receipt en i)"
  unfolding process_receipt_def
  by (auto intro!: ledger.frame_rules keeps_intros ledger.akeeps_modify growsI answered_update simp del: abind_simps)

lemma poll_keeps [keeps_intros]: "ledger.keeps (poll now i repair)"
  by (rule ledger.keepsI)
    (auto simp: poll_def Let_def split: if_splits dest!: ledger.keepsD[OF enqueue_keeps], erule grows_via, simp_all)

lemma set_ss_db_keeps [keeps_intros]: "(\<And>st. grows (ss_db st) (f st)) \<Longrightarrow> ledger.akeeps (amodify (\<lambda>st. st\<lparr>ss_db := f st\<rparr>))"
  by (rule ledger.akeeps_modify) simp

lemma scan_row_keeps [keeps_intros]: "ledger.akeeps (scan_row en token kind value)"
  unfolding scan_row_def
  by (auto split: prod.splits json.splits intro!: ledger.frame_rules keeps_intros simp del: abind_simps)

lemma scan_list_keeps [keeps_intros]: "ledger.akeeps (scan_list en token s)"
  unfolding scan_list_def
  by (auto split: prod.splits intro!: ledger.frame_rules keeps_intros simp del: abind_simps)

lemma fetch_ref_keeps [keeps_intros]: "ledger.akeeps (fetch_ref en token r)"
  by (rule ledger.akeepsI)
    (auto simp: fetch_ref_def split: prod.splits sum.splits exn.splits if_splits dest!: fetch_resource_grows)

lemma scan_orders_keeps [keeps_intros]: "ledger.akeeps (scan_orders en token s)"
  unfolding scan_orders_def by (auto intro!: ledger.frame_rules keeps_intros simp del: abind_simps)

lemma finish_scan_page_keeps [keeps_intros]: "ledger.akeeps (finish_scan_page en s)"
  unfolding finish_scan_page_def Let_def
  by (auto intro!: ledger.frame_rules keeps_intros ledger.akeeps_modify growsI simp: save_scan_def simp del: abind_simps)

lemma scan_page_keeps [keeps_intros]: "ledger.akeeps (scan_page en i)"
  unfolding scan_page_def by (auto intro!: ledger.frame_rules keeps_intros simp del: abind_simps)

lemma save_con_keeps [keeps_intros]: "ledger.akeeps (amodify (save_con con))"
  by (rule ledger.akeeps_modify) (simp add: save_con_def growsI)

lemma link_store_grows [simp]: "grows d (link_store row con now d)"
  by (simp add: link_store_def Let_def growsI split: option.split)

lemma connect_keeps [keeps_intros]: "ledger.akeeps (connect en row t dest user)"
  unfolding connect_def Let_def
  by (auto intro!: ledger.frame_rules keeps_intros ledger.keepsI simp: obtain_stripe_def Let_def growsI
      split: option.splits simp del: abind_simps)

lemma asave_keeps: "ledger.akeeps m \<Longrightarrow> ledger.akeeps (asave m)"
  by (rule ledger.akeepsI) (auto simp: asave_def split: prod.splits sum.splits dest: ledger.akeepsD)

lemma oauth_callback_keeps [keeps_intros]: "ledger.akeeps (oauth_callback en state grant user session dest)"
  unfolding oauth_callback_def
  by (auto intro!: ledger.frame_rules keeps_intros asave_keeps growsI simp: consume_state_def split: option.split simp del: abind_simps)

lemma oauth_start_keeps [keeps_intros]: "ledger.keeps (oauth_start en now state s user key)"
  by (rule ledger.keepsI) (auto simp: oauth_start_def Let_def growsI split: if_splits)

lemma refresh_access_token_keeps [keeps_intros]: "ledger.akeeps (refresh_access_token en)"
  unfolding refresh_access_token_def rotate_tokens_def
  by (auto intro!: ledger.frame_rules keeps_intros simp del: abind_simps)

lemma disconnect_keeps [keeps_intros]: "ledger.keeps (disconnect now con actor)"
  by (rule ledger.keepsI)
    (auto simp: disconnect_def Let_def mark_incomplete_def dest!: ledger.keepsD[OF audit_keeps], erule grows_via, simp_all)

section \<open>The plugin and the webhooks\<close>

lemma add_receipt_keeps [keeps_intros]: "ledger.keeps (add_receipt create)"
  by (rule ledger.keepsI) (auto simp: add_receipt_def intro!: growsI answered_append)

lemma add_key_grows [simp]: "grows d (add_key org con k p d)"
  by (simp add: add_key_def growsI)

lemma retire_key_grows [simp]: "grows d (retire_key now key d)"
  by (simp add: retire_key_def growsI)

lemma install_woo_grows: "install_woo me pairing s org k public versions d = (con, d') \<Longrightarrow> grows d d'"
  by (auto simp: install_woo_def Let_def add_key_def growsI)

lemma finish_claim_keeps [keeps_intros]: "ledger.keeps (finish_claim me pairing s org k key_text public versions request content)"
  by (rule ledger.keepsI)
    (auto simp: finish_claim_def Let_def split: prod.splits dest!: ledger.keepsD[OF add_receipt_keeps]
      ledger.keepsD[OF audit_keeps] install_woo_grows intro: ledger.R_trans)

lemma claim_in_scope_keeps [keeps_intros]: "ledger.keeps (claim_in_scope me rq body envelope org h mode)"
  by (rule ledger.keepsI)
    (auto simp: claim_in_scope_def Let_def split: option.splits if_splits dest!: ledger.keepsD[OF quota_keeps]
      ledger.keepsD[OF finish_claim_keeps] intro: ledger.R_trans)

lemma heartbeat_step_keeps [keeps_intros]: "ledger.keeps (heartbeat_step me con envelope)"
  by (rule ledger.keepsI) (auto simp: heartbeat_step_def Let_def growsI)

lemma store_key_grows: "store_key con k public d = Inr d' \<Longrightarrow> grows d d'"
  by (auto simp: store_key_def split: option.splits)

lemma rotate_step_keeps [keeps_intros]: "ledger.keeps (rotate_step me con key envelope)"
  by (rule ledger.keepsI)
    (auto simp: rotate_step_def dest!: store_key_grows ledger.keepsD[OF audit_keeps],
      meson retire_key_grows ledger.R_trans)

lemma plugin_step_keeps [keeps_intros]: "ledger.keeps (plugin_step me kind con key envelope)"
  by (simp add: plugin_step_def keeps_intros)

lemma answer_plugin_keeps [keeps_intros]: "ledger.keeps (answer_plugin me kind body con key envelope request)"
  by (rule ledger.keepsI)
    (auto simp: answer_plugin_def split: option.splits if_splits dest!: ledger.keepsD[OF quota_keeps]
      ledger.keepsD[OF plugin_step_keeps] ledger.keepsD[OF add_receipt_keeps] intro: ledger.R_trans)

lemma plugin_in_scope_keeps [keeps_intros]: "ledger.keeps (plugin_in_scope me kind rq body envelope i)"
  by (rule ledger.keepsI) (auto simp: plugin_in_scope_def dest: ledger.keepsD[OF answer_plugin_keeps])

lemma record_event_keeps [keeps_intros]: "ledger.keeps (record_event me con e c obj t created)"
  unfolding record_event_def
  by (auto intro!: ledger.frame_rules keeps_intros simp del: trans_simps)

lemma accept_event_keeps [keeps_intros]: "ledger.keeps (accept_event me con body value)"
  by (rule ledger.keepsI)
    (auto simp: accept_event_def split: option.splits if_splits dest!: ledger.keepsD[OF quota_keeps]
      ledger.keepsD[OF record_event_keeps], erule (1) ledger.R_trans)

lemma webhook_in_scope_keeps [keeps_intros]: "ledger.keeps (webhook_in_scope me rq body destination)"
  by (rule ledger.keepsI) (auto simp: webhook_in_scope_def dest: ledger.keepsD[OF accept_event_keeps])

section \<open>The worker\<close>

lemma run_act_keeps [keeps_intros]: "ledger.akeeps m \<Longrightarrow> ledger.keeps (run_act con m)"
  by (rule ledger.keepsI) (auto simp: run_act_def split: prod.splits sum.splits dest: ledger.akeepsD)

lemma ignore_keeps [keeps_intros]: "ledger.keeps t \<Longrightarrow> ledger.keeps (ignore t)"
  unfolding ignore_def by (intro ledger.frame_rules)

lemma handle_keeps [keeps_intros]: "ledger.keeps (handle we row)"
  by (simp add: handle_def Let_def keeps_intros ledger.keeps_simple)

lemma suspend_grows [simp]: "grows d (suspend con e d)"
  by (simp add: suspend_def growsI)

lemma suspend_if_permanent_grows [simp]: "grows d (suspend_if_permanent con e d)"
  by (simp add: suspend_if_permanent_def split: option.split exn.split bool.split)

lemma save_outbox_grows [simp]: "grows d (save_outbox r d)"
  by (simp add: save_outbox_def growsI)

lemma refresh_first_grows: "refresh_first we con d = Inr d' \<Longrightarrow> grows d d'"
  by (auto simp: refresh_first_def split: option.splits sum.splits exn.splits
      dest: ledger.keepsD[OF run_act_keeps[OF refresh_access_token_keeps]])

lemma work_grows: "work we row con d = (e, d') \<Longrightarrow> grows d d'"
  by (auto simp: work_def split: sum.splits prod.splits dest!: refresh_first_grows ledger.keepsD[OF handle_keeps]
      intro: ledger.R_trans[OF _ suspend_if_permanent_grows] ledger.R_trans[OF _ save_outbox_grows] ledger.R_trans)

lemma attempt_keeps [keeps_intros]: "ledger.keeps (attempt we value org i)"
  by (rule ledger.keepsI) (auto simp: attempt_def split: option.splits if_splits prod.splits dest!: work_grows)

lemma bury_grows [simp]: "grows d (bury now row d)"
  by (auto simp: bury_def intro!: growsI answered_update)

lemma lose_coverage_grows [simp]: "grows d (lose_coverage c d)"
  by (simp add: lose_coverage_def)

lemma suspend_failed_keeps [keeps_intros]: "ledger.keeps (suspend_failed now org e c)"
  by (rule ledger.keepsI)
    (auto simp: suspend_failed_def fail_scans_def suspend_def ignore_def dest!: ledger.keepsD[OF audit_keeps],
      erule grows_via, simp_all)

lemma record_failure_keeps [keeps_intros]: "ledger.keeps (record_failure we org i e)"
proof (rule ledger.keepsI)
  fix d x d'
  assume h: "record_failure we org i e d = Inr (x, d')"
  obtain row0 where row0: "row_by out_id i (db_outbox d) = Some row0"
    using h by (auto simp: record_failure_def split: option.splits)
  define row where "row = failed_row (we_now we) (we_jitter we) e row0"
  define d1 where "d1 = bury (we_now we) row (save_outbox row d)"
  have g1: "grows d d1"
    unfolding d1_def by (rule ledger.R_trans[OF save_outbox_grows bury_grows])
  define d2 where "d2 = (case failed_connector row d1 of
    Some c \<Rightarrow> if out_status row = ''dead'' then lose_coverage c d1 else d1 | None \<Rightarrow> d1)"
  have g2: "grows d d2"
    unfolding d2_def by (simp add: g1 ledger.R_trans[OF g1] split: option.split)
  have "(case failed_connector row d1 of
      Some c \<Rightarrow> if is_permanent e then suspend_failed (we_now we) org (exn_name e) c d2 else Inr ((), d2)
    | None \<Rightarrow> Inr ((), d2)) = Inr (x, d')"
    using h unfolding record_failure_def row0 Let_def row_def d1_def d2_def by simp
  then show "grows d d'"
    using g2 ledger.R_trans[OF g2] ledger.keepsD[OF suspend_failed_keeps] by (auto split: option.splits if_splits)
qed

lemma schedule_org_keeps [keeps_intros]: "ledger.keeps (schedule_org now org)"
proof (rule ledger.keepsI)
  fix d x d'
  assume h: "schedule_org now org d = Inr (x, d')"
  show "grows d d'"
  proof (cases "organization_active org d")
    case True
    then show ?thesis
      using h by (simp add: schedule_org_def del: trans_simps)
        (erule ledger.bind_frame; intro ledger.frame_rules keeps_intros)
  qed (use h in \<open>simp add: schedule_org_def\<close>)
qed

lemma send_row_keeps [keeps_intros]: "ledger.keeps (send_row qe now r)"
  by (rule ledger.keepsI) (auto simp: send_row_def growsI)

lemma dispatch_org_keeps [keeps_intros]: "ledger.keeps (dispatch_org qe now)"
  by (rule ledger.keepsI)
    (auto simp: dispatch_org_def Let_def intro!: ledger.frame_rules keeps_intros elim!: ledger.for_frame)

end
