(* ===== verification/Examples.thy ===== *)
theory Examples imports Worker Plugin_Views begin

text \<open>
  A small installation of the program, on which the properties with hypotheses are applied: one
  organization with a store, a WooCommerce and a Stripe connector, and members of each kind. The
  times are in microseconds since the epoch.
\<close>

text \<open>An operation that completes with a result and tables of a certain kind.\<close>

definition yields :: "('a \<times> 'b) result \<Rightarrow> ('a \<Rightarrow> 'b \<Rightarrow> bool) \<Rightarrow> bool" where
  "yields r P = (case r of Inl e \<Rightarrow> False | Inr (x, d) \<Rightarrow> P x d)"

lemma yieldsE: "yields r P \<Longrightarrow> (\<And>x d. r = Inr (x, d) \<Longrightarrow> P x d \<Longrightarrow> thesis) \<Longrightarrow> thesis"
  by (auto simp: yields_def split: sum.splits)

definition ex_org :: organization where
  "ex_org = \<lparr>org_id = 7, org_name = ''Shop'', org_active = True, org_retention = 90, org_alerts = True, org_deleted = None, org_lock = 0\<rparr>"

definition ex_store :: store where
  "ex_store = \<lparr>sto_id = 11, sto_org = 7, sto_name = ''Main'', sto_hostname = ''shop.example.com'', sto_mode = ''test'',
     sto_active = True, sto_policy_version = 1, sto_instant = 15, sto_async = 30, sto_refund = 60, sto_freshness = 10,
     sto_disabled = [], sto_shadow = False, sto_alerts = True, sto_reviewed = None, sto_lock = 1\<rparr>"

definition ex_woo :: installation where
  "ex_woo = \<lparr>ins_id = 21, ins_org = 7, ins_kind = ''woo'', ins_store = Some 11, ins_mode = ''test'', ins_account = [],
     ins_status = ''active'', ins_destination = None, ins_credential = JObj [], ins_webhook = JObj [],
     ins_token_expires = None, ins_heartbeat = None, ins_versions = JObj [], ins_health = [], ins_error = [],
     ins_next_api = None, ins_created = 0, ins_lock = 1\<rparr>"

definition ex_stripe :: installation where
  "ex_stripe = \<lparr>ins_id = 22, ins_org = 7, ins_kind = ''stripe'', ins_store = None, ins_mode = ''test'', ins_account = ''acct_1'',
     ins_status = ''active'', ins_destination = Some 23, ins_credential = JObj [], ins_webhook = JObj [],
     ins_token_expires = None, ins_heartbeat = None, ins_versions = JObj [], ins_health = [], ins_error = [],
     ins_next_api = None, ins_created = 0, ins_lock = 1\<rparr>"

definition ex_row :: outbox where
  "ex_row = new_outbox 51 7 ''reconcile_store'' 11 ''reconcile'' 0"

definition ex_db :: db where
  "ex_db = empty_db\<lparr>db_next := 100, db_directory := [\<lparr>dir_id = 7, dir_active = True, dir_erased = None, dir_digest = []\<rparr>],
     db_orgs := [ex_org], db_stores := [ex_store], db_installations := [ex_woo, ex_stripe], db_outbox := [ex_row]\<rparr>"

text \<open>The world of this organization, and an environment of a worker.\<close>

definition ex_world :: "db \<Rightarrow> world" where
  "ex_world d = \<lparr>wo_shared = d, wo_tenants = (\<lambda>org. if org = 7 then d else empty_db)\<rparr>"

lemma enter_ex_world [simp]: "enter 7 (ex_world d) = d"
  by (simp add: ex_world_def enter_def)

definition ex_crypto :: crypto_settings where
  "ex_crypto = \<lparr>cs_environment = ''test'', cs_kms_key = ''key'', cs_production = True, cs_local_key = []\<rparr>"

text \<open>A toy cipher: the text in the clear, with the key, the nonce and the context it is bound to.\<close>

definition ex_seal :: "string \<Rightarrow> string \<Rightarrow> string \<Rightarrow> string \<Rightarrow> string" where
  "ex_seal k n t a = dumps_raw (JList [JStr k, JStr n, JStr a, JStr t])"

definition ex_unseal :: "string \<Rightarrow> string \<Rightarrow> string \<Rightarrow> string \<Rightarrow> string result" where
  "ex_unseal k n c a = (case loads c of
     Inr (JList [JStr k', JStr n', JStr a', JStr t]) \<Rightarrow>
       if k' = k \<and> n' = n \<and> a' = a then Inr t else Inl (OtherError ''InvalidTag'')
   | _ \<Rightarrow> Inl (OtherError ''InvalidTag''))"

definition ex_cipher :: cipher where
  "ex_cipher = \<lparr>ci_seal = (\<lambda>k n t a. Inr (ex_seal k n t a)), ci_open = ex_unseal,
     ci_kms_generate = (\<lambda>a. Inr (''data-key'', ''data-key'' @ a)),
     ci_kms_decrypt = (\<lambda>w a. if w = ''data-key'' @ a then Inr ''data-key'' else Inl (OtherError ''ClientError''))\<rparr>"

definition ex_stripe_env :: stripe_env where
  "ex_stripe_env = \<lparr>en_clock = (\<lambda>n. 1000000 * int n), en_hash = id, en_crypto = ex_crypto, en_cipher = ex_cipher,
     en_draws = \<lparr>dr_key = ''k'', dr_wrap_nonce = ''w'', dr_nonce = ''n''\<rparr>, en_get = (\<lambda>n t p d. None), en_post = (\<lambda>k g. None),
     en_live_key = [], en_test_key = ''sk'', en_live_client = [], en_test_client = ''ca'', en_public_url = ''https://x''\<rparr>"

definition ex_worker :: "datetime \<Rightarrow> worker_env" where
  "ex_worker now = \<lparr>we_now = now, we_hash = id, we_valid = (\<lambda>s v. True), we_stripe = ex_stripe_env,
     we_mail = \<lparr>ms_from = [], ms_production = False, ms_configuration_set = [], ms_public_url = ''https://x''\<rparr>,
     we_send = (\<lambda>d. Inr ''m''), we_report = \<lparr>re_hash = id, re_pdf = (\<lambda>d f. []), re_bucket = [], re_production = False, re_put = (\<lambda>k c. Inr ())\<rparr>,
     we_jitter = 0\<rparr>"

definition ex_message :: dict where "ex_message = message [] ex_row"

end
