(* ===== verification/Outbox_Props.thy ===== *)
theory Outbox_Props imports Frames Examples begin

text \<open>
  The transactional outbox and the rate limits: work is entered once per key, so the periodic
  schedule can run any number of times in the same five minutes, and a bucket admits no more than
  its limit of requests in one window.
\<close>

section \<open>Entries are made once\<close>

definition outbox_row :: "string \<Rightarrow> db \<Rightarrow> outbox option" where
  "outbox_row k d = row_by out_key k (db_outbox d)"

definition add_outbox :: "datetime \<Rightarrow> uuid \<Rightarrow> string \<Rightarrow> uuid \<Rightarrow> string \<Rightarrow> db \<Rightarrow> outbox \<times> db" where
  "add_outbox now org t r k d = (new_outbox (db_next d) org t r k now,
     d\<lparr>db_next := db_next d + 1, db_outbox := db_outbox d @ [new_outbox (db_next d) org t r k now]\<rparr>)"

definition obtain_outbox :: "datetime \<Rightarrow> uuid \<Rightarrow> string \<Rightarrow> uuid \<Rightarrow> string \<Rightarrow> db \<Rightarrow> outbox \<times> db" where
  "obtain_outbox now org t r k d = (case outbox_row k d of Some x \<Rightarrow> (x, d) | None \<Rightarrow> add_outbox now org t r k d)"

lemma enqueue_eq: "enqueue now org t r k d = Inr (obtain_outbox now org t r k d)"
  by (simp add: enqueue_def obtain_outbox_def outbox_row_def add_outbox_def Let_def split: option.split)

interpretation ob: get_or_create outbox_row "add_outbox now org t r" "obtain_outbox now org t r" for now org t r
proof unfold_locales
  fix k k' d
  show "obtain_outbox now org t r k d = (case outbox_row k d of Some v \<Rightarrow> (v, d) | None \<Rightarrow> add_outbox now org t r k d)"
    by (simp add: obtain_outbox_def)
  assume none: "outbox_row k d = None"
  then show "outbox_row k (snd (add_outbox now org t r k d)) = Some (fst (add_outbox now org t r k d))"
    by (simp add: outbox_row_def add_outbox_def row_by_append new_outbox_def)
  assume "k' \<noteq> k"
  then show "outbox_row k' (snd (add_outbox now org t r k d)) = outbox_row k' d"
    by (simp add: outbox_row_def add_outbox_def row_by_append new_outbox_def split: option.split)
qed

text \<open>What entering work leaves alone.\<close>

lemma obtain_outbox_frame:
  "db_orgs (snd (obtain_outbox now org t r k d)) = db_orgs d"
  "db_stores (snd (obtain_outbox now org t r k d)) = db_stores d"
  "db_installations (snd (obtain_outbox now org t r k d)) = db_installations d"
  by (simp_all add: obtain_outbox_def add_outbox_def split: option.split)

abbreviation enter_all :: "datetime \<Rightarrow> uuid \<Rightarrow> string \<Rightarrow> ('a \<Rightarrow> uuid) \<Rightarrow> ('a \<Rightarrow> string) \<Rightarrow> 'a list \<Rightarrow> unit trans" where
  "enter_all now org t r k xs \<equiv> tfor (\<lambda>x. ignore (enqueue now org t (r x) (k x))) xs"

lemma ignore_enqueue: "ignore (enqueue now org t r k) d = Inr ((), snd (obtain_outbox now org t r k d))"
  by (simp add: ignore_def tbind_def enqueue_eq split: prod.split)

lemma enter_all_Cons: "enter_all now org t r k (x # xs) d = enter_all now org t r k xs (snd (obtain_outbox now org t (r x) (k x) d))"
  by (simp add: tbind_def ignore_enqueue)

lemma enter_all_total: "\<exists>d'. enter_all now org t r k xs d = Inr ((), d')"
  by (induction xs arbitrary: d) (simp_all add: enter_all_Cons del: tfor.simps(2))

lemma enter_all_result:
  assumes "enter_all now org t r k xs d = Inr ((), d')"
  shows "(\<forall>key. outbox_row key d \<noteq> None \<longrightarrow> outbox_row key d' = outbox_row key d) \<and>
    (\<forall>x \<in> set xs. outbox_row (k x) d' \<noteq> None) \<and>
    db_orgs d' = db_orgs d \<and> db_stores d' = db_stores d \<and> db_installations d' = db_installations d"
  using assms
proof (induction xs arbitrary: d)
  case (Cons x xs)
  define d1 where "d1 = snd (obtain_outbox now org t (r x) (k x) d)"
  have "enter_all now org t r k xs d1 = Inr ((), d')"
    using Cons.prems unfolding enter_all_Cons d1_def .
  note ih = Cons.IH[OF this]
  have "outbox_row key d1 = outbox_row key d" if "outbox_row key d \<noteq> None" for key
    using that unfolding d1_def by (auto simp: ob.obtain_keeps)
  moreover have "outbox_row (k x) d1 \<noteq> None" unfolding d1_def by (simp add: ob.lookup_obtained)
  ultimately show ?case using ih by (auto simp: d1_def obtain_outbox_frame)
qed simp

text \<open>Work that is entered already is not entered again, at whatever time.\<close>

lemma enter_all_again: "(\<And>x. x \<in> set xs \<Longrightarrow> outbox_row (k x) d \<noteq> None) \<Longrightarrow> enter_all now org t r k xs d = Inr ((), d)"
proof (induction xs)
  case (Cons x xs)
  then obtain y where "outbox_row (k x) d = Some y" by fastforce
  then show ?case using Cons unfolding enter_all_Cons by (simp add: ob.obtain_present)
qed simp

section \<open>The schedule\<close>

text \<open>C14: The periodic schedule is idempotent in each window of five minutes: when it has run for an
  organization, running it again in the same window leaves the tables exactly as they are.\<close>

theorem schedule_once_per_window:
  assumes "schedule_org now org d = Inr (u, d')" and "scan_bucket now' = scan_bucket now"
  shows "schedule_org now' org d' = Inr ((), d')"
proof (cases "organization_active org d")
  case False
  then show ?thesis using assms(1) by (simp add: schedule_org_def)
next
  case True
  let ?stores = "filter sto_active (db_stores d)"
  let ?stripes = "filter (\<lambda>i. ins_kind i = ''stripe'' \<and> ins_status i = ''active'' \<and>
    dict_get (ins_health i) ''synthetic'' \<noteq> Some (JBool True)) (db_installations d)"
  let ?rk = "\<lambda>s. ''periodic-reconcile:'' @ uuid_str (sto_id s) @ '':'' @ show_int (scan_bucket now)"
  let ?pk = "\<lambda>i. ''periodic-stripe:'' @ uuid_str (ins_id i) @ '':'' @ show_int (scan_bucket now)"
  let ?t = "if scan_bucket now mod 288 = 0 then ''stripe_repair'' else ''stripe_poll''"
  obtain d1 where r: "enter_all now org ''reconcile_store'' sto_id ?rk ?stores d = Inr ((), d1)" and
    p: "enter_all now org ?t ins_id ?pk ?stripes d1 = Inr ((), d')"
    using assms(1) enter_all_result enter_all_total True
    by (simp add: schedule_org_def tbind_Inr_iff) (metis (no_types, lifting))
  note fr = enter_all_result[OF r] and fp = enter_all_result[OF p]
  have "enter_all now' org ''reconcile_store'' sto_id ?rk ?stores d' = Inr ((), d')"
    by (rule enter_all_again) (use fr fp in auto)
  moreover have "enter_all now' org ?t ins_id ?pk ?stripes d' = Inr ((), d')"
    by (rule enter_all_again) (use fp in auto)
  moreover have "organization_active org d'" using True fr fp by (simp add: organization_active_def)
  ultimately show ?thesis
    using fr fp by (simp add: schedule_org_def tbind_def assms(2))
qed

lemma schedule_once_per_window_witness:
  "\<exists>d'. schedule_org 0 7 ex_db = Inr ((), d') \<and> length (db_outbox d') = 3 \<and> schedule_org 299000000 7 d' = Inr ((), d')"
proof -
  have "yields (schedule_org 0 7 ex_db) (\<lambda>u d. length (db_outbox d) = 3)" by code_simp
  then obtain d' where r: "schedule_org 0 7 ex_db = Inr ((), d')" and l: "length (db_outbox d') = 3"
    by (rule yieldsE) simp
  have "scan_bucket 299000000 = scan_bucket 0" by code_simp
  from schedule_once_per_window[OF r this] r l show ?thesis by blast
qed

section \<open>Rate limits\<close>

definition quota_of :: "uuid \<Rightarrow> string \<Rightarrow> int \<Rightarrow> quota_row \<Rightarrow> bool" where
  "quota_of org b w q \<longleftrightarrow> quo_org q = org \<and> quo_bucket q = b \<and> quo_window q = w"

text \<open>How many requests were counted in a window.\<close>

definition used :: "uuid \<Rightarrow> string \<Rightarrow> int \<Rightarrow> db \<Rightarrow> int" where
  "used org b w d = (case find (quota_of org b w) (db_quotas d) of None \<Rightarrow> 0 | Some q \<Rightarrow> quo_count q)"

lemma find_saved:
  "find P rows = Some q \<Longrightarrow> P q' \<Longrightarrow> key q' = key q \<Longrightarrow> find P (save_row key q' rows) = Some q'"
  by (induction rows) (auto simp: save_row_def split: if_splits)

lemma quota_counts:
  assumes "quota org b limit secs now d = Inr (u, d')" "unix_seconds now div secs = w"
  shows "used org b w d < limit \<and> used org b w d' = used org b w d + 1"
proof -
  have eq: "(\<lambda>q. quo_org q = org \<and> quo_bucket q = b \<and> quo_window q = w) = quota_of org b w"
    by (simp add: quota_of_def fun_eq_iff)
  show ?thesis
  proof (cases "find (quota_of org b w) (db_quotas d)")
    case None
    let ?q = "\<lparr>quo_id = db_next d, quo_org = org, quo_bucket = b, quo_window = w, quo_count = 0, quo_created = now\<rparr>"
    have "find (quota_of org b w) (db_quotas d @ [?q]) = Some ?q" using None by (simp add: find_append quota_of_def)
    then have "find (quota_of org b w) (save_row quo_id (?q\<lparr>quo_count := 1\<rparr>) (db_quotas d @ [?q])) = Some (?q\<lparr>quo_count := 1\<rparr>)"
      by (rule find_saved) (simp_all add: quota_of_def)
    then show ?thesis using assms None by (auto simp: quota_def Let_def eq used_def split: if_splits)
  next
    case (Some q)
    then have "quota_of org b w q" by (auto simp: find_Some_iff)
    then have "find (quota_of org b w) (save_row quo_id (q\<lparr>quo_count := quo_count q + 1\<rparr>) (db_quotas d)) =
        Some (q\<lparr>quo_count := quo_count q + 1\<rparr>)"
      by (intro find_saved[OF Some]) (simp_all add: quota_of_def)
    then show ?thesis using assms Some by (auto simp: quota_def Let_def eq used_def split: if_splits)
  qed
qed

text \<open>C1: A rate limit admits at most \<open>limit\<close> requests of a bucket in one window, however they are
  spread over it, and counts each of them; a window nobody used admits exactly up to its limit.\<close>

theorem quota_limits_window:
  assumes "tfor (quota org b limit secs) ts d = Inr (u, d')"
    and "\<And>t. t \<in> set ts \<Longrightarrow> unix_seconds t div secs = w"
  shows "used org b w d' = used org b w d + int (length ts) \<and> (ts \<noteq> [] \<longrightarrow> used org b w d' \<le> limit)"
  using assms
proof (induction ts arbitrary: d)
  case (Cons t ts)
  then obtain v d1 where q: "quota org b limit secs t d = Inr (v, d1)" and r: "tfor (quota org b limit secs) ts d1 = Inr (u, d')"
    by auto
  have "used org b w d < limit \<and> used org b w d1 = used org b w d + 1"
    using quota_counts[OF q] Cons.prems(2) by simp
  then show ?case using Cons.IH[OF r] Cons.prems(2) r by (cases ts) auto
qed simp

lemma quota_limits_window_witness:
  "\<exists>d'. tfor (quota 7 ''pairing'' 2 60) [0, 59000000] ex_db = Inr ((), d') \<and> used 7 ''pairing'' 0 d' = 2"
proof -
  have "yields (tfor (quota 7 ''pairing'' 2 60) [0, 59000000] ex_db) (\<lambda>u d. True)" by code_simp
  then obtain d' where r: "tfor (quota 7 ''pairing'' 2 60) [0, 59000000] ex_db = Inr ((), d')" by (rule yieldsE) simp
  have "t \<in> set [0, 59000000] \<Longrightarrow> unix_seconds t div 60 = 0" for t by (auto simp: unix_seconds_def)
  from quota_limits_window[OF r this] r show ?thesis by (simp add: used_def ex_db_def empty_db_def)
qed
end
