(* ===== verification/Run_Total.thy ===== *)
theory Run_Total imports Engine_Props Ledger Json_Roundtrip Outbox_Props begin

text \<open>
  A run that was evaluated is always recorded: the evidence the engine writes is read back by the
  service that stores it, and no later step of the run can raise an exception. So a reconciliation
  fails only where it reads the facts: for an unknown or inactive store, a row that violates the
  domain's checks, or the evaluation's own check of amounts.
\<close>

section \<open>What the engine writes can be read\<close>

lemma readable_builders [simp]:
  "readable (strs_json xs)" "readable (time_json t)" "readable (money_json m)" "readable (payment_json p)"
  "readable (order_json d)" "readable (refund_json r)" "readable (coverage_json c)"
  "readable (money_opt_json v)" "readable (proposal_json q)"
  by (simp_all add: strs_json_def time_json_def money_json_def payment_json_def order_json_def refund_json_def
      coverage_json_def money_opt_json_def proposal_json_def opt_json_def list_all_iff split: option.split)

text \<open>Facts: distinct members besides those of the header of the evidence.\<close>

definition HEADER :: "string list" where
  "HEADER = [''schema_version'', ''rule_version'', ''match_version'', ''policy_version'', ''coverage'']"

definition factual :: "(string \<times> json) list \<Rightarrow> bool" where
  "factual facts \<longleftrightarrow> distinct (HEADER @ map fst facts) \<and> list_all (\<lambda>(k, v). readable v) facts"

lemma factual_order_facts: "factual (order_facts s d grp)"
  by (simp add: factual_def HEADER_def order_facts_def list_all_iff)

lemma factual_refund_facts: "factual (refund_facts s d grp)"
  by (simp add: factual_def HEADER_def order_facts_def refund_facts_def list_all_iff)

lemma factual_due: "due s c \<Longrightarrow> factual (dr_facts c)"
proof (induction rule: due.induct)
  case (unpaid d p) then show ?case by (simp add: factual_order_facts)
next
  case (duplicate d) then show ?case by (simp add: factual_order_facts)
next
  case (mismatch d p) then show ?case by (simp add: factual_order_facts)
next
  case (only_stripe d) then show ?case by (simp add: factual_refund_facts)
next
  case (only_woo d) then show ?case by (simp add: factual_refund_facts)
next
  case (refund_mismatch d) then show ?case by (simp add: factual_refund_facts)
qed (simp_all add: factual_def HEADER_def order_facts_def list_all_iff)

lemma factual_expected: "c \<in> expected s \<Longrightarrow> factual (dr_facts c)"
proof (cases "trusted s")
  case False
  moreover assume "c \<in> expected s"
  ultimately show ?thesis by (auto simp: expected_def source_findings_def factual_def HEADER_def split: if_splits)
qed (simp add: expected_def factual_due)

lemma readable_evidence: "factual facts \<Longrightarrow> readable (evidence_json s facts)"
  by (simp add: factual_def HEADER_def evidence_json_def list_all_iff)

text \<open>The evidence of every proposal is read back as an object.\<close>

lemma proposal_evidence_read:
  assumes "evaluate H s = Inr ev" "p \<in> set (ev_proposals ev)"
  shows "\<exists>kvs. loads (prop_evidence p) = Inr (JObj kvs)"
proof -
  obtain c where c: "c \<in> expected s" "p = propose H s c"
    using assms by (auto simp: expected_evaluate)
  have "loads (prop_evidence p) = Inr (sorted_members (evidence_json s (dr_facts c)))"
    unfolding c propose_def mk_proposal_def Let_def
    by (simp add: canonical_def loads_dumps readable_evidence factual_expected[OF c(1)])
  then show ?thesis by (simp add: evidence_json_def)
qed

section \<open>The steps of a run do not fail\<close>

lemma new_run_total: "\<exists>r. new_run i s now snap ev = Inr r"
proof -
  have "\<exists>v. loads (canonical (JList (map coverage_json cs))) = Inr v" for cs
    unfolding canonical_def by (subst loads_dumps) (simp_all add: list_all_iff)
  moreover have "\<exists>v. loads (canonical (JList (map proposal_json ps))) = Inr v" for ps
    unfolding canonical_def by (subst loads_dumps) (simp_all add: list_all_iff)
  ultimately show ?thesis unfolding new_run_def by (metis rbind_simps(2))
qed

lemma add_event_total: "\<exists>e d'. add_event now f t p a run msg d = Inr (e, d')"
  by (simp add: add_event_def Let_def tbind_def enqueue_eq split: prod.split)

lemma after_event_total: "(\<And>d. \<exists>d'. k d = Inr ((), d')) \<Longrightarrow> \<exists>d'. tbind (add_event now f t p a run msg) (\<lambda>_. k) d = Inr ((), d')"
  using add_event_total[of now f t p a run msg d] by (auto simp: tbind_def)

lemma apply_proposal_total:
  assumes "loads (prop_evidence p) = Inr (JObj kvs)"
  shows "\<exists>d'. apply_proposal H s now run p d = Inr ((), d')"
  using assms by (auto simp: apply_proposal_def dict_of_json_def Let_def after_event_total split: prod.splits)

lemma miss_finding_total: "\<exists>d'. miss_finding ev c now run f d = Inr ((), d')"
  by (simp add: miss_finding_def Let_def after_event_total)

lemma tfor_total: "(\<And>x d. x \<in> set xs \<Longrightarrow> \<exists>d'. f x d = Inr ((), d')) \<Longrightarrow> \<exists>d'. tfor f xs d = Inr ((), d')"
proof (induction xs arbitrary: d)
  case (Cons x xs)
  obtain d1 where "f x d = Inr ((), d1)" using Cons.prems[of x d] by auto
  moreover obtain d2 where "tfor f xs d1 = Inr ((), d2)" using Cons.IH[of d1] Cons.prems by auto
  ultimately show ?case by (auto simp: tbind_def)
qed simp

lemma recorded_run:
  assumes "get_row ''Store'' (\<lambda>s. sto_id s = store \<and> sto_active s) (db_stores d) = Inr s"
    and "build_snapshot s now d = Inr snap" and "evaluate H snap = Inr ev"
  shows "\<exists>run d'. reconcile H now store d = Inr (run, d') \<and> run \<in> set (db_runs d') \<and>
    run_store run = sto_id s \<and> run_digest run = ev_digest ev \<and> run_policy_version run = sto_policy_version s"
proof -
  obtain run where run: "new_run (db_next d) s now snap ev = Inr run" using new_run_total by blast
  define d1 where "d1 = d\<lparr>db_next := db_next d + 1, db_runs := db_runs d @ [run]\<rparr>"
  have cols: "run_store run = sto_id s" "run_digest run = ev_digest ev" "run_policy_version run = sto_policy_version s"
    using run by (auto simp: new_run_def)
  obtain d2 where d2: "tfor (apply_proposal H s now (run_id run)) (ev_proposals ev) d1 = Inr ((), d2)"
    using tfor_total[of "ev_proposals ev"] proposal_evidence_read[OF assms(3)] apply_proposal_total by meson
  obtain d3 where d3: "miss_all s (map prop_key (ev_proposals ev)) ev (coverage_digest H snap) now (run_id run) d2 = Inr ((), d3)"
    unfolding miss_all_def using tfor_total miss_finding_total by meson
  define d' where "d' = (if sto_shadow s then d1 else d3)"
  have r: "reconcile H now store d = Inr (run, d')"
    using assms run d2 d3 by (simp add: reconcile_def d1_def[symmetric] d'_def tbind_def)
  moreover have "extends d1 d2"
    by (rule tfor_invariant[OF d2]) (auto dest!: apply_proposal_extends intro: extends_trans)
  moreover have "extends d2 d3"
    by (rule tfor_invariant[OF d3[unfolded miss_all_def]]) (auto dest!: miss_finding_extends intro: extends_trans)
  ultimately have "set (db_runs d1) \<subseteq> set (db_runs d')"
    by (auto simp: d'_def extends_iff dest!: set_mono_prefix)
  then show ?thesis using r cols by (auto simp: d1_def)
qed

text \<open>C13: Once the snapshot of an active store has been built and evaluated, the run is recorded: no
  later step raises, in particular none that reads back the JSON the engine wrote. The new row carries
  the digest of the evaluation and the version of the policy that was used.\<close>

theorem evaluated_run_is_recorded:
  assumes "get_row ''Store'' (\<lambda>s. sto_id s = store \<and> sto_active s) (db_stores d) = Inr s"
    and "build_snapshot s now d = Inr snap" and "evaluate H snap = Inr ev"
  shows "\<exists>run d'. reconcile H now store d = Inr (run, d') \<and> run \<in> set (db_runs d') \<and>
    run_store run = sto_id s \<and> run_digest run = ev_digest ev \<and> run_policy_version run = sto_policy_version s"
  by (rule recorded_run[OF assms])

text \<open>A run on the example, whose connectors were never read: the finding about stale sources is opened.\<close>

lemma ex_evaluated:
  "\<exists>snap ev. build_snapshot ex_store 100000000000 ex_db = Inr snap \<and> evaluate H snap = Inr ev \<and> ev_proposals ev \<noteq> []"
proof -
  have "yields (map_sum id (\<lambda>s. (s, validate_snapshot s)) (build_snapshot ex_store 100000000000 ex_db))
      (\<lambda>s r. r = Inr () \<and> stale_sources s \<noteq> [] \<and> ''PI-009'' \<in> set (enabled_rules s) \<and> snap_orders s = [])"
    by code_simp
  then obtain snap where b: "build_snapshot ex_store 100000000000 ex_db = Inr snap" and w: "well_formed snap" and
    u: "stale_sources snap \<noteq> []" and r: "''PI-009'' \<in> set (enabled_rules snap)" and o: "snap_orders snap = []"
    by (cases "build_snapshot ex_store 100000000000 ex_db") (auto simp: yields_def well_formed_def)
  have "evaluate H snap \<noteq> Inl e" for e using evaluate_error[OF w, of H e] o u by (auto simp: trusted_def)
  then obtain ev where e: "evaluate H snap = Inr ev" by (cases "evaluate H snap") auto
  have "set (ev_proposals ev) \<noteq> {}"
    using r u unfolding expected_evaluate[OF e] by (auto simp: expected_def trusted_def source_findings_def)
  then show ?thesis using b e by auto
qed

lemma ex_store_found: "get_row ''Store'' (\<lambda>s. sto_id s = 11 \<and> sto_active s) (db_stores ex_db) = Inr ex_store"
  by (simp add: get_row_def ex_db_def ex_store_def)

theorem evaluated_run_is_recorded_witness:
  "\<exists>run d'. reconcile id 100000000000 11 ex_db = Inr (run, d') \<and> run \<in> set (db_runs d') \<and> run_policy_version run = 1"
proof -
  obtain snap ev where "build_snapshot ex_store 100000000000 ex_db = Inr snap" "evaluate id snap = Inr ev"
    using ex_evaluated[of id] by blast
  from evaluated_run_is_recorded[OF ex_store_found this] show ?thesis by (auto simp: ex_store_def)
qed

end
