(* ===== verification/Dashboard_Props.thy ===== *)
theory Dashboard_Props imports Dashboard Run_Total begin

text \<open>
  The page of a finding never fails on the evidence that the engine wrote: every fact it compares is
  shown with the amount that the snapshot had.
\<close>

section \<open>Members of an object that was written and read back\<close>

definition sorted_dict :: "dict \<Rightarrow> dict" where
  "sorted_dict kvs = sort_key fst (map (\<lambda>(k, v). (k, sorted_members v)) kvs)"

lemma sorted_object: "sorted_members (JObj kvs) = JObj (sorted_dict kvs)"
  by (simp add: sorted_dict_def)

lemma map_of_sorted: "distinct (map fst kvs) \<Longrightarrow> map_of (sort_key fst kvs) = map_of kvs" for kvs :: dict
  by (rule mset_map_of[symmetric]) simp_all

lemma sorted_get:
  assumes "distinct (map fst kvs)"
  shows "dict_get (sorted_dict kvs) k = map_option sorted_members (dict_get kvs k)"
proof -
  let ?ks = "map (\<lambda>(k, v). (k, sorted_members v)) kvs"
  have "map fst ?ks = map fst kvs" by (simp add: comp_def case_prod_beta')
  then have "map_of (sort_key fst ?ks) = map_of ?ks" using assms map_of_sorted by metis
  then show ?thesis by (simp add: dict_get_def sorted_dict_def map_of_map[unfolded case_prod_beta'] case_prod_beta')
qed

lemma sorted_keys: "fst ` set (sorted_dict kvs) = fst ` set kvs"
  by (force simp: sorted_dict_def)

lemma sorted_Nil: "sorted_dict kvs = [] \<longleftrightarrow> kvs = []"
proof -
  have "length (sorted_dict kvs) = length kvs" by (simp add: sorted_dict_def)
  then show ?thesis by (metis length_0_conv)
qed

section \<open>One fact\<close>

lemma money_shown:
  assumes "valid_money m"
  shows "amount_text (sorted_members (money_json m)) = Inr (Some (currency m @ '' '' @ decimal m))"
proof -
  let ?kvs = "[(''minor'', JInt (minor m)), (''currency'', JStr (currency m)), (''exponent'', JInt (exponent m))]"
  have get: "dict_get (sorted_dict ?kvs) k = map_option sorted_members (dict_get ?kvs k)" for k by (rule sorted_get) simp
  have keys: "fst ` set (sorted_dict ?kvs) = {''minor'', ''currency'', ''exponent''}" by (auto simp: sorted_keys)
  have "sorted_dict ?kvs \<noteq> []" unfolding sorted_Nil by simp
  moreover have "dict_get (sorted_dict ?kvs) ''minor'' = Some (JInt (minor m))"
    "dict_get (sorted_dict ?kvs) ''currency'' = Some (JStr (currency m))"
    "dict_get (sorted_dict ?kvs) ''exponent'' = Some (JInt (exponent m))"
    unfolding get by (simp_all add: dict_get_def)
  ultimately show ?thesis using keys mk_money_roundtrip[OF assms]
    unfolding money_json_def sorted_object amount_text_def money_of_members_def dict_of_json_def dict_at_def by simp
qed

definition row_of :: "string \<Rightarrow> string \<Rightarrow> string \<Rightarrow> money \<Rightarrow> datetime \<Rightarrow> comparison_row" where
  "row_of source identity status m changed = \<lparr>cr_source = source, cr_identity = JStr identity,
     cr_status = replace_char (CHR ''_'') (CHR '' '') status, cr_amount = Some (currency m @ '' '' @ decimal m),
     cr_changed = time_json changed\<rparr>"

lemma fact_shown:
  assumes "distinct (map fst kvs)" and "valid_money m"
    and "dict_get kvs ''id'' = Some (JStr i)" "dict_get kvs ''status'' = Some (JStr st)"
    and "dict_get kvs (if source = ''Stripe payment'' then ''received'' else ''amount'') = Some (money_json m)"
    and "dict_get kvs ''changed_at'' = Some (time_json t)"
  shows "comparison_of (source, sorted_members (JObj kvs)) = Inr (row_of source i st m t)"
  using assms unfolding sorted_object comparison_of_def
  by (simp add: attr_dict_def dict_get_or_def dict_at_def spaced_def sorted_get money_shown row_of_def time_json_def)

lemma payment_shown:
  "valid_money (pay_received p) \<Longrightarrow> comparison_of (''Stripe payment'', sorted_members (payment_json p)) =
     Inr (row_of ''Stripe payment'' (pay_id p) (pay_status p) (pay_received p) (pay_changed p))"
  unfolding payment_json_def by (rule fact_shown) (simp_all add: dict_get_def)

lemma order_shown:
  "valid_money (ord_amount d) \<Longrightarrow> comparison_of (''Woo order'', sorted_members (order_json d)) =
     Inr (row_of ''Woo order'' (ord_id d) (ord_status d) (ord_amount d) (ord_changed d))"
  unfolding order_json_def by (rule fact_shown) (simp_all add: dict_get_def)

lemma refund_shown:
  "valid_money (ref_amount r) \<Longrightarrow> source \<in> {''Stripe refund'', ''Woo refund''} \<Longrightarrow>
     comparison_of (source, sorted_members (refund_json r)) =
     Inr (row_of source (ref_id r) (ref_status r) (ref_amount r) (ref_changed r))"
  unfolding refund_json_def by (rule fact_shown) (auto simp: dict_get_def)

section \<open>The facts of a finding\<close>

text \<open>The members that the page compares are orders, payments and refunds of the snapshot.\<close>

definition presentable :: "snapshot \<Rightarrow> string \<times> json \<Rightarrow> bool" where
  "presentable s kv \<longleftrightarrow>
     (fst kv = ''order'' \<longrightarrow> (\<exists>d \<in> set (snap_orders s). snd kv = order_json d)) \<and>
     (fst kv = ''payments'' \<longrightarrow> (\<exists>ps. set ps \<subseteq> set (snap_payments s) \<and> snd kv = JList (map payment_json ps))) \<and>
     (fst kv = ''payment'' \<longrightarrow> (\<exists>p \<in> set (snap_payments s). snd kv = payment_json p)) \<and>
     (fst kv \<in> {''stripe_refunds'', ''woo_refunds''} \<longrightarrow> (\<exists>rs. set rs \<subseteq> set (snap_refunds s) \<and> snd kv = JList (map refund_json rs)))"

lemma presentable_other:
  "k \<notin> {''order'', ''payments'', ''payment'', ''stripe_refunds'', ''woo_refunds''} \<Longrightarrow> presentable s (k, v)"
  by (auto simp: presentable_def)

lemma presentable_order_facts:
  assumes "well_formed s" "d \<in> set (snap_orders s)"
  shows "list_all (presentable s) (order_facts s d (group_of s d))"
proof -
  have "set (group_of s d) \<subseteq> set (snap_payments s)"
    using set_group_of(1)[OF well_formedD(1)[OF assms(1)], of d] by (auto simp: linked_def)
  then show ?thesis using assms(2) by (auto simp: order_facts_def presentable_def)
qed

lemma presentable_refund_facts:
  assumes "well_formed s" "d \<in> set (snap_orders s)"
  shows "list_all (presentable s) (refund_facts s d (group_of s d))"
proof -
  have "set (stripe_refunds s grp) \<subseteq> set (snap_refunds s)" "set (woo_refunds s d) \<subseteq> set (snap_refunds s)" for grp
    by (auto simp: stripe_refunds_def woo_refunds_def)
  then show ?thesis using presentable_order_facts[OF assms] unfolding refund_facts_def by (auto simp: presentable_def)
qed

lemma audited_order: "auditable s d \<Longrightarrow> d \<in> set (snap_orders s)" "comparable s d \<Longrightarrow> d \<in> set (snap_orders s)"
  "refunds_settled s d \<Longrightarrow> d \<in> set (snap_orders s)"
  by (auto simp: comparable_def refunds_settled_def dest: auditable_order)

lemma presentable_due: "due s c \<Longrightarrow> well_formed s \<Longrightarrow> list_all (presentable s) (dr_facts c)"
proof (induction rule: due.induct)
  case (unattached p) then show ?case by (auto simp: presentable_def unclaimed_def)
next
  case (conflict d) then show ?case by (auto simp: presentable_def)
next
  case (unfunded d) then show ?case using presentable_order_facts[of s d] audited_order[of s d] by (simp add: presentable_other)
next
  case (refund_currency d)
  then show ?case using presentable_order_facts[of s d] audited_order[of s d] by (simp add: presentable_other)
qed (simp_all add: presentable_order_facts presentable_refund_facts audited_order, simp add: presentable_def)

lemma presentable_expected: "c \<in> expected s \<Longrightarrow> well_formed s \<Longrightarrow> list_all (presentable s) (dr_facts c)"
  by (auto simp: expected_def source_findings_def presentable_due presentable_def split: if_splits)

section \<open>The page of a finding\<close>

definition valid_amounts :: "snapshot \<Rightarrow> bool" where
  "valid_amounts s \<longleftrightarrow> (\<forall>m \<in> pay_received ` set (snap_payments s) \<union> ord_amount ` set (snap_orders s) \<union>
     ref_amount ` set (snap_refunds s). valid_money m)"

definition shows_amount :: "snapshot \<Rightarrow> comparison_row \<Rightarrow> bool" where
  "shows_amount s row \<longleftrightarrow> (\<exists>m \<in> pay_received ` set (snap_payments s) \<union> ord_amount ` set (snap_orders s) \<union>
     ref_amount ` set (snap_refunds s). cr_amount row = Some (currency m @ '' '' @ decimal m))"

lemma map_res_all: "(\<And>x. x \<in> set xs \<Longrightarrow> \<exists>y. f x = Inr y \<and> P y) \<Longrightarrow> \<exists>ys. map_res f xs = Inr ys \<and> (\<forall>y \<in> set ys. P y)"
proof (induction xs)
  case (Cons x xs)
  then obtain y ys where "f x = Inr y" "P y" "map_res f xs = Inr ys" "\<forall>y \<in> set ys. P y" by (metis list.set_intros)
  then show ?case by simp
qed simp

lemma sources_shown:
  assumes facts: "distinct (map fst facts)" "list_all (presentable s) facts" and valid: "valid_amounts s"
  shows "\<exists>rows. comparison_rows (sorted_dict facts) = Inr rows \<and> (\<forall>row \<in> set rows. shows_amount s row)"
proof -
  note get = sorted_get[OF facts(1)]
  have member: "presentable s (k, v)" if "dict_get facts k = Some v" for k v
    using that facts(2) by (auto simp: dict_get_def list_all_iff dest: map_of_SomeD)
  have list: "\<exists>vs. listed (sorted_dict facts) k label = Inr (map (\<lambda>x. (label, sorted_members (f x))) vs) \<and> set vs \<subseteq> R"
    if built: "\<And>v. dict_get facts k = Some v \<Longrightarrow> \<exists>xs. set xs \<subseteq> R \<and> v = JList (map f xs)" for k label f R
  proof (cases "dict_get facts k")
    case None
    then show ?thesis by (auto simp: listed_def get dict_get_or_def iterated_def intro: exI[of _ "[]"])
  next
    case (Some v)
    then obtain xs where "set xs \<subseteq> R" "v = JList (map f xs)" using built[OF Some] by blast
    then show ?thesis using Some by (auto simp: listed_def get dict_get_or_def iterated_def intro!: exI[of _ xs])
  qed
  obtain ps where ps: "listed (sorted_dict facts) ''payments'' ''Stripe payment'' =
      Inr (map (\<lambda>x. (''Stripe payment'', sorted_members (payment_json x))) ps)" "set ps \<subseteq> set (snap_payments s)"
    using list[of "''payments''" "set (snap_payments s)" payment_json "''Stripe payment''"] member[of "''payments''"]
    unfolding presentable_def by fastforce
  obtain rs where rs: "listed (sorted_dict facts) ''stripe_refunds'' ''Stripe refund'' =
      Inr (map (\<lambda>x. (''Stripe refund'', sorted_members (refund_json x))) rs)" "set rs \<subseteq> set (snap_refunds s)"
    using list[of "''stripe_refunds''" "set (snap_refunds s)" refund_json "''Stripe refund''"] member[of "''stripe_refunds''"]
    unfolding presentable_def by fastforce
  obtain ws where ws: "listed (sorted_dict facts) ''woo_refunds'' ''Woo refund'' =
      Inr (map (\<lambda>x. (''Woo refund'', sorted_members (refund_json x))) ws)" "set ws \<subseteq> set (snap_refunds s)"
    using list[of "''woo_refunds''" "set (snap_refunds s)" refund_json "''Woo refund''"] member[of "''woo_refunds''"]
    unfolding presentable_def by fastforce
  have single: "x \<in> set (single (sorted_dict facts) k label) \<Longrightarrow> \<exists>v. dict_get facts k = Some v \<and> x = (label, sorted_members v)" for x k label
    by (auto simp: single_def Let_def dict_get_or_def get split: if_splits option.splits)
  have shown: "\<exists>row. comparison_of x = Inr row \<and> shows_amount s row"
    if x: "x \<in> set (single (sorted_dict facts) ''order'' ''Woo order'' @
        map (\<lambda>x. (''Stripe payment'', sorted_members (payment_json x))) ps @
        single (sorted_dict facts) ''payment'' ''Stripe payment'' @
        map (\<lambda>x. (''Stripe refund'', sorted_members (refund_json x))) rs @
        map (\<lambda>x. (''Woo refund'', sorted_members (refund_json x))) ws)" for x
  proof -
    have payment: ?thesis if "p \<in> set (snap_payments s)" "x = (''Stripe payment'', sorted_members (payment_json p))" for p
      using that valid payment_shown[of p] by (auto simp: valid_amounts_def shows_amount_def row_of_def)
    have refund: ?thesis if "r \<in> set (snap_refunds s)" "x = (label, sorted_members (refund_json r))" "label \<in> {''Stripe refund'', ''Woo refund''}" for r label
      using that valid refund_shown[of r label] by (auto simp: valid_amounts_def shows_amount_def row_of_def)
    have order: ?thesis if "d \<in> set (snap_orders s)" "x = (''Woo order'', sorted_members (order_json d))" for d
      using that valid order_shown[of d] by (auto simp: valid_amounts_def shows_amount_def row_of_def)
    consider "x \<in> set (single (sorted_dict facts) ''order'' ''Woo order'')"
      | "x \<in> set (single (sorted_dict facts) ''payment'' ''Stripe payment'')"
      | p where "p \<in> set ps" "x = (''Stripe payment'', sorted_members (payment_json p))"
      | r where "r \<in> set rs" "x = (''Stripe refund'', sorted_members (refund_json r))"
      | r where "r \<in> set ws" "x = (''Woo refund'', sorted_members (refund_json r))" using x by auto
    then show ?thesis
    proof cases
      case 1
      from single[OF 1] obtain v where v: "dict_get facts ''order'' = Some v" "x = (''Woo order'', sorted_members v)" by blast
      from member[OF v(1)] obtain y where "y \<in> set (snap_orders s)" "v = order_json y" by (auto simp: presentable_def)
      then show ?thesis using order v by blast
    next
      case 2
      from single[OF 2] obtain v where v: "dict_get facts ''payment'' = Some v" "x = (''Stripe payment'', sorted_members v)" by blast
      from member[OF v(1)] obtain y where "y \<in> set (snap_payments s)" "v = payment_json y" by (auto simp: presentable_def)
      then show ?thesis using payment v by blast
    qed (use payment refund ps(2) rs(2) ws(2) in blast)+
  qed
  show ?thesis unfolding comparison_rows_def comparison_sources_def ps(1) rs(1) ws(1) rbind_simps
    by (rule map_res_all) (rule shown)
qed

definition header :: "snapshot \<Rightarrow> dict" where
  "header s = [
     (''schema_version'', JStr ''1.0''), (''rule_version'', JStr ''1.0.0''),
     (''match_version'', JStr ''1.0.0''), (''policy_version'', JInt (pol_version (snap_policy s))),
     (''coverage'', JList (map coverage_json (sort_key cov_source (snap_coverage s))))]"

lemma evidence_read:
  assumes "evaluate H s = Inr ev" and "p \<in> set (ev_proposals ev)"
  obtains facts where "loads (prop_evidence p) = Inr (JObj (sorted_dict (header s @ facts)))"
    "distinct (map fst (header s @ facts))" "list_all (presentable s) (header s @ facts)" "prop_rule p \<in> fst ` set PLAYBOOKS"
proof -
  obtain c where c: "c \<in> expected s" "p = propose H s c"
    using assms by (auto simp: expected_evaluate)
  have "loads (prop_evidence p) = Inr (sorted_members (evidence_json s (dr_facts c)))"
    unfolding c propose_def mk_proposal_def Let_def
    by (simp add: canonical_def loads_dumps readable_evidence factual_expected[OF c(1)])
  moreover have "sorted_members (evidence_json s (dr_facts c)) = JObj (sorted_dict (header s @ dr_facts c))"
    by (simp only: evidence_json_def header_def sorted_object)
  moreover have "distinct (map fst (header s @ dr_facts c))"
    using factual_expected[OF c(1)] by (simp add: factual_def HEADER_def header_def)
  moreover have "list_all (presentable s) (header s @ dr_facts c)"
    using presentable_expected[OF c(1) evaluate_well_formed[OF assms(1)]] by (simp add: header_def presentable_other)
  moreover have "prop_rule p \<in> fst ` set PLAYBOOKS"
    using expected_rules[OF c(1)] unfolding c(2) propose_def mk_proposal_def Let_def by (auto simp: RULE_CODES_eq PLAYBOOKS_def)
  ultimately show thesis using that by simp
qed

text \<open>The framework reads back the ISO texts of the times of a coverage.\<close>

definition reads_times :: "dashboard_env \<Rightarrow> coverage \<Rightarrow> bool" where
  "reads_times de c \<longleftrightarrow> (\<forall>t \<in> {cov_through c, cov_observed c}. dv_datetime de (isoformat t) = Inr (Some t))"

lemma coverage_shown:
  assumes "reads_times de c"
  shows "\<exists>row. coverage_row_of de (sorted_members (coverage_json c)) = Inr row \<and>
    cw_through row = Some (cov_through c) \<and> cw_observed row = Some (cov_observed c)"
proof -
  let ?kvs = "[(''source'', JStr (cov_source c)), (''covered_from'', time_json (cov_from c)),
     (''covered_through'', time_json (cov_through c)), (''observed_at'', time_json (cov_observed c)),
     (''complete'', JBool (cov_complete c)), (''clock_offset_seconds'', JInt (cov_offset c))]"
  have get: "dict_get (sorted_dict ?kvs) k = map_option sorted_members (dict_get ?kvs k)" for k by (rule sorted_get) simp
  have json: "sorted_members (coverage_json c) = JObj (sorted_dict ?kvs)" by (simp only: coverage_json_def sorted_object)
  have "dict_get (sorted_dict ?kvs) ''source'' = Some (JStr (cov_source c))"
    "dict_get (sorted_dict ?kvs) ''covered_through'' = Some (JStr (isoformat (cov_through c)))"
    "dict_get (sorted_dict ?kvs) ''observed_at'' = Some (JStr (isoformat (cov_observed c)))"
    unfolding get by (simp_all add: dict_get_def time_json_def)
  then show ?thesis unfolding json coverage_row_of_def spaced_def text_member_def dict_of_json_def dict_at_def
    using assms by (simp add: reads_times_def)
qed

lemma row_amounts:
  "payment_row account mode rows x = Inr q \<Longrightarrow> valid_money (pay_received q)"
  "order_row st x = Inr r \<Longrightarrow> valid_money (ord_amount r)"
  "refund_row x = Inr v \<Longrightarrow> valid_money (ref_amount v)"
  by (auto simp: payment_row_def order_row_def refund_row_def row_money_def mk_payment_def mk_order_def mk_refund_def
      dest: mk_money_valid)

lemma built_amounts:
  assumes "build_snapshot st now d = Inr s"
  shows "valid_amounts s"
proof -
  obtain payments orders refunds account mode rows xs ys zs where
    "map_res (payment_row account mode rows) xs = Inr payments" "map_res (order_row st) ys = Inr orders"
    "map_res refund_row zs = Inr refunds"
    "snap_payments s = payments" "snap_orders s = orders" "snap_refunds s = refunds"
    using assms unfolding build_snapshot_def Let_def
    by - ((erule rbindE)+, drule sum.inject(2)[THEN iffD1], rule that, assumption+, (hypsubst, rule snapshot.select_convs)+)
  note snap = this
  have "\<forall>q \<in> set payments. valid_money (pay_received q)" "\<forall>q \<in> set orders. valid_money (ord_amount q)"
    "\<forall>q \<in> set refunds. valid_money (ref_amount q)"
    using map_res_set[OF snap(1)] map_res_set[OF snap(2)] map_res_set[OF snap(3)] row_amounts by meson+
  then show ?thesis unfolding valid_amounts_def snap(4-6) by blast
qed

lemma map_res_map: "(\<And>x. x \<in> set xs \<Longrightarrow> \<exists>y. f (g x) = Inr y \<and> h y = k x) \<Longrightarrow> \<exists>ys. map_res f (map g xs) = Inr ys \<and> map h ys = map k xs"
proof (induction xs)
  case (Cons x xs)
  then obtain y ys where "f (g x) = Inr y" "h y = k x" "map_res f (map g xs) = Inr ys" "map h ys = map k xs" by (metis list.set_intros)
  then show ?case by simp
qed simp


section \<open>A finding about stale sources\<close>

definition ex_cursor :: cursor where
  "ex_cursor = \<lparr>cur_id = 31, cur_org = 7, cur_connector = 21, cur_class = ''woo_orders'', cur_from = Some 0, cur_through = Some 1000000,
     cur_observed = Some 1000000, cur_complete = True, cur_scan = None, cur_scan_from = None, cur_scan_through = None,
     cur_next_page = 1, cur_failed = False, cur_updated = 0, cur_lock = 0\<rparr>"

definition ex_covered_db :: db where "ex_covered_db = ex_db\<lparr>db_cursors := [ex_cursor]\<rparr>"

definition ex_read_time :: "string \<Rightarrow> datetime option result" where
  "ex_read_time s = Inr (case timestamp (JStr (take (length s - 6) s @ ''Z'')) of Inr t \<Rightarrow> Some t | Inl e \<Rightarrow> None)"

definition ex_dashboard :: dashboard_env where
  "ex_dashboard = \<lparr>dv_now = 100000000000, dv_public_url = ''https://x'', dv_int = int10, dv_datetime = ex_read_time,
     dv_render = (\<lambda>c d. Inr [])\<rparr>"

definition ex_shown :: "dict \<Rightarrow> string \<Rightarrow> finding" where
  "ex_shown evidence rule = \<lparr>fin_id = 61, fin_org = 7, fin_store = 11, fin_mode = ''test'', fin_key = [], fin_rule = rule,
     fin_rule_version = [], fin_policy_version = 1, fin_severity = ''high'', fin_state = ''open'', fin_identities = [],
     fin_risk = None, fin_currency = [], fin_exponent = 0, fin_confidence = 100, fin_first_seen = 0, fin_last_seen = 0,
     fin_eligible = 0, fin_occurrences = 1, fin_evidence = evidence, fin_evidence_hash = [], fin_suppressed_until = None,
     fin_clean_since = None, fin_clean_digest = [], fin_resolved = None, fin_updated = 0, fin_lock = 0\<rparr>"

lemma ex_covered_evaluated:
  "\<exists>s ev. build_snapshot ex_store 100000000000 ex_covered_db = Inr s \<and> evaluate H s = Inr ev \<and> ev_proposals ev \<noteq> [] \<and>
     map cov_through (snap_coverage s) = [1000000] \<and> (\<forall>c \<in> set (snap_coverage s). reads_times ex_dashboard c)"
proof -
  have "yields (map_sum id (\<lambda>s. (s, validate_snapshot s)) (build_snapshot ex_store 100000000000 ex_covered_db))
      (\<lambda>s r. r = Inr () \<and> stale_sources s \<noteq> [] \<and> ''PI-009'' \<in> set (enabled_rules s) \<and> snap_orders s = [] \<and>
        map cov_through (snap_coverage s) = [1000000] \<and> map cov_observed (snap_coverage s) = [1000000])"
    by code_simp
  then obtain s where b: "build_snapshot ex_store 100000000000 ex_covered_db = Inr s" and w: "well_formed s" and
    u: "stale_sources s \<noteq> []" and r: "''PI-009'' \<in> set (enabled_rules s)" and o: "snap_orders s = []" and
    c: "map cov_through (snap_coverage s) = [1000000]" "map cov_observed (snap_coverage s) = [1000000]"
    by (cases "build_snapshot ex_store 100000000000 ex_covered_db") (auto simp: yields_def well_formed_def)
  have "evaluate H s \<noteq> Inl e" for e using evaluate_error[OF w, of H e] o u by (auto simp: trusted_def)
  then obtain ev where e: "evaluate H s = Inr ev" by (cases "evaluate H s") auto
  have "set (ev_proposals ev) \<noteq> {}"
    using r u unfolding expected_evaluate[OF e] by (auto simp: expected_def trusted_def source_findings_def)
  moreover have "ex_read_time (isoformat 1000000) = Inr (Some 1000000)" by code_simp
  then have "\<forall>x \<in> set (snap_coverage s). reads_times ex_dashboard x"
    using c by (auto simp: reads_times_def ex_dashboard_def)
  ultimately show ?thesis using b e c(1) by auto
qed


end
