(* ===== verification/Api_Ledger.thy ===== *)
theory Api_Ledger imports Ledger Api_Members begin

text \<open>
  Every page of the control plane keeps the ledger: it extends the immutable tables, removes no row of
  the outbox, and leaves the findings coherent with their events.
\<close>

section \<open>Shared parts\<close>

lemma managed_keeps [keeps_intros]: "ledger.keeps (managed ae vc a roles)"
  unfolding managed_def by (rule ledger.keeps_simple)

lemma note_audit_keeps [keeps_intros]: "ledger.keeps (note_audit ae vc org n r det)"
  unfolding note_audit_def by (intro ignore_keeps audit_keeps)

section \<open>What a page does to the tables\<close>

text \<open>The policy of every store is one the engine accepts, and every member has a key of its own.\<close>

definition store_ok :: "store \<Rightarrow> bool" where
  "store_ok s \<longleftrightarrow> (\<exists>p. store_policy s = Inr p)"

definition sound :: "db \<Rightarrow> bool" where
  "sound d \<longleftrightarrow> (\<forall>s \<in> set (db_stores d). store_ok s) \<and> distinct (map mem_id (db_members d)) \<and>
     (\<forall>m \<in> set (db_members d). mem_id m < db_next d)"

definition owned :: "db \<Rightarrow> bool" where
  "owned d \<longleftrightarrow> (\<exists>m \<in> set (db_members d). mem_role m = ''owner'' \<and> mem_active m)"

text \<open>A page may also change stores, members and the records of requests; it \<open>advances\<close> the tables.\<close>

definition advances :: "db \<Rightarrow> db \<Rightarrow> bool" where
  "advances d d' \<longleftrightarrow> spans d d' \<and> db_next d \<le> db_next d' \<and> (coherent d \<longrightarrow> coherent d') \<and>
     (sound d \<longrightarrow> sound d' \<and> (owned d \<longrightarrow> owned d'))"

lemma sound_same:
  assumes "db_stores d' = db_stores d" "db_members d' = db_members d" "db_next d \<le> db_next d'" "sound d"
  shows "sound d'"
  using assms by (fastforce simp: sound_def)

lemma owned_same: "db_members d' = db_members d \<Longrightarrow> owned d' = owned d"
  by (simp add: owned_def)

lemma grows_advances:
  assumes "grows d d'"
  shows "advances d d'"
proof -
  have "db_stores d' = db_stores d" "db_members d' = db_members d" "db_next d \<le> db_next d'"
    using assms by (auto simp: grows_def extends_def)
  then have "sound d \<longrightarrow> sound d'" "owned d \<longrightarrow> owned d'" using sound_same owned_same by blast+
  then show ?thesis using assms by (simp add: grows_def advances_def extends_def)
qed

lemma spans_refl: "spans d d" by (simp add: spans_def)

interpretation pages: trans_frame advances
  by unfold_locales (auto simp: advances_def spans_refl intro: spans_trans)

lemma ledger_pages: "ledger.keeps t \<Longrightarrow> pages.keeps t"
  by (rule pages.keepsI) (blast intro: grows_advances dest: ledger.keepsD)

lemma advances_change:
  assumes "db_audit d' = db_audit d" "db_observations d' = db_observations d" "db_events d' = db_events d"
    "db_runs d' = db_runs d" "db_findings d' = db_findings d" "db_pages d' = db_pages d" "db_receipts d' = db_receipts d"
    "db_outbox d' = db_outbox d" "db_next d \<le> db_next d'"
    and "sound d \<Longrightarrow> sound d'" and "sound d \<Longrightarrow> owned d \<Longrightarrow> owned d'"
  shows "advances d d'"
proof -
  have "spans d d'" using assms(1-8) by (simp add: spans_def queued_def)
  moreover have "coherent d \<longrightarrow> coherent d'" using coherent_same assms(3,5,9) by blast
  ultimately show ?thesis using assms(9-) by (simp add: advances_def)
qed

lemma advancesI:
  assumes "db_audit d' = db_audit d" "db_observations d' = db_observations d" "db_events d' = db_events d"
    "db_runs d' = db_runs d" "db_findings d' = db_findings d" "db_pages d' = db_pages d" "db_receipts d' = db_receipts d"
    "db_outbox d' = db_outbox d" "db_next d \<le> db_next d'" "db_stores d' = db_stores d" "db_members d' = db_members d"
  shows "advances d d'"
  using assms sound_same[OF assms(10,11,9)] owned_same[OF assms(11)] by (intro advances_change) auto

lemma record_response_advances: "record_response ae ap org who key r d = Inr (x, d') \<Longrightarrow> advances d d'"
  by (auto simp: record_response_def intro: advancesI split: if_splits)

lemma forget_record_advances: "advances d (forget_record r d)"
  by (auto simp: forget_record_def intro: advancesI split: option.split)

lemma idempotent_keeps:
  assumes "pages.keeps (view vc a)"
  shows "pages.keeps (idempotent ae ap view vc a)"
proof (rule pages.keepsI)
  fix d x d'
  assume "idempotent ae ap view vc a d = Inr (x, d')"
  then show "advances d d'"
  proof (cases rule: idempotentE)
    case (performed key d0 r d1)
    have "advances d d0" unfolding performed(3) by (rule forget_record_advances)
    moreover have "advances d0 d1" using pages.keepsD[OF assms performed(4)] .
    moreover have "advances d1 d'" using record_response_advances[OF performed(5)] .
    ultimately show ?thesis by (blast intro: pages.R_trans)
  qed (simp add: pages.R_refl)
qed

section \<open>Stores\<close>

lemma new_store_ok [simp]: "store_ok (new_store i org sd)"
  by (simp add: store_ok_def store_policy_def mk_policy_def new_store_def in_minutes_def minutes_def seconds_def)

lemma add_store_keeps: "pages.keeps (add_store org sd)"
proof (rule pages.keepsI)
  fix d x d'
  assume "add_store org sd d = Inr (x, d')"
  then have d: "d' = d\<lparr>db_next := db_next d + 1, db_stores := db_stores d @ [new_store (db_next d) org sd],
      db_locators := db_locators d @ [\<lparr>loc_id = db_next d, loc_org = org, loc_kind = ''store''\<rparr>]\<rparr>"
    by (auto simp: add_store_def Let_def new_store_def)
  show "advances d d'"
  proof (rule advances_change)
    show "sound d \<Longrightarrow> sound d'" by (fastforce simp: sound_def d)
  qed (simp_all add: d owned_def)
qed

lemma add_pairing_keeps [keeps_intros]: "ledger.keeps (tmodify (add_pairing ae vc s h e))"
  by (rule ledger.keeps_modify) (simp add: add_pairing_def growsI)

lemma create_store_keeps: "pages.keeps (create_store ae ap org vc a)"
  unfolding create_store_def by (intro pages.keeps_bind pages.keeps_simple add_store_keeps ledger_pages keeps_intros)

lemma issue_code_keeps [keeps_intros]: "ledger.keeps (issue_code ae ap s vc a)"
  unfolding issue_code_def Let_def by (intro ledger.frame_rules keeps_intros)

text \<open>A policy that was accepted is within the bounds of the engine.\<close>

lemma set_minutes_cases:
  "set_minutes data k low high put s = Inr s' \<Longrightarrow> s' = s \<or> (\<exists>n. low \<le> n \<and> n \<le> high \<and> s' = put n s)"
  by (auto simp: set_minutes_def split: option.splits json.splits if_splits)

definition bounded_policy :: "store \<Rightarrow> bool" where
  "bounded_policy s \<longleftrightarrow> sto_instant s \<in> {5..60} \<and> sto_async s \<in> {10..120} \<and> sto_refund s \<in> {30..120} \<and>
     sto_freshness s \<in> {5..30} \<and> set (sto_disabled s) \<subseteq> set RULE_CODES"

lemma store_ok_iff: "store_ok s \<longleftrightarrow> bounded_policy s"
  by (auto simp: store_ok_def store_policy_def mk_policy_def bounded_policy_def in_minutes_def minutes_def seconds_def guard_def)

lemma set_bounds_bounded: "set_bounds data s = Inr s' \<Longrightarrow> bounded_policy s \<Longrightarrow> bounded_policy s'"
  unfolding set_bounds_def
  by (elim rbindE; drule set_minutes_cases; drule set_minutes_cases; drule set_minutes_cases; drule set_minutes_cases)
    (auto simp: bounded_policy_def)

lemma rule_of_code: "rule_of v = Some r \<Longrightarrow> r \<in> set RULE_CODES"
  by (cases v) (auto split: if_splits)

lemma set_disabled_bounded:
  assumes "set_disabled data s = Inr s'" "bounded_policy s"
  shows "bounded_policy s'"
proof (cases "dict_get data ''disabled_rules''")
  case (Some v)
  then obtain vs where v: "v = JList vs" using assms(1) by (auto simp: set_disabled_def split: json.splits)
  have "\<forall>v \<in> set vs. \<exists>r. rule_of v = Some r" and s': "s' = s\<lparr>sto_disabled := sort (remdups (map (the \<circ> rule_of) vs))\<rparr>"
    using assms(1) Some v by (auto simp: set_disabled_def split: if_splits)
  then have "(the \<circ> rule_of) ` set vs \<subseteq> set RULE_CODES" using rule_of_code by fastforce
  then show ?thesis using assms(2) by (simp add: s' bounded_policy_def)
qed (use assms in \<open>simp add: set_disabled_def\<close>)

lemma changed_policyE:
  assumes "changed_policy now data d s = Inr s'"
  obtains s1 s2 s3 where "set_bounds data s = Inr s1" "set_disabled data s1 = Inr s2" "review now data d s2 = Inr s3"
    "check_alerts data d s3 = Inr ()"
    "s' = s3\<lparr>sto_shadow := set_flag data ''shadow_rules'' (sto_shadow s3), sto_alerts := set_flag data ''alerts_enabled'' (sto_alerts s3),
       sto_policy_version := sto_policy_version s3 + 1, sto_lock := sto_lock s3 + 1\<rparr>"
  using assms unfolding changed_policy_def by (elim rbindE) auto

lemma review_columns: "review now data d s = Inr s' \<Longrightarrow> s' = s \<or> s' = s\<lparr>sto_reviewed := Some now\<rparr>"
  by (auto simp: review_def split: if_splits)

lemma changed_policy_bounded:
  assumes "changed_policy now data d s = Inr s'" "bounded_policy s"
  shows "bounded_policy s'"
proof (rule changed_policyE[OF assms(1)])
  fix s1 s2 s3
  assume b: "set_bounds data s = Inr s1" and c: "set_disabled data s1 = Inr s2" and r: "review now data d s2 = Inr s3"
    and e: "s' = s3\<lparr>sto_shadow := set_flag data ''shadow_rules'' (sto_shadow s3), sto_alerts := set_flag data ''alerts_enabled'' (sto_alerts s3),
       sto_policy_version := sto_policy_version s3 + 1, sto_lock := sto_lock s3 + 1\<rparr>"
  have "bounded_policy s2" using set_disabled_bounded[OF c set_bounds_bounded[OF b assms(2)]] .
  then show ?thesis using review_columns[OF r] by (auto simp: e bounded_policy_def)
qed

text \<open>A completed change of the policy.\<close>

lemma policy_viewE:
  assumes "policy_view ae ap i vc a d = Inr (x, d')"
  obtains data s s' version where "payload ap POLICY_FIELDS = Inr data" "s \<in> set (db_stores d)" "sto_id s = i"
    "lock_version ap = Inr version" "sto_lock s = version" "changed_policy (ae_now ae) data d s = Inr s'"
    "note_audit ae vc (sto_org s') ''policy.updated'' (sto_id s') data (save_store s' d) = Inr ((), d')"
    "x = json_response 200 [(''policy_version'', JInt (sto_policy_version s')), (''lock_version'', JInt (sto_lock s'))]"
proof -
  have m: "managed ae vc a r d = Inr (u, d1) \<Longrightarrow> d1 = d" for r u d1 by (auto simp: managed_def)
  have g: "get_or_404 P xs = Inr s \<Longrightarrow> s \<in> set xs \<and> P s" for P and xs :: "store list" and s
    by (auto simp: get_or_404_def find_Some_iff split: option.splits)
  show thesis
    using assms unfolding policy_view_def by (elim tbindE) (auto dest!: m g intro!: that)
qed

lemma policy_view_keeps: "pages.keeps (policy_view ae ap i vc a)"
proof (rule pages.keepsI)
  fix d x d'
  assume "policy_view ae ap i vc a d = Inr (x, d')"
  then obtain data s s' where s: "s \<in> set (db_stores d)" "changed_policy (ae_now ae) data d s = Inr s'" and
    r: "note_audit ae vc (sto_org s') ''policy.updated'' (sto_id s') data (save_store s' d) = Inr ((), d')"
    by (rule policy_viewE)
  have "advances d (save_store s' d)"
  proof (rule advances_change)
    have "set (save_row sto_id s' xs) \<subseteq> insert s' (set xs)" for xs by (auto simp: save_row_def)
    moreover assume "sound d"
    moreover from this have "store_ok s'" using s changed_policy_bounded by (simp add: sound_def store_ok_iff)
    ultimately show "sound (save_store s' d)" by (auto simp: sound_def save_store_def)
  qed (simp_all add: save_store_def owned_def)
  moreover have "advances (save_store s' d) d'"
    using ledger.keepsD[OF note_audit_keeps r] by (rule grows_advances)
  ultimately show "advances d d'" by (rule pages.R_trans)
qed

section \<open>Connectors\<close>

lemma oauth_start_view_keeps [keeps_intros]: "ledger.keeps (oauth_start_view ae ap vc a)"
  unfolding oauth_start_view_def by (intro ledger.frame_rules keeps_intros)

lemma oauth_callback_view_keeps [keeps_intros]: "ledger.keeps (oauth_callback_view ae ap vc a)"
  by (rule ledger.keepsI)
    (auto simp: oauth_callback_view_def split: prod.splits sum.splits exn.splits
      dest!: ledger.akeepsD[OF oauth_callback_keeps])

lemma check_refs_keeps [keeps_intros]: "ledger.akeeps (check_refs en con token refs matched payment)"
proof (rule ledger.akeepsI)
  fix st r st'
  show "check_refs en con token refs matched payment st = (r, st') \<Longrightarrow> grows (ss_db st) (ss_db st')"
    by (induction refs arbitrary: matched payment st)
      (auto simp: Let_def split: prod.splits sum.splits exn.splits option.splits if_splits
        dest!: ledger.akeepsD[OF fetch_resource_keeps] intro: ledger.R_trans)
qed

lemma save_link_keeps [keeps_intros]: "ledger.keeps (tmodify (save_link l))"
  by (rule ledger.keeps_modify) (simp add: save_link_def growsI)

lemma link_conflict_keeps [keeps_intros]: "ledger.keeps (link_conflict ae vc s l)"
  unfolding link_conflict_def by (intro ledger.frame_rules keeps_intros)

lemma fresh_enqueue_keeps: "ledger.keeps (\<lambda>d. case fresh_id d of (i, d1) \<Rightarrow> enqueue now org t r (k i) d1)"
  by (rule ledger.keepsI) (auto simp: fresh_id_def dest!: ledger.keepsD[OF enqueue_keeps], erule grows_via, simp_all)

lemma settle_link_keeps [keeps_intros]: "ledger.keeps (settle_link ae vc s l order matched payment)"
  unfolding settle_link_def Let_def by (intro ledger.frame_rules keeps_intros fresh_enqueue_keeps)

lemma verify_link_keeps [keeps_intros]: "ledger.keeps (verify_link ae ap s vc a)"
  unfolding verify_link_def Let_def
  by (intro ledger.frame_rules keeps_intros) (auto split: option.split intro: keeps_intros)

lemma revoke_keys_keeps: "ledger.keeps (tmodify (\<lambda>d. d\<lparr>db_keys := f d\<rparr>))"
  by (rule ledger.keeps_modify) (simp add: growsI)

lemma connector_disconnect_keeps [keeps_intros]: "ledger.keeps (connector_disconnect ae ap c vc a)"
  unfolding connector_disconnect_def by (intro ledger.frame_rules keeps_intros revoke_keys_keeps)

lemma save_installation_keeps: "ledger.keeps (tmodify (\<lambda>d. d\<lparr>db_installations := f d\<rparr>))"
  by (rule ledger.keeps_modify) (simp add: growsI)

lemma webhook_secret_keeps [keeps_intros]: "ledger.keeps (webhook_secret ae ap c vc a)"
  unfolding webhook_secret_def Let_def by (intro ledger.frame_rules keeps_intros save_installation_keeps)

section \<open>Findings, runs and reports\<close>

lemma findings_view_keeps [keeps_intros]: "ledger.keeps (findings_view ae ap s vc a)"
  by (rule ledger.keepsI) (auto simp: findings_view_def Let_def)

lemma finding_action_keeps [keeps_intros]: "ledger.keeps (finding_action ae ap f n vc a)"
  unfolding finding_action_def
  by (intro ledger.frame_rules keeps_intros) (auto split: prod.split intro!: ledger.frame_rules keeps_intros simp del: trans_simps)

lemma runs_view_keeps [keeps_intros]: "ledger.keeps (runs_view vc a)"
  unfolding runs_view_def by (intro ledger.frame_rules)

lemma add_report_keeps [keeps_intros]: "ledger.keeps (add_report ae vc org s f)"
  by (rule ledger.keepsI) (auto simp: add_report_def Let_def growsI)

lemma reports_view_keeps [keeps_intros]: "ledger.keeps (reports_view ae ap vc a)"
  unfolding reports_view_def by (intro ledger.frame_rules keeps_intros)

lemma report_download_keeps [keeps_intros]: "ledger.keeps (report_download ae r vc a)"
  unfolding report_download_def by (intro ledger.frame_rules keeps_intros)

section \<open>Members and the organization\<close>

lemma add_invitation_keeps [keeps_intros]: "ledger.keeps (add_invitation ae vc org e r s)"
  by (rule ledger.keepsI) (auto simp: add_invitation_def Let_def growsI)

lemma invite_member_keeps [keeps_intros]: "ledger.keeps (invite_member ae ap org vc a)"
  unfolding invite_member_def by (intro ledger.frame_rules keeps_intros)

lemma silence_member_keeps [keeps_intros]: "ledger.keeps (silence_member m)"
  by (rule ledger.keepsI) (auto simp: silence_member_def growsI split: if_splits)

lemma changed_memberE:
  assumes "changed_member data d m = Inr m'"
  obtains "mem_role m \<noteq> ''owner''" "mem_id m' = mem_id m" "mem_role m' \<in> set MEMBER_ROLES" "mem_user m' = mem_user m"
    "mem_org m' = mem_org m"
  using assms unfolding changed_member_def check_among_def
  by (elim rbindE) (auto simp: among_def str_of_def split: json.splits)

lemma membership_changeE:
  assumes "membership_change ae ap org vc a d = Inr (x, d')"
  obtains data m m' d1 where "m \<in> set (db_members d)" "changed_member data d m = Inr m'"
    "silence_member m' (save_member m' d) = Inr ((), d1)"
    "note_audit ae vc org ''member.changed'' (mem_id m') [(''role'', JStr (mem_role m')), (''active'', JBool (mem_active m'))] d1 =
      Inr ((), d')"
proof -
  have m: "managed ae vc a r d = Inr (u, d1) \<Longrightarrow> d1 = d" for r u d1 by (auto simp: managed_def)
  have g: "named_row mem_id v P xs = Inr s \<Longrightarrow> s \<in> set xs" for v P xs s
    by (auto simp: named_row_def get_or_404_def find_Some_iff split: option.splits)
  show thesis
    using assms unfolding membership_change_def by (elim tbindE) (auto dest!: m g intro!: that)
qed

lemma save_member_advances:
  assumes "m \<in> set (db_members d)" "mem_role m \<noteq> ''owner''" "mem_id m' = mem_id m"
  shows "advances d (save_member m' d)"
proof (rule advances_change)
  assume d: "sound d"
  then show "sound (save_member m' d)"
    using assms save_row_keys[of mem_id m' "db_members d"]
    by (simp add: sound_def save_member_def) (force simp: save_row_def)
  assume "owned d"
  then obtain w where w: "w \<in> set (db_members d)" "mem_role w = ''owner''" "mem_active w" by (auto simp: owned_def)
  have "w \<noteq> m" using assms(2) w(2) by blast
  then have "mem_id w \<noteq> mem_id m'" using d w(1) assms(1,3) by (auto simp: sound_def distinct_map inj_on_def)
  then have "w \<in> set (save_row mem_id m' (db_members d))" using w(1) by (force simp: save_row_def)
  then show "owned (save_member m' d)" using w by (auto simp: owned_def save_member_def)
qed (simp_all add: save_member_def)

lemma membership_change_keeps: "pages.keeps (membership_change ae ap org vc a)"
proof (rule pages.keepsI)
  fix d x d'
  assume "membership_change ae ap org vc a d = Inr (x, d')"
  then obtain data m m' d1 where m: "m \<in> set (db_members d)" "changed_member data d m = Inr m'" and
    r: "silence_member m' (save_member m' d) = Inr ((), d1)"
      "note_audit ae vc org ''member.changed'' (mem_id m') [(''role'', JStr (mem_role m')), (''active'', JBool (mem_active m'))] d1 =
        Inr ((), d')"
    by (rule membership_changeE)
  have "advances d (save_member m' d)" using m by (auto elim!: changed_memberE intro: save_member_advances)
  moreover have "grows (save_member m' d) d'"
    using ledger.keepsD[OF silence_member_keeps r(1)] ledger.keepsD[OF note_audit_keeps r(2)] by (rule ledger.R_trans)
  ultimately show "advances d d'" by (blast intro: pages.R_trans grows_advances)
qed

lemma add_grant_keeps [keeps_intros]: "ledger.keeps (add_grant ae vc org r u m)"
  by (rule ledger.keepsI) (auto simp: add_grant_def Let_def growsI)

lemma save_grants_keeps: "ledger.keeps (tmodify (\<lambda>d. d\<lparr>db_grants := f d\<rparr>))"
  by (rule ledger.keeps_modify) (simp add: growsI)

lemma revoke_grant_keeps [keeps_intros]: "ledger.keeps (revoke_grant ae vc org i)"
  unfolding revoke_grant_def by (intro ledger.frame_rules keeps_intros save_grants_keeps)

lemma approve_grant_keeps [keeps_intros]: "ledger.keeps (approve_grant ae vc org data)"
  unfolding approve_grant_def
  by (intro ledger.frame_rules keeps_intros) (auto split: prod.split intro!: ledger.frame_rules keeps_intros simp del: trans_simps)

lemma support_grant_view_keeps [keeps_intros]: "ledger.keeps (support_grant_view ae ap org vc a)"
  unfolding support_grant_view_def Let_def
  by (intro ledger.frame_rules keeps_intros) (simp add: keeps_intros)

lemma put_route_keeps [keeps_intros]: "ledger.keeps (put_route now org e b)"
  by (rule ledger.keepsI) (auto simp: put_route_def Let_def growsI split: option.splits)

lemma alert_route_view_keeps [keeps_intros]: "ledger.keeps (alert_route_view ae ap org vc a)"
  unfolding alert_route_view_def by (intro ledger.frame_rules keeps_intros)

lemma save_org_keeps [keeps_intros]: "ledger.keeps (tmodify (save_org x))"
  by (rule ledger.keeps_modify) (simp add: save_org_def growsI)

lemma disconnect_all_keeps [keeps_intros]: "ledger.keeps (tmodify (disconnect_all now))"
  by (rule ledger.keeps_modify) (simp add: disconnect_all_def growsI)

lemma organization_delete_keeps [keeps_intros]: "ledger.keeps (organization_delete ae ap org vc a)"
  unfolding organization_delete_def by (intro ledger.frame_rules keeps_intros)

lemma organization_policy_keeps [keeps_intros]: "ledger.keeps (organization_policy ae ap org vc a)"
  unfolding organization_policy_def by (intro ledger.frame_rules keeps_intros)

section \<open>Pages\<close>

lemma page_view_keeps: "pages.keeps (page_view_of ae ap p vc a)"
  by (cases p) (simp_all add: idempotent_keeps create_store_keeps policy_view_keeps membership_change_keeps ledger_pages keeps_intros)

lemma guarded_view_keeps:
  "(\<And>vc a. pages.keeps (view vc a)) \<Longrightarrow> pages.keeps (guarded_view now view vc a)"
  unfolding guarded_view_def
  by (intro pages.keeps_bind) (auto intro!: ledger_pages keeps_intros ledger.keeps_bind ledger.keeps_simple simp del: trans_simps)

section \<open>Pages outside an organization\<close>

lemma founded_tables:
  "db_members (founded ae ap user name key email org d) = db_members d @ [\<lparr>mem_id = db_next d, mem_org = org, mem_user = user,
     mem_role = ''owner'', mem_active = True, mem_store = None, mem_lock = 0\<rparr>]"
  "db_next d < db_next (founded ae ap user name key email org d)"
  "db_stores (founded ae ap user name key email org d) = db_stores d"
  by (simp_all add: founded_def Let_def)

lemma founded_advances: "advances d (founded ae ap user name key email org d)"
proof (rule advances_change)
  show "sound d \<Longrightarrow> sound (founded ae ap user name key email org d)"
    using founded_tables(2)[of d ae ap user name key email org]
    by (auto simp: sound_def founded_tables dest: bspec intro: less_trans)
qed (auto simp: founded_tables owned_def founded_def Let_def)

lemma new_organization_keeps: "pages.keeps (new_organization ae ap vc name key email org)"
  unfolding new_organization_def
  by (intro pages.keeps_bind pages.keeps_modify founded_advances ledger_pages note_audit_keeps ledger.keeps_simple)

lemma join_organization_keeps: "pages.keeps (join_organization ae vc h u)"
proof (rule pages.keepsI)
  fix d x d'
  assume "join_organization ae vc h u d = Inr (x, d')"
  then obtain y d1 where d1: "d1 = d\<lparr>db_next := db_next d + 1, db_members := db_members d @ [\<lparr>mem_id = db_next d, mem_org = inv_org y,
      mem_user = usr_id u, mem_role = inv_role y, mem_active = True, mem_store = inv_store y, mem_lock = 0\<rparr>],
      db_invitations := save_row inv_id (y\<lparr>inv_accepted := Some (ae_now ae)\<rparr>) (db_invitations d)\<rparr>"
    and r: "note_audit ae vc (inv_org y) ''member.joined'' (inv_id y) [] d1 = Inr ((), d')"
    by (auto simp: join_organization_def split: option.splits)
  have "advances d d1"
    by (rule advances_change) (auto simp: d1 sound_def owned_def)
  then show "advances d d'" using ledger.keepsD[OF note_audit_keeps r] by (blast intro: pages.R_trans grows_advances)
qed

end
