(* ===== verification/Program.thy ===== *)
theory Program imports Run_Total Api_Ledger Dashboard begin

text \<open>
  The program as a whole: a step is one message a worker handles, one run of the schedule or of the
  dispatch, one feedback message, one request of a machine, or one page of a user, of the API or of the site. Every step keeps the immutable tables
  of every organization and the coherence of its findings, and a step in the scope of one
  organization leaves the tables of the others alone.
\<close>

section \<open>Steps\<close>

inductive program_step :: "world \<Rightarrow> world \<Rightarrow> bool" where
  message: "run_message we value no_context w = Inr (b, w') \<Longrightarrow> program_step w w'"
| local_work: "local_once we trace w = Inr (n, w') \<Longrightarrow> program_step w w'"
| scheduled: "schedule now w = Inr w' \<Longrightarrow> program_step w w'"
| dispatched: "dispatch qe now w = Inr (n, w') \<Longrightarrow> program_step w w'"
| mail_feedback: "consume_entry now body no_context w = Inr (b, w') \<Longrightarrow> program_step w w'"
| claimed: "machine_errors c (claim me) rq w = Inr (r, w') \<Longrightarrow> program_step w w'"
| plugin: "plugin_endpoint me c kind rq w = Inr (r, w') \<Longrightarrow> program_step w w'"
| webhook: "machine_errors c (stripe_webhook me destination) rq w = Inr (r, w') \<Longrightarrow> program_step w w'"
| page: "serve_page ae ap p vc w = Inr (r, se, w') \<Longrightarrow> program_step w w'"
| site: "serve_site de query sp vc w = Inr (r, se, w') \<Longrightarrow> program_step w w'"
| organization: "create_organization ae ap vc w = Inr (r, se, w') \<Longrightarrow> program_step w w'"
| invitation: "accept_invitation ae ap vc w = Inr (r, se, w') \<Longrightarrow> program_step w w'"

section \<open>Scopes\<close>

definition world_grows :: "world \<Rightarrow> world \<Rightarrow> bool" where
  "world_grows w w' \<longleftrightarrow> (\<forall>org. advances (enter org w) (enter org w'))"

lemma world_grows_refl [simp]: "world_grows w w"
  by (simp add: world_grows_def pages.R_refl)

lemma world_grows_trans: "world_grows w1 w2 \<Longrightarrow> world_grows w2 w3 \<Longrightarrow> world_grows w1 w3"
  unfolding world_grows_def using pages.R_trans by blast

lemma enter_leave: "enter org (leave org d w) = d"
  by (simp add: enter_def leave_def)

lemma enter_leave_other: "org' \<noteq> org \<Longrightarrow> db_next (wo_shared w) \<le> db_next d \<Longrightarrow> advances (enter org' w) (enter org' (leave org d w))"
  by (rule advancesI) (simp_all add: enter_def leave_def)

lemma leave_grows:
  assumes "advances (enter org w) d"
  shows "world_grows w (leave org d w)"
  unfolding world_grows_def
proof
  fix o'
  have "db_next (wo_shared w) \<le> db_next d" using assms by (simp add: advances_def enter_def)
  then show "advances (enter o' w) (enter o' (leave org d w))"
    using assms enter_leave enter_leave_other by (cases "o' = org") auto
qed

lemma scope_advances:
  assumes "tenant_scope org user body old w = Inr (x, c, w')" "\<And>c. pages.keeps (body c)"
  shows "world_grows w w'"
  using assms by (auto simp: tenant_scope_def split: if_splits dest!: pages.keepsD intro: leave_grows)

lemma scope_grows: "tenant_scope org user body old w = Inr (x, c, w') \<Longrightarrow> (\<And>c. ledger.keeps (body c)) \<Longrightarrow> world_grows w w'"
  by (rule scope_advances) (auto intro: ledger_pages)

lemma scoped_grows: "scoped org body w = Inr (r, w') \<Longrightarrow> ledger.keeps body \<Longrightarrow> world_grows w w'"
  by (auto simp: scoped_def dest!: scope_grows)

lemma each_org_grows: "each_org f orgs w = Inr (xs, w') \<Longrightarrow> (\<And>org. ledger.keeps (f org)) \<Longrightarrow> world_grows w w'"
  by (induction f orgs w arbitrary: xs w' rule: each_org.induct)
    (auto dest!: scope_grows intro: world_grows_trans)

section \<open>The steps keep the ledger\<close>

lemma settle_failure_grows: "settle_failure we org i e old w = Inr (b, w') \<Longrightarrow> world_grows w w'"
  by (auto simp: settle_failure_def record_failure_keeps split: exn.splits dest!: scope_grows)

lemma run_message_grows: "run_message we value old w = Inr (b, w') \<Longrightarrow> world_grows w w'"
  by (auto simp: run_message_def attempt_keeps split: sum.splits prod.splits attempt_outcome.splits
      dest!: settle_failure_grows scope_grows intro: world_grows_trans)

lemma run_all_grows: "run_all we vs w = Inr (n, w') \<Longrightarrow> world_grows w w'"
  by (induction we vs w arbitrary: n w' rule: run_all.induct) (auto dest!: run_message_grows intro: world_grows_trans)

lemma local_orgs_grows: "local_orgs we trace orgs w = Inr (n, w') \<Longrightarrow> world_grows w w'"
  by (induction we trace orgs w arbitrary: n w' rule: local_orgs.induct) (auto dest!: run_all_grows intro: world_grows_trans)

lemma feedback_grows: "feedback now v old w = Inr (u, c, w') \<Longrightarrow> world_grows w w'"
  by (auto simp: feedback_def dest!: scope_grows intro!: ledger.keepsI terminal_update_grows)

lemma consume_entry_grows: "consume_entry now body old w = Inr (b, w') \<Longrightarrow> world_grows w w'"
  by (auto simp: consume_entry_def split: sum.splits prod.splits if_splits dest!: feedback_grows)

lemma machine_errors_grows:
  "machine_errors c view rq w = Inr (r, w') \<Longrightarrow> (\<And>r w'. view rq w = Inr (r, w') \<Longrightarrow> world_grows w w') \<Longrightarrow> world_grows w w'"
  by (auto simp: machine_errors_def split: sum.splits)

lemma claim_grows: "claim me rq w = Inr (r, w') \<Longrightarrow> world_grows w w'"
  by (auto simp: claim_def split: option.splits dest!: scoped_grows[OF _ claim_in_scope_keeps])

lemma signed_plugin_grows: "signed_plugin me kind rq w = Inr (r, w') \<Longrightarrow> world_grows w w'"
  by (auto simp: signed_plugin_def split: option.splits dest!: scoped_grows[OF _ plugin_in_scope_keeps])

lemma stripe_webhook_grows: "stripe_webhook me dest rq w = Inr (r, w') \<Longrightarrow> world_grows w w'"
  by (auto simp: stripe_webhook_def split: option.splits dest!: scoped_grows[OF _ webhook_in_scope_keeps])

lemma tenant_view_grows:
  assumes "tenant_view now view vc old w = Inr (r, se, w')" "\<And>vc a. pages.keeps (view vc a)"
  shows "world_grows w w'"
  using assms(1) unfolding tenant_view_def Let_def
  by (auto split: sum.splits prod.splits dest!: scope_advances simp: guarded_view_keeps assms(2))

lemma serve_page_grows: "serve_page ae ap p vc w = Inr (r, se, w') \<Longrightarrow> world_grows w w'"
  by (auto simp: serve_page_def page_view_keeps split: if_splits dest: tenant_view_grows)

text \<open>The pages of the site only read; a request under a support grant leaves its entry in the audit log.\<close>

lemma site_view_keeps: "pages.keeps (site_view_of de query p vc a)"
  by (rule pages.keepsI) (auto simp: site_view_of_def pages.R_refl)

lemma serve_site_grows: "serve_site de query p vc w = Inr (r, se, w') \<Longrightarrow> world_grows w w'"
  by (auto simp: serve_site_def site_view_keeps dest: tenant_view_grows)

lemma plain_problems_grows:
  "plain_problems vc detail w x = Inr (r, se, w') \<Longrightarrow> (\<And>r se w'. x = Inr (r, se, w') \<Longrightarrow> world_grows w w') \<Longrightarrow> world_grows w w'"
  by (auto simp: plain_problems_def split: sum.splits exn.splits)

lemma next_key_grows: "world_grows w (w\<lparr>wo_shared := (wo_shared w)\<lparr>db_next := db_next (wo_shared w) + 1\<rparr>\<rparr>)"
  by (auto simp: world_grows_def enter_def intro: advancesI)

lemma obtain_organization_grows: "obtain_organization ae ap vc w = Inr (r, se, w') \<Longrightarrow> world_grows w w'"
  by (auto simp: obtain_organization_def fresh_organization_def Let_def new_organization_keeps split: option.splits if_splits
      dest!: scope_advances) (erule world_grows_trans[OF next_key_grows])

lemma redeem_invitation_grows: "redeem_invitation ae ap vc w = Inr (r, se, w') \<Longrightarrow> world_grows w w'"
  by (auto simp: redeem_invitation_def Let_def join_organization_keeps split: option.splits dest!: scope_advances)

lemma create_organization_grows: "create_organization ae ap vc w = Inr (r, se, w') \<Longrightarrow> world_grows w w'"
  by (auto simp: create_organization_def split: if_splits elim!: plain_problems_grows dest: obtain_organization_grows)

lemma accept_invitation_grows: "accept_invitation ae ap vc w = Inr (r, se, w') \<Longrightarrow> world_grows w w'"
  by (auto simp: accept_invitation_def split: if_splits elim!: plain_problems_grows dest: redeem_invitation_grows)

lemma program_step_grows: "program_step w w' \<Longrightarrow> world_grows w w'"
proof (induction rule: program_step.induct)
  case (scheduled now w w')
  then show ?case by (auto simp: schedule_def dest!: each_org_grows[OF _ schedule_org_keeps])
next
  case (dispatched qe now w n w')
  then show ?case by (auto simp: dispatch_def split: if_splits dest!: each_org_grows[OF _ dispatch_org_keeps])
next
  case (plugin me c kind rq w r w')
  then show ?case unfolding plugin_endpoint_def by (rule machine_errors_grows) (rule signed_plugin_grows)
qed (auto simp: local_once_def dest: run_message_grows local_orgs_grows consume_entry_grows claim_grows stripe_webhook_grows
    serve_page_grows serve_site_grows create_organization_grows accept_invitation_grows
    elim: machine_errors_grows)

lemma program_steps_grow: "program_step\<^sup>*\<^sup>* w w' \<Longrightarrow> world_grows w w'"
  by (induction rule: rtranclp_induct) (auto dest: program_step_grows intro: world_grows_trans)

section \<open>Properties\<close>


text \<open>C1: The events of a finding tell its whole life: in every state reached from one without findings
  they are a path of the state machine \<open>moves\<close> from \<open>provisional\<close> to the state of its row, as many of
  them open or reopen it as the row counts occurrences, the row carries a time of resolution exactly
  when it is resolved, and an expiry when it is suppressed.\<close>

theorem events_tell_the_state:
  assumes "program_step\<^sup>*\<^sup>* w w'" "db_findings (wo_tenants w org) = []" "db_events (wo_tenants w org) = []"
    and "f \<in> set (db_findings (wo_tenants w' org))"
  shows "event_path ''provisional'' (history (fin_id f) (wo_tenants w' org)) (fin_state f) \<and>
    fin_occurrences f = openings (history (fin_id f) (wo_tenants w' org)) \<and>
    (fin_resolved f \<noteq> None \<longleftrightarrow> fin_state f = ''resolved'') \<and>
    (fin_state f = ''suppressed'' \<longrightarrow> fin_suppressed_until f \<noteq> None)"
proof -
  have "coherent (enter org w)" using assms(2,3) by (simp add: coherent_def enter_def)
  then have "coherent (enter org w')" using program_steps_grow[OF assms(1)] by (simp add: world_grows_def advances_def)
  then have "told f (enter org w')" using assms(4) by (simp add: coherent_def enter_def)
  then show ?thesis by (simp add: told_def row_ok_def history_def enter_def)
qed

text \<open>C23: The policy of every store stays one the engine accepts. What the pages admit (grace periods
  and freshness in minutes, codes of rules) lies within the bounds that the engine checks when a
  snapshot is built, so no run of a store fails on its policy.\<close>

theorem policies_stay_acceptable:
  assumes "program_step\<^sup>*\<^sup>* w w'" "sound (enter org w)" "s \<in> set (db_stores (wo_tenants w' org))"
  shows "\<exists>p. store_policy s = Inr p"
proof -
  have "sound (enter org w')" using program_steps_grow[OF assms(1)] assms(2) by (simp add: world_grows_def advances_def)
  then show ?thesis using assms(3) by (simp add: sound_def store_ok_def enter_def)
qed

text \<open>C24: An organization that has an owner keeps one: no step of the program removes or demotes the last
  active owner.\<close>

theorem an_owner_remains:
  assumes "program_step\<^sup>*\<^sup>* w w'" "sound (enter org w)"
    and "\<exists>m \<in> set (db_members (wo_tenants w org)). mem_role m = ''owner'' \<and> mem_active m"
  shows "\<exists>m \<in> set (db_members (wo_tenants w' org)). mem_role m = ''owner'' \<and> mem_active m"
proof -
  have "owned (enter org w)" using assms(3) by (simp add: owned_def enter_def)
  then have "owned (enter org w')" using program_steps_grow[OF assms(1)] assms(2) by (simp add: world_grows_def advances_def)
  then show ?thesis by (simp add: owned_def enter_def)
qed


section \<open>Witnesses\<close>

lemma save_finding_length [simp]: "length (db_findings (save_finding f d)) = length (db_findings d)"
  by (simp add: save_finding_def save_row_def)

lemma apply_proposal_nonempty: "apply_proposal H s now run p d = Inr (x, d') \<Longrightarrow> db_findings d' \<noteq> []"
proof (erule apply_proposalE)
  fix evidence content f created d1 f1 ev1 ev
  assume o: "obtain_finding s now p evidence content d = (f, created, d1)" and
    r: "ev = [] \<Longrightarrow> d' = save_finding (touched now f1) d1"
       "ev \<noteq> [] \<Longrightarrow> \<exists>e. add_event now (touched now f1) ev (fin_state f) ''system'' (Some run) []
      (save_finding (touched now f1) d1) = Inr (e, d')"
  have "db_findings d' = db_findings (save_finding (touched now f1) d1)"
    using r add_event_tables(1) by (cases "ev = []") blast+
  then have "length (db_findings d') = length (db_findings d1)" by simp
  moreover have "f \<in> set (db_findings d1)"
    using o by (auto simp: obtain_finding_def Let_def split: option.splits dest: row_by_Some)
  ultimately show ?thesis by auto
qed

lemma miss_finding_length: "miss_finding ev c now run f d = Inr (x, d') \<Longrightarrow> length (db_findings d') = length (db_findings d)"
  by (auto simp: miss_finding_def Let_def split: if_splits dest!: add_event_tables(1))

text \<open>A worker performs the reconciliation of the example.\<close>

lemma ex_run: "\<exists>run d'. reconcile id 100000000000 11 ex_db = Inr (run, d') \<and> db_findings d' \<noteq> []"
proof -
  obtain snap ev where e: "build_snapshot ex_store 100000000000 ex_db = Inr snap" "evaluate id snap = Inr ev" "ev_proposals ev \<noteq> []"
    using ex_evaluated by blast
  obtain run d' where r: "reconcile id 100000000000 11 ex_db = Inr (run, d')"
    using recorded_run[OF ex_store_found e(1,2)] by blast
  have "db_findings d' \<noteq> []"
  proof (rule reconcileE[OF r])
    fix s snap' ev' d1
    assume s: "s \<in> set (db_stores ex_db)" "build_snapshot s 100000000000 ex_db = Inr snap'" "evaluate id snap' = Inr ev'" and
      d2: "\<not> sto_shadow s \<Longrightarrow> \<exists>d2. tfor (apply_proposal id s 100000000000 (run_id run)) (ev_proposals ev') d1 = Inr ((), d2) \<and>
        miss_all s (map prop_key (ev_proposals ev')) ev' (coverage_digest id snap') 100000000000 (run_id run) d2 = Inr ((), d')"
    have "s = ex_store" using s(1) by (simp add: ex_db_def)
    then have ne: "ev_proposals ev' \<noteq> []" and "\<not> sto_shadow s" using s e by (auto simp: ex_store_def)
    then obtain d2 where a: "tfor (apply_proposal id s 100000000000 (run_id run)) (ev_proposals ev') d1 = Inr ((), d2)" and
      m: "miss_all s (map prop_key (ev_proposals ev')) ev' (coverage_digest id snap') 100000000000 (run_id run) d2 = Inr ((), d')"
      using d2 by blast
    obtain p ps where ps: "ev_proposals ev' = p # ps" using ne by (cases "ev_proposals ev'") auto
    obtain d3 where "apply_proposal id s 100000000000 (run_id run) p d1 = Inr ((), d3)"
        "tfor (apply_proposal id s 100000000000 (run_id run)) ps d3 = Inr ((), d2)"
      using a unfolding ps by auto
    then have "db_findings d2 \<noteq> []"
      using tfor_invariant[of "apply_proposal id s 100000000000 (run_id run)" ps d3 "()" d2 "\<lambda>d. db_findings d \<noteq> []"]
        apply_proposal_nonempty by blast
    moreover have "length (db_findings d') = length (db_findings d2)"
      by (rule tfor_invariant[OF m[unfolded miss_all_def]]) (auto dest!: miss_finding_length)
    ultimately show ?thesis by auto
  qed
  then show ?thesis using r by blast
qed

lemma ex_message_run:
  "\<exists>w'. run_message (ex_worker 100000000000) ex_message no_context (ex_world ex_db) = Inr (True, w') \<and>
    db_findings (wo_tenants w' 7) \<noteq> []"
proof -
  obtain run d' where r: "reconcile id 100000000000 11 ex_db = Inr (run, d')" "db_findings d' \<noteq> []"
    using ex_run by blast
  let ?we = "ex_worker 100000000000"
  have v: "validate_schema (we_valid ?we) (JObj ex_message) ''queue-1.json'' = Inr ()"
    by (simp add: validate_schema_def ex_worker_def)
  have i: "rbind (str_at ex_message ''organization_id'') uuid_of = Inr 7" "rbind (str_at ex_message ''message_id'') uuid_of = Inr 51"
    "dict_at ex_message ''task_type'' = Inr (JStr ''reconcile_store'')" "dict_at ex_message ''resource_id'' = Inr (JStr (uuid_str 11))"
    by code_simp+
  have x: "row_by out_id 51 (db_outbox ex_db) = Some ex_row" "organization_active 7 ex_db"
    "out_task ex_row = ''reconcile_store''" "out_resource ex_row = 11" "out_status ex_row = ''pending''" "out_available ex_row = 0"
    by (simp_all add: ex_db_def ex_row_def new_outbox_def row_by_def organization_active_def ex_org_def)
  have h: "handle ?we ex_row ex_db = Inr ((), d')"
    using r(1) by (simp add: handle_def x ignore_def tbind_def ex_worker_def)
  have "work ?we ex_row None ex_db = (None, save_outbox (complete_row ex_row) d')"
    using h by (simp add: work_def refresh_first_def)
  then have "attempt ?we ex_message 7 51 ex_db = Inr (Performed, save_outbox (complete_row ex_row) d')"
    by (simp add: attempt_def x i credential_connector_def ex_worker_def)
  then have "run_message ?we ex_message no_context (ex_world ex_db) =
      Inr (True, leave 7 (save_outbox (complete_row ex_row) d') (ex_world ex_db))"
    by (simp add: run_message_def v i[THEN rbind_cong] tenant_scope_def no_context_def)
  then show ?thesis using r by (auto simp: leave_def save_outbox_def)
qed

lemma ex_step: "\<exists>w'. program_step (ex_world ex_db) w' \<and> db_findings (wo_tenants w' 7) \<noteq> []"
  using ex_message_run by (blast intro: program_step.message)


theorem events_tell_the_state_witness:
  "\<exists>w' f. program_step\<^sup>*\<^sup>* (ex_world ex_db) w' \<and> f \<in> set (db_findings (wo_tenants w' 7)) \<and>
    event_path ''provisional'' (history (fin_id f) (wo_tenants w' 7)) (fin_state f)"
proof -
  obtain w' where w: "program_step\<^sup>*\<^sup>* (ex_world ex_db) w'" "db_findings (wo_tenants w' 7) \<noteq> []" using ex_step by blast
  then obtain f where f: "f \<in> set (db_findings (wo_tenants w' 7))" by (cases "db_findings (wo_tenants w' 7)") auto
  have "db_findings (wo_tenants (ex_world ex_db) 7) = []" "db_events (wo_tenants (ex_world ex_db) 7) = []"
    by (simp_all add: ex_world_def ex_db_def empty_db_def)
  from events_tell_the_state[OF w(1) this f] w f show ?thesis by blast
qed

text \<open>A dispatch, from tables that also have an owner and an answered request.\<close>

definition ex_owner :: membership where
  "ex_owner = \<lparr>mem_id = 63, mem_org = 7, mem_user = 1, mem_role = ''owner'', mem_active = True, mem_store = None, mem_lock = 0\<rparr>"

definition ex_receipt :: receipt where
  "ex_receipt = new_receipt 0 71 ex_woo ''request'' ''body'' ''heartbeat'' ''normalized'' [(''status'', JStr ''accepted'')]"

definition ex_owned_db :: db where
  "ex_owned_db = ex_db\<lparr>db_members := [ex_owner], db_receipts := [ex_receipt]\<rparr>"

definition ex_queue :: queue_env where
  "ex_queue = \<lparr>qe_urls = [], qe_default = ''url'', qe_trace = (\<lambda>r. []), qe_send = (\<lambda>url text. Inr ())\<rparr>"

lemma ex_dispatch: "\<exists>n w'. dispatch ex_queue 0 (ex_world ex_owned_db) = Inr (n, w') \<and>
    map out_status (db_outbox (wo_tenants w' 7)) = [''queued'']"
proof -
  have "active_orgs (ex_world ex_owned_db) = [7]"
    by (simp add: active_orgs_def ex_world_def ex_owned_db_def ex_db_def)
  moreover have "due_rows 0 ex_owned_db = [ex_row]"
    by (simp add: due_rows_def ex_owned_db_def ex_db_def ex_row_def dispatchable_def new_outbox_def)
  then have "\<exists>d. dispatch_org ex_queue 0 ex_owned_db = Inr (1, d) \<and> map out_status (db_outbox d) = [''queued'']"
    by (simp add: dispatch_org_def Let_def MAINTENANCE_def send_row_def ex_queue_def tbind_def ex_row_def new_outbox_def
        ex_owned_db_def ex_db_def update_where_def)
  ultimately show ?thesis
    by (auto simp: dispatch_def ex_queue_def tenant_scope_def no_context_def leave_def)
qed

lemma ex_dispatched:
  obtains w' where "program_step\<^sup>*\<^sup>* (ex_world ex_owned_db) w'" "map out_status (db_outbox (wo_tenants w' 7)) = [''queued'']"
proof (rule exE[OF ex_dispatch])
  fix n
  assume "\<exists>w'. dispatch ex_queue 0 (ex_world ex_owned_db) = Inr (n, w') \<and>
    map out_status (db_outbox (wo_tenants w' 7)) = [''queued'']"
  then show thesis by (elim exE conjE) (rule that[OF r_into_rtranclp[of program_step, OF program_step.dispatched]])
qed

lemma ex_sound: "sound (enter 7 (ex_world ex_owned_db))"
  by (simp add: sound_def ex_owned_db_def ex_db_def empty_db_def ex_owner_def store_ok_iff bounded_policy_def ex_store_def)

theorem policies_stay_acceptable_witness:
  "\<exists>w'::world. map out_status (db_outbox (wo_tenants w' 7)) = [''queued''] \<and>
    (\<forall>s \<in> set (db_stores (wo_tenants w' 7)). \<exists>p. store_policy s = Inr p)"
proof -
  obtain w' where w: "program_step\<^sup>*\<^sup>* (ex_world ex_owned_db) w'" "map out_status (db_outbox (wo_tenants w' 7)) = [''queued'']"
    by (rule ex_dispatched)
  have "\<forall>s \<in> set (db_stores (wo_tenants w' 7)). \<exists>p. store_policy s = Inr p"
    by (rule ballI) (rule policies_stay_acceptable[OF w(1) ex_sound])
  then show ?thesis using w(2) by (intro exI[of _ w'] conjI) assumption+
qed

theorem an_owner_remains_witness:
  "\<exists>w'::world. map out_status (db_outbox (wo_tenants w' 7)) = [''queued''] \<and>
    (\<exists>m \<in> set (db_members (wo_tenants w' 7)). mem_role m = ''owner'' \<and> mem_active m)"
proof -
  obtain w' where w: "program_step\<^sup>*\<^sup>* (ex_world ex_owned_db) w'" "map out_status (db_outbox (wo_tenants w' 7)) = [''queued'']"
    by (rule ex_dispatched)
  have "\<exists>m \<in> set (db_members (wo_tenants (ex_world ex_owned_db) 7)). mem_role m = ''owner'' \<and> mem_active m"
    by (simp add: ex_world_def ex_owned_db_def ex_owner_def)
  from an_owner_remains[OF w(1) ex_sound this] show ?thesis using w(2) by (intro exI[of _ w'] conjI) assumption+
qed

definition ex_machine :: machine_env where
  "ex_machine = \<lparr>me_now = 0, me_hash = id, me_valid = (\<lambda>s v. True), me_ed = (\<lambda>a b c. True), me_mac = (\<lambda>a b. []),
     me_crypto = ex_crypto, me_cipher = ex_cipher\<rparr>"

definition ex_key :: public_key where
  "ex_key = \<lparr>key_id = 24, key_org = 7, key_installation = 21, key_key_id = 25, key_public = ''public'', key_expires = None,
     key_revoked = None\<rparr>"


end
