(* ===== verification/Tenancy_Props.thy ===== *)
theory Tenancy_Props imports Program begin

text \<open>
  Access of users: which organization a page can touch, who may reach it, what a merchant sees, and
  the audit of support requests. The view behind the guard is arbitrary.
\<close>

section \<open>What a scope touches\<close>

lemma leave_other: "o' \<noteq> org \<Longrightarrow> wo_tenants (leave org d w) o' = wo_tenants w o'"
  by (simp add: leave_def)

lemma tenant_scopeE:
  assumes "tenant_scope org user body old w = Inr (x, c, w')"
  obtains ctx d where "body ctx (enter org w) = Inr (x, d)" "w' = leave org d w" "c = old"
  using assms by (auto simp: tenant_scope_def split: if_splits)

text \<open>A page that completed: the refusal of the request, or the answer of its view.\<close>

lemma tenant_viewE:
  assumes "tenant_view now view vc old w = Inr (r, se, w')"
  obtains (refused) e where "authorized now vc old w = Inl e" "problem_of (vc_correlation vc) e = Inr r" "se = vc_session vc" "w' = w"
  | (failed) a e where "authorized now vc old w = Inr a" "problem_of (vc_correlation vc) e = Inr r" "w' = w"
      "tenant_scope (ac_org a) (Some (ac_user a)) (\<lambda>_. guarded_view now view vc a) old w = Inl e"
  | (answered) a d where "authorized now vc old w = Inr a" "guarded_view now view vc a (enter (ac_org a) w) = Inr (r, d)"
      "w' = leave (ac_org a) d w"
  using assms unfolding tenant_view_def Let_def
  by (auto split: sum.splits prod.splits elim!: tenant_scopeE)

section \<open>Who is authorized\<close>

lemma authorize_facts:
  assumes "authorize now vc org d = Inr a"
  shows "ac_org a = org \<and> ac_user a = pr_user (vc_principal vc) \<and> (\<exists>x \<in> set (db_orgs d). org_id x = org \<and> org_active x)"
  using assms unfolding authorize_def Let_def by (elim rbindE) auto

lemma authorized_facts:
  assumes "authorized now vc old w = Inr a"
  shows "pr_authenticated (vc_principal vc)" "organization_of vc w = Inr (ac_org a)" "ac_user a = pr_user (vc_principal vc)"
    "\<exists>x \<in> set (db_orgs (enter (ac_org a) w)). org_id x = ac_org a \<and> org_active x"
    "authorize now vc (ac_org a) (enter (ac_org a) w) = Inr a"
proof -
  obtain org where "pr_authenticated (vc_principal vc)" "organization_of vc w = Inr org" "authorize now vc org (enter org w) = Inr a"
    using assms unfolding authorized_def by (elim rbindE) simp
  with authorize_facts show "pr_authenticated (vc_principal vc)" "organization_of vc w = Inr (ac_org a)"
    "ac_user a = pr_user (vc_principal vc)" "\<exists>x \<in> set (db_orgs (enter (ac_org a) w)). org_id x = ac_org a \<and> org_active x"
    "authorize now vc (ac_org a) (enter (ac_org a) w) = Inr a" by fastforce+
qed

text \<open>The two ways into an organization.\<close>

definition is_member :: "uuid \<Rightarrow> int \<Rightarrow> db \<Rightarrow> bool" where
  "is_member org user d \<longleftrightarrow> (\<exists>m \<in> set (db_members d). mem_org m = org \<and> mem_user m = user \<and> mem_active m)"

definition has_grant :: "datetime \<Rightarrow> uuid \<Rightarrow> int \<Rightarrow> db \<Rightarrow> bool" where
  "has_grant now org user d \<longleftrightarrow> (\<exists>g \<in> set (db_grants d). gra_org g = org \<and> gra_user g = user \<and>
     gra_revoked g = None \<and> now < gra_expires g)"

lemma authorize_entry:
  assumes "authorize now vc org d = Inr a"
  shows "is_member org (pr_user (vc_principal vc)) d \<and> \<not> ac_support a \<or>
    pr_staff (vc_principal vc) \<and> has_grant now org (pr_user (vc_principal vc)) d \<and> ac_support a \<and> ac_role a = ''support''"
proof -
  let ?user = "pr_user (vc_principal vc)"
  show ?thesis
  proof (cases "membership_of org ?user d")
    case (Some m)
    then have "is_member org ?user d" by (auto simp: membership_of_def is_member_def find_Some_iff)
    then show ?thesis using assms Some unfolding authorize_def Let_def by (elim rbindE) auto
  next
    case None
    then obtain g where "pr_staff (vc_principal vc)" "grant_of now org ?user d = Some g" "ac_support a" "ac_role a = ''support''"
      using assms unfolding authorize_def Let_def by (elim rbindE) (auto split: if_splits)
    then show ?thesis by (auto simp: grant_of_def has_grant_def find_Some_iff)
  qed
qed

text \<open>C17: A page changes the tables of at most one organization, the one its path, its resource or its
  session names, and only for a signed-in user who is an active member there or, being staff, holds a
  support grant that is neither revoked nor expired; the organization is active. The view itself is
  arbitrary.\<close>

theorem page_stays_in_its_organization:
  assumes "tenant_view now view vc old w = Inr (r, se, w')" "w' \<noteq> w"
  shows "\<exists>org. organization_of vc w = Inr org \<and> (\<forall>o'. o' \<noteq> org \<longrightarrow> wo_tenants w' o' = wo_tenants w o') \<and>
    pr_authenticated (vc_principal vc) \<and>
    (\<exists>x \<in> set (db_orgs (enter org w)). org_id x = org \<and> org_active x) \<and>
    (is_member org (pr_user (vc_principal vc)) (enter org w) \<or>
     pr_staff (vc_principal vc) \<and> has_grant now org (pr_user (vc_principal vc)) (enter org w))"
  using assms(1)
proof (cases rule: tenant_viewE)
  case (answered a d)
  note f = authorized_facts[OF answered(1)]
  then show ?thesis using authorize_entry[OF f(5)] leave_other answered(3) by blast
qed (use assms(2) in simp_all)

text \<open>C18: A merchant is confined to one store: when a request of an active merchant names no store or
  finding, or one of another store, the view is not run, nothing changes and the answer is the same
  404 as for a resource that does not exist.\<close>

theorem merchant_confined:
  assumes "pr_authenticated (vc_principal vc)" "organization_of vc w = Inr org" "ctx_org old = []"
    and "membership_of org (pr_user (vc_principal vc)) (enter org w) = Some m" "mem_role m = ''merchant''"
    and "\<exists>x \<in> set (db_orgs (enter org w)). org_id x = org \<and> org_active x"
    and "asked_store vc (enter org w) = None \<or> asked_store vc (enter org w) \<noteq> mem_store m"
  shows "tenant_view now view vc old w =
    Inr (problem_response (vc_correlation vc) ''NOT_FOUND'' 404 (detail_of ''NOT_FOUND''), vc_session vc, w)"
proof -
  have "authorized now vc old w = Inl (Problem ''NOT_FOUND'' 404)"
    using assms by (auto simp: authorized_def authorize_def Let_def guard_def)
  then show ?thesis by (simp add: tenant_view_def problem_of_def)
qed

text \<open>C1: A request of support runs its view on tables whose audit log ends with a new row
  \<open>support.request\<close> that names the user, the method and the resource; when the view answers, that row
  is kept, and when the view refuses with a problem, it is rolled back with everything else.\<close>

theorem support_requests_audited:
  assumes "authorized now vc old w = Inr a" "ac_support a" "ctx_org old = []"
  defines "org \<equiv> ac_org a" and "se \<equiv> (vc_session vc)\<lparr>se_org := uuid_str (ac_org a)\<rparr>"
  defines "row \<equiv> \<lparr>aud_id = db_next (enter org w), aud_org = org, aud_actor = show_int (pr_user (vc_principal vc)),
      aud_action = ''support.request'', aud_resource = uuid_str (case resource_of vc of Some r \<Rightarrow> r | None \<Rightarrow> org),
      aud_correlation = [], aud_details = JObj [(''method'', JStr (vc_method vc))], aud_created = now\<rparr>"
  defines "d1 \<equiv> (enter org w)\<lparr>db_next := db_next (enter org w) + 1, db_audit := db_audit (enter org w) @ [row]\<rparr>"
  shows "case view (vc\<lparr>vc_session := se\<rparr>) a d1 of
      Inr (r, d) \<Rightarrow> tenant_view now view vc old w = Inr (r, se, leave org d w)
    | Inl (Problem code status) \<Rightarrow>
        tenant_view now view vc old w = Inr (problem_response (vc_correlation vc) code status (detail_of code), se, w)
    | _ \<Rightarrow> True"
proof -
  have "audit now (ac_org a) (show_int (ac_user a)) ''support.request''
      (uuid_str (case resource_of vc of Some r \<Rightarrow> r | None \<Rightarrow> ac_org a)) [(''method'', JStr (vc_method vc))] []
      (enter (ac_org a) w) = Inr (row, d1)"
    unfolding row_def d1_def org_def audit_def Let_def
    by (simp add: SECURITY_NOTIFICATION_ACTIONS_def authorized_facts(3)[OF assms(1)])
  then have "guarded_view now view vc a (enter (ac_org a) w) = view (vc\<lparr>vc_session := se\<rparr>) a d1"
    using assms(2) by (simp add: guarded_view_def tbind_def se_def)
  then have "tenant_scope (ac_org a) (Some (ac_user a)) (\<lambda>_. guarded_view now view vc a) old w =
      rbind (view (vc\<lparr>vc_session := se\<rparr>) a d1) (\<lambda>(r, d). Inr (r, old, leave (ac_org a) d w))"
    by (simp add: tenant_scope_def assms(3))
  then show ?thesis
    using assms(1) by (simp add: tenant_view_def problem_of_def org_def se_def split: sum.split prod.split exn.split)
qed


section \<open>Witnesses\<close>

text \<open>A staff user with a grant, and a merchant of the store, ask for a page of the store.\<close>

definition ex_grant :: support_grant where
  "ex_grant = \<lparr>gra_id = 61, gra_org = 7, gra_user = 5, gra_approved_by = 1, gra_reason = ''ticket 4711'', gra_expires = 1000, gra_revoked = None\<rparr>"

definition ex_merchant :: membership where
  "ex_merchant = \<lparr>mem_id = 62, mem_org = 7, mem_user = 6, mem_role = ''merchant'', mem_active = True, mem_store = Some 11, mem_lock = 0\<rparr>"

definition ex_call :: "int \<Rightarrow> uuid \<Rightarrow> view_call" where
  "ex_call user store = \<lparr>vc_principal = \<lparr>pr_authenticated = True, pr_user = user, pr_staff = (user = 5)\<rparr>,
     vc_session = \<lparr>se_org = [], se_authenticated = 0\<rparr>, vc_method = ''GET'', vc_correlation = ''c'',
     vc_kwargs = [(''store_id'', store)]\<rparr>"

definition ex_access_db :: db where
  "ex_access_db = ex_db\<lparr>db_locators := [\<lparr>loc_id = 11, loc_org = 7, loc_kind = ''store''\<rparr>, \<lparr>loc_id = 12, loc_org = 7, loc_kind = ''store''\<rparr>],
     db_members := [ex_merchant], db_grants := [ex_grant]\<rparr>"

definition ex_view :: "view_call \<Rightarrow> access \<Rightarrow> response trans" where
  "ex_view vc a = treturn (json_response 200 [])"

lemmas ex_access = ex_access_db_def ex_db_def empty_db_def ex_call_def ex_grant_def ex_merchant_def ex_org_def

lemma ex_support_authorized:
  "authorized 10 (ex_call 5 11) no_context (ex_world ex_access_db) = Inr \<lparr>ac_org = 7, ac_role = ''support'', ac_support = True, ac_user = 5\<rparr>"
  by (simp add: authorized_def authorize_def organization_of_def resource_of_def RESOURCE_KEYS_def kwarg_def row_by_def
      no_context_def membership_of_def grant_of_def ex_world_def enter_def ex_access Let_def)

theorem support_requests_audited_witness:
  "\<exists>w'. tenant_view 10 ex_view (ex_call 5 11) no_context (ex_world ex_access_db) = Inr (json_response 200 [], \<lparr>se_org = uuid_str 7, se_authenticated = 0\<rparr>, w')
    \<and> map aud_action (db_audit (wo_tenants w' 7)) = [''support.request'']"
proof -
  have c: "ctx_org no_context = []" by (simp add: no_context_def)
  show ?thesis
    using support_requests_audited[OF ex_support_authorized _ c, of ex_view]
    by (simp add: ex_view_def leave_def) (simp add: ex_access)
qed

lemma ex_support_page:
  "\<exists>d. tenant_view 10 ex_view (ex_call 5 11) no_context (ex_world ex_access_db) =
    Inr (json_response 200 [], \<lparr>se_org = uuid_str 7, se_authenticated = 0\<rparr>, leave 7 d (ex_world ex_access_db)) \<and> db_audit d \<noteq> []"
  using ex_support_authorized
  by (simp add: tenant_view_def tenant_scope_def no_context_def guarded_view_def tbind_def audit_def Let_def
      SECURITY_NOTIFICATION_ACTIONS_def ex_view_def ex_call_def) (rule exI, rule conjI, rule refl, simp)

theorem page_stays_in_its_organization_witness:
  "\<exists>r se w'. tenant_view 10 ex_view (ex_call 5 11) no_context (ex_world ex_access_db) = Inr (r, se, w') \<and>
    w' \<noteq> ex_world ex_access_db \<and> pr_staff (vc_principal (ex_call 5 11)) \<and> (\<forall>o'. o' \<noteq> 7 \<longrightarrow> wo_tenants w' o' = empty_db)"
proof -
  obtain d where v: "tenant_view 10 ex_view (ex_call 5 11) no_context (ex_world ex_access_db) =
      Inr (json_response 200 [], \<lparr>se_org = uuid_str 7, se_authenticated = 0\<rparr>, leave 7 d (ex_world ex_access_db))"
    and d: "db_audit d \<noteq> []" using ex_support_page by blast
  have "db_audit (wo_tenants (ex_world ex_access_db) 7) = []" by (simp add: ex_world_def ex_access)
  moreover have "db_audit (wo_tenants (leave 7 d (ex_world ex_access_db)) 7) \<noteq> []" using d by (simp add: leave_def)
  ultimately have ne: "leave 7 d (ex_world ex_access_db) \<noteq> ex_world ex_access_db" by metis
  have o: "organization_of (ex_call 5 11) (ex_world ex_access_db) = Inr 7"
    using authorized_facts(2)[OF ex_support_authorized] by simp
  have e: "o' \<noteq> 7 \<Longrightarrow> wo_tenants (ex_world ex_access_db) o' = empty_db" for o' by (simp add: ex_world_def)
  have "\<forall>o'. o' \<noteq> 7 \<longrightarrow> wo_tenants (leave 7 d (ex_world ex_access_db)) o' = empty_db"
    using page_stays_in_its_organization[OF v ne] o e by (metis sum.inject(2))
  moreover have "pr_staff (vc_principal (ex_call 5 11))" by (simp add: ex_call_def)
  ultimately show ?thesis using v ne by blast
qed

theorem merchant_confined_witness:
  "tenant_view 10 ex_view (ex_call 6 12) no_context (ex_world ex_access_db) =
    Inr (problem_response ''c'' ''NOT_FOUND'' 404 (detail_of ''NOT_FOUND''), vc_session (ex_call 6 12), ex_world ex_access_db)"
proof -
  have "tenant_view 10 ex_view (ex_call 6 12) no_context (ex_world ex_access_db) =
      Inr (problem_response (vc_correlation (ex_call 6 12)) ''NOT_FOUND'' 404 (detail_of ''NOT_FOUND''), vc_session (ex_call 6 12), ex_world ex_access_db)"
    by (rule merchant_confined[where org = 7 and m = ex_merchant])
      (simp_all add: organization_of_def resource_of_def RESOURCE_KEYS_def kwarg_def row_by_def no_context_def
        membership_of_def asked_store_def ex_world_def enter_def ex_access)
  then show ?thesis by (simp add: ex_call_def)
qed

end
