(* ===== verification/Worker_Props.thy ===== *)
theory Worker_Props imports Program begin

text \<open>
  The worker: work is performed once, a row that fails is retried a bounded number of times with a
  bounded delay, a dispatched row is not sent again while its lease lasts, and an outage of the key
  service costs a connector its credential.
\<close>

section \<open>Performed once\<close>

text \<open>After a row was performed it is marked, in the same transaction.\<close>

lemma work_marks_row:
  assumes "work we row con d = (None, d')" "out_id row \<in> queued d"
  shows "row_by out_id (out_id row) (db_outbox d') = Some (complete_row row)"
proof -
  from assms(1) obtain d1 d2 where r: "refresh_first we con d = Inr d1" and h: "handle we row d1 = Inr ((), d2)" and
    d': "d' = save_outbox (complete_row row) d2"
    by (auto simp: work_def split: sum.splits prod.splits)
  have "queued d \<subseteq> queued d2"
    using refresh_first_grows[OF r] ledger.keepsD[OF handle_keeps h] by (auto simp: grows_def extends_iff)
  then have "out_id row \<in> out_id ` set (db_outbox d2)" using assms(2) by (auto simp: queued_def)
  then show ?thesis unfolding d' save_outbox_def by (simp add: row_by_save complete_row_def)
qed

lemma attempt_done:
  assumes "attempt we value org i d = Inr (out, d')" "out = Settled True \<or> out = Performed"
  shows "attempt we' value org i d' = Inr (Settled True, d')"
proof -
  from assms(1) obtain row task resource where row: "row_by out_id i (db_outbox d) = Some row" and
    t: "dict_at value ''task_type'' = Inr task" "dict_at value ''resource_id'' = Inr resource" and
    ok: "JStr (out_task row) = task" "JStr (uuid_str (out_resource row)) = resource" and
    rest: "(if out_status row = ''done'' then Inr (Settled True, d)
          else if out_status row = ''dead'' then Inr (Settled False, d)
          else if we_now we < out_available row then Inr (Settled False, d)
          else if \<not> organization_active org d \<and> \<not> deletion_work row d
          then Inr (Settled True, save_outbox (row\<lparr>out_status := ''done''\<rparr>) d)
          else rbind (credential_connector row d) (\<lambda>con.
            case work we row con d of
              (None, d1) \<Rightarrow> Inr (Performed, d1) | (Some e, d1) \<Rightarrow> Inr (Failure e, d1))) = Inr (out, d')"
    unfolding attempt_def by (auto split: option.splits if_splits)
  have i: "out_id row = i" "i \<in> queued d" using row_by_Some[OF row] by (auto simp: queued_def)
  have again: "attempt we' value org i d' = Inr (Settled True, d')"
    if "row_by out_id i (db_outbox d') = Some r" "out_status r = ''done''" "out_task r = out_task row" "out_resource r = out_resource row" for r
    using that t ok by (simp add: attempt_def)
  consider "out_status row = ''done''" "d' = d" | "d' = save_outbox (row\<lparr>out_status := ''done''\<rparr>) d"
    | con where "work we row con d = (None, d')"
    using rest assms(2) by (auto split: if_splits prod.splits option.splits)
  then show ?thesis
  proof cases
    case 1 then show ?thesis using row by (intro again[of row]) simp_all
  next
    case 2 then show ?thesis using i by (intro again[of "row\<lparr>out_status := ''done''\<rparr>"]) (auto simp: save_outbox_def row_by_save queued_def)
  next
    case (3 con) then show ?thesis using work_marks_row[OF 3] i by (intro again[of "complete_row row"]) (simp_all add: complete_row_def)
  qed
qed

text \<open>C20: Work is performed at most once: when a message was handled and may be deleted from its queue,
  handling another delivery of it, at any time and by any worker, changes nothing and settles it again.\<close>

theorem message_performed_once:
  assumes "run_message we value c w = Inr (True, w')" "we_valid we' = we_valid we"
  shows "run_message we' value c w' = Inr (True, w')"
proof -
  from assms(1) obtain org i where v: "validate_schema (we_valid we) (JObj value) ''queue-1.json'' = Inr ()" and
    o: "rbind (str_at value ''organization_id'') uuid_of = Inr org" and
    m: "rbind (str_at value ''message_id'') uuid_of = Inr i" and
    r: "(case tenant_scope org None (\<lambda>_. attempt we value org i) c w of
       Inl e \<Rightarrow> settle_failure we org i e c w
     | Inr (Settled b, c1, w1) \<Rightarrow> Inr (b, w1)
     | Inr (Performed, c1, w1) \<Rightarrow> Inr (True, w1)
     | Inr (Failure e, c1, w1) \<Rightarrow> settle_failure we org i e c w1) = Inr (True, w')"
    using that unfolding run_message_def by (elim rbindE) simp
  have f: "settle_failure we org i e c w1 \<noteq> Inr (True, w2)" for e w1 w2
    by (auto simp: settle_failure_def split: exn.splits)
  obtain out where t: "tenant_scope org None (\<lambda>_. attempt we value org i) c w = Inr (out, c, w')" and
    out: "out = Settled True \<or> out = Performed"
    using r f by (auto simp: tenant_scope_def split: sum.splits attempt_outcome.splits if_splits)
  then obtain d where a: "attempt we value org i (enter org w) = Inr (out, d)" and w': "w' = leave org d w" and
    c: "ctx_org c = [] \<or> ctx_org c = uuid_str org"
    by (auto simp: tenant_scope_def split: if_splits)
  have "enter org w' = d" and "leave org d w' = w'" by (simp add: w' enter_leave) (simp add: w' leave_def)
  then have "tenant_scope org None (\<lambda>_. attempt we' value org i) c w' = Inr (Settled True, c, w')"
    using attempt_done[OF a out] c by (auto simp: tenant_scope_def)
  then show ?thesis
    by (simp only: run_message_def assms(2) v o m rbind_simps) simp
qed

theorem message_performed_once_witness:
  "\<exists>w'. run_message (ex_worker 100000000000) ex_message no_context (ex_world ex_db) = Inr (True, w') \<and>
    run_message (ex_worker 100000000001) ex_message no_context w' = Inr (True, w')"
proof -
  obtain w' where w: "run_message (ex_worker 100000000000) ex_message no_context (ex_world ex_db) = Inr (True, w')"
    using ex_message_run by blast
  have "we_valid (ex_worker 100000000001) = we_valid (ex_worker 100000000000)" by (simp add: ex_worker_def)
  from message_performed_once[OF w this] w show ?thesis by blast
qed

section \<open>Retries\<close>

text \<open>The row after a list of failures: the time, the drawn delay and the exception of each.\<close>

definition after_failures :: "(datetime \<times> int \<times> exn) list \<Rightarrow> outbox \<Rightarrow> outbox" where
  "after_failures es row = foldl (\<lambda>r (now, jitter, e). failed_row now jitter e r) row es"

lemma after_failures_snoc: "after_failures (es @ [(now, jitter, e)]) row = failed_row now jitter e (after_failures es row)"
  by (simp add: after_failures_def)

lemma after_failures_attempts: "out_attempts (after_failures es row) = out_attempts row + int (length es)"
  by (induction es arbitrary: row) (simp_all add: after_failures_def failed_row_def Let_def case_prod_beta')

lemma two_le_power: "1 \<le> n \<Longrightarrow> 2 \<le> (2::int) ^ nat n"
  using power_increasing[of 1 "nat n" "2::int"] by simp

lemma retry_delay_bounds:
  assumes "0 \<le> jitter" "1 \<le> n"
  shows "2 \<le> retry_delay n jitter e \<and> retry_delay n jitter e \<le> max (900 + jitter) (retry_of e)"
  using two_le_power[OF assms(2)] assms(1)
  by (auto simp: retry_delay_def retry_of_def Let_def min_def max_def split: exn.splits)

text \<open>C1: Failures that are not permanent are retried seven times: a new row is \<open>pending\<close> after each of
  the first seven failures and \<open>dead\<close> from the eighth on, however long the failures took; a permanent
  failure ends it at once. After each failure the row waits at least two seconds and at most 900
  seconds and the drawn delay, or as long as the provider asked.\<close>

theorem retries_are_bounded:
  fixes now :: datetime and e :: exn
  assumes "out_attempts row = 0" "0 \<le> jitter"
    and "\<forall>(t, j, x) \<in> set es. \<not> is_permanent x"
  defines "r \<equiv> after_failures (es @ [(now, jitter, e)]) row"
  shows "(out_status r = ''dead'' \<longleftrightarrow> is_permanent e \<or> 7 \<le> length es) \<and>
    (out_status r = ''pending'' \<longleftrightarrow> out_status r \<noteq> ''dead'') \<and> out_lease r = None \<and> length (out_error r) \<le> 64 \<and>
    now + seconds 2 \<le> out_available r \<and> out_available r \<le> now + seconds (max (900 + jitter) (retry_of e))"
proof -
  have n: "out_attempts (after_failures es row) = int (length es)" by (simp add: after_failures_attempts assms(1))
  have "2 \<le> retry_delay (int (length es) + 1) jitter e \<and> retry_delay (int (length es) + 1) jitter e \<le> max (900 + jitter) (retry_of e)"
    by (rule retry_delay_bounds[OF assms(2)]) simp
  then show ?thesis
    unfolding r_def after_failures_snoc by (auto simp: failed_row_def Let_def n seconds_def)
qed

theorem retries_are_bounded_witness:
  "let r = after_failures (replicate 7 (0, 0, ValueError ''x'') @ [(5, 1, KeyError ''k'')]) ex_row in
    out_status r = ''dead'' \<and> 5 + seconds 2 \<le> out_available r"
  using retries_are_bounded[where row = ex_row and jitter = 1 and es = "replicate 7 (0, 0, ValueError ''x'')" and now = 5 and e = "KeyError ''k''"]
  by (simp add: ex_row_def new_outbox_def is_permanent_def)

section \<open>Dispatch\<close>

lemma send_rows_leased:
  assumes "tfor (send_row qe now) rows d = Inr (u, d')"
  shows "map out_id (db_outbox d') = map out_id (db_outbox d) \<and>
    (\<forall>x \<in> set (db_outbox d'). (x \<in> set (db_outbox d) \<and> out_id x \<notin> out_id ` set rows) \<or>
       (out_id x \<in> out_id ` set rows \<and> out_status x = ''queued'' \<and> out_lease x = Some (now + minutes 20)))"
  using assms
proof (induction rows arbitrary: d)
  case (Cons r rows)
  then obtain d1 where s: "send_row qe now r d = Inr ((), d1)" and t: "tfor (send_row qe now) rows d1 = Inr (u, d')" by auto
  have d1: "db_outbox d1 = update_where (\<lambda>x. out_id x = out_id r)
      (\<lambda>x. x\<lparr>out_status := ''queued'', out_lease := Some (now + minutes 20)\<rparr>) (db_outbox d)"
    using s by (auto simp: send_row_def)
  have ids: "map out_id (db_outbox d1) = map out_id (db_outbox d)" by (simp add: d1 update_where_def)
  have old: "x \<in> set (db_outbox d1) \<Longrightarrow> x \<in> set (db_outbox d) \<and> out_id x \<noteq> out_id r \<or>
      out_id x = out_id r \<and> out_status x = ''queued'' \<and> out_lease x = Some (now + minutes 20)" for x
    by (auto simp: d1 update_where_def split: if_splits)
  show ?case using Cons.IH[OF t] ids old by (simp, blast)
qed simp

text \<open>C22: One dispatch sends at most a hundred rows of an organization, none of them work of the
  maintenance worker, and every row it sent is leased: until the lease ends, no dispatch finds it.\<close>

theorem dispatched_rows_are_leased:
  assumes "dispatch_org qe now d = Inr (n, d')" "now' \<le> now + minutes 20"
  shows "0 \<le> n \<and> n \<le> 100 \<and>
    (\<forall>x \<in> set (db_outbox d'). x \<in> set (db_outbox d) \<or> out_status x = ''queued'' \<and> \<not> dispatchable now' x) \<and>
    (\<forall>r \<in> set (due_rows now d). out_task r \<notin> set MAINTENANCE \<longrightarrow>
      (\<forall>x \<in> set (due_rows now' d'). out_id x \<noteq> out_id r))"
proof -
  let ?rows = "filter (\<lambda>r. out_task r \<notin> set MAINTENANCE) (due_rows now d)"
  have t: "tfor (send_row qe now) ?rows d = Inr ((), d')" and n: "n = int (length ?rows)"
    using assms(1) by (auto simp: dispatch_org_def Let_def)
  have "length ?rows \<le> length (due_rows now d)" by (rule length_filter_le)
  also have "\<dots> \<le> 100" by (simp add: due_rows_def)
  finally have l: "length ?rows \<le> 100" .
  note s = send_rows_leased[OF t]
  have q: "\<not> dispatchable now' x" if "out_status x = ''queued''" "out_lease x = Some (now + minutes 20)" for x
    using that assms(2) by (simp add: dispatchable_def)
  have due: "x \<in> set (due_rows now' d') \<Longrightarrow> x \<in> set (db_outbox d') \<and> dispatchable now' x" for x
    by (auto simp: due_rows_def dest: in_set_takeD)
  show ?thesis using l n s q due by fastforce
qed

theorem dispatched_rows_are_leased_witness:
  "\<exists>d'. dispatch_org ex_queue 100 ex_db = Inr (1, d') \<and> (\<forall>x \<in> set (due_rows 1000 d'). out_id x \<noteq> 51)"
proof -
  have due: "due_rows 100 ex_db = [ex_row]"
    by (simp add: due_rows_def ex_db_def ex_row_def dispatchable_def new_outbox_def)
  have m: "out_task ex_row \<notin> set MAINTENANCE" "out_id ex_row = 51"
    by (simp_all add: ex_row_def new_outbox_def MAINTENANCE_def)
  then obtain d' where d: "dispatch_org ex_queue 100 ex_db = Inr (1, d')"
    by (simp add: dispatch_org_def due Let_def tbind_def send_row_def ex_queue_def)
  have "(1000::datetime) \<le> 100 + minutes 20" by (simp add: minutes_def seconds_def)
  from dispatched_rows_are_leased[OF d this] due m d show ?thesis by auto
qed

section \<open>An outage of the key service\<close>

text \<open>When the key service cannot be reached, a worker that would only read from Stripe suspends the
  connector and erases its credential: the exception of the key service is taken for an uncertain
  exchange of tokens although none took place, whether or not the access token had expired.\<close>

theorem key_outage_erases_credential:
  assumes "ins_status con = ''active''" "dict_of_json (ins_credential con) = Inr secret"
    and "decrypt_secret (en_crypto (we_stripe we)) (en_cipher (we_stripe we)) secret (uuid_str (ins_org con))
      (uuid_str (ins_id con)) ''oauth'' = Inl (OtherError ''ClientError'')"
  shows "work we row (Some con) d = (Some (ConnectorFailure ''OAUTH_PERSISTENCE_UNCERTAIN'' True 0),
    d\<lparr>db_installations := update_where (\<lambda>i. ins_id i = ins_id con)
      (\<lambda>i. i\<lparr>ins_status := ''suspended'', ins_error := ''OAUTH_PERSISTENCE_UNCERTAIN'', ins_credential := JObj []\<rparr>)
      (db_installations d)\<rparr>)"
proof -
  have "run_act con (refresh_access_token (we_stripe we)) d = Inl (OtherError ''ClientError'')"
    using assms by (simp add: run_act_def refresh_access_token_def abind_def aget_def aguard_def alift_def)
  then show ?thesis
    by (simp add: work_def refresh_first_def suspend_if_permanent_def suspend_def)
qed

theorem key_outage_erases_credential_witness:
  "fst (work (ex_worker 0) ex_row (Some (ex_stripe\<lparr>ins_credential := JObj [(''version'', JStr ''1''), (''provider'', JStr ''kms''),
    (''key'', JStr ''AAAA''), (''nonce'', JStr ''AAAA''), (''ciphertext'', JStr ''AAAA'')]\<rparr>)) ex_db) =
    Some (ConnectorFailure ''OAUTH_PERSISTENCE_UNCERTAIN'' True 0)"
proof -
  let ?secret = "[(''version'', JStr ''1''), (''provider'', JStr ''kms''), (''key'', JStr ''AAAA''), (''nonce'', JStr ''AAAA''),
    (''ciphertext'', JStr ''AAAA'')]"
  have "decrypt_secret ex_crypto ex_cipher ?secret (uuid_str 7) (uuid_str 22) ''oauth'' = Inl (OtherError ''ClientError'')"
    by code_simp
  then show ?thesis
    using key_outage_erases_credential[of "ex_stripe\<lparr>ins_credential := JObj ?secret\<rparr>" ?secret "ex_worker 0" ex_row ex_db]
    by (simp add: ex_stripe_def dict_of_json_def ex_worker_def ex_stripe_env_def)
qed

end
