(* ===== verification/Crypto_Props.thy ===== *)
theory Crypto_Props imports Examples Json_Roundtrip begin

text \<open>
  The envelope encryption of \<open>modules/connectors/crypto.py\<close>: a secret that was encrypted is read back
  unchanged, and only for the organization, the connector and the kind it was encrypted for. The
  properties rest on the documented behaviour of AES-GCM and of the key service.
\<close>

section \<open>What the cipher promises\<close>

text \<open>\<open>opens_sealed\<close>: what was sealed under a key, a nonce and a context opens under them, and the key
  service unwraps the keys it generated, in their context. \<open>binds_context\<close>: neither happens in another
  context (for AES-GCM, up to the chance of a forgery).\<close>

definition opens_sealed :: "cipher \<Rightarrow> bool" where
  "opens_sealed ci \<longleftrightarrow>
     (\<forall>k n t a c. ci_seal ci k n t a = Inr c \<longrightarrow> ci_open ci k n c a = Inr t) \<and>
     (\<forall>a key w. ci_kms_generate ci a = Inr (key, w) \<longrightarrow> ci_kms_decrypt ci w a = Inr key)"

definition binds_context :: "cipher \<Rightarrow> bool" where
  "binds_context ci \<longleftrightarrow>
     (\<forall>k n t a c b. ci_seal ci k n t a = Inr c \<longrightarrow> b \<noteq> a \<longrightarrow> ci_open ci k n c b = Inl (OtherError ''InvalidTag'')) \<and>
     (\<forall>a key w b. ci_kms_generate ci a = Inr (key, w) \<longrightarrow> b \<noteq> a \<longrightarrow>
        ci_kms_decrypt ci w b = Inl (OtherError ''ClientError''))"

lemma ex_unseal_seal:
  "ex_unseal k n (ex_seal k' n' t a') a =
    (if k' = k \<and> n' = n \<and> a' = a then Inr t else Inl (OtherError ''InvalidTag''))"
proof -
  have "loads (ex_seal k' n' t a') = Inr (JList [JStr k', JStr n', JStr a', JStr t])"
    unfolding ex_seal_def by (rule loads_dumps_raw) simp
  then show ?thesis by (simp add: ex_unseal_def)
qed

lemma ex_cipher_opens: "opens_sealed ex_cipher"
  by (simp add: opens_sealed_def ex_cipher_def ex_unseal_seal)

lemma ex_cipher_binds: "binds_context ex_cipher"
  by (simp add: binds_context_def ex_cipher_def ex_unseal_seal)

section \<open>The context\<close>

text \<open>The context determines what it was made of.\<close>

lemma set_of_sorted: "sort_key f xs = sort_key f ys \<Longrightarrow> set xs = set ys"
  by (metis set_sort)

lemma aad_inject: "aad cs org con kind = aad cs' org' con' kind' \<longleftrightarrow>
  cs_environment cs = cs_environment cs' \<and> org = org' \<and> con = con' \<and> kind = kind'"
proof
  let ?kvs = "\<lambda>cs org con kind. [(''organization_id'', JStr org), (''connector_id'', JStr con),
     (''environment'', JStr (cs_environment cs)), (''token_type'', JStr kind)]"
  have r: "loads (aad cs org con kind) = Inr (sorted_members (JObj (?kvs cs org con kind)))" for cs org con kind
    unfolding aad_def by (rule loads_dumps) simp
  assume "aad cs org con kind = aad cs' org' con' kind'"
  then have "sort_key fst (?kvs cs org con kind) = sort_key fst (?kvs cs' org' con' kind')"
    using r[of cs org con kind] r[of cs' org' con' kind'] by simp
  then have "set (?kvs cs org con kind) = set (?kvs cs' org' con' kind')" by (rule set_of_sorted)
  then have "x \<in> set (?kvs cs org con kind) \<Longrightarrow> x \<in> set (?kvs cs' org' con' kind')" for x by (simp only:)
  from this[of "(''organization_id'', JStr org)"] this[of "(''connector_id'', JStr con)"]
    this[of "(''environment'', JStr (cs_environment cs))"] this[of "(''token_type'', JStr kind)"]
  show "cs_environment cs = cs_environment cs' \<and> org = org' \<and> con = con' \<and> kind = kind'" by simp
qed (simp add: aad_def)

section \<open>Encrypting\<close>

text \<open>What a completed encryption stored, and how its key was made.\<close>

definition envelope :: "string \<Rightarrow> string \<Rightarrow> string \<Rightarrow> string \<Rightarrow> dict" where
  "envelope provider wrapped nonce ciphertext =
     [(''version'', JStr ''1''), (''provider'', JStr provider), (''key'', JStr (b64encode wrapped)),
      (''nonce'', JStr (b64encode nonce)), (''ciphertext'', JStr (b64encode ciphertext))]"

lemma encrypt_secretE:
  assumes "encrypt_secret cs ci dr value org con kind = Inr sealed"
  obtains key wrapped provider ciphertext where "data_key cs ci dr (aad cs org con kind) = Inr (key, wrapped, provider)"
    "ci_seal ci key (dr_nonce dr) (dumps_raw (JObj value)) (aad cs org con kind) = Inr ciphertext"
    "sealed = envelope provider wrapped (dr_nonce dr) ciphertext"
  using assms unfolding encrypt_secret_def Let_def by (elim rbindE) (auto simp: envelope_def elim!: rbindE)

lemma data_keyE:
  assumes "data_key cs ci dr a = Inr (key, wrapped, provider)"
  obtains (kms) "cs_kms_key cs \<noteq> []" "provider = ''kms''" "ci_kms_generate ci a = Inr (key, wrapped)"
  | (local) master sealed where "provider = ''local''" "\<not> cs_production cs" "b64_strict (cs_local_key cs) = Inr master"
      "key = dr_key dr" "ci_seal ci master (dr_wrap_nonce dr) key a = Inr sealed" "wrapped = dr_wrap_nonce dr @ sealed"
  using assms unfolding data_key_def by (auto split: if_splits elim!: rbindE)

text \<open>Opening an envelope takes its key and then its text.\<close>

lemma open_envelope:
  "open_secret cs ci (envelope provider wrapped nonce ciphertext) a =
     rbind (unwrap_key cs ci (JStr provider) wrapped a) (\<lambda>key.
     rbind (ci_open ci key nonce ciphertext a) (\<lambda>plain.
     rbind (loads plain) (\<lambda>result. case result of JObj kvs \<Rightarrow> Inr kvs | _ \<Rightarrow> Inl (ValueError ''Invalid secret''))))"
  by (simp add: open_secret_def envelope_def dict_at_def dict_get_def text_at_def b64_strict_def b64_lenient_def
    b64decode_strict_encode b64decode_encode)

section \<open>Decrypting\<close>

lemma decrypts:
  assumes "encrypt_secret cs ci dr value org con kind = Inr sealed" "opens_sealed ci"
    and "readable (JObj value)" "length (dr_wrap_nonce dr) = 12"
  shows "decrypt_secret cs ci sealed org con kind = Inr value"
proof -
  let ?a = "aad cs org con kind"
  obtain key wrapped provider c where k: "data_key cs ci dr ?a = Inr (key, wrapped, provider)" and
    c: "ci_seal ci key (dr_nonce dr) (dumps_raw (JObj value)) ?a = Inr c" and
    s: "sealed = envelope provider wrapped (dr_nonce dr) c"
    using assms(1) by (rule encrypt_secretE)
  have "unwrap_key cs ci (JStr provider) wrapped ?a = Inr key"
    using k assms(2,4) by (cases rule: data_keyE) (auto simp: unwrap_key_def opens_sealed_def)
  moreover have "ci_open ci key (dr_nonce dr) c ?a = Inr (dumps_raw (JObj value))"
    using c assms(2) by (simp add: opens_sealed_def)
  ultimately show ?thesis
    by (simp add: decrypt_secret_def s open_envelope loads_dumps_raw[OF assms(3)] del: dumps_raw.simps)
qed

section \<open>Properties\<close>

text \<open>C27: What was encrypted is read back: for every value the program can write, decrypting the stored
  envelope for the same organization, connector and kind gives the value, whether the data key came
  from the key service or was wrapped under the local key.\<close>

theorem secrets_round_trip:
  assumes "encrypt_secret cs ci dr value org con kind = Inr sealed" "opens_sealed ci"
    and "readable (JObj value)" "length (dr_wrap_nonce dr) = 12"
  shows "decrypt_secret cs ci sealed org con kind = Inr value"
  using assms by (rule decrypts)

text \<open>C28: A stored secret is bound to what it was stored for: under another organization, another connector
  or another kind it is never read, and an envelope under the local key then answers that the
  credential is unavailable.\<close>

theorem secrets_are_bound:
  assumes "encrypt_secret cs ci dr value org con kind = Inr sealed" "binds_context ci"
    and "(org', con', kind') \<noteq> (org, con, kind)" "length (dr_wrap_nonce dr) = 12"
  shows "decrypt_secret cs ci sealed org' con' kind' =
    Inl (if cs_kms_key cs \<noteq> [] then OtherError ''ClientError'' else Problem ''CREDENTIAL_UNAVAILABLE'' 503)"
proof -
  let ?a = "aad cs org con kind" let ?b = "aad cs org' con' kind'"
  have ne: "?b \<noteq> ?a" using assms(3) by (auto simp: aad_inject)
  obtain key wrapped provider c where k: "data_key cs ci dr ?a = Inr (key, wrapped, provider)" and
    s: "sealed = envelope provider wrapped (dr_nonce dr) c"
    using assms(1) by (rule encrypt_secretE)
  have "unwrap_key cs ci (JStr provider) wrapped ?b =
      Inl (if cs_kms_key cs \<noteq> [] then OtherError ''ClientError'' else OtherError ''InvalidTag'')"
    using k ne assms(2,4) by (auto simp: data_key_def unwrap_key_def binds_context_def split: if_splits elim!: rbindE)
  then show ?thesis by (simp add: decrypt_secret_def s open_envelope)
qed

section \<open>Witnesses\<close>

definition ex_draws :: draws where
  "ex_draws = \<lparr>dr_key = ''k'', dr_wrap_nonce = ''abcdefghijkl'', dr_nonce = ''n''\<rparr>"

definition ex_secret :: dict where "ex_secret = [(''access_token'', JStr ''sk'')]"

lemma ex_encrypts: "\<exists>sealed. encrypt_secret ex_crypto ex_cipher ex_draws val org con kind = Inr sealed"
  by (simp add: encrypt_secret_def Let_def data_key_def ex_crypto_def ex_cipher_def)

theorem secrets_round_trip_witness:
  "\<exists>sealed. encrypt_secret ex_crypto ex_cipher ex_draws ex_secret ''org'' ''con'' ''oauth'' = Inr sealed \<and>
    decrypt_secret ex_crypto ex_cipher sealed ''org'' ''con'' ''oauth'' = Inr ex_secret"
proof -
  obtain sealed where s: "encrypt_secret ex_crypto ex_cipher ex_draws ex_secret ''org'' ''con'' ''oauth'' = Inr sealed"
    using ex_encrypts by blast
  have "decrypt_secret ex_crypto ex_cipher sealed ''org'' ''con'' ''oauth'' = Inr ex_secret"
    using s ex_cipher_opens by (rule secrets_round_trip) (simp_all add: ex_secret_def ex_draws_def)
  with s show ?thesis by (intro exI[of _ sealed] conjI)
qed

theorem secrets_are_bound_witness:
  "\<exists>sealed. encrypt_secret ex_crypto ex_cipher ex_draws ex_secret ''org'' ''con'' ''oauth'' = Inr sealed \<and>
    decrypt_secret ex_crypto ex_cipher sealed ''other'' ''con'' ''oauth'' = Inl (OtherError ''ClientError'')"
proof -
  obtain sealed where s: "encrypt_secret ex_crypto ex_cipher ex_draws ex_secret ''org'' ''con'' ''oauth'' = Inr sealed"
    using ex_encrypts by blast
  have "decrypt_secret ex_crypto ex_cipher sealed ''other'' ''con'' ''oauth'' =
    Inl (if cs_kms_key ex_crypto \<noteq> [] then OtherError ''ClientError'' else Problem ''CREDENTIAL_UNAVAILABLE'' 503)"
    using s ex_cipher_binds by (rule secrets_are_bound) (simp_all add: ex_draws_def)
  with s show ?thesis by (intro exI[of _ sealed] conjI) (simp_all add: ex_crypto_def)
qed

end
