(* ===== verification/Api_Props.thy ===== *)
theory Api_Props imports Api_Ledger Crypto_Props begin

text \<open>
  The properties of the control plane's requests (\<open>apps/control_plane/api.py\<close>): a page that was
  performed is answered from its record when it is repeated, for every page behind \<open>idempotent\<close>.
\<close>

section \<open>Answers\<close>

text \<open>A recorded answer: a success in JSON whose members are distinct and need no reading of floats.\<close>

definition plain :: "response \<Rightarrow> bool" where
  "plain x \<longleftrightarrow> (\<exists>status kvs. x = json_response status kvs \<and> status < 400 \<and> readable (JObj kvs) \<and>
     dict_get kvs ''sealed_response'' = None)"

lemma plain_json: "status < 400 \<Longrightarrow> readable (JObj kvs) \<Longrightarrow> ''sealed_response'' \<notin> fst ` set kvs \<Longrightarrow> plain (json_response status kvs)"
  unfolding plain_def by (intro exI conjI) (auto simp: dict_get_def map_of_eq_None_iff)

definition answers :: "('a \<Rightarrow> bool) \<Rightarrow> 'a trans \<Rightarrow> bool" where
  "answers P t \<longleftrightarrow> (\<forall>d x d'. t d = Inr (x, d') \<longrightarrow> P x)"

lemma answersD: "answers P t \<Longrightarrow> t d = Inr (x, d') \<Longrightarrow> P x"
  by (auto simp: answers_def)

lemma answers_return: "P x \<Longrightarrow> answers P (treturn x)"
  by (simp add: answers_def)

lemma answers_bind: "(\<And>x. answers P (f x)) \<Longrightarrow> answers P (tbind m f)"
  by (auto simp: answers_def)

lemma answers_if: "answers P s \<Longrightarrow> answers P t \<Longrightarrow> answers P (if b then s else t)"
  by simp

lemma answers_option: "answers P s \<Longrightarrow> (\<And>x. answers P (t x)) \<Longrightarrow> answers P (case z of None \<Rightarrow> s | Some x \<Rightarrow> t x)"
  by (cases z) auto

lemma answers_pair: "(\<And>x y. answers P (t x y)) \<Longrightarrow> answers P (case z of (x, y) \<Rightarrow> t x y)"
  by (cases z) auto

lemmas answer_rules = answers_bind answers_return plain_json

text \<open>What the idempotent pages perform, under their common decorator.\<close>

fun work_of :: "api_env \<Rightarrow> api_call \<Rightarrow> page \<Rightarrow> page_view" where
  "work_of ae ap (CreateStore org) = create_store ae ap org"
| "work_of ae ap (InviteMember org) = invite_member ae ap org"
| "work_of ae ap (ChangeMembership org) = membership_change ae ap org"
| "work_of ae ap (SupportGrants org) = support_grant_view ae ap org"
| "work_of ae ap (AlertRoutes org) = alert_route_view ae ap org"
| "work_of ae ap (DeleteOrganization org) = organization_delete ae ap org"
| "work_of ae ap (OrganizationPolicy org) = organization_policy ae ap org"
| "work_of ae ap (PairingCodes s) = issue_code ae ap s"
| "work_of ae ap (VerifyLink s) = verify_link ae ap s"
| "work_of ae ap (StorePolicy s) = policy_view ae ap s"
| "work_of ae ap (Disconnect c) = connector_disconnect ae ap c"
| "work_of ae ap (WebhookSecret c) = webhook_secret ae ap c"
| "work_of ae ap (FindingAction f n) = finding_action ae ap f n"
| "work_of ae ap Reports = reports_view ae ap"
| "work_of ae ap p = page_view_of ae ap p"

lemma page_idempotent: "\<not> reads_only p \<Longrightarrow> page_view_of ae ap p = idempotent ae ap (work_of ae ap p)"
  by (cases p) (simp_all add: reads_only_def)

lemma work_plain: "\<not> reads_only p \<Longrightarrow> answers plain (work_of ae ap p vc a)"
proof (cases p)
  case (CreateStore org)
  then show ?thesis by (simp add: create_store_def) (intro answer_rules; simp)
next
  case (InviteMember org)
  then show ?thesis by (simp add: invite_member_def) (intro answer_rules; simp)
next
  case (ChangeMembership org)
  then show ?thesis by (simp add: membership_change_def) (intro answer_rules; simp)
next
  case (SupportGrants org)
  then show ?thesis
    by (simp only: work_of.simps support_grant_view_def Let_def revoke_grant_def approve_grant_def)
      (intro answer_rules answers_if answers_pair; simp)
next
  case (AlertRoutes org)
  then show ?thesis by (simp add: alert_route_view_def) (intro answer_rules; simp)
next
  case (DeleteOrganization org)
  then show ?thesis by (simp add: organization_delete_def) (intro answer_rules; simp)
next
  case (OrganizationPolicy org)
  then show ?thesis by (simp add: organization_policy_def) (intro answer_rules; simp)
next
  case (PairingCodes s)
  then show ?thesis by (simp only: work_of.simps issue_code_def Let_def) (intro answer_rules; simp)
next
  case (VerifyLink s)
  then show ?thesis
    by (simp only: work_of.simps verify_link_def link_conflict_def settle_link_def Let_def)
      (intro answer_rules answers_option answers_pair; simp)
next
  case (StorePolicy s)
  then show ?thesis by (simp add: policy_view_def) (intro answer_rules; simp)
next
  case (Disconnect c)
  then show ?thesis by (simp add: connector_disconnect_def) (intro answer_rules; simp)
next
  case (WebhookSecret c)
  then show ?thesis by (simp only: work_of.simps webhook_secret_def Let_def) (intro answer_rules; simp)
next
  case (FindingAction f n)
  then show ?thesis by (simp only: work_of.simps finding_action_def) (intro answer_rules answers_pair; simp)
next
  case Reports
  then show ?thesis by (simp only: work_of.simps reports_view_def) (intro answer_rules; simp)
qed (simp_all add: reads_only_def)

section \<open>Records\<close>

text \<open>No page touches the records of requests, its decorator apart.\<close>

interpretation records: trans_frame "\<lambda>d d'. db_idempotency d' = db_idempotency d"
  by unfold_locales auto

lemma ledger_records: "ledger.keeps t \<Longrightarrow> records.keeps t"
  by (rule records.keepsI) (auto simp: grows_def extends_def dest!: ledger.keepsD)

lemma add_store_records: "records.keeps (add_store org sd)"
  by (rule records.keepsI) (auto simp: add_store_def Let_def)

lemma create_store_records: "records.keeps (create_store ae ap org vc a)"
  unfolding create_store_def
  by (intro records.keeps_bind records.keeps_simple add_store_records ledger_records keeps_intros)

lemma policy_view_records: "records.keeps (policy_view ae ap s vc a)"
  unfolding policy_view_def
  by (intro records.keeps_bind records.keeps_simple records.keeps_modify ledger_records keeps_intros) (simp add: save_store_def)

lemma membership_change_records: "records.keeps (membership_change ae ap org vc a)"
  unfolding membership_change_def
  by (intro records.keeps_bind records.keeps_simple records.keeps_modify ledger_records keeps_intros) (simp add: save_member_def)

lemma work_records: "\<not> reads_only p \<Longrightarrow> records.keeps (work_of ae ap p vc a)"
  by (cases p) (simp_all add: reads_only_def create_store_records policy_view_records membership_change_records
    ledger_records keeps_intros)

text \<open>The table constraint on the records of an organization.\<close>

definition unique_records :: "db \<Rightarrow> bool" where
  "unique_records d \<longleftrightarrow> distinct (map (\<lambda>r. (ide_principal r, ide_route r, ide_key r)) (db_idempotency d))"

lemma find_unique_record:
  assumes "unique_records d" "r \<in> set (db_idempotency d)"
  shows "find_record (ide_principal r) (ide_route r) (ide_key r) d = Some r"
proof -
  let ?k = "\<lambda>r. (ide_principal r, ide_route r, ide_key r)"
  have "find_record (ide_principal r) (ide_route r) (ide_key r) d \<noteq> None"
    using assms(2) by (auto simp: find_record_def find_None_iff)
  then obtain s where s: "find_record (ide_principal r) (ide_route r) (ide_key r) d = Some s" by auto
  then have "s \<in> set (db_idempotency d)" "?k s = ?k r" by (auto simp: find_record_def find_Some_iff)
  then have "s = r" using assms by (simp add: unique_records_def distinct_map inj_on_def)
  then show ?thesis using s by simp
qed

text \<open>The recorded value is answered as it was, sealed or not.\<close>

definition reads_back :: "api_env \<Rightarrow> api_env \<Rightarrow> bool" where
  "reads_back ae ae' \<longleftrightarrow> opens_sealed (ae_cipher ae) \<and> length (dr_wrap_nonce (ae_draws ae)) = 12 \<and>
     ae_cipher ae' = ae_cipher ae \<and> ae_crypto ae' = ae_crypto ae \<and> ae_hash ae' = ae_hash ae"

lemma repeat_recorded:
  assumes "plain x" "record_response ae ap org who key x d = Inr (y, d')" "reads_back ae ae'"
  obtains r where "db_idempotency d' = db_idempotency d @ [r]" "y = x" "ide_principal r = who" "ide_route r = ap_path ap"
    "ide_key r = key" "ide_expires r = ae_now ae + hours 24"
    "\<And>ap'. repeat_response ae' ap' org r =
      (if body_hash ae' ap' = body_hash ae ap then Inr x else Inl (Problem ''IDEMPOTENCY_KEY_CONFLICT'' 409))"
proof -
  obtain status kvs where x: "x = json_response status kvs" "status < 400" "readable (JObj kvs)" "dict_get kvs ''sealed_response'' = None"
    using assms(1) by (auto simp: plain_def)
  obtain val where v: "sealed_response ae org (db_next d) kvs = Inr val" and y: "y = x" and
    d': "d' = d\<lparr>db_next := db_next d + 1, db_idempotency := db_idempotency d @
      [new_record (ae_now ae) (db_next d) org who (ap_path ap) key (body_hash ae ap) val status]\<rparr>"
    using assms(2) by (auto simp: record_response_def x json_response_def dict_of_json_def)
  let ?r = "new_record (ae_now ae) (db_next d) org who (ap_path ap) key (body_hash ae ap) val status"
  have sel: "ide_response ?r = val" "ide_status ?r = status" "ide_id ?r = db_next d" "ide_request_hash ?r = body_hash ae ap"
    by (simp_all add: new_record_def)
  have opened: "rbind (dict_of_json (ide_response ?r)) (\<lambda>value. case dict_get value ''sealed_response'' of
       None \<Rightarrow> Inr (json_response (ide_status ?r) value)
     | Some v \<Rightarrow> rbind (dict_of_json v) (\<lambda>sealed.
         rbind (decrypt_secret (ae_crypto ae') (ae_cipher ae') sealed (uuid_str org) (uuid_str (ide_id ?r)) ''idempotency'')
           (\<lambda>opened. Inr (json_response (ide_status ?r) opened)))) = Inr x"
  proof (cases "\<exists>k \<in> set SECRETS. dict_get kvs k \<noteq> None")
    case True
    then obtain sealed where e: "val = JObj [(''sealed_response'', JObj sealed)]" and
      s: "encrypt_secret (ae_crypto ae) (ae_cipher ae) (ae_draws ae) kvs (uuid_str org) (uuid_str (db_next d)) ''idempotency'' = Inr sealed"
      using v by (auto simp: sealed_response_def)
    have "decrypt_secret (ae_crypto ae') (ae_cipher ae') sealed (uuid_str org) (uuid_str (db_next d)) ''idempotency'' = Inr kvs"
      using decrypts[OF s] assms(3) x(3) by (simp add: reads_back_def)
    then show ?thesis unfolding sel by (simp add: e dict_of_json_def dict_get_def x)
  next
    case False
    then show ?thesis unfolding sel using v x by (auto simp: sealed_response_def dict_of_json_def)
  qed
  have again: "repeat_response ae' ap' org ?r =
      (if body_hash ae' ap' = body_hash ae ap then Inr x else Inl (Problem ''IDEMPOTENCY_KEY_CONFLICT'' 409))" for ap'
    using opened by (simp add: repeat_response_def sel guard_def eq_commute[of "body_hash ae ap"] del: rbind_def)
  show thesis
    by (rule that[OF _ _ _ _ _ _ again]) (simp_all add: d' y new_record_def)
qed

section \<open>Repeated requests\<close>

text \<open>The same user, with any rights, repeats a request for a page of the same organization, by its key.\<close>

definition repeats :: "view_call \<Rightarrow> access \<Rightarrow> api_call \<Rightarrow> view_call \<Rightarrow> access \<Rightarrow> api_call \<Rightarrow> bool" where
  "repeats vc a ap vc' a' ap' \<longleftrightarrow> vc_principal vc' = vc_principal vc \<and> ac_org a' = ac_org a \<and> ap_path ap' = ap_path ap \<and>
     idempotency_key ap' = idempotency_key ap"

text \<open>C1: A page that was performed is performed once: a request with the key of a request that succeeded
  is, for a day, answered with the same status and the same body, opened again when it was stored
  sealed, and changes nothing, whichever page behind \<open>idempotent\<close> it is and whatever happened to the
  tables in between; with another body it is refused.\<close>

theorem pages_are_performed_once:
  assumes "\<not> reads_only p" "page_view_of ae ap p vc a d = Inr (x, d1)"
    and "\<And>key. idempotency_key ap = Inr key \<Longrightarrow> find_record (actor vc) (ap_path ap) key d = None"
    and "repeats vc a ap vc' a' ap'" "reads_back ae ae'" "ae_now ae' < ae_now ae + hours 24"
    and "set (db_idempotency d1) \<subseteq> set (db_idempotency d2)" "unique_records d2" "\<exists>x \<in> set (db_orgs d2). org_id x = ac_org a"
  shows "page_view_of ae' ap' p vc' a' d2 =
    (if body_hash ae' ap' = body_hash ae ap then Inr (x, d2) else Inl (Problem ''IDEMPOTENCY_KEY_CONFLICT'' 409))"
proof -
  have i: "page_view_of e c p = idempotent e c (work_of e c p)" for e c using assms(1) by (rule page_idempotent)
  have h: "idempotent ae ap (work_of ae ap p) vc a d = Inr (x, d1)" using assms(2) by (simp only: i)
  then obtain key y dw where k: "idempotency_key ap = Inr key" and w: "work_of ae ap p vc a d = Inr (y, dw)" and
    r: "record_response ae ap (ac_org a) (actor vc) key y dw = Inr (x, d1)"
    by (cases rule: idempotentE) (use assms(3) in \<open>auto simp: forget_record_def\<close>)
  obtain u where u: "user_id vc = Inr u" "actor vc = show_int u"
    using h by (auto simp: idempotent_def user_id_def actor_def)
  obtain r where r: "db_idempotency d1 = db_idempotency dw @ [r]" "x = y" "ide_principal r = actor vc"
      "ide_route r = ap_path ap" "ide_key r = key" "ide_expires r = ae_now ae + hours 24"
      "\<And>c. repeat_response ae' c (ac_org a) r =
        (if body_hash ae' c = body_hash ae ap then Inr y else Inl (Problem ''IDEMPOTENCY_KEY_CONFLICT'' 409))"
    by (rule repeat_recorded[OF answersD[OF work_plain[OF assms(1)] w] r assms(5)]) (rule that, assumption+)
  have "find_record (actor vc) (ap_path ap) key d2 = Some r"
    using find_unique_record[OF assms(8), of r] assms(7) r(1,3-5) by simp
  moreover obtain row where "get_row ''Organization'' (\<lambda>x. org_id x = ac_org a) (db_orgs d2) = Inr row"
    using assms(9) by (cases "find (\<lambda>x. org_id x = ac_org a) (db_orgs d2)") (auto simp: get_row_def find_None_iff)
  moreover have "user_id vc' = Inr u" using u(1) assms(4) by (simp add: repeats_def user_id_def)
  ultimately show ?thesis
    using assms(4,6) u k r(2,6,7) by (simp add: i idempotent_def repeats_def)
qed

section \<open>Witnesses\<close>

definition ex_owner_access :: access where
  "ex_owner_access = \<lparr>ac_org = 7, ac_role = ''owner'', ac_support = False, ac_user = 1\<rparr>"

definition ex_page_call :: view_call where
  "ex_page_call = \<lparr>vc_principal = \<lparr>pr_authenticated = True, pr_user = 1, pr_staff = False\<rparr>,
     vc_session = \<lparr>se_org = [], se_authenticated = 0\<rparr>, vc_method = ''POST'', vc_correlation = ''c'', vc_kwargs = []\<rparr>"

text \<open>Fields that take any text, and the environment of a page at a time.\<close>

definition ex_fields :: field_lib where
  "ex_fields = \<lparr>fl_char = (\<lambda>n b v. None), fl_regex = (\<lambda>P v. None), fl_choice = (\<lambda>xs v. None), fl_email = (\<lambda>v. None),
     fl_datetime = (\<lambda>v. None)\<rparr>"

definition ex_api :: "datetime \<Rightarrow> api_env" where
  "ex_api now = \<lparr>ae_now = now, ae_hash = id, ae_crypto = ex_crypto, ae_cipher = ex_cipher, ae_draws = ex_draws,
     ae_token = ''token'', ae_destination = 90, ae_stripe = ex_stripe_env, ae_report = we_report (ex_worker now),
     ae_fields = ex_fields, ae_public_url = ''https://x'', ae_enumerate = id, ae_float = id, ae_sign = (\<lambda>v. []),
     ae_unsign = (\<lambda>s. None), ae_presign = (\<lambda>k f. []), ae_read_file = (\<lambda>k. Inr [])\<rparr>"

definition ex_request :: "(string \<times> string) list \<Rightarrow> string \<Rightarrow> api_call" where
  "ex_request headers body = \<lparr>ap_http = \<lparr>rq_headers = headers, rq_content_type = ''application/json'', rq_body = body\<rparr>,
     ap_path = ''/page/'', ap_query = [], ap_session_key = []\<rparr>"

definition ex_code_call :: api_call where
  "ex_code_call = ex_request [(''Idempotency-Key'', ''0123456789abcdef'')] ''{}''"

lemma ex_code_payload: "payload ex_code_call [] = Inr []"
proof -
  have "parse_body ''{}'' = Inr []"
    by (simp add: parse_body_def MAX_BODY_def loads_with_def skip_space_def is_json_space_def)
  moreover have "int10 ''0'' = Some 0" by code_simp
  then have "request_body (ap_http ex_code_call) = Inr ''{}''"
    by (simp add: request_body_def ex_code_call_def ex_request_def header_or_def MAX_BODY_def)
  ultimately show ?thesis by (simp add: payload_def payload_data_def)
qed

lemma ex_code_key: "idempotency_key ex_code_call = Inr ''0123456789abcdef''"
  by code_simp

lemma note_audit_silent:
  assumes "n \<notin> set SECURITY_NOTIFICATION_ACTIONS"
  shows "\<exists>row. note_audit ae vc org n r det d = Inr ((), d\<lparr>db_next := db_next d + 1, db_audit := db_audit d @ [row]\<rparr>)"
  using assms by (simp add: note_audit_def ignore_def audit_def tbind_def Let_def) (rule exI, rule refl)

lemma ex_code_performed:
  "\<exists>x d1. page_view_of (ex_api 0) ex_code_call (PairingCodes 11) ex_page_call ex_owner_access ex_db = Inr (x, d1) \<and>
    db_orgs d1 = db_orgs ex_db \<and> length (db_idempotency d1) = 1"
proof -
  let ?d = "add_pairing (ex_api 0) ex_page_call ex_store ''token'' (minutes 10) ex_db"
  let ?body = "[(''pairing_code'', JStr ''token''), (''expires_at'', JStr (isoformat (minutes 10))), (''mode'', JStr ''test'')]"
  have m: "managed (ex_api 0) ex_page_call ex_owner_access [''owner'', ''admin''] d = Inr ((), d)" for d
    by (simp add: managed_def ex_owner_access_def ex_page_call_def ex_api_def require_role_def require_recent_auth_def seconds_def)
  have s: "get_or_404 (\<lambda>s. sto_id s = 11 \<and> sto_active s) (db_stores ex_db) = Inr ex_store"
    by (simp add: get_or_404_def ex_db_def ex_store_def)
  obtain row where n: "note_audit (ex_api 0) ex_page_call (sto_org ex_store) ''pairing_code.created'' (sto_id ex_store) [] ?d =
      Inr ((), ?d\<lparr>db_next := db_next ?d + 1, db_audit := db_audit ?d @ [row]\<rparr>)"
    using note_audit_silent[of "''pairing_code.created''" "ex_api 0" ex_page_call "sto_org ex_store" "sto_id ex_store" "[]" ?d]
    by (auto simp: SECURITY_NOTIFICATION_ACTIONS_def)
  define d2 where "d2 = ?d\<lparr>db_next := db_next ?d + 1, db_audit := db_audit ?d @ [row]\<rparr>"
  have d2: "db_orgs d2 = db_orgs ex_db" "db_idempotency d2 = []"
    by (simp_all add: d2_def add_pairing_def ex_db_def empty_db_def)
  have v: "issue_code (ex_api 0) ex_code_call 11 ex_page_call ex_owner_access ex_db = Inr (json_response 201 ?body, d2)"
    using n[folded d2_def] by (simp add: issue_code_def m tbind_def tlift_def s ex_code_payload Let_def) (simp add: ex_api_def ex_store_def)
  obtain sealed where e: "encrypt_secret ex_crypto ex_cipher ex_draws ?body (uuid_str 7) (uuid_str (db_next d2)) ''idempotency'' = Inr sealed"
    using ex_encrypts by blast
  obtain x d1 where r: "record_response (ex_api 0) ex_code_call 7 (actor ex_page_call) ''0123456789abcdef'' (json_response 201 ?body) d2 = Inr (x, d1)"
      "db_orgs d1 = db_orgs ex_db" "length (db_idempotency d1) = 1"
    using e d2 by (simp add: record_response_def sealed_response_def json_response_def dict_of_json_def SECRETS_def dict_get_def ex_api_def)
  have "page_view_of (ex_api 0) ex_code_call (PairingCodes 11) ex_page_call ex_owner_access ex_db = Inr (x, d1)"
    using v r(1)
    by (simp add: idempotent_def ex_code_key user_id_def actor_def ex_page_call_def ex_owner_access_def find_record_def ex_db_def ex_org_def empty_db_def get_row_def tbind_def)
  then show ?thesis using r(2,3) by blast
qed

theorem pages_are_performed_once_witness:
  "\<exists>x d1. page_view_of (ex_api 0) ex_code_call (PairingCodes 11) ex_page_call ex_owner_access ex_db = Inr (x, d1) \<and>
    page_view_of (ex_api 1) ex_code_call (PairingCodes 11) ex_page_call ex_owner_access d1 = Inr (x, d1)"
proof -
  obtain x d1 where p: "page_view_of (ex_api 0) ex_code_call (PairingCodes 11) ex_page_call ex_owner_access ex_db = Inr (x, d1)"
    and d1: "db_orgs d1 = db_orgs ex_db" "length (db_idempotency d1) = 1"
    using ex_code_performed by blast
  obtain r where r: "db_idempotency d1 = [r]" using d1(2) by (cases "db_idempotency d1") auto
  have "page_view_of (ex_api 1) ex_code_call (PairingCodes 11) ex_page_call ex_owner_access d1 =
      (if body_hash (ex_api 1) ex_code_call = body_hash (ex_api 0) ex_code_call then Inr (x, d1)
       else Inl (Problem ''IDEMPOTENCY_KEY_CONFLICT'' 409))"
    by (rule pages_are_performed_once[OF _ p])
      (use d1(1) r in \<open>simp_all add: reads_only_def find_record_def ex_db_def empty_db_def repeats_def reads_back_def ex_api_def
        ex_draws_def ex_cipher_opens hours_def seconds_def unique_records_def ex_org_def ex_owner_access_def minutes_def\<close>)
  then have "page_view_of (ex_api 1) ex_code_call (PairingCodes 11) ex_page_call ex_owner_access d1 = Inr (x, d1)"
    by (simp add: body_hash_def ex_api_def del: page_view_of.simps)
  with p show ?thesis by (intro exI conjI)
qed

end
