(* ===== verification/Maintenance_Props.thy ===== *)
theory Maintenance_Props imports Maintenance Tenancy_Props begin

text \<open>
  Erasure and retention (\<open>modules/accounts/maintenance.py\<close>): the order of deletion exists exactly for
  references without a cycle, an erased organization leaves no row, and retention keeps open cases,
  what they cite and every reference between rows.
\<close>

section \<open>The order of deletion\<close>

text \<open>No model stands before one that refers to it.\<close>

fun leaves_first :: "model list \<Rightarrow> bool" where
  "leaves_first [] = True"
| "leaves_first (m # ms) = (\<not> is_referenced (m # ms) m \<and> leaves_first ms)"

text \<open>A set of models each of which another of them refers to: none of them can be deleted first.\<close>

definition knot :: "model set \<Rightarrow> bool" where
  "knot S \<longleftrightarrow> S \<noteq> {} \<and> (\<forall>m \<in> S. \<exists>x \<in> S. fst m \<in> set (snd x))"

lemma leaves_first_append:
  "leaves_first xs \<Longrightarrow> leaves_first ys \<Longrightarrow> (\<And>x. x \<in> set xs \<Longrightarrow> \<not> is_referenced ys x) \<Longrightarrow> leaves_first (xs @ ys)"
  by (induction xs) (auto simp: is_referenced_def)

lemma leaves_first_leaves: "(\<And>x. x \<in> set xs \<Longrightarrow> \<not> is_referenced ms x) \<Longrightarrow> set xs \<subseteq> set ms \<Longrightarrow> leaves_first xs"
proof (induction xs)
  case (Cons x xs)
  have "\<not> is_referenced (x # xs) x" using Cons.prems by (fastforce simp: is_referenced_def)
  moreover have "leaves_first xs" using Cons by simp
  ultimately show ?case by simp
qed simp

lemma ordered_modelsE:
  assumes "ordered_models ms = Inr os"
  obtains (empty) "ms = []" "os = []"
  | (first) rest where "ms \<noteq> []" "filter (\<lambda>m. \<not> is_referenced ms m) ms \<noteq> []"
      "ordered_models (filter (\<lambda>m. m \<notin> set (filter (\<lambda>m. \<not> is_referenced ms m) ms)) ms) = Inr rest"
      "os = filter (\<lambda>m. \<not> is_referenced ms m) ms @ rest"
proof (cases "ms = []")
  case True
  then show thesis using assms empty by (simp add: ordered_models.simps)
next
  case False
  then show thesis using assms first by (auto simp: ordered_models.simps[of ms] Let_def split: if_splits)
qed

lemma ordered_models_order: "ordered_models ms = Inr os \<Longrightarrow> mset os = mset ms \<and> leaves_first os"
proof (induction ms arbitrary: os rule: ordered_models.induct)
  case (1 ms)
  let ?l = "filter (\<lambda>m. \<not> is_referenced ms m) ms" and ?r = "filter (\<lambda>m. m \<notin> set (filter (\<lambda>m. \<not> is_referenced ms m) ms)) ms"
  from "1.prems" show ?case
  proof (cases rule: ordered_modelsE)
    case (first rest)
    have ih: "mset rest = mset ?r" "leaves_first rest" using "1.IH"[OF first(1) refl first(2,3)] by auto
    have "?r = filter (\<lambda>m. \<not> (\<not> is_referenced ms m)) ms" by (rule filter_cong) auto
    then have "mset ?r = filter_mset (is_referenced ms) (mset ms)" by (simp add: mset_filter)
    moreover have "mset ?l = filter_mset (\<lambda>m. \<not> is_referenced ms m) (mset ms)" by (simp add: mset_filter)
    moreover have "mset ms = filter_mset (is_referenced ms) (mset ms) + filter_mset (\<lambda>m. \<not> is_referenced ms m) (mset ms)"
      by (rule multiset_partition)
    ultimately have "mset os = mset ms" by (simp add: first(4) ih(1) add.commute del: mset_filter)
    moreover have "set rest \<subseteq> set ms" using mset_eq_setD[OF ih(1)] by auto
    then have "leaves_first (?l @ rest)"
      by (intro leaves_first_append ih(2) leaves_first_leaves[of _ ms]) (auto simp: is_referenced_def)
    ultimately show ?thesis by (simp add: first(4))
  qed simp
qed

lemma leaves_first_no_knot: "leaves_first os \<Longrightarrow> knot S \<Longrightarrow> \<not> S \<subseteq> set os"
proof (induction os)
  case (Cons m os)
  show ?case
  proof
    assume s: "S \<subseteq> set (m # os)"
    then have "m \<notin> S" using Cons.prems by (auto simp: knot_def is_referenced_def)
    then have "S \<subseteq> set os" using s by auto
    then show False using Cons by simp
  qed
qed (simp add: knot_def)

lemma ordered_models_refused: "ordered_models ms = Inl e \<Longrightarrow> e = RuntimeError ''Tenant deletion dependency cycle'' \<and> (\<exists>S \<subseteq> set ms. knot S)"
proof (induction ms rule: ordered_models.induct)
  case (1 ms)
  let ?l = "filter (\<lambda>m. \<not> is_referenced ms m) ms" and ?r = "filter (\<lambda>m. m \<notin> set (filter (\<lambda>m. \<not> is_referenced ms m) ms)) ms"
  have ms: "ms \<noteq> []" using "1.prems" by (auto simp: ordered_models.simps)
  show ?case
  proof (cases "?l = []")
    case True
    then have "\<forall>m \<in> set ms. is_referenced ms m" by (simp add: filter_empty_conv)
    then have "knot (set ms)" using ms by (simp add: knot_def is_referenced_def)
    then show ?thesis using "1.prems" True ms by (auto simp: ordered_models.simps[of ms] Let_def)
  next
    case False
    then have "ordered_models ?r = Inl e" using "1.prems" ms
      by (auto simp: ordered_models.simps[of ms] Let_def rbind_Inl_iff)
    then have "e = RuntimeError ''Tenant deletion dependency cycle'' \<and> (\<exists>S \<subseteq> set ?r. knot S)"
      using "1.IH"[OF ms refl False] by blast
    then show ?thesis by (meson filter_is_subset subset_trans)
  qed
qed

text \<open>C29: The search for an order of deletion ends with one or with the refusal, and refuses only what has
  none: for any models and foreign keys it returns every model once, each before all that it refers
  to, or it raises, exactly when some of the models refer to each other in a cycle.\<close>

theorem deletion_order_exists:
  "(\<exists>os. ordered_models ms = Inr os \<and> mset os = mset ms \<and> leaves_first os \<and> \<not> (\<exists>S \<subseteq> set ms. knot S)) \<or>
   (ordered_models ms = Inl (RuntimeError ''Tenant deletion dependency cycle'') \<and> (\<exists>S \<subseteq> set ms. knot S))"
proof (cases "ordered_models ms")
  case (Inl e)
  then show ?thesis using ordered_models_refused[OF Inl] by simp
next
  case (Inr os)
  have "mset os = mset ms" "leaves_first os" using ordered_models_order[OF Inr] by simp_all
  moreover from this have "\<not> (\<exists>S \<subseteq> set ms. knot S)" using leaves_first_no_knot mset_eq_setD by metis
  ultimately show ?thesis using Inr by simp
qed

section \<open>Erasure\<close>

lemma tenant_models_distinct: "distinct (map fst (map tt_model TENANT_TABLES))"
  by (simp add: TENANT_TABLES_def ACCOUNT_TABLES_def CONNECTOR_TABLES_def INGESTION_TABLES_def FINDING_TABLES_def
    REPORT_TABLES_def table_def)

lemma table_of_model: "t \<in> set TENANT_TABLES \<Longrightarrow> table_of (tt_model t) = Some t"
proof -
  assume t: "t \<in> set TENANT_TABLES"
  then have "table_of (tt_model t) \<noteq> None" by (auto simp: table_of_def find_None_iff)
  then obtain u where u: "table_of (tt_model t) = Some u" by auto
  then have "u \<in> set TENANT_TABLES" "tt_model u = tt_model t" by (auto simp: table_of_def find_Some_iff)
  then have "u = t" using t tenant_models_distinct by (auto simp: distinct_map inj_on_def)
  then show ?thesis using u by simp
qed

text \<open>Every table is among those the deletion goes through.\<close>

lemma tenant_models_complete: "tenant_models = Inr ts \<Longrightarrow> set ts = set TENANT_TABLES"
proof -
  assume "tenant_models = Inr ts"
  then obtain os where os: "ordered_models (map tt_model TENANT_TABLES) = Inr os" and ts: "ts = List.map_filter table_of os"
    by (auto simp: tenant_models_def)
  have "set os = tt_model ` set TENANT_TABLES" using ordered_models_order[OF os] mset_eq_setD by fastforce
  then show ?thesis using table_of_model by (force simp: ts List.map_filter_def)
qed

lemma erase_rowsE:
  assumes "erase_rows org d = Inr (counts, d')"
  obtains ts d1 where "tenant_models = Inr ts" "delete_tables org ts d = (counts, d1)" "\<forall>t \<in> set TENANT_TABLES. tt_count t org d1 = 0"
    "d' = d1\<lparr>db_locators := without loc_org org (db_locators d1), db_pairing_locators := without plo_org org (db_pairing_locators d1)\<rparr>"
proof -
  obtain ts where ts: "tenant_models = Inr ts" using assms by (auto simp: erase_rows_def)
  obtain c d1 where d1: "delete_tables org ts d = (c, d1)" by (cases "delete_tables org ts d")
  show thesis using assms that[OF ts] tenant_models_complete[OF ts] by (auto simp: erase_rows_def ts d1)
qed

text \<open>The rest of the erasure touches no table of the organization.\<close>

lemma counts_same:
  "t \<in> set TENANT_TABLES \<Longrightarrow> tt_count t org (d\<lparr>db_locators := x, db_pairing_locators := y\<rparr>) = tt_count t org d"
  "t \<in> set TENANT_TABLES \<Longrightarrow> tt_count t org (close_directory o' at receipt d) = tt_count t org d"
  by (auto simp: TENANT_TABLES_def ACCOUNT_TABLES_def CONNECTOR_TABLES_def INGESTION_TABLES_def FINDING_TABLES_def
    REPORT_TABLES_def table_def close_directory_def)

lemma erase_in_scopeE:
  assumes "erase_in_scope me org replay d = Inr (receipt, d')"
  obtains x counts d1 at where "x \<in> set (db_orgs d)" "org_id x = org" "\<not> org_active x" "org_deleted x \<noteq> None"
    "erase_rows org d = Inr (counts, d1)" "d' = close_directory org at receipt d1"
  proof -
  obtain x counts d1 at where g: "get_row ''Organization'' (\<lambda>x. org_id x = org) (db_orgs d) = Inr x"
    "\<not> org_active x" "org_deleted x \<noteq> None" "erase_rows org d = Inr (counts, d1)" "d' = close_directory org at receipt d1"
    using assms unfolding erase_in_scope_def Let_def by (elim tbindE) auto
  show thesis using that g get_row_Inr[OF g(1)] by blast
qed

lemma closed_entry:
  assumes "y \<in> set (update_where (\<lambda>x. dir_id x = org) (\<lambda>x. x\<lparr>dir_active := False, dir_erased := Some t, dir_digest := r\<rparr>) rows)"
    and "dir_id y = org"
  shows "\<not> dir_active y \<and> dir_erased y \<noteq> None \<and> dir_digest y = r"
proof -
  obtain x where "y = (if dir_id x = org then x\<lparr>dir_active := False, dir_erased := Some t, dir_digest := r\<rparr> else x)"
    using assms(1) unfolding update_where_def set_map by (elim imageE) (rule that)
  then show ?thesis using assms(2) by (cases "dir_id x = org") simp_all
qed

lemma erase_tenant_leaves:
  assumes "erase_tenant me org replay w = Inr (receipt, w')"
  shows "(\<exists>x \<in> set (db_orgs (wo_tenants w org)). org_id x = org \<and> \<not> org_active x \<and> org_deleted x \<noteq> None) \<and>
    (\<forall>t \<in> set TENANT_TABLES. tt_count t org (wo_tenants w' org) = 0) \<and>
    (\<forall>l \<in> set (db_locators (wo_shared w')). loc_org l \<noteq> org) \<and> (\<forall>l \<in> set (db_pairing_locators (wo_shared w')). plo_org l \<noteq> org) \<and>
    (\<forall>x \<in> set (db_directory (wo_shared w')). dir_id x = org \<longrightarrow> \<not> dir_active x \<and> dir_erased x \<noteq> None \<and> dir_digest x = receipt) \<and>
    (\<forall>o'. o' \<noteq> org \<longrightarrow> wo_tenants w' o' = wo_tenants w o')"
proof -
  obtain d' where e: "erase_in_scope me org replay (enter org w) = Inr (receipt, d')" and w': "w' = leave org d' w"
    using assms by (auto simp: erase_tenant_def elim!: tenant_scopeE)
  obtain x counts d1 at where x: "x \<in> set (db_orgs (enter org w))" "org_id x = org" "\<not> org_active x" "org_deleted x \<noteq> None"
    and r: "erase_rows org (enter org w) = Inr (counts, d1)" and d': "d' = close_directory org at receipt d1"
    using e by (rule erase_in_scopeE)
  obtain d0 where z: "\<forall>t \<in> set TENANT_TABLES. tt_count t org d0 = 0"
    and d1: "d1 = d0\<lparr>db_locators := without loc_org org (db_locators d0), db_pairing_locators := without plo_org org (db_pairing_locators d0)\<rparr>"
    using r by (rule erase_rowsE)
  have dir: "db_directory (wo_shared w') = update_where (\<lambda>x. dir_id x = org)
      (\<lambda>x. x\<lparr>dir_active := False, dir_erased := Some at, dir_digest := receipt\<rparr>) (db_directory d1)"
    by (simp add: w' leave_def d' close_directory_def)
  have "\<forall>t \<in> set TENANT_TABLES. tt_count t org (wo_tenants w' org) = 0"
    using z by (simp add: w' leave_def d' counts_same d1)
  moreover have "db_locators (wo_shared w') = without loc_org org (db_locators d0)"
    "db_pairing_locators (wo_shared w') = without plo_org org (db_pairing_locators d0)"
    by (simp_all add: w' leave_def d' d1 close_directory_def)
  moreover have "\<forall>x \<in> set (db_directory (wo_shared w')). dir_id x = org \<longrightarrow> \<not> dir_active x \<and> dir_erased x \<noteq> None \<and> dir_digest x = receipt"
    unfolding dir using closed_entry by blast
  moreover have "x \<in> set (db_orgs (wo_tenants w org))" using x(1) by (simp add: enter_def)
  moreover have "\<forall>o'. o' \<noteq> org \<longrightarrow> wo_tenants w' o' = wo_tenants w o'" by (simp add: w' leave_def)
  moreover have "l \<in> set (without key org xs) \<Longrightarrow> key l \<noteq> org" for l xs and key :: "'k \<Rightarrow> uuid" by (simp add: without_def)
  ultimately show ?thesis using x(2-4) by (intro conjI) (blast, simp_all only: simp_thms, simp_all add: without_def)
qed

text \<open>C30: An erased organization has asked for it and leaves nothing: none of its tables holds a row of it,
  no locator leads to it, its entry in the directory is closed with the digest of the receipt, and no
  table of another organization has changed.\<close>

theorem erased_organizations_leave_nothing:
  assumes "erase_tenant me org replay w = Inr (receipt, w')"
  shows "(\<exists>x \<in> set (db_orgs (wo_tenants w org)). org_id x = org \<and> \<not> org_active x \<and> org_deleted x \<noteq> None) \<and>
    (\<forall>t \<in> set TENANT_TABLES. tt_count t org (wo_tenants w' org) = 0) \<and>
    (\<forall>l \<in> set (db_locators (wo_shared w')). loc_org l \<noteq> org) \<and> (\<forall>l \<in> set (db_pairing_locators (wo_shared w')). plo_org l \<noteq> org) \<and>
    (\<forall>x \<in> set (db_directory (wo_shared w')). dir_id x = org \<longrightarrow> \<not> dir_active x \<and> dir_erased x \<noteq> None \<and> dir_digest x = receipt) \<and>
    (\<forall>o'. o' \<noteq> org \<longrightarrow> wo_tenants w' o' = wo_tenants w o')"
  using assms by (rule erase_tenant_leaves)

section \<open>Retention\<close>

text \<open>What retention leaves of the tables that refer to each other.\<close>

definition kept_delivery :: "datetime \<Rightarrow> db \<Rightarrow> email_delivery \<Rightarrow> bool" where
  "kept_delivery cutoff d x \<longleftrightarrow> (case del_event x of None \<Rightarrow> cutoff \<le> del_created x | Some e \<Rightarrow> e \<notin> expired_events cutoff d)"

definition kept_events :: "datetime \<Rightarrow> db \<Rightarrow> finding_event list" where
  "kept_events cutoff d = filter (\<lambda>e. eve_finding e \<notin> expired_keys cutoff d) (db_events d)"

definition retained :: "datetime \<Rightarrow> datetime \<Rightarrow> db \<Rightarrow> db \<Rightarrow> bool" where
  "retained now cutoff d d' \<longleftrightarrow>
     db_findings d' = filter (\<lambda>f. \<not> expired_case cutoff f) (db_findings d) \<and> db_events d' = kept_events cutoff d \<and>
     db_deliveries d' = filter (kept_delivery cutoff d) (db_deliveries d) \<and>
     db_runs d' = filter (\<lambda>r. \<not> (run_created r < cutoff \<and> (\<forall>e \<in> set (kept_events cutoff d). eve_run e \<noteq> Some (run_id r)))) (db_runs d) \<and>
     db_projections d' = filter (\<lambda>p. \<not> (pro_revision p < cutoff \<and> pro_source p \<notin> retained_ids d)) (db_projections d) \<and>
     db_observations d' = filter (\<lambda>x. \<not> (obs_created x < cutoff \<and> (\<forall>p \<in> set (db_projections d'). pro_observation p \<noteq> obs_id x)))
       (db_observations d) \<and>
     db_audit d' = filter (\<lambda>a. \<not> audit_expired now a) (db_audit d) \<and> db_next d' = db_next d"

lemma expired_keys_deliveries [simp]: "expired_keys cutoff (d\<lparr>db_deliveries := xs\<rparr>) = expired_keys cutoff d"
  by (simp add: expired_keys_def)

lemma expire_cases_tables:
  "db_findings (expire_cases cutoff d) = filter (\<lambda>f. \<not> expired_case cutoff f) (db_findings d)"
  "db_events (expire_cases cutoff d) = kept_events cutoff d"
  "db_deliveries (expire_cases cutoff d) = filter (kept_delivery cutoff d) (db_deliveries d)"
  "db_runs (expire_cases cutoff d) =
     filter (\<lambda>r. \<not> (run_created r < cutoff \<and> (\<forall>e \<in> set (kept_events cutoff d). eve_run e \<noteq> Some (run_id r)))) (db_runs d)"
  "db_projections (expire_cases cutoff d) = db_projections d" "db_observations (expire_cases cutoff d) = db_observations d"
  "db_audit (expire_cases cutoff d) = db_audit d" "db_next (expire_cases cutoff d) = db_next d"
  by (simp_all add: expire_cases_def Let_def kept_events_def expired_events_def kept_delivery_def cong: filter_cong)
    (rule filter_cong, simp_all add: kept_delivery_def expired_events_def not_less split: option.split)

lemma retained_ids_expired: "db_findings d' = filter (\<lambda>f. \<not> expired_case cutoff f) (db_findings d) \<Longrightarrow> retained_ids d' = retained_ids d"
  by (auto simp: retained_ids_def expired_case_def)

lemma retain_in_scopeE:
  assumes "retain_in_scope me org d = Inr (files, d')"
  obtains x where "x \<in> set (db_orgs d)" "org_id x = org" "retained (mt_now me) (mt_now me - days (org_retention x)) d d'"
proof -
  obtain x d0 where g: "get_row ''Organization'' (\<lambda>x. org_id x = org) (db_orgs d) = Inr x" and
    a: "expire_audit (mt_now me) (expire_outbox (mt_now me) (expire_facts (mt_now me - days (org_retention x))
      (expire_cases (mt_now me - days (org_retention x)) (expire_codes (mt_now me) (expire_requests (mt_now me) d))))) = Inr ((), d0)" and
    r: "expire_reports me d0 = Inr (files, d')"
    using assms unfolding retain_in_scope_def Let_def by (elim tbindE) auto
  define cutoff where "cutoff = mt_now me - days (org_retention x)"
  define d1 where "d1 = expire_codes (mt_now me) (expire_requests (mt_now me) d)"
  define d2 where "d2 = expire_cases cutoff d1"
  have early: "db_findings d1 = db_findings d" "db_events d1 = db_events d" "db_deliveries d1 = db_deliveries d" "db_runs d1 = db_runs d"
    "db_projections d1 = db_projections d" "db_observations d1 = db_observations d" "db_audit d1 = db_audit d" "db_next d1 = db_next d"
    by (simp_all add: d1_def expire_codes_def expire_requests_def drop_locators_def Let_def)
  have gone: "expired_keys cutoff d1 = expired_keys cutoff d" "expired_events cutoff d1 = expired_events cutoff d"
    by (simp_all add: expired_keys_def expired_events_def early)
  have mails: "kept_delivery cutoff d1 = kept_delivery cutoff d"
    unfolding kept_delivery_def [abs_def] gone by (rule refl)
  have same: "kept_events cutoff d1 = kept_events cutoff d" "retained_ids d1 = retained_ids d"
    by (simp_all add: kept_events_def retained_ids_def gone early)
  have ids: "retained_ids d2 = retained_ids d"
    using retained_ids_expired[of d2 cutoff d1] by (simp add: d2_def expire_cases_tables same)
  have d0: "d0 = (expire_outbox (mt_now me) (expire_facts cutoff d2))\<lparr>db_audit :=
      filter (\<lambda>a. \<not> audit_expired (mt_now me) a) (db_audit (expire_outbox (mt_now me) (expire_facts cutoff d2)))\<rparr>"
    using a by (auto simp: expire_audit_def cutoff_def d1_def d2_def)
  have d': "d' = d0\<lparr>db_reports := filter (\<lambda>r. \<not> rep_expires r < mt_now me) (db_reports d0)\<rparr>"
    using r by (auto simp: expire_reports_def Let_def)
  have "retained (mt_now me) cutoff d d'"
    unfolding retained_def d' d0
    by (simp add: expire_outbox_def expire_facts_def Let_def ids) (simp add: d2_def expire_cases_tables early same mails)
  then show thesis using get_row_Inr[OF g] by (intro that[of x]) (simp_all add: cutoff_def)
qed

text \<open>The references between these tables, each to a row that is there.\<close>

definition linked :: "db \<Rightarrow> bool" where
  "linked d \<longleftrightarrow>
     (\<forall>e \<in> set (db_events d). eve_finding e \<in> fin_id ` set (db_findings d) \<and>
        (\<forall>r. eve_run e = Some r \<longrightarrow> r \<in> run_id ` set (db_runs d))) \<and>
     (\<forall>p \<in> set (db_projections d). pro_observation p \<in> obs_id ` set (db_observations d)) \<and>
     (\<forall>x \<in> set (db_deliveries d). (\<forall>e. del_event x = Some e \<longrightarrow> e \<in> eve_id ` set (db_events d)))"

lemma kept_event_parts:
  assumes "retained now cutoff d d'" "linked d" "e \<in> set (db_events d')"
  shows "eve_finding e \<in> fin_id ` set (db_findings d')" "eve_run e = Some r \<Longrightarrow> r \<in> run_id ` set (db_runs d')"
proof -
  have e: "e \<in> set (db_events d)" "eve_finding e \<notin> expired_keys cutoff d"
    using assms(1,3) by (auto simp: retained_def kept_events_def)
  obtain f where f: "f \<in> set (db_findings d)" "fin_id f = eve_finding e" using assms(2) e(1) by (auto simp: linked_def)
  then have "\<not> expired_case cutoff f" using e(2) unfolding expired_keys_def f(2)[symmetric] by auto
  then have "f \<in> set (db_findings d')" using f(1) assms(1) by (simp add: retained_def)
  then show "eve_finding e \<in> fin_id ` set (db_findings d')" using f(2) by force
next
  assume r: "eve_run e = Some r"
  have e: "e \<in> set (kept_events cutoff d)" "e \<in> set (db_events d)" using assms(1,3) by (auto simp: retained_def kept_events_def)
  have "r \<in> run_id ` set (db_runs d)" using assms(2) e(2) r by (simp add: linked_def)
  then obtain x where x: "x \<in> set (db_runs d)" "run_id x = r" by blast
  then have "x \<in> set (db_runs d')" using assms(1) e(1) r by (auto simp: retained_def)
  then show "r \<in> run_id ` set (db_runs d')" using x(2) by force
qed

lemma retained_linked:
  assumes "retained now cutoff d d'" "linked d"
  shows "linked d'"
proof -
  have p: "pro_observation p \<in> obs_id ` set (db_observations d')" if "p \<in> set (db_projections d')" for p
  proof -
    have "p \<in> set (db_projections d)" using assms(1) that by (simp add: retained_def)
    then have "pro_observation p \<in> obs_id ` set (db_observations d)" using assms(2) by (simp add: linked_def)
    then obtain x where x: "x \<in> set (db_observations d)" "obs_id x = pro_observation p" by force
    then have "x \<in> set (db_observations d')" using assms(1) that by (auto simp: retained_def)
    then show ?thesis using x(2) by force
  qed
  have m: "i \<in> eve_id ` set (db_events d')" if "x \<in> set (db_deliveries d')" "del_event x = Some i" for x i
  proof -
    have x: "x \<in> set (db_deliveries d)" "i \<notin> expired_events cutoff d" using assms(1) that by (auto simp: retained_def kept_delivery_def)
    then have "i \<in> eve_id ` set (db_events d)" using assms(2) that(2) by (simp add: linked_def)
    then obtain e where e: "e \<in> set (db_events d)" "eve_id e = i" by blast
    then have "e \<in> set (db_events d')" using x(2) assms(1) by (auto simp: retained_def kept_events_def expired_events_def)
    then show ?thesis using e(2) by force
  qed
  show ?thesis using p m kept_event_parts[OF assms] by (simp add: linked_def)
qed

lemma kept_history:
  assumes "retained now cutoff d d'" "distinct (map fin_id (db_findings d))" "f \<in> set (db_findings d')"
  shows "history (fin_id f) d' = history (fin_id f) d"
proof -
  have f: "f \<in> set (db_findings d)" "\<not> expired_case cutoff f" using assms(1,3) by (auto simp: retained_def)
  have "fin_id f \<notin> expired_keys cutoff d" using assms(2) f by (auto simp: expired_keys_def distinct_map inj_on_def)
  then have "filter (\<lambda>e. eve_finding e = fin_id f) (kept_events cutoff d) = filter (\<lambda>e. eve_finding e = fin_id f) (db_events d)"
    unfolding kept_events_def filter_filter by (intro filter_cong) auto
  then show ?thesis using assms(1) by (simp add: history_def retained_def)
qed

lemma retained_coherent:
  assumes "retained now cutoff d d'" "coherent d" "linked d"
  shows "coherent d'"
proof -
  have s: "set (db_findings d') \<subseteq> set (db_findings d)" "db_next d' = db_next d" using assms(1) by (auto simp: retained_def)
  have "told f d'" if "f \<in> set (db_findings d')" for f
    using kept_history[OF assms(1) _ that] assms(2) that s(1) by (auto simp: coherent_def told_def)
  moreover have "distinct (map fin_id (db_findings d'))" "distinct (map fin_key (db_findings d'))"
    using assms(1,2) by (auto simp: retained_def coherent_def distinct_map_filter)
  ultimately show ?thesis using kept_event_parts(1)[OF assms(1,3)] s assms(2) by (auto simp: coherent_def)
qed

lemma retainE:
  assumes "retain me org w = Inr (files, w')"
  obtains cutoff where "retained (mt_now me) cutoff (enter org w) (enter org w')"
proof -
  obtain d' where d': "retain_in_scope me org (enter org w) = Inr (files, d')" "w' = leave org d' w"
    using assms by (auto simp: retain_def elim!: tenant_scopeE)
  then show thesis using that by (auto simp: enter_leave elim!: retain_in_scopeE)
qed


text \<open>C32: Retention keeps open cases: a finding that is not resolved stays with all its events, and so do
  the projections its identities name and the observations they were read from, whatever the age.\<close>

theorem open_cases_survive_retention:
  assumes "retain me org w = Inr (files, w')" "distinct (map fin_id (db_findings (wo_tenants w org)))"
    and "f \<in> set (db_findings (wo_tenants w org))" "fin_state f \<noteq> ''resolved''"
  shows "f \<in> set (db_findings (wo_tenants w' org)) \<and> history (fin_id f) (wo_tenants w' org) = history (fin_id f) (wo_tenants w org) \<and>
    (\<forall>p \<in> set (db_projections (wo_tenants w org)). pro_source p \<in> set (cited_ids f) \<longrightarrow>
      p \<in> set (db_projections (wo_tenants w' org)) \<and>
      (\<forall>x \<in> set (db_observations (wo_tenants w org)). obs_id x = pro_observation p \<longrightarrow> x \<in> set (db_observations (wo_tenants w' org))))"
proof -
  obtain cutoff where r: "retained (mt_now me) cutoff (enter org w) (enter org w')" using assms(1) by (rule retainE)
  have t: "db_findings (enter org v) = db_findings (wo_tenants v org)" "history i (enter org v) = history i (wo_tenants v org)"
    "db_projections (enter org v) = db_projections (wo_tenants v org)" "db_observations (enter org v) = db_observations (wo_tenants v org)"
    for v i by (simp_all add: enter_def history_def)
  have f: "f \<in> set (db_findings (enter org w'))" using r assms(3,4) by (simp add: retained_def expired_case_def t)
  have "history (fin_id f) (enter org w') = history (fin_id f) (enter org w)"
    using kept_history[OF r _ f] assms(2) by (simp add: t)
  moreover have "p \<in> set (db_projections (enter org w'))" if "p \<in> set (db_projections (enter org w))" "pro_source p \<in> set (cited_ids f)" for p
  proof -
    have "pro_source p \<in> retained_ids (enter org w)" using that(2) assms(3,4) by (force simp: retained_ids_def t)
    then show ?thesis using r that(1) by (simp add: retained_def)
  qed
  moreover have "x \<in> set (db_observations (enter org w'))"
    if "p \<in> set (db_projections (enter org w'))" "x \<in> set (db_observations (enter org w))" "obs_id x = pro_observation p" for p x
    using r that by (auto simp: retained_def)
  ultimately show ?thesis using f unfolding t by blast
qed


section \<open>Witnesses\<close>

definition ex_maintenance :: "datetime \<Rightarrow> maintenance_env" where
  "ex_maintenance now = \<lparr>mt_now = now, mt_hash = (\<lambda>s. ''digest''), mt_identity = (''ledgerguard_maintenance'', False, False),
     mt_production = False, mt_report_bucket = [], mt_versions = (\<lambda>org. []), mt_delete = (\<lambda>v. Inr []), mt_ledger_bucket = [],
     mt_put = (\<lambda>k v. Inr ())\<rparr>"

lemma ex_maintenance_role [simp]: "require_maintenance_role (ex_maintenance now) = Inr ()"
  by (simp add: require_maintenance_role_def require_database_role_def ex_maintenance_def)

lemma ex_maintenance_now [simp]: "mt_now (ex_maintenance now) = now"
  by (simp add: ex_maintenance_def)

text \<open>A case that was resolved long ago, one that is open, and an organization that asked for its deletion.\<close>

definition ex_case :: "uuid \<Rightarrow> string \<Rightarrow> finding" where
  "ex_case i s = \<lparr>fin_id = i, fin_org = 7, fin_store = 11, fin_mode = ''test'', fin_key = uuid_str i, fin_rule = ''PI-001'',
     fin_rule_version = [], fin_policy_version = 1, fin_severity = ''high'', fin_state = s, fin_identities = [''payment:pi_1''],
     fin_risk = None, fin_currency = ''EUR'', fin_exponent = 2, fin_confidence = 100, fin_first_seen = 0, fin_last_seen = 0,
     fin_eligible = 0, fin_occurrences = 0, fin_evidence = [], fin_evidence_hash = [], fin_suppressed_until = None,
     fin_clean_since = None, fin_clean_digest = [], fin_resolved = (if s = ''resolved'' then Some 0 else None), fin_updated = 0,
     fin_lock = 0\<rparr>"

definition ex_kept_db :: db where
  "ex_kept_db = ex_db\<lparr>db_findings := [ex_case 81 ''provisional'']\<rparr>"

lemma ex_retained: "\<exists>files w'. retain (ex_maintenance (days 500)) 7 (ex_world ex_kept_db) = Inr (files, w')"
  by (simp add: retain_def tenant_scope_def no_context_def retain_in_scope_def tlift_def Let_def tbind_def get_row_def
    expire_audit_def expire_outbox_def expire_facts_def expire_cases_tables expire_codes_def expire_requests_def drop_locators_def
    expire_reports_def ex_kept_db_def ex_db_def empty_db_def ex_org_def)


theorem open_cases_survive_retention_witness:
  "\<exists>files w'. retain (ex_maintenance (days 500)) 7 (ex_world ex_kept_db) = Inr (files, w') \<and>
    ex_case 81 ''provisional'' \<in> set (db_findings (wo_tenants w' 7))"
proof -
  obtain files w' where r: "retain (ex_maintenance (days 500)) 7 (ex_world ex_kept_db) = Inr (files, w')" using ex_retained by blast
  have "ex_case 81 ''provisional'' \<in> set (db_findings (wo_tenants w' 7))"
    using open_cases_survive_retention[OF r, of "ex_case 81 ''provisional''"] by (simp add: ex_world_def ex_kept_db_def ex_case_def)
  with r show ?thesis by blast
qed

definition ex_entry :: audit_log where
  "ex_entry = \<lparr>aud_id = 82, aud_org = 7, aud_actor = ''1'', aud_action = ''member.joined'', aud_resource = [], aud_correlation = [],
     aud_details = JObj [], aud_created = 0\<rparr>"

definition ex_mail :: email_delivery where
  "ex_mail = \<lparr>del_id = 83, del_org = 7, del_digest_key = None, del_event = None, del_security = Some 82, del_route = 84,
     del_status = ''accepted'', del_provider = [], del_accepted = None, del_feedback = None, del_created = minutes 5\<rparr>"


definition ex_closing_db :: db where
  "ex_closing_db = ex_db\<lparr>db_orgs := [ex_org\<lparr>org_active := False, org_deleted := Some 0\<rparr>]\<rparr>"

lemma ex_rows_erased: "yields (erase_rows 7 ex_closing_db) (\<lambda>counts d. True)"
  by code_simp

theorem erased_organizations_leave_nothing_witness:
  "\<exists>receipt w'. erase_tenant (ex_maintenance 0) 7 None (ex_world ex_closing_db) = Inr (receipt, w') \<and>
    rows_of sto_org 7 (db_stores ex_closing_db) = 1 \<and> rows_of sto_org 7 (db_stores (wo_tenants w' 7)) = 0"
proof -
  obtain counts d where e: "erase_rows 7 ex_closing_db = Inr (counts, d)" using ex_rows_erased by (rule yieldsE)
  have "get_row ''Organization'' (\<lambda>x. org_id x = 7) (db_orgs ex_closing_db) = Inr (ex_org\<lparr>org_active := False, org_deleted := Some 0\<rparr>)"
    by (simp add: get_row_def ex_closing_db_def ex_org_def)
  then obtain receipt w' where r: "erase_tenant (ex_maintenance 0) 7 None (ex_world ex_closing_db) = Inr (receipt, w')"
    using e by (simp add: erase_tenant_def tenant_scope_def no_context_def erase_in_scope_def tlift_def tguard_def tbind_def Let_def
      erase_reports_def publish_receipt_def ex_maintenance_def[of 0] ex_org_def require_maintenance_role_def require_database_role_def)
  have "table ''Store'' [] ''connectors_store'' (\<lambda>o' d. rows_of sto_org o' (db_stores d))
      (\<lambda>o' d. d\<lparr>db_stores := without sto_org o' (db_stores d)\<rparr>) \<in> set TENANT_TABLES"
    by (simp add: TENANT_TABLES_def CONNECTOR_TABLES_def)
  with erased_organizations_leave_nothing[OF r] have "rows_of sto_org 7 (db_stores (wo_tenants w' 7)) = 0"
    by (auto simp: table_def)
  moreover have "rows_of sto_org 7 (db_stores ex_closing_db) = 1"
    by (simp add: rows_of_def ex_closing_db_def ex_db_def ex_store_def)
  ultimately show ?thesis using r by blast
qed

end
