(* ===== verification/Operations_Props.thy ===== *)
theory Operations_Props imports Operations Maintenance_Props begin

text \<open>
  The commands of operators: a replay of erasures leaves no organization whose receipt is in the
  ledger, a dry run changes nothing, and a maintenance pass never erases an organization that did not
  ask for it.
\<close>

section \<open>One organization at a time\<close>

definition present :: "uuid \<Rightarrow> world \<Rightarrow> bool" where
  "present org w \<longleftrightarrow> organization_exists org (wo_tenants w org)"

lemma present_leave: "present o' (leave org d w) \<longleftrightarrow> (if o' = org then organization_exists org d else present o' w)"
  by (simp add: present_def leave_def)

lemma exists_enter [simp]: "organization_exists org (enter o' w) = organization_exists org (wo_tenants w o')"
  by (simp add: organization_exists_def enter_def)

lemma erased_absent:
  assumes "erase_tenant me org replay w = Inr (receipt, w')"
  shows "\<not> present org w'" "\<And>o'. o' \<noteq> org \<Longrightarrow> present o' w' \<longleftrightarrow> present o' w"
proof -
  have e: "\<forall>t \<in> set TENANT_TABLES. tt_count t org (wo_tenants w' org) = 0" "\<forall>o'. o' \<noteq> org \<longrightarrow> wo_tenants w' o' = wo_tenants w o'"
    by (insert erase_tenant_leaves[OF assms], (elim conjE, assumption)+)
  have "table ''Organization'' [] ''accounts_organization'' (\<lambda>o' d. rows_of org_id o' (db_orgs d))
      (\<lambda>o' d. d\<lparr>db_orgs := without org_id o' (db_orgs d)\<rparr>) \<in> set TENANT_TABLES"
    by (simp add: TENANT_TABLES_def ACCOUNT_TABLES_def)
  with e(1) have "rows_of org_id org (db_orgs (wo_tenants w' org)) = 0" by (auto simp: table_def)
  then show "\<not> present org w'" by (auto simp: present_def organization_exists_def rows_of_def filter_empty_conv)
  show "o' \<noteq> org \<Longrightarrow> present o' w' \<longleftrightarrow> present o' w" for o' using e(2) by (simp add: present_def)
qed

lemma close_restored_exists [simp]: "organization_exists org (close_restored now o' d) = organization_exists org d"
proof -
  have "map org_id (db_orgs (close_restored now o' d)) = map org_id (db_orgs d)"
    by (simp add: close_restored_def update_where_def)
  then have "org_id ` set (db_orgs (close_restored now o' d)) = org_id ` set (db_orgs d)" by (metis set_map)
  then show ?thesis unfolding organization_exists_def by (metis (no_types, lifting) imageE image_eqI)
qed

lemma replay_objectE:
  assumes "replay_object me dry key body w = Inr (found, w')"
  obtains r w1 where "parse_receipt key (take 4097 body) = Inr r" "found = present (er_org r) w"
    "w1 = leave (er_org r) (if found \<and> \<not> dry then close_restored (mt_now me) (er_org r) (enter (er_org r) w) else enter (er_org r) w) w"
    "if found \<and> \<not> dry then \<exists>receipt. erase_tenant me (er_org r) (Some r) w1 = Inr (receipt, w') else w' = w1"
  using assms unfolding replay_object_def
  by (auto simp: mark_restored_def Let_def present_def split: sum.splits if_splits elim!: tenant_scopeE intro!: that)

lemma leave_enter: "leave org (enter org w) w = w\<lparr>wo_tenants := (wo_tenants w)(org := enter org w)\<rparr>"
  by (simp add: leave_def enter_def)

text \<open>An object of the ledger removes its organization, and brings none back.\<close>

lemma replay_object_erases:
  assumes "replay_object me False key body w = Inr (found, w')"
  shows "(\<exists>r. parse_receipt key (take 4097 body) = Inr r \<and> \<not> present (er_org r) w') \<and> (\<forall>o'. present o' w' \<longrightarrow> present o' w)"
proof (rule replay_objectE[OF assms])
  fix r w1
  assume p: "parse_receipt key (take 4097 body) = Inr r" and f: "found = present (er_org r) w"
    and w1: "w1 = leave (er_org r) (if found \<and> \<not> False then close_restored (mt_now me) (er_org r) (enter (er_org r) w)
      else enter (er_org r) w) w"
    and e: "if found \<and> \<not> False then \<exists>receipt. erase_tenant me (er_org r) (Some r) w1 = Inr (receipt, w') else w' = w1"
  have same: "present o' w1 \<longleftrightarrow> present o' w" for o' by (simp add: w1 present_leave) (simp add: present_def)
  show ?thesis
  proof (cases found)
    case True
    then obtain receipt where "erase_tenant me (er_org r) (Some r) w1 = Inr (receipt, w')" using e by auto
    then have "\<not> present (er_org r) w'" "\<And>o'. o' \<noteq> er_org r \<Longrightarrow> present o' w' = present o' w1"
      using erased_absent by auto
    then show ?thesis using p same by (metis (full_types))
  next
    case False
    then have "w' = w1" "\<not> present (er_org r) w" using e f by simp_all
    then show ?thesis using p same by blast
  qed
qed

lemma replay_objects_erase:
  "replay_objects me False objects w = Inr (n, w') \<Longrightarrow>
    (\<forall>(key, body) \<in> set objects. \<exists>r. parse_receipt key (take 4097 body) = Inr r \<and> \<not> present (er_org r) w') \<and>
    (\<forall>o'. present o' w' \<longrightarrow> present o' w)"
proof (induction objects arbitrary: w n)
  case (Cons x xs)
  obtain key body where x: "x = (key, body)" by (cases x)
  obtain found w1 m where o: "replay_object me False key body w = Inr (found, w1)" and os: "replay_objects me False xs w1 = Inr (m, w')"
    using Cons.prems by (auto simp: x)
  show ?case using replay_object_erases[OF o] Cons.IH[OF os] by (auto simp: x)
qed simp

text \<open>A dry run only reads.\<close>

lemma dry_run_reads:
  "replay_objects me True objects w = Inr (n, w') \<Longrightarrow> enter o' w' = enter o' w \<and> (\<forall>o'. present o' w' = present o' w)"
proof (induction objects arbitrary: w n)
  case (Cons x xs)
  obtain key body where x: "x = (key, body)" by (cases x)
  obtain found w1 m where o: "replay_object me True key body w = Inr (found, w1)" and os: "replay_objects me True xs w1 = Inr (m, w')"
    using Cons.prems by (auto simp: x)
  obtain r w2 where "w2 = leave (er_org r) (if found \<and> \<not> True then close_restored (mt_now me) (er_org r) (enter (er_org r) w)
      else enter (er_org r) w) w"
    "if found \<and> \<not> True then \<exists>receipt. erase_tenant me (er_org r) (Some r) w2 = Inr (receipt, w1) else w1 = w2"
    using o by (rule replay_objectE)
  then have "w1 = leave (er_org r) (enter (er_org r) w) w" by simp
  then have "enter o' w1 = enter o' w" "present p w1 = present p w" for p
    by (simp_all add: leave_enter present_def organization_exists_def) (simp_all add: enter_def)
  then show ?case using Cons.IH[OF os] by simp
qed simp

section \<open>Properties\<close>

text \<open>C34: A replay of the erasures is complete or raises: when it ends, every object of the ledger was a valid
  receipt and no organization with a receipt is left in the restored database, whatever the order of
  the objects; a dry run shows every organization the tables it had.\<close>

theorem replayed_erasures_are_complete:
  assumes "replay_erasures rp ro w = Inr (n, w')"
  shows "if ro_dry_run ro then \<forall>org. enter org w' = enter org w
    else \<forall>(key, body) \<in> set (rp_objects rp). \<exists>r. parse_receipt key (take 4097 body) = Inr r \<and>
      (\<forall>x \<in> set (db_orgs (wo_tenants w' (er_org r))). org_id x \<noteq> er_org r)"
proof -
  have r: "replay_objects (rp_maintenance rp) (ro_dry_run ro) (rp_objects rp) w = Inr (n, w')"
    using assms by (auto simp: replay_erasures_def)
  show ?thesis
  proof (cases "ro_dry_run ro")
    case True
    then show ?thesis using dry_run_reads r by simp
  next
    case False
    then show ?thesis using replay_objects_erase[of "rp_maintenance rp" "rp_objects rp" w n w'] r
      by (auto simp: present_def organization_exists_def)
  qed
qed

section \<open>Witnesses\<close>

definition ex_ledger_entry :: "string \<times> string" where
  "ex_ledger_entry = (''erasures/'' @ uuid_str 7 @ ''.json'',
     dumps_raw (JObj [(''organization_id'', JStr (uuid_str 7)), (''erased_at'', JStr ''1970-01-01T00:00:00+00:00''),
       (''digest'', JStr (replicate 64 (CHR ''a'')))]))"

definition ex_receipt_parsed :: erasure_receipt where
  "ex_receipt_parsed = \<lparr>er_org = 7, er_at = 0, er_digest = replicate 64 (CHR ''a'')\<rparr>"

lemma ex_parse_receipt: "parse_receipt (fst ex_ledger_entry) (take 4097 (snd ex_ledger_entry)) = Inr ex_receipt_parsed"
proof -
  let ?v = "[(''organization_id'', JStr (uuid_str 7)), (''erased_at'', JStr ''1970-01-01T00:00:00+00:00''),
       (''digest'', JStr (replicate 64 (CHR ''a'')))]"
  have n: "length (snd ex_ledger_entry) < 300" by code_simp
  have l: "loads (snd ex_ledger_entry) = Inr (JObj ?v)"
    unfolding ex_ledger_entry_def snd_conv by (rule loads_dumps_raw) simp
  have u: "uuid_of (uuid_str 7) = Inr 7" "aware_time ''1970-01-01T00:00:00+00:00'' = Some 0" "is_digest (replicate 64 (CHR ''a''))"
    by code_simp+
  have t: "take 4097 (snd ex_ledger_entry) = snd ex_ledger_entry" "\<not> 4096 < length (snd ex_ledger_entry)" using n by simp_all
  have k: "fst ` set ?v = {''organization_id'', ''erased_at'', ''digest''}" by (simp add: insert_commute)
  show ?thesis
    unfolding parse_receipt_def Let_def t(1) l
    by (simp only: t(2) if_False) (simp add: k dict_get_def u ex_receipt_parsed_def ex_ledger_entry_def)
qed

definition ex_replay :: replay_env where
  "ex_replay = \<lparr>rp_maintenance = (ex_maintenance 0)\<lparr>mt_ledger_bucket := ''ledger''\<rparr>, rp_host = ''h'', rp_name = ''n'',
     rp_objects = [ex_ledger_entry]\<rparr>"

definition ex_options :: replay_options where
  "ex_options = \<lparr>ro_dry_run = False, ro_confirmed = True, ro_host = ''h'', ro_name = ''n''\<rparr>"

lemma ex_restored_erased: "yields (erase_rows 7 (close_restored 0 7 ex_db)) (\<lambda>counts d. True)"
  by code_simp

lemma ex_replayed: "\<exists>w'. replay_erasures ex_replay ex_options (ex_world ex_db) = Inr (1, w')"
proof -
  let ?me = "(ex_maintenance 0)\<lparr>mt_ledger_bucket := ''ledger''\<rparr>" and ?d = "close_restored 0 7 ex_db"
  have role: "require_maintenance_role ?me = Inr ()"
    by (simp add: require_maintenance_role_def require_database_role_def ex_maintenance_def)
  obtain counts d where e: "erase_rows 7 ?d = Inr (counts, d)" using ex_restored_erased by (rule yieldsE)
  have x: "organization_exists 7 ex_db" by (simp add: organization_exists_def ex_db_def ex_org_def)
  have g: "get_row ''Organization'' (\<lambda>x. org_id x = 7) (db_orgs ?d) =
      Inr (ex_org\<lparr>org_active := False, org_alerts := False, org_deleted := Some 0\<rparr>)"
    by (simp add: get_row_def close_restored_def update_where_def ex_db_def ex_org_def)
  have s: "erase_in_scope ?me 7 (Some ex_receipt_parsed) ?d =
      Inr (er_digest ex_receipt_parsed, close_directory 7 0 (er_digest ex_receipt_parsed) d)"
    using e by (simp add: erase_in_scope_def g tlift_def tguard_def tbind_def erase_reports_def ex_maintenance_def ex_org_def)
      (simp add: ex_receipt_parsed_def Let_def tbind_def tlift_def)
  have t: "erase_tenant ?me 7 (Some ex_receipt_parsed) (leave 7 ?d (ex_world ex_db)) =
      Inr (er_digest ex_receipt_parsed, leave 7 (close_directory 7 0 (er_digest ex_receipt_parsed) d) (leave 7 ?d (ex_world ex_db)))"
    by (simp add: erase_tenant_def role tenant_scope_def no_context_def enter_leave s) (simp add: ex_receipt_parsed_def)
  have o: "replay_object ?me False (fst ex_ledger_entry) (snd ex_ledger_entry) (ex_world ex_db) =
      Inr (True, leave 7 (close_directory 7 0 (er_digest ex_receipt_parsed) d) (leave 7 ?d (ex_world ex_db)))"
    using t x by (simp add: replay_object_def ex_parse_receipt tenant_scope_def no_context_def mark_restored_def Let_def
      ex_receipt_parsed_def[THEN arg_cong[of _ _ er_org]])
  have l: "replay_objects me dry [x] v = rbind (replay_object me dry (fst x) (snd x) v) (\<lambda>(found, w1). Inr (if found then 1 else 0, w1))"
    for me dry x v by (cases x) (simp add: rbind_def split: sum.split)
  show ?thesis using o role by (simp add: replay_erasures_def ex_replay_def ex_options_def l del: replay_objects.simps)
qed

theorem replayed_erasures_are_complete_witness:
  "\<exists>w'. replay_erasures ex_replay ex_options (ex_world ex_db) = Inr (1, w') \<and> \<not> organization_exists 7 (wo_tenants w' 7)"
proof -
  obtain w' where r: "replay_erasures ex_replay ex_options (ex_world ex_db) = Inr (1, w')" using ex_replayed by blast
  have "\<not> organization_exists 7 (wo_tenants w' 7)"
    using replayed_erasures_are_complete[OF r] ex_parse_receipt
    by (simp add: ex_options_def ex_replay_def ex_receipt_parsed_def organization_exists_def case_prod_beta)
  with r show ?thesis by blast
qed

end
