(* ===== verification/Spec2Isabelle.thy ===== *)
theory Spec2Isabelle imports Engine_Props Telemetry Sessions_Props Csv_Props Configuration_Props Settings Deploy_Props Preflight Acceptance Dashboard_Props Tenancy_Props Worker_Props Api_Props Operations_Props begin

text \<open>
  LedgerGuard compares the orders of WooCommerce stores with the payments of the Stripe accounts they
  are linked to, and reports where the two disagree. This library models the Python program under
  \<open>src/\<close> and proves what it promises. The root theory holds no definition: it gathers the library.

  \<^bold>\<open>The program and its parts.\<close> The plugin of a store claims a pairing code and then sends signed
  batches of orders and refunds; Stripe delivers signed webhooks, and a worker reads its lists. Both
  become projections with immutable observations, and cursors that say which window was covered. A
  worker builds a snapshot of a store and gives it to the engine, a pure function, whose proposals move
  the findings of the store through their states. Findings and security events are mailed; users see
  and act on them through the site and the API; reports leave as CSV, HTML or PDF. Everything of an
  organization is reached through a tenant scope only. Maintenance erases organizations and bounds the
  age of rows. An offline command runs the same engine on exported files.

  \<^bold>\<open>What the theories share.\<close>
  \<^item> \<open>Prelude\<close>: exceptions as a datatype, \<open>'a result\<close> as a sum of an exception and a value, loops that stop
    at an exception, sorting. \<open>Effects\<close>: operations whose effects survive an exception.
  \<^item> \<open>Py_Strings\<close>, \<open>Py_Time\<close>, \<open>Py_Json\<close>, \<open>Json_Read\<close>, \<open>Json_Roundtrip\<close>, \<open>Py_Uuid\<close>, \<open>Base64\<close>, \<open>Urls\<close>, \<open>Csv_Reader\<close>: what
    the program uses of Python and its standard library.
  \<^item> \<open>Records\<close>: the tables, one record per model, and \<open>'a trans\<close>, an operation in a transaction: an
    exception undoes it. \<open>world\<close> in \<open>Tenancy\<close> is the global tables and the tables of each organization,
    which is what row-level security makes of the database.
  \<^item> \<open>Frames\<close>: the locale \<open>trans_frame\<close>, which composes transactions under a reflexive and transitive
    relation of tables, and the locale \<open>get_or_create\<close>. Both are interpreted on the model
    (\<open>ledger\<close>, \<open>pages\<close>, \<open>records\<close> and others), and the properties of whole histories rest on these
    interpretations.

  \<^bold>\<open>Which theory models which part.\<close>
  \<^item> \<open>packages/reconciliation_core\<close>: \<open>Money\<close>, \<open>Domain\<close>, \<open>Engine\<close>. The loops of \<open>evaluate\<close> are steps on the record
    \<open>walk\<close>. \<open>Engine_Spec\<close> states when a finding is due without any loop; \<open>Engine_Match\<close>, \<open>Engine_Blocks\<close> and
    \<open>Engine_Refine\<close> show that the loops implement it, \<open>Engine_Permute\<close> that the order of the facts does not
    matter, \<open>Engine_Total\<close> when the evaluation returns, \<open>Engine_Props\<close> the properties.
  \<^item> \<open>modules/ingestion\<close>: \<open>Validation\<close> and \<open>Ingestion\<close>; \<open>Outbox_Props\<close> on entries made once and on rate limits.
  \<^item> \<open>modules/findings\<close>: \<open>Findings\<close> (the snapshot), \<open>Lifecycle\<close> (\<open>reconcile\<close> and \<open>action\<close>), \<open>Notifications\<close>.
    \<open>Finding_History\<close> relates the rows to an abstract state machine; \<open>Run_Total\<close> shows that an evaluated
    run is recorded.
  \<^item> \<open>modules/connectors\<close>: \<open>Crypto\<close> with \<open>Crypto_Props\<close>, \<open>Stripe_Api\<close> and \<open>Stripe_Sync\<close> (\<open>stripe.py\<close>),
    \<open>Plugin_Views\<close> (\<open>views.py\<close>).
  \<^item> \<open>modules/accounts\<close>: \<open>Tenancy\<close> with \<open>Tenancy_Props\<close>, \<open>Sessions\<close> with \<open>Sessions_Props\<close> (\<open>auth.py\<close>, and
    \<open>middleware.py\<close> and \<open>health.py\<close> of the control plane), \<open>Maintenance\<close> with \<open>Maintenance_Props\<close>, \<open>Operations\<close>
    with \<open>Operations_Props\<close> (the commands of operators and \<open>erasure_receipts.py\<close>).
  \<^item> \<open>apps/control_plane\<close>: \<open>Errors\<close>, \<open>Telemetry\<close>, \<open>Api\<close>, \<open>Api_Views\<close>, \<open>Api_Connectors\<close>, \<open>Api_Members\<close> (\<open>api.py\<close> and its
    routes) with \<open>Api_Props\<close>, \<open>Dashboard\<close> with \<open>Dashboard_Props\<close>, \<open>Configuration\<close> with
    \<open>Configuration_Props\<close>, \<open>Settings\<close>.
  \<^item> \<open>modules/reporting\<close>: \<open>Reporting\<close> (\<open>exports.py\<close>, \<open>service.py\<close>), \<open>Csv_Reader\<close> and \<open>Audit_Cli\<close> (\<open>cli.py\<close>) with
    \<open>Csv_Props\<close>.
  \<^item> \<open>workers/runtime.py\<close>: \<open>Worker\<close> with \<open>Worker_Props\<close>. \<open>scripts/deploy.py\<close>: \<open>Deploy\<close> with \<open>Deploy_Props\<close>.
  \<^item> \<open>packages/acceptance/aws.py\<close> with \<open>scripts/check_aws_readiness.py\<close>: \<open>Preflight\<close>, whose lemmas show
    that a passed inspection checked every resource. \<open>connectors/acceptance.py\<close> with
    \<open>check_stripe_readiness\<close>: \<open>Acceptance\<close>, whose lemmas show which ten requests a probe makes.
  \<^item> The composition: \<open>Ledger\<close> and \<open>Api_Ledger\<close> show what every operation does to the tables; \<open>Program\<close> has the
    step relation of the whole program (worker, schedule, dispatch, feedback, machines, users) and the
    invariants of its histories. \<open>Examples\<close> is the installation on which they are applied.

  \<^bold>\<open>Parameters.\<close> What is not under \<open>src/\<close> is an argument: SHA-256, AES-GCM, KMS, Ed25519, HMAC, random
  draws and clocks, HTTP, SQS, SES, S3 and the cloud's control interface, the JSON Schema validator, the fields of the
  REST framework, the session store, the template engine and the PDF library. Where a property relies on one, its
  documented behaviour is a named hypothesis, and a witness instantiates it with a concrete function.
  Texts have code points below 256.

  \<^bold>\<open>Bounds and fuel.\<close> Integers of the program are unbounded, as Python's are; the bounds of amounts, of
  columns and of the policy are conditions of the definitions. Fuel occurs in three places. The JSON
  reader starts with the length of its text plus one, and each nested call has consumed a
  character, so it never ends for lack of fuel. The loop over pages of Stripe has the bound 2000 of the
  source and its error at the end. The wait for schedules in \<open>Deploy\<close> has the number of attempts of the source. The search
  for an order of deletion is shown to end for any models.

  \<^bold>\<open>Not modelled.\<close>
  \<^item> Endless loops around modelled passes (\<open>serve\<close>, the loops of the commands), signals and pauses.
  \<^item> The migrations, \<open>apps.py\<close>, \<open>wsgi.py\<close>: declarations read by the framework. Indexes and lengths of columns.
  \<^item> \<open>scripts/\<close> apart from \<open>deploy.py\<close> and \<open>check_aws_readiness.py\<close>, the other files of
    \<open>packages/acceptance\<close>, \<open>seed_demo\<close>: tools that build artifacts or describe the interface, and change
    no state of the program.
  \<^item> The layout of HTML and PDF pages, the WooCommerce plugin in PHP, the infrastructure files and the tests.
\<close>

end
